(* ===== verification/Prelude.thy ===== *)
theory Prelude
  imports Main "HOL-Library.Monad_Syntax"
begin

text \<open>
  What the components share: results as \<open>error + value\<close>, the 64-bit signed arithmetic of
  Rust's \<open>i64\<close>, the string operations of Rust's \<open>str\<close> that the code uses (a \<open>str\<close> is the list of
  its UTF-8 bytes, each a \<open>char\<close>), decimal and hexadecimal printing and parsing, and the list
  lemmas the component proofs rest on.
\<close>

named_theorems result_simps \<open>equations of the result combinators\<close>
named_theorems str_simps \<open>evaluation of the string operations\<close>

section \<open>Results\<close>

text \<open>Rust's \<open>Result<T, E>\<close>: \<open>Inl\<close> is \<open>Err\<close>, \<open>Inr\<close> is \<open>Ok\<close>; \<open>rbind\<close> is the \<open>?\<close> operator.\<close>

definition rbind :: "'e + 'a \<Rightarrow> ('a \<Rightarrow> 'e + 'b) \<Rightarrow> 'e + 'b" where
  "rbind r f = (case r of Inl e \<Rightarrow> Inl e | Inr x \<Rightarrow> f x)"

definition ok_or :: "'a option \<Rightarrow> 'e \<Rightarrow> 'e + 'a" where
  "ok_or x e = (case x of None \<Rightarrow> Inl e | Some y \<Rightarrow> Inr y)"

definition is_ok :: "'e + 'a \<Rightarrow> bool" where
  "is_ok r = (case r of Inl _ \<Rightarrow> False | Inr _ \<Rightarrow> True)"

definition unwrap_or :: "'a option \<Rightarrow> 'a \<Rightarrow> 'a" where
  "unwrap_or x d = (case x of None \<Rightarrow> d | Some y \<Rightarrow> y)"

definition or_else :: "'a option \<Rightarrow> 'a option \<Rightarrow> 'a option" where
  "or_else x y = (case x of None \<Rightarrow> y | Some _ \<Rightarrow> x)"

definition opt_filter :: "('a \<Rightarrow> bool) \<Rightarrow> 'a option \<Rightarrow> 'a option" where
  "opt_filter p x = (case x of None \<Rightarrow> None | Some y \<Rightarrow> if p y then Some y else None)"

lemma rbind_simps [simp, result_simps]:
  "rbind (Inl e) f = Inl e" "rbind (Inr x) f = f x"
  by (simp_all add: rbind_def)

lemma ok_or_simps [simp, result_simps]:
  "ok_or None e = Inl e" "ok_or (Some x) e = Inr x"
  by (simp_all add: ok_or_def)

lemma is_ok_simps [simp, result_simps]: "is_ok (Inl e) = False" "is_ok (Inr x) = True"
  by (simp_all add: is_ok_def)

lemma unwrap_or_simps [simp, result_simps]:
  "unwrap_or None d = d" "unwrap_or (Some x) d = x"
  by (simp_all add: unwrap_or_def)

lemma or_else_simps [simp, result_simps]:
  "or_else None y = y" "or_else (Some x) y = Some x"
  by (simp_all add: or_else_def)

lemma opt_filter_simps [simp, result_simps]:
  "opt_filter p None = None" "opt_filter p (Some x) = (if p x then Some x else None)"
  by (simp_all add: opt_filter_def)

lemma rbind_Inr_iff: "rbind r f = Inr y \<longleftrightarrow> (\<exists>x. r = Inr x \<and> f x = Inr y)"
  by (cases r) simp_all

lemma rbind_Inl_iff: "rbind r f = Inl e \<longleftrightarrow> r = Inl e \<or> (\<exists>x. r = Inr x \<and> f x = Inl e)"
  by (cases r) auto

lemma is_ok_rbind: "is_ok (rbind r f) \<longleftrightarrow> (\<exists>x. r = Inr x \<and> is_ok (f x))"
  by (cases r) auto

lemma is_ok_rbind_Inr: "is_ok (rbind r (\<lambda>x. Inr (f x))) \<longleftrightarrow> is_ok r"
  by (cases r) simp_all

lemma is_ok_iff: "is_ok r \<longleftrightarrow> (\<exists>x. r = Inr x)"
  by (cases r) auto

lemma ok_or_Inr_iff: "ok_or x e = Inr y \<longleftrightarrow> x = Some y"
  by (cases x) simp_all

lemma is_ok_ok_or: "is_ok (ok_or x e) \<longleftrightarrow> x \<noteq> None"
  by (cases x) simp_all

lemma opt_filter_Some_iff: "opt_filter p x = Some y \<longleftrightarrow> x = Some y \<and> p y"
  by (cases x) auto

text \<open>\<open>collect::<Result<Vec<_>, _>>()\<close>: the first error in order, else all the values.\<close>

fun collect_results :: "('e + 'a) list \<Rightarrow> 'e + 'a list" where
  "collect_results [] = Inr []"
| "collect_results (r # rs) = rbind r (\<lambda>x. rbind (collect_results rs) (\<lambda>xs. Inr (x # xs)))"

lemma collect_results_Inr_iff: "collect_results rs = Inr xs \<longleftrightarrow> rs = map Inr xs"
  by (induction rs arbitrary: xs) (auto simp: rbind_Inr_iff)

section \<open>Signed 64-bit arithmetic\<close>

text \<open>
  An \<open>i64\<close> is an \<open>int\<close> in \<open>[- 2 ^ 63, 2 ^ 63)\<close>. \<open>wrap64\<close> is the two's complement wrap of \<open>+\<close> and
  \<open>*\<close> in a release build, \<open>sat64\<close> the clamp of the \<open>saturating_\<close> operations and of \<open>as i64\<close> on
  floats.
\<close>

definition i64_max :: int where "i64_max = 9223372036854775807"
definition i64_min :: int where "i64_min = -9223372036854775808"

definition in_i64 :: "int \<Rightarrow> bool" where
  "in_i64 x \<longleftrightarrow> i64_min \<le> x \<and> x \<le> i64_max"

definition wrap64 :: "int \<Rightarrow> int" where
  "wrap64 x = (x + 9223372036854775808) mod 18446744073709551616 - 9223372036854775808"

definition sat64 :: "int \<Rightarrow> int" where
  "sat64 x = (if x < i64_min then i64_min else if i64_max < x then i64_max else x)"

lemma wrap64_in [simp]: "in_i64 (wrap64 x)"
proof -
  have "0 \<le> (x + 9223372036854775808) mod 18446744073709551616"
    and "(x + 9223372036854775808) mod 18446744073709551616 < 18446744073709551616"
    by simp_all
  then show ?thesis
    unfolding in_i64_def wrap64_def i64_max_def i64_min_def by linarith
qed

lemma wrap64_id: "in_i64 x \<Longrightarrow> wrap64 x = x"
  by (simp add: in_i64_def wrap64_def i64_max_def i64_min_def)

lemma sat64_in [simp]: "in_i64 (sat64 x)"
  by (simp add: in_i64_def sat64_def i64_max_def i64_min_def)

lemma sat64_id: "in_i64 x \<Longrightarrow> sat64 x = x"
  by (simp add: in_i64_def sat64_def)

text \<open>The casts \<open>as u16\<close>, \<open>as u64\<close> of an integer keep its low bits.\<close>

definition as_u16 :: "int \<Rightarrow> nat" where
  "as_u16 x = nat (x mod 65536)"

lemma as_u16_bound: "as_u16 x < 65536"
  by (simp add: as_u16_def nat_less_iff)

lemma as_u16_id: "0 \<le> x \<Longrightarrow> x < 65536 \<Longrightarrow> as_u16 x = nat x"
  by (simp add: as_u16_def)

section \<open>Strings\<close>

text \<open>\<open>str::split(c)\<close>: the pieces between the separators, at least one, empty ones kept.\<close>

fun split_on :: "char \<Rightarrow> string \<Rightarrow> string list" where
  "split_on c [] = [[]]"
| "split_on c (x # xs) =
     (if x = c then [] # split_on c xs
      else (case split_on c xs of [] \<Rightarrow> [[x]] | y # ys \<Rightarrow> (x # y) # ys))"

text \<open>\<open>str::split_once(c)\<close> and \<open>str::rsplit_once(c)\<close>: around the first and the last separator.\<close>

fun split_once :: "char \<Rightarrow> string \<Rightarrow> (string \<times> string) option" where
  "split_once c [] = None"
| "split_once c (x # xs) =
     (if x = c then Some ([], xs)
      else (case split_once c xs of None \<Rightarrow> None | Some (a, b) \<Rightarrow> Some (x # a, b)))"

fun rsplit_once :: "char \<Rightarrow> string \<Rightarrow> (string \<times> string) option" where
  "rsplit_once c [] = None"
| "rsplit_once c (x # xs) =
     (case rsplit_once c xs of
        Some (a, b) \<Rightarrow> Some (x # a, b)
      | None \<Rightarrow> if x = c then Some ([], xs) else None)"

fun starts_with :: "string \<Rightarrow> string \<Rightarrow> bool" where
  "starts_with [] s = True"
| "starts_with (p # ps) [] = False"
| "starts_with (p # ps) (x # xs) \<longleftrightarrow> p = x \<and> starts_with ps xs"

text \<open>\<open>str::contains\<close>: the pattern occurs somewhere (first argument: the pattern).\<close>

fun str_contains :: "string \<Rightarrow> string \<Rightarrow> bool" where
  "str_contains p [] \<longleftrightarrow> p = []"
| "str_contains p (x # xs) \<longleftrightarrow> starts_with p (x # xs) \<or> str_contains p xs"

definition strip_prefix :: "string \<Rightarrow> string \<Rightarrow> string option" where
  "strip_prefix p s = (if starts_with p s then Some (drop (length p) s) else None)"

text \<open>\<open>[String]::join\<close>.\<close>

fun str_join :: "string \<Rightarrow> string list \<Rightarrow> string" where
  "str_join sep [] = []"
| "str_join sep [x] = x"
| "str_join sep (x # y # ys) = x @ sep @ str_join sep (y # ys)"

text \<open>
  \<open>str::trim\<close> removes Unicode white space at both ends. Here a string is its UTF-8 bytes, so the
  table below lists the encodings of the 25 white-space code points; a byte sequence that starts
  with one of them (or, at the end, ends with one) is cut.
\<close>

definition white_codes :: "string list" where
  "white_codes =
     map (\<lambda>c. [c]) [CHR 0x20, CHR 0x09, CHR 0x0A, CHR 0x0B, CHR 0x0C, CHR 0x0D]
     @ [[CHR 0xC2, CHR 0x85], [CHR 0xC2, CHR 0xA0], [CHR 0xE1, CHR 0x9A, CHR 0x80]]
     @ map (\<lambda>c. [CHR 0xE2, CHR 0x80, c])
         [CHR 0x80, CHR 0x81, CHR 0x82, CHR 0x83, CHR 0x84, CHR 0x85, CHR 0x86, CHR 0x87, CHR 0x88,
          CHR 0x89, CHR 0x8A, CHR 0xA8, CHR 0xA9, CHR 0xAF]
     @ [[CHR 0xE2, CHR 0x81, CHR 0x9F], [CHR 0xE3, CHR 0x80, CHR 0x80]]"

definition white_len :: "string list \<Rightarrow> string \<Rightarrow> nat" where
  "white_len ws s = (case find (\<lambda>w. starts_with w s) ws of None \<Rightarrow> 0 | Some w \<Rightarrow> length w)"

function strip_white :: "string list \<Rightarrow> string \<Rightarrow> string" where
  "strip_white ws s =
     (let n = white_len ws s
      in if s = [] \<or> n = 0 then s else strip_white ws (drop n s))"
  by pat_completeness auto
termination
  by (relation "measure (\<lambda>(ws, s). length s)") auto

declare strip_white.simps [simp del]

definition trim_start :: "string \<Rightarrow> string" where
  "trim_start s = strip_white white_codes s"

definition trim_end :: "string \<Rightarrow> string" where
  "trim_end s = rev (strip_white (map rev white_codes) (rev s))"

definition trim :: "string \<Rightarrow> string" where
  "trim s = trim_end (trim_start s)"

lemma split_on_not_Nil [simp]: "split_on c s \<noteq> []"
  by (induction s) (auto split: list.splits)

lemma split_on_join: "str_join [c] (split_on c s) = s"
proof (induction s)
  case (Cons x xs)
  then show ?case
    by (cases "split_on c xs"; cases "tl (split_on c xs)") auto
qed simp

lemma split_on_pieces: "p \<in> set (split_on c s) \<Longrightarrow> c \<notin> set p"
  by (induction s arbitrary: p) (auto split: if_splits list.splits)

lemma rsplit_once_None_iff: "rsplit_once c s = None \<longleftrightarrow> c \<notin> set s"
  by (induction s) (auto split: option.splits)

lemma rsplit_once_Some: "rsplit_once c s = Some (a, b) \<Longrightarrow> s = a @ c # b \<and> c \<notin> set b"
  by (induction s arbitrary: a)
     (auto simp: rsplit_once_None_iff split: option.splits if_splits)

lemma rsplit_once_append: "c \<notin> set b \<Longrightarrow> rsplit_once c (a @ c # b) = Some (a, b)"
proof (induction a)
  case Nil
  then have "rsplit_once c b = None"
    by (simp add: rsplit_once_None_iff)
  then show ?case by simp
qed simp

lemma starts_with_iff: "starts_with p s \<longleftrightarrow> (\<exists>t. s = p @ t)"
  by (induction p s rule: starts_with.induct) auto

lemma str_contains_iff: "str_contains p s \<longleftrightarrow> (\<exists>a b. s = a @ p @ b)"
proof (induction s)
  case (Cons x xs)
  have "(\<exists>a b. x # xs = a @ p @ b) \<longleftrightarrow> (\<exists>b. x # xs = p @ b) \<or> (\<exists>a b. xs = a @ p @ b)"
    by (metis append_Cons append_Nil append_eq_Cons_conv)
  with Cons show ?case by (simp add: starts_with_iff)
qed simp

lemma starts_with_append [simp]: "starts_with p (p @ t)"
  by (auto simp: starts_with_iff)

lemma strip_prefix_Some_iff: "strip_prefix p s = Some t \<longleftrightarrow> s = p @ t"
  by (auto simp: strip_prefix_def starts_with_iff)

section \<open>Numbers as text\<close>

definition digit_char :: "nat \<Rightarrow> char" where
  "digit_char d = ''0123456789abcdef'' ! d"

definition digit_val :: "char \<Rightarrow> nat option" where
  "digit_val c = map_of (zip ''0123456789'' [0..<10]) c"

text \<open>Printing in a base up to 16, as \<open>to_string\<close> (base 10) and \<open>{:x}\<close> (base 16) do.\<close>

fun base_str :: "nat \<Rightarrow> nat \<Rightarrow> string" where
  "base_str b n =
     (if b \<le> 1 \<or> n < b then [digit_char n] else base_str b (n div b) @ [digit_char (n mod b)])"

declare base_str.simps [simp del]

definition nat_str :: "nat \<Rightarrow> string" where
  "nat_str n = base_str 10 n"

definition hex_str :: "nat \<Rightarrow> string" where
  "hex_str n = base_str 16 n"

definition int_str :: "int \<Rightarrow> string" where
  "int_str i = (if i < 0 then CHR ''-'' # nat_str (nat (- i)) else nat_str (nat i))"

text \<open>
  \<open>str::parse\<close> for an unsigned type with maximum \<open>m\<close>: an optional \<open>+\<close>, at least one digit, digits
  only, no overflow.
\<close>

fun digits_val :: "nat \<Rightarrow> nat \<Rightarrow> string \<Rightarrow> nat option" where
  "digits_val m acc [] = Some acc"
| "digits_val m acc (c # cs) =
     (case digit_val c of
        None \<Rightarrow> None
      | Some d \<Rightarrow> if 10 * acc + d \<le> m then digits_val m (10 * acc + d) cs else None)"

definition parse_uint :: "nat \<Rightarrow> string \<Rightarrow> nat option" where
  "parse_uint m s =
     (case s of
        [] \<Rightarrow> None
      | c # cs \<Rightarrow>
          if c = CHR ''+'' then (if cs = [] then None else digits_val m 0 cs)
          else digits_val m 0 s)"

definition u16_max :: nat where "u16_max = 65535"
definition u32_max :: nat where "u32_max = 4294967295"
definition u64_max :: nat where "u64_max = 18446744073709551615"

lemma digit_val_char: "d < 10 \<Longrightarrow> digit_val (digit_char d) = Some d"
proof -
  assume "d < 10"
  then have "d \<in> {0, 1, 2, 3, 4, 5, 6, 7, 8, 9}" by auto
  then show ?thesis by (auto simp: digit_val_def digit_char_def upt_rec)
qed

lemma digits_val_le: "acc \<le> m \<Longrightarrow> digits_val m acc s = Some n \<Longrightarrow> n \<le> m"
  by (induction m acc s rule: digits_val.induct) (auto split: option.splits if_splits)

lemma parse_uint_le: "parse_uint m s = Some n \<Longrightarrow> n \<le> m"
  by (auto simp: parse_uint_def simp del: digits_val.simps
      intro: digits_val_le [of 0] split: list.splits if_splits)

lemma digits_val_append:
  "digits_val m acc (s @ t) = (case digits_val m acc s of None \<Rightarrow> None | Some a \<Rightarrow> digits_val m a t)"
  by (induction m acc s rule: digits_val.induct) (auto split: option.splits)

lemma digits_val_base_str: "n \<le> m \<Longrightarrow> digits_val m 0 (base_str 10 n) = Some n"
proof (induction n rule: less_induct)
  case (less n)
  show ?case
  proof (cases "n < 10")
    case True
    with less.prems show ?thesis
      by (subst base_str.simps) (simp add: digit_val_char)
  next
    case False
    then have "n div 10 < n" and "n div 10 \<le> m"
      using less.prems by auto
    then have "digits_val m 0 (base_str 10 (n div 10)) = Some (n div 10)"
      by (rule less.IH)
    with False less.prems show ?thesis
      by (subst base_str.simps) (simp add: digits_val_append digit_val_char)
  qed
qed

lemma base_str_hd: "\<exists>d cs. d < 10 \<and> base_str 10 n = digit_char d # cs"
proof (induction n rule: less_induct)
  case (less n)
  show ?case
  proof (cases "n < 10")
    case True
    then show ?thesis by (subst base_str.simps) auto
  next
    case False
    then have "n div 10 < n" by auto
    from less.IH [OF this] False show ?thesis
      by (subst base_str.simps) auto
  qed
qed

lemma set_base_str: "c \<in> set (base_str 10 n) \<Longrightarrow> \<exists>d < 10. c = digit_char d"
proof (induction n rule: less_induct)
  case (less n)
  show ?case
  proof (cases "n < 10")
    case True
    with less.prems have "c = digit_char n" by (subst (asm) base_str.simps) simp
    with True show ?thesis by blast
  next
    case False
    then have "n div 10 < n" by auto
    from False less.prems have "c \<in> set (base_str 10 (n div 10)) \<or> c = digit_char (n mod 10)"
      by (subst (asm) base_str.simps) auto
    with less.IH [OF \<open>n div 10 < n\<close>] show ?thesis
      by (metis mod_less_divisor zero_less_numeral)
  qed
qed

lemma nat_str_digits: "c \<in> set (nat_str n) \<Longrightarrow> digit_val c \<noteq> None"
  using set_base_str digit_val_char by (fastforce simp: nat_str_def)

lemma colon_notin_nat_str: "CHR '':'' \<notin> set (nat_str n)"
  using nat_str_digits [of "CHR '':''" n] by (auto simp: digit_val_def upt_rec)

text \<open>Printing a number and parsing it back gives the number, within the type's range.\<close>

lemma parse_uint_nat_str: "n \<le> m \<Longrightarrow> parse_uint m (nat_str n) = Some n"
proof -
  assume n: "n \<le> m"
  obtain d cs where d: "d < 10" and hd: "base_str 10 n = digit_char d # cs"
    using base_str_hd by blast
  have "d \<in> {0, 1, 2, 3, 4, 5, 6, 7, 8, 9}" using d by auto
  then have "digit_char d \<noteq> CHR ''+''" by (auto simp: digit_char_def)
  with hd digits_val_base_str [OF n] show ?thesis
    by (simp add: parse_uint_def nat_str_def)
qed

lemma nat_str_inject: "nat_str a = nat_str b \<longleftrightarrow> a = b"
  by (metis max.cobounded1 max.cobounded2 option.inject parse_uint_nat_str)

end
