(* ===== verification/Json.thy ===== *)
theory Json
  imports Prelude "HOL-Library.Char_ord" "HOL-Library.List_Lexorder"
begin

text \<open>
  JSON values as \<open>serde_json::Value\<close> presents them to the code. The crate is built without its
  \<open>preserve_order\<close> feature (Cargo.lock), so an object is a \<open>BTreeMap<String, Value>\<close>: here the list
  of its entries in strictly increasing byte order of the keys, which is the order the printed
  text has and the order iteration visits. Numbers are kept as the crate keeps them: a non-negative
  integer of 64 bits, a negative one, or a float, of which no modelled operation looks at the value
  (its text stands for it).
\<close>

datatype jnum = PosInt nat | NegInt int | Float string

datatype json =
    JNull
  | JBool bool
  | JNum jnum
  | JStr string
  | JArr "json list"
  | JObj "(string \<times> json) list"

type_synonym jmap = "(string \<times> json) list"

section \<open>Ordered maps\<close>

text \<open>
  \<open>BTreeMap::insert\<close> on the sorted entries: replace the value of an equal key, else insert in order.
\<close>

fun omap_ins :: "'k::linorder \<Rightarrow> 'v \<Rightarrow> ('k \<times> 'v) list \<Rightarrow> ('k \<times> 'v) list" where
  "omap_ins k v [] = [(k, v)]"
| "omap_ins k v ((a, b) # ps) =
     (if k < a then (k, v) # (a, b) # ps
      else if k = a then (k, v) # ps
      else (a, b) # omap_ins k v ps)"

definition omap_of :: "('k::linorder \<times> 'v) list \<Rightarrow> ('k \<times> 'v) list" where
  "omap_of kvs = fold (\<lambda>(k, v). omap_ins k v) kvs []"

definition omap_ok :: "('k::linorder \<times> 'v) list \<Rightarrow> bool" where
  "omap_ok ps \<longleftrightarrow> sorted_wrt (<) (map fst ps)"

text \<open>
  The contract of a key-value store that the code relies on wherever it keeps one: a lookup sees
  the last insert of its key and no other insert, and inserts keep the store's invariant.
\<close>

locale kv_store =
  fixes emp :: "'m"
    and look :: "'m \<Rightarrow> 'k \<Rightarrow> 'v option"
    and ins :: "'k \<Rightarrow> 'v \<Rightarrow> 'm \<Rightarrow> 'm"
    and inv :: "'m \<Rightarrow> bool"
  assumes look_emp: "look emp k = None"
    and look_ins: "look (ins k v m) k' = (if k' = k then Some v else look m k')"
    and inv_emp: "inv emp"
    and inv_ins: "inv m \<Longrightarrow> inv (ins k v m)"
begin

lemma look_fold_ins:
  "look (fold (\<lambda>(k, v). ins k v) kvs m) k
     = (case map_of (rev kvs) k of None \<Rightarrow> look m k | Some v \<Rightarrow> Some v)"
  by (induction kvs arbitrary: m)
     (auto simp: look_ins map_add_def split: option.splits)

lemma look_fold_emp: "look (fold (\<lambda>(k, v). ins k v) kvs emp) k = map_of (rev kvs) k"
  by (simp add: look_fold_ins look_emp split: option.splits)

lemma inv_fold_ins: "inv m \<Longrightarrow> inv (fold (\<lambda>(k, v). ins k v) kvs m)"
  by (induction kvs arbitrary: m) (auto intro: inv_ins)

lemma look_ins_other: "k' \<noteq> k \<Longrightarrow> look (ins k v m) k' = look m k'"
  by (simp add: look_ins)

end

lemma map_of_omap_ins: "map_of (omap_ins k v ps) k' = (if k' = k then Some v else map_of ps k')"
  by (induction k v ps rule: omap_ins.induct) auto

lemma set_omap_ins: "set (map fst (omap_ins k v ps)) = insert k (set (map fst ps))"
  by (induction k v ps rule: omap_ins.induct) auto

lemma omap_ins_ok: "omap_ok ps \<Longrightarrow> omap_ok (omap_ins k v ps)"
proof (induction k v ps rule: omap_ins.induct)
  case (2 k v a b ps)
  have "set (map fst (omap_ins k v ps)) = insert k (fst ` set ps)"
    using set_omap_ins [of k v ps] by simp
  with 2 show ?case by (auto simp: omap_ok_def)
qed (simp add: omap_ok_def)

interpretation om: kv_store "[]" map_of omap_ins omap_ok
  by unfold_locales (simp_all add: map_of_omap_ins omap_ins_ok, simp add: omap_ok_def)

lemma omap_of_get: "map_of (omap_of kvs) k = map_of (rev kvs) k"
  unfolding omap_of_def by (rule om.look_fold_emp)

lemma omap_of_ok [simp]: "omap_ok (omap_of kvs)"
  unfolding omap_of_def by (rule om.inv_fold_ins) (rule om.inv_emp)

lemma map_of_rev_distinct: "distinct (map fst kvs) \<Longrightarrow> map_of (rev kvs) = map_of kvs"
  by (rule map_of_eqI) (auto simp: rev_map [symmetric] map_of_eq_Some_iff)

lemma omap_ok_distinct: "omap_ok m \<Longrightarrow> distinct (map fst m)"
  unfolding omap_ok_def by (simp add: strict_sorted_iff)

lemma omap_ok_rev: "omap_ok m \<Longrightarrow> map_of (rev m) = map_of m"
  by (rule map_of_rev_distinct) (rule omap_ok_distinct)

text \<open>Entries of an insert come from the old map or from the insert.\<close>

lemma omap_ins_vals: "p \<in> set (omap_ins k v ps) \<Longrightarrow> p = (k, v) \<or> p \<in> set ps"
  by (induction k v ps rule: omap_ins.induct) (auto split: if_splits)

lemma omap_of_vals: "p \<in> set (omap_of kvs) \<Longrightarrow> p \<in> set kvs"
proof -
  have "p \<in> set (fold (\<lambda>(k, v). omap_ins k v) kvs m) \<Longrightarrow> p \<in> set kvs \<or> p \<in> set m" for m
    by (induction kvs arbitrary: m) (auto dest: omap_ins_vals)
  from this [of "[]"] show "p \<in> set (omap_of kvs) \<Longrightarrow> p \<in> set kvs"
    by (auto simp: omap_of_def)
qed

section \<open>Objects and accessors\<close>

definition jobj :: "(string \<times> json) list \<Rightarrow> json" where
  "jobj kvs = JObj (omap_of kvs)"

text \<open>\<open>Value::get\<close> with a string: the member of an object, \<open>None\<close> on every other value.\<close>

fun jget :: "json \<Rightarrow> string \<Rightarrow> json option" where
  "jget (JObj m) k = map_of m k"
| "jget _ k = None"

fun as_str :: "json \<Rightarrow> string option" where
  "as_str (JStr s) = Some s"
| "as_str _ = None"

fun as_array :: "json \<Rightarrow> json list option" where
  "as_array (JArr xs) = Some xs"
| "as_array _ = None"

fun as_object :: "json \<Rightarrow> jmap option" where
  "as_object (JObj m) = Some m"
| "as_object _ = None"

fun as_u64 :: "json \<Rightarrow> nat option" where
  "as_u64 (JNum (PosInt n)) = Some n"
| "as_u64 _ = None"

fun as_i64 :: "json \<Rightarrow> int option" where
  "as_i64 (JNum (PosInt n)) = (if int n \<le> i64_max then Some (int n) else None)"
| "as_i64 (JNum (NegInt i)) = Some i"
| "as_i64 _ = None"

definition get_str :: "json \<Rightarrow> string \<Rightarrow> string option" where
  "get_str v k = Option.bind (jget v k) as_str"

definition get_u64 :: "json \<Rightarrow> string \<Rightarrow> nat option" where
  "get_u64 v k = Option.bind (jget v k) as_u64"

definition get_array :: "json \<Rightarrow> string \<Rightarrow> json list option" where
  "get_array v k = Option.bind (jget v k) as_array"

text \<open>\<open>json!(n)\<close> for a signed integer.\<close>

definition jint :: "int \<Rightarrow> json" where
  "jint i = JNum (if i < 0 then NegInt i else PosInt (nat i))"

definition jnat :: "nat \<Rightarrow> json" where
  "jnat n = JNum (PosInt n)"

definition jstrs :: "string list \<Rightarrow> json" where
  "jstrs ss = JArr (map JStr ss)"

text \<open>
  \<open>v[k] = x\<close> (\<open>IndexMut\<close>) on the object or null values the code applies it to: insert the member, a
  null value first becoming the empty object. On another value the crate panics; every use in the
  model is on an object, which the shape lemmas of its component state, and the model leaves such
  a value as it is.
\<close>

fun jset :: "string \<Rightarrow> json \<Rightarrow> json \<Rightarrow> json" where
  "jset k x (JObj m) = JObj (omap_ins k x m)"
| "jset k x JNull = JObj [(k, x)]"
| "jset k x v = v"

text \<open>\<open>v[k]\<close> read: null where the member is missing.\<close>

definition jidx :: "json \<Rightarrow> string \<Rightarrow> json" where
  "jidx v k = unwrap_or (jget v k) JNull"

lemma jget_jobj [simp]: "jget (jobj kvs) k = map_of (rev kvs) k"
  by (simp add: jobj_def omap_of_get)

lemma jget_ins [simp]: "jget (JObj (omap_ins k v m)) k' = (if k' = k then Some v else jget (JObj m) k')"
  by (simp add: map_of_omap_ins)

lemma jget_jset_jobj [simp]:
  "jget (jset k x (jobj kvs)) k' = (if k' = k then Some x else map_of (rev kvs) k')"
  by (simp add: jobj_def map_of_omap_ins omap_of_get)

lemma as_object_jobj [simp]: "as_object (jobj kvs) = Some (omap_of kvs)"
  by (simp add: jobj_def)

fun is_obj :: "json \<Rightarrow> bool" where
  "is_obj (JObj _) = True"
| "is_obj _ = False"

lemma is_obj_jobj [simp]: "is_obj (jobj kvs)"
  by (simp add: jobj_def)

lemma is_obj_jset [simp]: "is_obj v \<Longrightarrow> is_obj (jset k x v)"
  by (cases v) auto

lemma jget_jset [simp]: "is_obj v \<Longrightarrow> jget (jset k x v) k' = (if k' = k then Some x else jget v k')"
  by (cases v) (auto simp: map_of_omap_ins)

lemma jobj_distinct [simp]:
  "jobj kvs \<noteq> JNull" "jobj kvs \<noteq> JArr xs" "jobj kvs \<noteq> JStr s"
  by (simp_all add: jobj_def)

section \<open>Well-formed values\<close>

text \<open>
  What the crate's types guarantee: object keys strictly increasing (a \<open>BTreeMap\<close>), integers in
  their 64-bit range.
\<close>

fun wf_num :: "jnum \<Rightarrow> bool" where
  "wf_num (PosInt n) = (n \<le> u64_max)"
| "wf_num (NegInt i) = (i64_min \<le> i \<and> i < 0)"
| "wf_num (Float _) = True"

inductive wf_json :: "json \<Rightarrow> bool" where
  wf_null: "wf_json JNull"
| wf_bool: "wf_json (JBool b)"
| wf_n: "wf_num n \<Longrightarrow> wf_json (JNum n)"
| wf_s: "wf_json (JStr s)"
| wf_arr: "(\<forall>x \<in> set xs. wf_json x) \<Longrightarrow> wf_json (JArr xs)"
| wf_obj: "omap_ok m \<Longrightarrow> (\<forall>p \<in> set m. wf_json (snd p)) \<Longrightarrow> wf_json (JObj m)"

inductive_simps wf_json_simps [simp]:
  "wf_json JNull"
  "wf_json (JBool b)"
  "wf_json (JNum n)"
  "wf_json (JStr s)"
  "wf_json (JArr xs)"
  "wf_json (JObj m)"

lemma wf_jget: "wf_json v \<Longrightarrow> jget v k = Some x \<Longrightarrow> wf_json x"
  by (cases v) (fastforce dest: map_of_SomeD)+

lemma wf_omap_ins:
  "wf_json (JObj m) \<Longrightarrow> wf_json x \<Longrightarrow> wf_json (JObj (omap_ins k x m))"
  by (auto simp: omap_ins_ok dest: omap_ins_vals)

lemma wf_jset [simp]: "wf_json v \<Longrightarrow> wf_json x \<Longrightarrow> wf_json (jset k x v)"
proof (cases v)
  case (JObj m)
  assume "wf_json v" "wf_json x"
  with JObj wf_omap_ins [of m x k] show ?thesis by simp
qed (auto simp: omap_ok_def)

lemma wf_jobj [simp]: "list_all (\<lambda>p. wf_json (snd p)) kvs \<Longrightarrow> wf_json (jobj kvs)"
  by (auto simp: jobj_def list_all_iff dest: omap_of_vals)

lemma wf_jstrs [simp]: "wf_json (jstrs ss)"
  by (auto simp: jstrs_def)

end
