(* ===== verification/Protocol.thy ===== *)
theory Protocol
  imports Json
begin

text \<open>
  The shared vocabulary of the crates (pp-common): protocol and core types with their text forms,
  account and node status, traffic units, and the error type every crate returns.
\<close>

section \<open>Protocols and cores\<close>

datatype protocol_type = VlessReality | VlessXhttp | Hysteria2 | Anytls

datatype core_type = SingBox | Mihomo

fun protocol_str :: "protocol_type \<Rightarrow> string" where
  "protocol_str VlessReality = ''vless_reality''"
| "protocol_str VlessXhttp = ''vless_xhttp''"
| "protocol_str Hysteria2 = ''hysteria2''"
| "protocol_str Anytls = ''anytls''"

definition protocol_from_str :: "string \<Rightarrow> string + protocol_type" where
  "protocol_from_str s =
     (if s = ''vless_reality'' then Inr VlessReality
      else if s = ''vless_xhttp'' then Inr VlessXhttp
      else if s = ''hysteria2'' then Inr Hysteria2
      else if s = ''anytls'' then Inr Anytls
      else Inl (''unknown protocol type: '' @ s))"

fun core_str :: "core_type \<Rightarrow> string" where
  "core_str SingBox = ''sing-box''"
| "core_str Mihomo = ''mihomo''"

definition core_from_str :: "string \<Rightarrow> string + core_type" where
  "core_from_str s =
     (if s = ''sing-box'' \<or> s = ''singbox'' then Inr SingBox
      else if s = ''mihomo'' then Inr Mihomo
      else Inl (''unknown core type: '' @ s))"

fun valid_for :: "protocol_type \<Rightarrow> core_type list" where
  "valid_for VlessReality = [SingBox, Mihomo]"
| "valid_for VlessXhttp = [Mihomo]"
| "valid_for Hysteria2 = [SingBox, Mihomo]"
| "valid_for Anytls = [SingBox, Mihomo]"

fun github_repo :: "core_type \<Rightarrow> string \<times> string" where
  "github_repo SingBox = (''SagerNet'', ''sing-box'')"
| "github_repo Mihomo = (''MetaCubeX'', ''mihomo'')"

text \<open>\<open>{:?}\<close> of the two types: the constructor's name.\<close>

fun protocol_debug :: "protocol_type \<Rightarrow> string" where
  "protocol_debug VlessReality = ''VlessReality''"
| "protocol_debug VlessXhttp = ''VlessXhttp''"
| "protocol_debug Hysteria2 = ''Hysteria2''"
| "protocol_debug Anytls = ''Anytls''"

fun core_debug :: "core_type \<Rightarrow> string" where
  "core_debug SingBox = ''SingBox''"
| "core_debug Mihomo = ''Mihomo''"

datatype node_status = Connecting | Online | Degraded | Offline

datatype user_status = Active | Disabled | Limited | Expired | OnHold

datatype traffic_unit = Bytes | KiB | MiB | GiB | TiB

text \<open>\<open>u64\<close> multiplication: the result modulo \<open>2 ^ 64\<close>.\<close>

fun to_bytes :: "traffic_unit \<Rightarrow> nat \<Rightarrow> nat" where
  "to_bytes Bytes v = v"
| "to_bytes KiB v = v * 1024 mod 18446744073709551616"
| "to_bytes MiB v = v * 1024 * 1024 mod 18446744073709551616"
| "to_bytes GiB v = v * 1024 * 1024 * 1024 mod 18446744073709551616"
| "to_bytes TiB v = v * 1024 * 1024 * 1024 * 1024 mod 18446744073709551616"

instantiation core_type :: linorder
begin

fun less_eq_core_type :: "core_type \<Rightarrow> core_type \<Rightarrow> bool" where
  "less_eq_core_type SingBox c = True"
| "less_eq_core_type Mihomo c = (c = Mihomo)"

definition less_core_type :: "core_type \<Rightarrow> core_type \<Rightarrow> bool" where
  "less_core_type a b \<longleftrightarrow> a \<le> b \<and> \<not> b \<le> (a::core_type)"

instance
proof
  fix x y z :: core_type
  show "x < y \<longleftrightarrow> x \<le> y \<and> \<not> y \<le> x" by (rule less_core_type_def)
  show "x \<le> x" by (cases x) auto
  show "x \<le> y \<Longrightarrow> y \<le> z \<Longrightarrow> x \<le> z" by (cases x; cases y) auto
  show "x \<le> y \<Longrightarrow> y \<le> x \<Longrightarrow> x = y" by (cases x; cases y) auto
  show "x \<le> y \<or> y \<le> x" by (cases x; cases y) auto
qed

end

lemma protocol_roundtrip: "protocol_from_str (protocol_str p) = Inr p"
  by (cases p) (simp_all add: protocol_from_str_def)

lemma core_roundtrip: "core_from_str (core_str c) = Inr c"
  by (cases c) (simp_all add: core_from_str_def)

lemma protocol_from_str_Inr: "protocol_from_str s = Inr p \<Longrightarrow> s = protocol_str p"
  by (auto simp: protocol_from_str_def split: if_splits)

section \<open>Errors\<close>

text \<open>
  \<open>PanelError\<close>. The variants that wrap an error of a library (database, gRPC, serialisation, IO) keep
  its text.
\<close>

datatype panel_error =
    Database string
  | Grpc string
  | Config string
  | Validation string
  | Auth string
  | Authorization string
  | NotFound string
  | Core string
  | SubscriptionErr string
  | Release string
  | Traffic string
  | Serialization string
  | YamlSerialization string
  | Io string
  | Internal string

type_synonym 'a panel_result = "panel_error + 'a"

fun panel_error_str :: "panel_error \<Rightarrow> string" where
  "panel_error_str (Database m) = ''database error: '' @ m"
| "panel_error_str (Grpc m) = ''gRPC error: '' @ m"
| "panel_error_str (Config m) = ''configuration error: '' @ m"
| "panel_error_str (Validation m) = ''validation error: '' @ m"
| "panel_error_str (Auth m) = ''authentication error: '' @ m"
| "panel_error_str (Authorization m) = ''authorization error: '' @ m"
| "panel_error_str (NotFound m) = ''not found: '' @ m"
| "panel_error_str (Core m) = ''core management error: '' @ m"
| "panel_error_str (SubscriptionErr m) = ''subscription error: '' @ m"
| "panel_error_str (Release m) = ''release query error: '' @ m"
| "panel_error_str (Traffic m) = ''traffic error: '' @ m"
| "panel_error_str (Serialization m) = ''serialization error: '' @ m"
| "panel_error_str (YamlSerialization m) = ''yaml serialization error: '' @ m"
| "panel_error_str (Io m) = ''IO error: '' @ m"
| "panel_error_str (Internal m) = ''internal error: '' @ m"

end
