(* ===== verification/Settings.thy ===== *)
theory Settings
  imports Protocol
begin

text \<open>
  The readers of normalised protocol settings (pp-common, settings_helper.rs): server names, short
  ids and credentials out of the JSON shapes a protocol configuration may have, the merge of
  protocol-level and binding-level TLS settings, and the test for a real certificate.
\<close>

section \<open>Server names and short ids\<close>

text \<open>The first non-empty, trimmed piece of a comma-separated string.\<close>

definition comma_pieces :: "string \<Rightarrow> string list" where
  "comma_pieces s = filter (\<lambda>v. v \<noteq> []) (map trim (split_on (CHR '','') s))"

definition first_of :: "'a list \<Rightarrow> 'a option" where
  "first_of xs = (case xs of [] \<Rightarrow> None | x # _ \<Rightarrow> Some x)"

definition first_server_name :: "json \<Rightarrow> string option" where
  "first_server_name settings =
     Option.bind (or_else (jget settings ''server_names'') (jget settings ''reality_server_names''))
       (\<lambda>raw. first_of
          (case as_str raw of
             Some s \<Rightarrow> comma_pieces s
           | None \<Rightarrow>
               (case as_array raw of
                  Some arr \<Rightarrow>
                    filter (\<lambda>v. v \<noteq> []) (List.map_filter (\<lambda>v. map_option trim (as_str v)) arr)
                | None \<Rightarrow> [])))"

definition first_short_id :: "json \<Rightarrow> string option" where
  "first_short_id settings =
     Option.bind (or_else (jget settings ''short_id'') (jget settings ''reality_short_id''))
       (\<lambda>raw. first_of
          (case as_str raw of
             Some s \<Rightarrow> comma_pieces s
           | None \<Rightarrow>
               (case as_array raw of
                  Some arr \<Rightarrow>
                    filter (\<lambda>v. v \<noteq> [])
                      (List.map_filter
                         (\<lambda>v. or_else (map_option trim (as_str v)) (map_option hex_str (as_u64 v)))
                         arr)
                | None \<Rightarrow> [])))"

section \<open>Credentials\<close>

text \<open>
  The injected \<open>clients\<close> array wins over the placeholder at the top level when its first entry holds
  a non-empty credential.
\<close>

definition client_uuid :: "json \<Rightarrow> string option" where
  "client_uuid settings =
     or_else
       (Option.bind (get_array settings ''clients'') (\<lambda>arr.
          opt_filter (\<lambda>s. s \<noteq> [])
            (Option.bind
               (Option.bind (first_of arr) (\<lambda>c. or_else (jget c ''id'') (jget c ''uuid'')))
               as_str)))
       (opt_filter (\<lambda>s. s \<noteq> [])
          (Option.bind (or_else (jget settings ''id'') (jget settings ''uuid'')) as_str))"

definition client_password :: "json \<Rightarrow> string option" where
  "client_password settings =
     or_else
       (Option.bind (get_array settings ''clients'') (\<lambda>arr.
          opt_filter (\<lambda>s. s \<noteq> [])
            (Option.bind (Option.bind (first_of arr) (\<lambda>c. jget c ''password'')) as_str)))
       (opt_filter (\<lambda>s. s \<noteq> []) (get_str settings ''password''))"

section \<open>TLS settings\<close>

definition merge_tls_settings :: "json option \<Rightarrow> json option \<Rightarrow> json option" where
  "merge_tls_settings base over =
     (case over of
        None \<Rightarrow> base
      | Some ov \<Rightarrow>
          (case (Option.bind base as_object, as_object ov) of
             (Some b, Some om) \<Rightarrow> Some (JObj (fold (\<lambda>(k, v). omap_ins k v) om b))
           | _ \<Rightarrow> Some ov))"

definition nonempty_str :: "json \<Rightarrow> string \<Rightarrow> bool" where
  "nonempty_str v k = unwrap_or (map_option (\<lambda>s. s \<noteq> []) (get_str v k)) False"

definition tls_has_real_certificate :: "json option \<Rightarrow> bool" where
  "tls_has_real_certificate tls =
     (case Option.bind tls as_object of
        None \<Rightarrow> False
      | Some m \<Rightarrow>
          (nonempty_str (JObj m) ''certFile'' \<and> nonempty_str (JObj m) ''keyFile'')
          \<or> nonempty_str (JObj m) ''domain'')"

section \<open>Lemmas\<close>

lemma first_of_Some: "first_of xs = Some x \<Longrightarrow> x \<in> set xs"
  by (auto simp: first_of_def split: list.splits)

lemma comma_pieces_ne: "p \<in> set (comma_pieces s) \<Longrightarrow> p \<noteq> []"
  by (auto simp: comma_pieces_def)

lemma first_server_name_ne: "first_server_name settings = Some s \<Longrightarrow> s \<noteq> []"
  unfolding first_server_name_def
  by (auto simp: bind_eq_Some_conv dest!: first_of_Some comma_pieces_ne
        split: option.splits)

lemma base_str_ne [simp]: "base_str b n \<noteq> []"
  by (subst base_str.simps) simp

lemma first_short_id_ne: "first_short_id settings = Some s \<Longrightarrow> s \<noteq> []"
  unfolding first_short_id_def
  by (auto simp: bind_eq_Some_conv dest!: first_of_Some comma_pieces_ne
        split: option.splits)

lemma client_uuid_ne: "client_uuid settings = Some s \<Longrightarrow> s \<noteq> []"
  unfolding client_uuid_def or_else_def
  by (auto simp: opt_filter_Some_iff bind_eq_Some_conv split: option.splits)

lemma merge_look:
  assumes "merge_tls_settings (Some (JObj b)) (Some (JObj ov)) = Some v" and "omap_ok ov"
  shows "jget v k = or_else (map_of ov k) (map_of b k)"
  using assms
  by (auto simp: merge_tls_settings_def om.look_fold_ins omap_ok_rev split: option.splits)

lemma wf_fold_ins:
  "wf_json (JObj b) \<Longrightarrow> (\<forall>p \<in> set kvs. wf_json (snd p)) \<Longrightarrow>
   wf_json (JObj (fold (\<lambda>(k, v). omap_ins k v) kvs b))"
proof (induction kvs arbitrary: b)
  case (Cons kv kvs)
  have "wf_json (JObj (omap_ins (fst kv) (snd kv) b))"
    using Cons.prems by (intro wf_omap_ins) auto
  with Cons show ?case by (auto simp: case_prod_beta)
qed simp

lemma wf_merge_tls_settings:
  assumes "\<And>b. base = Some b \<Longrightarrow> wf_json b" and "\<And>ov. over = Some ov \<Longrightarrow> wf_json ov"
    and "merge_tls_settings base over = Some v"
  shows "wf_json v"
proof (cases over)
  case None
  with assms show ?thesis by (simp add: merge_tls_settings_def)
next
  case (Some ov)
  show ?thesis
  proof (cases "(Option.bind base as_object, as_object ov)")
    case (Pair x y)
    show ?thesis
    proof (cases "x = None \<or> y = None")
      case True
      with Pair Some assms show ?thesis
        by (auto simp: merge_tls_settings_def split: option.splits)
    next
      case False
      then obtain b om where "x = Some b" "y = Some om" by auto
      with Pair Some have "base = Some (JObj b)" "ov = JObj om"
        by (auto simp: bind_eq_Some_conv elim!: as_object.elims)
      with Some assms wf_fold_ins [of b om] show ?thesis
        by (auto simp: merge_tls_settings_def)
    qed
  qed
qed

end
