(* ===== verification/InboundLoop.thy ===== *)
theory InboundLoop
  imports Settings
begin

text \<open>
  What the two configuration builders share (pp-config, builder.rs): the normalised inbound, the
  environment they read, and the contract of their loop over the inbounds. Both build every inbound
  in order, leave out one whose error they may skip, and stop at the first other error.
\<close>

type_synonym env = "string \<Rightarrow> string option"

record inbound_config =
  ic_tag :: string
  ic_protocol :: protocol_type
  ic_listen :: string
  ic_port :: nat
  ic_settings :: json
  ic_tls :: "json option"
  ic_sniffing :: "json option"
  ic_core_version :: "string option"

definition ok_of :: "'e + 'a \<Rightarrow> 'a option" where
  "ok_of r = (case r of Inl _ \<Rightarrow> None | Inr x \<Rightarrow> Some x)"

lemma ok_of_simps [simp, result_simps]: "ok_of (Inl e) = None" "ok_of (Inr x) = Some x"
  by (simp_all add: ok_of_def)

definition str_or :: "json \<Rightarrow> string \<Rightarrow> string \<Rightarrow> string" where
  "str_or v k d = unwrap_or (get_str v k) d"

definition u64_or :: "json \<Rightarrow> string \<Rightarrow> nat \<Rightarrow> nat" where
  "u64_or v k d = unwrap_or (get_u64 v k) d"

locale inbound_loop =
  fixes build :: "inbound_config \<Rightarrow> json panel_result"
    and skip :: "inbound_config \<Rightarrow> panel_error \<Rightarrow> bool"
    and loop :: "inbound_config list \<Rightarrow> json list panel_result"
  assumes loop_Nil: "loop [] = Inr []"
    and loop_Cons: "loop (i # is) =
      (case build i of
         Inr v \<Rightarrow> rbind (loop is) (\<lambda>vs. Inr (v # vs))
       | Inl e \<Rightarrow> if skip i e then loop is else Inl e)"
begin

lemma loop_ok_iff: "is_ok (loop is) \<longleftrightarrow> (\<forall>i \<in> set is. \<forall>e. build i = Inl e \<longrightarrow> skip i e)"
proof (induction "is")
  case (Cons i "is")
  then show ?case
    by (cases "build i"; cases "loop is") (auto simp: loop_Cons)
qed (simp add: loop_Nil)

lemma loop_value: "loop is = Inr vs \<Longrightarrow> vs = List.map_filter (\<lambda>i. ok_of (build i)) is"
  by (induction "is" arbitrary: vs)
     (auto simp: loop_Nil loop_Cons rbind_Inr_iff map_filter_simps split: sum.splits if_splits)

lemma loop_error:
  "loop is = Inl e \<Longrightarrow>
   \<exists>pre i post. is = pre @ i # post \<and> build i = Inl e \<and> \<not> skip i e \<and> is_ok (loop pre)"
proof (induction "is")
  case Nil
  then show ?case by (simp add: loop_Nil)
next
  case (Cons i "is")
  show ?case
  proof (cases "build i")
    case (Inl e')
    show ?thesis
    proof (cases "skip i e'")
      case True
      with Inl Cons.prems have "loop is = Inl e" by (simp add: loop_Cons)
      from Cons.IH [OF this] obtain pre j post where
        "is = pre @ j # post" "build j = Inl e" "\<not> skip j e" "is_ok (loop pre)" by blast
      with Inl True show ?thesis
        by (intro exI [of _ "i # pre"] exI [of _ j] exI [of _ post]) (simp add: loop_Cons)
    next
      case False
      with Inl Cons.prems have "e = e'" by (simp add: loop_Cons)
      with Inl False show ?thesis
        by (intro exI [of _ "[]"] exI [of _ i] exI [of _ "is"]) (simp add: loop_Nil)
    qed
  next
    case (Inr v)
    with Cons.prems have "loop is = Inl e" by (auto simp: loop_Cons rbind_Inl_iff)
    from Cons.IH [OF this] obtain pre j post where
      "is = pre @ j # post" "build j = Inl e" "\<not> skip j e" "is_ok (loop pre)" by blast
    with Inr show ?thesis
      by (intro exI [of _ "i # pre"] exI [of _ j] exI [of _ post])
         (auto simp: loop_Cons is_ok_rbind is_ok_iff)
  qed
qed

lemma loop_all:
  "loop is = Inr vs \<Longrightarrow> (\<And>i v. i \<in> set is \<Longrightarrow> build i = Inr v \<Longrightarrow> P v) \<Longrightarrow> v \<in> set vs \<Longrightarrow> P v"
proof (induction "is" arbitrary: vs)
  case (Cons i "is")
  from Cons.prems(1) show ?case
  proof (cases "build i")
    case (Inl e)
    with Cons.prems(1) have "loop is = Inr vs" by (simp add: loop_Cons split: if_splits)
    with Cons show ?thesis by auto
  next
    case (Inr w)
    with Cons.prems(1) obtain ws where "loop is = Inr ws" "vs = w # ws"
      by (auto simp: loop_Cons rbind_Inr_iff)
    with Cons Inr show ?thesis by auto
  qed
qed (simp add: loop_Nil)

lemma loop_length: "loop is = Inr vs \<Longrightarrow> length vs \<le> length is"
  by (induction "is" arbitrary: vs)
     (fastforce simp: loop_Nil loop_Cons rbind_Inr_iff split: sum.splits if_splits)+

end

end
