(* ===== verification/SingBox.thy ===== *)
theory SingBox
  imports InboundLoop
begin

text \<open>
  The sing-box configuration builder (pp-config, builder.rs and singbox.rs): the inbound of each
  protocol, its TLS object, the API services of the core's version, and the full configuration of
  a list of inbounds. The process environment is the argument \<open>env\<close>.
\<close>

section \<open>Versions\<close>

fun split_by :: "('a \<Rightarrow> bool) \<Rightarrow> 'a list \<Rightarrow> 'a list list" where
  "split_by p [] = [[]]"
| "split_by p (x # xs) =
     (if p x then [] # split_by p xs
      else (case split_by p xs of [] \<Rightarrow> [[x]] | y # ys \<Rightarrow> (x # y) # ys))"

definition is_ascii_digit :: "char \<Rightarrow> bool" where
  "is_ascii_digit c \<longleftrightarrow> digit_val c \<noteq> None"

text \<open>The runs of digits that fit a \<open>u32\<close>; a \<open>Vec<u32>\<close> compares lexicographically.\<close>

definition version_key :: "string \<Rightarrow> nat list" where
  "version_key v =
     List.map_filter (parse_uint u32_max)
       (filter (\<lambda>s. s \<noteq> []) (split_by (\<lambda>c. \<not> is_ascii_digit c) v))"

definition version_gte :: "string \<Rightarrow> string \<Rightarrow> bool" where
  "version_gte version target \<longleftrightarrow> version_key target \<le> version_key version"

text \<open>\<open>Iterator::max_by\<close>: the last of the maximal elements.\<close>

fun max_by :: "('a \<Rightarrow> 'b::linorder) \<Rightarrow> 'a \<Rightarrow> 'a list \<Rightarrow> 'a" where
  "max_by f acc [] = acc"
| "max_by f acc (x # xs) = max_by f (if f x < f acc then acc else x) xs"

definition effective_singbox_version :: "inbound_config list \<Rightarrow> string" where
  "effective_singbox_version inbounds =
     (case filter (\<lambda>v. v \<noteq> []) (List.map_filter ic_core_version inbounds) of
        [] \<Rightarrow> ''1.14.0''
      | v # vs \<Rightarrow> max_by version_key v vs)"

section \<open>API services\<close>

definition singbox_api_listen :: "env \<Rightarrow> string" where
  "singbox_api_listen env =
     unwrap_or (or_else (env ''PROXYPANEL_SINGBOX_API_LISTEN'')
                        (env ''PROXYPANEL_SINGBOX_HTTP_API_LISTEN''))
       ''127.0.0.1:9090''"

definition singbox_api_secret :: "env \<Rightarrow> string" where
  "singbox_api_secret env = unwrap_or (env ''PROXYPANEL_SINGBOX_API_SECRET'') []"

definition split_listen_addr :: "string \<Rightarrow> string \<times> nat" where
  "split_listen_addr http_listen =
     (case rsplit_once (CHR '':'') http_listen of
        Some (addr, port) \<Rightarrow> (addr, unwrap_or (parse_uint u16_max port) 9090)
      | None \<Rightarrow> (http_listen, 9090))"

definition with_secret :: "string \<Rightarrow> json \<Rightarrow> json" where
  "with_secret secret api = (if secret \<noteq> [] then jset ''secret'' (JStr secret) api else api)"

definition build_api_service :: "env \<Rightarrow> json" where
  "build_api_service env =
     (let (listen_addr, listen_port) = split_listen_addr (singbox_api_listen env);
          api = jobj [(''type'', JStr ''api''), (''listen'', JStr listen_addr),
                      (''listen_port'', jnat listen_port)]
      in JArr [with_secret (singbox_api_secret env) api])"

definition build_clash_api_experimental :: "env \<Rightarrow> json" where
  "build_clash_api_experimental env =
     (let listen = unwrap_or (env ''PROXYPANEL_SINGBOX_CLASH_API_LISTEN'') ''127.0.0.1:9091'';
          clash_api = jobj [(''external_controller'', JStr listen)]
      in jobj [(''clash_api'', with_secret (singbox_api_secret env) clash_api)])"

definition build_legacy_api_services :: "env \<Rightarrow> json" where
  "build_legacy_api_services env =
     (let clash_api = jobj [(''external_controller'', JStr (singbox_api_listen env))]
      in jobj [(''clash_api'', with_secret (singbox_api_secret env) clash_api)])"

definition build_singbox_route :: json where
  "build_singbox_route =
     jobj [(''auto_detect_interface'', JBool True),
           (''rules'', JArr [jobj [(''protocol'', JStr ''bittorrent''),
                                   (''outbound'', JStr ''block'')]])]"

section \<open>Inbounds\<close>

definition build_singbox_transport :: "string \<Rightarrow> json \<Rightarrow> json" where
  "build_singbox_transport network settings =
     (if network = ''ws'' then
        (let path = str_or settings ''path'' ''/''; host = str_or settings ''host'' []
         in jobj [(''type'', JStr ''ws''), (''path'', JStr path),
                  (''headers'', if host = [] then jobj [] else jobj [(''Host'', JStr host)])])
      else if network = ''grpc'' then
        jobj [(''type'', JStr ''grpc''), (''service_name'', JStr (str_or settings ''service_name'' []))]
      else if network = ''httpupgrade'' \<or> network = ''xhttp'' then
        jobj [(''type'', JStr ''httpupgrade''),
              (''path'', JStr (unwrap_or (or_else (get_str settings ''path'')
                                                  (get_str settings ''xhttp_path'')) ''/'')),
              (''host'', JStr (unwrap_or (or_else (get_str settings ''host'')
                                                  (get_str settings ''xhttp_host'')) []))]
      else JNull)"

definition vless_client_user :: "json \<Rightarrow> json" where
  "vless_client_user c =
     (let user = jobj [(''uuid'', JStr (str_or c ''id'' [])), (''name'', JStr (str_or c ''email'' []))]
      in case get_str c ''flow'' of
           Some flow \<Rightarrow> if flow \<noteq> [] then jset ''flow'' (JStr flow) user else user
         | None \<Rightarrow> user)"

definition vless_clients_to_users :: "json \<Rightarrow> json" where
  "vless_clients_to_users settings =
     (case get_array settings ''clients'' of
        Some clients \<Rightarrow> JArr (map vless_client_user clients)
      | None \<Rightarrow>
          (let uuid = str_or settings ''uuid'' []
           in if uuid = [] then JArr []
              else JArr [jobj [(''uuid'', JStr uuid), (''name'', JStr [])]]))"

definition build_singbox_reality_tls :: "json \<Rightarrow> json option \<Rightarrow> json option" where
  "build_singbox_reality_tls settings tls =
     Option.bind (or_else (get_str settings ''reality_dest'') (get_str settings ''dest'')) (\<lambda>dest.
       if dest = [] then None
       else Option.bind (or_else (get_str settings ''reality_private_key'')
                                 (get_str settings ''private_key'')) (\<lambda>private_key.
         if private_key = [] then None
         else
           (let (server, server_port) =
                  (case rsplit_once (CHR '':'') dest of
                     Some (host, port_str) \<Rightarrow> (host, unwrap_or (parse_uint u64_max port_str) 443)
                   | None \<Rightarrow> (dest, 443));
                server_name = unwrap_or (first_server_name settings) server;
                short_ids =
                  unwrap_or (map_option (\<lambda>i. [i]) (first_short_id settings))
                    (unwrap_or
                       (map_option comma_pieces
                          (Option.bind (or_else (jget settings ''reality_short_id'')
                                                (jget settings ''short_id'')) as_str))
                       [])
            in Some (jobj [(''enabled'', JBool True),
                           (''server_name'', JStr server_name),
                           (''reality'',
                             jobj [(''enabled'', JBool True),
                                   (''handshake'', jobj [(''server'', JStr server),
                                                         (''server_port'', jnat server_port)]),
                                   (''private_key'', JStr private_key),
                                   (''short_id'',
                                      if short_ids = [] then JArr [JStr []] else jstrs short_ids)])]))))"

definition build_vless_inbound :: "json \<Rightarrow> json option \<Rightarrow> json panel_result" where
  "build_vless_inbound settings tls =
     (let users = vless_clients_to_users settings;
          flow = str_or settings ''flow'' [];
          network = str_or settings ''network'' ''tcp'';
          inbound = jobj [(''type'', JStr ''vless''),
                          (''tag'', JStr (str_or settings ''tag'' ''vless-in'')),
                          (''listen'', JStr (str_or settings ''listen'' ''::'')),
                          (''listen_port'', jnat (u64_or settings ''port'' 443)),
                          (''users'', users)];
          transport = build_singbox_transport network settings;
          inbound = (if transport \<noteq> JNull then jset ''transport'' transport inbound else inbound);
          inbound =
            (if flow \<noteq> [] then
               (case get_array inbound ''users'' of
                  Some arr \<Rightarrow> jset ''users'' (JArr (map (jset ''flow'' (JStr flow)) arr)) inbound
                | None \<Rightarrow> inbound)
             else inbound)
      in rbind (ok_or (build_singbox_reality_tls settings tls)
                  (Validation ''VLESS+REALITY requires reality_dest and reality_private_key''))
           (\<lambda>reality_tls. Inr (jset ''tls'' reality_tls inbound)))"

definition build_singbox_server_tls :: "json option \<Rightarrow> json panel_result" where
  "build_singbox_server_tls tls =
     rbind (ok_or tls (Validation ''TLS configuration is required'')) (\<lambda>tls.
       let managed = str_or tls ''managed_domain'' []
       in if managed \<noteq> [] then
            Inr (jobj [(''enabled'', JBool True),
                       (''certificate_path'', JStr (''certs/'' @ managed @ ''.crt'')),
                       (''key_path'', JStr (''certs/'' @ managed @ ''.key''))])
          else
            (let cert_file = str_or tls ''certFile'' []; key_file = str_or tls ''keyFile'' []
             in if cert_file \<noteq> [] \<and> key_file \<noteq> [] then
                  Inr (jobj [(''enabled'', JBool True),
                             (''certificate_path'', JStr cert_file),
                             (''key_path'', JStr key_file)])
                else
                  (let domain = str_or tls ''domain'' []
                   in if domain \<noteq> [] then
                        Inr (jobj [(''enabled'', JBool True),
                                   (''acme'', jobj [(''domain'', JArr [JStr domain]),
                                                    (''data_directory'', JStr ''acme'')])])
                      else Inl (Validation ''TLS requires certFile+keyFile or a domain for ACME''))))"

definition password_client_user :: "json \<Rightarrow> json" where
  "password_client_user c =
     jobj [(''name'', JStr (str_or c ''name'' [])), (''password'', JStr (str_or c ''password'' []))]"

definition password_clients_to_users :: "json \<Rightarrow> json" where
  "password_clients_to_users settings =
     (case get_array settings ''clients'' of
        Some clients \<Rightarrow> JArr (map password_client_user clients)
      | None \<Rightarrow>
          (let password = str_or settings ''password'' []
           in if password = [] then JArr []
              else JArr [jobj [(''name'', JStr []), (''password'', JStr password)]]))"

definition build_hysteria2_inbound :: "json \<Rightarrow> json option \<Rightarrow> json panel_result" where
  "build_hysteria2_inbound settings tls =
     (let users = password_clients_to_users settings;
          obfs_type = str_or settings ''obfs_type'' ''none'';
          obfs_password = str_or settings ''obfs_password'' []
      in rbind (build_singbox_server_tls tls) (\<lambda>tls_obj.
           let tls_obj = jset ''alpn'' (JArr [JStr ''h3'']) tls_obj;
               inbound = jobj [(''type'', JStr ''hysteria2''),
                               (''tag'', JStr (str_or settings ''tag'' ''hy2-in'')),
                               (''listen'', JStr (str_or settings ''listen'' ''::'')),
                               (''listen_port'', jnat (u64_or settings ''port'' 443)),
                               (''users'', users),
                               (''tls'', tls_obj),
                               (''up_mbps'', jnat (u64_or settings ''up_mbps'' 100)),
                               (''down_mbps'', jnat (u64_or settings ''down_mbps'' 100))]
           in Inr (if obfs_type \<noteq> ''none'' \<and> obfs_password \<noteq> [] then
                     jset ''obfs'' (jobj [(''type'', JStr obfs_type),
                                          (''password'', JStr obfs_password)]) inbound
                   else inbound)))"

definition build_anytls_inbound :: "json \<Rightarrow> json option \<Rightarrow> json panel_result" where
  "build_anytls_inbound settings tls =
     (let users = password_clients_to_users settings
      in rbind (build_singbox_server_tls tls) (\<lambda>tls_obj.
           let inbound = jobj [(''type'', JStr ''anytls''),
                               (''tag'', JStr (str_or settings ''tag'' ''anytls-in'')),
                               (''listen'', JStr (str_or settings ''listen'' ''::'')),
                               (''listen_port'', jnat (u64_or settings ''port'' 443)),
                               (''users'', users),
                               (''tls'', tls_obj)]
           in Inr (case get_str settings ''masquerade'' of
                     Some masquerade \<Rightarrow>
                       if masquerade \<noteq> [] then jset ''masquerade'' (JStr masquerade) inbound
                       else inbound
                   | None \<Rightarrow> inbound)))"

fun sb_build_inbound :: "protocol_type \<Rightarrow> json \<Rightarrow> json option \<Rightarrow> json panel_result" where
  "sb_build_inbound VlessReality settings tls = build_vless_inbound settings tls"
| "sb_build_inbound Hysteria2 settings tls = build_hysteria2_inbound settings tls"
| "sb_build_inbound Anytls settings tls = build_anytls_inbound settings tls"
| "sb_build_inbound protocol settings tls =
     Inl (Config (''protocol '' @ protocol_debug protocol @ '' not supported by sing-box''))"

section \<open>The full configuration\<close>

text \<open>
  The loop over the inbounds: a hysteria2 or anytls inbound whose error text mentions TLS is left
  out with a warning, any other error ends the build.
\<close>

fun sb_inbounds :: "inbound_config list \<Rightarrow> json list panel_result" where
  "sb_inbounds [] = Inr []"
| "sb_inbounds (i # is) =
     (case sb_build_inbound (ic_protocol i) (ic_settings i) (ic_tls i) of
        Inr v \<Rightarrow> rbind (sb_inbounds is) (\<lambda>vs. Inr (v # vs))
      | Inl e \<Rightarrow>
          if ic_protocol i \<in> {Hysteria2, Anytls} \<and> str_contains ''TLS'' (panel_error_str e)
          then sb_inbounds is
          else Inl e)"

definition sb_build_full_config :: "env \<Rightarrow> inbound_config list \<Rightarrow> json panel_result" where
  "sb_build_full_config env inbounds =
     rbind (sb_inbounds inbounds) (\<lambda>ins.
       let use_new_api = version_gte (effective_singbox_version inbounds) ''1.14.0'';
           config = jobj [(''log'', jobj [(''level'', JStr ''warning''), (''timestamp'', JBool True)]),
                          (''inbounds'', JArr ins),
                          (''outbounds'', JArr [jobj [(''type'', JStr ''direct''), (''tag'', JStr ''direct'')],
                                                jobj [(''type'', JStr ''block''), (''tag'', JStr ''block'')]]),
                          (''route'', build_singbox_route)]
       in Inr (if use_new_api then
                 (let services = build_api_service env;
                      config = (case as_array services of
                                  Some arr \<Rightarrow> if arr \<noteq> [] then jset ''services'' services config else config
                                | None \<Rightarrow> config)
                  in jset ''experimental'' (build_clash_api_experimental env) config)
               else jset ''experimental'' (build_legacy_api_services env) config))"

section \<open>Lemmas\<close>

definition sb_skip :: "inbound_config \<Rightarrow> panel_error \<Rightarrow> bool" where
  "sb_skip i e \<longleftrightarrow> ic_protocol i \<in> {Hysteria2, Anytls} \<and> str_contains ''TLS'' (panel_error_str e)"

definition sb_build :: "inbound_config \<Rightarrow> json panel_result" where
  "sb_build i = sb_build_inbound (ic_protocol i) (ic_settings i) (ic_tls i)"

interpretation sb: inbound_loop sb_build sb_skip sb_inbounds
  by unfold_locales (simp_all add: sb_build_def sb_skip_def split: sum.split)

text \<open>The keys a reality inbound needs: a destination and a private key, both non-empty.\<close>

definition reality_keys :: "json \<Rightarrow> bool" where
  "reality_keys s \<longleftrightarrow>
     unwrap_or (or_else (get_str s ''reality_dest'') (get_str s ''dest'')) [] \<noteq> []
     \<and> unwrap_or (or_else (get_str s ''reality_private_key'') (get_str s ''private_key'')) [] \<noteq> []"

lemma reality_tls_iff: "build_singbox_reality_tls s tls \<noteq> None \<longleftrightarrow> reality_keys s"
  by (cases "or_else (get_str s ''reality_dest'') (get_str s ''dest'')";
      cases "or_else (get_str s ''reality_private_key'') (get_str s ''private_key'')")
     (auto simp: build_singbox_reality_tls_def reality_keys_def Let_def case_prod_beta)

lemma build_vless_ok_iff: "is_ok (build_vless_inbound s tls) \<longleftrightarrow> reality_keys s"
  by (simp add: build_vless_inbound_def Let_def is_ok_rbind ok_or_Inr_iff
      flip: reality_tls_iff [of s tls])

lemma vless_error:
  "build_vless_inbound s tls = Inl e \<Longrightarrow>
   e = Validation ''VLESS+REALITY requires reality_dest and reality_private_key''"
  by (auto simp: build_vless_inbound_def Let_def rbind_Inl_iff ok_or_def split: option.splits)

lemma server_tls_error:
  "build_singbox_server_tls tls = Inl e \<Longrightarrow> str_contains ''TLS'' (panel_error_str e)"
  by (cases tls) (auto simp: build_singbox_server_tls_def Let_def split: if_splits)

lemma hysteria2_error:
  "build_hysteria2_inbound s tls = Inl e \<Longrightarrow> str_contains ''TLS'' (panel_error_str e)"
  by (auto simp: build_hysteria2_inbound_def Let_def rbind_Inl_iff dest: server_tls_error)

lemma anytls_error:
  "build_anytls_inbound s tls = Inl e \<Longrightarrow> str_contains ''TLS'' (panel_error_str e)"
  by (auto simp: build_anytls_inbound_def Let_def rbind_Inl_iff dest: server_tls_error)

lemma sb_skippable_iff:
  "(\<forall>e. sb_build i = Inl e \<longrightarrow> sb_skip i e) \<longleftrightarrow>
   ic_protocol i \<noteq> VlessXhttp \<and> (ic_protocol i = VlessReality \<longrightarrow> reality_keys (ic_settings i))"
proof (cases "ic_protocol i")
  case VlessReality
  have "(\<forall>e. build_vless_inbound (ic_settings i) (ic_tls i) \<noteq> Inl e)
        \<longleftrightarrow> is_ok (build_vless_inbound (ic_settings i) (ic_tls i))"
    by (cases "build_vless_inbound (ic_settings i) (ic_tls i)") auto
  with VlessReality show ?thesis
    by (simp add: sb_build_def sb_skip_def build_vless_ok_iff)
qed (auto simp: sb_build_def sb_skip_def dest: hysteria2_error anytls_error)

lemma sb_full_ok:
  "is_ok (sb_build_full_config env ins) \<longleftrightarrow> is_ok (sb_inbounds ins)"
  by (cases "sb_inbounds ins") (simp_all add: sb_build_full_config_def Let_def)

lemma sb_full_cfg_eq:
  assumes "sb_build_full_config env ins = Inr cfg" and "sb_inbounds ins = Inr vs"
    and "c = jobj [(''log'', jobj [(''level'', JStr ''warning''), (''timestamp'', JBool True)]),
                   (''inbounds'', JArr vs),
                   (''outbounds'', JArr [jobj [(''type'', JStr ''direct''), (''tag'', JStr ''direct'')],
                                         jobj [(''type'', JStr ''block''), (''tag'', JStr ''block'')]]),
                   (''route'', build_singbox_route)]"
  shows "cfg = (if version_gte (effective_singbox_version ins) ''1.14.0''
      then jset ''experimental'' (build_clash_api_experimental env)
             (jset ''services'' (build_api_service env) c)
      else jset ''experimental'' (build_legacy_api_services env) c)"
  using assms
  by (auto simp: sb_build_full_config_def Let_def build_api_service_def case_prod_beta)

lemma sb_full_members:
  assumes "sb_build_full_config env ins = Inr cfg"
  obtains vs where "sb_inbounds ins = Inr vs" "jget cfg ''inbounds'' = Some (JArr vs)"
    "jget cfg ''route'' = Some build_singbox_route" "is_obj cfg"
    "jget cfg ''outbounds'' = Some (JArr [jobj [(''type'', JStr ''direct''), (''tag'', JStr ''direct'')],
                                         jobj [(''type'', JStr ''block''), (''tag'', JStr ''block'')]])"
    "jget cfg ''services'' \<noteq> None \<longleftrightarrow> version_gte (effective_singbox_version ins) ''1.14.0''"
proof -
  from assms obtain vs where vs: "sb_inbounds ins = Inr vs"
    by (auto simp: sb_build_full_config_def rbind_Inr_iff)
  note cfg = sb_full_cfg_eq [OF assms vs refl]
  show ?thesis
    by (rule that [OF vs]; cases "version_gte (effective_singbox_version ins) ''1.14.0''")
       (simp_all add: cfg jget_jset)
qed

section \<open>Types: the builder keeps JSON values well-formed\<close>

lemma as_u64_Some: "as_u64 x = Some n \<longleftrightarrow> x = JNum (PosInt n)"
  by (cases x rule: as_u64.cases) auto

lemma as_array_Some: "as_array x = Some xs \<longleftrightarrow> x = JArr xs"
  by (cases x) auto

lemma wf_get_u64:
  assumes "wf_json v" and "get_u64 v k = Some n" shows "n \<le> u64_max"
proof -
  from assms(2) have "jget v k = Some (JNum (PosInt n))"
    by (auto simp: get_u64_def bind_eq_Some_conv as_u64_Some)
  from wf_jget [OF assms(1) this] show ?thesis by simp
qed

lemma wf_u64_or: "wf_json v \<Longrightarrow> d \<le> u64_max \<Longrightarrow> wf_json (jnat (u64_or v k d))"
  by (cases "get_u64 v k") (simp_all add: jnat_def u64_or_def wf_get_u64)

lemma wf_get_array:
  assumes "wf_json v" and "get_array v k = Some xs" shows "wf_json (JArr xs)"
proof -
  from assms(2) have "jget v k = Some (JArr xs)"
    by (auto simp: get_array_def bind_eq_Some_conv as_array_Some)
  from wf_jget [OF assms(1) this] show ?thesis .
qed

lemma wf_with_secret: "wf_json v \<Longrightarrow> wf_json (with_secret s v)"
  by (simp add: with_secret_def)

lemma wf_vless_users: "wf_json (vless_clients_to_users s)"
  by (simp add: vless_clients_to_users_def vless_client_user_def Let_def split: option.split)

lemma wf_password_users: "wf_json (password_clients_to_users s)"
  by (simp add: password_clients_to_users_def password_client_user_def Let_def split: option.split)

lemma wf_transport: "wf_json (build_singbox_transport n s)"
  by (simp add: build_singbox_transport_def Let_def)

lemma wf_jnat_port: "wf_json (jnat (unwrap_or (parse_uint u64_max p) 443))"
  by (cases "parse_uint u64_max p") (auto simp: jnat_def u64_max_def dest: parse_uint_le)

lemma wf_listen_port:
  "wf_json (jnat (unwrap_or (parse_uint u16_max p) 9090))" "wf_json (jnat 9090)"
  by (cases "parse_uint u16_max p")
     (auto simp: jnat_def u64_max_def u16_max_def dest!: parse_uint_le)

lemma u64_consts: "443 \<le> u64_max" "100 \<le> u64_max"
  by (simp_all add: u64_max_def)

lemma wf_jnat_443: "wf_json (jnat 443)"
  by (simp add: jnat_def u64_max_def)

lemma wf_reality_tls: "build_singbox_reality_tls s tls = Some t \<Longrightarrow> wf_json t"
  by (cases "rsplit_once (CHR '':'')
        (unwrap_or (or_else (get_str s ''reality_dest'') (get_str s ''dest'')) [])")
     (auto simp: build_singbox_reality_tls_def bind_eq_Some_conv Let_def wf_jnat_port wf_jnat_443
      split: if_splits)

lemma wf_server_tls: "build_singbox_server_tls tls = Inr t \<Longrightarrow> wf_json t"
  by (auto simp: build_singbox_server_tls_def rbind_Inr_iff Let_def split: if_splits)

lemma wf_apply_flow:
  "wf_json v \<Longrightarrow> get_array v k = Some arr \<Longrightarrow> wf_json (JArr (map (jset k' (JStr f)) arr))"
  using wf_get_array by fastforce

lemma wf_sb_inbound:
  assumes s: "wf_json s" and v: "sb_build_inbound p s tls = Inr v"
  shows "wf_json v"
proof -
  note u = wf_u64_or [OF s u64_consts(1)] wf_u64_or [OF s u64_consts(2)]
  show ?thesis
  proof (cases p)
    case VlessReality
    let ?i = "jobj [(''type'', JStr ''vless''), (''tag'', JStr (str_or s ''tag'' ''vless-in'')),
                    (''listen'', JStr (str_or s ''listen'' ''::'')),
                    (''listen_port'', jnat (u64_or s ''port'' 443)),
                    (''users'', vless_clients_to_users s)]"
    let ?t = "build_singbox_transport (str_or s ''network'' ''tcp'') s"
    let ?j = "if ?t \<noteq> JNull then jset ''transport'' ?t ?i else ?i"
    have j: "wf_json ?j"
      by (simp add: u wf_vless_users wf_transport)
    have flow: "wf_json (case get_array ?j ''users'' of
        Some arr \<Rightarrow> jset ''users'' (JArr (map (jset ''flow'' (JStr f)) arr)) ?j | None \<Rightarrow> ?j)" for f
      using j wf_apply_flow [OF j] by (cases "get_array ?j ''users''") (simp_all del: wf_json_simps)
    from v VlessReality j flow show ?thesis
      by (auto simp: build_vless_inbound_def Let_def rbind_Inr_iff ok_or_Inr_iff
          dest!: wf_reality_tls simp del: wf_jobj)
  next
    case Hysteria2
    with v show ?thesis
      by (auto simp: build_hysteria2_inbound_def Let_def rbind_Inr_iff wf_password_users u
          dest!: wf_server_tls)
  next
    case Anytls
    with v show ?thesis
      by (auto simp: build_anytls_inbound_def Let_def rbind_Inr_iff wf_password_users u
          dest!: wf_server_tls split: option.splits)
  qed (use v in simp)
qed

section \<open>Properties\<close>


definition demo_inbound :: "protocol_type \<Rightarrow> json \<Rightarrow> inbound_config" where
  "demo_inbound p s = \<lparr>ic_tag = ''t'', ic_protocol = p, ic_listen = ''::'', ic_port = 443,
     ic_settings = s, ic_tls = None, ic_sniffing = None, ic_core_version = None\<rparr>"

definition demo_reality :: json where
  "demo_reality = jobj [(''tag'', JStr ''v''), (''port'', jnat 443),
     (''reality_dest'', JStr ''example.com:8443''), (''reality_private_key'', JStr ''K'')]"

lemma demo_reality_keys: "reality_keys demo_reality"
  by (simp add: demo_reality_def reality_keys_def get_str_def)


text \<open>
  When a sing-box build fails, the error is the one of the first inbound that cannot be
  skipped, that inbound is vless_xhttp or a vless_reality one that lacks its keys, and every inbound
  before it builds.
\<close>

theorem sb_full_config_error:
  assumes "sb_build_full_config env ins = Inl e"
  shows "\<exists>pre i post. ins = pre @ i # post
           \<and> sb_build_inbound (ic_protocol i) (ic_settings i) (ic_tls i) = Inl e
           \<and> (ic_protocol i = VlessXhttp
               \<or> ic_protocol i = VlessReality \<and> \<not> reality_keys (ic_settings i))
           \<and> is_ok (sb_build_full_config env pre)"
proof -
  from assms have "sb_inbounds ins = Inl e"
    by (cases "sb_inbounds ins") (simp_all add: sb_build_full_config_def Let_def)
  then obtain pre i post where i: "ins = pre @ i # post" "sb_build i = Inl e" "\<not> sb_skip i e"
    "is_ok (sb_inbounds pre)"
    using sb.loop_error by blast
  from i(2,3) sb_skippable_iff [of i] have
    "ic_protocol i = VlessXhttp \<or> ic_protocol i = VlessReality \<and> \<not> reality_keys (ic_settings i)"
    by blast
  with i show ?thesis by (auto simp: sb_build_def sb_full_ok)
qed

theorem sb_full_config_error_witness:
  "\<exists>e. sb_build_full_config (\<lambda>_. None) [demo_inbound VlessXhttp JNull] = Inl e
     \<and> (\<exists>pre i post. [demo_inbound VlessXhttp JNull] = pre @ i # post
          \<and> sb_build_inbound (ic_protocol i) (ic_settings i) (ic_tls i) = Inl e)"
proof -
  have "\<exists>e. sb_build_full_config (\<lambda>_. None) [demo_inbound VlessXhttp JNull] = Inl e"
    by (simp add: sb_build_full_config_def demo_inbound_def)
  then show ?thesis using sb_full_config_error by blast
qed

text \<open>
  The REALITY handshake of a vless inbound goes to the host and port of its destination: for
  a destination \<open>host:port\<close> the server is the text before the last colon, and the port is the
  number after it.
\<close>

theorem sb_reality_handshake:
  assumes "get_str s ''reality_dest'' = Some (host @ CHR '':'' # nat_str port)"
    and "port \<le> u64_max" and "reality_keys s"
  shows "\<exists>v t r h. sb_build_inbound VlessReality s tls = Inr v \<and> jget v ''tls'' = Some t
           \<and> jget t ''reality'' = Some r \<and> jget r ''handshake'' = Some h
           \<and> get_str h ''server'' = Some host \<and> get_u64 h ''server_port'' = Some port"
proof -
  from assms obtain t where t: "build_singbox_reality_tls s tls = Some t"
    using reality_tls_iff [of s tls] by blast
  then have h: "\<exists>r h. jget t ''reality'' = Some r \<and> jget r ''handshake'' = Some h
      \<and> get_str h ''server'' = Some host \<and> get_u64 h ''server_port'' = Some port"
    using assms
    by (auto simp: build_singbox_reality_tls_def bind_eq_Some_conv Let_def jnat_def get_u64_def
        get_str_def rsplit_once_append [OF colon_notin_nat_str] parse_uint_nat_str split: if_splits)
  from assms obtain v where v: "build_vless_inbound s tls = Inr v"
    using build_vless_ok_iff [of s tls] by (auto simp: is_ok_iff)
  with t have "jget v ''tls'' = Some t"
    by (auto simp: build_vless_inbound_def Let_def rbind_Inr_iff jget_jset split: option.split)
  with v h show ?thesis by auto
qed

theorem sb_reality_handshake_witness:
  "\<exists>v t r h. sb_build_inbound VlessReality demo_reality None = Inr v \<and> jget v ''tls'' = Some t
     \<and> jget t ''reality'' = Some r \<and> jget r ''handshake'' = Some h
     \<and> get_str h ''server'' = Some ''example.com'' \<and> get_u64 h ''server_port'' = Some 8443"
proof (rule sb_reality_handshake)
  have "nat_str 8443 = ''8443''"
    by (simp add: nat_str_def base_str.simps digit_char_def)
  then show "get_str demo_reality ''reality_dest'' = Some (''example.com'' @ CHR '':'' # nat_str 8443)"
    by (simp add: demo_reality_def get_str_def)
qed (simp_all add: u64_max_def demo_reality_keys)

text \<open>
  The configuration carries the 1.14 API service exactly when the highest core version that
  an inbound asks for is at least 1.14.0, and 1.14.0 is assumed when none asks for one.
\<close>

theorem sb_full_config_services:
  assumes "sb_build_full_config env ins = Inr cfg"
  shows "jget cfg ''services'' \<noteq> None \<longleftrightarrow> version_gte (effective_singbox_version ins) ''1.14.0''"
  using assms by (rule sb_full_members)

theorem sb_full_config_services_witness:
  "\<exists>cfg. sb_build_full_config (\<lambda>_. None) [] = Inr cfg \<and> jget cfg ''services'' \<noteq> None"
proof -
  obtain cfg where cfg: "sb_build_full_config (\<lambda>_. None) [] = Inr cfg"
    using sb_full_ok [of "\<lambda>_. None" "[]"] by (auto simp: is_ok_iff)
  have "version_gte (effective_singbox_version []) ''1.14.0''"
    by (simp add: effective_singbox_version_def version_gte_def map_filter_simps)
  with sb_full_config_services [OF cfg] cfg show ?thesis by simp
qed

text \<open>
  The builder maps well-formed settings to a well-formed configuration: every object has its
  keys once, in order, and every number fits 64 bits.
\<close>

theorem sb_full_config_wf:
  assumes "\<forall>i \<in> set ins. wf_json (ic_settings i)" and "sb_build_full_config env ins = Inr cfg"
  shows "wf_json cfg"
proof -
  from assms(2) obtain vs where vs: "sb_inbounds ins = Inr vs"
    by (auto simp: sb_build_full_config_def rbind_Inr_iff)
  have "wf_json v" if v: "v \<in> set vs" for v
    by (rule sb.loop_all [OF vs _ v]) (metis assms(1) sb_build_def wf_sb_inbound)
  then have ins: "\<forall>v \<in> set vs. wf_json v" by blast
  have api: "wf_json (build_api_service env)"
    by (cases "rsplit_once (CHR '':'') (singbox_api_listen env)")
       (simp_all add: build_api_service_def split_listen_addr_def wf_listen_port wf_with_secret
          case_prod_beta)
  have exp: "wf_json (build_clash_api_experimental env)" "wf_json (build_legacy_api_services env)"
    by (simp_all add: build_clash_api_experimental_def build_legacy_api_services_def wf_with_secret)
  show ?thesis
    by (simp add: sb_full_cfg_eq [OF assms(2) vs refl] build_singbox_route_def api exp ins)
qed

theorem sb_full_config_wf_witness:
  "\<exists>cfg. sb_build_full_config (\<lambda>_. None) [demo_inbound VlessReality demo_reality] = Inr cfg \<and> wf_json cfg"
proof -
  have "is_ok (sb_build_full_config (\<lambda>_. None) [demo_inbound VlessReality demo_reality])"
    by (simp add: sb_full_ok sb.loop_ok_iff sb_skippable_iff demo_inbound_def demo_reality_keys
        del: sb_inbounds.simps)
  then obtain cfg where cfg:
    "sb_build_full_config (\<lambda>_. None) [demo_inbound VlessReality demo_reality] = Inr cfg"
    by (auto simp: is_ok_iff)
  have "\<forall>i \<in> set [demo_inbound VlessReality demo_reality]. wf_json (ic_settings i)"
    by (simp add: demo_inbound_def demo_reality_def jnat_def u64_max_def)
  from sb_full_config_wf [OF this cfg] cfg show ?thesis by blast
qed

end
