(* ===== verification/MihomoConfig.thy ===== *)
theory MihomoConfig
  imports SingBox
begin

text \<open>
  The mihomo configuration builder (pp-config, mihomo.rs) and the registry of both builders
  (builder.rs). Listeners take their certificate from the agent's managed directory or from explicit
  files; vless users are a list, the users of the password protocols a map from name to password.
\<close>

section \<open>Listeners\<close>

definition mihomo_api_listen :: "env \<Rightarrow> string" where
  "mihomo_api_listen env = unwrap_or (env ''PROXYPANEL_MIHOMO_API_LISTEN'') ''127.0.0.1:9093''"

definition listener_base :: "json \<Rightarrow> string \<Rightarrow> json" where
  "listener_base settings default_name =
     (let port = u64_or settings ''port'' 443
      in jobj [(''name'', JStr (str_or settings ''tag'' default_name)),
               (''listen'', JStr (str_or settings ''listen'' ''0.0.0.0'')),
               (''port'', JStr (nat_str port))])"

fun setting_str :: "json \<Rightarrow> string list \<Rightarrow> string option" where
  "setting_str settings [] = None"
| "setting_str settings (k # ks) = or_else (get_str settings k) (setting_str settings ks)"

definition comma_list :: "string option \<Rightarrow> string list" where
  "comma_list value = comma_pieces (unwrap_or value [])"

definition mh_build_user :: "bool \<Rightarrow> string \<Rightarrow> string \<Rightarrow> string \<Rightarrow> string \<Rightarrow> json" where
  "mh_build_user with_flow default_flow uuid name flow =
     (let user = jobj [(''username'', JStr name), (''uuid'', JStr uuid)];
          effective_flow = (if flow = [] then default_flow else flow)
      in if with_flow \<and> effective_flow \<noteq> [] then jset ''flow'' (JStr effective_flow) user else user)"

definition vless_users :: "json \<Rightarrow> bool \<Rightarrow> json" where
  "vless_users settings with_flow =
     (let default_flow = (if with_flow then unwrap_or (setting_str settings [''flow'']) [] else [])
      in case get_array settings ''clients'' of
           Some clients \<Rightarrow>
             JArr (map (\<lambda>c. mh_build_user with_flow default_flow
                              (unwrap_or (setting_str c [''id'', ''uuid'']) [])
                              (unwrap_or (setting_str c [''email'', ''name'']) [])
                              (unwrap_or (setting_str c [''flow'']) [])) clients)
         | None \<Rightarrow>
             (let uuid = unwrap_or (setting_str settings [''uuid'']) []
              in if uuid = [] then JArr []
                 else JArr [mh_build_user with_flow default_flow uuid [] []]))"

fun password_users_loop :: "json list \<Rightarrow> jmap \<Rightarrow> jmap" where
  "password_users_loop [] m = m"
| "password_users_loop (c # cs) m =
     (let password = unwrap_or (setting_str c [''password'']) []
      in if password = [] then password_users_loop cs m
         else
           (let name = unwrap_or (setting_str c [''name'', ''email'']) [];
                key = (if name = [] then ''user'' @ nat_str (length m + 1) else name)
            in password_users_loop cs (omap_ins key (JStr password) m)))"

definition password_users :: "json \<Rightarrow> json" where
  "password_users settings =
     JObj (case get_array settings ''clients'' of
             Some clients \<Rightarrow> password_users_loop clients []
           | None \<Rightarrow>
               (let password = unwrap_or (setting_str settings [''password'']) []
                in if password \<noteq> [] then omap_ins ''default'' (JStr password) [] else []))"

definition apply_cert_tls :: "json \<Rightarrow> json option \<Rightarrow> json panel_result" where
  "apply_cert_tls listener tls =
     rbind (ok_or tls (Validation ''TLS configuration is required'')) (\<lambda>tls.
       let managed = unwrap_or (setting_str tls [''managed_domain'']) []
       in if managed \<noteq> [] then
            Inr (jset ''private-key'' (JStr (''certs/'' @ managed @ ''.key''))
                  (jset ''certificate'' (JStr (''certs/'' @ managed @ ''.crt'')) listener))
          else
            (let cert = unwrap_or (setting_str tls [''certFile'']) [];
                 key = unwrap_or (setting_str tls [''keyFile'']) []
             in if cert \<noteq> [] \<and> key \<noteq> [] then
                  Inr (jset ''private-key'' (JStr key) (jset ''certificate'' (JStr cert) listener))
                else Inl (Validation ''mihomo TLS requires a managed certificate or certFile+keyFile'')))"

definition build_vless_reality_listener :: "json \<Rightarrow> json panel_result" where
  "build_vless_reality_listener settings =
     (let err = Validation ''VLESS+REALITY requires reality_dest and reality_private_key''
      in rbind (ok_or (opt_filter (\<lambda>s. s \<noteq> []) (setting_str settings [''reality_dest'', ''dest''])) err)
           (\<lambda>dest.
         rbind (ok_or (opt_filter (\<lambda>s. s \<noteq> [])
                         (setting_str settings [''reality_private_key'', ''private_key''])) err)
           (\<lambda>private_key.
         let server_names = comma_list (setting_str settings [''reality_server_names'', ''server_names'']);
             server_names =
               (if server_names = [] then
                  [unwrap_or (map_option fst (rsplit_once (CHR '':'') dest)) dest]
                else server_names);
             short_ids = comma_list (setting_str settings [''reality_short_id'', ''short_id'']);
             listener = listener_base settings ''vless-reality-in'';
             listener = jset ''type'' (JStr ''vless'') listener;
             listener = jset ''users'' (vless_users settings True) listener
         in Inr (jset ''reality-config''
                   (jobj [(''dest'', JStr dest),
                          (''private-key'', JStr private_key),
                          (''server-names'', jstrs server_names),
                          (''short-id'', if short_ids = [] then JArr [JStr []] else jstrs short_ids)])
                   listener))))"

definition build_vless_xhttp_listener :: "json \<Rightarrow> json option \<Rightarrow> json panel_result" where
  "build_vless_xhttp_listener settings tls =
     (let listener = listener_base settings ''vless-xhttp-in'';
          listener = jset ''type'' (JStr ''vless'') listener;
          listener = jset ''users'' (vless_users settings False) listener
      in rbind (apply_cert_tls listener tls) (\<lambda>listener.
           Inr (jset ''xhttp-config''
                  (jobj [(''path'', JStr (unwrap_or (setting_str settings [''xhttp_path'', ''path'']) ''/'')),
                         (''host'', JStr (unwrap_or (setting_str settings [''xhttp_host'', ''host'']) [])),
                         (''mode'', JStr (unwrap_or (setting_str settings [''xhttp_mode'', ''mode''])
                                           ''auto''))])
                  listener)))"

definition build_hysteria2_listener :: "json \<Rightarrow> json option \<Rightarrow> json panel_result" where
  "build_hysteria2_listener settings tls =
     (let listener = listener_base settings ''hy2-in'';
          listener = jset ''type'' (JStr ''hysteria2'') listener;
          listener = jset ''users'' (password_users settings) listener
      in rbind (apply_cert_tls listener tls) (\<lambda>listener.
           let listener = jset ''alpn'' (JArr [JStr ''h3'']) listener;
               listener = jset ''up'' (JStr (nat_str (u64_or settings ''up_mbps'' 100))) listener;
               listener = jset ''down'' (JStr (nat_str (u64_or settings ''down_mbps'' 100))) listener;
               obfs_type = unwrap_or (setting_str settings [''obfs_type'']) ''none'';
               obfs_password = unwrap_or (setting_str settings [''obfs_password'']) [];
               listener =
                 (if obfs_type \<noteq> ''none'' \<and> obfs_password \<noteq> [] then
                    jset ''obfs-password'' (JStr obfs_password) (jset ''obfs'' (JStr obfs_type) listener)
                  else listener)
           in Inr (case opt_filter (\<lambda>s. s \<noteq> []) (setting_str settings [''masquerade'']) of
                     Some masquerade \<Rightarrow> jset ''masquerade'' (JStr masquerade) listener
                   | None \<Rightarrow> listener)))"

definition build_anytls_listener :: "json \<Rightarrow> json option \<Rightarrow> json panel_result" where
  "build_anytls_listener settings tls =
     (let listener = listener_base settings ''anytls-in'';
          listener = jset ''type'' (JStr ''anytls'') listener;
          listener = jset ''users'' (password_users settings) listener
      in apply_cert_tls listener tls)"

fun mh_build_inbound :: "protocol_type \<Rightarrow> json \<Rightarrow> json option \<Rightarrow> json panel_result" where
  "mh_build_inbound VlessReality settings tls = build_vless_reality_listener settings"
| "mh_build_inbound VlessXhttp settings tls = build_vless_xhttp_listener settings tls"
| "mh_build_inbound Hysteria2 settings tls = build_hysteria2_listener settings tls"
| "mh_build_inbound Anytls settings tls = build_anytls_listener settings tls"

section \<open>The full configuration\<close>

fun mh_listeners :: "inbound_config list \<Rightarrow> json list panel_result" where
  "mh_listeners [] = Inr []"
| "mh_listeners (i # is) =
     (case mh_build_inbound (ic_protocol i) (ic_settings i) (ic_tls i) of
        Inr v \<Rightarrow> rbind (mh_listeners is) (\<lambda>vs. Inr (v # vs))
      | Inl e \<Rightarrow>
          if ic_protocol i \<in> {VlessXhttp, Hysteria2, Anytls}
             \<and> str_contains ''TLS'' (panel_error_str e)
          then mh_listeners is
          else Inl e)"

definition mh_build_full_config :: "env \<Rightarrow> inbound_config list \<Rightarrow> json panel_result" where
  "mh_build_full_config env inbounds =
     rbind (mh_listeners inbounds) (\<lambda>listeners.
       let config = jobj [(''log-level'', JStr ''warning''), (''mode'', JStr ''rule''),
                          (''allow-lan'', JBool False),
                          (''external-controller'', JStr (mihomo_api_listen env)),
                          (''listeners'', JArr listeners),
                          (''rules'', JArr [JStr ''MATCH,DIRECT''])];
           secret = unwrap_or (env ''PROXYPANEL_MIHOMO_API_SECRET'') []
       in Inr (if secret \<noteq> [] then jset ''secret'' (JStr secret) config else config))"

section \<open>The registry\<close>

text \<open>
  \<open>BuilderRegistry\<close>: the registered builders in order, each with the core it builds for (the
  part of the \<open>ConfigBuilder\<close> trait that \<open>get\<close> and its callers use).
\<close>

record config_builder =
  cb_core_type :: core_type
  cb_build_full_config :: "inbound_config list \<Rightarrow> json panel_result"

type_synonym builder_registry = "config_builder list"

definition registry_register :: "builder_registry \<Rightarrow> config_builder \<Rightarrow> builder_registry" where
  "registry_register reg b = reg @ [b]"

definition registry_get :: "builder_registry \<Rightarrow> core_type \<Rightarrow> config_builder option" where
  "registry_get reg core = find (\<lambda>b. cb_core_type b = core) reg"

definition default_registry :: "env \<Rightarrow> builder_registry" where
  "default_registry env =
     registry_register
       (registry_register []
          \<lparr>cb_core_type = SingBox, cb_build_full_config = sb_build_full_config env\<rparr>)
       \<lparr>cb_core_type = Mihomo, cb_build_full_config = mh_build_full_config env\<rparr>"

definition build_full_config :: "env \<Rightarrow> core_type \<Rightarrow> inbound_config list \<Rightarrow> json panel_result" where
  "build_full_config env core ins =
     rbind (ok_or (registry_get (default_registry env) core)
              (Config (''no builder registered for '' @ core_debug core)))
       (\<lambda>b. cb_build_full_config b ins)"

section \<open>Lemmas\<close>

definition mh_skip :: "inbound_config \<Rightarrow> panel_error \<Rightarrow> bool" where
  "mh_skip i e \<longleftrightarrow> ic_protocol i \<in> {VlessXhttp, Hysteria2, Anytls}
                   \<and> str_contains ''TLS'' (panel_error_str e)"

definition mh_build :: "inbound_config \<Rightarrow> json panel_result" where
  "mh_build i = mh_build_inbound (ic_protocol i) (ic_settings i) (ic_tls i)"

interpretation mh: inbound_loop mh_build mh_skip mh_listeners
  by unfold_locales (simp_all add: mh_build_def mh_skip_def split: sum.split)

lemma build_full_config_simps [simp]:
  "build_full_config env SingBox ins = sb_build_full_config env ins"
  "build_full_config env Mihomo ins = mh_build_full_config env ins"
  by (simp_all add: build_full_config_def registry_get_def default_registry_def registry_register_def)

lemma reality_listener_ok_iff: "is_ok (build_vless_reality_listener s) \<longleftrightarrow> reality_keys s"
proof -
  have *: "(\<exists>x. opt_filter (\<lambda>s. s \<noteq> []) v = Some x) \<longleftrightarrow> unwrap_or v [] \<noteq> []" for v :: "string option"
    by (cases v) auto
  show ?thesis
    by (simp add: build_vless_reality_listener_def Let_def is_ok_rbind ok_or_Inr_iff
        reality_keys_def or_else_def * split: option.split)
qed

lemma cert_tls_error:
  "apply_cert_tls l tls = Inl e \<Longrightarrow> str_contains ''TLS'' (panel_error_str e)"
  by (cases tls) (auto simp: apply_cert_tls_def Let_def split: if_splits)

lemma mh_skippable_iff:
  "(\<forall>e. mh_build i = Inl e \<longrightarrow> mh_skip i e) \<longleftrightarrow>
   (ic_protocol i = VlessReality \<longrightarrow> reality_keys (ic_settings i))"
proof (cases "ic_protocol i")
  case VlessReality
  have "(\<forall>e. build_vless_reality_listener (ic_settings i) \<noteq> Inl e)
        \<longleftrightarrow> is_ok (build_vless_reality_listener (ic_settings i))"
    by (cases "build_vless_reality_listener (ic_settings i)") auto
  with VlessReality show ?thesis
    by (simp add: mh_build_def mh_skip_def reality_listener_ok_iff)
qed (auto simp: mh_build_def mh_skip_def build_vless_xhttp_listener_def build_hysteria2_listener_def
      build_anytls_listener_def Let_def rbind_Inl_iff dest: cert_tls_error)

lemma mh_full_ok: "is_ok (mh_build_full_config env ins) \<longleftrightarrow> is_ok (mh_listeners ins)"
  by (cases "mh_listeners ins") (simp_all add: mh_build_full_config_def Let_def)

lemma mh_full_members:
  assumes "mh_build_full_config env ins = Inr cfg"
  obtains vs where "mh_listeners ins = Inr vs" "jget cfg ''listeners'' = Some (JArr vs)"
    "jget cfg ''rules'' = Some (JArr [JStr ''MATCH,DIRECT''])" "is_obj cfg"
    "jget cfg ''inbounds'' = None" "jget cfg ''proxies'' = None" "jget cfg ''rule-providers'' = None"
proof -
  from assms obtain vs where vs: "mh_listeners ins = Inr vs"
    by (auto simp: mh_build_full_config_def rbind_Inr_iff)
  from assms vs show ?thesis
    by (intro that [OF vs]) (auto simp: mh_build_full_config_def Let_def split: if_splits)
qed

section \<open>Properties\<close>

text \<open>
  A mihomo configuration is built exactly when every vless_reality inbound has a destination
  and a private key, and its listeners are then those that could be built, in order.
\<close>

theorem mh_full_config_result:
  "(is_ok (mh_build_full_config env ins) \<longleftrightarrow>
      (\<forall>i \<in> set ins. ic_protocol i = VlessReality \<longrightarrow> reality_keys (ic_settings i)))
   \<and> (\<forall>cfg. mh_build_full_config env ins = Inr cfg \<longrightarrow>
        get_array cfg ''listeners'' = Some (List.map_filter
          (\<lambda>i. ok_of (mh_build_inbound (ic_protocol i) (ic_settings i) (ic_tls i))) ins))"
proof (intro conjI allI impI)
  show "is_ok (mh_build_full_config env ins) \<longleftrightarrow>
      (\<forall>i \<in> set ins. ic_protocol i = VlessReality \<longrightarrow> reality_keys (ic_settings i))"
    by (simp add: mh_full_ok mh.loop_ok_iff mh_skippable_iff)
next
  fix cfg
  assume "mh_build_full_config env ins = Inr cfg"
  then obtain vs where "mh_listeners ins = Inr vs" "jget cfg ''listeners'' = Some (JArr vs)"
    by (rule mh_full_members)
  then show "get_array cfg ''listeners'' = Some (List.map_filter
      (\<lambda>i. ok_of (mh_build_inbound (ic_protocol i) (ic_settings i) (ic_tls i))) ins)"
    using mh.loop_value by (auto simp: get_array_def mh_build_def)
qed

theorem mh_full_config_result_witness:
  "is_ok (mh_build_full_config (\<lambda>_. None)
     [demo_inbound VlessReality demo_reality, demo_inbound Hysteria2 demo_reality])"
  using mh_full_config_result [of "\<lambda>_. None"
      "[demo_inbound VlessReality demo_reality, demo_inbound Hysteria2 demo_reality]"]
  by (simp add: demo_inbound_def demo_reality_keys)

text \<open>
  Whatever inbounds the sing-box builder accepts, the mihomo builder accepts too, through the
  registry both are in.
\<close>

theorem registry_sb_implies_mh:
  assumes "is_ok (build_full_config env SingBox ins)"
  shows "is_ok (build_full_config env Mihomo ins)"
  using assms
  by (auto simp: sb_full_ok mh_full_ok sb.loop_ok_iff mh.loop_ok_iff sb_skippable_iff mh_skippable_iff)

theorem registry_sb_implies_mh_witness:
  "is_ok (build_full_config (\<lambda>_. None) Mihomo [demo_inbound VlessReality demo_reality])"
proof (rule registry_sb_implies_mh)
  show "is_ok (build_full_config (\<lambda>_. None) SingBox [demo_inbound VlessReality demo_reality])"
    by (simp add: sb_full_ok sb.loop_ok_iff sb_skippable_iff demo_inbound_def demo_reality_keys
        del: sb_inbounds.simps)
qed

text \<open>The name and the password the builder reads from a client entry.\<close>

definition mh_client_name :: "json \<Rightarrow> string" where
  "mh_client_name c = unwrap_or (setting_str c [''name'', ''email'']) []"

definition mh_client_password :: "json \<Rightarrow> string" where
  "mh_client_password c = unwrap_or (setting_str c [''password'']) []"

lemma password_users_loop_other:
  "\<forall>c \<in> set cs. mh_client_name c \<noteq> [] \<and> mh_client_name c \<noteq> k \<Longrightarrow>
   map_of (password_users_loop cs m) k = map_of m k"
  by (induction cs m rule: password_users_loop.induct)
     (auto simp: Let_def mh_client_name_def map_of_omap_ins)

lemma password_users_loop_look:
  "distinct (map mh_client_name cs) \<Longrightarrow>
   \<forall>c \<in> set cs. mh_client_name c \<noteq> [] \<and> mh_client_password c \<noteq> [] \<Longrightarrow> c \<in> set cs \<Longrightarrow>
   map_of (password_users_loop cs m) (mh_client_name c) = Some (JStr (mh_client_password c))"
proof (induction cs m rule: password_users_loop.induct)
  case (2 d cs m)
  have step: "password_users_loop (d # cs) m
      = password_users_loop cs (omap_ins (mh_client_name d) (JStr (mh_client_password d)) m)"
    using 2(4) by (simp add: Let_def mh_client_name_def mh_client_password_def)
  show ?case
  proof (cases "c = d")
    case True
    have "\<forall>c' \<in> set cs. mh_client_name c' \<noteq> [] \<and> mh_client_name c' \<noteq> mh_client_name d"
      using 2(3,4) by (auto simp: image_iff)
    with True show ?thesis
      by (simp add: step password_users_loop_other map_of_omap_ins del: password_users_loop.simps)
  next
    case False
    with 2(5) have c: "c \<in> set cs" by simp
    from 2(3,4) have "distinct (map mh_client_name cs)"
      "\<forall>c \<in> set cs. mh_client_name c \<noteq> [] \<and> mh_client_password c \<noteq> []" by auto
    note IH = 2(2) [OF refl _ refl refl this c]
    have "unwrap_or (setting_str d [''password'']) [] \<noteq> []"
      "unwrap_or (setting_str d [''name'', ''email'']) [] \<noteq> []"
      using 2(4) by (auto simp: mh_client_name_def mh_client_password_def)
    with IH show ?thesis
      by (simp add: step mh_client_name_def mh_client_password_def del: password_users_loop.simps)
  qed
qed simp

text \<open>
  A hysteria2 or anytls listener of mihomo authorises every client under its own password when
  the client names are non-empty and pairwise distinct and no password is empty.
\<close>

theorem password_users_all:
  assumes "get_array s ''clients'' = Some cs" and "distinct (map mh_client_name cs)"
    and "\<forall>c \<in> set cs. mh_client_name c \<noteq> [] \<and> mh_client_password c \<noteq> []"
  shows "\<forall>c \<in> set cs. get_str (password_users s) (mh_client_name c) = Some (mh_client_password c)"
  using assms password_users_loop_look [OF assms(2,3)]
  by (simp add: password_users_def get_str_def)

definition demo_client :: "string \<Rightarrow> string \<Rightarrow> json" where
  "demo_client n p = jobj [(''name'', JStr n), (''password'', JStr p)]"

lemma demo_client_read: "mh_client_name (demo_client n p) = n" "mh_client_password (demo_client n p) = p"
  by (simp_all add: demo_client_def mh_client_name_def mh_client_password_def get_str_def)

theorem password_users_all_witness:
  "get_str (password_users (jobj [(''clients'', JArr [demo_client ''a'' ''x'', demo_client ''b'' ''y''])]))
     ''b'' = Some ''y''"
proof -
  let ?cs = "[demo_client ''a'' ''x'', demo_client ''b'' ''y'']"
  let ?s = "jobj [(''clients'', JArr ?cs)]"
  have "get_array ?s ''clients'' = Some ?cs" by (simp add: get_array_def)
  from password_users_all [OF this] show ?thesis by (simp add: demo_client_read)
qed

text \<open>
  Two clients of one name share one entry of a mihomo password listener, and only the later
  one's password is kept: the earlier client is not authorised.
\<close>

theorem password_users_same_name:
  assumes "get_array s ''clients'' = Some [c1, c2]" and "mh_client_name c1 = mh_client_name c2"
    and "mh_client_name c2 \<noteq> []" and "mh_client_password c1 \<noteq> []" and "mh_client_password c2 \<noteq> []"
  shows "password_users s = JObj [(mh_client_name c2, JStr (mh_client_password c2))]"
  using assms
  by (simp add: password_users_def Let_def mh_client_name_def mh_client_password_def)

theorem password_users_same_name_witness:
  "password_users (jobj [(''clients'', JArr [demo_client ''a'' ''x'', demo_client ''a'' ''y''])])
     = JObj [(''a'', JStr ''y'')]"
proof -
  let ?s = "jobj [(''clients'', JArr [demo_client ''a'' ''x'', demo_client ''a'' ''y''])]"
  have "get_array ?s ''clients'' = Some [demo_client ''a'' ''x'', demo_client ''a'' ''y'']"
    by (simp add: get_array_def)
  from password_users_same_name [OF this] show ?thesis by (simp add: demo_client_read)
qed

end
