(* ===== verification/RelayOutbound.thy ===== *)
theory RelayOutbound
  imports MihomoConfig
begin

text \<open>
  The outbound of a relay hop for each core (pp-config, relay.rs): the entry node dials the exit
  binding's protocol with the relay client's credential.
\<close>

record relay_hop =
  rh_tag :: string
  rh_protocol :: protocol_type
  rh_settings :: json
  rh_server :: string
  rh_port :: nat
  rh_credential :: string
  rh_tls_sni :: "string option"

section \<open>Reading the exit settings\<close>

text \<open>The first non-empty string among several keys.\<close>

fun str_setting :: "json \<Rightarrow> string list \<Rightarrow> string option" where
  "str_setting settings [] = None"
| "str_setting settings (k # ks) =
     (case get_str settings k of
        Some s \<Rightarrow> if s \<noteq> [] then Some s else str_setting settings ks
      | None \<Rightarrow> str_setting settings ks)"

text \<open>
  The first key that holds a non-empty string (its first comma-separated piece, trimmed) or an
  array with a non-empty string.
\<close>

fun first_string_setting :: "json \<Rightarrow> string list \<Rightarrow> string option" where
  "first_string_setting settings [] = None"
| "first_string_setting settings (k # ks) =
     (case jget settings k of
        Some (JStr s) \<Rightarrow>
          if s \<noteq> [] then
            Some (trim (unwrap_or (first_of (split_on (CHR '','') s)) s))
          else first_string_setting settings ks
      | Some (JArr arr) \<Rightarrow>
          (case find (\<lambda>s. s \<noteq> []) (List.map_filter as_str arr) of
             Some s \<Rightarrow> Some s
           | None \<Rightarrow> first_string_setting settings ks)
      | _ \<Rightarrow> first_string_setting settings ks)"

section \<open>Outbounds\<close>

definition build_singbox_outbound :: "relay_hop \<Rightarrow> json panel_result" where
  "build_singbox_outbound hop =
     (case rh_protocol hop of
        VlessReality \<Rightarrow>
          rbind (ok_or (str_setting (rh_settings hop) [''public_key''])
                   (Config ''vless_reality relay requires settings.public_key'')) (\<lambda>public_key.
          rbind (ok_or (first_string_setting (rh_settings hop) [''reality_server_names'', ''server_names''])
                   (Config ''vless_reality relay requires server_names'')) (\<lambda>server_name.
          let short_id = unwrap_or (first_string_setting (rh_settings hop)
                                      [''reality_short_id'', ''short_id'']) [];
              flow = unwrap_or (str_setting (rh_settings hop) [''flow'']) [];
              reality = jobj [(''enabled'', JBool True), (''public_key'', JStr public_key)];
              reality = (if short_id \<noteq> [] then jset ''short_id'' (JStr short_id) reality else reality);
              tls = jobj [(''enabled'', JBool True), (''server_name'', JStr server_name),
                          (''reality'', reality)];
              out = jobj [(''type'', JStr ''vless''), (''tag'', JStr (rh_tag hop)),
                          (''server'', JStr (rh_server hop)), (''server_port'', jnat (rh_port hop)),
                          (''uuid'', JStr (rh_credential hop)), (''tls'', tls)]
          in Inr (if flow \<noteq> [] then jset ''flow'' (JStr flow) out else out)))
      | Hysteria2 \<Rightarrow>
          rbind (ok_or (rh_tls_sni hop) (Config ''hysteria2 relay requires TLS SNI'')) (\<lambda>sni.
          let out = jobj [(''type'', JStr ''hysteria2''), (''tag'', JStr (rh_tag hop)),
                          (''server'', JStr (rh_server hop)), (''server_port'', jnat (rh_port hop)),
                          (''password'', JStr (rh_credential hop)),
                          (''tls'', jobj [(''enabled'', JBool True), (''server_name'', JStr sni)]),
                          (''up_mbps'', jnat (u64_or (rh_settings hop) ''up_mbps'' 100)),
                          (''down_mbps'', jnat (u64_or (rh_settings hop) ''down_mbps'' 100))];
              obfs_type = unwrap_or (str_setting (rh_settings hop) [''obfs_type'']) ''none'';
              obfs_password = unwrap_or (str_setting (rh_settings hop) [''obfs_password'']) []
          in Inr (if obfs_type \<noteq> ''none'' \<and> obfs_password \<noteq> [] then
                    jset ''obfs'' (jobj [(''type'', JStr obfs_type),
                                         (''password'', JStr obfs_password)]) out
                  else out))
      | Anytls \<Rightarrow>
          rbind (ok_or (rh_tls_sni hop) (Config ''anytls relay requires TLS SNI'')) (\<lambda>sni.
          Inr (jobj [(''type'', JStr ''anytls''), (''tag'', JStr (rh_tag hop)),
                     (''server'', JStr (rh_server hop)), (''server_port'', jnat (rh_port hop)),
                     (''password'', JStr (rh_credential hop)),
                     (''tls'', jobj [(''enabled'', JBool True), (''server_name'', JStr sni)])]))
      | VlessXhttp \<Rightarrow>
          Inl (Config (''protocol '' @ protocol_debug (rh_protocol hop) @ '' cannot be a relay exit'')))"

definition build_mihomo_proxy :: "relay_hop \<Rightarrow> json panel_result" where
  "build_mihomo_proxy hop =
     (case rh_protocol hop of
        VlessReality \<Rightarrow>
          rbind (ok_or (str_setting (rh_settings hop) [''public_key''])
                   (Config ''vless_reality relay requires settings.public_key'')) (\<lambda>public_key.
          rbind (ok_or (first_string_setting (rh_settings hop) [''reality_server_names'', ''server_names''])
                   (Config ''vless_reality relay requires server_names'')) (\<lambda>server_name.
          let short_id = unwrap_or (first_string_setting (rh_settings hop)
                                      [''reality_short_id'', ''short_id'']) [];
              flow = unwrap_or (str_setting (rh_settings hop) [''flow'']) [];
              reality_opts = jobj [(''public-key'', JStr public_key)];
              reality_opts = (if short_id \<noteq> [] then jset ''short-id'' (JStr short_id) reality_opts
                              else reality_opts);
              out = jobj [(''name'', JStr (rh_tag hop)), (''type'', JStr ''vless''),
                          (''server'', JStr (rh_server hop)), (''port'', jnat (rh_port hop)),
                          (''uuid'', JStr (rh_credential hop)), (''network'', JStr ''tcp''),
                          (''tls'', JBool True), (''servername'', JStr server_name),
                          (''reality-opts'', reality_opts)]
          in Inr (if flow \<noteq> [] then jset ''flow'' (JStr flow) out else out)))
      | Hysteria2 \<Rightarrow>
          rbind (ok_or (rh_tls_sni hop) (Config ''hysteria2 relay requires TLS SNI'')) (\<lambda>sni.
          let out = jobj [(''name'', JStr (rh_tag hop)), (''type'', JStr ''hysteria2''),
                          (''server'', JStr (rh_server hop)), (''port'', jnat (rh_port hop)),
                          (''password'', JStr (rh_credential hop)), (''sni'', JStr sni),
                          (''up'', jnat (u64_or (rh_settings hop) ''up_mbps'' 100)),
                          (''down'', jnat (u64_or (rh_settings hop) ''down_mbps'' 100))];
              obfs_type = unwrap_or (str_setting (rh_settings hop) [''obfs_type'']) ''none'';
              obfs_password = unwrap_or (str_setting (rh_settings hop) [''obfs_password'']) []
          in Inr (if obfs_type \<noteq> ''none'' \<and> obfs_password \<noteq> [] then
                    jset ''obfs-password'' (JStr obfs_password) (jset ''obfs'' (JStr obfs_type) out)
                  else out))
      | Anytls \<Rightarrow>
          rbind (ok_or (rh_tls_sni hop) (Config ''anytls relay requires TLS SNI'')) (\<lambda>sni.
          Inr (jobj [(''name'', JStr (rh_tag hop)), (''type'', JStr ''anytls''),
                     (''server'', JStr (rh_server hop)), (''port'', jnat (rh_port hop)),
                     (''password'', JStr (rh_credential hop)), (''sni'', JStr sni)]))
      | VlessXhttp \<Rightarrow>
          Inl (Config (''protocol '' @ protocol_debug (rh_protocol hop) @ '' cannot be a relay exit'')))"

section \<open>Lemmas\<close>

text \<open>What a hop needs before either core can dial it.\<close>

definition hop_ok :: "relay_hop \<Rightarrow> bool" where
  "hop_ok hop =
     (case rh_protocol hop of
        VlessReality \<Rightarrow>
          str_setting (rh_settings hop) [''public_key''] \<noteq> None
          \<and> first_string_setting (rh_settings hop) [''reality_server_names'', ''server_names''] \<noteq> None
      | VlessXhttp \<Rightarrow> False
      | _ \<Rightarrow> rh_tls_sni hop \<noteq> None)"

lemma singbox_outbound_ok_iff: "is_ok (build_singbox_outbound hop) \<longleftrightarrow> hop_ok hop"
  by (cases "rh_protocol hop")
     (simp_all add: build_singbox_outbound_def hop_ok_def is_ok_rbind ok_or_Inr_iff Let_def)

lemma mihomo_proxy_ok_iff: "is_ok (build_mihomo_proxy hop) \<longleftrightarrow> hop_ok hop"
  by (cases "rh_protocol hop")
     (simp_all add: build_mihomo_proxy_def hop_ok_def is_ok_rbind ok_or_Inr_iff Let_def)

definition hop_secret_key :: "relay_hop \<Rightarrow> string" where
  "hop_secret_key hop = (if rh_protocol hop = VlessReality then ''uuid'' else ''password'')"

lemma singbox_outbound_members:
  "build_singbox_outbound hop = Inr out \<Longrightarrow>
   get_str out ''tag'' = Some (rh_tag hop) \<and> get_str out ''server'' = Some (rh_server hop)
   \<and> get_u64 out ''server_port'' = Some (rh_port hop)
   \<and> get_str out (hop_secret_key hop) = Some (rh_credential hop)"
  by (cases "rh_protocol hop")
     (auto simp: build_singbox_outbound_def rbind_Inr_iff Let_def get_str_def get_u64_def jnat_def
        hop_secret_key_def)

lemma mihomo_proxy_members:
  "build_mihomo_proxy hop = Inr out \<Longrightarrow>
   get_str out ''name'' = Some (rh_tag hop) \<and> get_str out ''server'' = Some (rh_server hop)
   \<and> get_u64 out ''port'' = Some (rh_port hop)
   \<and> get_str out (hop_secret_key hop) = Some (rh_credential hop)"
  by (cases "rh_protocol hop")
     (auto simp: build_mihomo_proxy_def rbind_Inr_iff Let_def get_str_def get_u64_def jnat_def
        hop_secret_key_def)

section \<open>Properties\<close>

text \<open>
  C2: Both cores build a relay hop in the same cases, and what they build dials the same server
  and port with the same credential, under the hop's tag.
\<close>

theorem relay_outbounds_agree:
  "is_ok (build_singbox_outbound hop) = is_ok (build_mihomo_proxy hop)
   \<and> (\<forall>sb mh. build_singbox_outbound hop = Inr sb \<longrightarrow> build_mihomo_proxy hop = Inr mh \<longrightarrow>
        get_str sb ''tag'' = get_str mh ''name'' \<and> get_str sb ''server'' = get_str mh ''server''
        \<and> get_u64 sb ''server_port'' = get_u64 mh ''port''
        \<and> get_str sb (hop_secret_key hop) = Some (rh_credential hop)
        \<and> get_str mh (hop_secret_key hop) = Some (rh_credential hop))"
  using singbox_outbound_members mihomo_proxy_members
  by (fastforce simp: singbox_outbound_ok_iff mihomo_proxy_ok_iff)

definition demo_hop :: relay_hop where
  "demo_hop = \<lparr>rh_tag = ''relay-1'', rh_protocol = Anytls, rh_settings = jobj [],
     rh_server = ''exit'', rh_port = 443, rh_credential = ''cred'', rh_tls_sni = Some ''sni''\<rparr>"

theorem relay_outbounds_agree_witness:
  "\<exists>sb mh. build_singbox_outbound demo_hop = Inr sb \<and> build_mihomo_proxy demo_hop = Inr mh
     \<and> get_str sb ''tag'' = get_str mh ''name'' \<and> get_u64 sb ''server_port'' = get_u64 mh ''port''"
proof -
  have "is_ok (build_singbox_outbound demo_hop)" "is_ok (build_mihomo_proxy demo_hop)"
    by (simp_all add: singbox_outbound_ok_iff mihomo_proxy_ok_iff hop_ok_def demo_hop_def)
  then show ?thesis
    using relay_outbounds_agree [of demo_hop] by (auto simp: is_ok_iff)
qed

text \<open>
  A relay hop can be built exactly when its exit can be dialled: for vless_reality a public key
  and a server name in the exit settings, for hysteria2 and anytls a TLS server name, and never for
  vless_xhttp.
\<close>

theorem relay_outbound_ok:
  "is_ok (build_singbox_outbound hop) =
     (case rh_protocol hop of
        VlessReality \<Rightarrow>
          str_setting (rh_settings hop) [''public_key''] \<noteq> None
          \<and> first_string_setting (rh_settings hop) [''reality_server_names'', ''server_names''] \<noteq> None
      | VlessXhttp \<Rightarrow> False
      | _ \<Rightarrow> rh_tls_sni hop \<noteq> None)"
  by (simp add: singbox_outbound_ok_iff hop_ok_def)

end
