(* ===== verification/Floats.thy ===== *)
theory Floats
  imports RelayOutbound
begin

text \<open>
  The floating-point arithmetic the hub counts traffic with (\<open>f32\<close> in agent_service.rs, \<open>f64\<close> in
  rate_limiter.rs): a finite value \<open>m * 2 ^ e\<close>, each operation rounding to \<open>p\<close> significant bits, to
  the nearest value, ties to even. Infinities, NaN and the loss of bits below the normal range are
  left out: an infinite product saturates as a huge one does when it is cast back to an integer,
  and a subnormal one is cast to 0 as a tiny one is.
\<close>

datatype fl = Fl int int

fun bit_len :: "nat \<Rightarrow> nat" where
  "bit_len n = (if n = 0 then 0 else Suc (bit_len (n div 2)))"

declare bit_len.simps [simp del]

text \<open>The mantissa shifted right by \<open>s\<close> bits, rounded half to even.\<close>

definition round_shift :: "nat \<Rightarrow> nat \<Rightarrow> nat" where
  "round_shift s m =
     (let q = m div 2 ^ s; r = m mod 2 ^ s
      in if 2 * r < 2 ^ s then q
         else if 2 * r > 2 ^ s then q + 1
         else if even q then q else q + 1)"

definition fl_round :: "nat \<Rightarrow> fl \<Rightarrow> fl" where
  "fl_round p x =
     (case x of Fl m e \<Rightarrow>
        let a = nat \<bar>m\<bar>; b = bit_len a
        in if b \<le> p then Fl m e
           else Fl (sgn m * int (round_shift (b - p) a)) (e + int (b - p)))"

definition fl_mul :: "nat \<Rightarrow> fl \<Rightarrow> fl \<Rightarrow> fl" where
  "fl_mul p x y = (case (x, y) of (Fl m e, Fl n f) \<Rightarrow> fl_round p (Fl (m * n) (e + f)))"

text \<open>\<open>n as f32\<close>, and \<open>x as i64\<close>: towards zero, saturating.\<close>

definition fl_of_int :: "nat \<Rightarrow> int \<Rightarrow> fl" where
  "fl_of_int p n = fl_round p (Fl n 0)"

definition fl_to_i64 :: "fl \<Rightarrow> int" where
  "fl_to_i64 x =
     (case x of Fl m e \<Rightarrow>
        sat64 (if 0 \<le> e then m * 2 ^ nat e else sgn m * (\<bar>m\<bar> div 2 ^ nat (- e))))"

section \<open>Lemmas\<close>

lemma bit_len_0: "bit_len 0 = 0"
  by (subst bit_len.simps) simp

lemma bit_len_less: "n < 2 ^ bit_len n"
proof (induction n rule: bit_len.induct)
  case (1 n)
  show ?case
  proof (cases "n = 0")
    case False
    with 1 have "n div 2 < 2 ^ bit_len (n div 2)" by simp
    then have "n < 2 * 2 ^ bit_len (n div 2)" by linarith
    with False show ?thesis by (subst bit_len.simps) simp
  qed simp
qed

lemma bit_len_ge: "n \<noteq> 0 \<Longrightarrow> 2 ^ (bit_len n - 1) \<le> n"
proof (induction n rule: bit_len.induct)
  case (1 n)
  show ?case
  proof (cases "n div 2 = 0")
    case True
    with 1(2) show ?thesis by (subst bit_len.simps) (simp add: bit_len.simps)
  next
    case False
    with 1 have IH: "2 ^ (bit_len (n div 2) - 1) \<le> n div 2" by simp
    from False have "bit_len (n div 2) \<noteq> 0" by (subst bit_len.simps) simp
    then have "(2::nat) ^ bit_len (n div 2) = 2 * 2 ^ (bit_len (n div 2) - 1)"
      by (cases "bit_len (n div 2)") simp_all
    with IH have "2 ^ bit_len (n div 2) \<le> n" by linarith
    with 1(2) show ?thesis by (subst bit_len.simps) simp
  qed
qed

lemma bit_len_le: "n < 2 ^ p \<Longrightarrow> bit_len n \<le> p"
proof (rule ccontr)
  assume n: "n < 2 ^ p" and "\<not> bit_len n \<le> p"
  then have "p \<le> bit_len n - 1" "n \<noteq> 0"
    by (auto simp: bit_len_0 intro!: Nat.gr0I)
  then have "(2::nat) ^ p \<le> 2 ^ (bit_len n - 1)" by simp
  with bit_len_ge [OF \<open>n \<noteq> 0\<close>] n show False by linarith
qed

lemma fl_round_exact: "\<bar>m\<bar> < 2 ^ p \<Longrightarrow> fl_round p (Fl m e) = Fl m e"
proof -
  assume "\<bar>m\<bar> < 2 ^ p"
  then have "nat \<bar>m\<bar> < 2 ^ p" by (simp add: nat_less_iff)
  from bit_len_le [OF this] show ?thesis by (simp add: fl_round_def)
qed

text \<open>Rounding moves a value by at most half a unit of its last place.\<close>

lemma round_shift_near:
  "2 * \<bar>int (round_shift s m) * 2 ^ s - int m\<bar> \<le> 2 ^ s"
proof -
  let ?q = "int (m div 2 ^ s)" and ?r = "int (m mod 2 ^ s)"
  have "int m = int (m div 2 ^ s * 2 ^ s + m mod 2 ^ s)" by (simp only: div_mult_mod_eq)
  also have "\<dots> = ?q * 2 ^ s + ?r" by (simp only: of_nat_add of_nat_mult of_nat_power of_nat_numeral)
  finally have m: "int m = ?q * 2 ^ s + ?r" .
  have "int (m mod 2 ^ s) < int (2 ^ s)" by (simp only: of_nat_less_iff) simp
  then have r: "0 \<le> ?r" "?r < 2 ^ s" by simp_all
  have "int (2 * (m mod 2 ^ s)) < int (2 ^ s) \<longleftrightarrow> 2 * (m mod 2 ^ s) < 2 ^ s"
    "int (2 ^ s) < int (2 * (m mod 2 ^ s)) \<longleftrightarrow> 2 ^ s < 2 * (m mod 2 ^ s)"
    by (rule of_nat_less_iff)+
  then have lt: "2 * (m mod 2 ^ s) < 2 ^ s \<longleftrightarrow> 2 * ?r < 2 ^ s"
    "2 * (m mod 2 ^ s) > 2 ^ s \<longleftrightarrow> 2 * ?r > 2 ^ s"
    by simp_all
  have "int (round_shift s m) = ?q \<or> int (round_shift s m) = ?q + 1" by (simp add: round_shift_def Let_def)
  moreover have "2 * ?r \<le> 2 ^ s" if "int (round_shift s m) = ?q"
    using that lt by (auto simp: round_shift_def Let_def not_less split: if_splits)
  moreover have "2 ^ s \<le> 2 * ?r" if "int (round_shift s m) = ?q + 1"
    using that lt by (auto simp: round_shift_def Let_def not_less split: if_splits)
  ultimately show ?thesis
    using r by (auto simp: m algebra_simps)
qed

end
