(* ===== verification/Db.thy ===== *)
theory Db
  imports Floats
begin

text \<open>
  The database the hub works on (pp-db, entities): one record per row type and one list per table.
  A query returns the rows of its table that its filters keep, in the table's order (the code gives
  no order, so nothing below depends on which one it is beyond its being fixed); an \<open>ActiveModel\<close>
  update writes the columns that were set on the row of its primary key; a database call does not
  fail in the model. A row's id is its UUID, here the canonical text that \<open>to_string\<close> prints. Times
  are nanoseconds since the epoch. Row ids that no code reads (log and usage rows) are left out.
\<close>

type_synonym uuid = string
type_synonym tstamp = int

record client =
  c_id :: uuid
  c_user_id :: uuid
  c_name :: string
  c_email :: "string option"
  c_traffic_limit_bytes :: int
  c_traffic_used_bytes :: int
  c_all_time_used_bytes :: int
  c_expiry_date :: "tstamp option"
  c_reset_day :: "int option"
  c_data_limit_reset_strategy :: string
  c_last_traffic_reset_time :: "tstamp option"
  c_max_devices :: "int option"
  c_status :: string
  c_on_hold_expire_duration_secs :: "int option"
  c_on_hold_timeout :: "tstamp option"
  c_created_at :: tstamp
  c_updated_at :: tstamp

record node =
  n_id :: uuid
  n_name :: string
  n_hostname :: string
  n_address :: string
  n_domain :: "string option"
  n_token_hash :: string
  n_cores_available :: json
  n_labels :: "json option"
  n_usage_coefficient :: fl
  n_status :: string
  n_parent_id :: "uuid option"
  n_last_seen_at :: "tstamp option"
  n_updated_at :: tstamp

record protocol_config =
  pc_id :: uuid
  pc_name :: string
  pc_protocol_type :: string
  pc_core_type :: string
  pc_listen_port :: int
  pc_listen_address :: string
  pc_settings :: json
  pc_tls_settings :: "json option"

record node_binding =
  nb_id :: uuid
  nb_node_id :: uuid
  nb_protocol_config_id :: uuid
  nb_override_settings :: "json option"
  nb_is_active :: bool

record binding_group =
  bg_node_binding_id :: uuid
  bg_group_id :: uuid

record client_group =
  cg_client_id :: uuid
  cg_group_id :: uuid

record certificate =
  ct_id :: uuid
  ct_node_id :: uuid
  ct_domain :: string
  ct_status :: string
  ct_challenge_type :: string
  ct_expires_at :: "tstamp option"
  ct_last_issued_at :: "tstamp option"
  ct_last_error :: "string option"
  ct_created_at :: tstamp
  ct_updated_at :: tstamp

record core_version =
  cv_id :: uuid
  cv_core_type :: string
  cv_version :: string
  cv_channel :: string
  cv_published_at :: "tstamp option"
  cv_commit_sha :: "string option"
  cv_is_active :: bool
  cv_created_at :: tstamp

record pending_update =
  pu_node_id :: uuid
  pu_core_type :: string
  pu_update_type :: string
  pu_updated_at :: tstamp

record relay_rule =
  rr_id :: uuid
  rr_node_id :: uuid
  rr_exit_binding_id :: uuid
  rr_relay_client_id :: uuid
  rr_name :: string
  rr_match_type :: string
  rr_match_config :: json
  rr_enabled :: bool
  rr_sort_order :: int
  rr_created_at :: tstamp
  rr_updated_at :: tstamp

record online_session =
  os_id :: uuid
  os_client_id :: uuid
  os_node_id :: uuid
  os_ip_address :: string
  os_inbound_tag :: "string option"
  os_connected_at :: tstamp
  os_last_active_at :: tstamp

record traffic_record =
  tr_node_id :: "uuid option"
  tr_protocol_config_id :: "uuid option"
  tr_client_id :: "uuid option"
  tr_hour_bucket :: tstamp
  tr_upload_bytes :: int
  tr_download_bytes :: int

record usage_record =
  ur_node_id :: uuid
  ur_client_id :: uuid
  ur_hour_bucket :: tstamp
  ur_upload_bytes :: int
  ur_download_bytes :: int
  ur_rate :: fl

record system_log =
  sl_level :: string
  sl_source :: string
  sl_message :: string
  sl_metadata :: "json option"
  sl_created_at :: tstamp

record agent_log =
  al_node_id :: uuid
  al_level :: string
  al_target :: string
  al_message :: string
  al_fields :: "json option"
  al_created_at :: tstamp

record host_metric =
  hm_node_id :: uuid
  hm_timestamp :: tstamp
  hm_cpu_percent :: fl
  hm_mem_used :: int
  hm_mem_total :: int
  hm_disk_used :: int
  hm_disk_total :: int
  hm_net_rx :: int
  hm_net_tx :: int
  hm_load_avg1 :: fl
  hm_load_avg5 :: fl
  hm_load_avg15 :: fl

record api_key =
  ak_id :: uuid
  ak_name :: string
  ak_key_hash :: string
  ak_scopes :: json
  ak_ip_allowlist :: "json option"
  ak_rate_limit :: "int option"
  ak_expires_at :: "tstamp option"
  ak_is_active :: bool
  ak_created_at :: tstamp
  ak_updated_at :: tstamp

record inbound_host =
  ih_id :: uuid
  ih_protocol_config_id :: uuid
  ih_node_id :: uuid
  ih_remark :: string
  ih_address :: string
  ih_port :: int
  ih_sni :: "string option"
  ih_host :: "string option"
  ih_path :: "string option"
  ih_security :: "string option"
  ih_alpn :: "string option"
  ih_fingerprint :: "string option"
  ih_is_active :: bool
  ih_created_at :: tstamp
  ih_updated_at :: tstamp

record node_group =
  ng_id :: uuid
  ng_name :: string
  ng_description :: "string option"
  ng_labels :: "json option"
  ng_created_at :: tstamp
  ng_updated_at :: tstamp

record subscription =
  su_id :: uuid
  su_client_id :: uuid
  su_token :: string
  su_url_path :: string
  su_expire_at :: "tstamp option"
  su_is_active :: bool
  su_last_accessed_at :: "tstamp option"
  su_created_at :: tstamp

record subscription_template =
  sp_id :: string
  sp_name :: string
  sp_format :: string
  sp_base_config :: "string option"
  sp_filter_rules :: "json option"
  sp_custom_headers :: "json option"
  sp_is_builtin :: bool
  sp_is_enabled :: bool
  sp_created_at :: tstamp
  sp_updated_at :: tstamp

record user =
  us_id :: uuid
  us_username :: string
  us_password_hash :: string
  us_role :: string
  us_status :: string
  us_created_at :: tstamp
  us_updated_at :: tstamp

record webhook =
  wh_id :: uuid
  wh_name :: string
  wh_url :: string
  wh_events :: json
  wh_secret :: "string option"
  wh_is_active :: bool
  wh_created_at :: tstamp
  wh_updated_at :: tstamp

record db =
  db_clients :: "client list"
  db_nodes :: "node list"
  db_protocol_configs :: "protocol_config list"
  db_node_bindings :: "node_binding list"
  db_binding_groups :: "binding_group list"
  db_client_groups :: "client_group list"
  db_certificates :: "certificate list"
  db_core_versions :: "core_version list"
  db_pending :: "pending_update list"
  db_relay_rules :: "relay_rule list"
  db_sessions :: "online_session list"
  db_traffic :: "traffic_record list"
  db_usage :: "usage_record list"
  db_system_logs :: "system_log list"
  db_agent_logs :: "agent_log list"
  db_host_metrics :: "host_metric list"
  db_api_keys :: "api_key list"
  db_hosts :: "inbound_host list"
  db_node_groups :: "node_group list"
  db_subscriptions :: "subscription list"
  db_templates :: "subscription_template list"
  db_users :: "user list"
  db_webhooks :: "webhook list"

section \<open>Table operations\<close>

text \<open>\<open>find_by_id(k).one\<close>, an update of the row with key \<open>k\<close>, \<open>delete_many\<close> with a filter.\<close>

definition tbl_find :: "('r \<Rightarrow> 'k) \<Rightarrow> 'k \<Rightarrow> 'r list \<Rightarrow> 'r option" where
  "tbl_find key k t = find (\<lambda>r. key r = k) t"

definition tbl_update :: "('r \<Rightarrow> 'k) \<Rightarrow> 'k \<Rightarrow> ('r \<Rightarrow> 'r) \<Rightarrow> 'r list \<Rightarrow> 'r list" where
  "tbl_update key k f t = map (\<lambda>r. if key r = k then f r else r) t"

definition tbl_delete :: "('r \<Rightarrow> bool) \<Rightarrow> 'r list \<Rightarrow> 'r list" where
  "tbl_delete p t = filter (\<lambda>r. \<not> p r) t"

definition tbl_insert :: "'r \<Rightarrow> 'r list \<Rightarrow> 'r list" where
  "tbl_insert r t = t @ [r]"

text \<open>
  A query for one row and, by its presence, an update of that row or an insert: the upsert of a row
  by other columns than its key.
\<close>

fun tbl_upsert :: "('r \<Rightarrow> bool) \<Rightarrow> ('r \<Rightarrow> 'r) \<Rightarrow> 'r \<Rightarrow> 'r list \<Rightarrow> 'r list" where
  "tbl_upsert p f r [] = [r]"
| "tbl_upsert p f r (x # xs) = (if p x then f x # xs else x # tbl_upsert p f r xs)"

text \<open>
  What the code relies on in a table with a primary key: a lookup after an update sees the updated
  row under its key and the old rows elsewhere, an insert under a fresh key is found, a delete by
  key removes exactly that row, and all keep the keys unique.
\<close>

locale keyed_table =
  fixes look :: "'k \<Rightarrow> 't \<Rightarrow> 'r option"
    and upd :: "'k \<Rightarrow> ('r \<Rightarrow> 'r) \<Rightarrow> 't \<Rightarrow> 't"
    and ins :: "'r \<Rightarrow> 't \<Rightarrow> 't"
    and del :: "'k \<Rightarrow> 't \<Rightarrow> 't"
    and key :: "'r \<Rightarrow> 'k"
    and inv :: "'t \<Rightarrow> bool"
  assumes look_key: "look k t = Some r \<Longrightarrow> key r = k"
    and look_upd: "(\<And>r. key (f r) = key r) \<Longrightarrow>
      look k' (upd k f t) = (if k' = k then map_option f (look k' t) else look k' t)"
    and look_ins: "look (key r) t = None \<Longrightarrow>
      look k (ins r t) = (if k = key r then Some r else look k t)"
    and look_del: "look k' (del k t) = (if k' = k then None else look k' t)"
    and inv_upd: "(\<And>r. key (f r) = key r) \<Longrightarrow> inv t \<Longrightarrow> inv (upd k f t)"
    and inv_ins: "look (key r) t = None \<Longrightarrow> inv t \<Longrightarrow> inv (ins r t)"
    and inv_del: "inv t \<Longrightarrow> inv (del k t)"
begin

lemma look_fold_upd_other:
  assumes "\<And>x r. key (f x r) = key r" and "k \<notin> g ` set xs"
  shows "look k (fold (\<lambda>x. upd (g x) (f x)) xs t) = look k t"
  using assms(2) by (induction xs arbitrary: t) (auto simp: look_upd assms(1))

lemma inv_fold_upd:
  assumes "\<And>x r. key (f x r) = key r" and "inv t"
  shows "inv (fold (\<lambda>x. upd (g x) (f x)) xs t)"
  using assms(2) by (induction xs arbitrary: t) (auto intro: inv_upd assms(1))

lemma look_fold_upd:
  assumes "\<And>x r. key (f x r) = key r" and "x \<in> set xs" and "distinct (map g xs)"
  shows "look (g x) (fold (\<lambda>x. upd (g x) (f x)) xs t) = map_option (f x) (look (g x) t)"
  using assms(2,3)
proof (induction xs arbitrary: t)
  case (Cons y ys)
  show ?case
  proof (cases "x = y")
    case True
    with Cons.prems have "g x \<notin> g ` set ys" by auto
    with True show ?thesis by (simp add: look_fold_upd_other assms(1) look_upd)
  next
    case False
    with Cons.prems have *: "x \<in> set ys" "distinct (map g ys)" "g y \<notin> g ` set ys" by auto
    then have "g x \<noteq> g y" by (metis imageI)
    with * Cons.IH show ?thesis by (simp add: look_upd assms(1))
  qed
qed simp

lemma del_ins: "look (key r) t = None \<Longrightarrow> look k (del (key r) (ins r t)) = look k t"
  by (simp add: look_del look_ins)

end

lemma tbl_find_key: "tbl_find key k t = Some r \<Longrightarrow> key r = k \<and> r \<in> set t"
  by (auto simp: tbl_find_def find_Some_iff)

lemma tbl_find_None: "tbl_find key k t = None \<longleftrightarrow> k \<notin> key ` set t"
  by (auto simp: tbl_find_def find_None_iff)

lemma tbl_find_update:
  "(\<And>r. key (f r) = key r) \<Longrightarrow> tbl_find key k' (tbl_update key k f t)
     = (if k' = k then map_option f (tbl_find key k' t) else tbl_find key k' t)"
  by (induction t) (auto simp: tbl_find_def tbl_update_def)

lemma tbl_find_insert:
  "tbl_find key (key r) t = None \<Longrightarrow>
   tbl_find key k (tbl_insert r t) = (if k = key r then Some r else tbl_find key k t)"
  by (induction t) (auto simp: tbl_find_def tbl_insert_def)

lemma tbl_find_delete:
  "tbl_find key k' (tbl_delete (\<lambda>r. key r = k) t) = (if k' = k then None else tbl_find key k' t)"
  by (induction t) (auto simp: tbl_find_def tbl_delete_def)

lemma tbl_update_keys: "(\<And>r. key (f r) = key r) \<Longrightarrow> map key (tbl_update key k f t) = map key t"
  by (simp add: tbl_update_def)

lemma tbl_keyed_table:
  fixes key :: "'r \<Rightarrow> 'k"
  shows "keyed_table (tbl_find key) (tbl_update key) tbl_insert (\<lambda>k. tbl_delete (\<lambda>r. key r = k)) key
     (\<lambda>t. distinct (map key t))"
proof unfold_locales
  fix f :: "'r \<Rightarrow> 'r" and k and t :: "'r list"
  assume "\<And>r. key (f r) = key r" and "distinct (map key t)"
  then show "distinct (map key (tbl_update key k f t))" by (simp add: tbl_update_keys)
next
  fix r and t :: "'r list"
  assume "tbl_find key (key r) t = None" and "distinct (map key t)"
  then show "distinct (map key (tbl_insert r t))" by (auto simp: tbl_insert_def tbl_find_None)
next
  fix k and t :: "'r list"
  assume "distinct (map key t)"
  then show "distinct (map key (tbl_delete (\<lambda>r. key r = k) t))"
    by (auto simp: tbl_delete_def distinct_map_filter)
qed (auto simp: tbl_find_update tbl_find_insert tbl_find_delete dest: tbl_find_key)

interpretation ctab: keyed_table "tbl_find c_id" "tbl_update c_id" tbl_insert
    "\<lambda>k. tbl_delete (\<lambda>r. c_id r = k)" c_id "\<lambda>t. distinct (map c_id t)"
  by (rule tbl_keyed_table)

interpretation ntab: keyed_table "tbl_find n_id" "tbl_update n_id" tbl_insert
    "\<lambda>k. tbl_delete (\<lambda>r. n_id r = k)" n_id "\<lambda>t. distinct (map n_id t)"
  by (rule tbl_keyed_table)

interpretation rtab: keyed_table "tbl_find rr_id" "tbl_update rr_id" tbl_insert
    "\<lambda>k. tbl_delete (\<lambda>r. rr_id r = k)" rr_id "\<lambda>t. distinct (map rr_id t)"
  by (rule tbl_keyed_table)

text \<open>The keys of the tables the hub looks rows up in are unique.\<close>

definition db_ok :: "db \<Rightarrow> bool" where
  "db_ok d \<longleftrightarrow> distinct (map c_id (db_clients d)) \<and> distinct (map n_id (db_nodes d))
     \<and> distinct (map pc_id (db_protocol_configs d)) \<and> distinct (map nb_id (db_node_bindings d))
     \<and> distinct (map rr_id (db_relay_rules d))"

definition empty_db :: db where
  "empty_db = \<lparr>db_clients = [], db_nodes = [], db_protocol_configs = [], db_node_bindings = [],
     db_binding_groups = [], db_client_groups = [], db_certificates = [], db_core_versions = [],
     db_pending = [], db_relay_rules = [], db_sessions = [], db_traffic = [], db_usage = [],
     db_system_logs = [], db_agent_logs = [], db_host_metrics = [], db_api_keys = [], db_hosts = [],
     db_node_groups = [], db_subscriptions = [], db_templates = [], db_users = [],
     db_webhooks = []\<rparr>"

lemma db_ok_empty: "db_ok empty_db"
  by (simp add: db_ok_def empty_db_def)

end
