(* ===== verification/RelayService.thy ===== *)
theory RelayService
  imports Db
begin

text \<open>
  Relay rules in a node's configuration (pp-hub, service/protocol/relay.rs, with the rule-set
  library of routes/relay_rule.rs). A rule sends what it matches out through another node: its exit
  hop becomes an outbound (sing-box) or a proxy (mihomo), and its match a route rule. What the code
  uses of other crates and cannot be read here is one record: the UUID parser, the SHA-256 digest
  in hex, the JSON printer, the validation of a sing-box configuration against its JSON schema, the
  Argon2 check (no answer for a malformed hash), and the two log patterns' replacements (none when a
  pattern does not compile).
\<close>

record crates =
  x_parse_uuid :: "string \<Rightarrow> uuid option"
  x_sha256_hex :: "string \<Rightarrow> string"
  x_to_string :: "json \<Rightarrow> string"
  x_schema_errors :: "json \<Rightarrow> string list"
  x_argon2_verify :: "string \<Rightarrow> string \<Rightarrow> bool option"
  x_log_patterns :: "((string \<Rightarrow> string) \<times> (string \<Rightarrow> string)) option"

section \<open>The rule-set library\<close>

text \<open>(name, sing-box url, sing-box format, mihomo url, mihomo behavior)\<close>

definition RULE_SET_LIBRARY :: "(string \<times> string \<times> string \<times> string \<times> string) list" where
  "RULE_SET_LIBRARY =
    [(''netflix'',
      ''https://raw.githubusercontent.com/SagerNet/sing-geosite/rule-set/geosite-netflix.srs'',
      ''binary'',
      ''https://raw.githubusercontent.com/MetaCubeX/meta-rules-dat/meta/geo/geosite/netflix.yaml'',
      ''classical''),
     (''disney'',
      ''https://raw.githubusercontent.com/SagerNet/sing-geosite/rule-set/geosite-disney.srs'',
      ''binary'',
      ''https://raw.githubusercontent.com/MetaCubeX/meta-rules-dat/meta/geo/geosite/disney.yaml'',
      ''classical''),
     (''openai'',
      ''https://raw.githubusercontent.com/SagerNet/sing-geosite/rule-set/geosite-openai.srs'',
      ''binary'',
      ''https://raw.githubusercontent.com/MetaCubeX/meta-rules-dat/meta/geo/geosite/openai.yaml'',
      ''classical''),
     (''youtube'',
      ''https://raw.githubusercontent.com/SagerNet/sing-geosite/rule-set/geosite-youtube.srs'',
      ''binary'',
      ''https://raw.githubusercontent.com/MetaCubeX/meta-rules-dat/meta/geo/geosite/youtube.yaml'',
      ''classical''),
     (''tiktok'',
      ''https://raw.githubusercontent.com/SagerNet/sing-geosite/rule-set/geosite-tiktok.srs'',
      ''binary'',
      ''https://raw.githubusercontent.com/MetaCubeX/meta-rules-dat/meta/geo/geosite/tiktok.yaml'',
      ''classical''),
     (''hbo'',
      ''https://raw.githubusercontent.com/SagerNet/sing-geosite/rule-set/geosite-hbo.srs'',
      ''binary'',
      ''https://raw.githubusercontent.com/MetaCubeX/meta-rules-dat/meta/geo/geosite/hbo.yaml'',
      ''classical''),
     (''primevideo'',
      ''https://raw.githubusercontent.com/SagerNet/sing-geosite/rule-set/geosite-primevideo.srs'',
      ''binary'',
      ''https://raw.githubusercontent.com/MetaCubeX/meta-rules-dat/meta/geo/geosite/primevideo.yaml'',
      ''classical'')]"

definition library_lookup :: "string \<Rightarrow> (string \<times> string \<times> string \<times> string \<times> string) option" where
  "library_lookup name = find (\<lambda>e. fst e = name) RULE_SET_LIBRARY"

section \<open>What a rule matches\<close>

datatype match_spec = Inline "string list" "string list" | RuleSet string string

text \<open>The non-empty strings of an optional array.\<close>

definition str_list :: "json option \<Rightarrow> string list" where
  "str_list v =
     (case Option.bind v as_array of
        Some a \<Rightarrow> filter (\<lambda>s. s \<noteq> []) (List.map_filter as_str a)
      | None \<Rightarrow> [])"

definition match_spec_of :: "relay_rule \<Rightarrow> core_type \<Rightarrow> match_spec option" where
  "match_spec_of rule core =
     (let cfg = rr_match_config rule in
      if rr_match_type rule = ''inline'' then
        (let domains = str_list (jget cfg ''domains'');
             suffixes = str_list (jget cfg ''domain_suffixes'')
         in if domains = [] \<and> suffixes = [] then None else Some (Inline domains suffixes))
      else
        (case get_str cfg ''library'' of
           Some lib \<Rightarrow>
             Option.bind (library_lookup lib) (\<lambda>(name, sb_url, sb_format, mh_url, mh_behavior).
               Some (case core of
                       SingBox \<Rightarrow> RuleSet sb_url sb_format
                     | Mihomo \<Rightarrow> RuleSet mh_url mh_behavior))
         | None \<Rightarrow>
             Option.bind (jget cfg ''custom'') (\<lambda>custom.
               let key_url = (case core of SingBox \<Rightarrow> ''singbox'' | Mihomo \<Rightarrow> ''mihomo'');
                   key_extra = (case core of SingBox \<Rightarrow> ''format'' | Mihomo \<Rightarrow> ''behavior'')
               in Option.bind (Option.bind (jget custom key_url) (\<lambda>c. get_str c ''url'')) (\<lambda>url.
                    Some (RuleSet url
                      (unwrap_or (Option.bind (jget custom key_url) (\<lambda>c. get_str c key_extra))
                         (case core of SingBox \<Rightarrow> ''binary'' | Mihomo \<Rightarrow> ''domain'')))))))"

section \<open>Changing the configuration\<close>

text \<open>\<open>&mut v[k]\<close> handed to an update: the member is read (null when missing), changed, written.\<close>

definition jmod :: "string \<Rightarrow> (json \<Rightarrow> json) \<Rightarrow> json \<Rightarrow> json" where
  "jmod k f v = jset k (f (jidx v k)) v"

fun push_json :: "json \<Rightarrow> json \<Rightarrow> json" where
  "push_json item (JArr a) = JArr (a @ [item])"
| "push_json item v = v"

definition apply_singbox_relay_rule :: "string \<Rightarrow> string \<Rightarrow> relay_rule \<Rightarrow> json \<Rightarrow> json" where
  "apply_singbox_relay_rule tag rs_tag rule config =
     (case match_spec_of rule SingBox of
        Some (Inline domains suffixes) \<Rightarrow>
          let r = jobj [(''outbound'', JStr tag)];
              r = (if domains \<noteq> [] then jset ''domain'' (jstrs domains) r else r);
              r = (if suffixes \<noteq> [] then jset ''domain_suffix'' (jstrs suffixes) r else r)
          in jmod ''route'' (jmod ''rules'' (push_json r)) config
      | Some (RuleSet url extra) \<Rightarrow>
          let config = (if get_array (jidx config ''route'') ''rule_set'' = None
                        then jmod ''route'' (jset ''rule_set'' (JArr [])) config else config);
              config = jmod ''route'' (jmod ''rule_set'' (push_json
                (jobj [(''type'', JStr ''remote''), (''tag'', JStr rs_tag),
                       (''format'', JStr extra), (''url'', JStr url)]))) config
          in jmod ''route'' (jmod ''rules'' (push_json
               (jobj [(''rule_set'', JArr [JStr rs_tag]), (''outbound'', JStr tag)]))) config
      | None \<Rightarrow> config)"

definition is_match_rule :: "json \<Rightarrow> bool" where
  "is_match_rule r = (case as_str r of Some s \<Rightarrow> starts_with ''MATCH'' s | None \<Rightarrow> False)"

text \<open>\<open>rules.insert(pos, entry)\<close>, \<open>pos\<close> the first MATCH rule or the end.\<close>

fun insert_before_match :: "json \<Rightarrow> json list \<Rightarrow> json list" where
  "insert_before_match x [] = [x]"
| "insert_before_match x (r # rs) =
     (if is_match_rule r then x # r # rs else r # insert_before_match x rs)"

definition insert_rule :: "json \<Rightarrow> string \<Rightarrow> json" where
  "insert_rule config entry =
     jmod ''rules'' (\<lambda>rules. case rules of
        JArr rs \<Rightarrow> JArr (insert_before_match (JStr entry) rs)
      | v \<Rightarrow> v) config"

definition apply_mihomo_relay_rule :: "string \<Rightarrow> string \<Rightarrow> relay_rule \<Rightarrow> json \<Rightarrow> json" where
  "apply_mihomo_relay_rule tag rs_tag rule config =
     (case match_spec_of rule Mihomo of
        Some (Inline domains suffixes) \<Rightarrow>
          let config = foldl (\<lambda>c d. insert_rule c (''DOMAIN,'' @ d @ '', '' @ tag)) config domains
          in foldl (\<lambda>c s. insert_rule c (''DOMAIN-SUFFIX,'' @ s @ '', '' @ tag)) config suffixes
      | Some (RuleSet url extra) \<Rightarrow>
          let config = (if Option.bind (jget config ''rule-providers'') as_object = None
                        then jset ''rule-providers'' (jobj []) config else config);
              config = jmod ''rule-providers'' (jset rs_tag
                (jobj [(''type'', JStr ''http''), (''behavior'', JStr extra),
                       (''format'', JStr ''yaml''), (''url'', JStr url),
                       (''path'', JStr (''./ruleset/'' @ rs_tag @ ''.yaml''))])) config
          in insert_rule config (''RULE-SET,'' @ rs_tag @ '', '' @ tag)
      | None \<Rightarrow> config)"

section \<open>The exit hop\<close>

definition resolve_relay_sni :: "crates \<Rightarrow> db \<Rightarrow> node_binding \<Rightarrow> string option" where
  "resolve_relay_sni x d binding =
     Option.bind (Option.bind (nb_override_settings binding) (\<lambda>o'. jget o' ''tls_settings'')) (\<lambda>tls.
       case Option.bind (Option.bind (get_str tls ''cert_id'') (x_parse_uuid x))
              (\<lambda>cert_id. tbl_find ct_id cert_id (db_certificates d)) of
         Some cert \<Rightarrow> Some (ct_domain cert)
       | None \<Rightarrow> opt_filter (\<lambda>s. s \<noteq> []) (get_str tls ''domain''))"

definition relay_tag :: "relay_rule \<Rightarrow> string" where
  "relay_tag rule = ''relay-'' @ take 8 (rr_id rule)"

definition relay_rs_tag :: "relay_rule \<Rightarrow> string" where
  "relay_rs_tag rule = ''rs-'' @ take 8 (rr_id rule)"

text \<open>
  The hop a rule resolves to; \<open>None\<close> where the loop skips the rule: the exit binding, its protocol
  configuration or its node is gone, or the protocol's name is unknown.
\<close>

definition relay_hop_of :: "crates \<Rightarrow> db \<Rightarrow> relay_rule \<Rightarrow> relay_hop option" where
  "relay_hop_of x d rule =
     Option.bind (tbl_find nb_id (rr_exit_binding_id rule) (db_node_bindings d)) (\<lambda>binding.
     Option.bind (tbl_find pc_id (nb_protocol_config_id binding) (db_protocol_configs d)) (\<lambda>exit_cfg.
     Option.bind (tbl_find n_id (nb_node_id binding) (db_nodes d)) (\<lambda>exit_node.
     Option.bind (ok_of (protocol_from_str (pc_protocol_type exit_cfg))) (\<lambda>protocol.
       Some \<lparr>rh_tag = relay_tag rule, rh_protocol = protocol,
             rh_settings = pc_settings exit_cfg,
             rh_server = unwrap_or (n_domain exit_node) (n_address exit_node),
             rh_port = as_u16 (pc_listen_port exit_cfg),
             rh_credential = rr_relay_client_id rule,
             rh_tls_sni = resolve_relay_sni x d binding\<rparr>))))"

definition apply_relay_rule ::
    "crates \<Rightarrow> db \<Rightarrow> core_type \<Rightarrow> relay_rule \<Rightarrow> json \<Rightarrow> json panel_result" where
  "apply_relay_rule x d core rule config =
     (case relay_hop_of x d rule of
        None \<Rightarrow> Inr config
      | Some hop \<Rightarrow>
          (case core of
             SingBox \<Rightarrow>
               rbind (build_singbox_outbound hop) (\<lambda>outbound.
                 Inr (apply_singbox_relay_rule (relay_tag rule) (relay_rs_tag rule) rule
                   (jmod ''outbounds'' (push_json outbound) config)))
           | Mihomo \<Rightarrow>
               rbind (build_mihomo_proxy hop) (\<lambda>proxy.
                 let config = (if get_array config ''proxies'' = None
                               then jset ''proxies'' (JArr []) config else config)
                 in Inr (apply_mihomo_relay_rule (relay_tag rule) (relay_rs_tag rule) rule
                      (jmod ''proxies'' (push_json proxy) config)))))"

fun apply_relay_loop ::
    "crates \<Rightarrow> db \<Rightarrow> core_type \<Rightarrow> relay_rule list \<Rightarrow> json \<Rightarrow> json panel_result" where
  "apply_relay_loop x d core [] config = Inr config"
| "apply_relay_loop x d core (r # rs) config =
     rbind (apply_relay_rule x d core r config) (apply_relay_loop x d core rs)"

definition node_relay_rules :: "db \<Rightarrow> uuid \<Rightarrow> relay_rule list" where
  "node_relay_rules d node = filter (\<lambda>r. rr_node_id r = node \<and> rr_enabled r) (db_relay_rules d)"

definition apply_relay_rules ::
    "crates \<Rightarrow> db \<Rightarrow> uuid \<Rightarrow> core_type \<Rightarrow> json \<Rightarrow> json panel_result" where
  "apply_relay_rules x d node core config =
     apply_relay_loop x d core (node_relay_rules d node) config"

section \<open>What the rules add to a sing-box configuration\<close>

definition arr_of :: "json \<Rightarrow> string \<Rightarrow> json list" where
  "arr_of v k = unwrap_or (get_array v k) []"

text \<open>The outbounds, route rules and rule sets of a configuration that has them as the builder does.\<close>

definition sb_shape :: "json \<Rightarrow> json list \<Rightarrow> json list \<Rightarrow> json list \<Rightarrow> bool" where
  "sb_shape cfg outs rules sets \<longleftrightarrow>
     is_obj cfg \<and> jget cfg ''outbounds'' = Some (JArr outs)
     \<and> (\<exists>route. jget cfg ''route'' = Some route \<and> is_obj route
          \<and> jget route ''rules'' = Some (JArr rules) \<and> arr_of route ''rule_set'' = sets)"

definition sb_inline_rule :: "string \<Rightarrow> string list \<Rightarrow> string list \<Rightarrow> json" where
  "sb_inline_rule tag domains suffixes =
     (let r = jobj [(''outbound'', JStr tag)];
          r = (if domains \<noteq> [] then jset ''domain'' (jstrs domains) r else r)
      in if suffixes \<noteq> [] then jset ''domain_suffix'' (jstrs suffixes) r else r)"

definition sb_new_rules :: "relay_rule \<Rightarrow> json list" where
  "sb_new_rules rule =
     (case match_spec_of rule SingBox of
        Some (Inline domains suffixes) \<Rightarrow> [sb_inline_rule (relay_tag rule) domains suffixes]
      | Some (RuleSet url extra) \<Rightarrow>
          [jobj [(''rule_set'', JArr [JStr (relay_rs_tag rule)]), (''outbound'', JStr (relay_tag rule))]]
      | None \<Rightarrow> [])"

definition sb_new_sets :: "relay_rule \<Rightarrow> json list" where
  "sb_new_sets rule =
     (case match_spec_of rule SingBox of
        Some (RuleSet url extra) \<Rightarrow>
          [jobj [(''type'', JStr ''remote''), (''tag'', JStr (relay_rs_tag rule)),
                 (''format'', JStr extra), (''url'', JStr url)]]
      | _ \<Rightarrow> [])"

lemma jget_jmod: "is_obj v \<Longrightarrow> jget (jmod k f v) k' = (if k' = k then Some (f (jidx v k)) else jget v k')"
  by (simp add: jmod_def)

lemma is_obj_jmod: "is_obj v \<Longrightarrow> is_obj (jmod k f v)"
  by (simp add: jmod_def)

lemma jidx_Some: "jget v k = Some y \<Longrightarrow> jidx v k = y"
  by (simp add: jidx_def)

lemmas jmod_facts = jget_jmod is_obj_jmod jidx_Some

lemma sb_shape_outbound:
  "sb_shape cfg outs rules sets \<Longrightarrow>
   sb_shape (jmod ''outbounds'' (push_json v) cfg) (outs @ [v]) rules sets"
  by (auto simp: sb_shape_def jmod_facts)

lemma sb_shape_route:
  assumes "sb_shape cfg outs rules sets"
    and "\<And>route. is_obj route \<Longrightarrow> jget route ''rules'' = Some (JArr rules) \<Longrightarrow>
      arr_of route ''rule_set'' = sets \<Longrightarrow>
      is_obj (f route) \<and> jget (f route) ''rules'' = Some (JArr rules')
      \<and> arr_of (f route) ''rule_set'' = sets'"
  shows "sb_shape (jmod ''route'' f cfg) outs rules' sets'"
  using assms by (fastforce simp: sb_shape_def jmod_facts)

lemma sb_shape_rule:
  "sb_shape cfg outs rules sets \<Longrightarrow>
   sb_shape (jmod ''route'' (jmod ''rules'' (push_json r)) cfg) outs (rules @ [r]) sets"
  by (erule sb_shape_route) (auto simp: jmod_facts arr_of_def get_array_def)

lemma sb_shape_set:
  assumes "sb_shape cfg outs rules sets" and "get_array (jidx cfg ''route'') ''rule_set'' \<noteq> None"
  shows "sb_shape (jmod ''route'' (jmod ''rule_set'' (push_json r)) cfg) outs rules (sets @ [r])"
  using assms
  by (fastforce simp: sb_shape_def jmod_facts arr_of_def get_array_def bind_eq_Some_conv as_array_Some)

lemma sb_shape_new_sets:
  assumes "sb_shape cfg outs rules sets" and "get_array (jidx cfg ''route'') ''rule_set'' = None"
  shows "sb_shape (jmod ''route'' (jset ''rule_set'' (JArr [])) cfg) outs rules sets"
    and "get_array (jidx (jmod ''route'' (jset ''rule_set'' (JArr [])) cfg) ''route'') ''rule_set'' \<noteq> None"
  using assms by (auto simp: sb_shape_def jmod_facts arr_of_def get_array_def jidx_def)

lemma sb_shape_relay_rule:
  assumes "sb_shape cfg outs rules sets"
  shows "sb_shape (apply_singbox_relay_rule (relay_tag rule) (relay_rs_tag rule) rule cfg)
           outs (rules @ sb_new_rules rule) (sets @ sb_new_sets rule)"
proof (cases "match_spec_of rule SingBox")
  case None
  with assms show ?thesis
    by (simp add: apply_singbox_relay_rule_def sb_new_rules_def sb_new_sets_def)
next
  case (Some m)
  show ?thesis
  proof (cases m)
    case (Inline domains suffixes)
    with Some sb_shape_rule [OF assms] show ?thesis
      by (simp add: apply_singbox_relay_rule_def sb_new_rules_def sb_new_sets_def Let_def
          sb_inline_rule_def)
  next
    case (RuleSet url extra)
    define cfg' where "cfg' = (if get_array (jidx cfg ''route'') ''rule_set'' = None
      then jmod ''route'' (jset ''rule_set'' (JArr [])) cfg else cfg)"
    have "sb_shape cfg' outs rules sets" "get_array (jidx cfg' ''route'') ''rule_set'' \<noteq> None"
      using assms sb_shape_new_sets [OF assms] by (auto simp: cfg'_def)
    from sb_shape_rule [OF sb_shape_set [OF this]] Some RuleSet show ?thesis
      by (simp add: apply_singbox_relay_rule_def sb_new_rules_def sb_new_sets_def Let_def cfg'_def)
  qed
qed

text \<open>The rules of a list that resolve to an exit, each with its hop.\<close>

definition relay_exits :: "crates \<Rightarrow> db \<Rightarrow> relay_rule list \<Rightarrow> (relay_rule \<times> relay_hop) list" where
  "relay_exits x d rs = List.map_filter (\<lambda>r. map_option (Pair r) (relay_hop_of x d r)) rs"

lemma relay_exits_simps [simp]:
  "relay_exits x d [] = []"
  "relay_exits x d (r # rs) =
     (case relay_hop_of x d r of None \<Rightarrow> relay_exits x d rs | Some h \<Rightarrow> (r, h) # relay_exits x d rs)"
  by (auto simp: relay_exits_def map_filter_simps split: option.splits)

lemma relay_loop_ok_iff:
  "is_ok (apply_relay_loop x d core rs cfg) \<longleftrightarrow> (\<forall>(r, h) \<in> set (relay_exits x d rs). hop_ok h)"
proof (induction rs arbitrary: cfg)
  case (Cons r rs)
  show ?case
  proof (cases "relay_hop_of x d r")
    case None
    with Cons show ?thesis by (simp add: apply_relay_rule_def)
  next
    case (Some h)
    have "is_ok (apply_relay_rule x d core r cfg) \<longleftrightarrow> hop_ok h"
      using Some
      by (cases core)
         (simp_all add: apply_relay_rule_def Let_def is_ok_rbind_Inr singbox_outbound_ok_iff
            mihomo_proxy_ok_iff)
    with Some Cons show ?thesis
      by (cases "apply_relay_rule x d core r cfg") simp_all
  qed
qed simp

lemma relay_loop_sb_shape:
  assumes "sb_shape cfg outs rules sets" and "apply_relay_loop x d SingBox rs cfg = Inr cfg'"
  shows "\<exists>new. list_all2 (\<lambda>(r, h) o'. build_singbox_outbound h = Inr o') (relay_exits x d rs) new
    \<and> sb_shape cfg' (outs @ new) (rules @ concat (map (sb_new_rules \<circ> fst) (relay_exits x d rs)))
        (sets @ concat (map (sb_new_sets \<circ> fst) (relay_exits x d rs)))"
  using assms
proof (induction rs arbitrary: cfg outs rules sets)
  case (Cons r rs)
  show ?case
  proof (cases "relay_hop_of x d r")
    case None
    with Cons show ?thesis by (simp add: apply_relay_rule_def)
  next
    case (Some h)
    with Cons.prems(2) obtain o' where o': "build_singbox_outbound h = Inr o'"
      and rest: "apply_relay_loop x d SingBox rs
        (apply_singbox_relay_rule (relay_tag r) (relay_rs_tag r) r
          (jmod ''outbounds'' (push_json o') cfg)) = Inr cfg'"
      by (auto simp: apply_relay_rule_def rbind_Inr_iff)
    from Cons.IH [OF sb_shape_relay_rule [OF sb_shape_outbound [OF Cons.prems(1)]] rest]
    obtain new where "list_all2 (\<lambda>(r, h) o'. build_singbox_outbound h = Inr o') (relay_exits x d rs) new"
      "sb_shape cfg' ((outs @ [o']) @ new)
         ((rules @ sb_new_rules r) @ concat (map (sb_new_rules \<circ> fst) (relay_exits x d rs)))
         ((sets @ sb_new_sets r) @ concat (map (sb_new_sets \<circ> fst) (relay_exits x d rs)))"
      by blast
    with o' Some show ?thesis by (intro exI [of _ "o' # new"]) (simp add: o_def)
  qed
qed simp

section \<open>What the rules add to a mihomo configuration\<close>

definition providers_of :: "json \<Rightarrow> string \<Rightarrow> json option" where
  "providers_of cfg k = Option.bind (jget cfg ''rule-providers'') (\<lambda>v. jget v k)"

text \<open>
  The proxies, the rules before the catch-all \<open>MATCH,DIRECT\<close>, and the rule providers of a mihomo
  configuration.
\<close>

definition mh_shape :: "json \<Rightarrow> json list \<Rightarrow> string list \<Rightarrow> (string \<Rightarrow> json option) \<Rightarrow> bool" where
  "mh_shape cfg ps es prov \<longleftrightarrow>
     is_obj cfg \<and> jget cfg ''rules'' = Some (JArr (map JStr es @ [JStr ''MATCH,DIRECT'']))
     \<and> (\<forall>e \<in> set es. \<not> starts_with ''MATCH'' e)
     \<and> arr_of cfg ''proxies'' = ps \<and> providers_of cfg = prov"

definition mh_new_entries :: "relay_rule \<Rightarrow> string list" where
  "mh_new_entries rule =
     (case match_spec_of rule Mihomo of
        Some (Inline domains suffixes) \<Rightarrow>
          map (\<lambda>d. ''DOMAIN,'' @ d @ '', '' @ relay_tag rule) domains
          @ map (\<lambda>s. ''DOMAIN-SUFFIX,'' @ s @ '', '' @ relay_tag rule) suffixes
      | Some (RuleSet url extra) \<Rightarrow> [''RULE-SET,'' @ relay_rs_tag rule @ '', '' @ relay_tag rule]
      | None \<Rightarrow> [])"

definition mh_new_providers :: "relay_rule \<Rightarrow> (string \<Rightarrow> json option) \<Rightarrow> string \<Rightarrow> json option" where
  "mh_new_providers rule prov =
     (case match_spec_of rule Mihomo of
        Some (RuleSet url extra) \<Rightarrow> prov(relay_rs_tag rule \<mapsto>
          jobj [(''type'', JStr ''http''), (''behavior'', JStr extra), (''format'', JStr ''yaml''),
                (''url'', JStr url), (''path'', JStr (''./ruleset/'' @ relay_rs_tag rule @ ''.yaml''))])
      | _ \<Rightarrow> prov)"

lemma insert_before_match_last:
  "(\<forall>e \<in> set es. \<not> starts_with ''MATCH'' e) \<Longrightarrow>
   insert_before_match (JStr x) (map JStr es @ [JStr ''MATCH,DIRECT''])
     = map JStr (es @ [x]) @ [JStr ''MATCH,DIRECT'']"
  by (induction es) (simp_all add: is_match_rule_def)

lemma mh_shape_insert:
  assumes "mh_shape cfg ps es prov" and "\<not> starts_with ''MATCH'' e"
  shows "mh_shape (insert_rule cfg e) ps (es @ [e]) prov"
  using assms insert_before_match_last [of es e]
  by (auto simp: mh_shape_def insert_rule_def jmod_facts arr_of_def get_array_def providers_of_def
      fun_eq_iff)

lemma mh_shape_inserts:
  "mh_shape cfg ps es prov \<Longrightarrow> \<forall>x \<in> set xs. \<not> starts_with ''MATCH'' (f x) \<Longrightarrow>
   mh_shape (foldl (\<lambda>c x. insert_rule c (f x)) cfg xs) ps (es @ map f xs) prov"
proof (induction xs arbitrary: cfg es)
  case (Cons x xs)
  from Cons.IH [OF mh_shape_insert [OF Cons.prems(1)], of "f x"] Cons.prems(2) show ?case by simp
qed simp

lemma mh_shape_proxy:
  assumes "mh_shape cfg ps es prov"
  shows "mh_shape (jmod ''proxies'' (push_json v)
           (if get_array cfg ''proxies'' = None then jset ''proxies'' (JArr []) cfg else cfg))
         (ps @ [v]) es prov"
  using assms
  by (auto simp: mh_shape_def jmod_facts arr_of_def get_array_def providers_of_def fun_eq_iff
      bind_eq_Some_conv as_array_Some)

lemma as_object_None_jget: "as_object v = None \<Longrightarrow> jget v k = None"
  by (cases v) auto

lemma mh_shape_provider:
  assumes "mh_shape cfg ps es prov"
  shows "mh_shape (jmod ''rule-providers'' (jset k v)
           (if Option.bind (jget cfg ''rule-providers'') as_object = None
            then jset ''rule-providers'' (jobj []) cfg else cfg)) ps es (prov(k \<mapsto> v))"
proof (cases "Option.bind (jget cfg ''rule-providers'') as_object")
  case None
  then have "providers_of cfg = Map.empty"
    by (cases "jget cfg ''rule-providers''")
       (simp_all add: providers_of_def fun_eq_iff as_object_None_jget)
  with assms None show ?thesis
    by (auto simp: mh_shape_def jmod_facts arr_of_def get_array_def jidx_def providers_of_def fun_eq_iff)
next
  case (Some m)
  then have "jget cfg ''rule-providers'' = Some (JObj m)"
    by (auto simp: bind_eq_Some_conv elim!: as_object.elims)
  with assms Some show ?thesis
    by (auto simp: mh_shape_def jmod_facts arr_of_def get_array_def jidx_def providers_of_def fun_eq_iff
        map_of_omap_ins)
qed

lemma mh_shape_relay_rule:
  assumes "mh_shape cfg ps es prov"
  shows "mh_shape (apply_mihomo_relay_rule (relay_tag rule) (relay_rs_tag rule) rule cfg)
           ps (es @ mh_new_entries rule) (mh_new_providers rule prov)"
proof (cases "match_spec_of rule Mihomo")
  case None
  with assms show ?thesis
    by (simp add: apply_mihomo_relay_rule_def mh_new_entries_def mh_new_providers_def)
next
  case (Some m)
  show ?thesis
  proof (cases m)
    case (Inline domains suffixes)
    with Some mh_shape_inserts [OF mh_shape_inserts [OF assms], of domains
        "\<lambda>d. ''DOMAIN,'' @ d @ '', '' @ relay_tag rule" suffixes
        "\<lambda>s. ''DOMAIN-SUFFIX,'' @ s @ '', '' @ relay_tag rule"]
    show ?thesis
      by (simp add: apply_mihomo_relay_rule_def mh_new_entries_def mh_new_providers_def Let_def)
  next
    case (RuleSet url extra)
    with Some mh_shape_insert [OF mh_shape_provider [OF assms]] show ?thesis
      by (simp add: apply_mihomo_relay_rule_def mh_new_entries_def mh_new_providers_def Let_def)
  qed
qed

lemma relay_loop_mh_shape:
  assumes "mh_shape cfg ps es prov" and "apply_relay_loop x d Mihomo rs cfg = Inr cfg'"
  shows "\<exists>new. list_all2 (\<lambda>(r, h) p. build_mihomo_proxy h = Inr p) (relay_exits x d rs) new
    \<and> mh_shape cfg' (ps @ new) (es @ concat (map (mh_new_entries \<circ> fst) (relay_exits x d rs)))
        (fold (mh_new_providers \<circ> fst) (relay_exits x d rs) prov)"
  using assms
proof (induction rs arbitrary: cfg ps es prov)
  case (Cons r rs)
  show ?case
  proof (cases "relay_hop_of x d r")
    case None
    with Cons show ?thesis by (simp add: apply_relay_rule_def)
  next
    case (Some h)
    with Cons.prems(2) obtain p where p: "build_mihomo_proxy h = Inr p"
      and rest: "apply_relay_loop x d Mihomo rs
        (apply_mihomo_relay_rule (relay_tag r) (relay_rs_tag r) r (jmod ''proxies'' (push_json p)
          (if get_array cfg ''proxies'' = None then jset ''proxies'' (JArr []) cfg else cfg))) = Inr cfg'"
      by (auto simp: apply_relay_rule_def rbind_Inr_iff Let_def)
    from Cons.IH [OF mh_shape_relay_rule [OF mh_shape_proxy [OF Cons.prems(1)]] rest]
    obtain new where "list_all2 (\<lambda>(r, h) p. build_mihomo_proxy h = Inr p) (relay_exits x d rs) new"
      "mh_shape cfg' ((ps @ [p]) @ new)
         ((es @ mh_new_entries r) @ concat (map (mh_new_entries \<circ> fst) (relay_exits x d rs)))
         (fold (mh_new_providers \<circ> fst) (relay_exits x d rs) (mh_new_providers r prov))"
      by blast
    with p Some show ?thesis by (intro exI [of _ "p # new"]) (simp add: o_def)
  qed
qed simp

section \<open>What the rules leave alone\<close>

definition relay_keys :: "string set" where
  "relay_keys = {''outbounds'', ''route'', ''proxies'', ''rules'', ''rule-providers''}"

definition frame :: "json \<Rightarrow> json \<Rightarrow> bool" where
  "frame cfg cfg' \<longleftrightarrow> is_obj cfg' \<and> (\<forall>k. k \<notin> relay_keys \<longrightarrow> jget cfg' k = jget cfg k)"

lemma frame_refl: "is_obj cfg \<Longrightarrow> frame cfg cfg"
  by (simp add: frame_def)

lemma frame_trans: "frame a b \<Longrightarrow> frame b c \<Longrightarrow> frame a c"
  by (simp add: frame_def)

lemma frame_obj: "frame a b \<Longrightarrow> is_obj b"
  by (simp add: frame_def)

lemma frame_jset: "frame a cfg \<Longrightarrow> k \<in> relay_keys \<Longrightarrow> frame a (jset k v cfg)"
  by (auto simp: frame_def)

lemma frame_jmod: "frame a cfg \<Longrightarrow> k \<in> relay_keys \<Longrightarrow> frame a (jmod k f cfg)"
  by (simp add: jmod_def frame_jset)

lemma frame_insert_rule: "frame a cfg \<Longrightarrow> frame a (insert_rule cfg e)"
  unfolding insert_rule_def by (erule frame_jmod) (simp add: relay_keys_def)

lemma frame_insert_rules: "frame a cfg \<Longrightarrow> frame a (foldl (\<lambda>c y. insert_rule c (f y)) cfg ys)"
  by (induction ys arbitrary: cfg) (simp_all add: frame_insert_rule)

lemmas frame_intros = frame_insert_rules frame_insert_rule frame_jmod frame_jset

lemma frame_singbox_rule: "frame a cfg \<Longrightarrow> frame a (apply_singbox_relay_rule t rt r cfg)"
  by (simp add: apply_singbox_relay_rule_def Let_def frame_intros relay_keys_def
      split: option.split match_spec.split)

lemma frame_mihomo_rule: "frame a cfg \<Longrightarrow> frame a (apply_mihomo_relay_rule t rt r cfg)"
  by (simp add: apply_mihomo_relay_rule_def Let_def frame_intros relay_keys_def
      split: option.split match_spec.split)

lemma relay_rule_frame:
  "apply_relay_rule x d core r cfg = Inr cfg' \<Longrightarrow> frame a cfg \<Longrightarrow> frame a cfg'"
  by (cases core)
     (auto simp: apply_relay_rule_def rbind_Inr_iff Let_def frame_intros relay_keys_def
        intro!: frame_singbox_rule frame_mihomo_rule split: option.splits)

lemma relay_loop_frame:
  "apply_relay_loop x d core rs cfg = Inr cfg' \<Longrightarrow> frame a cfg \<Longrightarrow> frame a cfg'"
  by (induction rs arbitrary: cfg) (auto simp: rbind_Inr_iff dest: relay_rule_frame)

end
