(* ===== verification/Logging.thy ===== *)
theory Logging
  imports RelayService
begin

text \<open>
  Redaction and bounds of log records (pp-common, logging.rs). A string is the list of its UTF-8
  bytes; a cut may only fall on a character boundary, which a continuation byte is not.
\<close>

definition MAX_LOG_TEXT :: nat where "MAX_LOG_TEXT = 8192"
definition MAX_FIELDS :: nat where "MAX_FIELDS = 32"

definition is_continuation :: "char \<Rightarrow> bool" where
  "is_continuation c \<longleftrightarrow> (let n = (of_char c :: nat) in 128 \<le> n \<and> n < 192)"

definition is_char_boundary :: "string \<Rightarrow> nat \<Rightarrow> bool" where
  "is_char_boundary s i \<longleftrightarrow>
     i = 0 \<or> i = length s \<or> (i < length s \<and> \<not> is_continuation (s ! i))"

text \<open>\<open>while !value.is_char_boundary(end) { end -= 1 }\<close>: 0 is a boundary, so the loop ends.\<close>

fun back_to_boundary :: "string \<Rightarrow> nat \<Rightarrow> nat" where
  "back_to_boundary s 0 = 0"
| "back_to_boundary s (Suc i) =
     (if is_char_boundary s (Suc i) then Suc i else back_to_boundary s i)"

definition sanitize_log_text :: "crates \<Rightarrow> string \<Rightarrow> string" where
  "sanitize_log_text x text =
     (case x_log_patterns x of
        None \<Rightarrow> ''[log redaction unavailable]''
      | Some (secrets, urls) \<Rightarrow>
          let value = urls (secrets text)
          in if length value > MAX_LOG_TEXT
             then take (back_to_boundary value MAX_LOG_TEXT) value @ '' [truncated]''
             else value)"

definition ascii_lower :: "string \<Rightarrow> string" where
  "ascii_lower s = map (\<lambda>c. let n = (of_char c :: nat)
     in if 65 \<le> n \<and> n \<le> 90 then char_of (n + 32) else c) s"

definition sensitive :: "string \<Rightarrow> bool" where
  "sensitive name =
     list_ex (\<lambda>part. str_contains part (ascii_lower name))
       [''token'', ''password'', ''passwd'', ''secret'', ''authorization'', ''api_key'', ''apikey'',
        ''credential'']"

definition sanitize_log_field :: "crates \<Rightarrow> string \<Rightarrow> string \<Rightarrow> string" where
  "sanitize_log_field x name value =
     (if sensitive name then ''[REDACTED]''
      else (let v = sanitize_log_text x value
            in take (back_to_boundary v (min (length v) 512)) v))"

function clean_metadata :: "crates \<Rightarrow> json \<Rightarrow> nat \<Rightarrow> json" where
  "clean_metadata x v depth =
     (if depth > 4 then JStr ''[metadata truncated]''
      else
        (case v of
           JStr s \<Rightarrow> JStr (sanitize_log_field x ''value'' s)
         | JObj m \<Rightarrow> jobj (map (\<lambda>kv. (fst kv,
             if sensitive (fst kv) then JStr ''[REDACTED]'' else clean_metadata x (snd kv) (depth + 1)))
             (take MAX_FIELDS m))
         | JArr xs \<Rightarrow> JArr (map (\<lambda>v. clean_metadata x v (depth + 1)) (take MAX_FIELDS xs))
         | w \<Rightarrow> w))"
  by pat_completeness auto
termination by (relation "measure (\<lambda>(x, v, d). 5 - d)") auto

declare clean_metadata.simps [simp del]

definition sanitize_log_metadata :: "crates \<Rightarrow> json \<Rightarrow> json" where
  "sanitize_log_metadata x v = clean_metadata x v 0"

section \<open>Lemmas\<close>

lemma back_to_boundary_le: "back_to_boundary s n \<le> n"
  by (induction n) auto

lemma back_to_boundary_ok: "is_char_boundary s (back_to_boundary s n)"
  by (induction n) (auto simp: is_char_boundary_def)

lemma sanitize_text_length: "x_log_patterns x \<noteq> None \<Longrightarrow> length (sanitize_log_text x s) \<le> 8204"
  using back_to_boundary_le [of _ 8192]
  by (auto simp: sanitize_log_text_def Let_def MAX_LOG_TEXT_def min.coboundedI2)

lemma sanitize_field_length: "length (sanitize_log_field x n s) \<le> 512"
proof -
  have "back_to_boundary v (min (length v) 512) \<le> 512" for v
    using back_to_boundary_le [of v "min (length v) 512"] by linarith
  then show ?thesis by (simp add: sanitize_log_field_def Let_def min.coboundedI2)
qed

lemma sensitive_field: "sensitive n \<Longrightarrow> sanitize_log_field x n s = ''[REDACTED]''"
  by (simp add: sanitize_log_field_def)

text \<open>A value in which no member of a sensitive name shows anything, at any depth.\<close>

inductive redacted :: "json \<Rightarrow> bool" where
  red_null: "redacted JNull"
| red_bool: "redacted (JBool b)"
| red_num: "redacted (JNum n)"
| red_str: "redacted (JStr s)"
| red_arr: "(\<And>v. v \<in> set xs \<Longrightarrow> redacted v) \<Longrightarrow> redacted (JArr xs)"
| red_obj: "(\<And>k v. (k, v) \<in> set m \<Longrightarrow> redacted v \<and> (sensitive k \<longrightarrow> v = JStr ''[REDACTED]'')) \<Longrightarrow>
    redacted (JObj m)"

lemma clean_redacted: "redacted (clean_metadata x v depth)"
proof (induction x v depth rule: clean_metadata.induct)
  case (1 x v depth)
  show ?case
  proof (cases "depth > 4")
    case True
    then show ?thesis by (simp add: clean_metadata.simps red_str)
  next
    case False
    show ?thesis
    proof (cases v)
      case (JArr xs)
      have "redacted w" if "w \<in> set (map (\<lambda>v. clean_metadata x v (depth + 1)) (take MAX_FIELDS xs))" for w
        using that 1 False JArr by auto
      with False JArr show ?thesis
        by (subst clean_metadata.simps) (auto intro!: red_arr)
    next
      case (JObj m)
      let ?m = "map (\<lambda>kv. (fst kv, if sensitive (fst kv) then JStr ''[REDACTED]''
          else clean_metadata x (snd kv) (depth + 1))) (take MAX_FIELDS m)"
      have "redacted w \<and> (sensitive k \<longrightarrow> w = JStr ''[REDACTED]'')" if "(k, w) \<in> set ?m" for k w
        using that 1 False JObj by (auto intro: red_str split: if_splits)
      then have "redacted (jobj ?m)"
        unfolding jobj_def by (intro red_obj) (blast dest: omap_of_vals)
      with False JObj show ?thesis by (subst clean_metadata.simps) simp
    qed (use False in \<open>simp_all add: clean_metadata.simps redacted.intros\<close>)
  qed
qed

end
