(* ===== verification/Net.thy ===== *)
theory Net
  imports Logging
begin

text \<open>
  IP addresses as the standard library reads and prints them (\<open>std::net::IpAddr\<close>, used by
  register.rs and api\_key.rs): IPv4 as a number below 2 ^ 32, IPv6 as its eight 16-bit groups.
\<close>

datatype ip_addr = V4 nat | V6 "nat list"

section \<open>Reading\<close>

text \<open>An octet has one to three digits, no leading zero, and a value below 256.\<close>

definition parse_octet :: "string \<Rightarrow> nat option" where
  "parse_octet s =
     (if s = [] \<or> length s > 3 \<or> (hd s = CHR ''0'' \<and> length s > 1) then None
      else digits_val 255 0 s)"

definition parse_v4 :: "string \<Rightarrow> nat option" where
  "parse_v4 s =
     (case map parse_octet (split_on (CHR ''.'') s) of
        [Some a, Some b, Some c, Some d] \<Rightarrow> Some (((a * 256 + b) * 256 + c) * 256 + d)
      | _ \<Rightarrow> None)"

definition hex_val :: "char \<Rightarrow> nat option" where
  "hex_val c =
     (let n = of_char c :: nat
      in if 48 \<le> n \<and> n \<le> 57 then Some (n - 48)
         else if 97 \<le> n \<and> n \<le> 102 then Some (n - 87)
         else if 65 \<le> n \<and> n \<le> 70 then Some (n - 55)
         else None)"

fun hex_digits :: "nat \<Rightarrow> string \<Rightarrow> nat option" where
  "hex_digits acc [] = Some acc"
| "hex_digits acc (c # cs) =
     (case hex_val c of None \<Rightarrow> None | Some d \<Rightarrow> hex_digits (acc * 16 + d) cs)"

definition parse_group :: "string \<Rightarrow> nat option" where
  "parse_group s = (if s = [] \<or> length s > 4 then None else hex_digits 0 s)"

text \<open>Colon-separated groups; the last piece may be an IPv4 address, which is two groups.\<close>

fun parse_groups :: "bool \<Rightarrow> string list \<Rightarrow> nat list option" where
  "parse_groups v4 [] = Some []"
| "parse_groups v4 [s] =
     (case parse_group s of
        Some g \<Rightarrow> Some [g]
      | None \<Rightarrow> if v4 then map_option (\<lambda>a. [a div 65536, a mod 65536]) (parse_v4 s) else None)"
| "parse_groups v4 (s # ss) =
     Option.bind (parse_group s) (\<lambda>g. map_option ((#) g) (parse_groups v4 ss))"

text \<open>The text around the first \<open>::\<close>.\<close>

fun split_gap :: "string \<Rightarrow> (string \<times> string) option" where
  "split_gap (a # b # cs) =
     (if a = CHR '':'' \<and> b = CHR '':'' then Some ([], cs)
      else map_option (\<lambda>(x, y). (a # x, y)) (split_gap (b # cs)))"
| "split_gap _ = None"

definition groups_of :: "bool \<Rightarrow> string \<Rightarrow> nat list option" where
  "groups_of v4 s = (if s = [] then Some [] else parse_groups v4 (split_on (CHR '':'') s))"

definition parse_v6 :: "string \<Rightarrow> nat list option" where
  "parse_v6 s =
     (case split_gap s of
        None \<Rightarrow> Option.bind (groups_of True s) (\<lambda>gs. if length gs = 8 then Some gs else None)
      | Some (front, back) \<Rightarrow>
          Option.bind (groups_of False front) (\<lambda>f.
          Option.bind (groups_of True back) (\<lambda>b.
            if length f + length b \<le> 7
            then Some (f @ replicate (8 - (length f + length b)) 0 @ b) else None)))"

definition parse_ip :: "string \<Rightarrow> ip_addr option" where
  "parse_ip s = or_else (map_option V4 (parse_v4 s)) (map_option V6 (parse_v6 s))"

definition is_loopback :: "ip_addr \<Rightarrow> bool" where
  "is_loopback ip =
     (case ip of V4 a \<Rightarrow> a div 16777216 = 127 | V6 gs \<Rightarrow> gs = [0, 0, 0, 0, 0, 0, 0, 1])"

section \<open>Printing\<close>

definition show_v4 :: "nat \<Rightarrow> string" where
  "show_v4 a =
     nat_str (a div 16777216) @ ''.'' @ nat_str (a div 65536 mod 256) @ ''.''
     @ nat_str (a div 256 mod 256) @ ''.'' @ nat_str (a mod 256)"

text \<open>The first of the longest runs of zero groups: its start and length.\<close>

definition zero_run :: "nat list \<Rightarrow> nat \<times> nat" where
  "zero_run gs =
     fold (\<lambda>i best. let n = length (takeWhile (\<lambda>g. g = 0) (drop i gs))
                    in if n > snd best then (i, n) else best) [0..<length gs] (0, 0)"

definition show_groups :: "nat list \<Rightarrow> string" where
  "show_groups gs = str_join '':'' (map hex_str gs)"

definition show_v6 :: "nat list \<Rightarrow> string" where
  "show_v6 gs =
     (if take 6 gs = [0, 0, 0, 0, 0, 65535] then
        ''::ffff:'' @ show_v4 (gs ! 6 * 65536 + gs ! 7)
      else
        (case zero_run gs of (start, n) \<Rightarrow>
           if n > 1 then show_groups (take start gs) @ ''::'' @ show_groups (drop (start + n) gs)
           else show_groups gs))"

definition show_ip :: "ip_addr \<Rightarrow> string" where
  "show_ip ip = (case ip of V4 a \<Rightarrow> show_v4 a | V6 gs \<Rightarrow> show_v6 gs)"

section \<open>Lemmas\<close>

lemma parse_octet_show: "n < 256 \<Longrightarrow> parse_octet (nat_str n) = Some n"
proof -
  assume n: "n < 256"
  have d: "digits_val 255 0 (nat_str n) = Some n"
    using n by (simp add: nat_str_def digits_val_base_str)
  have len: "length (nat_str n) \<le> 3"
    using n by (auto simp: nat_str_def base_str.simps [of 10 n] base_str.simps [of 10 "n div 10"]
        base_str.simps [of 10 "n div 10 div 10"])
  have zero: "hd (nat_str n) \<noteq> CHR ''0'' \<or> length (nat_str n) = 1"
  proof (cases "n = 0")
    case True
    then show ?thesis by (simp add: nat_str_def base_str.simps [of 10 0])
  next
    case False
    have *: "digit_char k \<noteq> CHR ''0''" if "0 < k" "k < 10" for k
    proof
      assume "digit_char k = CHR ''0''"
      moreover have "digit_char 0 = CHR ''0''" by (simp add: digit_char_def)
      ultimately have "digit_val (digit_char k) = digit_val (digit_char 0)" by simp
      with that show False by (simp add: digit_val_char)
    qed
    show ?thesis
    proof (cases "n < 10")
      case True
      with False show ?thesis by (simp add: nat_str_def base_str.simps [of 10 n])
    next
      case ge: False
      show ?thesis
      proof (cases "n < 100")
        case True
        with ge show ?thesis
          using * [of "n div 10"]
          by (auto simp: nat_str_def base_str.simps [of 10 n] base_str.simps [of 10 "n div 10"])
      next
        case False
        with ge n show ?thesis
          using * [of "n div 10 div 10"]
          by (auto simp: nat_str_def base_str.simps [of 10 n] base_str.simps [of 10 "n div 10"]
              base_str.simps [of 10 "n div 10 div 10"])
      qed
    qed
  qed
  from d len zero show ?thesis by (auto simp: parse_octet_def nat_str_def)
qed

lemma split_on_piece: "c \<notin> set p \<Longrightarrow> split_on c (p @ c # s) = p # split_on c s"
  by (induction p) (auto split: list.split)

lemma split_on_last: "c \<notin> set p \<Longrightarrow> split_on c p = [p]"
  by (induction p) auto

lemma dot_notin_nat_str: "CHR ''.'' \<notin> set (nat_str n)"
  using nat_str_digits [of "CHR ''.''" n] by (auto simp: digit_val_def)

lemma parse_show_v4: "a < 4294967296 \<Longrightarrow> parse_v4 (show_v4 a) = Some a"
proof -
  assume a: "a < 4294967296"
  have b: "a div 16777216 < 256" using a by linarith
  have q: "a div 16777216 = a div 256 div 256 div 256" "a div 65536 = a div 256 div 256"
    by (simp_all add: div_mult2_eq [symmetric])
  have "((a div 16777216 * 256 + a div 65536 mod 256) * 256 + a div 256 mod 256) * 256 + a mod 256 = a"
    by (simp only: q div_mult_mod_eq)
  then show ?thesis
    by (simp add: parse_v4_def show_v4_def split_on_piece split_on_last dot_notin_nat_str
        parse_octet_show b)
qed

end
