(* ===== verification/Hub.thy ===== *)
theory Hub
  imports Net "HOL-Library.AList"
begin

text \<open>
  The hub's shared state (pp-hub, state.rs): the database, the connected agents with their
  channels, the cache of verified API keys and the maintenance flag, and the messages a hub sends
  (pp-proto). A channel is a number; \<open>h_chans\<close> holds what was sent on it, in order, while its
  receiver lives, and \<open>None\<close> once it is dropped, when a send fails. The bounded channels make a
  sender wait for room, which the model leaves out; the locks are held per operation, so each
  operation is one step.
\<close>

text \<open>
  The readings of a time that chrono gives: the day, the ISO week, the month and year, the minute, the
  RFC 3339 text, and the time of a Unix second (none outside its range).
\<close>

record calendar =
  cal_date :: "tstamp \<Rightarrow> int"
  cal_week :: "tstamp \<Rightarrow> string"
  cal_month :: "tstamp \<Rightarrow> nat"
  cal_year :: "tstamp \<Rightarrow> int"
  cal_minute :: "tstamp \<Rightarrow> nat"
  cal_rfc3339 :: "tstamp \<Rightarrow> string"
  cal_from_timestamp :: "int \<Rightarrow> tstamp option"

section \<open>Messages\<close>

record config_push =
  cp_config_json :: string
  cp_target_core :: int
  cp_restart_required :: bool
  cp_config_version :: string
  cp_core_version :: string
  cp_core_build_id :: string

datatype core_command = CoreStart int | CoreStop int | CoreRestart int

datatype hub_message =
    RegisterResp bool string int string
  | ConfigPush config_push
  | CoreCmd core_command
  | CertIssue string string string
  | CoreBinaryListReq
  | CoreBinaryDelete string

text \<open>The numbers of the wire format.\<close>

fun proto_core :: "core_type \<Rightarrow> int" where
  "proto_core SingBox = 2"
| "proto_core Mihomo = 4"

section \<open>State\<close>

record agent_conn =
  ac_agent_id :: uuid
  ac_sender :: nat
  ac_versions :: "(string \<times> string) list"

record cached_api_key =
  ck_key_id :: uuid
  ck_name :: string
  ck_scopes :: "string list"
  ck_expires_at :: "tstamp option"
  ck_ip_allowlist :: "json option"
  ck_rate_limit :: "int option"
  ck_cached_at :: tstamp

text \<open>A token bucket of the rate limiter (rate_limiter.rs).\<close>

record bucket =
  bk_tokens :: nat
  bk_last_update :: tstamp

text \<open>A core binary on a node, and what an agent answers to a list or delete request.\<close>

record core_binary =
  cb_file_name :: string
  cb_size_bytes :: int
  cb_modified_at :: int
  cb_in_use :: bool

type_synonym binary_list = "core_binary list \<times> string"

text \<open>
  \<open>h_waiters\<close> holds the reply slot of a pending binary request per agent, \<open>h_replies\<close> what was put in
  the slots.
\<close>

record hub =
  h_db :: db
  h_agents :: "(uuid \<times> agent_conn) list"
  h_chans :: "nat \<Rightarrow> hub_message list option"
  h_key_cache :: "(string \<times> cached_api_key) list"
  h_update_in_progress :: bool
  h_waiters :: "(uuid \<times> nat) list"
  h_replies :: "(nat \<times> binary_list) list"
  h_buckets :: "(string \<times> bucket) list"

section \<open>Hash maps\<close>

text \<open>
  A \<open>HashMap\<close> is an association list with distinct keys, in the order an iteration visits it.
\<close>

locale kv_delete = kv_store +
  fixes del :: "'b \<Rightarrow> 'a \<Rightarrow> 'a"
  assumes look_del: "look (del k m) k' = (if k' = k then None else look m k')"
    and inv_del: "inv m \<Longrightarrow> inv (del k m)"
begin

lemma look_ins_del: "look (ins k v (del k m)) k' = look (ins k v m) k'"
  by (simp add: look_ins look_del)

lemma look_del_ins: "look m k = None \<Longrightarrow> look (del k (ins k v m)) k' = look m k'"
  by (simp add: look_ins look_del)

end

interpretation hm: kv_delete "[]" map_of AList.update "\<lambda>m. distinct (map fst m)" AList.delete
  by unfold_locales
     (simp_all add: update_conv' AList.delete_conv' distinct_update distinct_delete)

section \<open>Operations\<close>

text \<open>\<open>CachedApiKey::is_expired\<close>; the life time is an hour.\<close>

definition ns_per_sec :: int where "ns_per_sec = 1000000000"

definition API_KEY_CACHE_TTL :: int where "API_KEY_CACHE_TTL = 3600 * ns_per_sec"

definition cached_is_expired :: "tstamp \<Rightarrow> cached_api_key \<Rightarrow> bool" where
  "cached_is_expired now e \<longleftrightarrow> max 0 (now - ck_cached_at e) > API_KEY_CACHE_TTL"

definition cache_get :: "tstamp \<Rightarrow> string \<Rightarrow> hub \<Rightarrow> cached_api_key option" where
  "cache_get now k h = opt_filter (\<lambda>e. \<not> cached_is_expired now e) (map_of (h_key_cache h) k)"

definition cache_insert :: "string \<Rightarrow> cached_api_key \<Rightarrow> hub \<Rightarrow> hub" where
  "cache_insert k e h = h\<lparr>h_key_cache := AList.update k e (h_key_cache h)\<rparr>"

definition cache_invalidate :: "hub \<Rightarrow> hub" where
  "cache_invalidate h = h\<lparr>h_key_cache := []\<rparr>"

text \<open>\<open>MaintenanceState\<close>: the flag's compare-and-swap, and its release.\<close>

definition try_begin_update :: "hub \<Rightarrow> bool \<times> hub" where
  "try_begin_update h =
     (if h_update_in_progress h then (False, h) else (True, h\<lparr>h_update_in_progress := True\<rparr>))"

definition finish_update :: "hub \<Rightarrow> hub" where
  "finish_update h = h\<lparr>h_update_in_progress := False\<rparr>"

definition register_agent :: "uuid \<Rightarrow> nat \<Rightarrow> (string \<times> string) list \<Rightarrow> hub \<Rightarrow> hub" where
  "register_agent agent_id sender versions h =
     h\<lparr>h_agents := AList.update agent_id
         \<lparr>ac_agent_id = agent_id, ac_sender = sender, ac_versions = versions\<rparr> (h_agents h)\<rparr>"

definition agent_config_version :: "uuid \<Rightarrow> string \<Rightarrow> hub \<Rightarrow> string option" where
  "agent_config_version agent_id core h =
     Option.bind (map_of (h_agents h) agent_id) (\<lambda>c. map_of (ac_versions c) core)"

definition set_agent_config_version :: "uuid \<Rightarrow> string \<Rightarrow> string \<Rightarrow> hub \<Rightarrow> hub" where
  "set_agent_config_version agent_id core version h =
     (case map_of (h_agents h) agent_id of
        Some conn \<Rightarrow> h\<lparr>h_agents := AList.update agent_id
          (conn\<lparr>ac_versions := AList.update core version (ac_versions conn)\<rparr>) (h_agents h)\<rparr>
      | None \<Rightarrow> h)"

definition unregister_agent :: "uuid \<Rightarrow> hub \<Rightarrow> hub" where
  "unregister_agent agent_id h = h\<lparr>h_agents := AList.delete agent_id (h_agents h)\<rparr>"

definition send_to_agent :: "uuid \<Rightarrow> hub_message \<Rightarrow> hub \<Rightarrow> string + hub" where
  "send_to_agent agent_id m h =
     (case map_of (h_agents h) agent_id of
        None \<Rightarrow> Inl (''agent '' @ agent_id @ '' not connected'')
      | Some conn \<Rightarrow>
          (case h_chans h (ac_sender conn) of
             None \<Rightarrow> Inl ''agent channel closed: channel closed''
           | Some q \<Rightarrow> Inr (h\<lparr>h_chans := (h_chans h)(ac_sender conn \<mapsto> q @ [m])\<rparr>)))"

section \<open>Lemmas\<close>

text \<open>What was sent to an agent on its present connection.\<close>

definition sent_to :: "uuid \<Rightarrow> hub \<Rightarrow> hub_message list option" where
  "sent_to agent_id h = Option.bind (map_of (h_agents h) agent_id) (\<lambda>c. h_chans h (ac_sender c))"

definition hub_ok :: "hub \<Rightarrow> bool" where
  "hub_ok h \<longleftrightarrow> distinct (map fst (h_agents h)) \<and> inj_on (\<lambda>(k, c). ac_sender c) (set (h_agents h))
     \<and> (\<forall>(k, c) \<in> set (h_agents h). ac_agent_id c = k)"

lemma set_version_simps [simp]:
  "h_db (set_agent_config_version a c v h) = h_db h"
  "h_chans (set_agent_config_version a c v h) = h_chans h"
  "h_key_cache (set_agent_config_version a c v h) = h_key_cache h"
  "h_update_in_progress (set_agent_config_version a c v h) = h_update_in_progress h"
  by (simp_all add: set_agent_config_version_def split: option.split)

lemma version_after_set:
  "agent_config_version a c (set_agent_config_version a' c' v h)
     = (if a = a' \<and> c = c' \<and> map_of (h_agents h) a \<noteq> None then Some v else agent_config_version a c h)"
  by (auto simp: agent_config_version_def set_agent_config_version_def hm.look_ins split: option.split)

lemma sent_after_set [simp]: "sent_to a (set_agent_config_version a' c v h) = sent_to a h"
  by (auto simp: sent_to_def set_agent_config_version_def hm.look_ins split: option.split)

lemma connected_after_set [simp]:
  "map_of (h_agents (set_agent_config_version a' c v h)) a = None \<longleftrightarrow> map_of (h_agents h) a = None"
  by (auto simp: set_agent_config_version_def hm.look_ins split: option.split)

lemma send_ok_iff: "is_ok (send_to_agent a m h) \<longleftrightarrow> sent_to a h \<noteq> None"
  by (auto simp: send_to_agent_def sent_to_def split: option.split)

lemma send_frame:
  "send_to_agent a m h = Inr h' \<Longrightarrow>
   h_db h' = h_db h \<and> h_agents h' = h_agents h \<and> h_key_cache h' = h_key_cache h
   \<and> h_update_in_progress h' = h_update_in_progress h \<and> map_of (h_agents h) a \<noteq> None
   \<and> sent_to a h' = map_option (\<lambda>q. q @ [m]) (sent_to a h) \<and> sent_to a h \<noteq> None"
  by (auto simp: send_to_agent_def sent_to_def split: option.splits)

lemma send_other:
  assumes "send_to_agent a m h = Inr h'" and "hub_ok h" and "b \<noteq> a"
  shows "sent_to b h' = sent_to b h"
proof (cases "map_of (h_agents h) b")
  case (Some c)
  from assms(1) obtain ca q where ca: "map_of (h_agents h) a = Some ca"
    and h': "h' = h\<lparr>h_chans := (h_chans h)(ac_sender ca \<mapsto> q)\<rparr>"
    by (auto simp: send_to_agent_def split: option.splits)
  from Some ca have "(b, c) \<in> set (h_agents h)" "(a, ca) \<in> set (h_agents h)"
    by (auto dest: map_of_SomeD)
  with assms(2,3) have "ac_sender c \<noteq> ac_sender ca"
    using inj_onD [of "\<lambda>(k, c). ac_sender c" "set (h_agents h)" "(b, c)" "(a, ca)"]
    by (auto simp: hub_ok_def)
  with Some h' show ?thesis by (simp add: sent_to_def)
qed (use assms send_frame in \<open>fastforce simp: sent_to_def\<close>)

lemma register_version:
  "agent_config_version a c (register_agent a' s vs h)
     = (if a = a' then map_of vs c else agent_config_version a c h)"
  by (simp add: agent_config_version_def register_agent_def hm.look_ins)

lemma unregister_connected:
  "map_of (h_agents (unregister_agent a' h)) a = (if a = a' then None else map_of (h_agents h) a)"
  by (simp add: unregister_agent_def hm.look_del)

lemma maintenance_exclusive:
  "try_begin_update h = (True, h') \<Longrightarrow>
   \<not> h_update_in_progress h \<and> fst (try_begin_update h') = False
   \<and> fst (try_begin_update (finish_update h')) = True"
  by (auto simp: try_begin_update_def finish_update_def split: if_splits)

end
