(* ===== verification/ConfigGen.thy ===== *)
theory ConfigGen
  imports Hub
begin

text \<open>
  A node's core configuration (pp-hub, service/protocol/config_gen.rs and push.rs; pp-config,
  schema.rs): the inbounds of its active bindings with their clients and certificates, the relay
  rules, the content-hash version, and the push to the connected agent.
\<close>

section \<open>Reading stored names\<close>

definition parse_core_type :: "string \<Rightarrow> core_type" where
  "parse_core_type s =
     (if s = ''sing-box'' \<or> s = ''singbox'' then SingBox
      else if s = ''mihomo'' then Mihomo else SingBox)"

definition parse_protocol_type :: "string \<Rightarrow> protocol_type panel_result" where
  "parse_protocol_type s =
     (if s = ''vless_reality'' then Inr VlessReality
      else if s = ''vless_xhttp'' then Inr VlessXhttp
      else if s = ''hysteria2'' then Inr Hysteria2
      else if s = ''anytls'' then Inr Anytls
      else Inl (Validation (''unknown protocol type: '' @ s)))"

section \<open>Clients of a binding\<close>

definition client_to_protocol_entry :: "client \<Rightarrow> string \<Rightarrow> json" where
  "client_to_protocol_entry c pt =
     (let email = unwrap_or (c_email c) (c_id c) in
      if starts_with ''vless'' pt then
        (let flow = (if pt = ''vless_reality'' then ''xtls-rprx-vision'' else []);
             obj = jobj [(''id'', JStr (c_id c)), (''email'', JStr email), (''flow'', JStr flow)]
         in case c_max_devices c of
              Some limit \<Rightarrow> if limit > 0 then jset ''limitIp'' (jint limit) obj else obj
            | None \<Rightarrow> obj)
      else if pt = ''hysteria2'' \<or> pt = ''anytls'' then
        jobj [(''name'', JStr email), (''password'', JStr (c_id c))]
      else jobj [(''id'', JStr (c_id c))])"

text \<open>\<open>obj.insert\<close> behind \<open>as_object_mut\<close>: nothing on a value that is no object.\<close>

fun obj_insert :: "string \<Rightarrow> json \<Rightarrow> json \<Rightarrow> json" where
  "obj_insert k v (JObj m) = JObj (omap_ins k v m)"
| "obj_insert k v x = x"

definition inject_binding_clients :: "db \<Rightarrow> node_binding \<Rightarrow> string \<Rightarrow> json \<Rightarrow> json" where
  "inject_binding_clients d binding pt settings =
     (let group_ids = map bg_group_id
            (filter (\<lambda>g. bg_node_binding_id g = nb_id binding) (db_binding_groups d))
      in if group_ids = [] then settings
         else (let client_ids = map cg_client_id
                     (filter (\<lambda>b. cg_group_id b \<in> set group_ids) (db_client_groups d))
               in if client_ids = [] then settings
                  else (let clients = filter (\<lambda>c. c_id c \<in> set client_ids \<and> c_status c = ''active'')
                                        (db_clients d)
                        in obj_insert ''clients''
                             (JArr (map (\<lambda>c. client_to_protocol_entry c pt) clients)) settings)))"

section \<open>Certificates and versions\<close>

definition resolve_managed_cert_tls ::
    "crates \<Rightarrow> db \<Rightarrow> uuid \<Rightarrow> json option \<Rightarrow> json option panel_result" where
  "resolve_managed_cert_tls x d node tls =
     (case tls of
        None \<Rightarrow> Inr None
      | Some t \<Rightarrow>
          (case get_str t ''cert_id'' of
             None \<Rightarrow> Inr (Some t)
           | Some raw \<Rightarrow>
               rbind (ok_or (x_parse_uuid x raw) (Validation ''invalid cert_id in tls_settings'')) (\<lambda>cert_id.
               rbind (ok_or (tbl_find ct_id cert_id (db_certificates d))
                        (NotFound (''certificate '' @ cert_id @ '' not found''))) (\<lambda>cert.
               if ct_node_id cert \<noteq> node then
                 Inl (Validation (''certificate '' @ cert_id @ '' ('' @ ct_domain cert
                        @ '') does not belong to this node''))
               else Inr (Some (jobj [(''managed_domain'', JStr (ct_domain cert))]))))))"

definition effective_core_version :: "db \<Rightarrow> core_type \<Rightarrow> string option" where
  "effective_core_version d core =
     or_else
       (map_option cv_version
          (find (\<lambda>v. cv_core_type v = core_str core \<and> cv_is_active v) (db_core_versions d)))
       (case core of SingBox \<Rightarrow> Some ''v1.13.14'' | Mihomo \<Rightarrow> None)"

section \<open>Generating\<close>

definition active_bindings :: "db \<Rightarrow> uuid \<Rightarrow> node_binding list" where
  "active_bindings d node =
     filter (\<lambda>b. nb_node_id b = node \<and> nb_is_active b) (db_node_bindings d)"

definition override_of :: "node_binding \<Rightarrow> string \<Rightarrow> json option" where
  "override_of b k = Option.bind (nb_override_settings b) (\<lambda>o'. jget o' k)"

definition merge_overrides :: "json option \<Rightarrow> json \<Rightarrow> json" where
  "merge_overrides over settings =
     (case (Option.bind over as_object, as_object settings) of
        (Some ov, Some m) \<Rightarrow>
          JObj (fold (\<lambda>(k, v). omap_ins k v) (filter (\<lambda>kv. fst kv \<noteq> ''tls_settings'') ov) m)
      | _ \<Rightarrow> settings)"

definition inbound_tag :: "protocol_config \<Rightarrow> string" where
  "inbound_tag cfg = pc_name cfg @ ''-'' @ pc_id cfg"

definition binding_settings :: "db \<Rightarrow> node_binding \<Rightarrow> protocol_config \<Rightarrow> json" where
  "binding_settings d b cfg =
     (let settings = merge_overrides (nb_override_settings b) (pc_settings cfg);
          settings = inject_binding_clients d b (pc_protocol_type cfg) settings
      in obj_insert ''tag'' (JStr (inbound_tag cfg))
           (obj_insert ''listen'' (JStr (pc_listen_address cfg))
              (obj_insert ''port'' (jint (pc_listen_port cfg)) settings)))"

fun node_inbounds ::
    "crates \<Rightarrow> db \<Rightarrow> uuid \<Rightarrow> core_type \<Rightarrow> node_binding list \<Rightarrow> inbound_config list panel_result" where
  "node_inbounds x d node core [] = Inr []"
| "node_inbounds x d node core (b # bs) =
     rbind (ok_or (tbl_find pc_id (nb_protocol_config_id b) (db_protocol_configs d))
              (NotFound (''protocol config '' @ nb_protocol_config_id b @ '' not found''))) (\<lambda>cfg.
     if parse_core_type (pc_core_type cfg) \<noteq> core then node_inbounds x d node core bs
     else
       rbind (parse_protocol_type (pc_protocol_type cfg)) (\<lambda>protocol.
       rbind (resolve_managed_cert_tls x d node
                (merge_tls_settings (pc_tls_settings cfg) (override_of b ''tls_settings''))) (\<lambda>tls.
       rbind (node_inbounds x d node core bs) (\<lambda>is.
       Inr (\<lparr>ic_tag = inbound_tag cfg, ic_protocol = protocol, ic_listen = pc_listen_address cfg,
             ic_port = as_u16 (pc_listen_port cfg), ic_settings = binding_settings d b cfg,
             ic_tls = tls, ic_sniffing = None,
             ic_core_version = effective_core_version d core\<rparr> # is)))))"

definition validate_singbox_config :: "crates \<Rightarrow> json \<Rightarrow> unit panel_result" where
  "validate_singbox_config x cfg =
     (let errors = take 5 (x_schema_errors x cfg)
      in if errors = [] then Inr ()
         else Inl (Config (''sing-box config failed schema validation: '' @ str_join ''; '' errors)))"

definition generate_node_config ::
    "crates \<Rightarrow> env \<Rightarrow> db \<Rightarrow> uuid \<Rightarrow> core_type \<Rightarrow> (json \<times> string option) panel_result" where
  "generate_node_config x env d node core =
     rbind (node_inbounds x d node core (active_bindings d node)) (\<lambda>inbounds.
     rbind (build_full_config env core inbounds) (\<lambda>config.
     rbind (apply_relay_rules x d node core config) (\<lambda>config.
     rbind (if core = SingBox then validate_singbox_config x config else Inr ()) (\<lambda>_.
     Inr (config, effective_core_version d core)))))"

section \<open>Versions of a configuration\<close>

definition config_version_of :: "crates \<Rightarrow> string \<Rightarrow> string" where
  "config_version_of x s = take 16 (x_sha256_hex x s)"

definition core_build_id_of :: "db \<Rightarrow> core_type \<Rightarrow> string option \<Rightarrow> string" where
  "core_build_id_of d core version =
     (case opt_filter (\<lambda>v. v \<noteq> []) version of
        None \<Rightarrow> []
      | Some v \<Rightarrow>
          unwrap_or
            (map_option (\<lambda>t. int_str (t div ns_per_sec))
               (Option.bind
                  (find (\<lambda>r. cv_core_type r = core_str core \<and> cv_version r = v) (db_core_versions d))
                  cv_published_at)) [])"

definition push_version_of :: "crates \<Rightarrow> string \<Rightarrow> string \<Rightarrow> string" where
  "push_version_of x s build_id =
     (if build_id = [] then config_version_of x s
      else config_version_of x (s @ ''#build:'' @ build_id))"

section \<open>Pending updates\<close>

definition UPDATE_TYPE_CONFIG :: string where "UPDATE_TYPE_CONFIG = ''config''"
definition UPDATE_TYPE_CORE :: string where "UPDATE_TYPE_CORE = ''core''"

definition pu_key :: "pending_update \<Rightarrow> uuid \<times> string" where
  "pu_key r = (pu_node_id r, pu_core_type r)"

definition mark_pending :: "tstamp \<Rightarrow> uuid list \<Rightarrow> core_type \<Rightarrow> string \<Rightarrow> db \<Rightarrow> db" where
  "mark_pending now nodes core utype d =
     d\<lparr>db_pending := fold (\<lambda>node t.
        (case tbl_find pu_key (node, core_str core) t of
           Some row \<Rightarrow> tbl_update pu_key (node, core_str core)
             (\<lambda>r. r\<lparr>pu_update_type := utype, pu_updated_at := now\<rparr>) t
         | None \<Rightarrow> tbl_insert \<lparr>pu_node_id = node, pu_core_type = core_str core,
                      pu_update_type = utype, pu_updated_at = now\<rparr> t)) nodes (db_pending d)\<rparr>"

definition clear_pending :: "uuid \<Rightarrow> core_type \<Rightarrow> db \<Rightarrow> db" where
  "clear_pending node core d =
     d\<lparr>db_pending := tbl_delete (\<lambda>r. pu_key r = (node, core_str core)) (db_pending d)\<rparr>"

definition nodes_using_config :: "db \<Rightarrow> uuid \<Rightarrow> uuid list" where
  "nodes_using_config d config_id =
     remdups (map nb_node_id
       (filter (\<lambda>b. nb_protocol_config_id b = config_id \<and> nb_is_active b) (db_node_bindings d)))"

definition nodes_with_bindings :: "db \<Rightarrow> core_type \<Rightarrow> uuid list" where
  "nodes_with_bindings d core =
     remdups (map nb_node_id
       (filter (\<lambda>b. map_option pc_core_type
                      (tbl_find pc_id (nb_protocol_config_id b) (db_protocol_configs d))
                    = Some (core_str core))
          (filter nb_is_active (db_node_bindings d))))"

section \<open>Port conflicts and the push\<close>

text \<open>What a binding asks to listen on: address and port, the overrides applied, and its core.\<close>

definition listen_claim :: "node_binding \<Rightarrow> protocol_config \<Rightarrow> (string \<times> nat) \<times> core_type" where
  "listen_claim b cfg =
     (let over = Option.bind (nb_override_settings b) as_object;
          listen = unwrap_or (Option.bind over (\<lambda>m. get_str (JObj m) ''listen_address''))
                     (pc_listen_address cfg);
          port = (case Option.bind over (\<lambda>m. get_u64 (JObj m) ''listen_port'') of
                    Some p \<Rightarrow> as_u16 (int p)
                  | None \<Rightarrow> as_u16 (pc_listen_port cfg))
      in ((listen, port), parse_core_type (pc_core_type cfg)))"

fun port_loop :: "db \<Rightarrow> ((string \<times> nat) \<times> core_type) list \<Rightarrow> node_binding list \<Rightarrow> unit panel_result" where
  "port_loop d seen [] = Inr ()"
| "port_loop d seen (b # bs) =
     (case tbl_find pc_id (nb_protocol_config_id b) (db_protocol_configs d) of
        None \<Rightarrow> port_loop d seen bs
      | Some cfg \<Rightarrow>
          (let claim = listen_claim b cfg in
           if claim \<in> set seen then
             Inl (Validation (''port conflict on '' @ fst (fst claim) @ '':'' @ nat_str (snd (fst claim))
                    @ '': multiple inbounds target '' @ core_debug (snd claim)))
           else port_loop d (claim # seen) bs))"

definition validate_node_port_conflicts :: "db \<Rightarrow> uuid \<Rightarrow> unit panel_result" where
  "validate_node_port_conflicts d node = port_loop d [] (active_bindings d node)"

text \<open>The message of a configuration push.\<close>

definition push_message ::
    "crates \<Rightarrow> core_type \<Rightarrow> bool \<Rightarrow> string \<Rightarrow> string \<Rightarrow> string option \<Rightarrow> string \<Rightarrow> hub_message" where
  "push_message x core restart config_str version core_version build_id =
     ConfigPush \<lparr>cp_config_json = config_str, cp_target_core = proto_core core,
       cp_restart_required = restart, cp_config_version = version,
       cp_core_version = unwrap_or core_version [], cp_core_build_id = build_id\<rparr>"

definition map_err :: "('e \<Rightarrow> 'f) \<Rightarrow> 'e + 'a \<Rightarrow> 'f + 'a" where
  "map_err f r = (case r of Inl e \<Rightarrow> Inl (f e) | Inr y \<Rightarrow> Inr y)"

definition hub_clear_pending :: "uuid \<Rightarrow> core_type \<Rightarrow> hub \<Rightarrow> hub" where
  "hub_clear_pending node core h = h\<lparr>h_db := clear_pending node core (h_db h)\<rparr>"

definition push_node_config ::
    "crates \<Rightarrow> env \<Rightarrow> uuid \<Rightarrow> core_type \<Rightarrow> bool \<Rightarrow> string option \<Rightarrow> hub \<Rightarrow> hub panel_result" where
  "push_node_config x env node core restart version h =
     rbind (map_err (\<lambda>e. Validation (''node '' @ node @ '' port conflict: '' @ panel_error_str e))
              (validate_node_port_conflicts (h_db h) node)) (\<lambda>_.
     rbind (generate_node_config x env (h_db h) node core) (\<lambda>(config, core_version).
     let config_str = x_to_string x config;
         build_id = core_build_id_of (h_db h) core core_version;
         version = unwrap_or (opt_filter (\<lambda>v. v \<noteq> []) version) (push_version_of x config_str build_id);
         m = push_message x core restart config_str version core_version build_id
     in rbind (map_err (\<lambda>e. Internal (''failed to push config: '' @ e)) (send_to_agent node m h)) (\<lambda>h.
        Inr (hub_clear_pending node core (set_agent_config_version node (core_str core) version h)))))"

section \<open>Lemmas: the settings an inbound is built from\<close>

lemma is_obj_obj_insert [simp]: "is_obj (obj_insert k x v) = is_obj v"
  by (cases v) auto

lemma jget_obj_insert [simp]:
  "is_obj v \<Longrightarrow> jget (obj_insert k x v) k' = (if k' = k then Some x else jget v k')"
  by (cases v) (auto simp: map_of_omap_ins)

lemma is_obj_merge [simp]: "is_obj (merge_overrides ov s) = is_obj s"
  by (cases s) (auto simp: merge_overrides_def split: option.split)

definition linked_clients :: "db \<Rightarrow> node_binding \<Rightarrow> uuid list" where
  "linked_clients d b = map cg_client_id
     (filter (\<lambda>l. \<exists>g \<in> set (db_binding_groups d). bg_node_binding_id g = nb_id b
                     \<and> bg_group_id g = cg_group_id l) (db_client_groups d))"

definition authorized :: "db \<Rightarrow> node_binding \<Rightarrow> client list" where
  "authorized d b =
     filter (\<lambda>c. c_status c = ''active'' \<and> c_id c \<in> set (linked_clients d b)) (db_clients d)"

lemma group_ids_mem:
  "g \<in> set (map bg_group_id (filter (\<lambda>g. bg_node_binding_id g = nb_id b) (db_binding_groups d)))
   \<longleftrightarrow> (\<exists>r \<in> set (db_binding_groups d). bg_node_binding_id r = nb_id b \<and> bg_group_id r = g)"
  by auto

lemma inject_eq:
  "inject_binding_clients d b pt s =
     (if linked_clients d b = [] then s
      else obj_insert ''clients''
             (JArr (map (\<lambda>c. client_to_protocol_entry c pt) (authorized d b))) s)"
proof -
  let ?g = "map bg_group_id (filter (\<lambda>g. bg_node_binding_id g = nb_id b) (db_binding_groups d))"
  have *: "map cg_client_id (filter (\<lambda>l. cg_group_id l \<in> set ?g) (db_client_groups d))
      = linked_clients d b"
    unfolding linked_clients_def group_ids_mem ..
  have "?g = [] \<Longrightarrow> linked_clients d b = []"
    by (subst * [symmetric]) simp
  then show ?thesis
    unfolding inject_binding_clients_def Let_def *
    by (auto simp: authorized_def conj_commute)
qed

lemma is_obj_binding_settings [simp]: "is_obj (binding_settings d b cfg) = is_obj (pc_settings cfg)"
  by (simp add: binding_settings_def Let_def inject_eq)

lemma jget_binding_settings:
  assumes "is_obj (pc_settings cfg)"
  shows "jget (binding_settings d b cfg) ''tag'' = Some (JStr (inbound_tag cfg))"
    and "jget (binding_settings d b cfg) ''port'' = Some (jint (pc_listen_port cfg))"
    and "jget (binding_settings d b cfg) ''listen'' = Some (JStr (pc_listen_address cfg))"
    and "linked_clients d b \<noteq> [] \<Longrightarrow> jget (binding_settings d b cfg) ''clients''
      = Some (JArr (map (\<lambda>c. client_to_protocol_entry c (pc_protocol_type cfg)) (authorized d b)))"
    and "linked_clients d b = [] \<Longrightarrow> k \<notin> {''tag'', ''port'', ''listen''} \<Longrightarrow>
      jget (binding_settings d b cfg) k
      = jget (merge_overrides (nb_override_settings b) (pc_settings cfg)) k"
  using assms by (simp_all add: binding_settings_def Let_def inject_eq)

text \<open>The member of a user or client entry that holds its credential.\<close>

definition secret_key :: "protocol_type \<Rightarrow> string" where
  "secret_key p = (if p = VlessReality then ''uuid'' else ''password'')"

definition entry_key :: "protocol_type \<Rightarrow> string" where
  "entry_key p = (if p = VlessReality then ''id'' else ''password'')"

lemma vless_client_user_uuid:
  "get_str (vless_client_user c) ''uuid'' = Some (str_or c ''id'' []) \<and> is_obj (vless_client_user c)"
  by (simp add: vless_client_user_def get_str_def Let_def split: option.split)

lemma get_array_members [simp]:
  "is_obj v \<Longrightarrow> get_array (jset k x v) k' = (if k' = k then as_array x else get_array v k')"
  "get_array (jobj kvs) k' = Option.bind (map_of (rev kvs) k') as_array"
  by (auto simp: get_array_def)

lemma get_str_members [simp]:
  "is_obj v \<Longrightarrow> get_str (jset k x v) k' = (if k' = k then as_str x else get_str v k')"
  "get_str (jobj kvs) k' = Option.bind (map_of (rev kvs) k') as_str"
  by (auto simp: get_str_def)

text \<open>The users of a built sing-box inbound hold the credentials of the client entries, in order.\<close>

lemma sb_vless_users:
  assumes "build_vless_inbound s tls = Inr v" and "get_array s ''clients'' = Some cs"
  shows "\<exists>us. get_array v ''users'' = Some us
           \<and> map (\<lambda>u. get_str u ''uuid'') us = map (\<lambda>c. Some (str_or c ''id'' [])) cs"
proof -
  let ?f = "\<lambda>fl u. if fl = [] then u else jset ''flow'' (JStr fl) u"
  have "get_array v ''users'' = Some (map (?f (str_or s ''flow'' []) \<circ> vless_client_user) cs)"
    using assms
    by (auto simp: build_vless_inbound_def Let_def rbind_Inr_iff vless_clients_to_users_def
        split: if_splits)
  then show ?thesis
    by (auto simp: vless_client_user_uuid)
qed

lemma sb_password_users:
  "get_array s ''clients'' = Some cs \<Longrightarrow>
   password_clients_to_users s = JArr (map password_client_user cs)"
  by (simp add: password_clients_to_users_def)

lemma sb_inbound_users:
  assumes v: "sb_build_inbound p s tls = Inr v" and cs: "get_array s ''clients'' = Some cs"
  shows "\<exists>us. get_array v ''users'' = Some us
           \<and> map (\<lambda>u. get_str u (secret_key p)) us = map (\<lambda>c. Some (str_or c (entry_key p) [])) cs"
proof (cases p)
  case VlessReality
  with v sb_vless_users [OF _ cs] show ?thesis by (simp add: secret_key_def entry_key_def)
next
  case Hysteria2
  with v have "get_array v ''users'' = Some (map password_client_user cs)"
    by (auto simp: build_hysteria2_inbound_def Let_def rbind_Inr_iff sb_password_users [OF cs])
  with Hysteria2 show ?thesis
    by (simp add: secret_key_def entry_key_def password_client_user_def)
next
  case Anytls
  with v have "get_array v ''users'' = Some (map password_client_user cs)"
    by (auto simp: build_anytls_inbound_def Let_def rbind_Inr_iff sb_password_users [OF cs]
        split: option.splits)
  with Anytls show ?thesis
    by (simp add: secret_key_def entry_key_def password_client_user_def)
qed (use v in simp)

lemma entry_credential:
  "p \<noteq> VlessXhttp \<Longrightarrow>
   str_or (client_to_protocol_entry c (protocol_str p)) (entry_key p) [] = c_id c"
  by (cases p)
     (auto simp: client_to_protocol_entry_def entry_key_def str_or_def Let_def split: option.split)

lemma parse_protocol_Inr: "parse_protocol_type s = Inr p \<longleftrightarrow> s = protocol_str p"
  by (cases p) (auto simp: parse_protocol_type_def split: if_splits)

section \<open>Lemmas: the inbounds of a node\<close>

text \<open>The inbound that a binding and its protocol configuration give.\<close>

definition inbound_for ::
    "crates \<Rightarrow> db \<Rightarrow> uuid \<Rightarrow> node_binding \<Rightarrow> protocol_config \<Rightarrow> inbound_config \<Rightarrow> bool" where
  "inbound_for x d node b cfg i \<longleftrightarrow>
     ic_tag i = inbound_tag cfg \<and> parse_protocol_type (pc_protocol_type cfg) = Inr (ic_protocol i)
     \<and> ic_settings i = binding_settings d b cfg
     \<and> resolve_managed_cert_tls x d node
         (merge_tls_settings (pc_tls_settings cfg) (override_of b ''tls_settings'')) = Inr (ic_tls i)
     \<and> ic_core_version i = effective_core_version d (parse_core_type (pc_core_type cfg))"

lemma node_inbounds_from:
  "node_inbounds x d node core bs = Inr is \<Longrightarrow> i \<in> set is \<Longrightarrow>
   \<exists>b \<in> set bs. \<exists>cfg. tbl_find pc_id (nb_protocol_config_id b) (db_protocol_configs d) = Some cfg
     \<and> parse_core_type (pc_core_type cfg) = core \<and> inbound_for x d node b cfg i"
proof (induction bs arbitrary: "is")
  case (Cons b bs)
  then show ?case
    by (fastforce simp: rbind_Inr_iff ok_or_Inr_iff inbound_for_def split: if_splits)
qed simp

lemma generate_Inr:
  assumes "generate_node_config x env d node core = Inr (cfg, ver)"
  obtains "is" base where "node_inbounds x d node core (active_bindings d node) = Inr is"
    "build_full_config env core is = Inr base" "apply_relay_rules x d node core base = Inr cfg"
    "ver = effective_core_version d core" "core = SingBox \<longrightarrow> validate_singbox_config x cfg = Inr ()"
  using assms by (auto simp: generate_node_config_def rbind_Inr_iff split: if_splits)

lemma sb_inbound_tag_port:
  assumes "sb_build_inbound p s tls = Inr v"
  shows "get_str s ''tag'' = Some t \<Longrightarrow> get_str v ''tag'' = Some t"
    and "get_u64 s ''port'' = Some n \<Longrightarrow> get_u64 v ''listen_port'' = Some n"
  using assms
  by (cases p; auto simp: build_vless_inbound_def build_hysteria2_inbound_def build_anytls_inbound_def
      Let_def rbind_Inr_iff str_or_def u64_or_def get_u64_def jnat_def split: option.splits)+

lemma map_filter_mem: "y \<in> set (List.map_filter f xs) \<Longrightarrow> \<exists>x \<in> set xs. f x = Some y"
  by (auto simp: List.map_filter_def)

lemma ok_of_Some: "ok_of r = Some y \<longleftrightarrow> r = Inr y"
  by (cases r) auto

lemma sb_full_is_obj: "sb_build_full_config env ins = Inr cfg \<Longrightarrow> is_obj cfg"
  by (erule sb_full_members)

lemma generated_sb_inbounds:
  assumes "generate_node_config x env d node SingBox = Inr (cfg, ver)"
    and "v \<in> set (arr_of cfg ''inbounds'')"
  shows "\<exists>b \<in> set (active_bindings d node). \<exists>pc i.
      tbl_find pc_id (nb_protocol_config_id b) (db_protocol_configs d) = Some pc
      \<and> parse_core_type (pc_core_type pc) = SingBox \<and> inbound_for x d node b pc i
      \<and> sb_build_inbound (ic_protocol i) (ic_settings i) (ic_tls i) = Inr v"
proof -
  from assms(1) obtain "is" base where
    ins: "node_inbounds x d node SingBox (active_bindings d node) = Inr is"
    and base: "sb_build_full_config env is = Inr base"
    and cfg: "apply_relay_rules x d node SingBox base = Inr cfg"
    by (auto elim!: generate_Inr)
  from cfg frame_refl [OF sb_full_is_obj [OF base]] have "frame base cfg"
    unfolding apply_relay_rules_def by (rule relay_loop_frame)
  then have "jget cfg ''inbounds'' = jget base ''inbounds''"
    by (simp add: frame_def relay_keys_def)
  with assms(2) have "v \<in> set (arr_of base ''inbounds'')"
    by (simp add: arr_of_def get_array_def)
  moreover from base obtain vs where "sb_inbounds is = Inr vs" "jget base ''inbounds'' = Some (JArr vs)"
    by (rule sb_full_members)
  ultimately have "v \<in> set (List.map_filter (\<lambda>i. ok_of (sb_build i)) is)"
    using sb.loop_value by (auto simp: arr_of_def get_array_def)
  then obtain i where i: "i \<in> set is" "sb_build i = Inr v"
    by (auto simp: ok_of_Some dest: map_filter_mem)
  from node_inbounds_from [OF ins i(1)] i(2) show ?thesis
    by (fastforce simp: sb_build_def)
qed

end
