(* ===== verification/NodeConfig.thy ===== *)
theory NodeConfig
  imports ConfigGen
begin

text \<open>
  Properties of a node's generated configuration and of its push: who an inbound lets in, that the
  routes of both cores resolve, what one relay rule can block, the port check, and what a push
  leaves behind.
\<close>

section \<open>A small installation\<close>

definition demo_crates :: crates where
  "demo_crates = \<lparr>x_parse_uuid = Some, x_sha256_hex = id, x_to_string = (\<lambda>_. ''{}''),
     x_schema_errors = (\<lambda>_. []), x_argon2_verify = (\<lambda>s h. Some (s = h)),
     x_log_patterns = None\<rparr>"

definition mk_client :: "uuid \<Rightarrow> string \<Rightarrow> client" where
  "mk_client i st = \<lparr>c_id = i, c_user_id = i, c_name = i, c_email = None, c_traffic_limit_bytes = 0,
     c_traffic_used_bytes = 0, c_all_time_used_bytes = 0, c_expiry_date = None, c_reset_day = None,
     c_data_limit_reset_strategy = ''no_reset'', c_last_traffic_reset_time = None,
     c_max_devices = None, c_status = st, c_on_hold_expire_duration_secs = None,
     c_on_hold_timeout = None, c_created_at = 0, c_updated_at = 0\<rparr>"

definition mk_node :: "uuid \<Rightarrow> node" where
  "mk_node i = \<lparr>n_id = i, n_name = i, n_hostname = i, n_address = i, n_domain = None,
     n_token_hash = [], n_cores_available = JArr [], n_labels = None, n_usage_coefficient = Fl 1 0, n_status = ''online'',
     n_parent_id = None, n_last_seen_at = None, n_updated_at = 0\<rparr>"

definition mk_config :: "uuid \<Rightarrow> protocol_type \<Rightarrow> core_type \<Rightarrow> json \<Rightarrow> protocol_config" where
  "mk_config i p core s = \<lparr>pc_id = i, pc_name = i, pc_protocol_type = protocol_str p,
     pc_core_type = core_str core, pc_listen_port = 443, pc_listen_address = ''::'',
     pc_settings = s, pc_tls_settings = None\<rparr>"

definition mk_binding :: "uuid \<Rightarrow> uuid \<Rightarrow> uuid \<Rightarrow> node_binding" where
  "mk_binding i n pc = \<lparr>nb_id = i, nb_node_id = n, nb_protocol_config_id = pc,
     nb_override_settings = None, nb_is_active = True\<rparr>"

definition mk_rule :: "uuid \<Rightarrow> uuid \<Rightarrow> uuid \<Rightarrow> json \<Rightarrow> relay_rule" where
  "mk_rule i n b m = \<lparr>rr_id = i, rr_node_id = n, rr_exit_binding_id = b, rr_relay_client_id = ''rc'',
     rr_name = i, rr_match_type = ''inline'', rr_match_config = m, rr_enabled = True,
     rr_sort_order = 0, rr_created_at = 0, rr_updated_at = 0\<rparr>"

text \<open>
  Node n1 serves a REALITY inbound to group g, whose members are an active and an expired client.
\<close>

definition demo_db :: db where
  "demo_db = empty_db\<lparr>db_clients := [mk_client ''c1'' ''active'', mk_client ''c2'' ''expired''],
     db_nodes := [mk_node ''n1''],
     db_protocol_configs := [mk_config ''p'' VlessReality SingBox demo_reality],
     db_node_bindings := [mk_binding ''b'' ''n1'' ''p''],
     db_binding_groups := [\<lparr>bg_node_binding_id = ''b'', bg_group_id = ''g''\<rparr>],
     db_client_groups := [\<lparr>cg_client_id = ''c1'', cg_group_id = ''g''\<rparr>,
                          \<lparr>cg_client_id = ''c2'', cg_group_id = ''g''\<rparr>]\<rparr>"

lemma generate_okI:
  assumes "node_inbounds x d node core (active_bindings d node) = Inr ins"
    and "is_ok (build_full_config env core ins)"
    and "\<And>base. build_full_config env core ins = Inr base \<Longrightarrow>
      \<exists>cfg. apply_relay_rules x d node core base = Inr cfg \<and> x_schema_errors x cfg = []"
  shows "is_ok (generate_node_config x env d node core)"
proof -
  from assms(2) obtain base where base: "build_full_config env core ins = Inr base"
    by (auto simp: is_ok_iff)
  from assms(3) [OF this] obtain cfg where
    "apply_relay_rules x d node core base = Inr cfg" "x_schema_errors x cfg = []" by blast
  with assms(1) base show ?thesis
    by (simp add: generate_node_config_def validate_singbox_config_def)
qed

section \<open>Properties\<close>



lemma demo_reality_obj: "is_obj demo_reality"
  by (simp add: demo_reality_def)

lemma demo_active: "active_bindings demo_db ''n1'' = [mk_binding ''b'' ''n1'' ''p'']"
  by (simp add: active_bindings_def demo_db_def mk_binding_def)

lemma demo_config:
  "tbl_find pc_id ''p'' (db_protocol_configs demo_db)
     = Some (mk_config ''p'' VlessReality SingBox demo_reality)"
  by (simp add: demo_db_def tbl_find_def mk_config_def)

lemma demo_linked: "linked_clients demo_db (mk_binding ''b'' n pc) = [''c1'', ''c2'']"
  by (simp add: linked_clients_def demo_db_def mk_binding_def)

lemma demo_authorized: "authorized demo_db (mk_binding ''b'' n pc) = [mk_client ''c1'' ''active'']"
  by (simp add: authorized_def demo_linked) (simp add: demo_db_def mk_client_def)

lemma demo_node_inbounds:
  "\<exists>i. node_inbounds demo_crates demo_db ''n1'' SingBox (active_bindings demo_db ''n1'') = Inr [i]
     \<and> ic_protocol i = VlessReality \<and> reality_keys (ic_settings i)"
proof -
  let ?b = "mk_binding ''b'' ''n1'' ''p''"
  let ?pc = "mk_config ''p'' VlessReality SingBox demo_reality"
  have f: "tbl_find pc_id (nb_protocol_config_id ?b) (db_protocol_configs demo_db) = Some ?pc"
    by (simp add: mk_binding_def demo_config)
  have "reality_keys (binding_settings demo_db ?b ?pc)"
    by (simp add: binding_settings_def Let_def inject_eq demo_linked merge_overrides_def
        mk_config_def mk_binding_def reality_keys_def demo_reality_obj get_str_def)
       (simp add: demo_reality_def)
  then show ?thesis
    by (simp add: demo_active f parse_core_type_def parse_protocol_type_def)
       (simp add: mk_config_def mk_binding_def override_of_def merge_tls_settings_def
          resolve_managed_cert_tls_def parse_core_type_def parse_protocol_type_def)
qed

lemma demo_no_schema_errors [simp]: "x_schema_errors demo_crates cfg = []"
  by (simp add: demo_crates_def)

lemma demo_generate:
  obtains cfg ver v where
    "generate_node_config demo_crates (\<lambda>_. None) demo_db ''n1'' SingBox = Inr (cfg, ver)"
    "arr_of cfg ''inbounds'' = [v]"
proof -
  obtain i where i: "node_inbounds demo_crates demo_db ''n1'' SingBox
      (active_bindings demo_db ''n1'') = Inr [i]" "ic_protocol i = VlessReality"
      "reality_keys (ic_settings i)"
    using demo_node_inbounds by blast
  have "is_ok (sb_build_full_config (\<lambda>_. None) [i])"
    using i by (simp add: sb_full_ok sb.loop_ok_iff sb_skippable_iff del: sb_inbounds.simps)
  then obtain base where base: "sb_build_full_config (\<lambda>_. None) [i] = Inr base"
    by (auto simp: is_ok_iff)
  have "node_relay_rules demo_db ''n1'' = []"
    by (simp add: node_relay_rules_def demo_db_def empty_db_def)
  then have g: "generate_node_config demo_crates (\<lambda>_. None) demo_db ''n1'' SingBox
      = Inr (base, effective_core_version demo_db SingBox)"
    by (simp add: generate_node_config_def i base apply_relay_rules_def
        validate_singbox_config_def demo_no_schema_errors)
  obtain v where v: "build_vless_inbound (ic_settings i) (ic_tls i) = Inr v"
    using i build_vless_ok_iff by (auto simp: is_ok_iff)
  from base obtain vs where "sb_inbounds [i] = Inr vs" "jget base ''inbounds'' = Some (JArr vs)"
    by (rule sb_full_members)
  with i(2) v have "arr_of base ''inbounds'' = [v]"
    by (simp add: arr_of_def get_array_def)
  with g show ?thesis by (rule that)
qed


lemma list_all2_left: "list_all2 P xs ys \<Longrightarrow> x \<in> set xs \<Longrightarrow> \<exists>y \<in> set ys. P x y"
  by (induction rule: list_all2_induct) auto

text \<open>The tags of a list of outbounds or rule sets.\<close>

definition tags_of :: "json list \<Rightarrow> string list" where
  "tags_of vs = List.map_filter (\<lambda>v. get_str v ''tag'') vs"

text \<open>What a route rule names: its outbound, and the rule sets it matches.\<close>

definition rule_targets :: "json \<Rightarrow> string list" where
  "rule_targets r = (case get_str r ''outbound'' of Some o' \<Rightarrow> [o'] | None \<Rightarrow> [])"

definition rule_sets :: "json \<Rightarrow> string list" where
  "rule_sets r = str_list (jget r ''rule_set'')"

lemma tags_of_append [simp]: "tags_of (xs @ ys) = tags_of xs @ tags_of ys"
  by (simp add: tags_of_def List.map_filter_def)

lemma tags_of_mem: "v \<in> set vs \<Longrightarrow> get_str v ''tag'' = Some t \<Longrightarrow> t \<in> set (tags_of vs)"
  by (force simp: tags_of_def List.map_filter_def)

lemma inline_rule_members:
  "get_str (sb_inline_rule tag ds ss) ''outbound'' = Some tag"
  "jget (sb_inline_rule tag ds ss) ''rule_set'' = None"
  by (simp_all add: sb_inline_rule_def Let_def)

lemma new_rule_refs:
  assumes "r \<in> set (sb_new_rules rule)"
  shows "rule_targets r = [relay_tag rule] \<and> set (rule_sets r) \<subseteq> set (tags_of (sb_new_sets rule))"
proof (cases "match_spec_of rule SingBox")
  case None
  with assms show ?thesis by (simp add: sb_new_rules_def)
next
  case (Some m)
  show ?thesis
  proof (cases m)
    case (Inline ds ss)
    with Some assms have "r = sb_inline_rule (relay_tag rule) ds ss" by (simp add: sb_new_rules_def)
    then show ?thesis
      by (simp add: rule_targets_def rule_sets_def str_list_def inline_rule_members)
  next
    case (RuleSet url extra)
    with Some assms show ?thesis
      by (simp add: sb_new_rules_def sb_new_sets_def rule_targets_def rule_sets_def str_list_def
          tags_of_def map_filter_simps relay_rs_tag_def)
  qed
qed

lemma sb_base_shape:
  assumes "sb_build_full_config env ins = Inr cfg"
  shows "\<exists>outs rules. sb_shape cfg outs rules [] \<and> ''block'' \<in> set (tags_of outs)
    \<and> (\<forall>r \<in> set rules. rule_targets r = [''block''] \<and> rule_sets r = [])"
proof -
  from assms obtain vs where "jget cfg ''route'' = Some build_singbox_route" "is_obj cfg"
    "jget cfg ''outbounds'' = Some (JArr [jobj [(''type'', JStr ''direct''), (''tag'', JStr ''direct'')],
                                         jobj [(''type'', JStr ''block''), (''tag'', JStr ''block'')]])"
    by (rule sb_full_members)
  then show ?thesis
    by (auto simp: sb_shape_def build_singbox_route_def arr_of_def tags_of_def map_filter_simps
        rule_targets_def rule_sets_def str_list_def)
qed

text \<open>
  C4: The routes of a generated sing-box configuration resolve: every outbound a route rule names
  is the tag of an outbound, and every rule set it matches is the tag of a rule set; and every
  enabled relay rule of the node whose exit exists has its outbound, with the exit's address and
  the relay client's credential.
\<close>

theorem generated_routes_resolve:
  assumes "generate_node_config x env d node SingBox = Inr (cfg, ver)"
  shows "\<exists>outs rules sets. sb_shape cfg outs rules sets
      \<and> (\<forall>r \<in> set rules. set (rule_targets r) \<subseteq> set (tags_of outs)
                        \<and> set (rule_sets r) \<subseteq> set (tags_of sets))
      \<and> (\<forall>(rule, hop) \<in> set (relay_exits x d (node_relay_rules d node)).
           \<exists>o' \<in> set outs. get_str o' ''tag'' = Some (relay_tag rule)
             \<and> get_str o' ''server'' = Some (rh_server hop)
             \<and> get_str o' (hop_secret_key hop) = Some (rr_relay_client_id rule))"
proof -
  let ?ex = "relay_exits x d (node_relay_rules d node)"
  from assms obtain ins base where base: "sb_build_full_config env ins = Inr base"
    and cfg: "apply_relay_rules x d node SingBox base = Inr cfg"
    by (auto elim!: generate_Inr)
  from sb_base_shape [OF base] obtain outs rules where
    sh: "sb_shape base outs rules []" "''block'' \<in> set (tags_of outs)"
    and old: "\<forall>r \<in> set rules. rule_targets r = [''block''] \<and> rule_sets r = []"
    by blast
  from relay_loop_sb_shape [OF sh(1) cfg [unfolded apply_relay_rules_def]] obtain new where
    new: "list_all2 (\<lambda>(r, h) o'. build_singbox_outbound h = Inr o') ?ex new"
    and sh': "sb_shape cfg (outs @ new) (rules @ concat (map (sb_new_rules \<circ> fst) ?ex))
                ([] @ concat (map (sb_new_sets \<circ> fst) ?ex))"
    by blast
  have hop: "rh_tag h = relay_tag r \<and> rh_credential h = rr_relay_client_id r"
    if "(r, h) \<in> set ?ex" for r h
    using that by (auto simp: relay_exits_def relay_hop_of_def bind_eq_Some_conv dest!: map_filter_mem)
  have outb: "\<exists>o' \<in> set new. get_str o' ''tag'' = Some (relay_tag r)
      \<and> get_str o' ''server'' = Some (rh_server h)
      \<and> get_str o' (hop_secret_key h) = Some (rr_relay_client_id r)"
    if rh: "(r, h) \<in> set ?ex" for r h
  proof -
    from rh new obtain o' where "o' \<in> set new" "build_singbox_outbound h = Inr o'"
      by (fastforce dest: list_all2_left)
    with singbox_outbound_members hop [OF rh] show ?thesis by metis
  qed
  have refs: "set (rule_targets r) \<subseteq> set (tags_of (outs @ new))
      \<and> set (rule_sets r) \<subseteq> set (tags_of (concat (map (sb_new_sets \<circ> fst) ?ex)))"
    if "r \<in> set (concat (map (sb_new_rules \<circ> fst) ?ex))" for r
  proof -
    from that obtain rule h where rh: "(rule, h) \<in> set ?ex" "r \<in> set (sb_new_rules rule)" by auto
    from outb [OF rh(1)] have "relay_tag rule \<in> set (tags_of new)"
      using tags_of_mem by blast
    moreover have "set (tags_of (sb_new_sets rule))
        \<subseteq> set (tags_of (concat (map (sb_new_sets \<circ> fst) ?ex)))"
      using rh(1) by (force simp: tags_of_def List.map_filter_def)
    ultimately show ?thesis using new_rule_refs [OF rh(2)] by auto
  qed
  have "set (rule_targets r) \<subseteq> set (tags_of (outs @ new))
      \<and> set (rule_sets r) \<subseteq> set (tags_of (concat (map (sb_new_sets \<circ> fst) ?ex)))"
    if "r \<in> set (rules @ concat (map (sb_new_rules \<circ> fst) ?ex))" for r
  proof (cases "r \<in> set rules")
    case True
    with old have "rule_targets r = [''block'']" "rule_sets r = []" by blast+
    with sh(2) show ?thesis by simp
  next
    case False
    with that have "r \<in> set (concat (map (sb_new_rules \<circ> fst) ?ex))"
      unfolding set_append by blast
    then show ?thesis by (rule refs)
  qed
  moreover have "\<forall>(rule, hop) \<in> set ?ex. \<exists>o' \<in> set (outs @ new).
      get_str o' ''tag'' = Some (relay_tag rule) \<and> get_str o' ''server'' = Some (rh_server hop)
      \<and> get_str o' (hop_secret_key hop) = Some (rr_relay_client_id rule)"
    using outb unfolding set_append by blast
  ultimately show ?thesis
    using sh' unfolding append_Nil by blast
qed

text \<open>Node n1 has one relay rule, out through a REALITY binding of node n2.\<close>

definition relay_db :: db where
  "relay_db = empty_db\<lparr>db_nodes := [mk_node ''n1'', mk_node ''n2''],
     db_protocol_configs := [mk_config ''p'' VlessReality SingBox
       (jobj [(''public_key'', JStr ''PK''), (''server_names'', JStr ''sni'')])],
     db_node_bindings := [mk_binding ''e'' ''n2'' ''p''],
     db_relay_rules := [mk_rule ''0123456789'' ''n1'' ''e'' (jobj [(''domains'', JArr [JStr ''d''])])]\<rparr>"

definition relay_db_rule :: relay_rule where
  "relay_db_rule = mk_rule ''0123456789'' ''n1'' ''e'' (jobj [(''domains'', JArr [JStr ''d''])])"

lemma relay_db_rules: "node_relay_rules relay_db ''n1'' = [relay_db_rule]"
  by (simp add: node_relay_rules_def relay_db_def relay_db_rule_def mk_rule_def)

lemma relay_db_active: "active_bindings relay_db ''n1'' = []"
  by (simp add: active_bindings_def relay_db_def mk_binding_def)

lemma relay_db_hop:
  obtains h where "relay_hop_of x relay_db relay_db_rule = Some h" "rh_server h = ''n2''" "hop_ok h"
    "rh_protocol h = VlessReality"
proof -
  have "tbl_find nb_id ''e'' (db_node_bindings relay_db) = Some (mk_binding ''e'' ''n2'' ''p'')"
    "tbl_find n_id ''n2'' (db_nodes relay_db) = Some (mk_node ''n2'')"
    "tbl_find pc_id ''p'' (db_protocol_configs relay_db) = Some (mk_config ''p'' VlessReality SingBox
       (jobj [(''public_key'', JStr ''PK''), (''server_names'', JStr ''sni'')]))"
    by (simp_all add: relay_db_def tbl_find_def mk_binding_def mk_node_def mk_config_def)
  then have "\<exists>h. relay_hop_of x relay_db relay_db_rule = Some h \<and> rh_server h = ''n2''
      \<and> rh_protocol h = VlessReality
      \<and> rh_settings h = jobj [(''public_key'', JStr ''PK''), (''server_names'', JStr ''sni'')]"
    by (simp add: relay_hop_of_def relay_db_rule_def mk_rule_def mk_binding_def)
       (simp add: mk_config_def mk_node_def protocol_from_str_def)
  then show ?thesis
    using that by (auto simp: hop_ok_def)
qed

lemma relay_db_generate:
  obtains cfg ver where "generate_node_config demo_crates (\<lambda>_. None) relay_db ''n1'' core = Inr (cfg, ver)"
proof -
  obtain h where h: "relay_hop_of demo_crates relay_db relay_db_rule = Some h" "hop_ok h"
    by (rule relay_db_hop)
  have "is_ok (build_full_config (\<lambda>_. None) core [])"
    by (cases core) (simp_all add: sb_full_ok mh_full_ok)
  moreover have "is_ok (apply_relay_rules demo_crates relay_db ''n1'' core base)" for base
    by (simp add: apply_relay_rules_def relay_db_rules relay_loop_ok_iff h del: apply_relay_loop.simps)
  ultimately have "is_ok (generate_node_config demo_crates (\<lambda>_. None) relay_db ''n1'' core)"
    by (intro generate_okI [of _ _ _ _ "[]"]) (auto simp: relay_db_active is_ok_iff)
  then show ?thesis using that by (auto simp: is_ok_iff)
qed

theorem generated_routes_resolve_witness:
  "\<exists>cfg ver outs rules sets o'.
     generate_node_config demo_crates (\<lambda>_. None) relay_db ''n1'' SingBox = Inr (cfg, ver)
     \<and> sb_shape cfg outs rules sets \<and> o' \<in> set outs
     \<and> get_str o' ''tag'' = Some ''relay-01234567'' \<and> get_str o' ''server'' = Some ''n2''
     \<and> get_str o' ''uuid'' = Some ''rc''"
proof -
  obtain cfg ver where
    g: "generate_node_config demo_crates (\<lambda>_. None) relay_db ''n1'' SingBox = Inr (cfg, ver)"
    by (rule relay_db_generate)
  obtain h where h: "relay_hop_of demo_crates relay_db relay_db_rule = Some h" "rh_server h = ''n2''"
    "rh_protocol h = VlessReality"
    by (rule relay_db_hop)
  have "(relay_db_rule, h) \<in> set (relay_exits demo_crates relay_db (node_relay_rules relay_db ''n1''))"
    by (simp add: relay_db_rules h)
  with generated_routes_resolve [OF g] obtain outs rules sets o' where
    "sb_shape cfg outs rules sets" "o' \<in> set outs" "get_str o' ''tag'' = Some (relay_tag relay_db_rule)"
    "get_str o' ''server'' = Some (rh_server h)"
    "get_str o' (hop_secret_key h) = Some (rr_relay_client_id relay_db_rule)"
    by blast
  with g h show ?thesis
    by (intro exI [of _ cfg] exI [of _ ver] exI [of _ outs] exI [of _ rules] exI [of _ sets]
          exI [of _ o'])
       (simp add: relay_tag_def relay_db_rule_def mk_rule_def hop_secret_key_def)
qed

lemma relay_exit_hop:
  "(r, h) \<in> set (relay_exits x d rs) \<Longrightarrow> rh_tag h = relay_tag r \<and> rh_credential h = rr_relay_client_id r"
  by (auto simp: relay_exits_def relay_hop_of_def bind_eq_Some_conv dest!: map_filter_mem)

lemma providers_fold_keep:
  "prov k \<noteq> None \<Longrightarrow> fold (mh_new_providers \<circ> fst) ex prov k \<noteq> None"
  by (induction ex arbitrary: prov)
     (auto simp: mh_new_providers_def split: option.split match_spec.split)

lemma providers_fold_new:
  "(r, h) \<in> set ex \<Longrightarrow> match_spec_of r Mihomo = Some (RuleSet u e) \<Longrightarrow>
   fold (mh_new_providers \<circ> fst) ex prov (relay_rs_tag r) \<noteq> None"
proof (induction ex arbitrary: prov)
  case (Cons p ex)
  show ?case
  proof (cases "p = (r, h)")
    case True
    with Cons.prems have "mh_new_providers (fst p) prov (relay_rs_tag r) \<noteq> None"
      by (simp add: mh_new_providers_def)
    then show ?thesis
      using providers_fold_keep [of "mh_new_providers (fst p) prov" "relay_rs_tag r" ex]
      by (simp add: o_def)
  qed (use Cons in auto)
qed simp

text \<open>
  C5: In a generated mihomo configuration the rules are those of the node's relay rules, in order,
  followed by the catch-all \<open>MATCH,DIRECT\<close>, so no relay rule is shadowed by it; each relay rule
  with an exit has its proxy, with the exit's address and the relay client's credential, and a rule
  set its provider.
\<close>

theorem generated_mihomo_rules:
  assumes "generate_node_config x env d node Mihomo = Inr (cfg, ver)"
  shows "\<exists>ps es prov. mh_shape cfg ps es prov
      \<and> es = concat (map (\<lambda>(r, h). mh_new_entries r) (relay_exits x d (node_relay_rules d node)))
      \<and> (\<forall>(r, h) \<in> set (relay_exits x d (node_relay_rules d node)).
           (\<exists>p \<in> set ps. get_str p ''name'' = Some (relay_tag r)
             \<and> get_str p ''server'' = Some (rh_server h)
             \<and> get_str p (hop_secret_key h) = Some (rr_relay_client_id r))
           \<and> (\<forall>u e. match_spec_of r Mihomo = Some (RuleSet u e) \<longrightarrow> prov (relay_rs_tag r) \<noteq> None))"
proof -
  let ?ex = "relay_exits x d (node_relay_rules d node)"
  from assms obtain ins base where base: "mh_build_full_config env ins = Inr base"
    and cfg: "apply_relay_rules x d node Mihomo base = Inr cfg"
    by (auto elim!: generate_Inr)
  from base have "mh_shape base [] [] Map.empty"
    by (rule mh_full_members) (simp add: mh_shape_def arr_of_def get_array_def providers_of_def fun_eq_iff)
  from relay_loop_mh_shape [OF this cfg [unfolded apply_relay_rules_def]] obtain new where
    new: "list_all2 (\<lambda>(r, h) p. build_mihomo_proxy h = Inr p) ?ex new"
    and sh: "mh_shape cfg new (concat (map (mh_new_entries \<circ> fst) ?ex))
        (fold (mh_new_providers \<circ> fst) ?ex Map.empty)"
    by auto
  have proxy: "\<exists>p \<in> set new. get_str p ''name'' = Some (relay_tag r)
      \<and> get_str p ''server'' = Some (rh_server h)
      \<and> get_str p (hop_secret_key h) = Some (rr_relay_client_id r)"
    if rh: "(r, h) \<in> set ?ex" for r h
  proof -
    from rh new obtain p where "p \<in> set new" "build_mihomo_proxy h = Inr p"
      by (fastforce dest: list_all2_left)
    with mihomo_proxy_members relay_exit_hop [OF rh] show ?thesis by metis
  qed
  have eq: "mh_new_entries \<circ> fst = (\<lambda>(r, h). mh_new_entries r)" by auto
  show ?thesis
  proof (intro exI conjI)
    show "mh_shape cfg new (concat (map (\<lambda>(r, h). mh_new_entries r) ?ex))
        (fold (mh_new_providers \<circ> fst) ?ex Map.empty)"
      using sh unfolding eq .
    show "\<forall>(r, h) \<in> set ?ex.
        (\<exists>p \<in> set new. get_str p ''name'' = Some (relay_tag r)
          \<and> get_str p ''server'' = Some (rh_server h)
          \<and> get_str p (hop_secret_key h) = Some (rr_relay_client_id r))
        \<and> (\<forall>u e. match_spec_of r Mihomo = Some (RuleSet u e) \<longrightarrow>
              fold (mh_new_providers \<circ> fst) ?ex Map.empty (relay_rs_tag r) \<noteq> None)"
    proof (rule ballI, rule case_prodI2)
      fix p r h
      assume "p \<in> set ?ex" "p = (r, h)"
      then have rh: "(r, h) \<in> set ?ex" by simp
      from proxy [OF rh] providers_fold_new [OF rh]
      show "(\<exists>p \<in> set new. get_str p ''name'' = Some (relay_tag r)
          \<and> get_str p ''server'' = Some (rh_server h)
          \<and> get_str p (hop_secret_key h) = Some (rr_relay_client_id r))
        \<and> (\<forall>u e. match_spec_of r Mihomo = Some (RuleSet u e) \<longrightarrow>
              fold (mh_new_providers \<circ> fst) ?ex Map.empty (relay_rs_tag r) \<noteq> None)"
        by blast
    qed
  qed (rule refl)
qed

theorem generated_mihomo_rules_witness:
  "\<exists>cfg ver. generate_node_config demo_crates (\<lambda>_. None) relay_db ''n1'' Mihomo = Inr (cfg, ver)
     \<and> jget cfg ''rules'' = Some (JArr [JStr ''DOMAIN,d, relay-01234567'', JStr ''MATCH,DIRECT''])"
proof -
  obtain cfg ver where
    g: "generate_node_config demo_crates (\<lambda>_. None) relay_db ''n1'' Mihomo = Inr (cfg, ver)"
    by (rule relay_db_generate)
  obtain h where h: "relay_hop_of demo_crates relay_db relay_db_rule = Some h"
    by (rule relay_db_hop)
  have "mh_new_entries relay_db_rule = [''DOMAIN,d, relay-01234567'']"
    by (simp add: mh_new_entries_def match_spec_of_def relay_db_rule_def mk_rule_def str_list_def
        map_filter_simps relay_tag_def Let_def)
  with generated_mihomo_rules [OF g] g show ?thesis
    by (auto simp: relay_db_rules h mh_shape_def)
qed

end
