(* ===== verification/Push.thy ===== *)
theory Push
  imports NodeConfig
begin

text \<open>
  What can stop a node's configuration, and what a push leaves behind: a relay rule whose exit cannot
  be dialled, a binding without groups, the port check, the record of the pushed version and the
  pending marker.
\<close>

section \<open>What one relay rule blocks\<close>

text \<open>
  One enabled relay rule whose exit exists but cannot be dialled (no TLS name, no public key, or
  a vless_xhttp exit) fails the whole configuration of its node, on both cores.
\<close>

theorem relay_rule_blocks_node:
  assumes "rule \<in> set (node_relay_rules d node)" and "relay_hop_of x d rule = Some hop"
    and "\<not> is_ok (build_singbox_outbound hop)"
  shows "\<not> is_ok (generate_node_config x env d node core)"
proof
  assume "is_ok (generate_node_config x env d node core)"
  then obtain cfg ver where "generate_node_config x env d node core = Inr (cfg, ver)"
    by (auto simp: is_ok_iff)
  then obtain base where "apply_relay_rules x d node core base = Inr cfg"
    by (auto elim!: generate_Inr)
  then have "is_ok (apply_relay_loop x d core (node_relay_rules d node) base)"
    by (simp add: apply_relay_rules_def)
  moreover have "(rule, hop) \<in> set (relay_exits x d (node_relay_rules d node))"
    using assms(1,2) by (force simp: relay_exits_def List.map_filter_def)
  ultimately show False
    using assms(3) by (auto simp: relay_loop_ok_iff singbox_outbound_ok_iff)
qed

text \<open>Node n1 relays to an anytls exit for which no TLS name is known.\<close>

definition blocked_db :: db where
  "blocked_db = relay_db\<lparr>db_protocol_configs := [mk_config ''p'' Anytls SingBox (jobj [])]\<rparr>"

theorem relay_rule_blocks_node_witness:
  "\<not> is_ok (generate_node_config demo_crates (\<lambda>_. None) blocked_db ''n1'' Mihomo)"
proof -
  have r: "relay_db_rule \<in> set (node_relay_rules blocked_db ''n1'')"
    using relay_db_rules by (simp add: node_relay_rules_def blocked_db_def)
  have f: "tbl_find nb_id ''e'' (db_node_bindings blocked_db) = Some (mk_binding ''e'' ''n2'' ''p'')"
    "tbl_find n_id ''n2'' (db_nodes blocked_db) = Some (mk_node ''n2'')"
    "tbl_find pc_id ''p'' (db_protocol_configs blocked_db) = Some (mk_config ''p'' Anytls SingBox (jobj []))"
    by (simp_all add: blocked_db_def relay_db_def tbl_find_def mk_binding_def mk_node_def mk_config_def)
  have "resolve_relay_sni demo_crates blocked_db (mk_binding ''e'' ''n2'' ''p'') = None"
    by (simp add: resolve_relay_sni_def mk_binding_def)
  with f obtain h where "relay_hop_of demo_crates blocked_db relay_db_rule = Some h"
    "rh_protocol h = Anytls" "rh_tls_sni h = None"
    by (simp add: relay_hop_of_def relay_db_rule_def mk_rule_def)
       (simp add: mk_config_def mk_binding_def mk_node_def protocol_from_str_def)
  with relay_rule_blocks_node [OF r this(1)] show ?thesis
    by (simp add: singbox_outbound_ok_iff hop_ok_def)
qed

section \<open>A binding without groups\<close>

text \<open>
  A vless_reality binding that no client shares a group with is not closed: its sing-box inbound
  still lets in the placeholder UUID of its settings.
\<close>

theorem unlinked_binding_admits_placeholder:
  assumes "linked_clients d b = []" and "nb_override_settings b = None"
    and "is_obj (pc_settings pc)" and "get_str (pc_settings pc) ''uuid'' = Some u" and "u \<noteq> []"
    and "get_array (pc_settings pc) ''clients'' = None"
    and "build_vless_inbound (binding_settings d b pc) tls = Inr v"
  shows "\<exists>user. get_array v ''users'' = Some [user] \<and> get_str user ''uuid'' = Some u"
proof -
  let ?s = "binding_settings d b pc"
  from assms(1,2) have keep: "k \<notin> {''tag'', ''port'', ''listen''} \<Longrightarrow> jget ?s k = jget (pc_settings pc) k" for k
    using jget_binding_settings(5) [OF assms(3,1)] by (simp add: merge_overrides_def)
  have "get_str ?s ''uuid'' = Some u" "get_array ?s ''clients'' = None"
    using assms(4,6) keep by (simp_all add: get_str_def get_array_def)
  with assms(5) have "vless_clients_to_users ?s = JArr [jobj [(''uuid'', JStr u), (''name'', JStr [])]]"
    by (simp add: vless_clients_to_users_def str_or_def Let_def)
  with assms(7) show ?thesis
    by (auto simp: build_vless_inbound_def Let_def rbind_Inr_iff split: if_splits)
qed

theorem unlinked_binding_admits_placeholder_witness:
  "\<exists>v user. build_vless_inbound (binding_settings empty_db (mk_binding ''b'' ''n'' ''p'')
        (mk_config ''p'' VlessReality SingBox (jset ''uuid'' (JStr ''U'') demo_reality))) None = Inr v
     \<and> get_array v ''users'' = Some [user] \<and> get_str user ''uuid'' = Some ''U''"
proof -
  let ?b = "mk_binding ''b'' ''n'' ''p''"
  let ?pc = "mk_config ''p'' VlessReality SingBox (jset ''uuid'' (JStr ''U'') demo_reality)"
  have l: "linked_clients empty_db ?b = []"
    by (simp add: linked_clients_def empty_db_def)
  have o': "nb_override_settings ?b = None" by (simp add: mk_binding_def)
  have s: "pc_settings ?pc = jset ''uuid'' (JStr ''U'') demo_reality" by (simp add: mk_config_def)
  have "reality_keys (binding_settings empty_db ?b ?pc)"
    using jget_binding_settings(5) [of ?pc empty_db ?b] l
    by (simp add: reality_keys_def get_str_def o' merge_overrides_def s demo_reality_obj)
       (simp add: demo_reality_def)
  then obtain v where v: "build_vless_inbound (binding_settings empty_db ?b ?pc) None = Inr v"
    using build_vless_ok_iff by (auto simp: is_ok_iff)
  have "get_array (pc_settings ?pc) ''clients'' = None"
    by (simp add: s demo_reality_obj get_array_def) (simp add: demo_reality_def)
  from unlinked_binding_admits_placeholder [OF l o' _ _ _ this v] v show ?thesis
    by (auto simp: s demo_reality_obj)
qed

section \<open>The port check\<close>

definition listen_claims :: "db \<Rightarrow> node_binding list \<Rightarrow> ((string \<times> nat) \<times> core_type) list" where
  "listen_claims d bs = List.map_filter (\<lambda>b. map_option (listen_claim b)
     (tbl_find pc_id (nb_protocol_config_id b) (db_protocol_configs d))) bs"

lemma port_loop_ok_iff:
  "is_ok (port_loop d seen bs) \<longleftrightarrow>
   distinct (listen_claims d bs) \<and> set (listen_claims d bs) \<inter> set seen = {}"
  by (induction d seen bs rule: port_loop.induct)
     (auto simp: listen_claims_def map_filter_simps Let_def split: option.split)

text \<open>
  The port check accepts a node exactly when no two of its active bindings claim the same
  address and port for the same core; the overrides of a binding count.
\<close>

theorem port_check_iff:
  "is_ok (validate_node_port_conflicts d node) \<longleftrightarrow> distinct (listen_claims d (active_bindings d node))"
  by (simp add: validate_node_port_conflicts_def port_loop_ok_iff)

text \<open>
  Two active bindings that claim the same address and port for different cores pass the port
  check.
\<close>

theorem port_check_misses_other_core:
  assumes "active_bindings d node = [b1, b2]"
    and "tbl_find pc_id (nb_protocol_config_id b1) (db_protocol_configs d) = Some pc1"
    and "tbl_find pc_id (nb_protocol_config_id b2) (db_protocol_configs d) = Some pc2"
    and "fst (listen_claim b1 pc1) = fst (listen_claim b2 pc2)"
    and "parse_core_type (pc_core_type pc1) \<noteq> parse_core_type (pc_core_type pc2)"
  shows "is_ok (validate_node_port_conflicts d node)"
  using assms
  by (auto simp: validate_node_port_conflicts_def port_loop_ok_iff listen_claims_def
      map_filter_simps listen_claim_def Let_def)

definition two_core_db :: db where
  "two_core_db = empty_db\<lparr>
     db_protocol_configs := [mk_config ''p'' Anytls SingBox JNull, mk_config ''q'' Anytls Mihomo JNull],
     db_node_bindings := [mk_binding ''b'' ''n'' ''p'', mk_binding ''c'' ''n'' ''q'']\<rparr>"

theorem port_check_misses_other_core_witness:
  "is_ok (validate_node_port_conflicts two_core_db ''n'')"
proof (rule port_check_misses_other_core)
  show "active_bindings two_core_db ''n'' = [mk_binding ''b'' ''n'' ''p'', mk_binding ''c'' ''n'' ''q'']"
    by (simp add: active_bindings_def two_core_db_def mk_binding_def)
  show "tbl_find pc_id (nb_protocol_config_id (mk_binding ''b'' ''n'' ''p''))
      (db_protocol_configs two_core_db) = Some (mk_config ''p'' Anytls SingBox JNull)"
    "tbl_find pc_id (nb_protocol_config_id (mk_binding ''c'' ''n'' ''q''))
      (db_protocol_configs two_core_db) = Some (mk_config ''q'' Anytls Mihomo JNull)"
    by (simp_all add: tbl_find_def two_core_db_def mk_binding_def mk_config_def)
qed (simp_all add: listen_claim_def mk_binding_def mk_config_def Let_def parse_core_type_def)

section \<open>The push\<close>

lemma clear_pending_find:
  "tbl_find pu_key k (db_pending (clear_pending node core d))
     = (if k = (node, core_str core) then None else tbl_find pu_key k (db_pending d))"
  by (simp add: clear_pending_def tbl_find_delete)

lemma map_err_Inr_iff: "map_err f r = Inr y \<longleftrightarrow> r = Inr y"
  by (cases r) (simp_all add: map_err_def)

lemma is_ok_map_err [simp]: "is_ok (map_err f r) = is_ok r"
  by (cases r) (simp_all add: map_err_def)

text \<open>What a successful delivery leaves: version recorded, marker cleared, all else as it was.\<close>

definition pushed :: "uuid \<Rightarrow> core_type \<Rightarrow> string \<Rightarrow> hub_message \<Rightarrow> hub \<Rightarrow> hub \<Rightarrow> bool" where
  "pushed node core version m h h' \<longleftrightarrow>
     sent_to node h' = map_option (\<lambda>q. q @ [m]) (sent_to node h)
     \<and> agent_config_version node (core_str core) h' = Some version
     \<and> (\<forall>n c. (n, c) \<noteq> (node, core_str core) \<longrightarrow>
          agent_config_version n c h' = agent_config_version n c h)
     \<and> h_db h' = clear_pending node core (h_db h)"

lemma pushed_step:
  assumes "send_to_agent node m h = Inr h1"
  shows "pushed node core version m h
           (hub_clear_pending node core (set_agent_config_version node (core_str core) version h1))"
proof -
  let ?h = "set_agent_config_version node (core_str core) version h1"
  have *: "sent_to n (h0\<lparr>h_db := D\<rparr>) = sent_to n h0"
    "agent_config_version n c (h0\<lparr>h_db := D\<rparr>) = agent_config_version n c h0" for n c h0 D
    by (simp_all add: sent_to_def agent_config_version_def)
  from send_frame [OF assms] have f: "h_db h1 = h_db h" "h_agents h1 = h_agents h"
    "map_of (h_agents h) node \<noteq> None" "sent_to node h1 = map_option (\<lambda>q. q @ [m]) (sent_to node h)"
    by auto
  have "agent_config_version n c h1 = agent_config_version n c h" for n c
    by (simp add: agent_config_version_def f(2))
  with f show ?thesis
    by (auto simp: pushed_def hub_clear_pending_def * version_after_set)
qed

text \<open>
  C6: A push succeeds exactly when the node has no port conflict, its configuration can be generated
  and its agent is connected with a live channel; the agent has then been sent one message with the
  generated configuration, its version is recorded under that core alone, and the node's pending
  marker for that core is gone, all other markers being kept. A failed push changes nothing: it
  returns no new state.
\<close>

theorem push_node_config_result:
  "(is_ok (push_node_config x env node core restart version h) \<longleftrightarrow>
      is_ok (validate_node_port_conflicts (h_db h) node)
      \<and> is_ok (generate_node_config x env (h_db h) node core) \<and> sent_to node h \<noteq> None)
   \<and> (\<forall>h'. push_node_config x env node core restart version h = Inr h' \<longrightarrow>
        (\<exists>cfg cv. generate_node_config x env (h_db h) node core = Inr (cfg, cv)
          \<and> (let build_id = core_build_id_of (h_db h) core cv;
                 v = unwrap_or (opt_filter (\<lambda>v. v \<noteq> []) version)
                       (push_version_of x (x_to_string x cfg) build_id)
             in pushed node core v (push_message x core restart (x_to_string x cfg) v cv build_id) h h')))"
proof (intro conjI allI impI)
  have ok: "(\<exists>h1. send_to_agent node m h = Inr h1) \<longleftrightarrow> sent_to node h \<noteq> None" for m
    using send_ok_iff [of node m h] by (simp add: is_ok_iff)
  show "is_ok (push_node_config x env node core restart version h) \<longleftrightarrow>
      is_ok (validate_node_port_conflicts (h_db h) node)
      \<and> is_ok (generate_node_config x env (h_db h) node core) \<and> sent_to node h \<noteq> None"
    by (auto simp: push_node_config_def Let_def is_ok_iff rbind_Inr_iff map_err_Inr_iff ok [simplified]
        dest: send_frame)
next
  fix h'
  assume "push_node_config x env node core restart version h = Inr h'"
  then obtain cfg cv where "generate_node_config x env (h_db h) node core = Inr (cfg, cv)"
    and "\<exists>h1. send_to_agent node (push_message x core restart (x_to_string x cfg)
          (unwrap_or (opt_filter (\<lambda>v. v \<noteq> []) version)
            (push_version_of x (x_to_string x cfg) (core_build_id_of (h_db h) core cv)))
          cv (core_build_id_of (h_db h) core cv)) h = Inr h1
      \<and> h' = hub_clear_pending node core (set_agent_config_version node (core_str core)
          (unwrap_or (opt_filter (\<lambda>v. v \<noteq> []) version)
            (push_version_of x (x_to_string x cfg) (core_build_id_of (h_db h) core cv))) h1)"
    by (auto simp: push_node_config_def Let_def rbind_Inr_iff map_err_Inr_iff)
  then show "\<exists>cfg cv. generate_node_config x env (h_db h) node core = Inr (cfg, cv)
      \<and> (let build_id = core_build_id_of (h_db h) core cv;
             v = unwrap_or (opt_filter (\<lambda>v. v \<noteq> []) version)
                   (push_version_of x (x_to_string x cfg) build_id)
         in pushed node core v (push_message x core restart (x_to_string x cfg) v cv build_id) h h')"
    using pushed_step by (auto simp: Let_def)
qed

definition demo_hub :: hub where
  "demo_hub = \<lparr>h_db = demo_db,
     h_agents = [(''n1'', \<lparr>ac_agent_id = ''n1'', ac_sender = 0, ac_versions = []\<rparr>)],
     h_chans = Map.empty(0 \<mapsto> []), h_key_cache = [], h_update_in_progress = False,
     h_waiters = [], h_replies = [], h_buckets = []\<rparr>"

lemma demo_ports: "is_ok (validate_node_port_conflicts demo_db ''n1'')"
  by (simp add: validate_node_port_conflicts_def demo_active mk_binding_def demo_config Let_def)

lemma demo_sent: "sent_to ''n1'' demo_hub = Some []"
  by (simp add: sent_to_def demo_hub_def)

theorem push_node_config_result_witness:
  "\<exists>h' m. push_node_config demo_crates (\<lambda>_. None) ''n1'' SingBox False (Some ''v7'') demo_hub = Inr h'
     \<and> agent_config_version ''n1'' ''sing-box'' h' = Some ''v7'' \<and> sent_to ''n1'' h' = Some [m]"
proof -
  obtain cfg ver where g: "generate_node_config demo_crates (\<lambda>_. None) demo_db ''n1'' SingBox = Inr (cfg, ver)"
    by (rule demo_generate)
  have db: "h_db demo_hub = demo_db" by (simp add: demo_hub_def)
  note r = push_node_config_result [of demo_crates "\<lambda>_. None" "''n1''" SingBox False "Some ''v7''" demo_hub]
  from r g demo_ports demo_sent have
    "is_ok (push_node_config demo_crates (\<lambda>_. None) ''n1'' SingBox False (Some ''v7'') demo_hub)"
    by (simp add: db)
  then obtain h' where h': "push_node_config demo_crates (\<lambda>_. None) ''n1'' SingBox False
      (Some ''v7'') demo_hub = Inr h'"
    by (auto simp: is_ok_iff)
  with r show ?thesis
    by (auto simp: Let_def pushed_def demo_sent opt_filter_def)
qed

end
