(* ===== verification/Scheduler.thy ===== *)
theory Scheduler
  imports Push
begin

text \<open>
  The periodic checks of the hub (pp-hub, service/scheduler.rs): traffic resets, limits and
  expiry, on-hold timeouts, the configuration pushes they cause, the cleanup of old rows and the
  stopping of cores without bindings. The calendar readings of a time (chrono) are one record; a
  pass reads the clock once, where the code reads it again for each client of one of them. The
  events handed to the webhook sender are kept in order with their payloads.
\<close>

text \<open>What a pass over the clients has done so far.\<close>

record pass =
  ps_db :: db
  ps_ids :: "uuid list"
  ps_hooks :: "(string \<times> json) list"

section \<open>The client passes\<close>

definition log_event :: "tstamp \<Rightarrow> string \<Rightarrow> string \<Rightarrow> db \<Rightarrow> db" where
  "log_event now source msg d = d\<lparr>db_system_logs := tbl_insert
     \<lparr>sl_level = ''info'', sl_source = source, sl_message = msg, sl_metadata = None, sl_created_at = now\<rparr>
     (db_system_logs d)\<rparr>"

definition update_client :: "uuid \<Rightarrow> (client \<Rightarrow> client) \<Rightarrow> db \<Rightarrow> db" where
  "update_client i f d = d\<lparr>db_clients := tbl_update c_id i f (db_clients d)\<rparr>"

definition should_reset :: "calendar \<Rightarrow> tstamp \<Rightarrow> client \<Rightarrow> bool" where
  "should_reset cal now c =
     (let s = c_data_limit_reset_strategy c;
          since = (\<lambda>p. unwrap_or (map_option p (c_last_traffic_reset_time c)) True)
      in if s = ''no_reset'' then False
         else if s = ''daily'' then since (\<lambda>t. cal_date cal t \<noteq> cal_date cal now)
         else if s = ''weekly'' then since (\<lambda>t. cal_week cal t \<noteq> cal_week cal now)
         else if s = ''monthly'' then
           since (\<lambda>t. cal_year cal t \<noteq> cal_year cal now \<or> cal_month cal t \<noteq> cal_month cal now)
         else if s = ''yearly'' then since (\<lambda>t. cal_year cal t \<noteq> cal_year cal now)
         else False)"

text \<open>The columns a reset sets, computed from the row that was read.\<close>

definition reset_row :: "tstamp \<Rightarrow> client \<Rightarrow> client \<Rightarrow> client" where
  "reset_row now c r =
     (let r = r\<lparr>c_all_time_used_bytes := wrap64 (c_all_time_used_bytes c + c_traffic_used_bytes c),
                c_traffic_used_bytes := 0, c_last_traffic_reset_time := Some now\<rparr>
      in if c_status c = ''limited'' then r\<lparr>c_status := ''active''\<rparr> else r)"

definition reset_step :: "calendar \<Rightarrow> tstamp \<Rightarrow> client \<Rightarrow> pass \<Rightarrow> pass" where
  "reset_step cal now c p =
     (if should_reset cal now c then
        \<lparr>ps_db = log_event now ''traffic_reset''
           (''Client '' @ c_id c @ '' traffic reset by strategy '' @ [CHR 0x27]
              @ c_data_limit_reset_strategy c @ [CHR 0x27] @ ''. Previous used: ''
              @ int_str (c_traffic_used_bytes c) @ '', all_time: '' @ int_str (c_all_time_used_bytes c))
           (update_client (c_id c) (reset_row now c) (ps_db p)),
         ps_ids = ps_ids p @ [c_id c],
         ps_hooks = ps_hooks p @ [(''traffic_reset'',
           jobj [(''client_id'', JStr (c_id c)), (''strategy'', JStr (c_data_limit_reset_strategy c)),
                 (''previous_used'', jint (c_traffic_used_bytes c)),
                 (''all_time'', jint (wrap64 (c_all_time_used_bytes c + c_traffic_used_bytes c)))])]\<rparr>
      else p)"

definition check_client_traffic_resets :: "calendar \<Rightarrow> tstamp \<Rightarrow> db \<Rightarrow> pass" where
  "check_client_traffic_resets cal now d =
     fold (reset_step cal now)
       (filter (\<lambda>c. c_status c = ''active'' \<or> c_status c = ''limited'') (db_clients d))
       \<lparr>ps_db = d, ps_ids = [], ps_hooks = []\<rparr>"

definition opt_json :: "string option \<Rightarrow> json" where
  "opt_json v = (case v of Some s \<Rightarrow> JStr s | None \<Rightarrow> JNull)"

definition client_payload :: "client \<Rightarrow> (string \<times> json) list \<Rightarrow> json" where
  "client_payload c ms =
     jobj ([(''client_id'', JStr (c_id c)), (''name'', JStr (c_name c)),
            (''email'', opt_json (c_email c))] @ ms)"

definition past_expiry :: "tstamp \<Rightarrow> client \<Rightarrow> bool" where
  "past_expiry now c = (case c_expiry_date c of Some e \<Rightarrow> e < now | None \<Rightarrow> False)"

definition over_limit :: "client \<Rightarrow> bool" where
  "over_limit c \<longleftrightarrow> c_traffic_limit_bytes c > 0 \<and> c_traffic_used_bytes c \<ge> c_traffic_limit_bytes c"

definition set_status :: "string \<Rightarrow> client \<Rightarrow> client" where
  "set_status st r = r\<lparr>c_status := st\<rparr>"

definition limit_step :: "tstamp \<Rightarrow> client \<Rightarrow> pass \<Rightarrow> pass" where
  "limit_step now c p =
     (if past_expiry now c then
        \<lparr>ps_db = log_event now ''client_expired'' (''Client '' @ c_id c @ '' expired'')
           (update_client (c_id c) (set_status ''expired'') (ps_db p)),
         ps_ids = ps_ids p @ [c_id c],
         ps_hooks = ps_hooks p @ [(''client_expired'', client_payload c [])]\<rparr>
      else if over_limit c then
        \<lparr>ps_db = log_event now ''client_limited''
           (''Client '' @ c_id c @ '' traffic limit exceeded: '' @ int_str (c_traffic_used_bytes c)
              @ '' / '' @ int_str (c_traffic_limit_bytes c))
           (update_client (c_id c) (set_status ''limited'') (ps_db p)),
         ps_ids = ps_ids p @ [c_id c],
         ps_hooks = ps_hooks p @ [(''client_limited'', client_payload c
           [(''total_used'', jint (c_traffic_used_bytes c)),
            (''traffic_limit'', jint (c_traffic_limit_bytes c))])]\<rparr>
      else p)"

definition check_client_limits :: "tstamp \<Rightarrow> db \<Rightarrow> pass" where
  "check_client_limits now d =
     fold (limit_step now) (filter (\<lambda>c. c_status c = ''active'') (db_clients d))
       \<lparr>ps_db = d, ps_ids = [], ps_hooks = []\<rparr>"

definition hold_step :: "calendar \<Rightarrow> tstamp \<Rightarrow> client \<Rightarrow> pass \<Rightarrow> pass" where
  "hold_step cal now c p =
     (case c_on_hold_timeout c of
        Some timeout \<Rightarrow>
          if timeout < now then
            \<lparr>ps_db = log_event now ''on_hold_expired'' (''Client '' @ c_id c @ '' on-hold timeout expired'')
               (update_client (c_id c) (set_status ''expired'') (ps_db p)),
             ps_ids = ps_ids p @ [c_id c],
             ps_hooks = ps_hooks p @ [(''on_hold_expired'', client_payload c
               [(''timeout'', JStr (cal_rfc3339 cal timeout))])]\<rparr>
          else p
      | None \<Rightarrow> p)"

definition check_on_hold_timeouts :: "calendar \<Rightarrow> tstamp \<Rightarrow> db \<Rightarrow> pass" where
  "check_on_hold_timeouts cal now d =
     fold (hold_step cal now) (filter (\<lambda>c. c_status c = ''on_hold'') (db_clients d))
       \<lparr>ps_db = d, ps_ids = [], ps_hooks = []\<rparr>"

section \<open>Pushing configurations\<close>

fun check_bindings_loop :: "db \<Rightarrow> core_type \<Rightarrow> node_binding list \<Rightarrow> bool" where
  "check_bindings_loop d core [] = False"
| "check_bindings_loop d core (b # bs) =
     (let name = unwrap_or (map_option pc_core_type
                   (tbl_find pc_id (nb_protocol_config_id b) (db_protocol_configs d))) [];
          binding_core = (if name = ''sing-box'' \<or> name = ''singbox'' then SingBox
                          else if name = ''mihomo'' then Mihomo else SingBox)
      in if binding_core = core then True else check_bindings_loop d core bs)"

definition check_bindings_for_core :: "db \<Rightarrow> uuid \<Rightarrow> core_type \<Rightarrow> bool" where
  "check_bindings_for_core d node core = check_bindings_loop d core (active_bindings d node)"

definition push_config_for_core :: "crates \<Rightarrow> env \<Rightarrow> uuid \<Rightarrow> core_type \<Rightarrow> hub \<Rightarrow> hub" where
  "push_config_for_core x env node core h =
     (if \<not> check_bindings_for_core (h_db h) node core then h
      else
        (case generate_node_config x env (h_db h) node core of
           Inl e \<Rightarrow> h
         | Inr (config, core_version) \<Rightarrow>
             if \<not> unwrap_or (map_option (\<lambda>a. a \<noteq> []) (get_array config ''inbounds'')) False then h
             else
               (let config_str = x_to_string x config;
                    build_id = core_build_id_of (h_db h) core core_version;
                    version = push_version_of x config_str build_id
                in if agent_config_version node (core_str core) h = Some version then h
                   else
                     (case send_to_agent node
                             (push_message x core False config_str version core_version build_id) h of
                        Inr h' \<Rightarrow> hub_clear_pending node core
                          (set_agent_config_version node (core_str core) version h')
                      | Inl e \<Rightarrow> h))))"

definition push_updated_configs_for_clients :: "crates \<Rightarrow> env \<Rightarrow> hub \<Rightarrow> hub" where
  "push_updated_configs_for_clients x env h =
     fold (\<lambda>node h. push_config_for_core x env node Mihomo (push_config_for_core x env node SingBox h))
       (remdups (map nb_node_id (filter nb_is_active (db_node_bindings (h_db h))))) h"

section \<open>Cleanup and orphans\<close>

definition cleanup_old_records :: "calendar \<Rightarrow> tstamp \<Rightarrow> db \<Rightarrow> db" where
  "cleanup_old_records cal now d =
     (let d = d\<lparr>db_system_logs := tbl_delete (\<lambda>r. sl_created_at r < now - 30 * 86400 * ns_per_sec)
                  (db_system_logs d)\<rparr>;
          d = d\<lparr>db_sessions := tbl_delete (\<lambda>r. os_last_active_at r < now - 600 * ns_per_sec)
                  (db_sessions d)\<rparr>
      in if cal_minute cal now < 5 then
           d\<lparr>db_agent_logs := tbl_delete (\<lambda>r. al_created_at r < now - 7 * 86400 * ns_per_sec)
               (db_agent_logs d)\<rparr>
         else d)"

definition reconcile_core :: "uuid \<Rightarrow> core_type \<Rightarrow> hub \<Rightarrow> hub" where
  "reconcile_core node core h =
     (if check_bindings_for_core (h_db h) node core then h
      else if agent_config_version node (core_str core) h = None then h
      else
        (case send_to_agent node (CoreCmd (CoreStop (proto_core core))) h of
           Inr h' \<Rightarrow> set_agent_config_version node (core_str core) [] h'
         | Inl e \<Rightarrow> h))"

definition reconcile_orphan_cores :: "hub \<Rightarrow> hub" where
  "reconcile_orphan_cores h =
     fold (\<lambda>node h. reconcile_core node Mihomo (reconcile_core node SingBox h)) (map fst (h_agents h)) h"

section \<open>The round\<close>

definition with_db :: "hub \<Rightarrow> db \<Rightarrow> hub" where
  "with_db h d = h\<lparr>h_db := d\<rparr>"

definition run_periodic_checks ::
    "crates \<Rightarrow> env \<Rightarrow> calendar \<Rightarrow> tstamp \<Rightarrow> hub \<Rightarrow> hub \<times> (string \<times> json) list" where
  "run_periodic_checks x env cal now h =
     (let p1 = check_client_traffic_resets cal now (h_db h);
          p2 = check_client_limits now (ps_db p1);
          h = with_db h (ps_db p2);
          h = (if ps_ids p2 \<noteq> [] then push_updated_configs_for_clients x env h else h);
          p3 = check_on_hold_timeouts cal now (h_db h);
          h = with_db h (ps_db p3);
          h = (if ps_ids p2 @ ps_ids p1 @ ps_ids p3 \<noteq> []
               then push_updated_configs_for_clients x env h else h);
          h = with_db h (cleanup_old_records cal now (h_db h))
      in (reconcile_orphan_cores h, ps_hooks p1 @ ps_hooks p2 @ ps_hooks p3))"

section \<open>The contract of a client pass\<close>

text \<open>
  A pass reads the selected clients, acts on some of them, updates the row of each it acts on by
  columns computed from the row read, and reports their ids.
\<close>

lemma distinct_map_neq: "distinct (map f (x # xs)) \<Longrightarrow> y \<in> set xs \<Longrightarrow> f y \<noteq> f x"
  by (metis distinct.simps(2) image_eqI list.set_map list.simps(9))

locale client_pass =
  fixes sel act :: "client \<Rightarrow> bool"
    and eff :: "client \<Rightarrow> client \<Rightarrow> client"
    and step :: "client \<Rightarrow> pass \<Rightarrow> pass"
    and run :: "db \<Rightarrow> pass"
  assumes eff_id: "c_id (eff c r) = c_id r"
    and step_act: "act c \<Longrightarrow>
      (\<exists>logs. ps_db (step c p) = (update_client (c_id c) (eff c) (ps_db p))\<lparr>db_system_logs := logs\<rparr>)
      \<and> ps_ids (step c p) = ps_ids p @ [c_id c]"
    and step_skip: "\<not> act c \<Longrightarrow> step c p = p"
    and run_eq: "run d = fold step (filter sel (db_clients d)) \<lparr>ps_db = d, ps_ids = [], ps_hooks = []\<rparr>"
begin

lemma fold_clients:
  "distinct (map c_id cs) \<Longrightarrow>
   \<exists>logs. ps_db (fold step cs p) = (ps_db p)
     \<lparr>db_clients := map (\<lambda>r. case find (\<lambda>c. c_id c = c_id r \<and> act c) cs of
                               Some c \<Rightarrow> eff c r | None \<Rightarrow> r) (db_clients (ps_db p)),
      db_system_logs := logs\<rparr>"
proof (induction cs arbitrary: p)
  case Nil
  show ?case by (intro exI [of _ "db_system_logs (ps_db p)"]) simp
next
  case (Cons c cs)
  show ?case
  proof (cases "act c")
    case True
    then obtain logs where st:
      "ps_db (step c p) = (update_client (c_id c) (eff c) (ps_db p))\<lparr>db_system_logs := logs\<rparr>"
      using step_act by blast
    have none: "find (\<lambda>c'. c_id c' = c_id c \<and> act c') cs = None"
      using distinct_map_neq [OF Cons.prems] by (auto simp: find_None_iff)
    from Cons.IH [of "step c p"] Cons.prems obtain logs' where
      "ps_db (fold step cs (step c p)) = (ps_db (step c p))
        \<lparr>db_clients := map (\<lambda>r. case find (\<lambda>c. c_id c = c_id r \<and> act c) cs of
                               Some c \<Rightarrow> eff c r | None \<Rightarrow> r) (db_clients (ps_db (step c p))),
         db_system_logs := logs'\<rparr>" by auto
    then show ?thesis
      by (intro exI [of _ logs'])
         (auto simp: st update_client_def tbl_update_def True eff_id none intro!: map_cong)
  next
    case False
    have *: "find (\<lambda>c'. c_id c' = c_id r \<and> act c') (c # cs) = find (\<lambda>c'. c_id c' = c_id r \<and> act c') cs" for r
      using False by simp
    from Cons.prems have "distinct (map c_id cs)" by simp
    from Cons.IH [OF this, of p] show ?thesis
      unfolding fold_simps step_skip [OF False] * .
  qed
qed

lemma fold_ids: "ps_ids (fold step cs p) = ps_ids p @ map c_id (filter act cs)"
  by (induction cs arbitrary: p) (simp_all add: step_act step_skip)

lemma find_selected:
  assumes "distinct (map c_id t)" and "r \<in> set t"
  shows "find (\<lambda>c. c_id c = c_id r \<and> act c) (filter sel t) = (if sel r \<and> act r then Some r else None)"
  using assms
proof (induction t)
  case (Cons c t)
  show ?case
  proof (cases "r = c")
    case True
    have "find (\<lambda>c'. c_id c' = c_id c \<and> act c') (filter sel t) = None"
      using distinct_map_neq [OF Cons.prems(1)] by (auto simp: find_None_iff)
    with True show ?thesis by simp
  next
    case False
    with Cons.prems have r: "r \<in> set t" "distinct (map c_id t)" by auto
    from distinct_map_neq [OF Cons.prems(1) r(1)] Cons.IH [OF r(2,1)] show ?thesis by auto
  qed
qed simp

text \<open>The whole pass: a pointwise change of the client table, and nothing else but log rows.\<close>

lemma run_db:
  assumes "distinct (map c_id (db_clients d))"
  shows "\<exists>logs. ps_db (run d) = d\<lparr>db_clients :=
      map (\<lambda>c. if sel c \<and> act c then eff c c else c) (db_clients d), db_system_logs := logs\<rparr>"
proof -
  have "distinct (map c_id (filter sel (db_clients d)))"
    using assms by (simp add: distinct_map_filter)
  from fold_clients [OF this, of "\<lparr>ps_db = d, ps_ids = [], ps_hooks = []\<rparr>"]
  obtain logs where "ps_db (run d) = d\<lparr>db_clients :=
      map (\<lambda>r. case find (\<lambda>c. c_id c = c_id r \<and> act c) (filter sel (db_clients d)) of
             Some c \<Rightarrow> eff c r | None \<Rightarrow> r) (db_clients d), db_system_logs := logs\<rparr>"
    by (auto simp: run_eq)
  moreover have "map (\<lambda>r. case find (\<lambda>c. c_id c = c_id r \<and> act c) (filter sel (db_clients d)) of
             Some c \<Rightarrow> eff c r | None \<Rightarrow> r) (db_clients d)
      = map (\<lambda>c. if sel c \<and> act c then eff c c else c) (db_clients d)"
    by (rule map_cong [OF refl]) (simp add: find_selected [OF assms])
  ultimately show ?thesis by auto
qed

lemma run_rows:
  "distinct (map c_id (db_clients d)) \<Longrightarrow>
   db_clients (ps_db (run d)) = map (\<lambda>c. if sel c \<and> act c then eff c c else c) (db_clients d)"
  using run_db [of d] by auto

lemma run_ids: "ps_ids (run d) = map c_id (filter (\<lambda>c. sel c \<and> act c) (db_clients d))"
proof -
  have "filter act (filter sel cs) = filter (\<lambda>c. sel c \<and> act c) cs" for cs
    by (induction cs) auto
  then show ?thesis by (simp add: run_eq fold_ids)
qed

lemma run_keys:
  "distinct (map c_id (db_clients d)) \<Longrightarrow> map c_id (db_clients (ps_db (run d))) = map c_id (db_clients d)"
  by (simp add: run_rows comp_def eff_id if_distrib cong: if_cong)

lemma run_db_ok: "db_ok d \<Longrightarrow> db_ok (ps_db (run d))"
  using run_db [of d] run_keys [of d] by (auto simp: db_ok_def)

end

lemma log_event_ex [simp]: "\<exists>logs. log_event now src msg d = d\<lparr>db_system_logs := logs\<rparr>"
  by (auto simp: log_event_def)

interpretation rs: client_pass "\<lambda>c. c_status c = ''active'' \<or> c_status c = ''limited''"
    "should_reset cal now" "reset_row now" "reset_step cal now" "check_client_traffic_resets cal now"
  for cal now
  by unfold_locales
     (simp_all add: reset_row_def reset_step_def check_client_traffic_resets_def Let_def)

interpretation lm: client_pass "\<lambda>c. c_status c = ''active''" "\<lambda>c. past_expiry now c \<or> over_limit c"
    "\<lambda>c. set_status (if past_expiry now c then ''expired'' else ''limited'')" "limit_step now"
    "check_client_limits now"
  for now
  by unfold_locales
     (auto simp: set_status_def limit_step_def check_client_limits_def)

definition hold_over :: "tstamp \<Rightarrow> client \<Rightarrow> bool" where
  "hold_over now c = (case c_on_hold_timeout c of Some t \<Rightarrow> t < now | None \<Rightarrow> False)"

interpretation hold: client_pass "\<lambda>c. c_status c = ''on_hold''" "hold_over now"
    "\<lambda>c. set_status ''expired''" "hold_step cal now" "check_on_hold_timeouts cal now"
  for cal now
  by unfold_locales
     (auto simp: set_status_def hold_step_def hold_over_def check_on_hold_timeouts_def
        simp del: update_client_def split: option.splits)

end
