(* ===== verification/Rounds.thy ===== *)
theory Rounds
  imports Scheduler
begin

text \<open>
  Properties of the periodic checks: what the client passes establish, which configurations a round
  pushes and which it never does, and the stopping of orphaned cores.
\<close>

section \<open>The client passes\<close>

text \<open>
  C7: The limit check turns exactly the active clients past their expiry to expired, and of the
  others exactly those that used up their limit to limited; no active client past its expiry or over
  its limit remains, and the clients reported are those it changed.
\<close>

theorem limits_enforced:
  assumes "distinct (map c_id (db_clients d))"
  shows "db_clients (ps_db (check_client_limits now d)) = map (\<lambda>c.
           if c_status c = ''active'' \<and> past_expiry now c then c\<lparr>c_status := ''expired''\<rparr>
           else if c_status c = ''active'' \<and> over_limit c then c\<lparr>c_status := ''limited''\<rparr>
           else c) (db_clients d)
    \<and> (\<forall>c \<in> set (db_clients (ps_db (check_client_limits now d))).
         c_status c = ''active'' \<longrightarrow> \<not> past_expiry now c \<and> \<not> over_limit c)
    \<and> ps_ids (check_client_limits now d) = map c_id
        (filter (\<lambda>c. c_status c = ''active'' \<and> (past_expiry now c \<or> over_limit c)) (db_clients d))"
  using lm.run_rows [OF assms, of now] lm.run_ids [of now d]
  by (auto simp: set_status_def intro!: map_cong split: if_splits)

definition two_clients :: db where
  "two_clients = empty_db\<lparr>db_clients :=
     [(mk_client ''a'' ''active'')\<lparr>c_expiry_date := Some 5\<rparr>,
      (mk_client ''b'' ''active'')\<lparr>c_traffic_limit_bytes := 10, c_traffic_used_bytes := 10\<rparr>]\<rparr>"

lemma two_clients_distinct: "distinct (map c_id (db_clients two_clients))"
  by (simp add: two_clients_def mk_client_def)

theorem limits_enforced_witness:
  "map c_status (db_clients (ps_db (check_client_limits 7 two_clients))) = [''expired'', ''limited'']
   \<and> ps_ids (check_client_limits 7 two_clients) = [''a'', ''b'']"
  using limits_enforced [OF two_clients_distinct, of 7]
  by (simp add: two_clients_def mk_client_def past_expiry_def over_limit_def)

text \<open>
  A traffic reset loses no traffic: for every client the all-time counter grows by what the
  period counter drops (in the 64-bit arithmetic of the columns), a reset client starts its period
  at zero and is active, and every other client keeps its row.
\<close>

theorem resets_conserve_traffic:
  assumes "distinct (map c_id (db_clients d))"
  shows "list_all2 (\<lambda>c c'. c_id c' = c_id c
      \<and> wrap64 (c_all_time_used_bytes c' + c_traffic_used_bytes c')
          = wrap64 (c_all_time_used_bytes c + c_traffic_used_bytes c)
      \<and> (if c_id c \<in> set (ps_ids (check_client_traffic_resets cal now d))
         then c_traffic_used_bytes c' = 0 \<and> c_status c' = ''active''
              \<and> c_last_traffic_reset_time c' = Some now
         else c' = c))
    (db_clients d) (db_clients (ps_db (check_client_traffic_resets cal now d)))"
proof -
  have keys: "inj_on c_id (set (db_clients d))" using assms by (simp add: distinct_map)
  have wrap: "wrap64 (wrap64 y) = wrap64 y" for y by (rule wrap64_id) simp
  have touched: "c_id c \<in> set (ps_ids (check_client_traffic_resets cal now d))
      \<longleftrightarrow> (c_status c = ''active'' \<or> c_status c = ''limited'') \<and> should_reset cal now c"
    if "c \<in> set (db_clients d)" for c
    using that keys by (auto simp: rs.run_ids dest: inj_onD)
  show ?thesis
    unfolding rs.run_rows [OF assms] list_all2_map2 list_all2_same
    by (auto simp: touched reset_row_def Let_def wrap)
qed

definition reset_clients :: db where
  "reset_clients = empty_db\<lparr>db_clients :=
     [(mk_client ''a'' ''limited'')\<lparr>c_data_limit_reset_strategy := ''daily'',
        c_traffic_used_bytes := 7, c_all_time_used_bytes := 30\<rparr>]\<rparr>"

definition demo_cal :: calendar where
  "demo_cal = \<lparr>cal_date = (\<lambda>t. t div 86400000000000), cal_week = (\<lambda>_. ''1970-01''),
     cal_month = (\<lambda>_. 1), cal_year = (\<lambda>_. 1970), cal_minute = (\<lambda>_. 0), cal_rfc3339 = (\<lambda>_. []),
     cal_from_timestamp = (\<lambda>s. Some (s * 1000000000))\<rparr>"

theorem resets_conserve_traffic_witness:
  "\<exists>c. db_clients (ps_db (check_client_traffic_resets demo_cal 5 reset_clients)) = [c]
     \<and> wrap64 (c_all_time_used_bytes c) = 37 \<and> c_status c = ''active''"
proof -
  have d: "distinct (map c_id (db_clients reset_clients))"
    by (simp add: reset_clients_def)
  have "ps_ids (check_client_traffic_resets demo_cal 5 reset_clients) = [''a'']"
    by (simp add: rs.run_ids reset_clients_def mk_client_def should_reset_def Let_def)
  with resets_conserve_traffic [OF d, of demo_cal 5] show ?thesis
    by (auto simp: reset_clients_def mk_client_def list_all2_Cons1 wrap64_id in_i64_def i64_max_def
        i64_min_def)
qed

section \<open>What pushes leave alone\<close>

text \<open>No configuration depends on the pending markers.\<close>

lemma active_bindings_pending [simp]: "active_bindings (d\<lparr>db_pending := p\<rparr>) node = active_bindings d node"
  by (simp add: active_bindings_def)

lemma core_version_pending [simp]:
  "effective_core_version (d\<lparr>db_pending := p\<rparr>) core = effective_core_version d core"
  "core_build_id_of (d\<lparr>db_pending := p\<rparr>) core v = core_build_id_of d core v"
  by (simp_all add: effective_core_version_def core_build_id_of_def cong: option.case_cong)

lemma binding_settings_pending [simp]:
  "binding_settings (d\<lparr>db_pending := p\<rparr>) b cfg = binding_settings d b cfg"
  "resolve_managed_cert_tls x (d\<lparr>db_pending := p\<rparr>) node tls = resolve_managed_cert_tls x d node tls"
  by (simp_all add: binding_settings_def inject_binding_clients_def resolve_managed_cert_tls_def
      Let_def cong: option.case_cong if_cong)

lemma node_inbounds_pending [simp]:
  "node_inbounds x (d\<lparr>db_pending := p\<rparr>) node core bs = node_inbounds x d node core bs"
  by (induction bs) (simp_all cong: if_cong)

lemma relay_pending [simp]:
  "relay_hop_of x (d\<lparr>db_pending := p\<rparr>) r = relay_hop_of x d r"
  "node_relay_rules (d\<lparr>db_pending := p\<rparr>) node = node_relay_rules d node"
  by (simp_all add: relay_hop_of_def node_relay_rules_def resolve_relay_sni_def)

lemma relay_loop_pending [simp]:
  "apply_relay_loop x (d\<lparr>db_pending := p\<rparr>) core rs = apply_relay_loop x d core rs"
proof
  fix cfg
  show "apply_relay_loop x (d\<lparr>db_pending := p\<rparr>) core rs cfg = apply_relay_loop x d core rs cfg"
  proof (induction rs arbitrary: cfg)
    case (Cons r rs)
    have "apply_relay_rule x (d\<lparr>db_pending := p\<rparr>) core r cfg = apply_relay_rule x d core r cfg"
      by (simp add: apply_relay_rule_def)
    with Cons show ?case by (cases "apply_relay_rule x d core r cfg") simp_all
  qed simp
qed

lemma generate_clear [simp]:
  "generate_node_config x env (clear_pending n c d) node core = generate_node_config x env d node core"
  by (simp add: clear_pending_def generate_node_config_def apply_relay_rules_def)

lemma check_bindings_clear [simp]:
  "check_bindings_for_core (clear_pending n c d) node core = check_bindings_for_core d node core"
proof -
  have "check_bindings_loop (d\<lparr>db_pending := p\<rparr>) core bs = check_bindings_loop d core bs" for p bs
    by (induction bs) (simp_all add: Let_def)
  then show ?thesis by (simp add: check_bindings_for_core_def clear_pending_def)
qed

lemma build_id_clear [simp]:
  "core_build_id_of (clear_pending n c d) core v = core_build_id_of d core v"
  by (simp add: clear_pending_def)

lemma clear_pending_tables [simp]:
  "db_clients (clear_pending n c d) = db_clients d"
  "db_node_bindings (clear_pending n c d) = db_node_bindings d"
  "db_relay_rules (clear_pending n c d) = db_relay_rules d"
  by (simp_all add: clear_pending_def)

text \<open>A configuration push of the scheduler: it did nothing, or it delivered.\<close>

lemma push_core_cases:
  obtains "push_config_for_core x env node core h = h"
  | cfg cv m v where "generate_node_config x env (h_db h) node core = Inr (cfg, cv)"
      "v = push_version_of x (x_to_string x cfg) (core_build_id_of (h_db h) core cv)"
      "pushed node core v m h (push_config_for_core x env node core h)"
      "h_db (push_config_for_core x env node core h) = clear_pending node core (h_db h)"
      "map fst (h_agents (push_config_for_core x env node core h)) = map fst (h_agents h)"
proof (cases "push_config_for_core x env node core h = h")
  case False
  then obtain cfg cv where g: "generate_node_config x env (h_db h) node core = Inr (cfg, cv)"
    by (auto simp: push_config_for_core_def split: sum.splits if_splits)
  define v where "v = push_version_of x (x_to_string x cfg) (core_build_id_of (h_db h) core cv)"
  define m where "m = push_message x core False (x_to_string x cfg) v cv (core_build_id_of (h_db h) core cv)"
  from False g obtain h1 where h1: "send_to_agent node m h = Inr h1"
    and h': "push_config_for_core x env node core h
      = hub_clear_pending node core (set_agent_config_version node (core_str core) v h1)"
    by (auto simp: push_config_for_core_def Let_def v_def m_def split: sum.splits if_splits)
  have keys: "map fst (h_agents (set_agent_config_version node (core_str core) v h1)) = map fst (h_agents h)"
    using send_frame [OF h1]
    by (auto simp: set_agent_config_version_def update_keys map_of_eq_None_iff split: option.split)
  note p = pushed_step [OF h1, of core v, folded h']
  show ?thesis
  proof (rule that(2) [OF g v_def p])
    show "h_db (push_config_for_core x env node core h) = clear_pending node core (h_db h)"
      using p by (simp add: pushed_def)
    show "map fst (h_agents (push_config_for_core x env node core h)) = map fst (h_agents h)"
      by (simp add: h' hub_clear_pending_def keys)
  qed
qed (rule that(1))

section \<open>What a round pushes\<close>

lemma push_core_connected:
  "sent_to n h \<noteq> None \<Longrightarrow> sent_to n (push_config_for_core x env node core h) \<noteq> None"
proof -
  assume n: "sent_to n h \<noteq> None"
  have send: "sent_to n h1 \<noteq> None" if "send_to_agent node m h = Inr h1" for m h1
    using that n by (auto simp: send_to_agent_def sent_to_def bind_eq_Some_conv split: option.splits)
  have "sent_to n (hub_clear_pending a c h1) = sent_to n h1" for a c h1
    by (simp add: sent_to_def hub_clear_pending_def)
  with send n show ?thesis
    by (auto simp: push_config_for_core_def Let_def split: sum.splits)
qed

lemma push_core_tables:
  "\<exists>p. h_db (push_config_for_core x env node core h) = (h_db h)\<lparr>db_pending := p\<rparr>"
  by (rule push_core_cases [of x env node core h])
     (auto simp: clear_pending_def intro: exI [of _ "db_pending (h_db h)"])

lemma push_core_other_version:
  "(n, c) \<noteq> (node, core_str core) \<Longrightarrow>
   agent_config_version n c (push_config_for_core x env node core h) = agent_config_version n c h"
  by (rule push_core_cases [of x env node core h]) (auto simp: pushed_def)

lemma generated_mihomo_no_inbounds:
  assumes "generate_node_config x env d node Mihomo = Inr (cfg, cv)"
  shows "get_array cfg ''inbounds'' = None"
proof -
  from assms obtain ins base where base: "mh_build_full_config env ins = Inr base"
    and cfg: "apply_relay_rules x d node Mihomo base = Inr cfg"
    by (auto elim!: generate_Inr)
  from base have b: "is_obj base" "jget base ''inbounds'' = None"
    by (auto elim!: mh_full_members)
  from cfg frame_refl [OF b(1)] have "frame base cfg"
    unfolding apply_relay_rules_def by (rule relay_loop_frame)
  with b(2) show ?thesis by (simp add: frame_def relay_keys_def get_array_def)
qed

lemma push_mihomo_noop: "push_config_for_core x env node Mihomo h = h"
  by (auto simp: push_config_for_core_def generated_mihomo_no_inbounds split: sum.split)

text \<open>
  The scheduler never pushes a mihomo configuration: it asks for a non-empty \<open>inbounds\<close> array,
  which a mihomo configuration, whose inbounds are \<open>listeners\<close>, does not have. A client that expires
  or runs over its limit stays admitted by the mihomo cores until something else pushes.
\<close>

theorem scheduler_never_pushes_mihomo:
  "push_config_for_core x env node Mihomo h = h"
  by (rule push_mihomo_noop)

lemma push_core_current:
  "generate_node_config x env (h_db h) node core = Inr (cfg, cv) \<Longrightarrow>
   agent_config_version node (core_str core) h
     = Some (push_version_of x (x_to_string x cfg) (core_build_id_of (h_db h) core cv)) \<Longrightarrow>
   push_config_for_core x env node core h = h"
  by (simp add: push_config_for_core_def Let_def)

text \<open>
  The scheduler's push is idempotent: done twice it leaves what it leaves done once, so a round
  without changes sends nothing.
\<close>

theorem push_config_idempotent:
  "push_config_for_core x env node core (push_config_for_core x env node core h)
     = push_config_for_core x env node core h"
proof (rule push_core_cases [of x env node core h])
  fix cfg cv m v
  let ?h = "push_config_for_core x env node core h"
  assume g: "generate_node_config x env (h_db h) node core = Inr (cfg, cv)"
    and v: "v = push_version_of x (x_to_string x cfg) (core_build_id_of (h_db h) core cv)"
    and p: "pushed node core v m h ?h" and db: "h_db ?h = clear_pending node core (h_db h)"
  have "generate_node_config x env (h_db ?h) node core = Inr (cfg, cv)"
    unfolding db generate_clear by (rule g)
  moreover have "agent_config_version node (core_str core) ?h
      = Some (push_version_of x (x_to_string x cfg) (core_build_id_of (h_db ?h) core cv))"
    using p v by (simp only: pushed_def db build_id_clear)
  ultimately show ?thesis by (rule push_core_current)
qed simp

definition node_pushes :: "crates \<Rightarrow> env \<Rightarrow> uuid list \<Rightarrow> hub \<Rightarrow> hub" where
  "node_pushes x env ns h = fold (\<lambda>node h. push_config_for_core x env node Mihomo
     (push_config_for_core x env node SingBox h)) ns h"

lemma node_pushes_simps:
  "node_pushes x env [] h = h"
  "node_pushes x env (n # ns) h = node_pushes x env ns (push_config_for_core x env n SingBox h)"
  by (simp_all add: node_pushes_def push_mihomo_noop)

lemma node_pushes_tables: "\<exists>p. h_db (node_pushes x env ns h) = (h_db h)\<lparr>db_pending := p\<rparr>"
proof (induction ns arbitrary: h)
  case Nil
  show ?case by (rule exI [of _ "db_pending (h_db h)"]) (simp add: node_pushes_simps)
next
  case (Cons n ns)
  from push_core_tables [of x env n SingBox h] Cons [of "push_config_for_core x env n SingBox h"]
  show ?case by (auto simp: node_pushes_simps)
qed

lemma node_pushes_other:
  "n \<notin> set ns \<Longrightarrow> agent_config_version n c (node_pushes x env ns h) = agent_config_version n c h"
  by (induction ns arbitrary: h) (auto simp: node_pushes_simps push_core_other_version)

lemma push_core_reaches:
  assumes "check_bindings_for_core (h_db h) node core"
    and "generate_node_config x env (h_db h) node core = Inr (cfg, cv)"
    and "arr_of cfg ''inbounds'' \<noteq> []" and "sent_to node h \<noteq> None"
  shows "agent_config_version node (core_str core) (push_config_for_core x env node core h)
    = Some (push_version_of x (x_to_string x cfg) (core_build_id_of (h_db h) core cv))"
proof -
  let ?b = "core_build_id_of (h_db h) core cv"
  let ?v = "push_version_of x (x_to_string x cfg) ?b"
  let ?m = "push_message x core False (x_to_string x cfg) ?v cv ?b"
  show ?thesis
  proof (cases "agent_config_version node (core_str core) h = Some ?v")
    case True
    with push_core_current [OF assms(2)] show ?thesis by simp
  next
    case False
    from assms(4) send_ok_iff [of node ?m h] obtain h1 where h1: "send_to_agent node ?m h = Inr h1"
      by (auto simp: is_ok_iff)
    from assms(3) have "unwrap_or (map_option (\<lambda>a. a \<noteq> []) (get_array cfg ''inbounds'')) False"
      by (cases "get_array cfg ''inbounds''") (simp_all add: arr_of_def)
    with False assms(1,2) h1 have "push_config_for_core x env node core h
        = hub_clear_pending node core (set_agent_config_version node (core_str core) ?v h1)"
      by (simp add: push_config_for_core_def Let_def)
    with pushed_step [OF h1, of core ?v] show ?thesis by (simp add: pushed_def)
  qed
qed

lemma push_core_view:
  "generate_node_config x env (h_db (push_config_for_core x env n c h)) node core
     = generate_node_config x env (h_db h) node core"
  "check_bindings_for_core (h_db (push_config_for_core x env n c h)) node core
     = check_bindings_for_core (h_db h) node core"
  "core_build_id_of (h_db (push_config_for_core x env n c h)) core v = core_build_id_of (h_db h) core v"
  by (rule push_core_cases [of x env n c h]; simp)+

lemma node_pushes_reach:
  assumes "node \<in> set ns" and "distinct ns" and "check_bindings_for_core (h_db h) node SingBox"
    and "generate_node_config x env (h_db h) node SingBox = Inr (cfg, cv)"
    and "arr_of cfg ''inbounds'' \<noteq> []" and "sent_to node h \<noteq> None"
  shows "agent_config_version node ''sing-box'' (node_pushes x env ns h)
    = Some (push_version_of x (x_to_string x cfg) (core_build_id_of (h_db h) SingBox cv))"
  using assms
proof (induction ns arbitrary: h)
  case (Cons n ns)
  show ?case
  proof (cases "n = node")
    case True
    with Cons.prems(2) have "node \<notin> set ns" by simp
    with True push_core_reaches [OF Cons.prems(3-6)] show ?thesis
      by (simp add: node_pushes_simps node_pushes_other)
  next
    case False
    let ?h = "push_config_for_core x env n SingBox h"
    from False Cons.prems have "node \<in> set ns" "distinct ns" by auto
    then have "agent_config_version node ''sing-box'' (node_pushes x env ns ?h)
        = Some (push_version_of x (x_to_string x cfg) (core_build_id_of (h_db ?h) SingBox cv))"
      using Cons.prems(3-5) push_core_connected [OF Cons.prems(6)]
      by (intro Cons.IH) (simp_all only: push_core_view not_False_eq_True)
    then show ?thesis by (simp only: node_pushes_simps push_core_view)
  qed
qed simp



section \<open>A whole round\<close>

lemma push_updated_tables:
  "\<exists>p. h_db (push_updated_configs_for_clients x env h) = (h_db h)\<lparr>db_pending := p\<rparr>"
  using node_pushes_tables by (simp add: push_updated_configs_for_clients_def node_pushes_def)

lemma push_updated_clients [simp]:
  "db_clients (h_db (push_updated_configs_for_clients x env h)) = db_clients (h_db h)"
  using push_updated_tables [of x env h] by auto

lemma reconcile_core_db [simp]: "h_db (reconcile_core n c h) = h_db h"
  by (auto simp: reconcile_core_def dest: send_frame split: sum.split)

lemma reconcile_db [simp]: "h_db (reconcile_orphan_cores h) = h_db h"
proof -
  have "h_db (fold (\<lambda>node h. reconcile_core node Mihomo (reconcile_core node SingBox h)) ns h) = h_db h"
    for ns by (induction ns arbitrary: h) simp_all
  then show ?thesis by (simp add: reconcile_orphan_cores_def)
qed

lemma cleanup_clients [simp]: "db_clients (cleanup_old_records cal now d) = db_clients d"
  by (simp add: cleanup_old_records_def Let_def)

lemma round_clients:
  "db_clients (h_db (fst (run_periodic_checks x env cal now h)))
     = db_clients (ps_db (check_on_hold_timeouts cal now
         (h_db ((if ps_ids (check_client_limits now (ps_db (check_client_traffic_resets cal now (h_db h)))) \<noteq> []
                 then push_updated_configs_for_clients x env else id)
            (with_db h (ps_db (check_client_limits now (ps_db (check_client_traffic_resets cal now (h_db h))))))))))"
  by (simp add: run_periodic_checks_def Let_def with_db_def)

text \<open>
  C9: After a round of the periodic checks no client is active past its expiry or with its limit
  used up, and none is on hold past its timeout.
\<close>

theorem round_enforces_limits:
  assumes "distinct (map c_id (db_clients (h_db h)))"
  shows "\<forall>c \<in> set (db_clients (h_db (fst (run_periodic_checks x env cal now h)))).
      (c_status c = ''active'' \<longrightarrow> \<not> past_expiry now c \<and> \<not> over_limit c)
      \<and> (c_status c = ''on_hold'' \<longrightarrow> \<not> hold_over now c)"
proof -
  define d1 where "d1 = ps_db (check_client_traffic_resets cal now (h_db h))"
  define d2 where "d2 = ps_db (check_client_limits now d1)"
  define d3 where "d3 = h_db ((if ps_ids (check_client_limits now d1) \<noteq> []
    then push_updated_configs_for_clients x env else id) (with_db h d2))"
  have d3: "db_clients d3 = db_clients d2" by (simp add: d3_def with_db_def)
  have cl: "db_clients (h_db (fst (run_periodic_checks x env cal now h)))
      = db_clients (ps_db (check_on_hold_timeouts cal now d3))"
    unfolding round_clients d1_def d2_def d3_def ..
  have k1: "distinct (map c_id (db_clients d1))"
    using rs.run_keys [OF assms] assms by (simp add: d1_def)
  then have k2: "distinct (map c_id (db_clients d2))"
    using lm.run_keys [OF k1] by (simp add: d2_def)
  then have k3: "distinct (map c_id (db_clients d3))" by (simp add: d3)
  have "\<forall>c \<in> set (db_clients d2). c_status c = ''active'' \<longrightarrow> \<not> past_expiry now c \<and> \<not> over_limit c"
    unfolding d2_def lm.run_rows [OF k1]
    by (auto simp: set_status_def past_expiry_def over_limit_def split: if_splits)
  then show ?thesis
    unfolding cl hold.run_rows [OF k3] d3
    by (auto simp: set_status_def)
qed

theorem round_enforces_limits_witness:
  "\<not> (\<exists>c. c \<in> set (db_clients (h_db (fst (run_periodic_checks demo_crates (\<lambda>_. None) demo_cal 7
       (with_db demo_hub two_clients))))) \<and> c_status c = ''active'' \<and> (past_expiry 7 c \<or> over_limit c))"
proof -
  have "distinct (map c_id (db_clients (h_db (with_db demo_hub two_clients))))"
    using two_clients_distinct by (simp add: with_db_def)
  from round_enforces_limits [OF this] show ?thesis by blast
qed

section \<open>Orphaned cores\<close>

lemma reconcile_core_stops:
  assumes "\<not> check_bindings_for_core (h_db h) node core"
    and "agent_config_version node (core_str core) h \<noteq> None" and "sent_to node h = Some q"
  shows "sent_to node (reconcile_core node core h) = Some (q @ [CoreCmd (CoreStop (proto_core core))])
    \<and> agent_config_version node (core_str core) (reconcile_core node core h) = Some []"
proof -
  let ?m = "CoreCmd (CoreStop (proto_core core))"
  from assms(3) send_ok_iff [of node ?m h] obtain h1 where h1: "send_to_agent node ?m h = Inr h1"
    by (auto simp: is_ok_iff)
  from assms(1,2) h1 have "reconcile_core node core h
      = set_agent_config_version node (core_str core) [] h1"
    by (auto simp: reconcile_core_def)
  with send_frame [OF h1] assms(3) show ?thesis by (simp add: version_after_set)
qed

text \<open>
  A core without bindings whose version is on record is told to stop in every round, not once:
  the record is overwritten by the empty version, which counts as a record, so the next round sends
  another stop command.
\<close>

theorem orphan_stop_repeats:
  assumes "\<not> check_bindings_for_core (h_db h) node core"
    and "agent_config_version node (core_str core) h \<noteq> None" and "sent_to node h = Some q"
  shows "sent_to node (reconcile_core node core (reconcile_core node core h))
    = Some (q @ [CoreCmd (CoreStop (proto_core core)), CoreCmd (CoreStop (proto_core core))])"
proof -
  from reconcile_core_stops [OF assms] have
    "agent_config_version node (core_str core) (reconcile_core node core h) \<noteq> None"
    "sent_to node (reconcile_core node core h) = Some (q @ [CoreCmd (CoreStop (proto_core core))])"
    by auto
  from reconcile_core_stops [OF _ this] assms(1) show ?thesis by simp
qed

theorem orphan_stop_repeats_witness:
  "sent_to ''n9'' (reconcile_core ''n9'' Mihomo (reconcile_core ''n9'' Mihomo
     (register_agent ''n9'' 0 [(''mihomo'', ''v'')] demo_hub)))
   = Some [CoreCmd (CoreStop 4), CoreCmd (CoreStop 4)]"
proof -
  let ?h = "register_agent ''n9'' 0 [(''mihomo'', ''v'')] demo_hub"
  have "sent_to ''n9'' ?h = Some []"
    by (simp add: sent_to_def register_agent_def hm.look_ins) (simp add: demo_hub_def)
  moreover have "agent_config_version ''n9'' (core_str Mihomo) ?h \<noteq> None"
    by (simp add: register_version)
  moreover have "\<not> check_bindings_for_core (h_db ?h) ''n9'' Mihomo"
    by (simp add: check_bindings_for_core_def register_agent_def demo_hub_def active_bindings_def
        demo_db_def mk_binding_def)
  ultimately show ?thesis using orphan_stop_repeats [of ?h "''n9''" Mihomo "[]"] by simp
qed

end
