(* ===== verification/AgentService.thy ===== *)
theory AgentService
  imports Rounds
begin

text \<open>
  The hub's side of the agent stream (pp-hub, grpc/agent_service.rs with register.rs and logs.rs; the
  status reports and pending issuances of routes/certificates.rs). An agent registers with its node's
  token, then reports traffic, online users, metrics, logs and core states. Errors of a handler are
  only logged, so a handler is the change it makes to the hub; a new row's id is an argument where a
  later step reads it.
\<close>

section \<open>Messages\<close>

record register_request =
  rq_agent_id :: string
  rq_token :: string
  rq_hostname :: string
  rq_capabilities :: "string list"
  rq_domain :: string
  rq_core_config_versions :: "(string \<times> string) list"

record inbound_traffic =
  it_tag :: string
  it_upload_bytes :: int
  it_download_bytes :: int

record user_traffic =
  ut_client_id :: string
  ut_upload_bytes :: int
  ut_download_bytes :: int

record online_user =
  ou_client_id :: string
  ou_ip_address :: string
  ou_inbound_tag :: string

record core_status =
  cs_core_type :: string
  cs_version :: string
  cs_running :: bool
  cs_uptime_sec :: int
  cs_active_inbounds :: "string list"
  cs_last_error :: string

record metrics_report =
  mr_timestamp :: int
  mr_cpu_percent :: fl
  mr_mem_used :: nat
  mr_mem_total :: nat
  mr_disk_used :: nat
  mr_disk_total :: nat
  mr_net :: "(nat \<times> nat) list"
  mr_load_avg_1 :: fl
  mr_load_avg_5 :: fl
  mr_load_avg_15 :: fl

record log_entry =
  le_timestamp :: int
  le_level :: string
  le_target :: string
  le_message :: string
  le_fields :: "(string \<times> string) list"

record cert_status =
  ce_cert_id :: string
  ce_status :: string
  ce_expires_at :: int
  ce_error :: string

datatype agent_message =
    Register register_request
  | Heartbeat int
  | Traffic "inbound_traffic list" "user_traffic list"
  | Metrics metrics_report
  | Logs "log_entry list"
  | OnlineUsers int "online_user list"
  | CoreStatus core_status
  | CertStatus cert_status
  | CoreBinaries binary_list
  | NoPayload

section \<open>Certificates\<close>

definition CERT_STATUS_PENDING :: string where "CERT_STATUS_PENDING = ''pending''"
definition CERT_STATUS_ACTIVE :: string where "CERT_STATUS_ACTIVE = ''active''"

definition push_issue_request :: "uuid \<Rightarrow> uuid \<Rightarrow> string \<Rightarrow> string \<Rightarrow> hub \<Rightarrow> string + hub" where
  "push_issue_request node cert_id domain challenge h =
     send_to_agent node (CertIssue cert_id domain challenge) h"

definition dispatch_issuance :: "certificate \<Rightarrow> hub \<Rightarrow> hub" where
  "dispatch_issuance c h =
     (case push_issue_request (ct_node_id c) (ct_id c) (ct_domain c) (ct_challenge_type c) h of
        Inl e \<Rightarrow> h
      | Inr h' \<Rightarrow> h')"

definition dispatch_pending_for_node :: "uuid \<Rightarrow> hub \<Rightarrow> hub" where
  "dispatch_pending_for_node node h =
     fold dispatch_issuance
       (filter (\<lambda>c. ct_node_id c = node \<and> ct_status c = CERT_STATUS_PENDING) (db_certificates (h_db h))) h"

definition upd_db :: "(db \<Rightarrow> db) \<Rightarrow> hub \<Rightarrow> hub" where
  "upd_db f h = h\<lparr>h_db := f (h_db h)\<rparr>"

definition apply_cert_status :: "crates \<Rightarrow> calendar \<Rightarrow> tstamp \<Rightarrow> cert_status \<Rightarrow> hub \<Rightarrow> hub" where
  "apply_cert_status x cal now r h =
     (case x_parse_uuid x (ce_cert_id r) of
        None \<Rightarrow> h
      | Some i \<Rightarrow>
          (case tbl_find ct_id i (db_certificates (h_db h)) of
             None \<Rightarrow> h
           | Some cert \<Rightarrow>
               upd_db (\<lambda>d. d\<lparr>db_certificates := tbl_update ct_id i (\<lambda>c.
                 let c = c\<lparr>ct_status := ce_status r, ct_updated_at := now\<rparr>
                 in if ce_status r = CERT_STATUS_ACTIVE then
                      c\<lparr>ct_expires_at := (if ce_expires_at r > 0
                                              then cal_from_timestamp cal (ce_expires_at r) else None),
                        ct_last_issued_at := Some now, ct_last_error := None\<rparr>
                    else
                      c\<lparr>ct_last_error := (if ce_error r = [] then None else Some (ce_error r))\<rparr>)
                 (db_certificates d)\<rparr>) h))"

section \<open>Registration\<close>

text \<open>
  The status a refused registration answers with: an agent id that is no UUID (invalid argument), no
  such node (not found), a node without a token (failed precondition), a wrong token
  (unauthenticated), or a response that cannot be sent (internal).
\<close>

datatype register_error =
  InvalidAgentId | NodeNotRegistered | TokenNotSet | InvalidToken | ResponseNotSent

definition is_loopback_addr :: "string \<Rightarrow> bool" where
  "is_loopback_addr addr = (case parse_ip addr of Some ip \<Rightarrow> is_loopback ip | None \<Rightarrow> False)"

definition verify_secret :: "crates \<Rightarrow> string \<Rightarrow> string \<Rightarrow> bool option" where
  "verify_secret x secret hash = x_argon2_verify x secret hash"

definition update_node :: "uuid \<Rightarrow> (node \<Rightarrow> node) \<Rightarrow> hub \<Rightarrow> hub" where
  "update_node i f = upd_db (\<lambda>d. d\<lparr>db_nodes := tbl_update n_id i f (db_nodes d)\<rparr>)"

definition send_chan :: "nat \<Rightarrow> hub_message \<Rightarrow> hub \<Rightarrow> hub option" where
  "send_chan k m h = map_option (\<lambda>q. h\<lparr>h_chans := (h_chans h)(k \<mapsto> q @ [m])\<rparr>) (h_chans h k)"

definition register_node :: "tstamp \<Rightarrow> register_request \<Rightarrow> string option \<Rightarrow> node \<Rightarrow> node" where
  "register_node now req addr n =
     n\<lparr>n_status := ''online'', n_hostname := rq_hostname req,
       n_cores_available := jstrs (rq_capabilities req),
       n_address := (case addr of
                       Some a \<Rightarrow> if \<not> is_loopback_addr a then a else n_address n
                     | None \<Rightarrow> n_address n),
       n_domain := (if rq_domain req \<noteq> [] then Some (rq_domain req) else n_domain n),
       n_last_seen_at := Some now, n_updated_at := now\<rparr>"

definition handle_register ::
    "crates \<Rightarrow> tstamp \<Rightarrow> nat \<Rightarrow> string option \<Rightarrow> register_request \<Rightarrow> hub \<Rightarrow> (register_error + uuid) \<times> hub" where
  "handle_register x now sender addr req h =
     (case x_parse_uuid x (rq_agent_id req) of
        None \<Rightarrow> (Inl InvalidAgentId, h)
      | Some agent \<Rightarrow>
          (case tbl_find n_id agent (db_nodes (h_db h)) of
             None \<Rightarrow> (Inl NodeNotRegistered, h)
           | Some node \<Rightarrow>
               if n_token_hash node = [] then (Inl TokenNotSet, h)
               else if \<not> unwrap_or (verify_secret x (rq_token req) (n_token_hash node)) False
                    then (Inl InvalidToken, h)
               else
                 (let h = update_node agent (register_node now req addr) h;
                      h = register_agent agent sender (rq_core_config_versions req) h;
                      h = dispatch_pending_for_node agent h
                  in case send_chan sender (RegisterResp True ''registered'' 30 agent) h of
                       Some h \<Rightarrow> (Inr agent, h)
                     | None \<Rightarrow> (Inl ResponseNotSent, h))))"

section \<open>Heartbeats, metrics, logs and core states\<close>

definition handle_heartbeat :: "tstamp \<Rightarrow> uuid \<Rightarrow> hub \<Rightarrow> hub" where
  "handle_heartbeat now agent = update_node agent (\<lambda>n. n\<lparr>n_last_seen_at := Some now\<rparr>)"

text \<open>\<open>u64 as i64\<close> keeps the bits; a sum of \<open>i64\<close> wraps.\<close>

definition handle_metrics :: "calendar \<Rightarrow> tstamp \<Rightarrow> uuid \<Rightarrow> metrics_report \<Rightarrow> hub \<Rightarrow> hub" where
  "handle_metrics cal now agent m = upd_db (\<lambda>d. d\<lparr>db_host_metrics := tbl_insert
     \<lparr>hm_node_id = agent, hm_timestamp = unwrap_or (cal_from_timestamp cal (mr_timestamp m)) now,
      hm_cpu_percent = mr_cpu_percent m,
      hm_mem_used = wrap64 (int (mr_mem_used m)), hm_mem_total = wrap64 (int (mr_mem_total m)),
      hm_disk_used = wrap64 (int (mr_disk_used m)), hm_disk_total = wrap64 (int (mr_disk_total m)),
      hm_net_rx = fold (\<lambda>n acc. wrap64 (acc + wrap64 (int (fst n)))) (mr_net m) 0,
      hm_net_tx = fold (\<lambda>n acc. wrap64 (acc + wrap64 (int (snd n)))) (mr_net m) 0,
      hm_load_avg1 = mr_load_avg_1 m, hm_load_avg5 = mr_load_avg_5 m,
      hm_load_avg15 = mr_load_avg_15 m\<rparr> (db_host_metrics d)\<rparr>)"

definition add_agent_log :: "agent_log \<Rightarrow> hub \<Rightarrow> hub" where
  "add_agent_log r = upd_db (\<lambda>d. d\<lparr>db_agent_logs := tbl_insert r (db_agent_logs d)\<rparr>)"

definition handle_logs :: "crates \<Rightarrow> calendar \<Rightarrow> tstamp \<Rightarrow> uuid \<Rightarrow> log_entry list \<Rightarrow> hub \<Rightarrow> hub" where
  "handle_logs x cal now agent entries =
     fold (\<lambda>e. add_agent_log
       \<lparr>al_node_id = agent, al_level = ascii_lower (le_level e),
        al_target = sanitize_log_field x ''target'' (le_target e),
        al_message = sanitize_log_text x (le_message e),
        al_fields = Some (jobj (map (\<lambda>(k, v). (k, JStr (sanitize_log_field x k v)))
                                  (take 32 (le_fields e)))),
        al_created_at = unwrap_or (cal_from_timestamp cal (le_timestamp e)) now\<rparr>) (take 1000 entries)"

definition core_status_message :: "core_status \<Rightarrow> string" where
  "core_status_message s =
     ''core '' @ cs_core_type s @ '' v'' @ cs_version s @
     (if cs_running s then '' running, uptime '' @ int_str (cs_uptime_sec s) @ ''s''
      else if cs_last_error s = [] then '' not running (no error captured)''
      else '' stopped, last error: '' @ cs_last_error s)"

definition handle_core_status :: "crates \<Rightarrow> tstamp \<Rightarrow> uuid \<Rightarrow> core_status \<Rightarrow> hub \<Rightarrow> hub" where
  "handle_core_status x now agent s = add_agent_log
     \<lparr>al_node_id = agent,
      al_level = (if cs_running s then ''info'' else if cs_last_error s = [] then ''warning'' else ''error''),
      al_target = ''core-'' @ cs_core_type s,
      al_message = sanitize_log_text x (core_status_message s),
      al_fields = Some (jobj [(''core_type'', JStr (cs_core_type s)), (''version'', JStr (cs_version s)),
        (''running'', JBool (cs_running s)), (''uptime_sec'', jint (cs_uptime_sec s)),
        (''active_inbounds'', jstrs (cs_active_inbounds s)), (''last_error'', JStr (cs_last_error s))]),
      al_created_at = now\<rparr>"

section \<open>Traffic\<close>

text \<open>The reported names that resolve: a UUID to itself, an e-mail to its (last) client.\<close>

definition resolve_client_ids :: "crates \<Rightarrow> db \<Rightarrow> string list \<Rightarrow> (string \<times> uuid) list" where
  "resolve_client_ids x d raws =
     (let ids = fold (\<lambda>raw m. case x_parse_uuid x raw of
                          Some i \<Rightarrow> AList.update raw i m | None \<Rightarrow> m) raws [];
          emails = filter (\<lambda>raw. x_parse_uuid x raw = None) raws
      in fold (\<lambda>c m. case c_email c of
                 Some e \<Rightarrow> if e \<in> set emails then AList.update e (c_id c) m else m
               | None \<Rightarrow> m) (db_clients d) ids)"

definition hour_of :: "tstamp \<Rightarrow> tstamp" where
  "hour_of now = now - now mod (3600 * ns_per_sec)"

definition inbound_tag_map :: "db \<Rightarrow> uuid \<Rightarrow> (string \<times> uuid) list" where
  "inbound_tag_map d agent =
     (let ids = map nb_protocol_config_id (filter (\<lambda>b. nb_node_id b = agent) (db_node_bindings d))
      in fold (\<lambda>c. AList.update (inbound_tag c) (pc_id c))
           (filter (\<lambda>c. pc_id c \<in> set ids) (db_protocol_configs d)) [])"

text \<open>\<open>(bytes as f32 * rate) as i64\<close>\<close>

definition counted :: "fl \<Rightarrow> int \<Rightarrow> int" where
  "counted rate bytes = fl_to_i64 (fl_mul 24 (fl_of_int 24 bytes) rate)"

definition node_rate :: "db \<Rightarrow> uuid \<Rightarrow> fl" where
  "node_rate d agent =
     unwrap_or (map_option n_usage_coefficient (tbl_find n_id agent (db_nodes d))) (Fl 1 0)"

definition inbound_step :: "tstamp \<Rightarrow> uuid \<Rightarrow> (string \<times> uuid) list \<Rightarrow> inbound_traffic \<Rightarrow> db \<Rightarrow> db" where
  "inbound_step hour agent tags t d =
     (let pc = map_of tags (it_tag t) in
      d\<lparr>db_traffic := tbl_upsert
          (\<lambda>r. tr_node_id r = Some agent \<and> tr_client_id r = None \<and> tr_hour_bucket r = hour
               \<and> tr_protocol_config_id r = pc)
          (\<lambda>r. r\<lparr>tr_upload_bytes := wrap64 (tr_upload_bytes r + it_upload_bytes t),
                 tr_download_bytes := wrap64 (tr_download_bytes r + it_download_bytes t)\<rparr>)
          \<lparr>tr_node_id = Some agent, tr_protocol_config_id = pc, tr_client_id = None,
           tr_hour_bucket = hour, tr_upload_bytes = it_upload_bytes t,
           tr_download_bytes = it_download_bytes t\<rparr> (db_traffic d)\<rparr>)"

text \<open>One user of a report; \<open>old\<close> is the client table as it was when the report arrived.\<close>

definition user_step ::
    "tstamp \<Rightarrow> uuid \<Rightarrow> fl \<Rightarrow> (string \<times> uuid) list \<Rightarrow> client list \<Rightarrow> user_traffic \<Rightarrow> db \<Rightarrow> db" where
  "user_step hour agent rate resolved old u d =
     (case map_of resolved (ut_client_id u) of
        None \<Rightarrow> d
      | Some client \<Rightarrow>
          (let up = counted rate (ut_upload_bytes u); down = counted rate (ut_download_bytes u);
               d = d\<lparr>db_usage := tbl_upsert
                 (\<lambda>r. ur_node_id r = agent \<and> ur_client_id r = client \<and> ur_hour_bucket r = hour)
                 (\<lambda>r. r\<lparr>ur_upload_bytes := wrap64 (ur_upload_bytes r + up),
                        ur_download_bytes := wrap64 (ur_download_bytes r + down)\<rparr>)
                 \<lparr>ur_node_id = agent, ur_client_id = client, ur_hour_bucket = hour,
                  ur_upload_bytes = up, ur_download_bytes = down, ur_rate = rate\<rparr> (db_usage d)\<rparr>
           in case tbl_find c_id client old of
                None \<Rightarrow> d
              | Some c \<Rightarrow>
                  if c_status c = ''on_hold'' then d
                  else update_client client (\<lambda>r. r\<lparr>c_traffic_used_bytes :=
                         wrap64 (c_traffic_used_bytes c + up + down)\<rparr>) d))"

definition handle_traffic ::
    "crates \<Rightarrow> tstamp \<Rightarrow> uuid \<Rightarrow> inbound_traffic list \<Rightarrow> user_traffic list \<Rightarrow> db \<Rightarrow> db" where
  "handle_traffic x now agent inbounds users d =
     (let hour = hour_of now; rate = node_rate d agent;
          d = (if inbounds = [] then d
               else fold (inbound_step hour agent (inbound_tag_map d agent)) inbounds d);
          resolved = resolve_client_ids x d (map ut_client_id users)
      in fold (user_step hour agent rate resolved (db_clients d)) users d)"

section \<open>Online users\<close>

text \<open>
  The state of the loop over a report: the database, the (client, address) pairs seen, the ids of the
  sessions kept, the events for the webhooks, and how many new rows there were.
\<close>

record online =
  on_db :: db
  on_seen :: "(uuid \<times> string) list"
  on_kept :: "uuid list"
  on_hooks :: "(string \<times> json) list"
  on_new :: nat

definition activate_on_hold :: "calendar \<Rightarrow> tstamp \<Rightarrow> client \<Rightarrow> online \<Rightarrow> online" where
  "activate_on_hold cal now c s =
     (if c_status c = ''on_hold'' then
        (let expire = map_option (\<lambda>secs. now + secs * ns_per_sec) (c_on_hold_expire_duration_secs c)
         in s\<lparr>on_db := update_client (c_id c) (\<lambda>r. r\<lparr>c_status := ''active'', c_expiry_date := expire,
                          c_updated_at := now\<rparr>) (on_db s),
              on_hooks := on_hooks s @ [(''client_activated'',
                jobj [(''client_id'', JStr (c_id c)), (''activated_at'', JStr (cal_rfc3339 cal now)),
                      (''expire_date'', opt_json (map_option (cal_rfc3339 cal) expire))])]\<rparr>)
      else s)"

definition online_step ::
    "calendar \<Rightarrow> tstamp \<Rightarrow> (nat \<Rightarrow> uuid) \<Rightarrow> uuid \<Rightarrow> int \<Rightarrow> (string \<times> uuid) list \<Rightarrow> client list \<Rightarrow>
     ((uuid \<times> string) \<times> online_session) list \<Rightarrow> online_user \<Rightarrow> online \<Rightarrow> online" where
  "online_step cal now fresh agent ts resolved old sessions u s =
     (case map_of resolved (ou_client_id u) of
        None \<Rightarrow> s
      | Some client \<Rightarrow>
          (let key = (client, ou_ip_address u) in
           if key \<in> set (on_seen s) then s
           else
             (let s = s\<lparr>on_seen := key # on_seen s\<rparr>;
                  s = (case tbl_find c_id client old of
                         Some c \<Rightarrow> activate_on_hold cal now c s | None \<Rightarrow> s)
              in case map_of sessions key of
                   Some session \<Rightarrow>
                     s\<lparr>on_kept := os_id session # on_kept s,
                       on_db := (on_db s)\<lparr>db_sessions := tbl_update os_id (os_id session)
                         (\<lambda>r. r\<lparr>os_last_active_at := now\<rparr>) (db_sessions (on_db s))\<rparr>\<rparr>
                 | None \<Rightarrow>
                     s\<lparr>on_kept := fresh (on_new s) # on_kept s, on_new := on_new s + 1,
                       on_db := (on_db s)\<lparr>db_sessions := tbl_insert
                         \<lparr>os_id = fresh (on_new s), os_client_id = client, os_node_id = agent,
                          os_ip_address = ou_ip_address u,
                          os_inbound_tag = (if ou_inbound_tag u = [] then None else Some (ou_inbound_tag u)),
                          os_connected_at = unwrap_or (cal_from_timestamp cal ts) now,
                          os_last_active_at = now\<rparr> (db_sessions (on_db s))\<rparr>\<rparr>)))"

definition handle_online_users ::
    "crates \<Rightarrow> calendar \<Rightarrow> tstamp \<Rightarrow> (nat \<Rightarrow> uuid) \<Rightarrow> uuid \<Rightarrow> int \<Rightarrow> online_user list \<Rightarrow> db
      \<Rightarrow> db \<times> (string \<times> json) list" where
  "handle_online_users x cal now fresh agent ts users d =
     (let sessions = rev (map (\<lambda>s. ((os_client_id s, os_ip_address s), s))
                         (filter (\<lambda>s. os_node_id s = agent) (db_sessions d)));
          resolved = resolve_client_ids x d (map ou_client_id users);
          s = fold (online_step cal now fresh agent ts resolved (db_clients d) sessions) users
                \<lparr>on_db = d, on_seen = [], on_kept = [], on_hooks = [], on_new = 0\<rparr>;
          d' = on_db s
      in (d'\<lparr>db_sessions := tbl_delete (\<lambda>r. os_node_id r = agent \<and> os_id r \<notin> set (on_kept s))
              (db_sessions d')\<rparr>, on_hooks s))"

section \<open>The stream\<close>

definition update_node_offline :: "tstamp \<Rightarrow> uuid \<Rightarrow> hub \<Rightarrow> hub" where
  "update_node_offline now agent =
     update_node agent (\<lambda>n. n\<lparr>n_status := ''offline'', n_updated_at := now\<rparr>)"

definition clear_node_online_sessions :: "uuid \<Rightarrow> hub \<Rightarrow> hub" where
  "clear_node_online_sessions agent = upd_db (\<lambda>d. d\<lparr>db_sessions :=
     tbl_delete (\<lambda>r. os_node_id r = agent) (db_sessions d)\<rparr>)"

definition answer_waiter :: "uuid \<Rightarrow> binary_list \<Rightarrow> hub \<Rightarrow> hub" where
  "answer_waiter agent bl h =
     (case map_of (h_waiters h) agent of
        None \<Rightarrow> h
      | Some slot \<Rightarrow> h\<lparr>h_waiters := AList.delete agent (h_waiters h),
                       h_replies := (slot, bl) # h_replies h\<rparr>)"

text \<open>
  One message of a stream: \<open>reg\<close> is the id the stream registered with, \<open>sender\<close> its channel. The
  result is the new id, the hub, and the events for the webhooks.
\<close>

definition handle_agent_message ::
    "crates \<Rightarrow> calendar \<Rightarrow> tstamp \<Rightarrow> (nat \<Rightarrow> uuid) \<Rightarrow> nat \<Rightarrow> string option \<Rightarrow> agent_message \<Rightarrow>
     uuid option \<Rightarrow> hub \<Rightarrow> uuid option \<times> hub \<times> (string \<times> json) list" where
  "handle_agent_message x cal now fresh sender addr m reg h =
     (case m of
        Register req \<Rightarrow>
          (case handle_register x now sender addr req h of
             (Inr agent, h') \<Rightarrow> (Some agent, h', [])
           | (Inl e, h') \<Rightarrow> (reg, h', []))
      | CertStatus r \<Rightarrow> (reg, apply_cert_status x cal now r h, [])
      | NoPayload \<Rightarrow> (reg, h, [])
      | _ \<Rightarrow>
          (case reg of
             None \<Rightarrow> (reg, h, [])
           | Some agent \<Rightarrow>
               (case m of
                  Heartbeat t \<Rightarrow> (reg, handle_heartbeat now agent h, [])
                | Traffic ins users \<Rightarrow> (reg, upd_db (handle_traffic x now agent ins users) h, [])
                | Metrics r \<Rightarrow> (reg, handle_metrics cal now agent r h, [])
                | Logs es \<Rightarrow> (reg, handle_logs x cal now agent es h, [])
                | OnlineUsers ts us \<Rightarrow>
                    (case handle_online_users x cal now fresh agent ts us (h_db h) of
                       (d, hooks) \<Rightarrow> (reg, upd_db (\<lambda>_. d) h, hooks))
                | CoreStatus s \<Rightarrow> (reg, handle_core_status x now agent s h, [])
                | CoreBinaries bl \<Rightarrow> (reg, answer_waiter agent bl h, [])
                | _ \<Rightarrow> (reg, h, []))))"

text \<open>What the stream's task does when the stream ends.\<close>

definition stream_cleanup :: "tstamp \<Rightarrow> uuid option \<Rightarrow> hub \<Rightarrow> hub" where
  "stream_cleanup now reg h =
     (case reg of
        None \<Rightarrow> h
      | Some agent \<Rightarrow>
          clear_node_online_sessions agent (update_node_offline now agent (unregister_agent agent h)))"

text \<open>An open stream: its channel is its number.\<close>

record stream =
  st_addr :: "string option"
  st_registered :: "uuid option"

record sys =
  sy_hub :: hub
  sy_streams :: "nat \<Rightarrow> stream option"
  sy_hooks :: "(string \<times> json) list"

text \<open>
  A step of the service: a stream opens with a new channel, an open stream delivers a message, or
  an open stream ends, its channel's receiver with it.
\<close>

inductive sys_step :: "crates \<Rightarrow> calendar \<Rightarrow> sys \<Rightarrow> sys \<Rightarrow> bool" for x cal where
  Connect: "sy_streams s k = None \<Longrightarrow> h_chans (sy_hub s) k = None \<Longrightarrow>
    sys_step x cal s (s\<lparr>sy_streams := (sy_streams s)(k \<mapsto> \<lparr>st_addr = addr, st_registered = None\<rparr>),
      sy_hub := (sy_hub s)\<lparr>h_chans := (h_chans (sy_hub s))(k \<mapsto> [])\<rparr>\<rparr>)"
| Message: "sy_streams s k = Some st \<Longrightarrow>
    handle_agent_message x cal now fresh k (st_addr st) m (st_registered st) (sy_hub s) = (reg, h, hooks) \<Longrightarrow>
    sys_step x cal s (s\<lparr>sy_streams := (sy_streams s)(k \<mapsto> st\<lparr>st_registered := reg\<rparr>),
      sy_hub := h, sy_hooks := sy_hooks s @ hooks\<rparr>)"
| Disconnect: "sy_streams s k = Some st \<Longrightarrow>
    sys_step x cal s (s\<lparr>sy_streams := (sy_streams s)(k := None),
      sy_hub := (stream_cleanup now (st_registered st) (sy_hub s))
                  \<lparr>h_chans := (h_chans (sy_hub s))(k := None)\<rparr>\<rparr>)"

inductive_cases sys_step_cases: "sys_step x cal s s'"

inductive reachable :: "crates \<Rightarrow> calendar \<Rightarrow> sys \<Rightarrow> sys \<Rightarrow> bool" for x cal s0 where
  reach_init: "reachable x cal s0 s0"
| reach_step: "reachable x cal s0 s \<Longrightarrow> sys_step x cal s s' \<Longrightarrow> reachable x cal s0 s'"

end
