(* ===== verification/AgentStream.thy ===== *)
theory AgentStream
  imports AgentService
begin

text \<open>
  Properties of the agent stream: who gets registered, what a stream without registration can change,
  what a stale stream's end does, and the invariant of the reachable states.
\<close>

section \<open>What the handlers leave alone\<close>

text \<open>The part of the node table that decides a registration.\<close>

definition node_tokens :: "db \<Rightarrow> (uuid \<times> string) list" where
  "node_tokens d = map (\<lambda>n. (n_id n, n_token_hash n)) (db_nodes d)"

lemma upd_db_simps [simp]:
  "h_agents (upd_db f h) = h_agents h" "h_chans (upd_db f h) = h_chans h"
  "h_db (upd_db f h) = f (h_db h)"
  by (simp_all add: upd_db_def)

lemma update_node_simps [simp]:
  "h_agents (update_node i f h) = h_agents h" "h_chans (update_node i f h) = h_chans h"
  by (simp_all add: update_node_def)

lemma update_node_tokens:
  "(\<And>n. n_id (f n) = n_id n \<and> n_token_hash (f n) = n_token_hash n) \<Longrightarrow>
   node_tokens (h_db (update_node i f h)) = node_tokens (h_db h)"
  by (simp add: update_node_def node_tokens_def tbl_update_def)

lemma update_client_nodes [simp]: "db_nodes (update_client i f d) = db_nodes d"
  by (simp add: update_client_def)

lemma inbound_step_nodes [simp]: "db_nodes (inbound_step hr a tags t d) = db_nodes d"
  by (simp add: inbound_step_def Let_def)

lemma user_step_nodes [simp]: "db_nodes (user_step hr a r res old u d) = db_nodes d"
  by (simp add: user_step_def Let_def split: option.split)

lemma fold_frame: "(\<And>y s. f (g y s) = f s) \<Longrightarrow> f (fold g ys s) = f s"
  by (induction ys arbitrary: s) simp_all

lemma handle_traffic_nodes [simp]: "db_nodes (handle_traffic x now a ins us d) = db_nodes d"
  by (simp add: handle_traffic_def Let_def fold_frame [of db_nodes])

lemma online_step_nodes: "db_nodes (on_db (online_step cal now fr a ts res old ses u s)) = db_nodes (on_db s)"
  by (simp add: online_step_def activate_on_hold_def Let_def split: option.split)

lemma handle_online_nodes [simp]:
  "db_nodes (fst (handle_online_users x cal now fr a ts us d)) = db_nodes d"
  by (simp add: handle_online_users_def Let_def fold_frame [of "\<lambda>s. db_nodes (on_db s)"] online_step_nodes)

lemma handle_online_nodes':
  "handle_online_users x cal now fr a ts us d = (d', hooks) \<Longrightarrow> db_nodes d' = db_nodes d"
  using handle_online_nodes [of x cal now fr a ts us d] by simp

lemma add_log_nodes [simp]:
  "db_nodes (h_db (add_agent_log r h)) = db_nodes (h_db h)" "h_agents (add_agent_log r h) = h_agents h"
  "h_chans (add_agent_log r h) = h_chans h"
  by (simp_all add: add_agent_log_def)

lemma handle_logs_frame [simp]:
  "db_nodes (h_db (handle_logs x cal now a es h)) = db_nodes (h_db h)"
  "h_agents (handle_logs x cal now a es h) = h_agents h"
  "h_chans (handle_logs x cal now a es h) = h_chans h"
  by (simp_all add: handle_logs_def fold_frame [of "\<lambda>h. db_nodes (h_db h)"] fold_frame [of h_agents]
      fold_frame [of h_chans])

lemma cert_status_frame [simp]:
  "db_nodes (h_db (apply_cert_status x cal now r h)) = db_nodes (h_db h)"
  "h_agents (apply_cert_status x cal now r h) = h_agents h"
  by (simp_all add: apply_cert_status_def split: option.split)

lemma dispatch_frame [simp]:
  "h_db (dispatch_pending_for_node a h) = h_db h" "h_agents (dispatch_pending_for_node a h) = h_agents h"
proof -
  have "h_db (dispatch_issuance c h) = h_db h \<and> h_agents (dispatch_issuance c h) = h_agents h" for c h
    by (auto simp: dispatch_issuance_def push_issue_request_def dest: send_frame split: sum.split)
  then show "h_db (dispatch_pending_for_node a h) = h_db h"
    "h_agents (dispatch_pending_for_node a h) = h_agents h"
    by (simp_all add: dispatch_pending_for_node_def fold_frame [of h_db] fold_frame [of h_agents])
qed

lemma answer_waiter_frame [simp]:
  "h_db (answer_waiter a bl h) = h_db h" "h_agents (answer_waiter a bl h) = h_agents h"
  by (simp_all add: answer_waiter_def split: option.split)

section \<open>Registration\<close>

lemma register_node_simps [simp]:
  "n_id (register_node now req addr n) = n_id n"
  "n_token_hash (register_node now req addr n) = n_token_hash n"
  "n_status (register_node now req addr n) = ''online''"
  by (simp_all add: register_node_def)

text \<open>A registration that reaches the hub, with what it changed before the response is sent.\<close>

definition registered_hub :: "tstamp \<Rightarrow> nat \<Rightarrow> string option \<Rightarrow> register_request \<Rightarrow> uuid \<Rightarrow> hub \<Rightarrow> hub" where
  "registered_hub now sender addr req agent h =
     dispatch_pending_for_node agent (register_agent agent sender (rq_core_config_versions req)
       (update_node agent (register_node now req addr) h))"

definition token_ok :: "crates \<Rightarrow> register_request \<Rightarrow> uuid \<Rightarrow> db \<Rightarrow> bool" where
  "token_ok x req agent d \<longleftrightarrow>
     (\<exists>n. tbl_find n_id agent (db_nodes d) = Some n \<and> n_token_hash n \<noteq> []
          \<and> x_argon2_verify x (rq_token req) (n_token_hash n) = Some True)"

lemma register_cases:
  obtains (refused) e where "handle_register x now sender addr req h = (Inl e, h)"
      "\<And>a. x_parse_uuid x (rq_agent_id req) = Some a \<Longrightarrow> \<not> token_ok x req a (h_db h)"
  | (accepted) a h' r where "x_parse_uuid x (rq_agent_id req) = Some a" "token_ok x req a (h_db h)"
      "handle_register x now sender addr req h = (r, h')" "r = Inr a \<or> r = Inl ResponseNotSent"
      "h_db h' = h_db (registered_hub now sender addr req a h)"
      "h_agents h' = h_agents (registered_hub now sender addr req a h)"
proof (cases "x_parse_uuid x (rq_agent_id req)")
  case None
  then show ?thesis using refused by (simp add: handle_register_def)
next
  case (Some a)
  show ?thesis
  proof (cases "token_ok x req a (h_db h)")
    case False
    with Some have "\<exists>e. handle_register x now sender addr req h = (Inl e, h)"
      by (auto simp: handle_register_def token_ok_def verify_secret_def unwrap_or_def
          split: option.split)
    with Some False show ?thesis using refused by auto
  next
    case True
    let ?h = "registered_hub now sender addr req a h"
    from True Some have e: "handle_register x now sender addr req h
        = (case send_chan sender (RegisterResp True ''registered'' 30 a) ?h of
             Some h \<Rightarrow> (Inr a, h) | None \<Rightarrow> (Inl ResponseNotSent, ?h))"
      by (auto simp: handle_register_def token_ok_def verify_secret_def registered_hub_def Let_def
          cong: option.case_cong)
    show ?thesis
    proof (cases "send_chan sender (RegisterResp True ''registered'' 30 a) ?h")
      case None
      with e have "handle_register x now sender addr req h = (Inl ResponseNotSent, ?h)" by simp
      from accepted [OF Some True this] show ?thesis by simp
    next
      case (Some h1)
      with e have "handle_register x now sender addr req h = (Inr a, h1)" by simp
      moreover from Some have "h_db h1 = h_db ?h" "h_agents h1 = h_agents ?h"
        by (auto simp: send_chan_def)
      ultimately show ?thesis using accepted [OF \<open>x_parse_uuid x (rq_agent_id req) = Some a\<close> True] by simp
    qed
  qed
qed

text \<open>
  A registration is accepted, and changes the hub, exactly when the agent id is that of a node
  with a token and the token given verifies against the node's hash; then that node is connected on
  the stream's channel with the versions it reported, is online, and keeps its token.
\<close>

theorem registration_needs_token:
  assumes "handle_register x now sender addr req h = (r, h')"
  shows "((\<exists>a. x_parse_uuid x (rq_agent_id req) = Some a \<and> token_ok x req a (h_db h)) \<or> h' = h)
    \<and> (\<forall>a. r = Inr a \<longrightarrow> x_parse_uuid x (rq_agent_id req) = Some a \<and> token_ok x req a (h_db h)
         \<and> map_of (h_agents h') a = Some \<lparr>ac_agent_id = a, ac_sender = sender,
                                          ac_versions = rq_core_config_versions req\<rparr>
         \<and> map_option n_status (tbl_find n_id a (db_nodes (h_db h'))) = Some ''online''
         \<and> node_tokens (h_db h') = node_tokens (h_db h))"
proof (cases rule: register_cases [of x now sender addr req h])
  case (refused e)
  with assms show ?thesis by auto
next
  case (accepted a h'' r')
  have tok: "node_tokens (h_db (registered_hub now sender addr req a h)) = node_tokens (h_db h)"
    by (simp add: registered_hub_def register_agent_def update_node_tokens)
  have on: "map_option n_status (tbl_find n_id a (db_nodes (h_db (registered_hub now sender addr req a h))))
      = Some ''online''"
    using accepted(2)
    by (auto simp: token_ok_def registered_hub_def register_agent_def update_node_def tbl_find_update)
  have conn: "map_of (h_agents (registered_hub now sender addr req a h)) a
      = Some \<lparr>ac_agent_id = a, ac_sender = sender, ac_versions = rq_core_config_versions req\<rparr>"
    by (simp add: registered_hub_def register_agent_def hm.look_ins)
  from accepted assms tok on conn show ?thesis by auto
qed

definition demo_request :: "string \<Rightarrow> register_request" where
  "demo_request tok = \<lparr>rq_agent_id = ''n1'', rq_token = tok, rq_hostname = ''host'',
     rq_capabilities = [''sing-box''], rq_domain = [], rq_core_config_versions = []\<rparr>"

text \<open>Node n1 with the token \<open>t\<close>, and one open channel.\<close>

definition token_hub :: hub where
  "token_hub = (with_db demo_hub (demo_db\<lparr>db_nodes := [(mk_node ''n1'')\<lparr>n_token_hash := ''t''\<rparr>]\<rparr>))
     \<lparr>h_agents := []\<rparr>"

lemma token_hub_ok: "token_ok demo_crates (demo_request tok) ''n1'' (h_db token_hub) \<longleftrightarrow> tok = ''t''"
  by (auto simp: token_ok_def token_hub_def with_db_def tbl_find_def mk_node_def demo_request_def
      demo_crates_def)

theorem registration_needs_token_witness:
  "snd (handle_register demo_crates 5 0 None (demo_request ''u'') token_hub) = token_hub
   \<and> (\<exists>h'. handle_register demo_crates 5 0 None (demo_request ''t'') token_hub = (Inr ''n1'', h')
        \<and> map_option ac_sender (map_of (h_agents h') ''n1'') = Some 0)"
proof -
  have id: "x_parse_uuid demo_crates (rq_agent_id (demo_request tok)) = Some ''n1''" for tok
    by (simp add: demo_crates_def demo_request_def)
  have u: "snd (handle_register demo_crates 5 0 None (demo_request ''u'') token_hub) = token_hub"
    using registration_needs_token [of demo_crates 5 0 None "demo_request ''u''" token_hub, OF surjective_pairing]
    by (auto simp: id token_hub_ok)
  have "h_chans token_hub 0 = Some []" by (simp add: token_hub_def with_db_def demo_hub_def)
  then have "h_chans (registered_hub 5 0 None (demo_request ''t'') ''n1'' token_hub) 0 \<noteq> None"
    by (simp add: registered_hub_def dispatch_pending_for_node_def register_agent_def update_node_def
        upd_db_def token_hub_def with_db_def demo_db_def empty_db_def)
  then have "\<exists>h'. handle_register demo_crates 5 0 None (demo_request ''t'') token_hub = (Inr ''n1'', h')"
    using token_hub_ok [of "''t''"] id [of "''t''"]
    by (auto simp: handle_register_def token_ok_def verify_secret_def registered_hub_def Let_def send_chan_def)
  then obtain h' where h': "handle_register demo_crates 5 0 None (demo_request ''t'') token_hub = (Inr ''n1'', h')"
    by blast
  from registration_needs_token [OF h'] u h' show ?thesis by simp
qed

section \<open>Streams that did not register\<close>

text \<open>
  A stream that has not registered changes nothing with any message but a registration and a
  certificate status.
\<close>

theorem unregistered_stream_harmless:
  assumes "\<And>req. m \<noteq> Register req" and "\<And>r. m \<noteq> CertStatus r"
  shows "handle_agent_message x cal now fresh sender addr m None h = (None, h, [])"
  using assms by (cases m) (auto simp: handle_agent_message_def)

theorem unregistered_stream_harmless_witness:
  "handle_agent_message demo_crates demo_cal 5 (\<lambda>_. []) 0 None
     (Traffic [] [\<lparr>ut_client_id = ''c1'', ut_upload_bytes = 9, ut_download_bytes = 9\<rparr>]) None token_hub
   = (None, token_hub, [])"
  by (rule unregistered_stream_harmless) simp_all

text \<open>
  A certificate's status is taken from any stream, one that never registered included: the report
  alone decides the status of the certificate it names.
\<close>

theorem cert_status_needs_no_registration:
  assumes "x_parse_uuid x (ce_cert_id r) = Some i" and "tbl_find ct_id i (db_certificates (h_db h)) = Some c"
  shows "\<exists>h'. handle_agent_message x cal now fresh sender addr (CertStatus r) None h = (None, h', [])
    \<and> map_option ct_status (tbl_find ct_id i (db_certificates (h_db h'))) = Some (ce_status r)"
  using assms
  by (auto simp: handle_agent_message_def apply_cert_status_def tbl_find_update Let_def)

definition cert_hub :: hub where
  "cert_hub = with_db token_hub (empty_db\<lparr>db_certificates := [\<lparr>ct_id = ''k'', ct_node_id = ''n1'',
     ct_domain = ''d'', ct_status = ''pending'', ct_challenge_type = ''http-01'', ct_expires_at = None,
     ct_last_issued_at = None, ct_last_error = None, ct_created_at = 0, ct_updated_at = 0\<rparr>]\<rparr>)"

theorem cert_status_needs_no_registration_witness:
  "\<exists>h'. handle_agent_message demo_crates demo_cal 5 (\<lambda>_. []) 3 None
       (CertStatus \<lparr>ce_cert_id = ''k'', ce_status = ''active'', ce_expires_at = 0, ce_error = []\<rparr>) None cert_hub
     = (None, h', [])
   \<and> map_option ct_status (tbl_find ct_id ''k'' (db_certificates (h_db h'))) = Some ''active''"
proof -
  let ?r = "\<lparr>ce_cert_id = ''k'', ce_status = ''active'', ce_expires_at = 0, ce_error = []\<rparr>"
  have "x_parse_uuid demo_crates (ce_cert_id ?r) = Some ''k''" by (simp add: demo_crates_def)
  moreover have "\<exists>c. tbl_find ct_id ''k'' (db_certificates (h_db cert_hub)) = Some c"
    by (simp add: cert_hub_def with_db_def tbl_find_def)
  ultimately show ?thesis
    using cert_status_needs_no_registration [of demo_crates ?r "''k''" cert_hub] by auto
qed

section \<open>The end of a stale stream\<close>

lemma cleanup_disconnects:
  "map_of (h_agents (stream_cleanup now (Some a) h)) a = None
   \<and> map_option n_status (tbl_find n_id a (db_nodes (h_db (stream_cleanup now (Some a) h))))
       = map_option (\<lambda>_. ''offline'') (tbl_find n_id a (db_nodes (h_db h)))"
proof -
  have "h_db (unregister_agent a h) = h_db h" by (simp add: unregister_agent_def)
  then show ?thesis
    using unregister_connected [of a h a]
    by (auto simp: stream_cleanup_def clear_node_online_sessions_def update_node_offline_def
        update_node_def tbl_find_update option.map_comp comp_def)
qed

text \<open>
  When an agent has reconnected, the end of its old stream disconnects the new one: the hub
  forgets the agent and marks its node offline, while the new stream stays open and registered, and
  a send to the agent fails.
\<close>

theorem stale_stream_end_drops_agent:
  assumes "sy_streams s old = Some st" and "st_registered st = Some a"
    and "sy_streams s new = Some st'" and "st_registered st' = Some a" and "old \<noteq> new"
    and "tbl_find n_id a (db_nodes (h_db (sy_hub s))) = Some n"
  shows "\<exists>s'. sys_step x cal s s' \<and> sy_streams s' new = Some st'
    \<and> map_of (h_agents (sy_hub s')) a = None
    \<and> map_option n_status (tbl_find n_id a (db_nodes (h_db (sy_hub s')))) = Some ''offline''
    \<and> \<not> is_ok (send_to_agent a m (sy_hub s'))"
proof -
  let ?s = "s\<lparr>sy_streams := (sy_streams s)(old := None),
    sy_hub := (stream_cleanup now (st_registered st) (sy_hub s))\<lparr>h_chans := (h_chans (sy_hub s))(old := None)\<rparr>\<rparr>"
  have "sys_step x cal s ?s" by (rule Disconnect [OF assms(1)])
  moreover have "map_of (h_agents (sy_hub ?s)) a = None"
    "map_option n_status (tbl_find n_id a (db_nodes (h_db (sy_hub ?s)))) = Some ''offline''"
    using cleanup_disconnects [of now a "sy_hub s"] assms(2,6) by simp_all
  moreover from this(1) have "\<not> is_ok (send_to_agent a m (sy_hub ?s))"
    by (simp add: send_to_agent_def)
  ultimately show ?thesis using assms(3,5) by (intro exI [of _ ?s]) simp
qed

definition demo_stream :: stream where
  "demo_stream = \<lparr>st_addr = None, st_registered = Some ''n1''\<rparr>"

theorem stale_stream_end_drops_agent_witness:
  "\<exists>s'. sys_step demo_crates demo_cal
       \<lparr>sy_hub = demo_hub, sy_streams = [0 \<mapsto> demo_stream, 1 \<mapsto> demo_stream], sy_hooks = []\<rparr> s'
     \<and> sy_streams s' 1 = Some demo_stream \<and> map_of (h_agents (sy_hub s')) ''n1'' = None"
proof -
  let ?s = "\<lparr>sy_hub = demo_hub, sy_streams = [0 \<mapsto> demo_stream, 1 \<mapsto> demo_stream], sy_hooks = []\<rparr>"
  have "tbl_find n_id ''n1'' (db_nodes (h_db (sy_hub ?s))) = Some (mk_node ''n1'')"
    by (simp add: demo_hub_def demo_db_def tbl_find_def mk_node_def)
  from stale_stream_end_drops_agent [OF _ _ _ _ _ this, of 0 demo_stream 1 demo_stream demo_crates
      demo_cal "CoreBinaryListReq"]
  show ?thesis by (auto simp: demo_stream_def)
qed

section \<open>The reachable states\<close>

definition provisioned :: "db \<Rightarrow> uuid \<Rightarrow> bool" where
  "provisioned d a \<longleftrightarrow> (\<exists>tok. (a, tok) \<in> set (node_tokens d) \<and> tok \<noteq> [])"

lemma token_ok_provisioned: "token_ok x req a d \<Longrightarrow> provisioned d a"
  unfolding token_ok_def provisioned_def node_tokens_def
  by (force dest: tbl_find_key)

lemma send_keeps_chans: "send_to_agent a m h = Inr h' \<Longrightarrow> h_chans h k \<noteq> None \<Longrightarrow> h_chans h' k \<noteq> None"
  by (auto simp: send_to_agent_def split: option.splits)

lemma dispatch_keeps_chans:
  "h_chans h k \<noteq> None \<Longrightarrow> h_chans (dispatch_pending_for_node a h) k \<noteq> None"
proof -
  have "h_chans h k \<noteq> None \<Longrightarrow> h_chans (dispatch_issuance c h) k \<noteq> None" for c h
    using send_keeps_chans
    by (auto simp: dispatch_issuance_def push_issue_request_def split: sum.split)
  then have "h_chans h k \<noteq> None \<Longrightarrow> h_chans (fold dispatch_issuance cs h) k \<noteq> None" for cs
    by (induction cs arbitrary: h) auto
  then show "h_chans h k \<noteq> None \<Longrightarrow> ?thesis" by (simp add: dispatch_pending_for_node_def)
qed

lemma register_keeps_chans:
  "handle_register x now sender addr req h = (r, h') \<Longrightarrow> h_chans h k \<noteq> None \<Longrightarrow> h_chans h' k \<noteq> None"
proof -
  assume k: "h_chans h k \<noteq> None" and r: "handle_register x now sender addr req h = (r, h')"
  have "h_chans (registered_hub now sender addr req a h) k \<noteq> None" for a
    unfolding registered_hub_def
    by (rule dispatch_keeps_chans) (simp add: register_agent_def k)
  with r k show "h_chans h' k \<noteq> None"
    by (auto simp: handle_register_def Let_def registered_hub_def send_chan_def
        split: option.splits if_splits)
qed

text \<open>What a message can do to the channels, the tokens and the registered agents.\<close>

lemma message_effect:
  assumes "handle_agent_message x cal now fresh k addr m reg h = (reg', h', hooks)"
  shows "node_tokens (h_db h') = node_tokens (h_db h)
    \<and> (\<forall>j. h_chans h j \<noteq> None \<longrightarrow> h_chans h' j \<noteq> None)
    \<and> (reg' = reg \<or> (\<exists>a. reg' = Some a \<and> provisioned (h_db h) a))
    \<and> (\<forall>a. map_of (h_agents h') a \<noteq> None \<longrightarrow> map_of (h_agents h) a \<noteq> None \<or> provisioned (h_db h) a)"
proof (cases m)
  case (Register req)
  obtain r h1 where r: "handle_register x now k addr req h = (r, h1)" by fastforce
  have e: "h' = h1" "reg' = (case r of Inr a \<Rightarrow> Some a | Inl _ \<Rightarrow> reg)"
    using assms Register r by (auto simp: handle_agent_message_def split: sum.splits)
  show ?thesis
  proof (cases rule: register_cases [of x now k addr req h])
    case (refused er)
    with r e show ?thesis by auto
  next
    case (accepted a h2 r2)
    with r e have h2: "h' = h2" "r2 = r" by auto
    have "node_tokens (h_db h') = node_tokens (h_db h)"
      using accepted(5) by (simp add: h2 registered_hub_def register_agent_def update_node_tokens)
    moreover have "map_of (h_agents h') b \<noteq> None \<longrightarrow> map_of (h_agents h) b \<noteq> None \<or> b = a" for b
      using accepted(6) by (auto simp: h2 registered_hub_def register_agent_def hm.look_ins)
    ultimately show ?thesis
      using accepted(4) token_ok_provisioned [OF accepted(2)] register_keeps_chans [OF r] e h2
      by (auto split: sum.splits)
  qed
next
  case (CertStatus r)
  with assms have "h' = apply_cert_status x cal now r h" "reg' = reg"
    by (auto simp: handle_agent_message_def)
  then show ?thesis
    by (auto simp: node_tokens_def apply_cert_status_def split: option.split)
qed (use assms in \<open>auto simp: handle_agent_message_def node_tokens_def handle_heartbeat_def
      handle_metrics_def handle_core_status_def answer_waiter_def update_node_def tbl_update_def
      dest: handle_online_nodes' split: option.splits prod.splits\<close>)

text \<open>
  The invariant: the node tokens are those of the start, every connected agent and every registered
  stream is of a node with a token, and every open stream has a live channel.
\<close>

definition sys_ok :: "(uuid \<times> string) list \<Rightarrow> sys \<Rightarrow> bool" where
  "sys_ok toks s \<longleftrightarrow>
     node_tokens (h_db (sy_hub s)) = toks
     \<and> (\<forall>a. map_of (h_agents (sy_hub s)) a \<noteq> None \<longrightarrow> provisioned (h_db (sy_hub s)) a)
     \<and> (\<forall>k st a. sy_streams s k = Some st \<longrightarrow> st_registered st = Some a \<longrightarrow>
          provisioned (h_db (sy_hub s)) a)
     \<and> (\<forall>k. sy_streams s k \<noteq> None \<longrightarrow> h_chans (sy_hub s) k \<noteq> None)"

lemma provisioned_tokens: "node_tokens d' = node_tokens d \<Longrightarrow> provisioned d' = provisioned d"
  by (simp add: provisioned_def fun_eq_iff)

lemma cleanup_frame:
  "node_tokens (h_db (stream_cleanup now reg h)) = node_tokens (h_db h)"
  "h_chans (stream_cleanup now reg h) = h_chans h"
  "map_of (h_agents (stream_cleanup now reg h)) a \<noteq> None \<Longrightarrow> map_of (h_agents h) a \<noteq> None"
  by (auto simp: stream_cleanup_def clear_node_online_sessions_def update_node_offline_def
      unregister_agent_def node_tokens_def update_node_def tbl_update_def hm.look_del
      split: option.splits if_splits)

lemma sys_step_ok: "sys_step x cal s s' \<Longrightarrow> sys_ok toks s \<Longrightarrow> sys_ok toks s'"
proof (induction rule: sys_step.induct)
  case (Connect s k addr)
  then show ?case by (auto simp: sys_ok_def)
next
  case (Message s k st now fresh m reg h hooks)
  note eff = message_effect [OF Message.hyps(2)]
  from eff have p: "provisioned (h_db h) = provisioned (h_db (sy_hub s))"
    by (intro provisioned_tokens) simp
  from Message.hyps(1) Message.prems eff show ?case
    unfolding sys_ok_def by (auto simp: p)
next
  case (Disconnect s k st now)
  let ?h = "stream_cleanup now (st_registered st) (sy_hub s)"
  have p: "provisioned (h_db ?h) = provisioned (h_db (sy_hub s))"
    by (rule provisioned_tokens) (rule cleanup_frame)
  from Disconnect cleanup_frame(3) [where now = now and reg = "st_registered st" and h = "sy_hub s"] show ?case
    unfolding sys_ok_def by (auto simp: p cleanup_frame(1,2))
qed

definition init_sys :: "hub \<Rightarrow> sys" where
  "init_sys h = \<lparr>sy_hub = h\<lparr>h_agents := [], h_chans := Map.empty\<rparr>, sy_streams = Map.empty, sy_hooks = []\<rparr>"



end
