(* ===== verification/TrafficReport.thy ===== *)
theory TrafficReport
  imports AgentStream
begin

text \<open>
  Properties of the traffic and online reports: what is counted to a client and in the usage table,
  the rounding of the counting, and the sessions of a node after a report.
\<close>

section \<open>Counting to clients\<close>

text \<open>The client row a user entry changes, and the new counter.\<close>

definition client_charge ::
    "fl \<Rightarrow> (string \<times> uuid) list \<Rightarrow> client list \<Rightarrow> user_traffic \<Rightarrow> (uuid \<times> int) option" where
  "client_charge rate resolved old u =
     Option.bind (map_of resolved (ut_client_id u)) (\<lambda>i.
     Option.bind (tbl_find c_id i old) (\<lambda>c.
       if c_status c = ''on_hold'' then None
       else Some (i, wrap64 (c_traffic_used_bytes c + counted rate (ut_upload_bytes u)
                             + counted rate (ut_download_bytes u)))))"

lemma user_step_clients:
  "db_clients (user_step hour agent rate resolved old u d) =
     (case client_charge rate resolved old u of
        None \<Rightarrow> db_clients d
      | Some (i, n) \<Rightarrow> tbl_update c_id i (\<lambda>r. r\<lparr>c_traffic_used_bytes := n\<rparr>) (db_clients d))"
  by (simp add: user_step_def client_charge_def Let_def update_client_def split: option.split)

lemma user_fold_clients:
  "db_clients (fold (user_step hour agent rate resolved old) us d) =
     fold (\<lambda>p. tbl_update c_id (fst p) ((\<lambda>p r. r\<lparr>c_traffic_used_bytes := snd p\<rparr>) p))
       (List.map_filter (client_charge rate resolved old) us) (db_clients d)"
  by (induction us arbitrary: d) (auto simp: user_step_clients map_filter_simps split: option.split)

lemma inbound_fold_clients [simp]: "db_clients (fold (inbound_step hr a tags) ins d) = db_clients d"
  by (rule fold_frame) (simp add: inbound_step_def Let_def)

lemma traffic_clients:
  "db_clients (handle_traffic x now agent ins us d) =
     fold (\<lambda>p. tbl_update c_id (fst p) ((\<lambda>p r. r\<lparr>c_traffic_used_bytes := snd p\<rparr>) p))
       (List.map_filter (client_charge (node_rate d agent)
          (resolve_client_ids x d (map ut_client_id us)) (db_clients d)) us) (db_clients d)"
proof -
  define d1 where "d1 = (if ins = [] then d
    else fold (inbound_step (hour_of now) agent (inbound_tag_map d agent)) ins d)"
  have d1: "db_clients d1 = db_clients d" by (simp add: d1_def)
  then have "resolve_client_ids x d1 raws = resolve_client_ids x d raws" for raws
    by (simp add: resolve_client_ids_def)
  then show ?thesis
    unfolding handle_traffic_def Let_def d1_def [symmetric] user_fold_clients d1 by simp
qed

text \<open>
  C11: A traffic report in which no client is named twice adds to each client it names the counted
  upload and download, unless the client is on hold, and changes nothing else of its row.
\<close>

theorem traffic_counts_clients:
  assumes "resolved = resolve_client_ids x d (map ut_client_id users)"
    and "distinct (List.map_filter (\<lambda>u. map_of resolved (ut_client_id u)) users)"
    and "u \<in> set users" and "map_of resolved (ut_client_id u) = Some i"
    and "tbl_find c_id i (db_clients d) = Some c"
  shows "tbl_find c_id i (db_clients (handle_traffic x now agent inbounds users d)) =
    Some (if c_status c = ''on_hold'' then c
          else c\<lparr>c_traffic_used_bytes := wrap64 (c_traffic_used_bytes c
                   + counted (node_rate d agent) (ut_upload_bytes u)
                   + counted (node_rate d agent) (ut_download_bytes u))\<rparr>)"
proof -
  let ?ch = "client_charge (node_rate d agent) resolved (db_clients d)"
  let ?ps = "List.map_filter ?ch users"
  have fst_ch: "map_of resolved (ut_client_id v) = Some j" if "?ch v = Some (j, n)" for v j n
    using that by (auto simp: client_charge_def bind_eq_Some_conv split: if_splits)
  have dist: "distinct (map fst (List.map_filter ?ch vs))
      \<and> fst ` set (List.map_filter ?ch vs) \<subseteq> set (List.map_filter (\<lambda>u. map_of resolved (ut_client_id u)) vs)"
    if "distinct (List.map_filter (\<lambda>u. map_of resolved (ut_client_id u)) vs)" for vs
    using that
  proof (induction vs)
    case (Cons v vs)
    show ?case
    proof (cases "?ch v")
      case None
      with Cons show ?thesis by (auto simp: map_filter_simps split: option.splits)
    next
      case (Some p)
      then have "map_of resolved (ut_client_id v) = Some (fst p)" using fst_ch by (cases p) auto
      with Cons Some show ?thesis by (auto simp: map_filter_simps)
    qed
  qed (simp add: map_filter_simps)
  show ?thesis
  proof (cases "?ch u")
    case None
    then have hold: "c_status c = ''on_hold''"
      using assms(4,5) by (auto simp: client_charge_def split: if_splits)
    have "i \<notin> fst ` set ?ps"
    proof
      assume "i \<in> fst ` set ?ps"
      then obtain v n where "v \<in> set users" "?ch v = Some (i, n)"
        by (fastforce dest!: map_filter_mem)
      with hold assms(5) show False
        by (auto simp: client_charge_def bind_eq_Some_conv split: if_splits)
    qed
    with hold assms(5) show ?thesis
      unfolding traffic_clients assms(1) [symmetric]
      by (subst ctab.look_fold_upd_other) auto
  next
    case (Some p)
    then have p: "p = (i, wrap64 (c_traffic_used_bytes c
                   + counted (node_rate d agent) (ut_upload_bytes u)
                   + counted (node_rate d agent) (ut_download_bytes u)))" "c_status c \<noteq> ''on_hold''"
      using assms(4,5) by (auto simp: client_charge_def split: if_splits)
    have "p \<in> set ?ps" using assms(3) Some by (force simp: List.map_filter_def)
    from ctab.look_fold_upd [OF _ this, of "\<lambda>p r. r\<lparr>c_traffic_used_bytes := snd p\<rparr>" fst "db_clients d"]
      dist [OF assms(2)] assms(5) p
    show ?thesis unfolding traffic_clients assms(1) [symmetric] by simp
  qed
qed

text \<open>A client is named by its id and by its e-mail.\<close>

definition uuid_crates :: crates where
  "uuid_crates = demo_crates\<lparr>x_parse_uuid := (\<lambda>s. if CHR ''@'' \<in> set s then None else Some s)\<rparr>"

definition mail_db :: db where
  "mail_db = empty_db\<lparr>db_clients := [(mk_client ''c1'' ''active'')\<lparr>c_email := Some ''a@b''\<rparr>]\<rparr>"

definition usage_entry :: "string \<Rightarrow> int \<Rightarrow> user_traffic" where
  "usage_entry i n = \<lparr>ut_client_id = i, ut_upload_bytes = n, ut_download_bytes = 0\<rparr>"

lemma mail_resolved:
  "resolve_client_ids uuid_crates mail_db [''c1'', ''a@b''] = [(''c1'', ''c1''), (''a@b'', ''c1'')]"
  "resolve_client_ids uuid_crates mail_db [''a@b''] = [(''a@b'', ''c1'')]"
  by (simp_all add: resolve_client_ids_def uuid_crates_def mail_db_def mk_client_def)

lemma mail_client:
  "tbl_find c_id ''c1'' (db_clients mail_db) = Some ((mk_client ''c1'' ''active'')\<lparr>c_email := Some ''a@b''\<rparr>)"
  by (simp add: tbl_find_def mail_db_def mk_client_def)

lemma mail_rate: "node_rate mail_db a = Fl 1 0"
  by (simp add: node_rate_def mail_db_def empty_db_def tbl_find_def)

lemma counted_exact: "\<bar>n\<bar> < 2 ^ 24 \<Longrightarrow> counted (Fl 1 0) n = n"
  by (simp add: counted_def fl_of_int_def fl_round_exact fl_mul_def fl_to_i64_def)
     (rule sat64_id, simp add: in_i64_def i64_max_def i64_min_def, arith)

theorem traffic_counts_clients_witness:
  "map_option c_traffic_used_bytes (tbl_find c_id ''c1''
     (db_clients (handle_traffic uuid_crates 5 ''n1'' [] [usage_entry ''a@b'' 9] mail_db))) = Some 9"
proof -
  let ?u = "usage_entry ''a@b'' 9"
  note r = mail_resolved(2) [symmetric]
  have "tbl_find c_id ''c1'' (db_clients (handle_traffic uuid_crates 5 ''n1'' [] [?u] mail_db))
    = Some (if c_status ((mk_client ''c1'' ''active'')\<lparr>c_email := Some ''a@b''\<rparr>) = ''on_hold''
        then (mk_client ''c1'' ''active'')\<lparr>c_email := Some ''a@b''\<rparr>
        else ((mk_client ''c1'' ''active'')\<lparr>c_email := Some ''a@b''\<rparr>)\<lparr>c_traffic_used_bytes :=
          wrap64 (c_traffic_used_bytes ((mk_client ''c1'' ''active'')\<lparr>c_email := Some ''a@b''\<rparr>)
                   + counted (node_rate mail_db ''n1'') (ut_upload_bytes ?u)
                   + counted (node_rate mail_db ''n1'') (ut_download_bytes ?u))\<rparr>)"
    by (rule traffic_counts_clients [where resolved = "[(''a@b'', ''c1'')]"])
       (simp_all add: mail_resolved mail_client usage_entry_def map_filter_simps)
  then show ?thesis
    by (simp add: mk_client_def mail_rate usage_entry_def counted_exact wrap64_id in_i64_def
        i64_max_def i64_min_def)
qed

text \<open>
  When a report names one client twice (by its id and by its e-mail), only the later entry is
  added to the client's counter: each entry adds to the value read before the report.
\<close>

theorem traffic_same_client_lost:
  assumes "resolved = resolve_client_ids x d (map ut_client_id [u, v])"
    and "map_of resolved (ut_client_id u) = Some i" and "map_of resolved (ut_client_id v) = Some i"
    and "tbl_find c_id i (db_clients d) = Some c" and "c_status c \<noteq> ''on_hold''"
  shows "map_option c_traffic_used_bytes
      (tbl_find c_id i (db_clients (handle_traffic x now agent inbounds [u, v] d)))
    = Some (wrap64 (c_traffic_used_bytes c + counted (node_rate d agent) (ut_upload_bytes v)
                    + counted (node_rate d agent) (ut_download_bytes v)))"
  using assms(2-5)
  unfolding traffic_clients assms(1) [symmetric]
  by (simp add: client_charge_def map_filter_simps tbl_find_update)

theorem traffic_same_client_lost_witness:
  "map_option c_traffic_used_bytes (tbl_find c_id ''c1'' (db_clients
     (handle_traffic uuid_crates 5 ''n1'' [] [usage_entry ''c1'' 100, usage_entry ''a@b'' 9] mail_db))) = Some 9"
proof -
  let ?u = "usage_entry ''c1'' 100" and ?v = "usage_entry ''a@b'' 9"
  have "map_option c_traffic_used_bytes (tbl_find c_id ''c1'' (db_clients
      (handle_traffic uuid_crates 5 ''n1'' [] [?u, ?v] mail_db)))
    = Some (wrap64 (c_traffic_used_bytes ((mk_client ''c1'' ''active'')\<lparr>c_email := Some ''a@b''\<rparr>)
        + counted (node_rate mail_db ''n1'') (ut_upload_bytes ?v)
        + counted (node_rate mail_db ''n1'') (ut_download_bytes ?v)))"
    by (rule traffic_same_client_lost [where resolved = "[(''c1'', ''c1''), (''a@b'', ''c1'')]"])
       (simp_all add: mail_resolved mail_client usage_entry_def mk_client_def)
  then show ?thesis
    by (simp add: mk_client_def mail_rate usage_entry_def counted_exact wrap64_id in_i64_def
        i64_max_def i64_min_def)
qed

section \<open>The usage table\<close>

lemma wrap64_cong: "wrap64 a = wrap64 b \<longleftrightarrow> a mod 18446744073709551616 = b mod 18446744073709551616"
proof -
  have "wrap64 a = wrap64 b \<longleftrightarrow>
      (a + 9223372036854775808) mod 18446744073709551616 = (b + 9223372036854775808) mod 18446744073709551616"
    by (simp add: wrap64_def)
  also have "\<dots> \<longleftrightarrow> a mod 18446744073709551616 = b mod 18446744073709551616"
    by (simp add: mod_eq_dvd_iff)
  finally show ?thesis .
qed

lemma wrap64_wrap_add [simp]: "wrap64 (wrap64 a + b) = wrap64 (a + b)" "wrap64 (a + wrap64 b) = wrap64 (a + b)"
proof -
  have "wrap64 a mod 18446744073709551616 = a mod 18446744073709551616" for a
    using wrap64_cong [of "wrap64 a" a] wrap64_id [OF wrap64_in, of a] by simp
  then show "wrap64 (wrap64 a + b) = wrap64 (a + b)" "wrap64 (a + wrap64 b) = wrap64 (a + b)"
    by (simp_all add: wrap64_cong) (metis mod_add_left_eq, metis mod_add_right_eq)
qed

text \<open>The bytes a table holds under a key: the sum over the rows of that key.\<close>

definition key_sum :: "('r \<Rightarrow> bool) \<Rightarrow> ('r \<Rightarrow> int) \<Rightarrow> 'r list \<Rightarrow> int" where
  "key_sum p g t = sum_list (map g (filter p t))"

lemma key_sum_upsert:
  assumes "\<And>r. p r \<Longrightarrow> q (f r) = q r \<and> g (f r) = wrap64 (g r + n)" and "q r0 = (p r0 \<and> q r0)" and "p r0"
    and "g r0 = n" and "\<And>r. p r \<Longrightarrow> q r = q r0"
  shows "wrap64 (key_sum q g (tbl_upsert p f r0 t)) = wrap64 (key_sum q g t + (if q r0 then n else 0))"
proof (induction t)
  case Nil
  show ?case using assms(4) by (simp add: key_sum_def)
next
  case (Cons r t)
  show ?case
  proof (cases "p r")
    case True
    with assms(1,5) [OF True] show ?thesis by (simp add: key_sum_def algebra_simps)
  next
    case False
    have "wrap64 (g r + key_sum q g (tbl_upsert p f r0 t)) = wrap64 (g r + wrap64 (key_sum q g (tbl_upsert p f r0 t)))"
      by simp
    with Cons False show ?thesis by (simp add: key_sum_def algebra_simps)
  qed
qed

definition usage_key :: "uuid \<Rightarrow> uuid \<Rightarrow> tstamp \<Rightarrow> usage_record \<Rightarrow> bool" where
  "usage_key a i t r = (ur_node_id r = a \<and> ur_client_id r = i \<and> ur_hour_bucket r = t)"

text \<open>The bytes of a report counted to a client, by the direction \<open>g\<close>.\<close>

definition reported :: "fl \<Rightarrow> (string \<times> uuid) list \<Rightarrow> uuid \<Rightarrow> (user_traffic \<Rightarrow> int) \<Rightarrow> user_traffic list \<Rightarrow> int" where
  "reported rate resolved i g us =
     sum_list (map (\<lambda>u. counted rate (g u)) (filter (\<lambda>u. map_of resolved (ut_client_id u) = Some i) us))"

lemma user_step_usage:
  fixes dir :: bool
  defines "g \<equiv> if dir then ur_upload_bytes else ur_download_bytes"
    and "gu \<equiv> if dir then ut_upload_bytes else ut_download_bytes"
  shows "wrap64 (key_sum (usage_key a i t) g (db_usage (user_step hour agent rate resolved old u d)))
    = wrap64 (key_sum (usage_key a i t) g (db_usage d)
        + (if a = agent \<and> t = hour then reported rate resolved i gu [u] else 0))"
proof (cases "map_of resolved (ut_client_id u)")
  case None
  then show ?thesis by (simp add: user_step_def reported_def)
next
  case (Some c)
  let ?up = "counted rate (ut_upload_bytes u)" and ?down = "counted rate (ut_download_bytes u)"
  let ?r0 = "\<lparr>ur_node_id = agent, ur_client_id = c, ur_hour_bucket = hour,
      ur_upload_bytes = ?up, ur_download_bytes = ?down, ur_rate = rate\<rparr>"
  have "db_usage (user_step hour agent rate resolved old u d) = tbl_upsert (usage_key agent c hour)
      (\<lambda>r. r\<lparr>ur_upload_bytes := wrap64 (ur_upload_bytes r + ?up),
             ur_download_bytes := wrap64 (ur_download_bytes r + ?down)\<rparr>) ?r0 (db_usage d)"
    by (simp add: user_step_def Some Let_def update_client_def usage_key_def [abs_def] split: option.split)
  moreover have "(if usage_key a i t ?r0 then counted rate (gu u) else 0)
      = (if a = agent \<and> t = hour then reported rate resolved i gu [u] else 0)"
    by (auto simp: usage_key_def reported_def Some)
  moreover have "wrap64 (key_sum (usage_key a i t) g (tbl_upsert (usage_key agent c hour)
      (\<lambda>r. r\<lparr>ur_upload_bytes := wrap64 (ur_upload_bytes r + ?up),
             ur_download_bytes := wrap64 (ur_download_bytes r + ?down)\<rparr>) ?r0 (db_usage d)))
    = wrap64 (key_sum (usage_key a i t) g (db_usage d)
        + (if usage_key a i t ?r0 then counted rate (gu u) else 0))"
    by (rule key_sum_upsert) (auto simp: usage_key_def g_def gu_def)
  ultimately show ?thesis by simp
qed

lemma user_fold_usage:
  fixes dir :: bool
  defines "g \<equiv> if dir then ur_upload_bytes else ur_download_bytes"
    and "gu \<equiv> if dir then ut_upload_bytes else ut_download_bytes"
  shows "wrap64 (key_sum (usage_key a i t) g (db_usage (fold (user_step hour agent rate resolved old) us d)))
    = wrap64 (key_sum (usage_key a i t) g (db_usage d)
        + (if a = agent \<and> t = hour then reported rate resolved i gu us else 0))"
proof (induction us arbitrary: d)
  case Nil
  show ?case by (simp add: reported_def)
next
  case (Cons u us)
  let ?k = "key_sum (usage_key a i t) g"
  let ?n = "\<lambda>us. if a = agent \<and> t = hour then reported rate resolved i gu us else 0"
  let ?d = "user_step hour agent rate resolved old u d"
  have "wrap64 (?k (db_usage ?d) + ?n us) = wrap64 (wrap64 (?k (db_usage ?d)) + ?n us)" by simp
  also have "wrap64 (?k (db_usage ?d)) = wrap64 (?k (db_usage d) + ?n [u])"
    unfolding g_def gu_def by (rule user_step_usage)
  also have "wrap64 (wrap64 (?k (db_usage d) + ?n [u]) + ?n us) = wrap64 (?k (db_usage d) + ?n (u # us))"
    by (simp add: reported_def algebra_simps)
  finally show ?case using Cons.IH [of ?d] by simp
qed

lemma inbound_fold_usage [simp]: "db_usage (fold (inbound_step hr a tags) ins d) = db_usage d"
  by (rule fold_frame) (simp add: inbound_step_def Let_def)

lemma traffic_usage:
  "\<exists>old d1. db_usage d1 = db_usage d \<and> handle_traffic x now agent ins us d =
     fold (user_step (hour_of now) agent (node_rate d agent)
       (resolve_client_ids x d (map ut_client_id us)) old) us d1"
proof -
  define d1 where "d1 = (if ins = [] then d
    else fold (inbound_step (hour_of now) agent (inbound_tag_map d agent)) ins d)"
  have "db_clients d1 = db_clients d" by (simp add: d1_def)
  then have "resolve_client_ids x d1 raws = resolve_client_ids x d raws" for raws
    by (simp add: resolve_client_ids_def)
  then have "handle_traffic x now agent ins us d = fold (user_step (hour_of now) agent (node_rate d agent)
       (resolve_client_ids x d (map ut_client_id us)) (db_clients d1)) us d1"
    unfolding handle_traffic_def Let_def d1_def [symmetric] by simp
  moreover have "db_usage d1 = db_usage d" by (simp add: d1_def)
  ultimately show ?thesis by blast
qed

text \<open>
  The hourly usage table gains what a report counts, on every report, also where a client is
  named twice or is on hold: the uploads (and the downloads) stored for a node, a client and an hour
  grow, as 64-bit sums, by the counted bytes of the entries that resolve to the client, where node
  and hour are those of the report, and by nothing elsewhere.
\<close>

theorem usage_matches_report:
  "wrap64 (key_sum (usage_key a i t) ur_upload_bytes (db_usage (handle_traffic x now agent ins us d)))
    = wrap64 (key_sum (usage_key a i t) ur_upload_bytes (db_usage d)
        + (if a = agent \<and> t = hour_of now
           then reported (node_rate d agent) (resolve_client_ids x d (map ut_client_id us)) i ut_upload_bytes us
           else 0))
  \<and> wrap64 (key_sum (usage_key a i t) ur_download_bytes (db_usage (handle_traffic x now agent ins us d)))
    = wrap64 (key_sum (usage_key a i t) ur_download_bytes (db_usage d)
        + (if a = agent \<and> t = hour_of now
           then reported (node_rate d agent) (resolve_client_ids x d (map ut_client_id us)) i ut_download_bytes us
           else 0))"
proof -
  obtain old d1 where "db_usage d1 = db_usage d" and "handle_traffic x now agent ins us d =
     fold (user_step (hour_of now) agent (node_rate d agent)
       (resolve_client_ids x d (map ut_client_id us)) old) us d1"
    using traffic_usage by blast
  then show ?thesis
    using user_fold_usage [where dir = True] user_fold_usage [where dir = False] by simp
qed

section \<open>What the single-precision product loses\<close>

lemma sat64_near: "n \<le> i64_max \<Longrightarrow> 0 \<le> n \<Longrightarrow> 0 \<le> v \<Longrightarrow> \<bar>sat64 v - n\<bar> \<le> \<bar>v - n\<bar>"
  by (simp add: sat64_def i64_min_def i64_max_def)

lemma renormalise: "fl_mul 24 (Fl 16777216 e) (Fl 1 0) = Fl 8388608 (e + 1)"
  by (simp add: fl_mul_def fl_round_def round_shift_def bit_len.simps)

lemma counted_rounded:
  assumes "0 \<le> n" and "\<not> bit_len (nat n) \<le> 24"
  shows "counted (Fl 1 0) n = sat64 (int (round_shift (bit_len (nat n) - 24) (nat n)) * 2 ^ (bit_len (nat n) - 24))"
proof -
  let ?s = "bit_len (nat n) - 24" let ?q = "round_shift ?s (nat n)"
  have n0: "n \<noteq> 0" using assms by (auto simp: bit_len_0)
  have of_int: "fl_of_int 24 n = Fl (int ?q) (int ?s)"
    using assms n0 by (simp add: fl_of_int_def fl_round_def Let_def)
  have "nat n < 2 ^ bit_len (nat n)" by (rule bit_len_less)
  also have "\<dots> = 2 ^ 24 * 2 ^ ?s"
    using assms(2) by (simp only: power_add [symmetric]) simp
  finally have "nat n div 2 ^ ?s < 2 ^ 24" by (simp add: less_mult_imp_div_less)
  then have q: "?q \<le> 2 ^ 24" by (simp add: round_shift_def Let_def)
  show ?thesis
  proof (cases "?q = 2 ^ 24")
    case False
    with q have "\<bar>int ?q\<bar> < 2 ^ 24" by simp
    with of_int show ?thesis by (simp add: counted_def fl_mul_def fl_round_exact fl_to_i64_def)
  next
    case True
    then have i: "int ?q = 16777216" by simp
    have "counted (Fl 1 0) n = sat64 (8388608 * 2 ^ nat (int ?s + 1))"
      unfolding counted_def of_int i renormalise by (simp add: fl_to_i64_def)
    also have "nat (int ?s + 1) = Suc ?s" by simp
    finally show ?thesis unfolding i by simp
  qed
qed

text \<open>
  At the default coefficient 1 a counted byte sum is off by at most a part in 2 to the 24 of the
  bytes reported, over the whole range of the counter.
\<close>

theorem counted_error:
  assumes "0 \<le> n" and "n \<le> i64_max"
  shows "\<bar>counted (Fl 1 0) n - n\<bar> * 2 ^ 24 \<le> n"
proof (cases "bit_len (nat n) \<le> 24")
  case True
  have "nat n < 2 ^ bit_len (nat n)" by (rule bit_len_less)
  also have "\<dots> \<le> 2 ^ 24" using True by (rule power_increasing) simp
  finally have "\<bar>n\<bar> < 2 ^ 24" using assms(1) by simp
  then show ?thesis using counted_exact [of n] assms by simp
next
  case False
  let ?s = "bit_len (nat n) - 24"
  let ?v = "int (round_shift ?s (nat n)) * 2 ^ ?s"
  have "nat n \<noteq> 0" using False by (metis bit_len_0 zero_le)
  then have "2 ^ (bit_len (nat n) - 1) \<le> nat n" by (rule bit_len_ge)
  moreover have "bit_len (nat n) - 1 = 23 + ?s" using False by simp
  ultimately have "2 ^ (23 + ?s) \<le> nat n" by (simp only:)
  then have "2 ^ (23 + ?s) \<le> n" using assms(1) by (simp only: le_nat_iff) simp
  then have low: "2 ^ 23 * 2 ^ ?s \<le> n" by (simp only: power_add)
  have "2 * \<bar>?v - n\<bar> \<le> 2 ^ ?s" using round_shift_near [of ?s "nat n"] assms(1) by simp
  moreover have "\<bar>counted (Fl 1 0) n - n\<bar> \<le> \<bar>?v - n\<bar>"
    unfolding counted_rounded [OF assms(1) False] using assms by (intro sat64_near) simp_all
  ultimately have "2 * \<bar>counted (Fl 1 0) n - n\<bar> \<le> 2 ^ ?s" by linarith
  with low show ?thesis by simp
qed

text \<open>One byte above 2 to the 24 is not counted.\<close>

lemma counted_16777217: "counted (Fl 1 0) 16777217 = 16777216"
proof -
  have "fl_of_int 24 16777217 = Fl 8388608 1"
    by (simp add: fl_of_int_def fl_round_def round_shift_def bit_len.simps)
  then show ?thesis
    by (simp add: counted_def fl_mul_def fl_round_exact fl_to_i64_def sat64_def i64_min_def i64_max_def)
qed

theorem counted_error_witness:
  "\<bar>counted (Fl 1 0) 16777217 - 16777217\<bar> * 2 ^ 24 \<le> (16777217 :: int) \<and> counted (Fl 1 0) 16777217 = 16777216"
  using counted_error [of 16777217] by (simp add: i64_max_def counted_16777217)

section \<open>The sessions of a node after a report\<close>

type_synonym pair = "uuid \<times> string"

definition session_pair :: "online_session \<Rightarrow> pair" where
  "session_pair r = (os_client_id r, os_ip_address r)"

text \<open>What a loop step never changes of a row.\<close>

definition session_key :: "online_session \<Rightarrow> uuid \<times> uuid \<times> pair" where
  "session_key r = (os_id r, os_node_id r, session_pair r)"

definition reported_pairs :: "(string \<times> uuid) list \<Rightarrow> online_user list \<Rightarrow> pair set" where
  "reported_pairs resolved us =
     {(c, ou_ip_address u) |u c. u \<in> set us \<and> map_of resolved (ou_client_id u) = Some c}"

lemma reported_pairs_Nil [simp]: "reported_pairs resolved [] = {}"
  by (simp add: reported_pairs_def)

lemma reported_pairs_Cons:
  "reported_pairs resolved (u # us) = (case map_of resolved (ou_client_id u) of
     None \<Rightarrow> {} | Some c \<Rightarrow> {(c, ou_ip_address u)}) \<union> reported_pairs resolved us"
  by (auto simp: reported_pairs_def split: option.splits)

lemma activate_sessions [simp]:
  "db_sessions (on_db (activate_on_hold cal now c s)) = db_sessions (on_db s)"
  "on_seen (activate_on_hold cal now c s) = on_seen s" "on_kept (activate_on_hold cal now c s) = on_kept s"
  "on_new (activate_on_hold cal now c s) = on_new s"
  by (simp_all add: activate_on_hold_def Let_def update_client_def)

lemma update_session_keys [simp]:
  "map session_key (tbl_update os_id i (\<lambda>r. r\<lparr>os_last_active_at := now\<rparr>) t) = map session_key t"
  by (simp add: tbl_update_def session_key_def session_pair_def)

text \<open>
  The invariant of the loop: the table is the old one with one row per new id, and the ids kept and
  the pairs seen run in parallel.
\<close>

definition online_ok :: "(nat \<Rightarrow> uuid) \<Rightarrow> uuid \<Rightarrow> online_session list \<Rightarrow> online \<Rightarrow> bool" where
  "online_ok fresh agent old s \<longleftrightarrow>
     (\<exists>new. map session_key (db_sessions (on_db s)) = map session_key old @ new
        \<and> map fst new = map fresh [0..<on_new s])
     \<and> distinct (on_seen s)
     \<and> list_all2 (\<lambda>i key. (i, agent, key) \<in> set (map session_key (db_sessions (on_db s)))) (on_kept s) (on_seen s)"

lemma online_step_ok:
  assumes ok: "online_ok fresh agent old s"
    and sessions: "\<And>key r. map_of sessions key = Some r \<Longrightarrow> r \<in> set old \<and> os_node_id r = agent \<and> session_pair r = key"
  shows "online_ok fresh agent old (online_step cal now fresh agent ts resolved cs sessions u s)"
proof (cases "map_of resolved (ou_client_id u)")
  case None
  with ok show ?thesis by (simp add: online_step_def)
next
  case (Some c)
  let ?key = "(c, ou_ip_address u)"
  let ?s = "case tbl_find c_id c cs of Some c \<Rightarrow> activate_on_hold cal now c (s\<lparr>on_seen := ?key # on_seen s\<rparr>)
    | None \<Rightarrow> s\<lparr>on_seen := ?key # on_seen s\<rparr>"
  have s: "db_sessions (on_db ?s) = db_sessions (on_db s)" "on_seen ?s = ?key # on_seen s"
    "on_kept ?s = on_kept s" "on_new ?s = on_new s"
    by (simp_all split: option.split)
  obtain new where new: "map session_key (db_sessions (on_db s)) = map session_key old @ new"
    "map fst new = map fresh [0..<on_new s]" and seen: "distinct (on_seen s)"
    and all2: "list_all2 (\<lambda>i key. (i, agent, key) \<in> set (map session_key (db_sessions (on_db s)))) (on_kept s) (on_seen s)"
    using ok unfolding online_ok_def by blast
  show ?thesis
  proof (cases "?key \<in> set (on_seen s)")
    case True
    with ok Some show ?thesis by (simp add: online_step_def Let_def)
  next
    case fresh_key: False
    show ?thesis
    proof (cases "map_of sessions ?key")
      case None
      let ?r = "\<lparr>os_id = fresh (on_new s), os_client_id = c, os_node_id = agent, os_ip_address = ou_ip_address u,
        os_inbound_tag = (if ou_inbound_tag u = [] then None else Some (ou_inbound_tag u)),
        os_connected_at = unwrap_or (cal_from_timestamp cal ts) now, os_last_active_at = now\<rparr>"
      have step: "online_step cal now fresh agent ts resolved cs sessions u s =
          ?s\<lparr>on_kept := fresh (on_new s) # on_kept s, on_new := on_new s + 1,
             on_db := (on_db ?s)\<lparr>db_sessions := tbl_insert ?r (db_sessions (on_db s))\<rparr>\<rparr>"
        using Some fresh_key None s by (simp add: online_step_def Let_def)
      have "session_key ?r = (fresh (on_new s), agent, ?key)" by (simp add: session_key_def session_pair_def)
      then have keys: "map session_key (tbl_insert ?r (db_sessions (on_db s)))
          = map session_key old @ (new @ [(fresh (on_new s), agent, ?key)])"
        using new(1) by (simp add: tbl_insert_def)
      have "list_all2 (\<lambda>i key. (i, agent, key) \<in> set (map session_key old @ (new @ [(fresh (on_new s), agent, ?key)])))
          (on_kept s) (on_seen s)"
        using all2 by (rule list_all2_mono) (auto simp: new(1))
      then show ?thesis
        unfolding online_ok_def step
        using new(2) seen fresh_key s keys by simp
    next
      case (Some r)
      have step: "online_step cal now fresh agent ts resolved cs sessions u s =
          ?s\<lparr>on_kept := os_id r # on_kept s,
             on_db := (on_db ?s)\<lparr>db_sessions := tbl_update os_id (os_id r)
               (\<lambda>r. r\<lparr>os_last_active_at := now\<rparr>) (db_sessions (on_db s))\<rparr>\<rparr>"
        using \<open>map_of resolved (ou_client_id u) = _\<close> fresh_key Some s by (simp add: online_step_def Let_def)
      have "session_key r = (os_id r, agent, ?key)" using sessions [OF Some] by (simp add: session_key_def)
      then have "(os_id r, agent, ?key) \<in> set (map session_key old)"
        using sessions [OF Some] by (metis image_eqI list.set_map)
      then show ?thesis
        unfolding online_ok_def step
        using new seen fresh_key s all2 by simp
    qed
  qed
qed

lemma online_step_seen:
  "set (on_seen (online_step cal now fresh agent ts resolved cs sessions u s))
     = set (on_seen s) \<union> reported_pairs resolved [u]"
  by (auto simp: online_step_def reported_pairs_Cons Let_def split: option.splits)

lemma online_fold:
  fixes cal now ts resolved cs
  assumes "online_ok fresh agent old s"
    and "\<And>key r. map_of sessions key = Some r \<Longrightarrow> r \<in> set old \<and> os_node_id r = agent \<and> session_pair r = key"
  defines "step \<equiv> online_step cal now fresh agent ts resolved cs sessions"
  shows "online_ok fresh agent old (fold step us s)
    \<and> set (on_seen (fold step us s)) = set (on_seen s) \<union> reported_pairs resolved us"
  using assms(1)
proof (induction us arbitrary: s)
  case (Cons u us)
  have "online_ok fresh agent old (step u s)"
    unfolding step_def by (rule online_step_ok [OF Cons.prems assms(2)])
  moreover have "set (on_seen (step u s)) = set (on_seen s) \<union> reported_pairs resolved [u]"
    unfolding step_def by (rule online_step_seen)
  ultimately show ?case
    using Cons.IH [of "step u s"] by (auto simp: reported_pairs_Cons)
qed simp

lemma distinct_fresh: "inj f \<Longrightarrow> distinct (map f [0..<n])"
  by (auto simp: distinct_map inj_on_def)

lemma disjoint_fresh: "(\<And>n. f n \<notin> g ` set t) \<Longrightarrow> set (map g t) \<inter> set (map f [0..<n]) = {}"
  by (auto simp: image_iff) metis

text \<open>The rows kept are those of the pairs seen, one each.\<close>

lemma online_ok_kept:
  assumes ok: "online_ok fresh agent old s" and ids: "distinct (map os_id old)" "inj fresh"
    "\<And>n. fresh n \<notin> os_id ` set old"
  defines "kept \<equiv> filter (\<lambda>r. os_node_id r = agent \<and> os_id r \<in> set (on_kept s)) (db_sessions (on_db s))"
  shows "session_pair ` set kept = set (on_seen s) \<and> distinct (map session_pair kept)"
proof -
  let ?t = "db_sessions (on_db s)"
  obtain new where new: "map session_key ?t = map session_key old @ new" "map fst new = map fresh [0..<on_new s]"
    and seen: "distinct (on_seen s)"
    and all2: "list_all2 (\<lambda>i key. (i, agent, key) \<in> set (map session_key ?t)) (on_kept s) (on_seen s)"
    using ok unfolding online_ok_def by blast
  have id: "map os_id t = map fst (map session_key t)" for t by (simp add: session_key_def)
  have "map os_id ?t = map os_id old @ map fresh [0..<on_new s]"
    unfolding id [of ?t] new(1) map_append new(2) id [of old] ..
  then have dist: "distinct (map os_id ?t)"
    using ids(1) distinct_fresh [OF ids(2)] disjoint_fresh [OF ids(3)] by (simp only: distinct_append simp_thms)
  have len: "length (on_kept s) = length (on_seen s)" using all2 by (rule list_all2_lengthD)
  have row: "\<exists>r \<in> set ?t. os_id r = on_kept s ! j \<and> os_node_id r = agent \<and> session_pair r = on_seen s ! j"
    if "j < length (on_seen s)" for j
  proof -
    have "(on_kept s ! j, agent, on_seen s ! j) \<in> set (map session_key ?t)"
      using list_all2_nthD [OF all2] that len by simp
    then show ?thesis by (auto simp: session_key_def)
  qed
  have pair: "\<exists>j < length (on_seen s). os_id r = on_kept s ! j \<and> session_pair r = on_seen s ! j"
    if "r \<in> set kept" for r
  proof -
    from that have r: "r \<in> set ?t" "os_id r \<in> set (on_kept s)" by (simp_all add: kept_def)
    then obtain j where j: "j < length (on_seen s)" "os_id r = on_kept s ! j"
      using len by (auto simp: in_set_conv_nth)
    from row [OF j(1)] obtain r' where "r' \<in> set ?t" "os_id r' = os_id r" "session_pair r' = on_seen s ! j"
      using j(2) by auto
    with r(1) dist have "session_pair r = on_seen s ! j" by (metis distinct_map inj_onD)
    with j show ?thesis by blast
  qed
  have "inj_on session_pair (set kept)"
  proof (rule inj_onI)
    fix r r' assume r: "r \<in> set kept" "r' \<in> set kept" "session_pair r = session_pair r'"
    then have "os_id r = os_id r'" using pair [of r] pair [of r'] seen by (metis nth_eq_iff_index_eq)
    with r dist show "r = r'" unfolding kept_def by (metis distinct_map filter_is_subset inj_onD subsetD)
  qed
  moreover have "distinct kept"
    using dist unfolding kept_def by (simp add: distinct_map)
  moreover have "session_pair ` set kept \<subseteq> set (on_seen s)"
    using pair by (metis image_subsetI nth_mem)
  moreover have "p \<in> session_pair ` set kept" if p: "p \<in> set (on_seen s)" for p
  proof -
    obtain j where "j < length (on_seen s)" "p = on_seen s ! j" using p by (metis in_set_conv_nth)
    with row [of j] len show ?thesis by (force simp: kept_def)
  qed
  ultimately show ?thesis by (auto simp: distinct_map)
qed

lemma node_sessions_map:
  assumes "map_of (rev (map (\<lambda>s. ((os_client_id s, os_ip_address s), s)) (filter (\<lambda>s. os_node_id s = agent) t))) key = Some r"
  shows "r \<in> set t \<and> os_node_id r = agent \<and> session_pair r = key"
  using map_of_SomeD [OF assms] by (auto simp: session_pair_def)

text \<open>
  After a report of online users a node has exactly one session for each (client, address) pair
  of the report whose name resolves, and none else.
\<close>

theorem online_sessions_match:
  assumes "distinct (map os_id (db_sessions d))" and "inj fresh" and "\<And>n. fresh n \<notin> os_id ` set (db_sessions d)"
    and "resolved = resolve_client_ids x d (map ou_client_id users)"
    and "rows = filter (\<lambda>r. os_node_id r = agent)
           (db_sessions (fst (handle_online_users x cal now fresh agent ts users d)))"
  shows "session_pair ` set rows = reported_pairs resolved users \<and> distinct (map session_pair rows)"
proof -
  define sessions where "sessions = rev (map (\<lambda>s. ((os_client_id s, os_ip_address s), s))
    (filter (\<lambda>s. os_node_id s = agent) (db_sessions d)))"
  let ?s0 = "\<lparr>on_db = d, on_seen = [], on_kept = [], on_hooks = [], on_new = 0\<rparr>"
  define s where "s = fold (online_step cal now fresh agent ts resolved (db_clients d) sessions) users ?s0"
  have "online_ok fresh agent (db_sessions d) ?s0" by (simp add: online_ok_def)
  from online_fold [OF this node_sessions_map]
  have s: "online_ok fresh agent (db_sessions d) s" "set (on_seen s) = reported_pairs resolved users"
    unfolding s_def sessions_def by simp_all
  have "rows = filter (\<lambda>r. os_node_id r = agent \<and> os_id r \<in> set (on_kept s)) (db_sessions (on_db s))"
    unfolding assms(5) assms(4) s_def sessions_def
    by (simp add: handle_online_users_def Let_def tbl_delete_def conj_commute)
       (intro filter_cong refl, blast)
  with online_ok_kept [OF s(1) assms(1-3)] s(2) show ?thesis by simp
qed

text \<open>
  A row of another node, a row that stays, a row that goes and a new one; the client \<open>c1\<close> is named by
  its e-mail.
\<close>

definition demo_session :: "uuid \<Rightarrow> uuid \<Rightarrow> string \<Rightarrow> online_session" where
  "demo_session i n ip = \<lparr>os_id = i, os_client_id = ''c1'', os_node_id = n, os_ip_address = ip,
     os_inbound_tag = None, os_connected_at = 0, os_last_active_at = 0\<rparr>"

definition online_db :: db where
  "online_db = mail_db\<lparr>db_sessions := [demo_session ''s1'' ''n1'' ''1.1.1.1'',
     demo_session ''s2'' ''n1'' ''2.2.2.2'', demo_session ''s3'' ''n2'' ''1.1.1.1'']\<rparr>"

definition fresh_ids :: "nat \<Rightarrow> uuid" where
  "fresh_ids n = replicate (Suc n) CHR ''x''"

definition online_entry :: "string \<Rightarrow> string \<Rightarrow> online_user" where
  "online_entry c ip = \<lparr>ou_client_id = c, ou_ip_address = ip, ou_inbound_tag = []\<rparr>"

theorem online_sessions_match_witness:
  "session_pair ` set (filter (\<lambda>r. os_node_id r = ''n1'') (db_sessions (fst (handle_online_users uuid_crates
      demo_cal 5 fresh_ids ''n1'' 4 [online_entry ''a@b'' ''1.1.1.1'', online_entry ''c1'' ''3.3.3.3''] online_db))))
   = {(''c1'', ''1.1.1.1''), (''c1'', ''3.3.3.3'')}"
proof -
  let ?us = "[online_entry ''a@b'' ''1.1.1.1'', online_entry ''c1'' ''3.3.3.3'']"
  have r: "resolve_client_ids uuid_crates online_db (map ou_client_id ?us) = [(''c1'', ''c1''), (''a@b'', ''c1'')]"
    by (simp add: resolve_client_ids_def uuid_crates_def online_entry_def online_db_def mail_db_def mk_client_def empty_db_def)
  have "distinct (map os_id (db_sessions online_db))" by (simp add: online_db_def demo_session_def)
  moreover have "inj fresh_ids" by (rule injI) (simp add: fresh_ids_def)
  moreover have "fresh_ids n \<notin> os_id ` set (db_sessions online_db)" for n
    by (simp add: online_db_def demo_session_def fresh_ids_def)
  ultimately show ?thesis
    using online_sessions_match [OF _ _ _ r [symmetric] refl]
    by (simp add: reported_pairs_Cons online_entry_def insert_commute)
qed

section \<open>What a report does to the clients\<close>

definition activated :: "tstamp \<Rightarrow> client \<Rightarrow> client" where
  "activated now c = c\<lparr>c_status := ''active'',
     c_expiry_date := map_option (\<lambda>secs. now + secs * ns_per_sec) (c_on_hold_expire_duration_secs c),
     c_updated_at := now\<rparr>"

definition clients_ok :: "tstamp \<Rightarrow> client list \<Rightarrow> online \<Rightarrow> bool" where
  "clients_ok now old s \<longleftrightarrow> (\<forall>i. tbl_find c_id i (db_clients (on_db s)) =
     map_option (\<lambda>c. if c_status c = ''on_hold'' \<and> i \<in> fst ` set (on_seen s) then activated now c else c)
       (tbl_find c_id i old))"

lemma activate_clients:
  "db_clients (on_db (activate_on_hold cal now c s)) =
     (if c_status c = ''on_hold''
      then tbl_update c_id (c_id c) (\<lambda>r. r\<lparr>c_status := ''active'', c_expiry_date := c_expiry_date (activated now c),
             c_updated_at := now\<rparr>) (db_clients (on_db s))
      else db_clients (on_db s))"
  by (simp add: activate_on_hold_def Let_def update_client_def activated_def)

lemma online_step_clients:
  assumes "clients_ok now old s"
  shows "clients_ok now old (online_step cal now fresh agent ts resolved old sessions u s)"
proof (cases "map_of resolved (ou_client_id u)")
  case None
  with assms show ?thesis by (simp add: online_step_def)
next
  case (Some i)
  let ?key = "(i, ou_ip_address u)" and ?step = "online_step cal now fresh agent ts resolved old sessions u s"
  show ?thesis
  proof (cases "?key \<in> set (on_seen s)")
    case True
    with assms Some show ?thesis by (simp add: online_step_def Let_def)
  next
    case False
    have cl: "db_clients (on_db ?step) = (case tbl_find c_id i old of
        Some c \<Rightarrow> db_clients (on_db (activate_on_hold cal now c (s\<lparr>on_seen := ?key # on_seen s\<rparr>)))
      | None \<Rightarrow> db_clients (on_db s))"
      using Some False by (simp add: online_step_def Let_def split: option.split)
    have seen: "on_seen ?step = ?key # on_seen s"
      using Some False by (simp add: online_step_def Let_def split: option.split)
    show ?thesis
    proof (cases "tbl_find c_id i old")
      case None
      then show ?thesis using assms by (auto simp: clients_ok_def cl seen intro!: option.map_cong)
    next
      case (Some c)
      then have "c_id c = i" by (auto dest: tbl_find_key)
      then show ?thesis
        using assms Some
        by (auto simp: clients_ok_def cl seen activate_clients tbl_find_update activated_def
            intro!: option.map_cong)
    qed
  qed
qed

lemma reported_clients:
  "fst ` reported_pairs resolved us = {i. \<exists>u \<in> set us. map_of resolved (ou_client_id u) = Some i}"
  by (force simp: reported_pairs_def)

text \<open>
  The first report that names a client on hold activates it: its expiry is now plus its hold
  duration (none when it has no duration); every other client keeps its row.
\<close>

theorem online_activates_held:
  "tbl_find c_id i (db_clients (fst (handle_online_users x cal now fresh agent ts users d))) =
     map_option (\<lambda>c. if c_status c = ''on_hold''
          \<and> Some i \<in> (\<lambda>u. map_of (resolve_client_ids x d (map ou_client_id users)) (ou_client_id u)) ` set users
        then activated now c else c) (tbl_find c_id i (db_clients d))"
proof -
  let ?r = "resolve_client_ids x d (map ou_client_id users)"
  define sessions where "sessions = rev (map (\<lambda>s. ((os_client_id s, os_ip_address s), s))
    (filter (\<lambda>s. os_node_id s = agent) (db_sessions d)))"
  define step where "step = online_step cal now fresh agent ts ?r (db_clients d) sessions"
  let ?s0 = "\<lparr>on_db = d, on_seen = [], on_kept = [], on_hooks = [], on_new = 0\<rparr>"
  have "clients_ok now (db_clients d) (fold step us s)" if "clients_ok now (db_clients d) s" for us s
    using that by (induction us arbitrary: s) (simp_all add: step_def online_step_clients)
  then have ok: "clients_ok now (db_clients d) (fold step users ?s0)" by (simp add: clients_ok_def option.map_ident)
  have "set (on_seen (fold step us s)) = set (on_seen s) \<union> reported_pairs ?r us" for us s
  proof (induction us arbitrary: s)
    case (Cons u us)
    have "set (on_seen (step u s)) = set (on_seen s) \<union> reported_pairs ?r [u]"
      unfolding step_def by (rule online_step_seen)
    then show ?case using Cons by (auto simp: reported_pairs_Cons)
  qed simp
  then have seen: "fst ` set (on_seen (fold step users ?s0))
      = {i. Some i \<in> (\<lambda>u. map_of ?r (ou_client_id u)) ` set users}"
    by (simp add: reported_clients image_iff) metis
  have "db_clients (fst (handle_online_users x cal now fresh agent ts users d))
      = db_clients (on_db (fold step users ?s0))"
    by (simp add: handle_online_users_def Let_def step_def sessions_def)
  with ok show ?thesis unfolding clients_ok_def seen by simp
qed

end
