(* ===== verification/RateLimit.thy ===== *)
theory RateLimit
  imports TrafficReport
begin

text \<open>
  The token buckets that limit the requests of an API key (pp-hub, rate_limiter.rs). A bucket holds at
  most \<open>limit\<close> tokens, a request takes one, and a request adds what the time since the last one earns,
  computed in \<open>f64\<close> and cut to an integer.
\<close>

section \<open>Sums and quotients of floating-point numbers\<close>

text \<open>
  The quotient to \<open>p + 2\<close> bits or more with a last bit that records a remainder, which rounds to \<open>p\<close>
  bits as the exact quotient does.
\<close>

definition fl_add :: "nat \<Rightarrow> fl \<Rightarrow> fl \<Rightarrow> fl" where
  "fl_add p x y = (case (x, y) of (Fl m e, Fl n f) \<Rightarrow>
     let g = min e f in fl_round p (Fl (m * 2 ^ nat (e - g) + n * 2 ^ nat (f - g)) g))"

definition fl_div :: "nat \<Rightarrow> fl \<Rightarrow> fl \<Rightarrow> fl" where
  "fl_div p x y = (case (x, y) of (Fl m e, Fl n f) \<Rightarrow>
     let k = p + 2 + bit_len (nat \<bar>n\<bar>); a = \<bar>m\<bar> * 2 ^ k
     in fl_round p (Fl (sgn m * sgn n * (2 * (a div \<bar>n\<bar>) + (if a mod \<bar>n\<bar> = 0 then 0 else 1)))
                       (e - f - int k - 1)))"

definition fl_to_u64 :: "fl \<Rightarrow> nat" where
  "fl_to_u64 x = (case x of Fl m e \<Rightarrow>
     min u64_max (nat (if 0 \<le> e then m * 2 ^ nat e else m div 2 ^ nat (- e))))"

section \<open>The limiter\<close>

definition BUCKET_MAX_AGE :: int where "BUCKET_MAX_AGE = 3600 * ns_per_sec"

text \<open>\<open>Duration::as_secs_f64\<close>\<close>

definition secs_f64 :: "int \<Rightarrow> fl" where
  "secs_f64 d = fl_add 53 (fl_of_int 53 (d div ns_per_sec))
     (fl_div 53 (fl_of_int 53 (d mod ns_per_sec)) (fl_of_int 53 ns_per_sec))"

definition replenish :: "int \<Rightarrow> nat \<Rightarrow> nat" where
  "replenish elapsed limit =
     fl_to_u64 (fl_mul 53 (fl_div 53 (secs_f64 elapsed) (secs_f64 (60 * ns_per_sec))) (fl_of_int 53 (int limit)))"

definition duration_since :: "tstamp \<Rightarrow> tstamp \<Rightarrow> int" where
  "duration_since now t = max 0 (now - t)"

definition rate_check :: "tstamp \<Rightarrow> string \<Rightarrow> nat \<Rightarrow> (string \<times> bucket) list \<Rightarrow> bool \<times> (string \<times> bucket) list" where
  "rate_check now key limit bs =
     (if limit = 0 then (True, bs)
      else
        (let bs = (if length bs > 1000
                   then filter (\<lambda>(_, b). duration_since now (bk_last_update b) < BUCKET_MAX_AGE) bs else bs);
             b = unwrap_or (map_of bs key) \<lparr>bk_tokens = limit, bk_last_update = now\<rparr>;
             tokens = min ((bk_tokens b + replenish (duration_since now (bk_last_update b)) limit)
                             mod (u64_max + 1)) limit
         in if tokens > 0
            then (True, AList.update key \<lparr>bk_tokens = tokens - 1, bk_last_update = now\<rparr> bs)
            else (False, AList.update key \<lparr>bk_tokens = tokens, bk_last_update = now\<rparr> bs)))"

definition rate_clear :: "(string \<times> bucket) list \<Rightarrow> (string \<times> bucket) list" where
  "rate_clear bs = []"

text \<open>The answers to requests with one key at the given times.\<close>

fun rate_run :: "string \<Rightarrow> nat \<Rightarrow> tstamp list \<Rightarrow> (string \<times> bucket) list \<Rightarrow> bool list" where
  "rate_run key limit [] bs = []"
| "rate_run key limit (t # ts) bs =
     (case rate_check t key limit bs of (a, bs') \<Rightarrow> a # rate_run key limit ts bs')"

section \<open>Lemmas\<close>

lemma map_of_filter:
  "distinct (map fst m) \<Longrightarrow> map_of (filter (\<lambda>(_, v). P v) m) k = opt_filter P (map_of m k)"
proof (induction m)
  case (Cons e m)
  have "map_of m (fst e) = None" using Cons.prems by (simp add: map_of_eq_None_iff)
  with Cons show ?case by (cases e) (auto simp: opt_filter_def split: option.splits if_splits)
qed (simp add: opt_filter_def)

text \<open>A check on a bucket the cleanup leaves, and on one that is not there.\<close>

lemma rate_check_present:
  assumes "distinct (map fst bs)" and "map_of bs k = Some b" and "0 < limit"
    and "duration_since now (bk_last_update b) < BUCKET_MAX_AGE"
  defines "tokens \<equiv> min ((bk_tokens b + replenish (duration_since now (bk_last_update b)) limit) mod (u64_max + 1)) limit"
  obtains bs' where "rate_check now k limit bs = (0 < tokens, bs')" and "distinct (map fst bs')"
    and "map_of bs' k = Some \<lparr>bk_tokens = tokens - 1, bk_last_update = now\<rparr>"
proof -
  define bs1 where "bs1 = (if length bs > 1000
    then filter (\<lambda>(_, b). duration_since now (bk_last_update b) < BUCKET_MAX_AGE) bs else bs)"
  have bs1: "distinct (map fst bs1)" "map_of bs1 k = Some b"
    using assms(1,2,4) map_of_filter [OF assms(1), of "\<lambda>b. duration_since now (bk_last_update b) < BUCKET_MAX_AGE" k]
    by (simp_all add: bs1_def distinct_map_filter opt_filter_def)
  define bs' where "bs' = AList.update k \<lparr>bk_tokens = tokens - 1, bk_last_update = now\<rparr> bs1"
  have "rate_check now k limit bs = (0 < tokens, bs')"
    unfolding rate_check_def bs1_def [symmetric] Let_def bs1(2)
    using assms(3) by (simp add: unwrap_or_def tokens_def bs'_def)
  moreover have "distinct (map fst bs')" using bs1(1) by (simp add: bs'_def distinct_update)
  ultimately show thesis by (rule that) (simp only: bs'_def hm.look_ins if_True simp_thms)
qed

lemma rate_check_absent:
  assumes "distinct (map fst bs)" and "map_of bs k = None" and "0 < limit" "limit \<le> u64_max"
  obtains bs' where "rate_check now k limit bs = (True, bs')" and "distinct (map fst bs')"
    and "map_of bs' k = Some \<lparr>bk_tokens = limit - 1, bk_last_update = now\<rparr>"
proof -
  define bs1 where "bs1 = (if length bs > 1000
    then filter (\<lambda>(_, b). duration_since now (bk_last_update b) < BUCKET_MAX_AGE) bs else bs)"
  have bs1: "distinct (map fst bs1)" "map_of bs1 k = None"
    using assms(1,2) map_of_filter [OF assms(1), of "\<lambda>b. duration_since now (bk_last_update b) < BUCKET_MAX_AGE" k]
    by (simp_all add: bs1_def distinct_map_filter opt_filter_def)
  have "replenish 0 limit = 0"
    by (simp add: replenish_def secs_f64_def fl_of_int_def fl_round_def fl_add_def fl_div_def fl_mul_def
        bit_len_0 fl_to_u64_def split: fl.split)
  then have "rate_check now k limit bs = (True, AList.update k \<lparr>bk_tokens = limit - 1, bk_last_update = now\<rparr> bs1)"
    unfolding rate_check_def bs1_def [symmetric] Let_def bs1(2)
    using assms(3,4) by (simp add: unwrap_or_def duration_since_def)
  moreover have "distinct (map fst (AList.update k \<lparr>bk_tokens = limit - 1, bk_last_update = now\<rparr> bs1))"
    using bs1(1) by (simp add: distinct_update)
  ultimately show thesis by (rule that) (simp only: hm.look_ins if_True simp_thms)
qed

section \<open>Properties\<close>

text \<open>What the pauses between the requests earn.\<close>

fun earned :: "nat \<Rightarrow> tstamp \<Rightarrow> tstamp list \<Rightarrow> nat" where
  "earned limit t [] = 0"
| "earned limit t (u # us) = replenish (duration_since u t) limit + earned limit u us"

fun pauses :: "(int \<Rightarrow> bool) \<Rightarrow> tstamp \<Rightarrow> tstamp list \<Rightarrow> bool" where
  "pauses P t [] = True"
| "pauses P t (u # us) \<longleftrightarrow> P (duration_since u t) \<and> pauses P u us"

definition count_true :: "bool list \<Rightarrow> nat" where
  "count_true as = length (filter id as)"

lemma rate_run_bound:
  assumes "distinct (map fst bs)" and "map_of bs k = Some b" and "0 < limit"
    and "pauses (\<lambda>d. d < BUCKET_MAX_AGE) (bk_last_update b) ts"
  shows "count_true (rate_run k limit ts bs) \<le> bk_tokens b + earned limit (bk_last_update b) ts"
  using assms(1,2,4)
proof (induction ts arbitrary: bs b)
  case Nil
  show ?case by (simp add: count_true_def)
next
  case (Cons t ts)
  let ?r = "replenish (duration_since t (bk_last_update b)) limit"
  let ?n = "min ((bk_tokens b + ?r) mod (u64_max + 1)) limit"
  have "duration_since t (bk_last_update b) < BUCKET_MAX_AGE" using Cons.prems(3) by simp
  then obtain bs' where step: "rate_check t k limit bs = (0 < ?n, bs')" "distinct (map fst bs')"
      "map_of bs' k = Some \<lparr>bk_tokens = ?n - 1, bk_last_update = t\<rparr>"
    by (rule rate_check_present [OF Cons.prems(1,2) assms(3)])
  have "count_true (rate_run k limit ts bs') \<le> ?n - 1 + earned limit t ts"
    using Cons.IH [OF step(2,3)] Cons.prems(3) by simp
  moreover have "count_true (rate_run k limit (t # ts) bs) = of_bool (0 < ?n) + count_true (rate_run k limit ts bs')"
    by (simp add: step(1) count_true_def del: min_less_iff_conj)
  moreover have "?n \<le> bk_tokens b + ?r"
    by (rule order_trans [OF min.cobounded1 mod_less_eq_dividend])
  ultimately show ?case by (cases "?n = 0") (simp_all del: min_less_iff_conj)
qed



text \<open>
  A pause whose share of the limit is below one token earns nothing and still resets the clock: a
  key whose bucket is empty is refused for as long as its requests come at such pauses, whatever time
  passes.
\<close>

theorem rate_limit_starves:
  assumes "distinct (map fst bs)" and "map_of bs k = Some b" and "bk_tokens b = 0" and "0 < limit"
    and "pauses (\<lambda>d. d < BUCKET_MAX_AGE \<and> replenish d limit = 0) (bk_last_update b) ts"
  shows "rate_run k limit ts bs = replicate (length ts) False"
  using assms(1-3,5)
proof (induction ts arbitrary: bs b)
  case (Cons t ts)
  have d: "duration_since t (bk_last_update b) < BUCKET_MAX_AGE"
    and r: "replenish (duration_since t (bk_last_update b)) limit = 0"
    using Cons.prems(4) by simp_all
  obtain bs' where "rate_check t k limit bs = (0 < (0::nat), bs')" "distinct (map fst bs')"
      "map_of bs' k = Some \<lparr>bk_tokens = 0 - 1, bk_last_update = t\<rparr>"
    using rate_check_present [OF Cons.prems(1,2) assms(4) d] by (auto simp: r Cons.prems(3))
  with Cons.IH [of bs'] Cons.prems(4) show ?case by simp
qed simp

text \<open>A limit of 50 a minute, and a request every 1.1 seconds.\<close>

lemma replenish_50: "replenish 1100000000 50 = 0"
  by (simp add: replenish_def secs_f64_def ns_per_sec_def fl_of_int_def fl_round_def fl_add_def fl_div_def
      fl_mul_def bit_len.simps round_shift_def fl_to_u64_def u64_max_def Let_def)

theorem rate_limit_starves_witness:
  "rate_run ''k'' 50 [1100000000, 2200000000, 3300000000] [(''k'', \<lparr>bk_tokens = 0, bk_last_update = 0\<rparr>)]
    = replicate 3 False"
  using rate_limit_starves [of "[(''k'', \<lparr>bk_tokens = 0, bk_last_update = 0\<rparr>)]" "''k''" _ 50
      "[1100000000, 2200000000, 3300000000]"]
  by (simp add: duration_since_def BUCKET_MAX_AGE_def ns_per_sec_def replenish_50 numeral_3_eq_3)

end
