(* ===== verification/HttpApi.thy ===== *)
theory HttpApi
  imports RateLimit
begin

text \<open>
  What the HTTP handlers of the hub share (pp-hub, response.rs and routes/common.rs): the error
  answers, and the pages of a listing. A handler returns an error or its data; what the framework
  does around it (parsing the payload into the handler's type, printing the answer) is left out.
\<close>

datatype http_status =
  BAD_REQUEST | UNAUTHORIZED | FORBIDDEN | NOT_FOUND | CONFLICT | TOO_MANY_REQUESTS
  | INTERNAL_SERVER_ERROR | BAD_GATEWAY | SERVICE_UNAVAILABLE
  | GATEWAY_TIMEOUT

record api_error =
  ae_status :: http_status
  ae_code :: string
  ae_message :: string

definition bad_request :: "string \<Rightarrow> string \<Rightarrow> api_error" where
  "bad_request code msg = \<lparr>ae_status = BAD_REQUEST, ae_code = code, ae_message = msg\<rparr>"

definition not_found :: "string \<Rightarrow> api_error" where
  "not_found msg = \<lparr>ae_status = NOT_FOUND, ae_code = ''not_found'', ae_message = msg\<rparr>"

definition internal :: "string \<Rightarrow> api_error" where
  "internal msg = \<lparr>ae_status = INTERNAL_SERVER_ERROR, ae_code = ''internal_error'', ae_message = msg\<rparr>"

lemma api_error_status [simp]:
  "ae_status (bad_request c m) = BAD_REQUEST" "ae_status (not_found m) = NOT_FOUND"
  "ae_status (internal m) = INTERNAL_SERVER_ERROR"
  by (simp_all add: bad_request_def not_found_def internal_def)

section \<open>Pages\<close>

type_synonym params = "(string \<times> string) list"

definition clamp :: "nat \<Rightarrow> nat \<Rightarrow> nat \<Rightarrow> nat" where
  "clamp lo hi n = max lo (min hi n)"

definition parse_pagination :: "params \<Rightarrow> (nat \<times> nat) option" where
  "parse_pagination ps =
     Option.bind (Option.bind (map_of ps ''page'') (parse_uint u64_max)) (\<lambda>page.
     Option.bind (Option.bind (map_of ps ''per_page'') (parse_uint u64_max)) (\<lambda>per_page.
       Some (max 1 page, clamp 1 1000 per_page)))"

text \<open>
  The rows of the page, and the number of rows in all; \<open>(page - 1) * per_page\<close> wraps at 64 bits.
\<close>

definition paged :: "params \<Rightarrow> 'r list \<Rightarrow> 'r list \<times> nat" where
  "paged ps rows =
     (case parse_pagination ps of
        Some (page, per_page) \<Rightarrow>
          (take per_page (drop ((page - 1) * per_page mod (u64_max + 1)) rows), length rows)
      | None \<Rightarrow> (rows, length rows))"

lemma parse_pagination_bounds:
  "parse_pagination ps = Some (page, per_page) \<Longrightarrow> 1 \<le> page \<and> 1 \<le> per_page \<and> per_page \<le> 1000"
  by (auto simp: parse_pagination_def clamp_def bind_eq_Some_conv)

lemma paged_total [simp]: "snd (paged ps rows) = length rows"
  by (simp add: paged_def split: option.split)

text \<open>The pages of a listing, put together, are the listing.\<close>

lemma pages_cover:
  assumes "0 < per_page"
  shows "concat (map (\<lambda>p. take per_page (drop (p * per_page) rows)) [0..<n]) = take (n * per_page) rows"
proof (induction n)
  case (Suc n)
  have "take (Suc n * per_page) rows = take (n * per_page) rows @ take per_page (drop (n * per_page) rows)"
    by (simp add: take_add [symmetric] add.commute)
  with Suc show ?case by simp
qed simp

end
