(* ===== verification/ApiKeys.thy ===== *)
theory ApiKeys
  imports HttpApi
begin

text \<open>
  API keys (pp-hub, middleware/api_key.rs and routes/api_key.rs): the check every request to the
  protected API passes (the key, its expiry, its address allowlist, its rate limit, with a cache of
  verified keys), the scope check of a route, and the handlers that create, change and delete keys.
  The reader of network prefixes (ipnet) is a parameter: what a text that is one contains.
\<close>

section \<open>Requests\<close>

record http_request =
  hr_headers :: "(string \<times> string) list"
  hr_peer :: "ip_addr option"

record api_key_auth =
  au_key_id :: uuid
  au_name :: string
  au_scopes :: "string list"

definition ALL_SCOPES :: "string list" where
  "ALL_SCOPES =
    [''nodes:read'', ''nodes:write'', ''clients:read'', ''clients:write'', ''protocols:read'',
     ''protocols:write'', ''bindings:read'', ''bindings:write'', ''groups:read'', ''groups:write'',
     ''subscriptions:read'', ''subscriptions:write'', ''templates:read'', ''templates:write'',
     ''apikeys:read'', ''apikeys:write'', ''webhooks:read'', ''webhooks:write'', ''traffic:read'',
     ''metrics:read'', ''onlines:read'', ''logs:read'', ''system:read'', ''system:write'', ''*'']"

definition has_scope :: "api_key_auth \<Rightarrow> string \<Rightarrow> bool" where
  "has_scope a required = list_ex (\<lambda>s. s = required \<or> s = ''*'') (au_scopes a)"

text \<open>\<open>HeaderValue::to_str\<close>: visible ASCII and tabs only.\<close>

definition to_str :: "string \<Rightarrow> string option" where
  "to_str v = (if list_all (\<lambda>c. let n = of_char c :: nat in (32 \<le> n \<and> n < 127) \<or> n = 9) v then Some v else None)"

definition header_str :: "http_request \<Rightarrow> string \<Rightarrow> string option" where
  "header_str r name = Option.bind (map_of (hr_headers r) name) to_str"

definition extract_key :: "http_request \<Rightarrow> string" where
  "extract_key r =
     (case header_str r ''x-api-key'' of
        Some v \<Rightarrow> trim v
      | None \<Rightarrow>
          (case Option.bind (header_str r ''authorization'') (strip_prefix ''Bearer '') of
             Some token \<Rightarrow> trim token
           | None \<Rightarrow> []))"

definition extract_client_ip :: "http_request \<Rightarrow> ip_addr set option \<Rightarrow> string" where
  "extract_client_ip r trusted =
     (let direct = hr_peer r;
          forwarded = Option.bind (header_str r ''x-forwarded-for'')
                        (\<lambda>s. parse_ip (trim (hd (split_on (CHR '','') s))));
          plain = unwrap_or (map_option show_ip direct) []
      in case (forwarded, trusted) of
           (Some ip, Some t) \<Rightarrow>
             if unwrap_or (map_option (\<lambda>d. d \<in> t) direct) False then show_ip ip else plain
         | _ \<Rightarrow> plain)"

type_synonym prefixes = "string \<Rightarrow> (ip_addr \<Rightarrow> bool) option"

definition ip_matches :: "prefixes \<Rightarrow> string \<Rightarrow> string \<Rightarrow> bool" where
  "ip_matches net client_ip pattern =
     (if CHR ''/'' \<in> set pattern
      then (case (net pattern, parse_ip client_ip) of (Some p, Some ip) \<Rightarrow> p ip | _ \<Rightarrow> False)
      else client_ip = pattern)"

definition allowlist_ok :: "prefixes \<Rightarrow> ip_addr set option \<Rightarrow> http_request \<Rightarrow> json option \<Rightarrow> bool" where
  "allowlist_ok net trusted r allowlist =
     (case Option.bind allowlist as_array of
        None \<Rightarrow> True
      | Some ips \<Rightarrow>
          (let allowed = List.map_filter as_str ips
           in allowed = [] \<or> list_ex (ip_matches net (extract_client_ip r trusted)) allowed))"

section \<open>The check\<close>

definition expired :: "tstamp \<Rightarrow> tstamp option \<Rightarrow> bool" where
  "expired now e = unwrap_or (map_option (\<lambda>t. t < now) e) False"

definition check_rate :: "tstamp \<Rightarrow> uuid \<Rightarrow> int option \<Rightarrow> hub \<Rightarrow> bool \<times> hub" where
  "check_rate now i limit h =
     (case opt_filter (\<lambda>l. l > 0) limit of
        None \<Rightarrow> (True, h)
      | Some l \<Rightarrow>
          (case rate_check now (''rate:apikey:'' @ i) (nat l) (h_buckets h) of
             (ok, bs) \<Rightarrow> (ok, h\<lparr>h_buckets := bs\<rparr>)))"

definition key_scopes :: "api_key \<Rightarrow> string list" where
  "key_scopes k = unwrap_or (map_option (List.map_filter as_str) (as_array (ak_scopes k))) []"

definition key_auth :: "api_key \<Rightarrow> api_key_auth" where
  "key_auth k = \<lparr>au_key_id = ak_id k, au_name = ak_name k, au_scopes = key_scopes k\<rparr>"

definition cache_entry :: "tstamp \<Rightarrow> api_key \<Rightarrow> cached_api_key" where
  "cache_entry now k =
     \<lparr>ck_key_id = ak_id k, ck_name = ak_name k, ck_scopes = key_scopes k, ck_expires_at = ak_expires_at k,
      ck_ip_allowlist = ak_ip_allowlist k, ck_rate_limit = ak_rate_limit k, ck_cached_at = now\<rparr>"

text \<open>A request whose key is in the cache.\<close>

definition check_cached ::
    "prefixes \<Rightarrow> ip_addr set option \<Rightarrow> tstamp \<Rightarrow> http_request \<Rightarrow> cached_api_key \<Rightarrow> hub \<Rightarrow>
     (http_status + api_key_auth) \<times> hub" where
  "check_cached net trusted now r e h =
     (if expired now (ck_expires_at e) then (Inl UNAUTHORIZED, cache_invalidate h)
      else if \<not> allowlist_ok net trusted r (ck_ip_allowlist e) then (Inl FORBIDDEN, h)
      else
        (case check_rate now (ck_key_id e) (ck_rate_limit e) h of
           (ok, h) \<Rightarrow>
             if ok then (Inr \<lparr>au_key_id = ck_key_id e, au_name = ck_name e, au_scopes = ck_scopes e\<rparr>, h)
             else (Inl TOO_MANY_REQUESTS, h)))"

text \<open>A request whose key is not: the row it verifies against, then the checks on the row.\<close>

definition find_key :: "crates \<Rightarrow> string \<Rightarrow> db \<Rightarrow> api_key option" where
  "find_key x key d =
     find (\<lambda>k. unwrap_or (verify_secret x key (ak_key_hash k)) False) (filter ak_is_active (db_api_keys d))"

definition check_row ::
    "crates \<Rightarrow> prefixes \<Rightarrow> ip_addr set option \<Rightarrow> tstamp \<Rightarrow> http_request \<Rightarrow> api_key \<Rightarrow> hub \<Rightarrow>
     (http_status + api_key_auth) \<times> hub" where
  "check_row x net trusted now r k h =
     (if expired now (ak_expires_at k) then (Inl UNAUTHORIZED, h)
      else if \<not> allowlist_ok net trusted r (ak_ip_allowlist k) then (Inl FORBIDDEN, h)
      else
        (case check_rate now (ak_id k) (ak_rate_limit k) h of
           (ok, h) \<Rightarrow>
             if ok
             then (Inr (key_auth k), cache_insert (x_sha256_hex x (extract_key r)) (cache_entry now k) h)
             else (Inl TOO_MANY_REQUESTS, h)))"

definition require_api_key ::
    "crates \<Rightarrow> prefixes \<Rightarrow> ip_addr set option \<Rightarrow> tstamp \<Rightarrow> http_request \<Rightarrow> hub \<Rightarrow>
     (http_status + api_key_auth) \<times> hub" where
  "require_api_key x net trusted now r h =
     (let key = extract_key r in
      if key = [] then (Inl UNAUTHORIZED, h)
      else
        (case cache_get now (x_sha256_hex x key) h of
           Some e \<Rightarrow> check_cached net trusted now r e h
         | None \<Rightarrow>
             (case find_key x key (h_db h) of
                None \<Rightarrow> (Inl UNAUTHORIZED, h)
              | Some k \<Rightarrow> check_row x net trusted now r k h)))"

definition require_scope :: "string \<Rightarrow> api_key_auth \<Rightarrow> http_status + api_key_auth" where
  "require_scope scope a = (if has_scope a scope then Inr a else Inl FORBIDDEN)"

section \<open>The handlers\<close>

definition json_array :: "json option \<Rightarrow> json" where
  "json_array v = JArr (unwrap_or (Option.bind v as_array) [])"

definition validate_scopes :: "json \<Rightarrow> string + unit" where
  "validate_scopes scopes =
     (case as_array scopes of
        None \<Rightarrow> Inl ''scopes must be an array''
      | Some arr \<Rightarrow>
          foldr (\<lambda>v rest. case as_str v of
              None \<Rightarrow> Inl ''scope must be a string''
            | Some s \<Rightarrow> if s = ''*'' \<or> s \<in> set ALL_SCOPES then rest else Inl ''unknown scope'') arr (Inr ()))"

definition key_to_json :: "calendar \<Rightarrow> api_key \<Rightarrow> json" where
  "key_to_json cal k = jobj
     [(''id'', JStr (ak_id k)), (''name'', JStr (ak_name k)), (''scopes'', ak_scopes k),
      (''ip_allowlist'', unwrap_or (ak_ip_allowlist k) JNull),
      (''rate_limit'', (case ak_rate_limit k of None \<Rightarrow> JNull | Some n \<Rightarrow> jint n)),
      (''expires_at'', opt_json (map_option (cal_rfc3339 cal) (ak_expires_at k))),
      (''is_active'', JBool (ak_is_active k)), (''created_at'', JStr (cal_rfc3339 cal (ak_created_at k)))]"

definition list_keys :: "calendar \<Rightarrow> params \<Rightarrow> db \<Rightarrow> json list \<times> nat" where
  "list_keys cal ps d = (case paged ps (db_api_keys d) of (ks, n) \<Rightarrow> (map (key_to_json cal) ks, n))"

record create_key_payload =
  cp_name :: string
  cp_scopes :: "json option"
  cp_ip_allowlist :: "json option"
  cp_rate_limit :: "int option"

text \<open>\<open>v as i32\<close>\<close>

definition wrap32 :: "int \<Rightarrow> int" where
  "wrap32 n = (n + 2147483648) mod 4294967296 - 2147483648"

text \<open>
  \<open>raw\<close> is the new key, \<open>hash\<close> what the Argon2 hash of it gives, \<open>new_id\<close> the row's id. The answer
  shows the raw key.
\<close>

definition create_key ::
    "tstamp \<Rightarrow> string \<Rightarrow> (string + string) \<Rightarrow> uuid \<Rightarrow> create_key_payload \<Rightarrow> hub \<Rightarrow> (api_error + json) \<times> hub" where
  "create_key now raw hash new_id p h =
     (if trim (cp_name p) = [] then (Inl (bad_request ''invalid_name'' ''API key name is required''), h)
      else
        (case hash of
           Inl e \<Rightarrow> (Inl (internal (''failed to hash key: '' @ e)), h)
         | Inr key_hash \<Rightarrow>
             (let scopes = json_array (cp_scopes p) in
              case validate_scopes scopes of
                Inl e \<Rightarrow> (Inl (bad_request ''invalid_scopes'' e), h)
              | Inr _ \<Rightarrow>
                  (let k = \<lparr>ak_id = new_id, ak_name = cp_name p, ak_key_hash = key_hash, ak_scopes = scopes,
                            ak_ip_allowlist = cp_ip_allowlist p,
                            ak_rate_limit = map_option wrap32 (cp_rate_limit p), ak_expires_at = None,
                            ak_is_active = True, ak_created_at = now, ak_updated_at = now\<rparr>
                   in (Inr (jobj [(''id'', JStr new_id), (''name'', JStr (cp_name p)), (''key'', JStr raw),
                                  (''scopes'', scopes), (''is_active'', JBool True)]),
                       cache_invalidate (upd_db (\<lambda>d. d\<lparr>db_api_keys := tbl_insert k (db_api_keys d)\<rparr>) h))))))"

record update_key_payload =
  up_name :: "string option"
  up_scopes :: "json option"
  up_ip_allowlist :: "json option"
  up_rate_limit :: "int option"
  up_is_active :: "bool option"

definition update_key_row :: "tstamp \<Rightarrow> update_key_payload \<Rightarrow> api_key \<Rightarrow> api_key" where
  "update_key_row now p k =
     k\<lparr>ak_name := unwrap_or (up_name p) (ak_name k),
       ak_scopes := (if up_scopes p \<noteq> None then json_array (up_scopes p) else ak_scopes k),
       ak_ip_allowlist := or_else (up_ip_allowlist p) (ak_ip_allowlist k),
       ak_rate_limit := or_else (map_option wrap32 (up_rate_limit p)) (ak_rate_limit k),
       ak_is_active := unwrap_or (up_is_active p) (ak_is_active k), ak_updated_at := now\<rparr>"

definition update_key ::
    "calendar \<Rightarrow> tstamp \<Rightarrow> uuid \<Rightarrow> update_key_payload \<Rightarrow> hub \<Rightarrow> (api_error + json) \<times> hub" where
  "update_key cal now i p h =
     (case tbl_find ak_id i (db_api_keys (h_db h)) of
        None \<Rightarrow> (Inl (not_found ''API key not found''), h)
      | Some k \<Rightarrow>
          if unwrap_or (map_option (\<lambda>n. trim n = []) (up_name p)) False
          then (Inl (bad_request ''invalid_name'' ''API key name cannot be empty''), h)
          else
            (case (if up_scopes p \<noteq> None then validate_scopes (json_array (up_scopes p)) else Inr ()) of
               Inl e \<Rightarrow> (Inl (bad_request ''invalid_scopes'' e), h)
             | Inr _ \<Rightarrow>
                 (Inr (key_to_json cal (update_key_row now p k)),
                  cache_invalidate (upd_db (\<lambda>d. d\<lparr>db_api_keys :=
                    tbl_update ak_id i (update_key_row now p) (db_api_keys d)\<rparr>) h))))"

definition delete_key :: "uuid \<Rightarrow> hub \<Rightarrow> (api_error + unit) \<times> hub" where
  "delete_key i h =
     (let h' = upd_db (\<lambda>d. d\<lparr>db_api_keys := tbl_delete (\<lambda>k. ak_id k = i) (db_api_keys d)\<rparr>) h
      in if length (db_api_keys (h_db h')) = length (db_api_keys (h_db h))
         then (Inl (not_found ''API key not found''), h')
         else (Inr (), cache_invalidate h'))"

end
