(* ===== verification/KeyCheck.thy ===== *)
theory KeyCheck
  imports ApiKeys
begin

text \<open>
  Properties of the API keys: what an accepted request has shown, in every state the handlers reach;
  a revocation that a running check undoes; limits and allowlists that do not take effect.
\<close>

section \<open>The cache agrees with the table\<close>

definition shows_key :: "crates \<Rightarrow> string \<Rightarrow> api_key \<Rightarrow> bool" where
  "shows_key x ck k \<longleftrightarrow> (\<exists>s. x_sha256_hex x s = ck \<and> verify_secret x s (ak_key_hash k) = Some True)"

definition key_cache_ok :: "crates \<Rightarrow> hub \<Rightarrow> bool" where
  "key_cache_ok x h \<longleftrightarrow> (\<forall>ck e. map_of (h_key_cache h) ck = Some e \<longrightarrow>
     (\<exists>k \<in> set (db_api_keys (h_db h)). ak_is_active k \<and> shows_key x ck k \<and> (\<exists>t. e = cache_entry t k)))"

definition key_accepted ::
    "crates \<Rightarrow> prefixes \<Rightarrow> ip_addr set option \<Rightarrow> tstamp \<Rightarrow> http_request \<Rightarrow> hub \<Rightarrow> api_key_auth \<Rightarrow> bool" where
  "key_accepted x net trusted now r h a \<longleftrightarrow>
     (\<exists>k \<in> set (db_api_keys (h_db h)). ak_is_active k \<and> a = key_auth k
        \<and> \<not> expired now (ak_expires_at k) \<and> allowlist_ok net trusted r (ak_ip_allowlist k)
        \<and> shows_key x (x_sha256_hex x (extract_key r)) k)"

lemma cache_entry_auth [simp]:
  "ck_key_id (cache_entry t k) = ak_id k" "ck_expires_at (cache_entry t k) = ak_expires_at k"
  "ck_ip_allowlist (cache_entry t k) = ak_ip_allowlist k" "ck_rate_limit (cache_entry t k) = ak_rate_limit k"
  "\<lparr>au_key_id = ak_id k, au_name = ck_name (cache_entry t k), au_scopes = ck_scopes (cache_entry t k)\<rparr> = key_auth k"
  by (simp_all add: cache_entry_def key_auth_def)

lemma check_rate_frame:
  "check_rate now i l h = (ok, h') \<Longrightarrow> h_db h' = h_db h \<and> h_key_cache h' = h_key_cache h"
  by (auto simp: check_rate_def split: option.splits prod.splits)

lemma key_cache_ok_frame:
  "db_api_keys (h_db h') = db_api_keys (h_db h) \<Longrightarrow> h_key_cache h' = h_key_cache h \<Longrightarrow>
   key_cache_ok x h \<Longrightarrow> key_cache_ok x h'"
  by (simp add: key_cache_ok_def)

lemma key_cache_ok_empty: "h_key_cache h = [] \<Longrightarrow> key_cache_ok x h"
  by (simp add: key_cache_ok_def)

lemma key_cache_ok_invalidate [simp]: "key_cache_ok x (cache_invalidate h)"
  by (simp add: key_cache_ok_def cache_invalidate_def)

lemma check_rate_ok: "check_rate now i l h = (ok, h') \<Longrightarrow> key_cache_ok x h \<Longrightarrow> key_cache_ok x h'"
  by (rule key_cache_ok_frame) (auto dest: check_rate_frame)

lemma find_SomeD: "find P xs = Some x \<Longrightarrow> x \<in> set xs \<and> P x"
  by (metis find_Some_iff nth_mem)

lemma find_key_Some:
  "find_key x key d = Some k \<Longrightarrow>
   k \<in> set (db_api_keys d) \<and> ak_is_active k \<and> verify_secret x key (ak_key_hash k) = Some True"
  unfolding find_key_def by (auto simp: unwrap_or_def split: option.splits dest!: find_SomeD)

lemma check_cached_sound:
  assumes "check_cached net trusted now r e h = (res, h')" and "key_cache_ok x h"
    and "map_of (h_key_cache h) (x_sha256_hex x (extract_key r)) = Some e"
  shows "key_cache_ok x h' \<and> db_api_keys (h_db h') = db_api_keys (h_db h)
    \<and> (\<forall>a. res = Inr a \<longrightarrow> key_accepted x net trusted now r h a)"
proof -
  from assms(2,3) obtain k t where k: "k \<in> set (db_api_keys (h_db h))" "ak_is_active k"
      "shows_key x (x_sha256_hex x (extract_key r)) k" "e = cache_entry t k"
    unfolding key_cache_ok_def by metis
  show ?thesis
    using assms(1,2) k
    by (auto simp: check_cached_def key_accepted_def cache_invalidate_def key_cache_ok_empty
        split: if_splits prod.splits dest: check_rate_frame check_rate_ok)
qed

lemma check_row_sound:
  assumes "check_row x net trusted now r k h = (res, h')" and "key_cache_ok x h"
    and k: "find_key x (extract_key r) (h_db h) = Some k"
  shows "key_cache_ok x h' \<and> db_api_keys (h_db h') = db_api_keys (h_db h)
    \<and> (\<forall>a. res = Inr a \<longrightarrow> key_accepted x net trusted now r h a)"
proof -
  from k have k': "k \<in> set (db_api_keys (h_db h))" "ak_is_active k"
      "shows_key x (x_sha256_hex x (extract_key r)) k"
    by (auto simp: shows_key_def dest!: find_key_Some)
  have insert: "key_cache_ok x (cache_insert (x_sha256_hex x (extract_key r)) (cache_entry now k) g)"
    if "h_db g = h_db h" "h_key_cache g = h_key_cache h" for g
    using assms(2) k' that by (auto simp: key_cache_ok_def cache_insert_def hm.look_ins split: if_splits)
  show ?thesis
  proof (cases "expired now (ak_expires_at k) \<or> \<not> allowlist_ok net trusted r (ak_ip_allowlist k)")
    case True
    with assms(1,2) show ?thesis by (auto simp: check_row_def split: if_splits)
  next
    case False
    obtain ok g where g: "check_rate now (ak_id k) (ak_rate_limit k) h = (ok, g)" by (rule prod.exhaust)
    note frame = check_rate_frame [OF g]
    show ?thesis
    proof (cases ok)
      case True
      with assms(1) False g have "res = Inr (key_auth k)"
        "h' = cache_insert (x_sha256_hex x (extract_key r)) (cache_entry now k) g"
        by (auto simp: check_row_def)
      with insert [of g] frame False k' show ?thesis
        by (auto simp: key_accepted_def cache_insert_def)
    next
      case no: False
      with assms(1) False g have "res = Inl TOO_MANY_REQUESTS" "h' = g" by (auto simp: check_row_def)
      with frame assms(2) show ?thesis by (auto intro: key_cache_ok_frame)
    qed
  qed
qed

lemma cache_get_Some: "cache_get now ck h = Some e \<Longrightarrow> map_of (h_key_cache h) ck = Some e"
  by (auto simp: cache_get_def opt_filter_def split: option.splits if_splits)

lemma require_sound:
  assumes "require_api_key x net trusted now r h = (res, h')" and "key_cache_ok x h"
  shows "key_cache_ok x h' \<and> db_api_keys (h_db h') = db_api_keys (h_db h)
    \<and> (\<forall>a. res = Inr a \<longrightarrow> key_accepted x net trusted now r h a)"
proof (cases "extract_key r = []")
  case True
  with assms show ?thesis by (auto simp: require_api_key_def)
next
  case False
  show ?thesis
  proof (cases "cache_get now (x_sha256_hex x (extract_key r)) h")
    case (Some e)
    with False assms(1) have "check_cached net trusted now r e h = (res, h')" by (simp add: require_api_key_def)
    from check_cached_sound [OF this assms(2) cache_get_Some [OF Some]] show ?thesis .
  next
    case None
    show ?thesis
    proof (cases "find_key x (extract_key r) (h_db h)")
      case miss: None
      with None False assms show ?thesis by (auto simp: require_api_key_def)
    next
      case (Some k)
      with None False assms(1) have "check_row x net trusted now r k h = (res, h')" by (simp add: require_api_key_def)
      from check_row_sound [OF this assms(2) Some] show ?thesis .
    qed
  qed
qed

section \<open>The states the handlers reach\<close>

text \<open>
  A step is a request, a change of the keys by one of the handlers, or a change of the hub that
  leaves the keys' table and the cache alone, as every other part of the hub does.
\<close>

inductive key_step ::
    "crates \<Rightarrow> prefixes \<Rightarrow> ip_addr set option \<Rightarrow> calendar \<Rightarrow> hub \<Rightarrow> hub \<Rightarrow> bool" for x net trusted cal where
  Request: "key_step x net trusted cal h (snd (require_api_key x net trusted now r h))"
| CreateKey: "key_step x net trusted cal h (snd (create_key now raw hash i p h))"
| UpdateKey: "key_step x net trusted cal h (snd (update_key cal now i up h))"
| DeleteKey: "key_step x net trusted cal h (snd (delete_key i h))"
| Elsewhere: "db_api_keys (h_db h') = db_api_keys (h_db h) \<Longrightarrow> h_key_cache h' = h_key_cache h \<Longrightarrow>
    key_step x net trusted cal h h'"

inductive key_reachable ::
    "crates \<Rightarrow> prefixes \<Rightarrow> ip_addr set option \<Rightarrow> calendar \<Rightarrow> hub \<Rightarrow> hub \<Rightarrow> bool" for x net trusted cal h0 where
  key_init: "key_reachable x net trusted cal h0 h0"
| key_next: "key_reachable x net trusted cal h0 h \<Longrightarrow> key_step x net trusted cal h h' \<Longrightarrow>
    key_reachable x net trusted cal h0 h'"

lemma create_key_ok: "key_cache_ok x h \<Longrightarrow> key_cache_ok x (snd (create_key now raw hash i p h))"
  by (simp add: create_key_def Let_def split: sum.split)

lemma update_key_ok: "key_cache_ok x h \<Longrightarrow> key_cache_ok x (snd (update_key cal now i up h))"
  by (simp add: update_key_def split: sum.split option.split)

lemma tbl_delete_none: "length (tbl_delete p t) = length t \<Longrightarrow> tbl_delete p t = t"
  unfolding tbl_delete_def by (metis filter_id_conv length_filter_less not_less_iff_gr_or_eq)

lemma delete_key_ok: "key_cache_ok x h \<Longrightarrow> key_cache_ok x (snd (delete_key i h))"
  by (auto simp: delete_key_def Let_def upd_db_def key_cache_ok_def cache_invalidate_def dest: tbl_delete_none)

lemma key_step_ok: "key_step x net trusted cal h h' \<Longrightarrow> key_cache_ok x h \<Longrightarrow> key_cache_ok x h'"
proof (induction rule: key_step.induct)
  case (Request h now r)
  then show ?case using require_sound [OF surjective_pairing] by blast
qed (auto intro: create_key_ok update_key_ok delete_key_ok key_cache_ok_frame)

lemma key_reachable_ok:
  "key_reachable x net trusted cal h0 h \<Longrightarrow> key_cache_ok x h0 \<Longrightarrow> key_cache_ok x h"
  by (induction rule: key_reachable.induct) (auto intro: key_step_ok)


text \<open>A key without allowlist, limit or expiry; the digest is the text itself, the hash too.\<close>

definition plain_crates :: crates where
  "plain_crates = demo_crates\<lparr>x_sha256_hex := \<lambda>s. s, x_argon2_verify := \<lambda>s h. Some (s = h)\<rparr>"

definition plain_key :: api_key where
  "plain_key = \<lparr>ak_id = ''k1'', ak_name = ''ci'', ak_key_hash = ''ck_1'', ak_scopes = jstrs [''nodes:read''],
     ak_ip_allowlist = None, ak_rate_limit = None, ak_expires_at = None, ak_is_active = True,
     ak_created_at = 0, ak_updated_at = 0\<rparr>"

definition key_hub :: hub where
  "key_hub = demo_hub\<lparr>h_db := empty_db\<lparr>db_api_keys := [plain_key]\<rparr>, h_key_cache := [], h_buckets := []\<rparr>"

definition key_request :: "string \<Rightarrow> http_request" where
  "key_request k = \<lparr>hr_headers = [(''x-api-key'', k)], hr_peer = None\<rparr>"

lemma key_request_key: "extract_key (key_request ''ck_1'') = ''ck_1''"
  by (simp add: extract_key_def key_request_def header_str_def to_str_def trim_def trim_start_def trim_end_def
      strip_white.simps white_len_def white_codes_def)

abbreviation no_prefixes :: prefixes where
  "no_prefixes \<equiv> \<lambda>_. None"

lemma key_hub_accepts:
  "require_api_key plain_crates net trusted now (key_request ''ck_1'') key_hub
     = (Inr (key_auth plain_key), cache_insert ''ck_1'' (cache_entry now plain_key) key_hub)"
  by (simp add: require_api_key_def key_request_key cache_get_def opt_filter_def key_hub_def find_key_def
      plain_crates_def plain_key_def verify_secret_def unwrap_or_def check_row_def expired_def
      allowlist_ok_def check_rate_def Let_def)


section \<open>A revocation during a check\<close>

text \<open>
  The check of an uncached key reads its row, verifies the key, and only then fills the cache;
  a key deleted in between is put into the cache after the deletion cleared it, and lets every later
  request through while the entry lives, though its row is gone.
\<close>

theorem revoked_key_race:
  assumes "find_key x (extract_key r) (h_db h) = Some k" and "extract_key r \<noteq> []"
    and "h1 = snd (delete_key (ak_id k) h)"
    and "check_row x net trusted now r k h1 = (Inr a, h2)"
    and "ak_expires_at k = None" and "ak_ip_allowlist k = None" and "ak_rate_limit k = None"
    and "now' \<le> now + API_KEY_CACHE_TTL"
  shows "tbl_find ak_id (ak_id k) (db_api_keys (h_db h2)) = None
    \<and> require_api_key x net trusted now' r h2 = (Inr (key_auth k), h2)"
proof -
  have "tbl_find ak_id (ak_id k) (db_api_keys (h_db h1)) = None"
    by (simp add: assms(3) delete_key_def Let_def upd_db_def cache_invalidate_def tbl_find_delete)
  moreover have h2: "h2 = cache_insert (x_sha256_hex x (extract_key r)) (cache_entry now k) h1"
    using assms(4-7) by (simp add: check_row_def expired_def unwrap_or_def allowlist_ok_def check_rate_def
        opt_filter_def)
  ultimately have "tbl_find ak_id (ak_id k) (db_api_keys (h_db h2)) = None" by (simp add: cache_insert_def)
  moreover have "cache_get now' (x_sha256_hex x (extract_key r)) h2 = Some (cache_entry now k)"
    using assms(8)
    by (simp add: h2 cache_get_def cache_insert_def hm.look_ins opt_filter_def cached_is_expired_def
        cache_entry_def API_KEY_CACHE_TTL_def ns_per_sec_def)
  then have "require_api_key x net trusted now' r h2 = (Inr (key_auth k), h2)"
    using assms(2,5-7)
    by (simp add: require_api_key_def check_cached_def expired_def unwrap_or_def allowlist_ok_def check_rate_def
        opt_filter_def)
  ultimately show ?thesis by blast
qed

theorem revoked_key_race_witness:
  "\<exists>h2. tbl_find ak_id ''k1'' (db_api_keys (h_db h2)) = None
     \<and> require_api_key plain_crates no_prefixes None 60 (key_request ''ck_1'') h2 = (Inr (key_auth plain_key), h2)"
proof -
  let ?h1 = "snd (delete_key (ak_id plain_key) key_hub)"
  have "find_key plain_crates (extract_key (key_request ''ck_1'')) (h_db key_hub) = Some plain_key"
    by (simp add: find_key_def key_request_key key_hub_def plain_crates_def plain_key_def verify_secret_def
        unwrap_or_def)
  moreover have "extract_key (key_request ''ck_1'') \<noteq> []" by (simp add: key_request_key)
  moreover have "check_row plain_crates no_prefixes None 0 (key_request ''ck_1'') plain_key ?h1
      = (Inr (key_auth plain_key), cache_insert ''ck_1'' (cache_entry 0 plain_key) ?h1)"
    by (simp add: check_row_def key_request_key plain_key_def expired_def unwrap_or_def allowlist_ok_def
        check_rate_def opt_filter_def plain_crates_def)
  ultimately show ?thesis
    using revoked_key_race [of plain_crates "key_request ''ck_1''" key_hub plain_key ?h1 no_prefixes None 0 _ _ 60]
    by (auto simp: plain_key_def API_KEY_CACHE_TTL_def ns_per_sec_def)
qed

section \<open>Limits and allowlists without effect\<close>

text \<open>A limit above the range of a 32-bit integer is stored as a negative one, which is no limit.\<close>

theorem rate_limit_wraps:
  assumes "create_key now raw hash i p h = (Inr j, h')" and "cp_rate_limit p = Some n"
    and "2147483648 \<le> n" and "n < 4294967296"
  shows "\<exists>k. k \<in> set (db_api_keys (h_db h')) \<and> ak_id k = i \<and> check_rate t i (ak_rate_limit k) g = (True, g)"
proof -
  have "wrap32 n = n - 4294967296"
    using assms(3,4) by (simp add: wrap32_def mod_pos_pos_trivial minus_mod_self2 [symmetric, of "n + 2147483648"]
        del: minus_mod_self2)
  then have "check_rate t i (Some (wrap32 n)) g = (True, g)"
    using assms(4) by (simp add: check_rate_def opt_filter_def)
  with assms(1,2) show ?thesis
    by (auto simp: create_key_def Let_def upd_db_def cache_invalidate_def tbl_insert_def
        split: if_splits sum.splits)
qed

text \<open>
  A request whose peer address is not known passes no allowlist that has an entry: its address is
  the empty text, which is no address and which no entry but the empty one equals.
\<close>

theorem allowlist_needs_peer:
  assumes "hr_peer r = None" and "List.map_filter as_str ips = a # as" and "[] \<notin> set (a # as)"
  shows "\<not> allowlist_ok net trusted r (Some (JArr ips))"
proof -
  have "extract_client_ip r trusted = []"
    by (simp add: extract_client_ip_def assms(1) unwrap_or_def Let_def split: option.split)
  moreover have "parse_ip [] = None" by code_simp
  moreover have "p \<noteq> []" if "p \<in> set (a # as)" for p using that assms(3) by metis
  ultimately have "\<not> list_ex (ip_matches net (extract_client_ip r trusted)) (a # as)"
    by (auto simp: list_ex_iff ip_matches_def split: option.split)
  then show ?thesis by (simp add: allowlist_ok_def assms(2))
qed

text \<open>An allowlist that is not an array admits every address.\<close>

lemma allowlist_not_array: "as_array v = None \<Longrightarrow> allowlist_ok net trusted r (Some v)"
  by (simp add: allowlist_ok_def)

end
