(* ===== verification/Routes.thy ===== *)
theory Routes
  imports KeyCheck
begin

text \<open>
  The routing table of the protected API (pp-hub, \<open>build_app\<close> of main.rs and \<open>router\<close> of
  routes/system_update): each route with its method, path, handler and the scope its layer asks for.
  Every path starts with \<open>/api/v1\<close>, which the paths here leave out. A path is its segments; a segment
  in braces stands for any text.
\<close>

section \<open>The table\<close>

datatype http_method = GET | POST | PUT | DELETE

record route =
  ro_method :: http_method
  ro_path :: "string list"
  ro_handler :: string
  ro_scope :: "string option"

definition rt :: "http_method \<Rightarrow> string list \<Rightarrow> string \<Rightarrow> string option \<Rightarrow> route" where
  "rt m p h s = \<lparr>ro_method = m, ro_path = p, ro_handler = h, ro_scope = s\<rparr>"

definition node_routes :: "route list" where
  "node_routes =
    [rt GET [''nodes''] ''nodes::list_nodes'' (Some ''nodes:read''),
     rt POST [''nodes''] ''nodes::create_node'' (Some ''nodes:write''),
     rt GET [''nodes'', ''{id}''] ''nodes::get_node'' (Some ''nodes:read''),
     rt PUT [''nodes'', ''{id}''] ''nodes::update_node'' (Some ''nodes:write''),
     rt DELETE [''nodes'', ''{id}''] ''nodes::delete_node'' (Some ''nodes:write''),
     rt POST [''nodes'', ''{id}'', ''push''] ''nodes::push_config'' None,
     rt GET [''nodes'', ''pending-updates''] ''nodes::list_pending_updates'' (Some ''nodes:read''),
     rt POST [''nodes'', ''push-pending''] ''nodes::push_pending'' (Some ''nodes:write''),
     rt GET [''nodes'', ''{id}'', ''binaries''] ''nodes::list_core_binaries'' None,
     rt DELETE [''nodes'', ''{id}'', ''binaries'', ''{file}''] ''nodes::delete_core_binary'' None,
     rt POST [''nodes'', ''{id}'', ''install-command''] ''install::node_install_command'' (Some ''nodes:write''),
     rt GET [''nodes'', ''{id}'', ''logs''] ''nodes::query_node_logs'' (Some ''logs:read'')]"

definition catalog_routes :: "route list" where
  "catalog_routes =
    [rt GET [''groups''] ''node_group::list_groups'' (Some ''groups:read''),
     rt POST [''groups''] ''node_group::create_group'' (Some ''groups:write''),
     rt GET [''groups'', ''{id}''] ''node_group::get_group'' (Some ''groups:read''),
     rt PUT [''groups'', ''{id}''] ''node_group::update_group'' (Some ''groups:write''),
     rt DELETE [''groups'', ''{id}''] ''node_group::delete_group'' (Some ''groups:write''),
     rt GET [''protocols''] ''protocol::list_configs'' (Some ''protocols:read''),
     rt POST [''protocols''] ''protocol::create_config'' (Some ''protocols:write''),
     rt GET [''protocols'', ''{id}''] ''protocol::get_config'' (Some ''protocols:read''),
     rt PUT [''protocols'', ''{id}''] ''protocol::update_config'' (Some ''protocols:write''),
     rt DELETE [''protocols'', ''{id}''] ''protocol::delete_config'' (Some ''protocols:write''),
     rt GET [''utils'', ''generate-reality-keys''] ''protocol::generate_reality_keys'' (Some ''protocols:read''),
     rt GET [''protocols'', ''presets''] ''protocol_preset::list_available_presets'' (Some ''protocols:read''),
     rt POST [''protocols'', ''presets''] ''protocol_preset::apply_preset'' (Some ''protocols:write''),
     rt GET [''core-versions''] ''core_version::list_core_versions'' (Some ''protocols:read''),
     rt POST [''core-versions''] ''core_version::save_core_versions'' (Some ''protocols:write''),
     rt GET [''core-versions'', ''upstream''] ''core_version::list_upstream_versions'' (Some ''protocols:read''),
     rt DELETE [''core-versions'', ''{id}''] ''core_version::delete_core_version'' (Some ''protocols:write''),
     rt POST [''core-versions'', ''{id}'', ''activate''] ''core_version::activate_core_version'' (Some ''protocols:write''),
     rt GET [''certificates''] ''certificates::list_certificates'' (Some ''nodes:read''),
     rt POST [''certificates''] ''certificates::create_certificate'' (Some ''nodes:write''),
     rt POST [''certificates'', ''{id}'', ''renew''] ''certificates::renew_certificate'' (Some ''nodes:write''),
     rt DELETE [''certificates'', ''{id}''] ''certificates::delete_certificate'' (Some ''nodes:write'')]"

definition binding_routes :: "route list" where
  "binding_routes =
    [rt GET [''bindings''] ''bindings::list_bindings'' (Some ''bindings:read''),
     rt POST [''bindings''] ''bindings::create_binding'' (Some ''bindings:write''),
     rt PUT [''bindings'', ''{id}''] ''bindings::update_binding'' (Some ''bindings:write''),
     rt DELETE [''bindings'', ''{id}''] ''bindings::delete_binding'' (Some ''bindings:write''),
     rt GET [''relay-rules''] ''relay_rule::list_relay_rules'' (Some ''nodes:read''),
     rt GET [''relay-rules'', ''library''] ''relay_rule::library'' (Some ''nodes:read''),
     rt POST [''relay-rules''] ''relay_rule::create_relay_rule'' (Some ''nodes:write''),
     rt PUT [''relay-rules'', ''{id}''] ''relay_rule::update_relay_rule'' (Some ''nodes:write''),
     rt DELETE [''relay-rules'', ''{id}''] ''relay_rule::delete_relay_rule'' (Some ''nodes:write''),
     rt GET [''hosts''] ''inbound_host::list_hosts'' (Some ''bindings:read''),
     rt POST [''hosts''] ''inbound_host::create_host'' (Some ''bindings:write''),
     rt GET [''hosts'', ''{id}''] ''inbound_host::get_host'' (Some ''bindings:read''),
     rt PUT [''hosts'', ''{id}''] ''inbound_host::update_host'' (Some ''bindings:write''),
     rt DELETE [''hosts'', ''{id}''] ''inbound_host::delete_host'' (Some ''bindings:write''),
     rt GET [''clients''] ''client::list_clients'' (Some ''clients:read''),
     rt POST [''clients''] ''client::create_client'' (Some ''clients:write''),
     rt GET [''clients'', ''{id}''] ''client::get_client'' (Some ''clients:read''),
     rt PUT [''clients'', ''{id}''] ''client::update_client'' (Some ''clients:write''),
     rt DELETE [''clients'', ''{id}''] ''client::delete_client'' (Some ''clients:write'')]"

definition subscription_routes :: "route list" where
  "subscription_routes =
    [rt GET [''templates''] ''subscription::list_templates'' (Some ''templates:read''),
     rt POST [''templates''] ''subscription::create_template'' (Some ''templates:write''),
     rt PUT [''templates'', ''{id}''] ''subscription::update_template'' (Some ''templates:write''),
     rt DELETE [''templates'', ''{id}''] ''subscription::delete_template'' (Some ''templates:write''),
     rt GET [''subscriptions''] ''subscription::list_subscriptions'' (Some ''subscriptions:read''),
     rt POST [''subscriptions''] ''subscription::create_subscription'' (Some ''subscriptions:write''),
     rt PUT [''subscriptions'', ''{id}''] ''subscription::update_subscription'' (Some ''subscriptions:write''),
     rt DELETE [''subscriptions'', ''{id}''] ''subscription::delete_subscription'' (Some ''subscriptions:write''),
     rt GET [''api-keys''] ''api_key::list_keys'' (Some ''apikeys:read''),
     rt POST [''api-keys''] ''api_key::create_key'' (Some ''apikeys:write''),
     rt PUT [''api-keys'', ''{id}''] ''api_key::update_key'' (Some ''apikeys:write''),
     rt DELETE [''api-keys'', ''{id}''] ''api_key::delete_key'' (Some ''apikeys:write'')]"

definition report_routes :: "route list" where
  "report_routes =
    [rt GET [''traffic''] ''traffic::query_traffic'' (Some ''traffic:read''),
     rt GET [''usage''] ''usage::query_usage'' (Some ''traffic:read''),
     rt GET [''usage'', ''summary''] ''usage::usage_summary'' (Some ''traffic:read''),
     rt POST [''clients'', ''{id}'', ''reset-traffic''] ''client::reset_client_traffic'' (Some ''clients:write''),
     rt GET [''metrics''] ''metrics::query_metrics'' (Some ''metrics:read''),
     rt GET [''metrics'', ''{node_id}'', ''latest''] ''metrics::latest_metrics'' (Some ''metrics:read''),
     rt GET [''onlines''] ''onlines::list_onlines'' (Some ''onlines:read''),
     rt GET [''onlines'', ''count''] ''onlines::get_online_count'' (Some ''onlines:read''),
     rt GET [''clients'', ''{id}'', ''ips''] ''onlines::get_client_ips'' (Some ''onlines:read''),
     rt GET [''webhooks''] ''webhook::list_webhooks'' (Some ''webhooks:read''),
     rt POST [''webhooks''] ''webhook::create_webhook'' (Some ''webhooks:write''),
     rt PUT [''webhooks'', ''{id}''] ''webhook::update_webhook'' (Some ''webhooks:write''),
     rt DELETE [''webhooks'', ''{id}''] ''webhook::delete_webhook'' (Some ''webhooks:write''),
     rt GET [''logs''] ''logs::query_logs'' (Some ''logs:read'')]"

definition system_update_routes :: "route list" where
  "system_update_routes =
    [rt GET [''system'', ''update''] ''system_update::get_update'' (Some ''system:read''),
     rt POST [''system'', ''update''] ''system_update::start_update'' (Some ''system:write''),
     rt GET [''system'', ''update'', ''status''] ''system_update::get_update_status'' (Some ''system:read'')]"

definition protected_routes :: "route list" where
  "protected_routes =
     node_routes @ catalog_routes @ binding_routes @ subscription_routes @ report_routes @ system_update_routes"

section \<open>Routing\<close>

text \<open>
  Of the paths that match, the router takes the one that is static where another has a parameter,
  at the first segment where they differ in that.
\<close>

definition is_param :: "string \<Rightarrow> bool" where
  "is_param s = (s \<noteq> [] \<and> hd s = CHR ''{'')"

definition path_matches :: "string list \<Rightarrow> string list \<Rightarrow> bool" where
  "path_matches pat ss = list_all2 (\<lambda>p s. is_param p \<or> p = s) pat ss"

fun more_static :: "string list \<Rightarrow> string list \<Rightarrow> bool" where
  "more_static (p # ps) (q # qs) = (if is_param p = is_param q then more_static ps qs else is_param q)"
| "more_static _ _ = False"

definition best_path :: "string list \<Rightarrow> route list \<Rightarrow> string list option" where
  "best_path ss rs =
     fold (\<lambda>p best. case best of
              None \<Rightarrow> Some p
            | Some q \<Rightarrow> if more_static p q then Some p else best)
       (filter (\<lambda>p. path_matches p ss) (map ro_path rs)) None"

datatype outcome =
  NoRoute
| Refused http_status
| MethodNotAllowed
| Run string "string list" api_key_auth

text \<open>
  A request to the protected API: the key's check wraps every path of the table, the scope's check
  the routes that have a scope; what is left runs the handler.
\<close>

definition serve ::
    "crates \<Rightarrow> prefixes \<Rightarrow> ip_addr set option \<Rightarrow> tstamp \<Rightarrow> http_method \<Rightarrow> string list \<Rightarrow> http_request \<Rightarrow> hub \<Rightarrow>
     outcome \<times> hub" where
  "serve x net trusted now m ss r h =
     (case best_path ss protected_routes of
        None \<Rightarrow> (NoRoute, h)
      | Some p \<Rightarrow>
          (case require_api_key x net trusted now r h of
             (Inl e, h) \<Rightarrow> (Refused e, h)
           | (Inr a, h) \<Rightarrow>
               (case find (\<lambda>ro. ro_path ro = p \<and> ro_method ro = m) protected_routes of
                  None \<Rightarrow> (MethodNotAllowed, h)
                | Some ro \<Rightarrow>
                    (case (case ro_scope ro of None \<Rightarrow> Inr a | Some s \<Rightarrow> require_scope s a) of
                       Inl e \<Rightarrow> (Refused e, h)
                     | Inr a \<Rightarrow> (Run (ro_handler ro) ss a, h)))))"

section \<open>Properties\<close>

text \<open>The scopes that change something.\<close>

definition write_scope :: "string \<Rightarrow> bool" where
  "write_scope s = (drop (length s - 6) s = '':write'')"

lemmas route_tables = protected_routes_def node_routes_def catalog_routes_def binding_routes_def
  subscription_routes_def report_routes_def system_update_routes_def rt_def

lemma scopes_of_writes:
  "filter (\<lambda>ro. ro_method ro \<noteq> GET \<and> (case ro_scope ro of None \<Rightarrow> True | Some s \<Rightarrow> \<not> write_scope s)) protected_routes
     = [rt POST [''nodes'', ''{id}'', ''push''] ''nodes::push_config'' None,
        rt DELETE [''nodes'', ''{id}'', ''binaries'', ''{file}''] ''nodes::delete_core_binary'' None]"
  by (simp add: route_tables write_scope_def)

lemma scopes_known: "list_all (\<lambda>ro. case ro_scope ro of None \<Rightarrow> True | Some s \<Rightarrow> s \<in> set ALL_SCOPES) protected_routes"
  by (simp add: route_tables ALL_SCOPES_def)

lemma routes_distinct: "distinct (map (\<lambda>ro. (ro_method ro, ro_path ro)) protected_routes)"
  by (simp add: route_tables)

lemma best_path_matches:
  assumes "best_path ss rs = Some p"
  shows "path_matches p ss \<and> p \<in> ro_path ` set rs"
proof -
  have "fold (\<lambda>p best. case best of None \<Rightarrow> Some p | Some q \<Rightarrow> if more_static p q then Some p else best) ps b = Some p \<Longrightarrow>
    p \<in> set ps \<or> b = Some p" for ps b
    by (induction ps arbitrary: b) (fastforce split: option.splits if_splits)+
  from this [OF assms [unfolded best_path_def]] show ?thesis by auto
qed

lemma serve_Run:
  assumes "serve x net trusted now m ss r h = (Run f args a, h')"
  obtains ro where "ro \<in> set protected_routes" and "ro_method ro = m" and "ro_handler ro = f" and "args = ss"
    and "path_matches (ro_path ro) ss" and "\<And>s. ro_scope ro = Some s \<Longrightarrow> has_scope a s"
    and "require_api_key x net trusted now r h = (Inr a, h')"
proof -
  from assms obtain p a' ro where p: "best_path ss protected_routes = Some p"
      and a': "require_api_key x net trusted now r h = (Inr a', h')"
      and ro: "find (\<lambda>ro. ro_path ro = p \<and> ro_method ro = m) protected_routes = Some ro"
      and run: "(case ro_scope ro of None \<Rightarrow> Inr a' | Some s \<Rightarrow> require_scope s a') = Inr a"
        "f = ro_handler ro" "args = ss"
    by (auto simp: serve_def split: option.splits prod.splits sum.splits)
  from run(1) have "a' = a" "\<And>s. ro_scope ro = Some s \<Longrightarrow> has_scope a s"
    by (auto simp: require_scope_def split: option.splits if_splits)
  with that [of ro] a' find_SomeD [OF ro] best_path_matches [OF p] run(2,3) show thesis by blast
qed

lemma write_routes:
  assumes "ro \<in> set protected_routes" and "ro_method ro \<noteq> GET"
    and "ro_handler ro \<notin> {''nodes::push_config'', ''nodes::delete_core_binary''}"
  shows "\<exists>s. ro_scope ro = Some s \<and> write_scope s"
proof (rule ccontr)
  assume "\<nexists>s. ro_scope ro = Some s \<and> write_scope s"
  then have "case ro_scope ro of None \<Rightarrow> True | Some s \<Rightarrow> \<not> write_scope s" by (auto split: option.split)
  with assms(1,2) have "ro \<in> set (filter (\<lambda>ro. ro_method ro \<noteq> GET
      \<and> (case ro_scope ro of None \<Rightarrow> True | Some s \<Rightarrow> \<not> write_scope s)) protected_routes)" by simp
  with assms(3) show False unfolding scopes_of_writes by (auto simp: rt_def)
qed


text \<open>A key with the scope to write clients resets a client's traffic.\<close>

definition writer_hub :: hub where
  "writer_hub = key_hub\<lparr>h_db := empty_db\<lparr>db_api_keys :=
     [plain_key\<lparr>ak_scopes := jstrs [''clients:write'']\<rparr>]\<rparr>\<rparr>"

lemma writer_hub_accepts:
  "\<exists>h'. require_api_key plain_crates net trusted now (key_request ''ck_1'') writer_hub
     = (Inr (key_auth (plain_key\<lparr>ak_scopes := jstrs [''clients:write'']\<rparr>)), h')"
  by (simp add: require_api_key_def key_request_key cache_get_def opt_filter_def writer_hub_def key_hub_def
      find_key_def plain_crates_def plain_key_def verify_secret_def unwrap_or_def check_row_def expired_def
      allowlist_ok_def check_rate_def Let_def)

lemma writer_scope: "has_scope (key_auth (plain_key\<lparr>ak_scopes := jstrs [''clients:write'']\<rparr>)) ''clients:write''"
  by (simp add: has_scope_def key_auth_def key_scopes_def jstrs_def unwrap_or_def map_filter_simps)


text \<open>
  Pushing a configuration to a node and deleting a node's core binary ask for no scope: every
  key the check accepts, whatever its scopes, runs both handlers on any node.
\<close>

theorem push_needs_no_scope:
  assumes "require_api_key x net trusted now r h = (Inr a, h')"
  shows "serve x net trusted now POST [''nodes'', i, ''push''] r h
       = (Run ''nodes::push_config'' [''nodes'', i, ''push''] a, h')
    \<and> serve x net trusted now DELETE [''nodes'', i, ''binaries'', f] r h
       = (Run ''nodes::delete_core_binary'' [''nodes'', i, ''binaries'', f] a, h')"
  using assms by (simp add: serve_def best_path_def route_tables path_matches_def is_param_def)

theorem push_needs_no_scope_witness:
  "fst (serve plain_crates no_prefixes None 0 POST [''nodes'', ''n1'', ''push''] (key_request ''ck_1'') key_hub)
     = Run ''nodes::push_config'' [''nodes'', ''n1'', ''push''] (key_auth plain_key)
   \<and> \<not> has_scope (key_auth plain_key) ''nodes:write''"
  using push_needs_no_scope [OF key_hub_accepts]
  by (simp add: has_scope_def key_auth_def key_scopes_def plain_key_def jstrs_def unwrap_or_def map_filter_simps)

end
