(* ===== verification/RelayRoutes.thy ===== *)
theory RelayRoutes
  imports Routes
begin

text \<open>
  The handlers of relay rules (pp-hub, routes/relay_rule.rs). A rule sends traffic of its node out
  through a binding of another node; the hop is authorised by a system client made for the rule,
  which is a member of the exit binding's groups. \<open>fresh\<close> gives the new ids in the order they are
  drawn.
\<close>

section \<open>The system client\<close>

definition relay_client :: "tstamp \<Rightarrow> (nat \<Rightarrow> uuid) \<Rightarrow> string \<Rightarrow> client" where
  "relay_client now fresh rule_name =
     \<lparr>c_id = fresh 0, c_user_id = fresh 1, c_name = ''relay-'' @ rule_name,
      c_email = Some (''relay-'' @ take 8 (fresh 2) @ ''@relay.internal''),
      c_traffic_limit_bytes = 0, c_traffic_used_bytes = 0, c_all_time_used_bytes = 0,
      c_expiry_date = None, c_reset_day = None, c_data_limit_reset_strategy = ''no_reset'',
      c_last_traffic_reset_time = None, c_max_devices = None, c_status = ''active'',
      c_on_hold_expire_duration_secs = None, c_on_hold_timeout = None,
      c_created_at = now, c_updated_at = now\<rparr>"

definition provision_relay_client :: "tstamp \<Rightarrow> (nat \<Rightarrow> uuid) \<Rightarrow> string \<Rightarrow> uuid \<Rightarrow> db \<Rightarrow> uuid \<times> db" where
  "provision_relay_client now fresh rule_name exit_binding_id d =
     (let d1 = d\<lparr>db_clients := tbl_insert (relay_client now fresh rule_name) (db_clients d)\<rparr>
      in (fresh 0,
          fold (\<lambda>gb d. d\<lparr>db_client_groups := tbl_insert
                 \<lparr>cg_client_id = fresh 0, cg_group_id = bg_group_id gb\<rparr> (db_client_groups d)\<rparr>)
            (filter (\<lambda>gb. bg_node_binding_id gb = exit_binding_id) (db_binding_groups d)) d1))"

definition delete_relay_client :: "uuid \<Rightarrow> db \<Rightarrow> db" where
  "delete_relay_client i d =
     d\<lparr>db_client_groups := tbl_delete (\<lambda>g. cg_client_id g = i) (db_client_groups d),
       db_clients := tbl_delete (\<lambda>c. c_id c = i) (db_clients d)\<rparr>"

section \<open>Validation\<close>

definition array_len :: "json \<Rightarrow> string \<Rightarrow> nat" where
  "array_len v k = unwrap_or (map_option length (get_array v k)) 0"

definition validate_match :: "string \<Rightarrow> json \<Rightarrow> api_error + unit" where
  "validate_match match_type cfg =
     (if match_type = ''inline'' then
        (if array_len cfg ''domains'' + array_len cfg ''domain_suffixes'' = 0
         then Inl (bad_request ''invalid_match_config''
           (''inline match_config must contain at least one entry in 'domains' or 'domain_suffixes'' @ [CHR 0x27]))
         else Inr ())
      else if match_type = ''rule_set'' then
        (case get_str cfg ''library'' of
           Some lib \<Rightarrow>
             (if library_lookup lib = None
              then Inl (bad_request ''unknown_rule_set_library'' (''unknown library rule set: '' @ lib))
              else Inr ())
         | None \<Rightarrow>
             (case jget cfg ''custom'' of
                Some custom \<Rightarrow>
                  (let url = (\<lambda>core. unwrap_or (Option.bind (jget custom core) (\<lambda>v. get_str v ''url'')) [])
                   in if url ''singbox'' = [] \<or> url ''mihomo'' = []
                      then Inl (bad_request ''invalid_custom_rule_set''
                        ''custom rule_set must have non-empty singbox.url and mihomo.url'')
                      else Inr ())
              | None \<Rightarrow>
                  Inl (bad_request ''invalid_match_config'' (''rule_set match_config must have 'library' or 'custom'' @ [CHR 0x27]))))
      else Inl (bad_request ''invalid_match_type'' (''match_type must be 'inline' or 'rule_set'' @ [CHR 0x27])))"

definition validate_relay_payload :: "db \<Rightarrow> uuid \<Rightarrow> uuid \<Rightarrow> string \<Rightarrow> json \<Rightarrow> api_error + unit" where
  "validate_relay_payload d node_id exit_binding_id match_type match_config =
     rbind (ok_or (tbl_find n_id node_id (db_nodes d)) (not_found ''node not found'')) (\<lambda>_.
     rbind (ok_or (tbl_find nb_id exit_binding_id (db_node_bindings d)) (not_found ''exit binding not found'')) (\<lambda>b.
     if nb_node_id b = node_id
     then Inl (bad_request ''self_relay'' ''exit binding belongs to the same node as the entry node'')
     else
       rbind (ok_or (tbl_find pc_id (nb_protocol_config_id b) (db_protocol_configs d))
               (bad_request ''protocol_config_missing'' ''exit binding's protocol config not found'')) (\<lambda>pc.
       if pc_core_type pc \<noteq> ''sing-box'' \<and> pc_core_type pc \<noteq> ''mihomo''
       then Inl (bad_request ''unsupported_core'' ''exit binding core type must be sing-box or mihomo'')
       else if pc_protocol_type pc \<notin> {''vless_reality'', ''hysteria2'', ''anytls''}
       then Inl (bad_request ''unsupported_protocol''
              ''exit binding protocol type must be vless_reality, hysteria2, or anytls'')
       else validate_match match_type match_config)))"

section \<open>Answers\<close>

definition relay_rule_to_json :: "relay_rule \<Rightarrow> json" where
  "relay_rule_to_json r = jobj
     [(''id'', JStr (rr_id r)), (''node_id'', JStr (rr_node_id r)),
      (''exit_binding_id'', JStr (rr_exit_binding_id r)), (''relay_client_id'', JStr (rr_relay_client_id r)),
      (''name'', JStr (rr_name r)), (''match_type'', JStr (rr_match_type r)),
      (''match_config'', rr_match_config r), (''enabled'', JBool (rr_enabled r)),
      (''sort_order'', jint (rr_sort_order r))]"

definition NIL_UUID :: uuid where "NIL_UUID = ''00000000-0000-0000-0000-000000000000''"

definition name_of_node :: "db \<Rightarrow> uuid \<Rightarrow> string" where
  "name_of_node d i = unwrap_or (map_option n_name (tbl_find n_id i (db_nodes d))) []"

definition list_relay_rules :: "crates \<Rightarrow> params \<Rightarrow> db \<Rightarrow> json list \<times> nat" where
  "list_relay_rules x ps d =
     (let rules = (case Option.bind (map_of ps ''node_id'') (x_parse_uuid x) of
                     Some i \<Rightarrow> filter (\<lambda>r. rr_node_id r = i) (db_relay_rules d)
                   | None \<Rightarrow> db_relay_rules d)
      in case paged ps rules of (rules, n) \<Rightarrow>
           (map (\<lambda>r.
              (case (case tbl_find nb_id (rr_exit_binding_id r) (db_node_bindings d) of
                       Some b \<Rightarrow> (nb_node_id b, name_of_node d (nb_node_id b),
                                  unwrap_or (map_option pc_name
                                    (tbl_find pc_id (nb_protocol_config_id b) (db_protocol_configs d))) [])
                     | None \<Rightarrow> (NIL_UUID, [], [])) of
                 (exit_node_id, exit_node_name, exit_config_name) \<Rightarrow>
                   jset ''exit_config_name'' (JStr exit_config_name)
                     (jset ''exit_node_name'' (JStr exit_node_name)
                       (jset ''exit_node_id'' (JStr exit_node_id)
                         (jset ''node_name'' (JStr (name_of_node d (rr_node_id r))) (relay_rule_to_json r)))))) rules,
            n))"

definition library :: json where
  "library = JArr (map (\<lambda>(name, sb_url, sb_format, mh_url, mh_behavior). jobj
     [(''name'', JStr name), (''singbox_url'', JStr sb_url), (''singbox_format'', JStr sb_format),
      (''mihomo_url'', JStr mh_url), (''mihomo_behavior'', JStr mh_behavior)]) RULE_SET_LIBRARY)"

section \<open>Changes\<close>

definition mark_both :: "tstamp \<Rightarrow> uuid list \<Rightarrow> db \<Rightarrow> db" where
  "mark_both now nodes d =
     mark_pending now nodes Mihomo UPDATE_TYPE_CONFIG (mark_pending now nodes SingBox UPDATE_TYPE_CONFIG d)"

definition binding_node :: "db \<Rightarrow> uuid \<Rightarrow> uuid option" where
  "binding_node d i = map_option nb_node_id (tbl_find nb_id i (db_node_bindings d))"

record create_relay_payload =
  crp_node_id :: uuid
  crp_exit_binding_id :: uuid
  crp_name :: string
  crp_match_type :: string
  crp_match_config :: json
  crp_enabled :: "bool option"
  crp_sort_order :: "int option"

definition created_rule :: "tstamp \<Rightarrow> uuid \<Rightarrow> uuid \<Rightarrow> create_relay_payload \<Rightarrow> relay_rule" where
  "created_rule now new_id relay_client_id p =
     \<lparr>rr_id = new_id, rr_node_id = crp_node_id p, rr_exit_binding_id = crp_exit_binding_id p,
      rr_relay_client_id = relay_client_id, rr_name = trim (crp_name p), rr_match_type = crp_match_type p,
      rr_match_config = crp_match_config p, rr_enabled = unwrap_or (crp_enabled p) True,
      rr_sort_order = unwrap_or (crp_sort_order p) 0, rr_created_at = now, rr_updated_at = now\<rparr>"

definition create_relay_rule ::
    "tstamp \<Rightarrow> (nat \<Rightarrow> uuid) \<Rightarrow> create_relay_payload \<Rightarrow> db \<Rightarrow> (api_error + json) \<times> db" where
  "create_relay_rule now fresh p d =
     (if trim (crp_name p) = [] then (Inl (bad_request ''invalid_name'' ''name is required''), d)
      else
        (case validate_relay_payload d (crp_node_id p) (crp_exit_binding_id p) (crp_match_type p)
                (crp_match_config p) of
           Inl e \<Rightarrow> (Inl e, d)
         | Inr _ \<Rightarrow>
             (case provision_relay_client now fresh (crp_name p) (crp_exit_binding_id p) d of
                (relay_client_id, d) \<Rightarrow>
                  (let r = created_rule now (fresh 3) relay_client_id p;
                       d = d\<lparr>db_relay_rules := tbl_insert r (db_relay_rules d)\<rparr>;
                       affected = filter (\<lambda>i. i \<noteq> NIL_UUID)
                         [rr_node_id r, unwrap_or (binding_node d (rr_exit_binding_id r)) NIL_UUID]
                   in (Inr (relay_rule_to_json r), mark_both now affected d)))))"

record update_relay_payload =
  urp_name :: "string option"
  urp_match_type :: "string option"
  urp_match_config :: "json option"
  urp_enabled :: "bool option"
  urp_sort_order :: "int option"
  urp_exit_binding_id :: "uuid option"

definition update_relay_row :: "tstamp \<Rightarrow> update_relay_payload \<Rightarrow> uuid \<Rightarrow> relay_rule \<Rightarrow> relay_rule" where
  "update_relay_row now p relay_client_id r =
     (let r = r\<lparr>rr_name := unwrap_or (map_option trim (urp_name p)) (rr_name r),
                rr_match_type := unwrap_or (urp_match_type p) (rr_match_type r),
                rr_match_config := unwrap_or (urp_match_config p) (rr_match_config r),
                rr_enabled := unwrap_or (urp_enabled p) (rr_enabled r),
                rr_sort_order := unwrap_or (urp_sort_order p) (rr_sort_order r), rr_updated_at := now\<rparr>
      in case urp_exit_binding_id p of
           Some b \<Rightarrow> r\<lparr>rr_exit_binding_id := b, rr_relay_client_id := relay_client_id\<rparr>
         | None \<Rightarrow> r)"

text \<open>The nodes whose configuration an update changes: the rule's, and its old and new exit's.\<close>

definition update_affected :: "db \<Rightarrow> relay_rule \<Rightarrow> relay_rule \<Rightarrow> uuid list" where
  "update_affected d old new =
     (let add = (\<lambda>i ns. case i of Some n \<Rightarrow> if n \<noteq> rr_node_id old \<and> n \<notin> set ns then ns @ [n] else ns | None \<Rightarrow> ns)
      in add (binding_node d (rr_exit_binding_id new)) (add (binding_node d (rr_exit_binding_id old)) [rr_node_id old]))"

text \<open>The rule's client: a new one when the exit changes, and the old one is deleted.\<close>

definition reprovision ::
    "tstamp \<Rightarrow> (nat \<Rightarrow> uuid) \<Rightarrow> update_relay_payload \<Rightarrow> relay_rule \<Rightarrow> db \<Rightarrow> uuid \<times> db" where
  "reprovision now fresh p rule d =
     (let new_exit = unwrap_or (urp_exit_binding_id p) (rr_exit_binding_id rule)
      in if urp_exit_binding_id p \<noteq> None \<and> new_exit \<noteq> rr_exit_binding_id rule
         then provision_relay_client now fresh (unwrap_or (urp_name p) (rr_name rule)) new_exit
                (delete_relay_client (rr_relay_client_id rule) d)
         else (rr_relay_client_id rule, d))"

definition update_relay_rule ::
    "tstamp \<Rightarrow> (nat \<Rightarrow> uuid) \<Rightarrow> uuid \<Rightarrow> update_relay_payload \<Rightarrow> db \<Rightarrow> (api_error + json) \<times> db" where
  "update_relay_rule now fresh i p d =
     (case tbl_find rr_id i (db_relay_rules d) of
        None \<Rightarrow> (Inl (not_found ''relay rule not found''), d)
      | Some rule \<Rightarrow>
          (let new_exit = unwrap_or (urp_exit_binding_id p) (rr_exit_binding_id rule) in
           case validate_relay_payload d (rr_node_id rule) new_exit
                  (unwrap_or (urp_match_type p) (rr_match_type rule))
                  (unwrap_or (urp_match_config p) (rr_match_config rule)) of
             Inl e \<Rightarrow> (Inl e, d)
           | Inr _ \<Rightarrow>
               (case reprovision now fresh p rule d of
                  (new_client, d) \<Rightarrow>
                    if unwrap_or (map_option (\<lambda>n. trim n = []) (urp_name p)) False
                    then (Inl (bad_request ''invalid_name'' ''name cannot be empty''), d)
                    else
                      (let new = update_relay_row now p new_client rule;
                           d = d\<lparr>db_relay_rules := tbl_update rr_id i (\<lambda>_. new) (db_relay_rules d)\<rparr>
                       in (Inr (relay_rule_to_json new), mark_both now (update_affected d rule new) d)))))"

definition delete_relay_rule :: "tstamp \<Rightarrow> uuid \<Rightarrow> db \<Rightarrow> (api_error + unit) \<times> db" where
  "delete_relay_rule now i d =
     (case tbl_find rr_id i (db_relay_rules d) of
        None \<Rightarrow> (Inl (not_found ''relay rule not found''), d)
      | Some rule \<Rightarrow>
          (let exit_node = binding_node d (rr_exit_binding_id rule);
               d = d\<lparr>db_relay_rules := tbl_delete (\<lambda>r. rr_id r = i) (db_relay_rules d)\<rparr>;
               d = delete_relay_client (rr_relay_client_id rule) d;
               affected = rr_node_id rule # (case exit_node of
                   Some n \<Rightarrow> if n \<noteq> rr_node_id rule then [n] else [] | None \<Rightarrow> [])
           in (Inr (), mark_both now affected d)))"

end
