(* ===== verification/RelayCheck.thy ===== *)
theory RelayCheck
  imports RelayRoutes
begin

text \<open>
  Properties of the relay-rule handlers: every rule keeps a system client of its own with the groups
  of its exit binding, so that the exit admits the hop; the update that loses it.
\<close>

definition binding_groups :: "db \<Rightarrow> uuid \<Rightarrow> uuid set" where
  "binding_groups d b = set (map bg_group_id (filter (\<lambda>g. bg_node_binding_id g = b) (db_binding_groups d)))"

definition client_groups :: "db \<Rightarrow> uuid \<Rightarrow> uuid set" where
  "client_groups d i = set (map cg_group_id (filter (\<lambda>g. cg_client_id g = i) (db_client_groups d)))"

definition linked_rule :: "db \<Rightarrow> relay_rule \<Rightarrow> bool" where
  "linked_rule d r \<longleftrightarrow>
     (\<exists>c \<in> set (db_clients d). c_id c = rr_relay_client_id r \<and> c_status c = ''active'')
     \<and> client_groups d (rr_relay_client_id r) = binding_groups d (rr_exit_binding_id r)"

definition relay_links_ok :: "db \<Rightarrow> bool" where
  "relay_links_ok d \<longleftrightarrow> (\<forall>r \<in> set (db_relay_rules d). linked_rule d r)
     \<and> distinct (map rr_id (db_relay_rules d)) \<and> distinct (map rr_relay_client_id (db_relay_rules d))"

text \<open>A new id: of no client, rule or membership.\<close>

definition unused_id :: "db \<Rightarrow> uuid \<Rightarrow> bool" where
  "unused_id d i \<longleftrightarrow> i \<notin> c_id ` set (db_clients d) \<and> i \<notin> cg_client_id ` set (db_client_groups d)
     \<and> i \<notin> rr_relay_client_id ` set (db_relay_rules d) \<and> i \<notin> rr_id ` set (db_relay_rules d)"

section \<open>Frames\<close>

lemma mark_both_frame [simp]:
  "db_clients (mark_both now ns d) = db_clients d" "db_client_groups (mark_both now ns d) = db_client_groups d"
  "db_binding_groups (mark_both now ns d) = db_binding_groups d" "db_relay_rules (mark_both now ns d) = db_relay_rules d"
  "db_node_bindings (mark_both now ns d) = db_node_bindings d"
  by (simp_all add: mark_both_def mark_pending_def)

lemma add_groups_frame:
  fixes gs d i
  defines "d' \<equiv> fold (\<lambda>gb d. d\<lparr>db_client_groups := tbl_insert
      \<lparr>cg_client_id = i, cg_group_id = bg_group_id gb\<rparr> (db_client_groups d)\<rparr>) gs d"
  shows "db_clients d' = db_clients d \<and> db_binding_groups d' = db_binding_groups d
    \<and> db_relay_rules d' = db_relay_rules d \<and> db_node_bindings d' = db_node_bindings d
    \<and> db_client_groups d' = db_client_groups d @ map (\<lambda>gb. \<lparr>cg_client_id = i, cg_group_id = bg_group_id gb\<rparr>) gs"
  unfolding d'_def by (induction gs arbitrary: d) (simp_all add: tbl_insert_def)

lemma client_groups_append:
  "db_client_groups d' = db_client_groups d @ map (\<lambda>gb. \<lparr>cg_client_id = i, cg_group_id = bg_group_id gb\<rparr>) gs \<Longrightarrow>
   client_groups d' j = client_groups d j \<union> (if j = i then bg_group_id ` set gs else {})"
  by (cases "j = i") (simp_all add: client_groups_def filter_map comp_def image_image)

lemma provision_frame:
  assumes "provision_relay_client now fresh name b d = (i, d')"
  shows "i = fresh 0 \<and> db_clients d' = db_clients d @ [relay_client now fresh name]
    \<and> db_binding_groups d' = db_binding_groups d \<and> db_relay_rules d' = db_relay_rules d
    \<and> db_node_bindings d' = db_node_bindings d
    \<and> client_groups d' j = (if j = i then client_groups d j \<union> binding_groups d b else client_groups d j)"
proof -
  let ?d1 = "d\<lparr>db_clients := tbl_insert (relay_client now fresh name) (db_clients d)\<rparr>"
  let ?gs = "filter (\<lambda>gb. bg_node_binding_id gb = b) (db_binding_groups d)"
  have i: "i = fresh 0" and "fold (\<lambda>gb d. d\<lparr>db_client_groups := tbl_insert
      \<lparr>cg_client_id = fresh 0, cg_group_id = bg_group_id gb\<rparr> (db_client_groups d)\<rparr>) ?gs ?d1 = d'"
    using assms unfolding provision_relay_client_def Let_def prod.inject by (metis, metis)
  note d' = this(2) [symmetric]
  note frame = add_groups_frame [of "fresh 0" ?gs ?d1, folded d']
  have "client_groups d' j = (if j = i then client_groups d j \<union> binding_groups d b else client_groups d j)"
    using frame client_groups_append [of d' d "fresh 0" ?gs j]
    by (simp add: i binding_groups_def)
  with frame i show ?thesis by (simp add: tbl_insert_def)
qed

lemma linked_rule_frame:
  assumes "binding_groups d' (rr_exit_binding_id r) = binding_groups d (rr_exit_binding_id r)"
    and "client_groups d' (rr_relay_client_id r) = client_groups d (rr_relay_client_id r)"
    and "{c \<in> set (db_clients d). c_id c = rr_relay_client_id r} \<subseteq> set (db_clients d')"
    and "linked_rule d r"
  shows "linked_rule d' r"
  using assms unfolding linked_rule_def by blast

lemma provision_links:
  assumes p: "provision_relay_client now fresh name b d = (i, d')" and "unused_id d (fresh 0)"
  shows "(\<forall>r :: relay_rule. rr_relay_client_id r = i \<and> rr_exit_binding_id r = b \<longrightarrow> linked_rule d' r)
    \<and> (\<forall>r \<in> set (db_relay_rules d). linked_rule d r \<longrightarrow> linked_rule d' r)"
proof (intro conjI allI ballI impI)
  note frame = provision_frame [OF p]
  have bg: "binding_groups d' = binding_groups d" using frame by (simp add: binding_groups_def fun_eq_iff)
  fix r :: relay_rule assume "rr_relay_client_id r = i \<and> rr_exit_binding_id r = b"
  moreover have "client_groups d (fresh 0) = {}"
    using assms(2) by (auto simp: unused_id_def client_groups_def image_iff)
  ultimately show "linked_rule d' r"
    using frame by (auto simp: linked_rule_def relay_client_def bg)
next
  note frame = provision_frame [OF p]
  fix r assume r: "r \<in> set (db_relay_rules d)" "linked_rule d r"
  then have "rr_relay_client_id r \<noteq> i" using frame assms(2) unfolding unused_id_def by (metis imageI)
  with r frame show "linked_rule d' r"
    by (intro linked_rule_frame [OF _ _ _ r(2)]) (auto simp: binding_groups_def)
qed

lemma delete_client_links:
  assumes "rr_relay_client_id r \<noteq> i" and "linked_rule d r"
  shows "linked_rule (delete_relay_client i d) r"
  using assms(1)
  by (intro linked_rule_frame [OF _ _ _ assms(2)])
     (auto simp: delete_relay_client_def binding_groups_def client_groups_def tbl_delete_def)

section \<open>The handlers keep the links\<close>

lemma create_keeps_links:
  assumes "relay_links_ok d" and "create_relay_rule now fresh p d = (res, d')"
    and "unused_id d (fresh 0)" and "unused_id d (fresh 3)"
  shows "relay_links_ok d'"
proof (cases res)
  case (Inl e)
  with assms(1,2) show ?thesis by (auto simp: create_relay_rule_def Let_def split: if_splits sum.splits prod.splits)
next
  case (Inr j)
  obtain i d1 where p: "provision_relay_client now fresh (crp_name p) (crp_exit_binding_id p) d = (i, d1)"
    by (rule prod.exhaust)
  note frame = provision_frame [OF p] and links = provision_links [OF p assms(3)]
  let ?r = "created_rule now (fresh 3) i p"
  have r: "rr_relay_client_id ?r = i" "rr_exit_binding_id ?r = crp_exit_binding_id p" "rr_id ?r = fresh 3"
    by (simp_all add: created_rule_def)
  have d': "db_relay_rules d' = db_relay_rules d1 @ [?r] \<and> db_clients d' = db_clients d1
      \<and> db_client_groups d' = db_client_groups d1 \<and> db_binding_groups d' = db_binding_groups d1"
    using assms(2) Inr p by (auto simp: create_relay_rule_def Let_def tbl_insert_def split: if_splits sum.splits)
  have "linked_rule d' = linked_rule d1"
    by (simp add: linked_rule_def client_groups_def binding_groups_def d' fun_eq_iff)
  with assms(1,3,4) frame links r show ?thesis
    by (auto simp: relay_links_ok_def d' unused_id_def)
qed

lemma delete_keeps_links:
  assumes "relay_links_ok d"
  shows "relay_links_ok (snd (delete_relay_rule now i d))"
proof (cases "tbl_find rr_id i (db_relay_rules d)")
  case None
  with assms show ?thesis by (simp add: delete_relay_rule_def)
next
  case (Some rule)
  then have rule: "rule \<in> set (db_relay_rules d)" "rr_id rule = i" by (auto dest: tbl_find_key)
  let ?d = "delete_relay_client (rr_relay_client_id rule) d"
  have rules: "db_relay_rules (snd (delete_relay_rule now i d)) = filter (\<lambda>r. rr_id r \<noteq> i) (db_relay_rules d)"
    and same: "linked_rule (snd (delete_relay_rule now i d)) = linked_rule ?d"
    by (simp_all add: delete_relay_rule_def Some Let_def delete_relay_client_def tbl_delete_def linked_rule_def
        client_groups_def binding_groups_def fun_eq_iff)
  have "rr_relay_client_id r \<noteq> rr_relay_client_id rule" if "r \<in> set (db_relay_rules d)" "rr_id r \<noteq> i" for r
    using assms that rule by (auto simp: relay_links_ok_def distinct_map dest: inj_onD)
  then show ?thesis
    using assms unfolding relay_links_ok_def rules same by (auto intro: delete_client_links simp: distinct_map_filter)
qed

lemma update_row_id [simp]: "rr_id (update_relay_row now p c r) = rr_id r"
  by (simp add: update_relay_row_def Let_def split: option.split)

lemma tbl_update_absent: "k \<notin> key ` set t \<Longrightarrow> tbl_update key k f t = t"
  by (induction t) (auto simp: tbl_update_def)

lemma distinct_replace:
  assumes "distinct (map key t)" and "distinct (map g t)"
    and "\<And>r. r \<in> set t \<Longrightarrow> key r = k \<Longrightarrow> g new = g r \<or> g new \<notin> g ` set t"
  shows "distinct (map g (tbl_update key k (\<lambda>_. new) t))"
  using assms
proof (induction t)
  case (Cons a t)
  show ?case
  proof (cases "key a = k")
    case True
    with Cons.prems(1) have "tbl_update key k (\<lambda>_. new) t = t" by (intro tbl_update_absent) auto
    then have "tbl_update key k (\<lambda>_. new) (a # t) = new # t" using True by (simp add: tbl_update_def)
    moreover have "g new \<notin> g ` set t" using Cons.prems(3) [of a] Cons.prems(2) True by auto
    ultimately show ?thesis using Cons.prems(2) by simp
  next
    case False
    have "distinct (map g (tbl_update key k (\<lambda>_. new) t))" by (rule Cons.IH) (use Cons.prems in auto)
    moreover have "g a \<notin> set (map g (tbl_update key k (\<lambda>_. new) t))"
    proof
      assume "g a \<in> set (map g (tbl_update key k (\<lambda>_. new) t))"
      then obtain r where r: "r \<in> set t" "g a = (if key r = k then g new else g r)"
        by (auto simp: tbl_update_def split: if_splits)
      with Cons.prems(2) have "key r = k" "g a = g new" by (auto split: if_splits)
      with Cons.prems(3) [of r] Cons.prems(2) r(1) show False by auto
    qed
    moreover have "tbl_update key k (\<lambda>_. new) (a # t) = a # tbl_update key k (\<lambda>_. new) t"
      using False by (simp add: tbl_update_def)
    ultimately show ?thesis by simp
  qed
qed (simp add: tbl_update_def)

text \<open>A rule's row replaced by one with its id and another client of its own.\<close>

lemma replace_rule_links:
  assumes ok: "relay_links_ok d" and rule: "rule \<in> set (db_relay_rules d)" "rr_id rule = i"
    and new: "rr_id new = i" "linked_rule d' new"
    and client: "rr_relay_client_id new = rr_relay_client_id rule
       \<or> rr_relay_client_id new \<notin> rr_relay_client_id ` set (db_relay_rules d)"
    and others: "\<And>r. r \<in> set (db_relay_rules d) \<Longrightarrow> rr_id r \<noteq> i \<Longrightarrow> linked_rule d' r"
    and rules: "db_relay_rules d' = tbl_update rr_id i (\<lambda>_. new) (db_relay_rules d)"
  shows "relay_links_ok d'"
proof -
  have dist: "distinct (map rr_id (db_relay_rules d))" "distinct (map rr_relay_client_id (db_relay_rules d))"
    using ok by (simp_all add: relay_links_ok_def)
  have ids: "map rr_id (db_relay_rules d') = map rr_id (db_relay_rules d)"
    using new(1) by (simp add: rules tbl_update_def)
  have "r = rule" if "r \<in> set (db_relay_rules d)" "rr_id r = i" for r
    using dist(1) that rule by (auto simp: distinct_map dest: inj_onD)
  then have "distinct (map rr_relay_client_id (db_relay_rules d'))"
    unfolding rules using client by (intro distinct_replace [OF dist]) auto
  moreover have "linked_rule d' r" if "r \<in> set (db_relay_rules d')" for r
    using that new(2) others by (auto simp: rules tbl_update_def split: if_splits)
  ultimately show ?thesis using dist(1) by (simp add: relay_links_ok_def ids)
qed

lemma update_keeps_links:
  assumes ok: "relay_links_ok d" and upd: "update_relay_rule now fresh i p d = (Inr j, d')"
    and unused: "unused_id d (fresh 0)"
  shows "relay_links_ok d'"
proof -
  obtain rule where find: "tbl_find rr_id i (db_relay_rules d) = Some rule"
    using upd by (auto simp: update_relay_rule_def split: option.splits)
  then have rule: "rule \<in> set (db_relay_rules d)" "rr_id rule = i" by (auto dest: tbl_find_key)
  define new_exit where "new_exit = unwrap_or (urp_exit_binding_id p) (rr_exit_binding_id rule)"
  define moved where "moved \<longleftrightarrow> urp_exit_binding_id p \<noteq> None \<and> new_exit \<noteq> rr_exit_binding_id rule"
  let ?d0 = "delete_relay_client (rr_relay_client_id rule) d"
  obtain c d1 where c: "reprovision now fresh p rule d = (c, d1)" by (rule prod.exhaust)
  let ?new = "update_relay_row now p c rule"
  have "db_relay_rules d' = tbl_update rr_id i (\<lambda>_. ?new) (db_relay_rules d1) \<and> db_clients d' = db_clients d1
      \<and> db_client_groups d' = db_client_groups d1 \<and> db_binding_groups d' = db_binding_groups d1"
    using upd by (auto simp: update_relay_rule_def find Let_def c split: sum.splits if_splits)
  then have d': "db_relay_rules d' = tbl_update rr_id i (\<lambda>_. ?new) (db_relay_rules d1)
      \<and> linked_rule d' = linked_rule d1"
    by (simp add: linked_rule_def client_groups_def binding_groups_def fun_eq_iff)
  have linked: "linked_rule d rule" using ok rule by (simp add: relay_links_ok_def)
  show ?thesis
  proof (cases moved)
    case False
    with c have c1: "c = rr_relay_client_id rule" "d1 = d"
      by (auto simp: reprovision_def Let_def moved_def new_exit_def)
    have new: "rr_relay_client_id ?new = rr_relay_client_id rule" "rr_exit_binding_id ?new = rr_exit_binding_id rule"
      using False c1 by (auto simp: update_relay_row_def Let_def moved_def new_exit_def unwrap_or_def split: option.split)
    then have "linked_rule d ?new" using linked by (simp add: linked_rule_def)
    with new c1 d' ok rule show ?thesis
      by (intro replace_rule_links [OF ok rule]) (auto simp: relay_links_ok_def)
  next
    case True
    then have prov: "provision_relay_client now fresh (unwrap_or (urp_name p) (rr_name rule)) new_exit ?d0 = (c, d1)"
      using c by (simp add: reprovision_def Let_def moved_def new_exit_def)
    have unused0: "unused_id ?d0 (fresh 0)"
      using unused by (auto simp: unused_id_def delete_relay_client_def tbl_delete_def)
    note frame = provision_frame [OF prov] and links = provision_links [OF prov unused0]
    have rules: "db_relay_rules ?d0 = db_relay_rules d" by (simp add: delete_relay_client_def)
    have new: "rr_relay_client_id ?new = c" "rr_exit_binding_id ?new = new_exit"
      using True by (auto simp: update_relay_row_def Let_def moved_def new_exit_def unwrap_or_def split: option.split)
    have "linked_rule d1 r" if "r \<in> set (db_relay_rules d)" "rr_id r \<noteq> i" for r
    proof -
      have "rr_relay_client_id r \<noteq> rr_relay_client_id rule"
        using ok that rule by (auto simp: relay_links_ok_def distinct_map dest: inj_onD)
      then have "linked_rule ?d0 r"
        using ok that by (intro delete_client_links) (auto simp: relay_links_ok_def)
      with links that show ?thesis by (simp add: rules)
    qed
    with new links d' frame rules unused rule(2) show ?thesis
      by (intro replace_rule_links [OF ok rule]) (auto simp: unused_id_def)
  qed
qed

section \<open>Properties\<close>

text \<open>
  Creating, changing and deleting relay rules keeps every rule linked: it has a system client of
  its own, active, whose groups are those of its exit binding. (New ids are unused ones.)
\<close>

theorem relay_handlers_keep_links:
  assumes "relay_links_ok d" and "unused_id d (fresh 0)" and "unused_id d (fresh 3)"
  shows "relay_links_ok (snd (create_relay_rule now fresh p d))
    \<and> relay_links_ok (snd (delete_relay_rule now i d))
    \<and> (is_ok (fst (update_relay_rule now fresh i up d)) \<longrightarrow> relay_links_ok (snd (update_relay_rule now fresh i up d)))"
proof (intro conjI impI)
  show "relay_links_ok (snd (create_relay_rule now fresh p d))"
    using create_keeps_links [OF assms(1) surjective_pairing assms(2,3)] .
  show "relay_links_ok (snd (delete_relay_rule now i d))" by (rule delete_keeps_links [OF assms(1)])
  assume "is_ok (fst (update_relay_rule now fresh i up d))"
  then obtain j where "update_relay_rule now fresh i up d = (Inr j, snd (update_relay_rule now fresh i up d))"
    by (metis is_ok_iff prod.collapse)
  from update_keeps_links [OF assms(1) this assms(2)]
  show "relay_links_ok (snd (update_relay_rule now fresh i up d))" .
qed


text \<open>
  An update that moves a rule to another exit under a blank name is refused, and still leaves the
  rule behind with a client that no longer exists: no exit admits it.
\<close>

theorem update_blank_name_orphans_rule:
  assumes "tbl_find rr_id i (db_relay_rules d) = Some rule" and "unused_id d (fresh 0)"
    and "urp_name p = Some n" and "trim n = []"
    and "urp_exit_binding_id p = Some b" and "b \<noteq> rr_exit_binding_id rule"
    and "validate_relay_payload d (rr_node_id rule) b (unwrap_or (urp_match_type p) (rr_match_type rule))
           (unwrap_or (urp_match_config p) (rr_match_config rule)) = Inr ()"
  shows "\<exists>e d'. update_relay_rule now fresh i p d = (Inl e, d') \<and> rule \<in> set (db_relay_rules d')
    \<and> rr_relay_client_id rule \<notin> c_id ` set (db_clients d') \<and> \<not> relay_links_ok d'"
proof -
  have rule: "rule \<in> set (db_relay_rules d)" using assms(1) by (auto dest: tbl_find_key)
  let ?d0 = "delete_relay_client (rr_relay_client_id rule) d"
  obtain c d1 where prov: "provision_relay_client now fresh n b ?d0 = (c, d1)" by (rule prod.exhaust)
  then have "reprovision now fresh p rule d = (c, d1)"
    using assms(3,5,6) by (simp add: reprovision_def unwrap_or_def)
  then have upd: "update_relay_rule now fresh i p d = (Inl (bad_request ''invalid_name'' ''name cannot be empty''), d1)"
    using assms(1,3-7) by (simp add: update_relay_rule_def unwrap_or_def)
  note frame = provision_frame [OF prov]
  have "fresh 0 \<noteq> rr_relay_client_id rule" using assms(2) rule unfolding unused_id_def by (metis imageI)
  then have gone: "rr_relay_client_id rule \<notin> c_id ` set (db_clients d1)"
    using frame by (auto simp: delete_relay_client_def tbl_delete_def relay_client_def)
  have kept: "rule \<in> set (db_relay_rules d1)" using frame rule by (simp add: delete_relay_client_def)
  with gone have "\<not> relay_links_ok d1" by (force simp: relay_links_ok_def linked_rule_def)
  with upd gone kept show ?thesis by blast
qed

section \<open>A concrete database\<close>

text \<open>The rule of the relay example with its system client, in the group of its exit; a second exit.\<close>

definition link_db :: db where
  "link_db = relay_db\<lparr>db_clients := [mk_client ''rc'' ''active''],
     db_client_groups := [\<lparr>cg_client_id = ''rc'', cg_group_id = ''g''\<rparr>],
     db_binding_groups := [\<lparr>bg_node_binding_id = ''e'', bg_group_id = ''g''\<rparr>],
     db_node_bindings := [mk_binding ''e'' ''n2'' ''p'', mk_binding ''f'' ''n2'' ''p'']\<rparr>"

lemma link_db_rules: "db_relay_rules link_db = [relay_db_rule]"
  by (simp add: link_db_def relay_db_def relay_db_rule_def)

lemma link_db_ok: "relay_links_ok link_db"
  by (simp add: relay_links_ok_def link_db_rules)
     (simp add: linked_rule_def client_groups_def binding_groups_def link_db_def relay_db_rule_def mk_rule_def
       mk_client_def)

lemma link_db_unused: "unused_id link_db (fresh_ids n)"
  by (simp add: unused_id_def link_db_rules)
     (simp add: link_db_def relay_db_rule_def mk_rule_def mk_client_def fresh_ids_def)

theorem relay_handlers_keep_links_witness:
  "relay_links_ok (snd (delete_relay_rule 5 ''0123456789'' link_db)) \<and> db_clients (snd (delete_relay_rule 5 ''0123456789'' link_db)) = []"
  using relay_handlers_keep_links [where d = link_db and fresh = fresh_ids and i = "''0123456789''" and now = 5,
      OF link_db_ok link_db_unused link_db_unused]
  by (simp add: delete_relay_rule_def link_db_rules tbl_find_def relay_db_rule_def mk_rule_def Let_def mark_both_frame)
     (simp add: delete_relay_client_def tbl_delete_def link_db_def mk_client_def)


definition blank_update :: update_relay_payload where
  "blank_update = \<lparr>urp_name = Some '' '', urp_match_type = None, urp_match_config = None, urp_enabled = None,
     urp_sort_order = None, urp_exit_binding_id = Some ''f''\<rparr>"

theorem update_blank_name_orphans_rule_witness:
  "\<exists>e d'. update_relay_rule 5 fresh_ids ''0123456789'' blank_update link_db = (Inl e, d') \<and> \<not> relay_links_ok d'"
proof -
  have "tbl_find rr_id ''0123456789'' (db_relay_rules link_db) = Some relay_db_rule"
    by (simp add: tbl_find_def link_db_rules relay_db_rule_def mk_rule_def)
  moreover have "trim '' '' = []" by code_simp
  moreover have "validate_match ''inline'' (jobj [(''domains'', JArr [JStr ''d''])]) = Inr ()"
    by (simp add: validate_match_def array_len_def get_array_def unwrap_or_def)
  moreover have "tbl_find n_id ''n1'' (db_nodes link_db) = Some (mk_node ''n1'')"
    "tbl_find nb_id ''f'' (db_node_bindings link_db) = Some (mk_binding ''f'' ''n2'' ''p'')"
    "tbl_find pc_id ''p'' (db_protocol_configs link_db) = Some (mk_config ''p'' VlessReality SingBox
       (jobj [(''public_key'', JStr ''PK''), (''server_names'', JStr ''sni'')]))"
    by (simp_all add: link_db_def relay_db_def tbl_find_def mk_binding_def mk_node_def mk_config_def)
  ultimately show ?thesis
    using update_blank_name_orphans_rule [of "''0123456789''" link_db relay_db_rule fresh_ids blank_update "'' ''" "''f''" 5,
        OF _ link_db_unused]
    by (auto simp: blank_update_def relay_db_rule_def mk_rule_def validate_relay_payload_def mk_binding_def
        mk_config_def unwrap_or_def ok_or_def)
qed

end
