(* ===== verification/Links.thy ===== *)
theory Links
  imports RelayCheck
begin

text \<open>
  Share links (pp-subscription, generator.rs, formats/base64.rs, formats/json.rs and
  formats/v2rayng.rs): one URL for each proxy node, and the base64 and JSON subscriptions. The
  crates url, base64, serde\_json and serde\_yaml are parameters, in one record. A printer of YAML
  may fail, the printers of JSON do not fail on the values the code prints.
\<close>

record sub_crates =
  y_urlencode :: "string \<Rightarrow> string"
  y_base64 :: "string \<Rightarrow> string"
  y_json_pretty :: "json \<Rightarrow> string"
  y_json_parse :: "string \<Rightarrow> string + json"
  y_yaml :: "json \<Rightarrow> string + string"
  y_yaml_parse :: "string \<Rightarrow> string + json"

section \<open>Text\<close>

text \<open>
  \<open>str::replace\<close>: the occurrences of a pattern from the left, not overlapping. Every pattern of the
  code is a literal that is not empty.
\<close>

function str_replace :: "string \<Rightarrow> string \<Rightarrow> string \<Rightarrow> string" where
  "str_replace p r s =
     (if p = [] \<or> s = [] then s
      else if starts_with p s then r @ str_replace p r (drop (length p) s)
      else hd s # str_replace p r (tl s))"
  by pat_completeness auto
termination
  by (relation "measure (\<lambda>(p, r, s). length s)") auto

declare str_replace.simps [simp del]

lemma str_replace_Nil [simp]: "str_replace p r [] = []"
  by (simp add: str_replace.simps)

lemma str_replace_Cons:
  "p \<noteq> [] \<Longrightarrow> str_replace p r (x # s)
     = (if starts_with p (x # s) then r @ str_replace p r (drop (length p) (x # s))
        else x # str_replace p r s)"
  by (simp add: str_replace.simps)

lemma str_replace_absent: "p \<noteq> [] \<Longrightarrow> \<not> str_contains p s \<Longrightarrow> str_replace p r s = s"
  by (induction s) (auto simp: str_replace_Cons)

text \<open>\<open>v.get(k).and_then(as_bool)\<close>\<close>

fun as_bool :: "json \<Rightarrow> bool option" where
  "as_bool (JBool b) = Some b"
| "as_bool _ = None"

definition get_bool :: "json \<Rightarrow> string \<Rightarrow> bool option" where
  "get_bool v k = Option.bind (jget v k) as_bool"

section \<open>Formats and nodes\<close>

datatype subscription_format = Base64 | Json | Clash | SingBoxFormat | V2RayNG

definition subscription_format_from_str :: "string \<Rightarrow> subscription_format panel_result" where
  "subscription_format_from_str s =
     (let f = ascii_lower s in
      if f = ''base64'' \<or> f = ''default'' then Inr Base64
      else if f = ''json'' then Inr Json
      else if f = ''clash'' \<or> f = ''yaml'' then Inr Clash
      else if f = ''sing-box'' \<or> f = ''singbox'' then Inr SingBoxFormat
      else if f = ''v2rayng'' then Inr V2RayNG
      else Inl (SubscriptionErr (''unknown subscription format: '' @ s)))"

record proxy_node =
  pn_name :: string
  pn_protocol :: protocol_type
  pn_server :: string
  pn_port :: nat
  pn_settings :: json
  pn_tls :: "json option"

section \<open>Parameters of a link\<close>

text \<open>A member of the TLS settings, else one of the protocol settings.\<close>

definition tls_or_setting :: "proxy_node \<Rightarrow> string \<Rightarrow> string \<Rightarrow> string option" where
  "tls_or_setting n tls_key key =
     or_else (Option.bind (pn_tls n) (\<lambda>t. get_str t tls_key)) (get_str (pn_settings n) key)"

definition tls_server_name :: "proxy_node \<Rightarrow> string option" where
  "tls_server_name n = tls_or_setting n ''serverName'' ''sni''"

definition tls_fingerprint :: "proxy_node \<Rightarrow> string option" where
  "tls_fingerprint n = tls_or_setting n ''fingerprint'' ''fingerprint''"

definition tls_alpn :: "proxy_node \<Rightarrow> string option" where
  "tls_alpn n = tls_or_setting n ''alpn'' ''alpn''"

definition opt_param :: "string \<Rightarrow> (string \<Rightarrow> string) \<Rightarrow> string option \<Rightarrow> string list" where
  "opt_param k f v = (case v of Some s \<Rightarrow> [k @ ''='' @ f s] | None \<Rightarrow> [])"

definition vless_network :: "proxy_node \<Rightarrow> string" where
  "vless_network n =
     (case pn_protocol n of
        VlessXhttp \<Rightarrow> ''xhttp''
      | _ \<Rightarrow> unwrap_or (get_str (pn_settings n) ''network'') ''tcp'')"

definition transport_params :: "sub_crates \<Rightarrow> json \<Rightarrow> string \<Rightarrow> string list" where
  "transport_params y s network =
     (let enc = y_urlencode y in
      if network = ''ws'' then
        opt_param ''path'' enc (get_str s ''path'') @ opt_param ''host'' enc (get_str s ''host'')
      else if network = ''grpc'' then opt_param ''serviceName'' enc (get_str s ''service_name'')
      else if network = ''xhttp'' then
        opt_param ''path'' enc (or_else (get_str s ''xhttp_path'') (get_str s ''path''))
        @ opt_param ''host'' enc (or_else (get_str s ''xhttp_host'') (get_str s ''host''))
        @ opt_param ''mode'' id (or_else (get_str s ''xhttp_mode'') (get_str s ''mode''))
      else if network = ''kcp'' \<or> network = ''mkcp'' then
        opt_param ''seed'' enc (get_str s ''seed'') @ opt_param ''headerType'' id (get_str s ''header_type'')
      else [])"

definition some_nonempty :: "string \<Rightarrow> string option" where
  "some_nonempty s = (if s = [] then None else Some s)"

definition reality_params :: "sub_crates \<Rightarrow> json \<Rightarrow> string list panel_result" where
  "reality_params y s =
     rbind (ok_or (opt_filter (\<lambda>k. k \<noteq> []) (get_str s ''public_key''))
              (SubscriptionErr ''missing REALITY public_key'')) (\<lambda>public_key.
     let enc = y_urlencode y
     in Inr (''security=reality''
             # opt_param ''sni'' enc (some_nonempty (unwrap_or (first_server_name s) []))
             @ [''pbk='' @ enc public_key]
             @ opt_param ''sid'' enc (some_nonempty (unwrap_or (first_short_id s) []))
             @ opt_param ''spx'' enc (some_nonempty (unwrap_or (get_str s ''spider_x'') []))
             @ [''fp='' @ unwrap_or (get_str s ''fingerprint'') ''chrome'']))"

definition vless_security_params :: "sub_crates \<Rightarrow> proxy_node \<Rightarrow> string list panel_result" where
  "vless_security_params y n =
     (if pn_protocol n = VlessReality then reality_params y (pn_settings n)
      else if pn_tls n = None then Inr []
      else Inr (''security=tls''
                # opt_param ''sni'' (y_urlencode y) (tls_server_name n)
                @ opt_param ''fp'' id (tls_fingerprint n)
                @ opt_param ''alpn'' (y_urlencode y) (tls_alpn n)))"

text \<open>A fragment has its spaces as \<open>%20\<close>, not as \<open>+\<close>.\<close>

definition encode_fragment :: "sub_crates \<Rightarrow> string \<Rightarrow> string" where
  "encode_fragment y s = str_replace ''+'' ''%20'' (y_urlencode y s)"

definition skip_verify :: "proxy_node \<Rightarrow> bool" where
  "skip_verify n =
     unwrap_or (get_bool (pn_settings n) ''skip_cert_verify'') (\<not> tls_has_real_certificate (pn_tls n))"

text \<open>The URL all links share.\<close>

definition share_link :: "sub_crates \<Rightarrow> string \<Rightarrow> string \<Rightarrow> string list \<Rightarrow> proxy_node \<Rightarrow> string" where
  "share_link y scheme credential ps n =
     scheme @ ''://'' @ credential @ ''@'' @ pn_server n @ '':'' @ nat_str (pn_port n)
     @ ''?'' @ str_join ''&'' ps @ ''#'' @ encode_fragment y (pn_name n)"

section \<open>Links\<close>

definition generate_vless_link :: "sub_crates \<Rightarrow> proxy_node \<Rightarrow> string panel_result" where
  "generate_vless_link y n =
     rbind (ok_or (client_uuid (pn_settings n)) (SubscriptionErr ''missing vless id'')) (\<lambda>i.
     rbind (vless_security_params y n) (\<lambda>sec.
     Inr (share_link y ''vless'' i
            ((''type='' @ vless_network n)
             # opt_param ''flow'' id (some_nonempty (unwrap_or (get_str (pn_settings n) ''flow'') []))
             @ transport_params y (pn_settings n) (vless_network n) @ sec) n)))"

definition insecure_param :: "proxy_node \<Rightarrow> string" where
  "insecure_param n = ''insecure='' @ (if skip_verify n then ''1'' else ''0'')"

definition sni_param :: "sub_crates \<Rightarrow> proxy_node \<Rightarrow> string" where
  "sni_param y n = ''sni='' @ y_urlencode y (unwrap_or (tls_server_name n) (pn_server n))"

definition obfs_params :: "sub_crates \<Rightarrow> json \<Rightarrow> string list" where
  "obfs_params y s =
     (case get_str s ''obfs_type'' of
        Some t \<Rightarrow>
          if t \<noteq> ''none''
          then (''obfs='' @ t) # opt_param ''obfs-password'' (y_urlencode y) (get_str s ''obfs_password'')
          else []
      | None \<Rightarrow> [])"

definition hysteria2_params :: "sub_crates \<Rightarrow> proxy_node \<Rightarrow> string list" where
  "hysteria2_params y n =
     (let s = pn_settings n in
      [sni_param y n, insecure_param n]
      @ opt_param ''upmbps'' id (map_option nat_str (get_u64 s ''up_mbps''))
      @ opt_param ''downmbps'' id (map_option nat_str (get_u64 s ''down_mbps''))
      @ obfs_params y s
      @ [''alpn='' @ y_urlencode y (unwrap_or (tls_alpn n) ''h3'')])"

definition generate_hysteria2_link :: "sub_crates \<Rightarrow> proxy_node \<Rightarrow> string panel_result" where
  "generate_hysteria2_link y n =
     rbind (ok_or (client_password (pn_settings n)) (SubscriptionErr ''missing hysteria2 password'')) (\<lambda>pw.
     Inr (share_link y ''hysteria2'' (y_urlencode y pw) (hysteria2_params y n) n))"

definition anytls_params :: "sub_crates \<Rightarrow> proxy_node \<Rightarrow> string list" where
  "anytls_params y n =
     [sni_param y n, insecure_param n] @ opt_param ''alpn'' (y_urlencode y) (tls_alpn n)"

definition generate_anytls_link :: "sub_crates \<Rightarrow> proxy_node \<Rightarrow> string panel_result" where
  "generate_anytls_link y n =
     rbind (ok_or (client_password (pn_settings n)) (SubscriptionErr ''missing anytls password'')) (\<lambda>pw.
     Inr (share_link y ''anytls'' (y_urlencode y pw) (anytls_params y n) n))"

definition share_link_of :: "sub_crates \<Rightarrow> proxy_node \<Rightarrow> string panel_result" where
  "share_link_of y n =
     (case pn_protocol n of
        VlessReality \<Rightarrow> generate_vless_link y n
      | VlessXhttp \<Rightarrow> generate_vless_link y n
      | Hysteria2 \<Rightarrow> generate_hysteria2_link y n
      | Anytls \<Rightarrow> generate_anytls_link y n)"

definition base64_generate :: "sub_crates \<Rightarrow> proxy_node list \<Rightarrow> string panel_result" where
  "base64_generate y nodes =
     rbind (collect_results (map (share_link_of y) nodes)) (\<lambda>links.
       Inr (y_base64 y (str_join [CHR 0x0A] links)))"

definition v2rayng_generate :: "sub_crates \<Rightarrow> proxy_node list \<Rightarrow> string panel_result" where
  "v2rayng_generate y nodes = base64_generate y nodes"

definition json_generate :: "sub_crates \<Rightarrow> proxy_node list \<Rightarrow> string panel_result" where
  "json_generate y nodes =
     Inr (y_json_pretty y (JArr (map (\<lambda>n. jobj
       [(''type'', JStr (protocol_str (pn_protocol n))), (''tag'', JStr (pn_name n)),
        (''server'', JStr (pn_server n)), (''server_port'', jnat (pn_port n)),
        (''settings'', pn_settings n)]) nodes)))"

end
