(* ===== verification/ClashSub.thy ===== *)
theory ClashSub
  imports Links
begin

text \<open>
  Clash and mihomo subscriptions (pp-subscription, formats/clash.rs): the proxy of a node, and the
  three ways of putting the proxies into a configuration. A value that is no object cannot be
  indexed by a key, on which the code panics; the generators return \<open>None\<close> there.
\<close>

section \<open>Proxies\<close>

definition apply_transport_settings :: "string \<Rightarrow> json \<Rightarrow> json option \<Rightarrow> json \<Rightarrow> json" where
  "apply_transport_settings network s tls proxy =
     (if network = ''ws'' then
        jset ''ws-opts'' (jobj
          [(''path'', JStr (unwrap_or (get_str s ''path'') ''/'')),
           (''headers'', jobj [(''Host'', JStr (unwrap_or (get_str s ''host'') []))])]) proxy
      else if network = ''grpc'' then
        jset ''grpc-opts'' (jobj [(''grpc-service-name'', JStr (unwrap_or (get_str s ''service_name'') []))]) proxy
      else if network = ''tcp'' then
        (case tls of
           Some t \<Rightarrow>
             (let proxy = jset ''tls'' (JBool True) proxy
              in case get_str t ''serverName'' of Some sni \<Rightarrow> jset ''sni'' (JStr sni) proxy | None \<Rightarrow> proxy)
         | None \<Rightarrow> proxy)
      else proxy)"

definition reality_proxy :: "json \<Rightarrow> json \<Rightarrow> json" where
  "reality_proxy s proxy =
     jset ''reality-opts'' (jobj
       [(''enabled'', JBool True), (''public-key'', JStr (unwrap_or (get_str s ''public_key'') [])),
        (''short-id'', JStr (unwrap_or (first_short_id s) []))])
       (jset ''client-fingerprint''
         (JStr (unwrap_or (Option.bind (or_else (jget s ''client_fingerprint'') (jget s ''fingerprint'')) as_str)
                 ''chrome''))
         (jset ''servername'' (JStr (unwrap_or (first_server_name s) []))
           (jset ''tls'' (JBool True) proxy)))"

definition xhttp_proxy :: "proxy_node \<Rightarrow> json \<Rightarrow> json" where
  "xhttp_proxy n proxy =
     (let s = pn_settings n;
          opt = (\<lambda>k k' d. JStr (unwrap_or (Option.bind (or_else (jget s k) (jget s k')) as_str) d))
      in jset ''skip-cert-verify'' (JBool (\<not> tls_has_real_certificate (pn_tls n)))
          (jset ''servername''
            (JStr (unwrap_or (Option.bind (pn_tls n) (\<lambda>t. get_str t ''serverName'')) (pn_server n)))
            (jset ''xhttp-opts'' (jobj
              [(''mode'', opt ''xhttp_mode'' ''mode'' ''auto''), (''host'', opt ''xhttp_host'' ''host'' []),
               (''path'', opt ''xhttp_path'' ''path'' ''/'')])
              (jset ''tls'' (JBool True) proxy))))"

definition build_vless_proxy :: "proxy_node \<Rightarrow> json panel_result" where
  "build_vless_proxy n =
     rbind (ok_or (client_uuid (pn_settings n)) (SubscriptionErr ''missing vless uuid'')) (\<lambda>uuid.
     let s = pn_settings n;
         flow = unwrap_or (get_str s ''flow'') [];
         proxy = jobj
           [(''name'', JStr (pn_name n)), (''type'', JStr ''vless''), (''server'', JStr (pn_server n)),
            (''port'', jnat (pn_port n)), (''uuid'', JStr uuid), (''network'', JStr (vless_network n)),
            (''udp'', JBool True)];
         proxy = (if flow = [] then proxy else jset ''flow'' (JStr flow) proxy);
         proxy = (case pn_protocol n of
                    VlessReality \<Rightarrow> reality_proxy s proxy
                  | VlessXhttp \<Rightarrow> xhttp_proxy n proxy
                  | _ \<Rightarrow> proxy)
     in Inr (apply_transport_settings (vless_network n) s (pn_tls n) proxy))"

text \<open>Unlike a share link, a proxy takes the name out of the protocol settings first.\<close>

definition proxy_sni :: "proxy_node \<Rightarrow> string" where
  "proxy_sni n =
     unwrap_or (or_else (get_str (pn_settings n) ''sni'')
                  (Option.bind (pn_tls n) (\<lambda>t. get_str t ''serverName''))) (pn_server n)"

definition build_hysteria2_proxy :: "proxy_node \<Rightarrow> json panel_result" where
  "build_hysteria2_proxy n =
     rbind (ok_or (client_password (pn_settings n)) (SubscriptionErr ''missing hysteria2 password'')) (\<lambda>pw.
     let s = pn_settings n;
         proxy = jobj
           [(''name'', JStr (pn_name n)), (''type'', JStr ''hysteria2''), (''server'', JStr (pn_server n)),
            (''port'', jnat (pn_port n)), (''password'', JStr pw), (''sni'', JStr (proxy_sni n)),
            (''skip-cert-verify'', JBool (skip_verify n)), (''alpn'', jstrs [''h3'']),
            (''up'', jnat (unwrap_or (get_u64 s ''up_mbps'') 100)),
            (''down'', jnat (unwrap_or (get_u64 s ''down_mbps'') 100)), (''udp'', JBool True)]
     in Inr (case get_str s ''obfs_type'' of
               Some t \<Rightarrow>
                 if t \<noteq> ''none''
                 then (let proxy = jset ''obfs'' (JStr t) proxy
                       in case get_str s ''obfs_password'' of
                            Some p \<Rightarrow> jset ''obfs-password'' (JStr p) proxy | None \<Rightarrow> proxy)
                 else proxy
             | None \<Rightarrow> proxy))"

definition build_anytls_proxy :: "proxy_node \<Rightarrow> json panel_result" where
  "build_anytls_proxy n =
     rbind (ok_or (client_password (pn_settings n)) (SubscriptionErr ''missing anytls password'')) (\<lambda>pw.
     Inr (jobj
       [(''name'', JStr (pn_name n)), (''type'', JStr ''anytls''), (''server'', JStr (pn_server n)),
        (''port'', jnat (pn_port n)), (''password'', JStr pw), (''sni'', JStr (proxy_sni n)),
        (''skip-cert-verify'', JBool (skip_verify n)), (''udp'', JBool True)]))"

definition build_proxy :: "proxy_node \<Rightarrow> json panel_result" where
  "build_proxy n =
     (case pn_protocol n of
        VlessReality \<Rightarrow> build_vless_proxy n
      | VlessXhttp \<Rightarrow> build_vless_proxy n
      | Hysteria2 \<Rightarrow> build_hysteria2_proxy n
      | Anytls \<Rightarrow> build_anytls_proxy n)"

section \<open>Templates\<close>

definition default_proxy_groups :: "string list \<Rightarrow> json" where
  "default_proxy_groups names =
     JArr [jobj [(''name'', JStr ''Proxy''), (''type'', JStr ''select''), (''proxies'', jstrs names)]]"

text \<open>The text before the first occurrence of a pattern (\<open>str::find\<close>).\<close>

fun str_before :: "string \<Rightarrow> string \<Rightarrow> string option" where
  "str_before p [] = (if p = [] then Some [] else None)"
| "str_before p (x # s) =
     (if starts_with p (x # s) then Some [] else map_option (Cons x) (str_before p s))"

text \<open>\<open>str::lines\<close>: a line ends with a line feed or with a carriage return and a line feed.\<close>

definition strip_cr :: "string \<Rightarrow> string" where
  "strip_cr l = (if l \<noteq> [] \<and> last l = CHR 0x0D then butlast l else l)"

definition str_lines :: "string \<Rightarrow> string list" where
  "str_lines s =
     (let ls = split_on (CHR 0x0A) s
      in map strip_cr (butlast ls) @ (if last ls = [] then [] else [last ls]))"

definition yaml_block :: "nat \<Rightarrow> string \<Rightarrow> string" where
  "yaml_block indent yaml =
     (let ls = str_lines (trim_end (dropWhile (\<lambda>c. c = CHR 0x0A) yaml))
      in (case ls of
            [] \<Rightarrow> []
          | first # rest \<Rightarrow>
              first @ concat (map (\<lambda>l. CHR 0x0A # (if l = [] then [] else replicate indent (CHR 0x20)) @ l) rest)))"

definition replace_yaml_placeholder :: "string \<Rightarrow> string \<Rightarrow> string \<Rightarrow> string panel_result" where
  "replace_yaml_placeholder template placeholder yaml =
     rbind (ok_or (str_before placeholder template)
             (SubscriptionErr (''placeholder '' @ placeholder @ '' not found''))) (\<lambda>before.
     let indent = (case rsplit_once (CHR 0x0A) before of Some (_, l) \<Rightarrow> l | None \<Rightarrow> before)
     in Inr (str_replace placeholder (yaml_block (length indent - length (trim_start indent)) yaml) template))"

definition to_yaml :: "sub_crates \<Rightarrow> string \<Rightarrow> json \<Rightarrow> string panel_result" where
  "to_yaml y what v = map_err (\<lambda>e. SubscriptionErr (''failed to serialize '' @ what @ '': '' @ e)) (y_yaml y v)"

definition PROXY_REPLACE :: string where "PROXY_REPLACE = ''<PROXY_REPLACE>''"
definition NODE_REPLACE :: string where "NODE_REPLACE = ''<NODE_REPLACE>''"

definition render_yaml_template :: "sub_crates \<Rightarrow> string \<Rightarrow> json list \<Rightarrow> string list \<Rightarrow> string panel_result" where
  "render_yaml_template y template proxies names =
     rbind (to_yaml y ''proxies to yaml'' (JArr proxies)) (\<lambda>proxies_yaml.
     rbind (to_yaml y ''proxy names to yaml'' (jstrs names)) (\<lambda>names_yaml.
     rbind (replace_yaml_placeholder template PROXY_REPLACE proxies_yaml) (\<lambda>output.
       replace_yaml_placeholder output NODE_REPLACE names_yaml)))"

text \<open>The template without placeholders: the proxies are appended to its own.\<close>

definition merge_clash :: "json list \<Rightarrow> string list \<Rightarrow> json \<Rightarrow> json option" where
  "merge_clash proxies names base =
     (let with_default = (\<lambda>k d v. if jget v k = None
                            then (if v = JNull \<or> is_obj v then Some (jset k d v) else None) else Some v)
      in Option.bind (with_default ''proxies'' (JArr []) base) (\<lambda>base.
         with_default ''proxy-groups'' (default_proxy_groups names)
           (case get_array base ''proxies'' of
              Some ps \<Rightarrow> jset ''proxies'' (JArr (ps @ proxies)) base
            | None \<Rightarrow> base)))"

definition clash_generate :: "sub_crates \<Rightarrow> proxy_node list \<Rightarrow> string option \<Rightarrow> string panel_result option" where
  "clash_generate y nodes base_config =
     (case collect_results (map build_proxy nodes) of
        Inl e \<Rightarrow> Some (Inl e)
      | Inr proxies \<Rightarrow>
          (let names = map pn_name nodes in
           case base_config of
             Some base \<Rightarrow>
               if str_contains PROXY_REPLACE (trim base) \<or> str_contains NODE_REPLACE (trim base)
               then Some (render_yaml_template y base proxies names)
               else
                 (case y_yaml_parse y base of
                    Inl e \<Rightarrow> Some (Inl (SubscriptionErr (''failed to parse clash template yaml: '' @ e)))
                  | Inr v \<Rightarrow> map_option (to_yaml y ''clash yaml'') (merge_clash proxies names v))
           | None \<Rightarrow>
               Some (to_yaml y ''clash yaml''
                 (jobj [(''proxies'', JArr proxies), (''proxy-groups'', default_proxy_groups names)]))))"

end
