(* ===== verification/SingBoxSub.thy ===== *)
theory SingBoxSub
  imports ClashSub
begin

text \<open>
  sing-box subscriptions (pp-subscription, formats/singbox.rs): the outbound of a node, and the
  three ways of putting the outbounds into a configuration, which is checked against the schema.
\<close>

section \<open>Outbounds\<close>

definition sb_supported :: "protocol_type \<Rightarrow> bool" where
  "sb_supported p \<longleftrightarrow> p = VlessReality \<or> p = Hysteria2 \<or> p = Anytls"

definition sub_server_name :: "proxy_node \<Rightarrow> string" where
  "sub_server_name n = unwrap_or (tls_server_name n) []"

definition sub_transport :: "json \<Rightarrow> string \<Rightarrow> json" where
  "sub_transport s network =
     (let t = jobj [(''type'', JStr network)];
          t = (case get_str s ''path'' of Some p \<Rightarrow> jset ''path'' (JStr p) t | None \<Rightarrow> t)
      in case get_str s ''host'' of Some h \<Rightarrow> jset ''host'' (JStr h) t | None \<Rightarrow> t)"

definition reality_object :: "json \<Rightarrow> string \<Rightarrow> json" where
  "reality_object s public_key =
     (let r = jobj [(''enabled'', JBool True), (''public_key'', JStr public_key),
                    (''short_id'', JStr (unwrap_or (first_short_id s) []))];
          spider_x = unwrap_or (get_str s ''spider_x'') []
      in if spider_x = [] then r else jset ''spider_x'' (JStr spider_x) r)"

definition build_vless_reality_outbound :: "proxy_node \<Rightarrow> json panel_result" where
  "build_vless_reality_outbound n =
     (let s = pn_settings n in
      rbind (ok_or (client_uuid s) (SubscriptionErr ''missing vless uuid'')) (\<lambda>uuid.
      let flow = unwrap_or (get_str s ''flow'') [];
          network = unwrap_or (get_str s ''network'') ''tcp'';
          o1 = jobj
            [(''type'', JStr ''vless''), (''tag'', JStr (pn_name n)), (''server'', JStr (pn_server n)),
             (''server_port'', jnat (pn_port n)), (''uuid'', JStr uuid), (''packet_encoding'', JStr ''xudp'')];
          o2 = (if flow = [] then o1 else jset ''flow'' (JStr flow) o1);
          o3 = (if network = ''tcp'' then o2 else jset ''transport'' (sub_transport s network) o2)
      in rbind (ok_or (opt_filter (\<lambda>k. k \<noteq> []) (get_str s ''public_key''))
                 (SubscriptionErr ''missing REALITY public_key'')) (\<lambda>public_key.
         Inr (jset ''tls'' (jobj
           [(''enabled'', JBool True), (''server_name'', JStr (unwrap_or (first_server_name s) [])),
            (''utls'', jobj [(''enabled'', JBool True),
                             (''fingerprint'', JStr (unwrap_or (get_str s ''fingerprint'') ''chrome''))]),
            (''reality'', reality_object s public_key)]) o3))))"

definition build_hysteria2_outbound :: "proxy_node \<Rightarrow> json panel_result" where
  "build_hysteria2_outbound n =
     (let s = pn_settings n in
      rbind (ok_or (client_password s) (SubscriptionErr ''missing hysteria2 password'')) (\<lambda>pw.
      let o1 = jobj
            [(''type'', JStr ''hysteria2''), (''tag'', JStr (pn_name n)), (''server'', JStr (pn_server n)),
             (''server_port'', jnat (pn_port n)), (''password'', JStr pw),
             (''tls'', jobj [(''enabled'', JBool True), (''server_name'', JStr (sub_server_name n)),
                             (''insecure'', JBool (skip_verify n)), (''alpn'', jstrs [''h3''])])];
          o2 = (case get_u64 s ''up_mbps'' of Some up \<Rightarrow> jset ''up_mbps'' (jnat up) o1 | None \<Rightarrow> o1);
          o3 = (case get_u64 s ''down_mbps'' of Some down \<Rightarrow> jset ''down_mbps'' (jnat down) o2 | None \<Rightarrow> o2)
      in Inr (case (get_str s ''obfs_type'', get_str s ''obfs_password'') of
                (Some t, Some p) \<Rightarrow>
                  if t \<noteq> ''none''
                  then jset ''obfs'' (jobj [(''type'', JStr t), (''password'', JStr p)]) o3 else o3
              | _ \<Rightarrow> o3)))"

definition build_anytls_outbound :: "proxy_node \<Rightarrow> json panel_result" where
  "build_anytls_outbound n =
     (let s = pn_settings n in
      rbind (ok_or (client_password s) (SubscriptionErr ''missing anytls password'')) (\<lambda>pw.
      Inr (jobj
        [(''type'', JStr ''anytls''), (''tag'', JStr (pn_name n)), (''server'', JStr (pn_server n)),
         (''server_port'', jnat (pn_port n)), (''password'', JStr pw),
         (''tls'', jobj [(''enabled'', JBool True), (''server_name'', JStr (sub_server_name n)),
                         (''insecure'', JBool (skip_verify n))])])))"

definition build_outbound :: "proxy_node \<Rightarrow> json panel_result" where
  "build_outbound n =
     (case pn_protocol n of
        VlessReality \<Rightarrow> build_vless_reality_outbound n
      | Hysteria2 \<Rightarrow> build_hysteria2_outbound n
      | Anytls \<Rightarrow> build_anytls_outbound n
      | VlessXhttp \<Rightarrow> Inl (SubscriptionErr ''sing-box does not support the vless xhttp transport''))"

section \<open>Templates\<close>

text \<open>The markers with their quotes.\<close>

definition quoted :: "string \<Rightarrow> string" where
  "quoted s = [CHR 0x22] @ s @ [CHR 0x22]"

definition OUTBOUND_REPLACE :: string where "OUTBOUND_REPLACE = ''<OUTBOUND_REPLACE>''"

definition splice_placeholder :: "string \<Rightarrow> string \<Rightarrow> string \<Rightarrow> string" where
  "splice_placeholder template marker inner =
     (if trim inner = []
      then str_replace marker ''null''
            (str_replace ('','' @ marker) []
              (str_replace ('', '' @ marker) []
                (str_replace (marker @ '','') []
                  (str_replace (marker @ '', '') [] template))))
      else str_replace marker inner template)"

text \<open>The text of an array without its brackets.\<close>

definition strip_brackets :: "string \<Rightarrow> string" where
  "strip_brackets s =
     unwrap_or (Option.bind (strip_prefix ''['' s) (\<lambda>t. map_option rev (strip_prefix '']'' (rev t)))) s"

definition render_template :: "crates \<Rightarrow> sub_crates \<Rightarrow> string \<Rightarrow> json list \<Rightarrow> string list \<Rightarrow> json panel_result" where
  "render_template x y base outbounds names =
     (let outbounds_inner = strip_brackets (x_to_string x (JArr outbounds));
          names_inner = strip_brackets (x_to_string x (jstrs names));
          rendered = splice_placeholder base (quoted OUTBOUND_REPLACE) outbounds_inner;
          rendered = splice_placeholder rendered (quoted NODE_REPLACE) names_inner
      in map_err (\<lambda>e. SubscriptionErr (''failed to render subscription template: '' @ e)) (y_json_parse y rendered))"

text \<open>The template without placeholders: the outbounds are appended to its own.\<close>

definition merge_outbounds :: "json list \<Rightarrow> json \<Rightarrow> json option" where
  "merge_outbounds outbounds base =
     (case get_array base ''outbounds'' of
        Some arr \<Rightarrow> Some (jset ''outbounds'' (JArr (arr @ outbounds)) base)
      | None \<Rightarrow> if base = JNull \<or> is_obj base then Some (jset ''outbounds'' (JArr outbounds) base) else None)"

definition default_outbounds :: "json list \<Rightarrow> json list" where
  "default_outbounds outbounds =
     (if outbounds = [] then [jobj [(''type'', JStr ''direct''), (''tag'', JStr ''direct'')]] else outbounds)"

definition checked_json :: "crates \<Rightarrow> sub_crates \<Rightarrow> json \<Rightarrow> string panel_result" where
  "checked_json x y config =
     rbind (map_err (\<lambda>e. SubscriptionErr (''sing-box schema: '' @ panel_error_str e))
             (validate_singbox_config x config)) (\<lambda>_.
     Inr (y_json_pretty y config))"

definition singbox_generate ::
    "crates \<Rightarrow> sub_crates \<Rightarrow> proxy_node list \<Rightarrow> string option \<Rightarrow> string panel_result option" where
  "singbox_generate x y nodes base_config =
     (let supported = filter (\<lambda>n. sb_supported (pn_protocol n)) nodes in
      case collect_results (map build_outbound supported) of
        Inl e \<Rightarrow> Some (Inl e)
      | Inr outbounds \<Rightarrow>
          (case base_config of
             Some base \<Rightarrow>
               if str_contains OUTBOUND_REPLACE base \<or> str_contains NODE_REPLACE base
               then Some (rbind (render_template x y base outbounds (map pn_name supported)) (checked_json x y))
               else
                 (case y_json_parse y base of
                    Inl e \<Rightarrow> Some (Inl (SubscriptionErr (''failed to parse sing-box template json: '' @ e)))
                  | Inr v \<Rightarrow> map_option (checked_json x y) (merge_outbounds outbounds v))
           | None \<Rightarrow> Some (checked_json x y (jobj [(''outbounds'', JArr (default_outbounds outbounds))]))))"

definition generate_subscription ::
    "crates \<Rightarrow> sub_crates \<Rightarrow> subscription_format \<Rightarrow> proxy_node list \<Rightarrow> string option
       \<Rightarrow> string panel_result option" where
  "generate_subscription x y f nodes base_config =
     (case f of
        Base64 \<Rightarrow> Some (base64_generate y nodes)
      | Json \<Rightarrow> Some (json_generate y nodes)
      | Clash \<Rightarrow> clash_generate y nodes base_config
      | SingBoxFormat \<Rightarrow> singbox_generate x y nodes base_config
      | V2RayNG \<Rightarrow> Some (v2rayng_generate y nodes))"

end
