(* ===== verification/Subscriptions.thy ===== *)
theory Subscriptions
  imports SingBoxSub
begin

text \<open>
  What a client's subscription holds and how it is served (pp-hub, routes/subscription/generator.rs
  and access.rs). \<open>date_str\<close> prints the day of a time stamp (chrono).
\<close>

section \<open>The entries of a client\<close>

definition client_group_ids :: "db \<Rightarrow> uuid \<Rightarrow> uuid list" where
  "client_group_ids d i = map cg_group_id (filter (\<lambda>g. cg_client_id g = i) (db_client_groups d))"

definition binding_group_ids :: "db \<Rightarrow> uuid \<Rightarrow> uuid list" where
  "binding_group_ids d i = map bg_group_id (filter (\<lambda>g. bg_node_binding_id g = i) (db_binding_groups d))"

text \<open>The ids of the groups a filter names.\<close>

definition filter_names :: "json option \<Rightarrow> string \<Rightarrow> string list" where
  "filter_names rules k =
     List.map_filter as_str (unwrap_or (Option.bind rules (\<lambda>r. get_array r k)) [])"

definition allowed_group_ids :: "db \<Rightarrow> json option \<Rightarrow> uuid list" where
  "allowed_group_ids d rules =
     (if filter_names rules ''node_groups'' = [] then []
      else map ng_id (filter (\<lambda>g. ng_name g \<in> set (filter_names rules ''node_groups'')) (db_node_groups d)))"

definition sub_parse_protocol_type :: "string \<Rightarrow> protocol_type option" where
  "sub_parse_protocol_type s =
     (if s = ''vless_reality'' then Some VlessReality
      else if s = ''vless_xhttp'' then Some VlessXhttp
      else if s = ''hysteria2'' then Some Hysteria2
      else if s = ''anytls'' then Some Anytls
      else None)"

definition push_client :: "json \<Rightarrow> json \<Rightarrow> json" where
  "push_client entry settings =
     (case get_array settings ''clients'' of
        Some arr \<Rightarrow> obj_insert ''clients'' (JArr (arr @ [entry])) settings
      | None \<Rightarrow> settings)"

definition inject_client_credentials :: "client \<Rightarrow> string \<Rightarrow> json \<Rightarrow> json" where
  "inject_client_credentials c pt settings =
     (if \<not> is_obj settings then settings
      else
        (let s = (if jget settings ''clients'' = None then obj_insert ''clients'' (JArr []) settings else settings);
             name = unwrap_or (c_email c) (c_name c) in
         if starts_with ''vless'' pt then
           (let flow = (if pt = ''vless_reality'' then ''xtls-rprx-vision'' else []);
                entry = jobj [(''id'', JStr (c_id c)), (''email'', JStr name), (''flow'', JStr flow)];
                entry = (case c_max_devices c of
                           Some limit \<Rightarrow> if limit > 0 then jset ''limitIp'' (jint limit) entry else entry
                         | None \<Rightarrow> entry)
            in push_client entry (obj_insert ''id'' (JStr (c_id c)) s))
         else if pt = ''hysteria2'' \<or> pt = ''anytls'' then
           push_client (jobj [(''name'', JStr name), (''password'', JStr (c_id c))]) s
         else s))"

section \<open>Names with variables\<close>

text \<open>\<open>{:.1}\<close> of the quotient of a number by \<open>2 ^ k\<close>, which is exact: rounded to a tenth, half to even.\<close>

definition one_decimal :: "nat \<Rightarrow> fl \<Rightarrow> string" where
  "one_decimal k x =
     (case x of Fl m e \<Rightarrow>
        let e = e - int k;
            tenths = (if 0 \<le> e then 10 * nat m * 2 ^ nat e else round_shift (nat (- e)) (10 * nat m))
        in nat_str (tenths div 10) @ ''.'' @ nat_str (tenths mod 10))"

definition format_bytes :: "int \<Rightarrow> string" where
  "format_bytes bytes =
     (let f = fl_of_int 53 bytes in
      if bytes \<ge> 2 ^ 40 then one_decimal 40 f @ '' TB''
      else if bytes \<ge> 2 ^ 30 then one_decimal 30 f @ '' GB''
      else if bytes \<ge> 2 ^ 20 then one_decimal 20 f @ '' MB''
      else if bytes \<ge> 2 ^ 10 then one_decimal 10 f @ '' KB''
      else int_str bytes @ '' B'')"

definition data_left :: "client \<Rightarrow> int" where
  "data_left c =
     (if c_traffic_limit_bytes c > 0
      then max 0 (wrap64 (c_traffic_limit_bytes c - c_traffic_used_bytes c)) else 0)"

definition node_host :: "node \<Rightarrow> string" where
  "node_host n = unwrap_or (n_domain n) (n_address n)"

definition substitute_variables ::
    "(tstamp \<Rightarrow> string) \<Rightarrow> tstamp \<Rightarrow> string \<Rightarrow> client \<Rightarrow> protocol_config \<Rightarrow> node \<Rightarrow> string" where
  "substitute_variables date_str now template c cfg n =
     (let days_left = (case c_expiry_date c of
                         Some e \<Rightarrow> max 0 ((e - now) div (86400 * ns_per_sec)) | None \<Rightarrow> 0)
      in fold (\<lambda>(k, v). str_replace k v)
           [(''{USERNAME}'', c_name c), (''{DATA_USED}'', format_bytes (c_traffic_used_bytes c)),
            (''{DATA_LEFT}'', format_bytes (data_left c)),
            (''{DATA_LIMIT}'', format_bytes (c_traffic_limit_bytes c)),
            (''{DAYS_LEFT}'', int_str days_left),
            (''{EXPIRE_DATE}'', unwrap_or (map_option date_str (c_expiry_date c)) ''never''),
            (''{STATUS}'', c_status c), (''{PROTOCOL}'', pc_protocol_type cfg),
            (''{TRANSPORT}'', unwrap_or (get_str (pc_settings cfg) ''network'') ''tcp''),
            (''{SERVER_IP}'', node_host n)] template)"

section \<open>TLS, addresses and overrides\<close>

text \<open>Deletion from an object completes its map contract.\<close>

interpretation omd: kv_delete "[]" map_of omap_ins omap_ok AList.delete
proof unfold_locales
  fix m :: "('a \<times> 'b) list" and k :: 'a
  assume "omap_ok m"
  then show "omap_ok (AList.delete k m)"
    by (simp add: omap_ok_def AList.delete_eq sorted_wrt_map sorted_wrt_filter)
qed (simp add: AList.delete_conv')

fun obj_remove :: "string \<Rightarrow> json \<Rightarrow> json" where
  "obj_remove k (JObj m) = JObj (AList.delete k m)"
| "obj_remove k v = v"

text \<open>A managed certificate of the node gives the server name, else the ACME domain does.\<close>

definition managed_cert :: "crates \<Rightarrow> db \<Rightarrow> uuid \<Rightarrow> json \<Rightarrow> certificate option" where
  "managed_cert x d node_id t =
     opt_filter (\<lambda>c. ct_node_id c = node_id)
       (Option.bind (Option.bind (get_str t ''cert_id'') (x_parse_uuid x))
          (\<lambda>i. tbl_find ct_id i (db_certificates d)))"

definition resolve_subscription_tls :: "crates \<Rightarrow> db \<Rightarrow> uuid \<Rightarrow> json option \<Rightarrow> json option" where
  "resolve_subscription_tls x d node_id tls =
     map_option (\<lambda>t.
       let t = (case managed_cert x d node_id t of
                  Some cert \<Rightarrow> obj_remove ''cert_id'' (obj_insert ''serverName'' (JStr (ct_domain cert)) t)
                | None \<Rightarrow> t)
       in if nonempty_str t ''serverName'' then t
          else (case opt_filter (\<lambda>s. s \<noteq> []) (get_str t ''domain'') of
                  Some domain \<Rightarrow> obj_insert ''serverName'' (JStr domain) t
                | None \<Rightarrow> t)) tls"

definition host_override :: "db \<Rightarrow> protocol_config \<Rightarrow> node \<Rightarrow> inbound_host option" where
  "host_override d cfg n =
     find (\<lambda>h. ih_protocol_config_id h = pc_id cfg \<and> ih_node_id h = n_id n \<and> ih_is_active h) (db_hosts d)"

text \<open>A child node is reached under the name of its parent.\<close>

definition effective_server :: "db \<Rightarrow> protocol_config \<Rightarrow> node \<Rightarrow> inbound_host option \<Rightarrow> string \<times> nat" where
  "effective_server d cfg n host =
     (case host of
        Some h \<Rightarrow> (ih_address h, as_u16 (ih_port h))
      | None \<Rightarrow>
          (case Option.bind (n_parent_id n) (\<lambda>p. tbl_find n_id p (db_nodes d)) of
             Some parent \<Rightarrow> (node_host parent, as_u16 (pc_listen_port cfg))
           | None \<Rightarrow> (node_host n, as_u16 (pc_listen_port cfg))))"

text \<open>The TLS settings the code derives from a host override are dropped; only the settings change.\<close>

definition apply_host :: "inbound_host option \<Rightarrow> json \<Rightarrow> json" where
  "apply_host host settings =
     (case host of
        None \<Rightarrow> settings
      | Some h \<Rightarrow>
          (let set = (\<lambda>k v s. case v of Some t \<Rightarrow> obj_insert k (JStr t) s | None \<Rightarrow> s)
           in set ''path'' (ih_path h) (set ''host'' (ih_host h) (set ''sni'' (ih_sni h) settings))))"

section \<open>The nodes of a subscription\<close>

definition sub_entry ::
    "crates \<Rightarrow> (tstamp \<Rightarrow> string) \<Rightarrow> tstamp \<Rightarrow> db \<Rightarrow> client \<Rightarrow> node_binding \<Rightarrow> protocol_config \<Rightarrow> node
       \<Rightarrow> protocol_type \<Rightarrow> proxy_node" where
  "sub_entry x date_str now d c b cfg n protocol =
     (let host = host_override d cfg n;
          server = effective_server d cfg n host in
      \<lparr>pn_name = (case host of
          Some h \<Rightarrow> substitute_variables date_str now (ih_remark h) c cfg n
        | None \<Rightarrow> n_name n @ ''-'' @ pc_name cfg),
       pn_protocol = protocol, pn_server = fst server, pn_port = snd server,
       pn_settings = apply_host host (inject_client_credentials c (pc_protocol_type cfg) (pc_settings cfg)),
       pn_tls = resolve_subscription_tls x d (nb_node_id b)
         (merge_tls_settings (pc_tls_settings cfg)
            (Option.bind (nb_override_settings b) (\<lambda>ov. jget ov ''tls_settings'')))\<rparr>)"

definition group_access :: "db \<Rightarrow> client \<Rightarrow> json option \<Rightarrow> node_binding \<Rightarrow> bool" where
  "group_access d c rules b \<longleftrightarrow>
     client_group_ids d (c_id c) \<noteq> []
     \<and> binding_group_ids d (nb_id b) \<noteq> []
     \<and> list_ex (\<lambda>g. g \<in> set (client_group_ids d (c_id c))) (binding_group_ids d (nb_id b))
     \<and> (allowed_group_ids d rules = []
        \<or> list_ex (\<lambda>g. g \<in> set (allowed_group_ids d rules)) (binding_group_ids d (nb_id b)))"

definition binding_entry ::
    "crates \<Rightarrow> (tstamp \<Rightarrow> string) \<Rightarrow> tstamp \<Rightarrow> db \<Rightarrow> client \<Rightarrow> json option \<Rightarrow> node_binding \<Rightarrow> proxy_node option" where
  "binding_entry x date_str now d c rules b =
     Option.bind (tbl_find pc_id (nb_protocol_config_id b) (db_protocol_configs d)) (\<lambda>cfg.
     Option.bind (tbl_find n_id (nb_node_id b) (db_nodes d)) (\<lambda>n.
     Option.bind (sub_parse_protocol_type (pc_protocol_type cfg)) (\<lambda>protocol.
     if filter_names rules ''protocols'' \<noteq> []
        \<and> protocol_str protocol \<notin> set (filter_names rules ''protocols'') then None
     else if group_access d c rules b then Some (sub_entry x date_str now d c b cfg n protocol)
     else None)))"

definition build_proxy_nodes ::
    "crates \<Rightarrow> (tstamp \<Rightarrow> string) \<Rightarrow> tstamp \<Rightarrow> db \<Rightarrow> client \<Rightarrow> json option \<Rightarrow> proxy_node list" where
  "build_proxy_nodes x date_str now d c rules =
     (if c_status c = ''limited'' \<or> c_status c = ''expired'' then []
      else List.map_filter (binding_entry x date_str now d c rules) (filter nb_is_active (db_node_bindings d)))"

section \<open>Serving\<close>

definition format_userinfo_header :: "client \<Rightarrow> string" where
  "format_userinfo_header c =
     ''upload='' @ int_str (c_traffic_used_bytes c) @ ''; download='' @ int_str (c_traffic_used_bytes c)
     @ ''; total='' @ int_str (c_traffic_limit_bytes c)
     @ ''; expire='' @ int_str (case c_expiry_date c of Some e \<Rightarrow> e div ns_per_sec | None \<Rightarrow> 0)"

definition detect_subscription_format :: "params \<Rightarrow> string option \<Rightarrow> string" where
  "detect_subscription_format ps user_agent =
     (case map_of ps ''format'' of
        Some f \<Rightarrow> ascii_lower f
      | None \<Rightarrow>
          (let ua = ascii_lower (unwrap_or user_agent []) in
           if str_contains ''clash'' ua \<or> str_contains ''mihomo'' ua then ''clash''
           else if str_contains ''sing-box'' ua \<or> str_contains ''singbox'' ua then ''sing-box''
           else if str_contains ''v2rayng'' ua \<or> str_contains ''v2ray'' ua then ''v2rayng''
           else ''base64''))"

definition find_template_for_format :: "db \<Rightarrow> string \<Rightarrow> string option \<Rightarrow> subscription_template option" where
  "find_template_for_format d f name =
     or_else
       (Option.bind name (\<lambda>n. find (\<lambda>t. sp_name t = n \<and> sp_is_enabled t) (db_templates d)))
       (find (\<lambda>t. sp_format t = ascii_lower f \<and> sp_is_enabled t) (db_templates d))"

text \<open>The template and the format the content is made in: base64 where there is no template.\<close>

definition choose_template ::
    "db \<Rightarrow> params \<Rightarrow> string \<Rightarrow> subscription_format \<Rightarrow> subscription_format \<times> subscription_template option" where
  "choose_template d ps f target =
     (case find_template_for_format d f (map_of ps ''template'') of
        Some t \<Rightarrow> (target, Some t)
      | None \<Rightarrow>
          if target \<noteq> Base64 then (Base64, find_template_for_format d ''base64'' (map_of ps ''template''))
          else (target, None))"

fun content_type :: "subscription_format \<Rightarrow> string" where
  "content_type Json = ''application/json''"
| "content_type SingBoxFormat = ''application/json''"
| "content_type V2RayNG = ''application/json''"
| "content_type Clash = ''application/x-yaml''"
| "content_type Base64 = ''text/plain; charset=utf-8''"

text \<open>A served text with its content type and the user-info header; \<open>None\<close> is a panic of the handler.\<close>

type_synonym sub_answer = "(api_error + (string \<times> string \<times> string)) option"

definition touch_subscription :: "tstamp \<Rightarrow> uuid \<Rightarrow> db \<Rightarrow> db" where
  "touch_subscription now i d =
     d\<lparr>db_subscriptions := tbl_update su_id i (\<lambda>s. s\<lparr>su_last_accessed_at := Some now\<rparr>) (db_subscriptions d)\<rparr>"

definition serve_content ::
    "crates \<Rightarrow> sub_crates \<Rightarrow> (tstamp \<Rightarrow> string) \<Rightarrow> tstamp \<Rightarrow> db \<Rightarrow> params \<Rightarrow> string option \<Rightarrow> uuid \<Rightarrow> sub_answer" where
  "serve_content x y date_str now d ps user_agent client_id =
     (let f = detect_subscription_format ps user_agent in
      case subscription_format_from_str f of
        Inl _ \<Rightarrow> Some (Inl (bad_request ''invalid_format'' ''unknown subscription format''))
      | Inr target \<Rightarrow>
          (case tbl_find c_id client_id (db_clients d) of
             None \<Rightarrow> Some (Inl (not_found ''client not found''))
           | Some c \<Rightarrow>
               (case choose_template d ps f target of
                  (target, template) \<Rightarrow>
                    map_option
                      (\<lambda>r. case r of
                         Inl e \<Rightarrow> Inl (internal (''subscription generation failed: '' @ panel_error_str e))
                       | Inr content \<Rightarrow> Inr (content_type target, content, format_userinfo_header c))
                      (generate_subscription x y target
                         (build_proxy_nodes x date_str now d c (Option.bind template sp_filter_rules))
                         (Option.bind template sp_base_config)))))"

definition subscription_inactive :: api_error where
  "subscription_inactive =
     \<lparr>ae_status = FORBIDDEN, ae_code = ''subscription_inactive'', ae_message = ''subscription is inactive''\<rparr>"

definition serve_subscription ::
    "crates \<Rightarrow> sub_crates \<Rightarrow> (tstamp \<Rightarrow> string) \<Rightarrow> tstamp \<Rightarrow> string \<Rightarrow> params \<Rightarrow> string option \<Rightarrow> db
       \<Rightarrow> sub_answer \<times> db" where
  "serve_subscription x y date_str now token ps user_agent d =
     (case tbl_find su_token token (db_subscriptions d) of
        None \<Rightarrow> (Some (Inl (not_found ''subscription not found'')), d)
      | Some sub \<Rightarrow>
          if \<not> su_is_active sub then (Some (Inl subscription_inactive), d)
          else
            (let d = touch_subscription now (su_id sub) d
             in (serve_content x y date_str now d ps user_agent (su_client_id sub), d)))"

text \<open>The text behind the QR code of a subscription.\<close>

definition build_subscription_link ::
    "crates \<Rightarrow> sub_crates \<Rightarrow> (tstamp \<Rightarrow> string) \<Rightarrow> tstamp \<Rightarrow> db \<Rightarrow> string \<Rightarrow> string \<Rightarrow> (api_error + string) option" where
  "build_subscription_link x y date_str now d token f =
     (case tbl_find su_token token (db_subscriptions d) of
        None \<Rightarrow> Some (Inl (not_found ''subscription not found''))
      | Some sub \<Rightarrow>
          (case tbl_find c_id (su_client_id sub) (db_clients d) of
             None \<Rightarrow> Some (Inl (not_found ''client not found''))
           | Some c \<Rightarrow>
               (case subscription_format_from_str f of
                  Inl _ \<Rightarrow> Some (Inl (bad_request ''invalid_format'' ''unknown subscription format''))
                | Inr fmt \<Rightarrow>
                    map_option (map_err (\<lambda>e. internal (''subscription generation failed: '' @ panel_error_str e)))
                      (generate_subscription x y fmt (build_proxy_nodes x date_str now d c None) None))))"

text \<open>The crate that draws the code is \<open>qr_svg\<close>: an error text or the picture.\<close>

definition serve_subscription_qr ::
    "crates \<Rightarrow> sub_crates \<Rightarrow> (string \<Rightarrow> string + string) \<Rightarrow> (tstamp \<Rightarrow> string) \<Rightarrow> tstamp \<Rightarrow> string \<Rightarrow> params \<Rightarrow> db
       \<Rightarrow> (api_error + string) option \<times> db" where
  "serve_subscription_qr x y qr_svg date_str now token ps d =
     (case tbl_find su_token token (db_subscriptions d) of
        None \<Rightarrow> (Some (Inl (not_found ''subscription not found'')), d)
      | Some sub \<Rightarrow>
          if \<not> su_is_active sub then (Some (Inl subscription_inactive), d)
          else
            (let d = touch_subscription now (su_id sub) d
             in (map_option (\<lambda>r. rbind r (\<lambda>content.
                   map_err (\<lambda>e. internal (''failed to generate QR code: '' @ e)) (qr_svg content)))
                   (build_subscription_link x y date_str now d token (unwrap_or (map_of ps ''format'') ''base64'')),
                 d)))"

end
