(* ===== verification/SubCheck.thy ===== *)
theory SubCheck
  imports Subscriptions
begin

text \<open>
  Properties of subscriptions: whom they list, whose credential an entry carries and whether the
  node admits it, what a client reads back out of a share link, and how they are served.
\<close>

section \<open>Lemmas: listing\<close>

lemma client_group_access:
  "group_access d c None b \<longleftrightarrow> c_id c \<in> set (linked_clients d b)"
proof -
  have "c_id c \<in> set (linked_clients d b) \<longleftrightarrow>
      (\<exists>l \<in> set (db_client_groups d). cg_client_id l = c_id c
         \<and> (\<exists>g \<in> set (db_binding_groups d). bg_node_binding_id g = nb_id b \<and> bg_group_id g = cg_group_id l))"
    by (auto simp: linked_clients_def image_iff)
  also have "\<dots> \<longleftrightarrow> (\<exists>g \<in> set (db_binding_groups d). bg_node_binding_id g = nb_id b
         \<and> (\<exists>l \<in> set (db_client_groups d). cg_client_id l = c_id c \<and> cg_group_id l = bg_group_id g))"
    by metis
  also have "\<dots> \<longleftrightarrow> (\<exists>g \<in> set (binding_group_ids d (nb_id b)). g \<in> set (client_group_ids d (c_id c)))"
    by (auto simp: binding_group_ids_def client_group_ids_def image_iff; metis)
  finally have "c_id c \<in> set (linked_clients d b)
      \<longleftrightarrow> (\<exists>g \<in> set (binding_group_ids d (nb_id b)). g \<in> set (client_group_ids d (c_id c)))" .
  moreover have "allowed_group_ids d None = []"
    by (simp add: allowed_group_ids_def filter_names_def map_filter_simps)
  ultimately show ?thesis
    unfolding group_access_def list_ex_iff by (metis empty_iff empty_set)
qed

lemma sub_parse_protocol_Some: "sub_parse_protocol_type s = Some p \<longleftrightarrow> s = protocol_str p"
  by (cases p) (auto simp: sub_parse_protocol_type_def split: if_splits)

text \<open>What an entry stands for.\<close>

definition entry_for ::
    "crates \<Rightarrow> (tstamp \<Rightarrow> string) \<Rightarrow> tstamp \<Rightarrow> db \<Rightarrow> client \<Rightarrow> node_binding \<Rightarrow> proxy_node \<Rightarrow> bool" where
  "entry_for x date_str now d c b e \<longleftrightarrow>
     (\<exists>cfg n p. tbl_find pc_id (nb_protocol_config_id b) (db_protocol_configs d) = Some cfg
        \<and> tbl_find n_id (nb_node_id b) (db_nodes d) = Some n
        \<and> pc_protocol_type cfg = protocol_str p
        \<and> e = sub_entry x date_str now d c b cfg n p)"

lemma binding_entry_iff:
  "binding_entry x date_str now d c None b = Some e
     \<longleftrightarrow> c_id c \<in> set (linked_clients d b) \<and> entry_for x date_str now d c b e"
  unfolding binding_entry_def entry_for_def client_group_access
  by (auto simp: bind_eq_Some_conv sub_parse_protocol_Some filter_names_def map_filter_simps)

lemma map_filter_set: "set (List.map_filter f xs) = {y. \<exists>x \<in> set xs. f x = Some y}"
  by (induction xs) (auto simp: map_filter_simps split: option.split)

lemma protocol_str_eq: "protocol_str p = protocol_str q \<longleftrightarrow> p = q"
  by (cases p; cases q) simp_all

section \<open>Lemmas: the inbound behind an entry\<close>

lemma node_inbounds_all:
  assumes "node_inbounds x d node core bs = Inr is" and "b \<in> set bs"
    and "tbl_find pc_id (nb_protocol_config_id b) (db_protocol_configs d) = Some cfg"
    and "parse_core_type (pc_core_type cfg) = core"
  shows "\<exists>i \<in> set is. inbound_for x d node b cfg i"
  using assms
proof (induction bs arbitrary: "is")
  case (Cons a bs)
  show ?case
  proof (cases "a = b")
    case True
    with Cons.prems show ?thesis
      by (auto simp: rbind_Inr_iff ok_or_Inr_iff inbound_for_def)
  next
    case False
    with Cons show ?thesis
      by (fastforce simp: rbind_Inr_iff ok_or_Inr_iff split: if_splits)
  qed
qed simp

definition inbound_tls :: "crates \<Rightarrow> db \<Rightarrow> uuid \<Rightarrow> node_binding \<Rightarrow> protocol_config \<Rightarrow> json panel_result" where
  "inbound_tls x d node b pc =
     rbind (resolve_managed_cert_tls x d node
             (merge_tls_settings (pc_tls_settings pc) (override_of b ''tls_settings'')))
       build_singbox_server_tls"

lemma generated_sb_inbound_of:
  assumes gen: "generate_node_config x env d node SingBox = Inr (cfg, ver)"
    and b: "b \<in> set (active_bindings d node)"
    and pc: "tbl_find pc_id (nb_protocol_config_id b) (db_protocol_configs d) = Some pc"
      "parse_core_type (pc_core_type pc) = SingBox" "pc_protocol_type pc = protocol_str p"
    and p: "p \<noteq> VlessXhttp" "p = VlessReality \<or> is_ok (inbound_tls x d node b pc)"
  obtains tls v where "v \<in> set (arr_of cfg ''inbounds'')"
    "sb_build_inbound p (binding_settings d b pc) tls = Inr v"
proof -
  from gen obtain "is" base where
    ins: "node_inbounds x d node SingBox (active_bindings d node) = Inr is"
    and base: "sb_build_full_config env is = Inr base"
    and cfg: "apply_relay_rules x d node SingBox base = Inr cfg"
    by (auto elim!: generate_Inr)
  from cfg frame_refl [OF sb_full_is_obj [OF base]] have "frame base cfg"
    unfolding apply_relay_rules_def by (rule relay_loop_frame)
  then have same: "jget cfg ''inbounds'' = jget base ''inbounds''"
    by (simp add: frame_def relay_keys_def)
  from base obtain vs where vs: "sb_inbounds is = Inr vs" "jget base ''inbounds'' = Some (JArr vs)"
    by (rule sb_full_members)
  from node_inbounds_all [OF ins b pc(1,2)] obtain i where i: "i \<in> set is" "inbound_for x d node b pc i"
    by blast
  from i(2) pc(3) have ip: "ic_protocol i = p" and st: "ic_settings i = binding_settings d b pc"
    by (auto simp: inbound_for_def parse_protocol_Inr protocol_str_eq)
  from vs(1) have "is_ok (sb_inbounds is)" by simp
  then have skip: "\<forall>e. sb_build i = Inl e \<longrightarrow> sb_skip i e"
    using i(1) by (simp add: sb.loop_ok_iff)
  have "is_ok (sb_build i)"
  proof (cases "p = VlessReality")
    case True
    with skip have "reality_keys (ic_settings i)" by (simp add: sb_skippable_iff ip)
    with True show ?thesis by (simp add: sb_build_def ip build_vless_ok_iff)
  next
    case False
    with p i(2) have "is_ok (build_singbox_server_tls (ic_tls i))"
      by (auto simp: inbound_tls_def inbound_for_def)
    with False p(1) ip show ?thesis
      by (cases p) (auto simp: sb_build_def is_ok_iff build_hysteria2_inbound_def
          build_anytls_inbound_def Let_def)
  qed
  then obtain v where v: "sb_build i = Inr v" by (auto simp: is_ok_iff)
  have "v \<in> set vs"
    unfolding sb.loop_value [OF vs(1)] map_filter_set using i(1) v by (auto intro!: bexI [of _ i])
  with same vs(2) have "v \<in> set (arr_of cfg ''inbounds'')"
    by (simp add: arr_of_def get_array_def)
  with v ip st show ?thesis
    by (intro that) (simp_all add: sb_build_def)
qed

section \<open>Lemmas: credentials\<close>

text \<open>The credential the generators take for a node.\<close>

definition node_credential :: "proxy_node \<Rightarrow> string option" where
  "node_credential e =
     (if pn_protocol e = VlessReality \<or> pn_protocol e = VlessXhttp
      then client_uuid (pn_settings e) else client_password (pn_settings e))"

definition own_key :: "protocol_type \<Rightarrow> string" where
  "own_key p = (if p = VlessReality \<or> p = VlessXhttp then ''id'' else ''password'')"

lemma jget_apply_host:
  "k \<notin> {''path'', ''host'', ''sni''} \<Longrightarrow> jget (apply_host h s) k = jget s k"
  by (cases s) (auto simp: apply_host_def Let_def map_of_omap_ins split: option.split)

lemma jget_push_client: "k \<noteq> ''clients'' \<Longrightarrow> jget (push_client v s) k = jget s k"
  by (cases s) (auto simp: push_client_def map_of_omap_ins split: option.split)

lemma jget_inject:
  "k \<notin> {''clients'', ''id''} \<Longrightarrow> jget (inject_client_credentials c pt s) k = jget s k"
  by (simp add: inject_client_credentials_def Let_def jget_push_client split: option.split)

text \<open>The clients a configuration brings along stay in front of the injected one.\<close>

lemma injected_clients:
  assumes "is_obj s" and "jget s ''clients'' = None \<and> arr = [] \<or> get_array s ''clients'' = Some arr"
  shows "\<exists>entry. get_array (inject_client_credentials c (protocol_str p) s) ''clients'' = Some (arr @ [entry])
     \<and> get_str entry (own_key p) = Some (c_id c)"
  using assms
  by (cases p)
     (auto simp: inject_client_credentials_def push_client_def own_key_def Let_def get_array_def
        get_str_def split: option.split)

lemma pn_protocol_sub_entry [simp]: "pn_protocol (sub_entry x date_str now d c b cfg n p) = p"
  by (simp add: sub_entry_def Let_def)

lemma node_credential_entry:
  assumes cfg: "pc_protocol_type cfg = protocol_str p" "is_obj (pc_settings cfg)"
    and arr: "jget (pc_settings cfg) ''clients'' = None \<and> arr = [] \<or> get_array (pc_settings cfg) ''clients'' = Some arr"
    and "c_id c \<noteq> []"
  obtains entry where "get_str entry (own_key p) = Some (c_id c)"
    "get_array (pn_settings (sub_entry x date_str now d c b cfg n p)) ''clients'' = Some (arr @ [entry])"
proof -
  from injected_clients [OF cfg(2) arr, of c p] obtain entry where
    "get_array (inject_client_credentials c (protocol_str p) (pc_settings cfg)) ''clients'' = Some (arr @ [entry])"
    "get_str entry (own_key p) = Some (c_id c)" by blast
  with cfg(1) show ?thesis
    by (intro that [of entry]) (simp_all add: sub_entry_def Let_def get_array_def jget_apply_host)
qed

lemma node_credential_first:
  assumes "get_array (pn_settings e) ''clients'' = Some (first # rest)"
    and "get_str first (own_key (pn_protocol e)) = Some s" "s \<noteq> []"
  shows "node_credential e = Some s"
  using assms
  by (auto simp: node_credential_def own_key_def client_uuid_def client_password_def first_of_def
      get_str_def bind_eq_Some_conv split: if_splits)

lemma own_credential:
  assumes "pc_protocol_type cfg = protocol_str p" "is_obj (pc_settings cfg)"
    and "jget (pc_settings cfg) ''clients'' = None \<or> get_array (pc_settings cfg) ''clients'' = Some []"
    and "c_id c \<noteq> []"
  shows "node_credential (sub_entry x date_str now d c b cfg n p) = Some (c_id c)"
proof -
  have "jget (pc_settings cfg) ''clients'' = None \<and> [] = [] \<or> get_array (pc_settings cfg) ''clients'' = Some []"
    using assms(3) by simp
  from node_credential_entry [OF assms(1,2) this assms(4), of x date_str now d b n] obtain entry where
    "get_str entry (own_key p) = Some (c_id c)"
    "get_array (pn_settings (sub_entry x date_str now d c b cfg n p)) ''clients'' = Some ([] @ [entry])"
    by blast
  then show ?thesis
    using assms(4) by (intro node_credential_first) (auto simp: sub_entry_def Let_def)
qed

section \<open>Properties: listing and admission\<close>



text \<open>
  Where a protocol configuration brings a client of its own, every client's entry carries that
  client's credential instead of its owner's.
\<close>

theorem placeholder_client_shadows:
  assumes "binding_entry x date_str now d c None b = Some e"
    and "tbl_find pc_id (nb_protocol_config_id b) (db_protocol_configs d) = Some pc"
    and "is_obj (pc_settings pc)" "get_array (pc_settings pc) ''clients'' = Some (first # rest)"
    and "get_str first (own_key (pn_protocol e)) = Some s" "s \<noteq> []" "c_id c \<noteq> []"
  shows "node_credential e = Some s"
proof -
  from assms(1,2) obtain n q where q: "pc_protocol_type pc = protocol_str q"
    and e: "e = sub_entry x date_str now d c b pc n q"
    by (auto simp: binding_entry_iff entry_for_def)
  from node_credential_entry [OF q assms(3) disjI2 [OF assms(4)] assms(7), of x date_str now d b n]
  obtain entry where "get_array (pn_settings e) ''clients'' = Some (first # rest @ [entry])"
    unfolding e by auto
  with assms(5,6) show ?thesis by (intro node_credential_first)
qed

text \<open>
  A managed certificate is not taken for a real one: the links to a binding whose TLS settings name
  just a managed certificate tell the client not to verify it, although the node serves with it.
\<close>

theorem managed_certificate_unverified:
  assumes e: "binding_entry x date_str now d c None b = Some e"
    and pc: "tbl_find pc_id (nb_protocol_config_id b) (db_protocol_configs d) = Some pc"
      "get_bool (pc_settings pc) ''skip_cert_verify'' = None"
    and tls: "merge_tls_settings (pc_tls_settings pc) (override_of b ''tls_settings'')
        = Some (jobj [(''cert_id'', JStr raw)])"
    and cert: "x_parse_uuid x raw = Some i" "tbl_find ct_id i (db_certificates d) = Some ct"
      "ct_node_id ct = nb_node_id b" "ct_domain ct \<noteq> []"
  shows "is_ok (inbound_tls x d (nb_node_id b) b pc)
     \<and> tls_server_name e = Some (ct_domain ct) \<and> skip_verify e"
proof -
  from e pc(1) obtain n q where e': "e = sub_entry x date_str now d c b pc n q"
    by (auto simp: binding_entry_iff entry_for_def)
  let ?t = "jobj [(''cert_id'', JStr raw)]"
  have m: "managed_cert x d (nb_node_id b) ?t = Some ct"
    using cert by (simp add: managed_cert_def get_str_def)
  have "resolve_subscription_tls x d (nb_node_id b) (Some ?t)
      = Some (jobj [(''serverName'', JStr (ct_domain ct))])"
    by (simp add: resolve_subscription_tls_def m cert(4) Let_def)
       (simp add: jobj_def omap_of_def nonempty_str_def get_str_def cert(4))
  then have t: "pn_tls e = Some (jobj [(''serverName'', JStr (ct_domain ct))])"
    using tls by (simp add: e' sub_entry_def Let_def override_of_def)
  have "get_bool (pn_settings e) ''skip_cert_verify'' = None"
    using pc(2) by (simp add: e' sub_entry_def Let_def get_bool_def jget_apply_host jget_inject)
  with t have "skip_verify e"
    by (simp add: skip_verify_def tls_has_real_certificate_def nonempty_str_def get_str_def jobj_def omap_of_def)
  moreover have "is_ok (inbound_tls x d (nb_node_id b) b pc)"
    using cert by (simp add: inbound_tls_def tls resolve_managed_cert_tls_def get_str_def
        build_singbox_server_tls_def str_or_def Let_def)
  ultimately show ?thesis
    by (simp add: tls_server_name_def tls_or_setting_def t get_str_def)
qed

section \<open>Witnesses\<close>

abbreviation demo_c1 :: client where
  "demo_c1 \<equiv> mk_client ''c1'' ''active''"

abbreviation demo_b :: node_binding where
  "demo_b \<equiv> mk_binding ''b'' ''n1'' ''p''"

text \<open>The demo installation with another protocol configuration.\<close>

definition demo_with :: "protocol_config \<Rightarrow> db" where
  "demo_with pc = demo_db\<lparr>db_protocol_configs := [pc],
     db_certificates := [\<lparr>ct_id = ''ct'', ct_node_id = ''n1'', ct_domain = ''example.org'', ct_status = ''active'',
       ct_challenge_type = ''http-01'', ct_expires_at = None, ct_last_issued_at = None, ct_last_error = None,
       ct_created_at = 0, ct_updated_at = 0\<rparr>]\<rparr>"

lemma demo_with_members:
  "pc_id pc = ''p'' \<Longrightarrow> tbl_find pc_id (nb_protocol_config_id demo_b) (db_protocol_configs (demo_with pc)) = Some pc"
  "linked_clients (demo_with pc) demo_b = [''c1'', ''c2'']"
  "tbl_find n_id (nb_node_id demo_b) (db_nodes (demo_with pc)) = Some (mk_node ''n1'')"
  "tbl_find ct_id ''ct'' (db_certificates (demo_with pc)) \<noteq> None"
  by (simp_all add: demo_with_def tbl_find_def mk_binding_def linked_clients_def demo_db_def mk_node_def)

lemma demo_with_entry:
  assumes "pc_id pc = ''p''" "pc_protocol_type pc = protocol_str p"
  shows "binding_entry x date_str now (demo_with pc) demo_c1 None demo_b
    = Some (sub_entry x date_str now (demo_with pc) demo_c1 demo_b pc (mk_node ''n1'') p)"
  unfolding binding_entry_iff entry_for_def using assms
  by (auto simp: demo_with_members mk_client_def protocol_str_eq)

lemma demo_entry:
  "binding_entry x date_str now demo_db demo_c1 None demo_b
    = Some (sub_entry x date_str now demo_db demo_c1 demo_b (mk_config ''p'' VlessReality SingBox demo_reality)
              (mk_node ''n1'') VlessReality)"
proof -
  let ?pc = "mk_config ''p'' VlessReality SingBox demo_reality"
  have "tbl_find n_id (nb_node_id demo_b) (db_nodes demo_db) = Some (mk_node ''n1'')"
    by (simp add: demo_db_def tbl_find_def mk_node_def mk_binding_def)
  moreover have "tbl_find pc_id (nb_protocol_config_id demo_b) (db_protocol_configs demo_db) = Some ?pc"
    using demo_config by (simp add: mk_binding_def)
  moreover have "pc_protocol_type ?pc = protocol_str VlessReality" by (simp add: mk_config_def)
  moreover have "c_id demo_c1 \<in> set (linked_clients demo_db demo_b)"
    by (simp add: demo_linked mk_client_def)
  ultimately show ?thesis
    unfolding binding_entry_iff entry_for_def by blast
qed



definition shared_config :: protocol_config where
  "shared_config = mk_config ''p'' Hysteria2 SingBox
     (jobj [(''clients'', JArr [jobj [(''password'', JStr ''shared'')]])])"

theorem placeholder_client_shadows_witness:
  "\<exists>e. binding_entry demo_crates (\<lambda>_. []) 0 (demo_with shared_config) demo_c1 None demo_b = Some e
     \<and> node_credential e = Some ''shared''"
proof -
  have pc: "pc_id shared_config = ''p''" "pc_protocol_type shared_config = protocol_str Hysteria2"
    by (simp_all add: shared_config_def mk_config_def)
  let ?e = "sub_entry demo_crates (\<lambda>_. []) 0 (demo_with shared_config) demo_c1 demo_b shared_config (mk_node ''n1'') Hysteria2"
  have "node_credential ?e = Some ''shared''"
    by (rule placeholder_client_shadows
          [OF demo_with_entry [OF pc] demo_with_members(1) [OF pc(1)],
           where first = "jobj [(''password'', JStr ''shared'')]" and rest = "[]"])
       (simp_all add: shared_config_def mk_config_def get_array_def own_key_def sub_entry_def Let_def mk_client_def get_str_def)
  with demo_with_entry [OF pc] show ?thesis by blast
qed

definition managed_config :: protocol_config where
  "managed_config = (mk_config ''p'' Anytls SingBox (jobj []))\<lparr>pc_tls_settings := Some (jobj [(''cert_id'', JStr ''ct'')])\<rparr>"

theorem managed_certificate_unverified_witness:
  "\<exists>e. binding_entry demo_crates (\<lambda>_. []) 0 (demo_with managed_config) demo_c1 None demo_b = Some e
     \<and> tls_server_name e = Some ''example.org'' \<and> skip_verify e"
proof -
  have pc: "pc_id managed_config = ''p''" "pc_protocol_type managed_config = protocol_str Anytls"
    by (simp_all add: managed_config_def mk_config_def)
  obtain ct where ct: "tbl_find ct_id ''ct'' (db_certificates (demo_with managed_config)) = Some ct"
    "ct_node_id ct = nb_node_id demo_b" "ct_domain ct = ''example.org''"
    by (simp add: demo_with_def tbl_find_def mk_binding_def)
  have "is_ok (inbound_tls demo_crates (demo_with managed_config) (nb_node_id demo_b) demo_b managed_config)
     \<and> tls_server_name (sub_entry demo_crates (\<lambda>_. []) 0 (demo_with managed_config) demo_c1 demo_b managed_config (mk_node ''n1'') Anytls)
        = Some (ct_domain ct)
     \<and> skip_verify (sub_entry demo_crates (\<lambda>_. []) 0 (demo_with managed_config) demo_c1 demo_b managed_config (mk_node ''n1'') Anytls)"
    by (rule managed_certificate_unverified [OF demo_with_entry [OF pc] demo_with_members(1) [OF pc(1)] _ _ _ ct(1,2)])
       (simp_all add: managed_config_def mk_config_def get_bool_def merge_tls_settings_def override_of_def
          mk_binding_def demo_crates_def ct(3))
  with demo_with_entry [OF pc] ct(3) show ?thesis by auto
qed

end
