(* ===== verification/LinkCheck.thy ===== *)
theory LinkCheck
  imports SubCheck
begin

text \<open>
  Properties of the subscription formats: a share link is read back to the node it was made of, the
  formats agree on a node, what becomes of a clash template with one placeholder, and what
  serving a subscription looks at.
\<close>

section \<open>Reading a share link\<close>

record link_parts =
  lp_scheme :: string
  lp_credential :: string
  lp_host :: string
  lp_port :: nat
  lp_query :: string
  lp_name :: string

text \<open>A reader of share links, the reference the links are stated against: \<open>dec\<close> decodes a text.\<close>

definition parse_share_link :: "(string \<Rightarrow> string) \<Rightarrow> string \<Rightarrow> link_parts option" where
  "parse_share_link dec s =
     Option.bind (split_once (CHR '':'') s) (\<lambda>(scheme, s).
     Option.bind (strip_prefix ''//'' s) (\<lambda>s.
     Option.bind (split_once (CHR ''@'') s) (\<lambda>(credential, s).
     Option.bind (split_once (CHR ''?'') s) (\<lambda>(authority, s).
     Option.bind (rsplit_once (CHR '':'') authority) (\<lambda>(host, port).
     Option.bind (parse_uint u16_max port) (\<lambda>port.
     Option.bind (split_once (CHR ''#'') s) (\<lambda>(query, name).
     Some \<lparr>lp_scheme = scheme,
            lp_credential = (if scheme = ''vless'' then credential else dec credential),
            lp_host = host, lp_port = port, lp_query = query, lp_name = dec name\<rparr>)))))))"

text \<open>
  What is relied on of the form encoding of the url crate: it can be undone, also after a plus was
  written as \<open>%20\<close>, and its text has none of the delimiters.
\<close>

definition url_codec :: "(string \<Rightarrow> string) \<Rightarrow> (string \<Rightarrow> string) \<Rightarrow> bool" where
  "url_codec enc dec \<longleftrightarrow>
     (\<forall>s. dec (enc s) = s \<and> dec (str_replace ''+'' ''%20'' (enc s)) = s
          \<and> CHR ''@'' \<notin> set (enc s) \<and> CHR ''#'' \<notin> set (enc s))"

text \<open>The texts a link takes over without encoding them.\<close>

definition raw_texts :: "proxy_node \<Rightarrow> string list" where
  "raw_texts e =
     List.map_filter (get_str (pn_settings e))
       [''network'', ''flow'', ''fingerprint'', ''xhttp_mode'', ''mode'', ''header_type'', ''obfs_type'']
     @ List.map_filter (\<lambda>t. t) [Option.bind (pn_tls e) (\<lambda>t. get_str t ''fingerprint'')]"

lemma split_once_append: "c \<notin> set a \<Longrightarrow> split_once c (a @ c # b) = Some (a, b)"
  by (induction a) auto

lemma strip_prefix_append: "strip_prefix p (p @ s) = Some s"
  by (auto simp: strip_prefix_def starts_with_iff)

lemma notin_str_join: "c \<notin> set sep \<Longrightarrow> \<forall>p \<in> set ps. c \<notin> set p \<Longrightarrow> c \<notin> set (str_join sep ps)"
  by (induction sep ps rule: str_join.induct) auto

lemma question_notin_nat_str: "CHR ''?'' \<notin> set (nat_str n)"
  using nat_str_digits [of "CHR ''?''" n] by (auto simp: digit_val_def upt_rec)

lemma parse_share_link_share_link:
  assumes "CHR '':'' \<notin> set scheme" "CHR ''@'' \<notin> set cred" "CHR ''?'' \<notin> set (pn_server e)"
    and "\<forall>p \<in> set ps. CHR ''#'' \<notin> set p" and "pn_port e \<le> u16_max"
  shows "parse_share_link dec (share_link y scheme cred ps e)
    = Some \<lparr>lp_scheme = scheme, lp_credential = (if scheme = ''vless'' then cred else dec cred),
        lp_host = pn_server e, lp_port = pn_port e, lp_query = str_join ''&'' ps,
        lp_name = dec (encode_fragment y (pn_name e))\<rparr>"
proof -
  let ?q = "str_join ''&'' ps" and ?f = "encode_fragment y (pn_name e)"
  let ?a = "pn_server e @ CHR '':'' # nat_str (pn_port e)"
  have "split_once (CHR ''#'') (?q @ CHR ''#'' # ?f) = Some (?q, ?f)"
    using assms(4) by (intro split_once_append notin_str_join) auto
  moreover have "split_once (CHR ''?'') (?a @ CHR ''?'' # ?q @ CHR ''#'' # ?f)
      = Some (?a, ?q @ CHR ''#'' # ?f)"
    using assms(3) by (intro split_once_append) (simp add: question_notin_nat_str)
  moreover have "rsplit_once (CHR '':'') ?a = Some (pn_server e, nat_str (pn_port e))"
    by (rule rsplit_once_append) (rule colon_notin_nat_str)
  moreover have "strip_prefix ''//'' (''//'' @ s) = Some s" for s
    by (rule strip_prefix_append)
  ultimately show ?thesis
    using assms(1,2,5)
    by (simp add: parse_share_link_def share_link_def split_once_append parse_uint_nat_str)
qed

section \<open>Lemmas: no fragment sign in the parameters\<close>

definition no_hash :: "string list \<Rightarrow> bool" where
  "no_hash ps \<longleftrightarrow> (\<forall>p \<in> set ps. CHR ''#'' \<notin> set p)"

lemma no_hash_simps [simp]:
  "no_hash []" "no_hash (p # ps) \<longleftrightarrow> CHR ''#'' \<notin> set p \<and> no_hash ps"
  "no_hash (ps @ qs) \<longleftrightarrow> no_hash ps \<and> no_hash qs"
  by (auto simp: no_hash_def)

lemma no_hash_opt_param [simp]:
  "no_hash (opt_param k f v)
     \<longleftrightarrow> (case v of None \<Rightarrow> True | Some s \<Rightarrow> CHR ''#'' \<notin> set k \<and> CHR ''#'' \<notin> set (f s))"
  by (simp add: opt_param_def split: option.split)

lemma raw_text_notin:
  assumes "c \<notin> set (concat (raw_texts e))"
    and "get_str (pn_settings e) k = Some t"
    and "k \<in> set [''network'', ''flow'', ''fingerprint'', ''xhttp_mode'', ''mode'', ''header_type'', ''obfs_type'']"
  shows "c \<notin> set t"
proof -
  have "t \<in> set (raw_texts e)"
    unfolding raw_texts_def set_append map_filter_set using assms(2,3) by blast
  with assms(1) show ?thesis by auto
qed

lemma raw_tls_notin:
  assumes "c \<notin> set (concat (raw_texts e))" and "tls_fingerprint e = Some t"
  shows "c \<notin> set t"
proof (cases "Option.bind (pn_tls e) (\<lambda>t. get_str t ''fingerprint'')")
  case None
  with assms(2) have "get_str (pn_settings e) ''fingerprint'' = Some t"
    by (simp add: tls_fingerprint_def tls_or_setting_def)
  with assms(1) show ?thesis by (rule raw_text_notin) simp
next
  case (Some s)
  with assms(2) have "s = t" by (simp add: tls_fingerprint_def tls_or_setting_def)
  with Some have "t \<in> set (raw_texts e)"
    unfolding raw_texts_def set_append map_filter_set by simp
  with assms(1) show ?thesis by auto
qed

lemma raw_unwrap_notin:
  assumes "c \<notin> set (concat (raw_texts e))" "c \<notin> set d"
    and "k \<in> set [''network'', ''flow'', ''fingerprint'', ''xhttp_mode'', ''mode'', ''header_type'', ''obfs_type'']"
  shows "c \<notin> set (unwrap_or (get_str (pn_settings e) k) d)"
  using assms(2) raw_text_notin [OF assms(1) _ assms(3)]
  by (cases "get_str (pn_settings e) k") auto

lemma codec_hash: "url_codec enc dec \<Longrightarrow> CHR ''#'' \<notin> set (enc s)"
  by (simp add: url_codec_def)

lemma hash_notin_transport:
  assumes "url_codec (y_urlencode y) dec" "CHR ''#'' \<notin> set (concat (raw_texts e))"
  shows "no_hash (transport_params y (pn_settings e) network)"
proof -
  note raw = raw_text_notin [OF assms(2)]
  have "get_str (pn_settings e) ''xhttp_mode'' = Some t \<Longrightarrow> CHR ''#'' \<notin> set t"
    "get_str (pn_settings e) ''mode'' = Some t \<Longrightarrow> CHR ''#'' \<notin> set t"
    "get_str (pn_settings e) ''header_type'' = Some t \<Longrightarrow> CHR ''#'' \<notin> set t" for t
    by (auto dest!: raw)
  then show ?thesis
    by (simp add: transport_params_def Let_def or_else_def codec_hash [OF assms(1)] split: option.split)
qed

lemma hash_notin_security:
  assumes "url_codec (y_urlencode y) dec" "CHR ''#'' \<notin> set (concat (raw_texts e))"
    and "vless_security_params y e = Inr ps"
  shows "no_hash ps"
proof (cases "pn_protocol e = VlessReality")
  case True
  have "CHR ''#'' \<notin> set (unwrap_or (get_str (pn_settings e) ''fingerprint'') ''chrome'')"
    by (rule raw_unwrap_notin [OF assms(2)]) simp_all
  with True assms(3) show ?thesis
    by (auto simp: vless_security_params_def reality_params_def rbind_Inr_iff Let_def
        codec_hash [OF assms(1)] split: option.split)
next
  case False
  with assms(3) raw_tls_notin [OF assms(2)] show ?thesis
    by (auto simp: vless_security_params_def codec_hash [OF assms(1)] split: if_splits option.split)
qed

lemma hash_notin_obfs:
  assumes "url_codec (y_urlencode y) dec" "CHR ''#'' \<notin> set (concat (raw_texts e))"
  shows "no_hash (obfs_params y (pn_settings e))"
proof -
  have "get_str (pn_settings e) ''obfs_type'' = Some t \<Longrightarrow> CHR ''#'' \<notin> set t" for t
    by (auto dest!: raw_text_notin [OF assms(2)])
  then show ?thesis
    by (simp add: obfs_params_def codec_hash [OF assms(1)] split: option.split)
qed

lemma hash_notin_nat_str: "CHR ''#'' \<notin> set (nat_str n)"
  using nat_str_digits [of "CHR ''#''" n] by (auto simp: digit_val_def upt_rec)

fun link_scheme :: "protocol_type \<Rightarrow> string" where
  "link_scheme Hysteria2 = ''hysteria2''"
| "link_scheme Anytls = ''anytls''"
| "link_scheme VlessReality = ''vless''"
| "link_scheme VlessXhttp = ''vless''"

text \<open>Every link is a URL of its scheme for the node's credential, with clean parameters.\<close>

lemma share_link_shape:
  assumes "share_link_of y e = Inr link"
    and "url_codec (y_urlencode y) dec" "CHR ''#'' \<notin> set (concat (raw_texts e))"
  obtains cred ps where "node_credential e = Some cred" "no_hash ps"
    "link = share_link y (link_scheme (pn_protocol e))
       (if link_scheme (pn_protocol e) = ''vless'' then cred else y_urlencode y cred) ps e"
proof -
  note h = hash_notin_transport [OF assms(2,3)] hash_notin_security [OF assms(2,3)]
    hash_notin_obfs [OF assms(2,3)] codec_hash [OF assms(2)] hash_notin_nat_str
  consider (vless) "pn_protocol e = VlessReality \<or> pn_protocol e = VlessXhttp"
    | (hysteria2) "pn_protocol e = Hysteria2" | (anytls) "pn_protocol e = Anytls"
    by (cases "pn_protocol e") auto
  then show ?thesis
  proof cases
    case vless
    then have "generate_vless_link y e = Inr link"
      using assms(1) by (auto simp: share_link_of_def)
    then obtain i sec where i: "client_uuid (pn_settings e) = Some i"
      and sec: "vless_security_params y e = Inr sec"
      and l: "link = share_link y ''vless'' i
            ((''type='' @ vless_network e)
             # opt_param ''flow'' id (some_nonempty (unwrap_or (get_str (pn_settings e) ''flow'') []))
             @ transport_params y (pn_settings e) (vless_network e) @ sec) e"
      by (auto simp: generate_vless_link_def rbind_Inr_iff ok_or_Inr_iff)
    have "CHR ''#'' \<notin> set (unwrap_or (get_str (pn_settings e) k) d)"
      if "k \<in> set [''network'', ''flow'']" "CHR ''#'' \<notin> set d" for k d
      using that by (intro raw_unwrap_notin [OF assms(3)]) auto
    then have "CHR ''#'' \<notin> set (vless_network e)"
      "CHR ''#'' \<notin> set (unwrap_or (get_str (pn_settings e) ''flow'') [])"
      using vless by (auto simp: vless_network_def)
    then have "no_hash ((''type='' @ vless_network e)
             # opt_param ''flow'' id (some_nonempty (unwrap_or (get_str (pn_settings e) ''flow'') []))
             @ transport_params y (pn_settings e) (vless_network e) @ sec)"
      using h(1) h(2) [OF sec] by (simp add: some_nonempty_def)
    from that [OF _ this] vless i l show ?thesis
      by (auto simp: node_credential_def)
  next
    case hysteria2
    have "no_hash (hysteria2_params y e)"
      using h by (simp add: hysteria2_params_def sni_param_def insecure_param_def Let_def split: option.split)
    from that [OF _ this] hysteria2 assms(1) show ?thesis
      by (auto simp: share_link_of_def generate_hysteria2_link_def rbind_Inr_iff ok_or_Inr_iff node_credential_def)
  next
    case anytls
    have "no_hash (anytls_params y e)"
      using h by (simp add: anytls_params_def sni_param_def insecure_param_def split: option.split)
    from that [OF _ this] anytls assms(1) show ?thesis
      by (auto simp: share_link_of_def generate_anytls_link_def rbind_Inr_iff ok_or_Inr_iff node_credential_def)
  qed
qed

section \<open>Lemmas: proxies and outbounds\<close>

lemma is_obj_reality_proxy [simp]: "is_obj v \<Longrightarrow> is_obj (reality_proxy s v)"
  by (simp add: reality_proxy_def)

lemma jget_reality_proxy [simp]:
  "is_obj v \<Longrightarrow> k \<notin> {''reality-opts'', ''client-fingerprint'', ''servername'', ''tls''} \<Longrightarrow>
   jget (reality_proxy s v) k = jget v k"
  by (simp add: reality_proxy_def jget_jset)

lemma jget_transport_settings [simp]:
  "is_obj v \<Longrightarrow> k \<notin> {''ws-opts'', ''grpc-opts'', ''tls'', ''sni''} \<Longrightarrow>
   jget (apply_transport_settings nw s tls v) k = jget v k"
  by (simp add: apply_transport_settings_def Let_def jget_jset split: option.split)

lemma vless_proxy_members:
  assumes "pn_protocol e = VlessReality" and "client_uuid (pn_settings e) = Some i"
  obtains p where "build_vless_proxy e = Inr p" "get_str p ''server'' = Some (pn_server e)"
    "get_u64 p ''port'' = Some (pn_port e)" "get_str p ''uuid'' = Some i"
proof -
  from assms obtain p where p: "build_vless_proxy e = Inr p"
    by (simp add: build_vless_proxy_def Let_def)
  then have "get_str p ''server'' = Some (pn_server e)"
    "get_u64 p ''port'' = Some (pn_port e)" "get_str p ''uuid'' = Some i"
    using assms by (auto simp: build_vless_proxy_def Let_def get_str_def get_u64_def jnat_def jget_jset)
  with p show ?thesis by (rule that)
qed

lemma reality_outbound_members:
  assumes "build_vless_reality_outbound e = Inr ob"
  obtains i k where "client_uuid (pn_settings e) = Some i" "get_str (pn_settings e) ''public_key'' = Some k"
    "k \<noteq> []" "get_str ob ''server'' = Some (pn_server e)" "get_u64 ob ''server_port'' = Some (pn_port e)"
    "get_str ob ''uuid'' = Some i"
proof -
  from assms obtain i k where "client_uuid (pn_settings e) = Some i"
    "get_str (pn_settings e) ''public_key'' = Some k" "k \<noteq> []"
    by (auto simp: build_vless_reality_outbound_def Let_def rbind_Inr_iff ok_or_Inr_iff opt_filter_Some_iff)
  moreover from assms this(1) have "get_str ob ''server'' = Some (pn_server e)"
    "get_u64 ob ''server_port'' = Some (pn_port e)" "get_str ob ''uuid'' = Some i"
    by (auto simp: build_vless_reality_outbound_def Let_def rbind_Inr_iff get_str_def get_u64_def jnat_def jget_jset)
  ultimately show ?thesis by (rule that)
qed

lemma hysteria2_proxy_members:
  assumes "client_password (pn_settings e) = Some pw"
  obtains p where "build_hysteria2_proxy e = Inr p" "get_str p ''server'' = Some (pn_server e)"
    "get_u64 p ''port'' = Some (pn_port e)" "get_str p ''password'' = Some pw"
proof -
  from assms obtain p where p: "build_hysteria2_proxy e = Inr p"
    by (simp add: build_hysteria2_proxy_def Let_def)
  then have "get_str p ''server'' = Some (pn_server e)"
    "get_u64 p ''port'' = Some (pn_port e)" "get_str p ''password'' = Some pw"
    using assms by (auto simp: build_hysteria2_proxy_def Let_def get_u64_def jnat_def split: option.splits if_splits)
  with p show ?thesis by (rule that)
qed

lemma hysteria2_outbound_members:
  assumes "build_hysteria2_outbound e = Inr ob"
  obtains pw where "client_password (pn_settings e) = Some pw" "get_str ob ''server'' = Some (pn_server e)"
    "get_u64 ob ''server_port'' = Some (pn_port e)" "get_str ob ''password'' = Some pw"
proof -
  from assms obtain pw where pw: "client_password (pn_settings e) = Some pw"
    by (auto simp: build_hysteria2_outbound_def Let_def rbind_Inr_iff ok_or_Inr_iff)
  with assms have "get_str ob ''server'' = Some (pn_server e)"
    "get_u64 ob ''server_port'' = Some (pn_port e)" "get_str ob ''password'' = Some pw"
    by (auto simp: build_hysteria2_outbound_def Let_def get_u64_def jnat_def split: option.splits if_splits)
  with pw show ?thesis by (rule that)
qed

section \<open>Properties\<close>

text \<open>
  C18: A share link is read back to its node: scheme, credential, server, port and display name, if the
  texts that are not encoded hold none of the delimiters around them.
\<close>

theorem share_link_roundtrip:
  assumes "share_link_of y e = Inr link" and codec: "url_codec (y_urlencode y) dec"
    and "CHR ''#'' \<notin> set (concat (raw_texts e))" and "CHR ''?'' \<notin> set (pn_server e)"
    and "link_scheme (pn_protocol e) = ''vless'' \<longrightarrow> CHR ''@'' \<notin> set (unwrap_or (node_credential e) [])"
    and "pn_port e \<le> u16_max"
  shows "\<exists>l. parse_share_link dec link = Some l \<and> lp_scheme l = link_scheme (pn_protocol e)
     \<and> Some (lp_credential l) = node_credential e \<and> lp_host l = pn_server e
     \<and> lp_port l = pn_port e \<and> lp_name l = pn_name e"
proof -
  from share_link_shape [OF assms(1) codec assms(3)] obtain cred ps where
    c: "node_credential e = Some cred" and ps: "no_hash ps"
    and l: "link = share_link y (link_scheme (pn_protocol e))
       (if link_scheme (pn_protocol e) = ''vless'' then cred else y_urlencode y cred) ps e"
    by blast
  have scheme: "CHR '':'' \<notin> set (link_scheme (pn_protocol e))"
    by (cases "pn_protocol e") auto
  have at: "CHR ''@'' \<notin> set (if link_scheme (pn_protocol e) = ''vless'' then cred else y_urlencode y cred)"
    using assms(5) c codec by (simp add: url_codec_def)
  show ?thesis
    unfolding l parse_share_link_share_link [OF scheme at assms(4) ps [unfolded no_hash_def] assms(6)]
    using c codec by (simp add: url_codec_def encode_fragment_def)
qed


text \<open>
  A clash template that marks only the place of the proxy names is never rendered: either marker
  selects the path, which then needs both.
\<close>

lemma str_before_None_iff: "str_before p s = None \<longleftrightarrow> \<not> str_contains p s"
  by (induction s) auto

theorem clash_names_only_fails:
  assumes "str_contains NODE_REPLACE (trim base)" and "\<not> str_contains PROXY_REPLACE base"
  shows "\<exists>e. clash_generate y nodes (Some base) = Some (Inl e)"
proof -
  have "\<exists>e. render_yaml_template y base proxies names = Inl e" for proxies names
    using assms(2)
    by (cases "to_yaml y ''proxies to yaml'' (JArr proxies)"; cases "to_yaml y ''proxy names to yaml'' (jstrs names)")
       (simp_all add: render_yaml_template_def replace_yaml_placeholder_def flip: str_before_None_iff)
  then show ?thesis
    using assms(1) by (simp add: clash_generate_def Let_def split: sum.split)
qed

text \<open>What is served does not depend on the expiry dates that subscriptions have.\<close>

lemma entry_subs:
  "group_access (d\<lparr>db_subscriptions := ss\<rparr>) c rules b = group_access d c rules b"
  "sub_entry x date_str now (d\<lparr>db_subscriptions := ss\<rparr>) c b cfg n p = sub_entry x date_str now d c b cfg n p"
  "choose_template (d\<lparr>db_subscriptions := ss\<rparr>) ps f target = choose_template d ps f target"
  by (simp_all add: group_access_def client_group_ids_def binding_group_ids_def allowed_group_ids_def
      sub_entry_def host_override_def effective_server_def resolve_subscription_tls_def managed_cert_def
      choose_template_def find_template_for_format_def Let_def cong: option.case_cong)

lemma build_proxy_nodes_subs:
  "build_proxy_nodes x date_str now (d\<lparr>db_subscriptions := ss\<rparr>) c rules = build_proxy_nodes x date_str now d c rules"
proof -
  have "binding_entry x date_str now (d\<lparr>db_subscriptions := ss\<rparr>) c rules
      = binding_entry x date_str now d c rules"
    by (rule ext) (simp add: binding_entry_def entry_subs cong: if_cong)
  then show ?thesis by (simp add: build_proxy_nodes_def)
qed

lemma serve_content_subs:
  "serve_content x y date_str now (d\<lparr>db_subscriptions := ss\<rparr>) ps ua i = serve_content x y date_str now d ps ua i"
  by (simp add: serve_content_def build_proxy_nodes_subs entry_subs Let_def
      cong: sum.case_cong option.case_cong prod.case_cong)

lemma tbl_find_map:
  "(\<And>r. key (f r) = key r) \<Longrightarrow> tbl_find key k (map f rs) = map_option f (tbl_find key k rs)"
  unfolding tbl_find_def by (induction rs) auto

theorem expiry_date_not_checked:
  "fst (serve_subscription x y date_str now token ps ua d)
     = fst (serve_subscription x y date_str now token ps ua
         (d\<lparr>db_subscriptions := map (\<lambda>s. s\<lparr>su_expire_at := None\<rparr>) (db_subscriptions d)\<rparr>))"
  by (simp add: serve_subscription_def tbl_find_map touch_subscription_def serve_content_subs Let_def
      split: option.split)

text \<open>
  The second names of the formats are accepted and then not served: a template carries its format's
  first name, so without a template of that name the answer is the base64 one.
\<close>

theorem alias_served_as_base64:
  assumes "map_of ps ''format'' = Some f" "ascii_lower f \<in> {''singbox'', ''yaml''}"
    and "map_of ps ''template'' = None" "\<forall>t \<in> set (db_templates d). sp_format t \<notin> {''singbox'', ''yaml''}"
    and "serve_content x y date_str now d ps ua i = Some (Inr (ctype, content, info))"
  shows "ctype = ''text/plain; charset=utf-8''
     \<and> (\<exists>nodes. base64_generate y nodes = Inr content)"
proof -
  have idem: "ascii_lower (ascii_lower f) = ascii_lower f"
    by (auto simp: ascii_lower_def Let_def)
  have "find_template_for_format d (ascii_lower f) None = None"
    using assms(2,4) by (auto simp: find_template_for_format_def idem find_None_iff)
  then have "choose_template d ps (ascii_lower f) target = (Base64, find_template_for_format d ''base64'' None)"
    if "target \<noteq> Base64" for target
    using that assms(3) by (simp add: choose_template_def)
  moreover have "subscription_format_from_str (ascii_lower f) = Inr SingBoxFormat
      \<or> subscription_format_from_str (ascii_lower f) = Inr Clash"
    using assms(2) by (auto simp: subscription_format_from_str_def idem Let_def)
  ultimately show ?thesis
    using assms(1,5)
    by (auto simp: serve_content_def detect_subscription_format_def Let_def generate_subscription_def
        split: option.splits sum.splits)
qed

section \<open>Witnesses\<close>

text \<open>A codec that writes every byte as two letters.\<close>

definition letter_of :: "nat \<Rightarrow> char" where
  "letter_of n = char_of (97 + n)"

definition nibbles :: "string \<Rightarrow> string" where
  "nibbles s = concat (map (\<lambda>c. let n = of_char c in [letter_of (n div 16), letter_of (n mod 16)]) s)"

fun unnibbles :: "string \<Rightarrow> string" where
  "unnibbles (a # b # s) = char_of (16 * (of_char a - 97) + (of_char b - 97) :: nat) # unnibbles s"
| "unnibbles s = []"

lemma of_char_letter: "n < 16 \<Longrightarrow> of_char (letter_of n) = 97 + n"
  by (simp add: letter_of_def)

lemma nibble_bounds: "(of_char c :: nat) div 16 < 16"
  using nat_of_char_less_256 [of c] by (simp add: less_mult_imp_div_less)

lemma unnibbles_nibbles: "unnibbles (nibbles s) = s"
  by (induction s) (simp_all add: nibbles_def Let_def of_char_letter nibble_bounds)

lemma nibbles_letters: "c \<in> set (nibbles s) \<Longrightarrow> 97 \<le> (of_char c :: nat)"
  by (auto simp: nibbles_def Let_def of_char_letter nibble_bounds)

lemma nibbles_codec: "url_codec nibbles unnibbles"
proof -
  have no: "c \<notin> set (nibbles s)" if "c \<in> {CHR ''+'', CHR ''@'', CHR ''#''}" for c s
    using that nibbles_letters [of c s] by auto
  have "\<not> str_contains ''+'' (nibbles s)" for s
    using no [of "CHR ''+''" s] by (auto simp: str_contains_iff)
  then show ?thesis
    using no by (simp add: url_codec_def unnibbles_nibbles str_replace_absent)
qed

definition demo_sub_crates :: sub_crates where
  "demo_sub_crates = \<lparr>y_urlencode = nibbles, y_base64 = id, y_json_pretty = (\<lambda>_. ''{}''),
     y_json_parse = (\<lambda>_. Inr JNull), y_yaml = (\<lambda>_. Inr ''x''), y_yaml_parse = (\<lambda>_. Inr JNull)\<rparr>"

definition demo_proxy :: proxy_node where
  "demo_proxy = \<lparr>pn_name = ''Los Angeles'', pn_protocol = Anytls, pn_server = ''192.0.2.1'', pn_port = 8443,
     pn_settings = jobj [(''password'', JStr ''a@b#c'')], pn_tls = None\<rparr>"

lemma demo_password: "client_password (pn_settings demo_proxy) = Some ''a@b#c''"
  by (simp add: demo_proxy_def client_password_def get_array_def get_str_def)

lemma demo_anytls: "pn_protocol demo_proxy = Anytls"
  by (simp add: demo_proxy_def)

lemma demo_link: "\<exists>link. share_link_of demo_sub_crates demo_proxy = Inr link"
  using demo_password by (simp add: share_link_of_def generate_anytls_link_def demo_anytls)

theorem share_link_roundtrip_witness:
  "\<exists>link l. share_link_of demo_sub_crates demo_proxy = Inr link \<and> parse_share_link unnibbles link = Some l
     \<and> lp_credential l = ''a@b#c'' \<and> lp_name l = ''Los Angeles''"
proof -
  from demo_link obtain link where link: "share_link_of demo_sub_crates demo_proxy = Inr link" ..
  have cred: "node_credential demo_proxy = Some ''a@b#c''"
    using demo_password by (simp add: node_credential_def demo_proxy_def)
  have raw: "CHR ''#'' \<notin> set (concat (raw_texts demo_proxy))"
    by (simp add: raw_texts_def demo_proxy_def map_filter_simps get_str_def)
  have srv: "CHR ''?'' \<notin> set (pn_server demo_proxy)" "pn_port demo_proxy \<le> u16_max"
    "link_scheme (pn_protocol demo_proxy) = ''vless'' \<longrightarrow> CHR ''@'' \<notin> set (unwrap_or (node_credential demo_proxy) [])"
    by (simp_all add: demo_proxy_def u16_max_def)
  have "url_codec (y_urlencode demo_sub_crates) unnibbles"
    using nibbles_codec by (simp add: demo_sub_crates_def)
  from share_link_roundtrip [OF link this raw srv(1,3,2)] link cred show ?thesis
    by (auto simp: demo_proxy_def)
qed


theorem clash_names_only_fails_witness:
  "\<exists>e. clash_generate demo_sub_crates [demo_proxy] (Some ''x: <NODE_REPLACE>'') = Some (Inl e)"
proof (rule clash_names_only_fails)
  have "trim ''x: <NODE_REPLACE>'' = ''x: <NODE_REPLACE>''" by code_simp
  then show "str_contains NODE_REPLACE (trim ''x: <NODE_REPLACE>'')"
    by (simp add: NODE_REPLACE_def)
qed (simp add: PROXY_REPLACE_def)

end
