(* ===== verification/ClientRoutes.thy ===== *)
theory ClientRoutes
  imports LinkCheck
begin

text \<open>
  The handlers of clients, node groups and inbound hosts (pp-hub, routes/client.rs, node\_group.rs
  and inbound\_host.rs). \<open>tj\<close> prints a time stamp as serde does; new ids are drawn from \<open>fresh\<close>.
\<close>

definition ojson :: "('a \<Rightarrow> json) \<Rightarrow> 'a option \<Rightarrow> json" where
  "ojson f v = (case v of Some x \<Rightarrow> f x | None \<Rightarrow> JNull)"

text \<open>\<open>set(v)\<close> of an update where the payload has a value.\<close>

definition blank :: "string option \<Rightarrow> bool" where
  "blank v = (case v of Some s \<Rightarrow> trim s = [] | None \<Rightarrow> False)"

definition nonempty :: "string option \<Rightarrow> string option" where
  "nonempty v = opt_filter (\<lambda>s. s \<noteq> []) v"

text \<open>A deletion by id answers 404 when no row went.\<close>

definition delete_answer :: "string \<Rightarrow> 'r list \<Rightarrow> 'r list \<Rightarrow> api_error + unit" where
  "delete_answer what before after =
     (if length after = length before then Inl (not_found (what @ '' not found'')) else Inr ())"

section \<open>Clients\<close>

definition sync_client_groups :: "uuid \<Rightarrow> uuid list \<Rightarrow> db \<Rightarrow> db" where
  "sync_client_groups i groups d =
     d\<lparr>db_client_groups :=
        fold (\<lambda>g. tbl_insert \<lparr>cg_client_id = i, cg_group_id = g\<rparr>) groups
          (tbl_delete (\<lambda>l. cg_client_id l = i) (db_client_groups d))\<rparr>"

definition client_traffic_total :: "db \<Rightarrow> uuid \<Rightarrow> int" where
  "client_traffic_total d i =
     fold (\<lambda>r s. wrap64 (s + wrap64 (ur_upload_bytes r + ur_download_bytes r)))
       (filter (\<lambda>r. ur_client_id r = i) (db_usage d)) 0"

definition client_to_json :: "(tstamp \<Rightarrow> json) \<Rightarrow> client \<Rightarrow> uuid list \<Rightarrow> int \<Rightarrow> json" where
  "client_to_json tj c groups total_bytes = jobj
     [(''id'', JStr (c_id c)), (''user_id'', JStr (c_user_id c)), (''name'', JStr (c_name c)),
      (''email'', ojson JStr (c_email c)), (''traffic_limit_bytes'', jint (c_traffic_limit_bytes c)),
      (''traffic_used_bytes'', jint (c_traffic_used_bytes c)),
      (''all_time_used_bytes'', jint (c_all_time_used_bytes c)),
      (''traffic_used_total'', jint total_bytes),
      (''is_exceeded'', JBool (c_traffic_limit_bytes c > 0 \<and> total_bytes \<ge> c_traffic_limit_bytes c)),
      (''expiry_date'', ojson tj (c_expiry_date c)), (''reset_day'', ojson jint (c_reset_day c)),
      (''data_limit_reset_strategy'', JStr (c_data_limit_reset_strategy c)),
      (''last_traffic_reset_time'', ojson tj (c_last_traffic_reset_time c)),
      (''max_devices'', ojson jint (c_max_devices c)), (''status'', JStr (c_status c)),
      (''on_hold_expire_duration_secs'', ojson jint (c_on_hold_expire_duration_secs c)),
      (''on_hold_timeout'', ojson tj (c_on_hold_timeout c)), (''group_ids'', jstrs groups)]"

definition client_view :: "(tstamp \<Rightarrow> json) \<Rightarrow> db \<Rightarrow> client \<Rightarrow> json" where
  "client_view tj d c = client_to_json tj c (client_group_ids d (c_id c)) (client_traffic_total d (c_id c))"

definition list_clients :: "(tstamp \<Rightarrow> json) \<Rightarrow> params \<Rightarrow> db \<Rightarrow> json list \<times> nat" where
  "list_clients tj ps d = (case paged ps (db_clients d) of (cs, n) \<Rightarrow> (map (client_view tj d) cs, n))"

definition get_client :: "(tstamp \<Rightarrow> json) \<Rightarrow> uuid \<Rightarrow> db \<Rightarrow> api_error + json" where
  "get_client tj i d =
     rbind (ok_or (tbl_find c_id i (db_clients d)) (not_found ''client not found'')) (\<lambda>c.
       Inr (client_view tj d c))"

record create_client_payload =
  ccp_name :: string
  ccp_user_id :: "uuid option"
  ccp_email :: "string option"
  ccp_traffic_limit_bytes :: "int option"
  ccp_expiry_date :: "tstamp option"
  ccp_reset_day :: "int option"
  ccp_data_limit_reset_strategy :: "string option"
  ccp_max_devices :: "int option"
  ccp_group_ids :: "uuid list option"
  ccp_on_hold_expire_duration_secs :: "int option"
  ccp_on_hold_timeout :: "tstamp option"

definition created_client :: "tstamp \<Rightarrow> (nat \<Rightarrow> uuid) \<Rightarrow> create_client_payload \<Rightarrow> client" where
  "created_client now fresh p =
     \<lparr>c_id = fresh 0, c_user_id = unwrap_or (ccp_user_id p) (fresh 1), c_name = trim (ccp_name p),
      c_email = nonempty (ccp_email p),
      c_traffic_limit_bytes = unwrap_or (ccp_traffic_limit_bytes p) 0, c_traffic_used_bytes = 0,
      c_all_time_used_bytes = 0, c_expiry_date = ccp_expiry_date p, c_reset_day = ccp_reset_day p,
      c_data_limit_reset_strategy = unwrap_or (ccp_data_limit_reset_strategy p) ''no_reset'',
      c_last_traffic_reset_time = None, c_max_devices = ccp_max_devices p,
      c_status = (if ccp_on_hold_expire_duration_secs p \<noteq> None \<and> ccp_expiry_date p = None
                  then ''on_hold'' else ''active''),
      c_on_hold_expire_duration_secs = ccp_on_hold_expire_duration_secs p,
      c_on_hold_timeout = ccp_on_hold_timeout p, c_created_at = now, c_updated_at = now\<rparr>"

definition create_client ::
    "tstamp \<Rightarrow> (nat \<Rightarrow> uuid) \<Rightarrow> create_client_payload \<Rightarrow> db \<Rightarrow> (api_error + json) \<times> db" where
  "create_client now fresh p d =
     (if trim (ccp_name p) = [] then (Inl (bad_request ''invalid_name'' ''client name is required''), d)
      else
        (let c = created_client now fresh p;
             d = d\<lparr>db_clients := tbl_insert c (db_clients d)\<rparr>;
             d = (case ccp_group_ids p of Some gs \<Rightarrow> sync_client_groups (c_id c) gs d | None \<Rightarrow> d)
         in (Inr (jobj [(''id'', JStr (c_id c)), (''name'', JStr (c_name c)), (''email'', ojson JStr (c_email c)),
                        (''status'', JStr (c_status c))]), d)))"

record update_client_payload =
  ucp_name :: "string option"
  ucp_email :: "string option"
  ucp_traffic_limit_bytes :: "int option"
  ucp_expiry_date :: "tstamp option"
  ucp_reset_day :: "int option"
  ucp_data_limit_reset_strategy :: "string option"
  ucp_max_devices :: "int option"
  ucp_status :: "string option"
  ucp_group_ids :: "uuid list option"
  ucp_on_hold_expire_duration_secs :: "int option"
  ucp_on_hold_timeout :: "tstamp option"

definition update_client_row :: "tstamp \<Rightarrow> update_client_payload \<Rightarrow> client \<Rightarrow> client" where
  "update_client_row now p c =
     c\<lparr>c_name := unwrap_or (map_option trim (ucp_name p)) (c_name c),
       c_email := (case ucp_email p of Some e \<Rightarrow> nonempty (Some e) | None \<Rightarrow> c_email c),
       c_traffic_limit_bytes := unwrap_or (ucp_traffic_limit_bytes p) (c_traffic_limit_bytes c),
       c_expiry_date := or_else (ucp_expiry_date p) (c_expiry_date c),
       c_reset_day := or_else (ucp_reset_day p) (c_reset_day c),
       c_data_limit_reset_strategy := unwrap_or (ucp_data_limit_reset_strategy p) (c_data_limit_reset_strategy c),
       c_max_devices := or_else (ucp_max_devices p) (c_max_devices c),
       c_status := unwrap_or (ucp_status p) (c_status c),
       c_on_hold_expire_duration_secs := or_else (ucp_on_hold_expire_duration_secs p) (c_on_hold_expire_duration_secs c),
       c_on_hold_timeout := or_else (ucp_on_hold_timeout p) (c_on_hold_timeout c),
       c_updated_at := now\<rparr>"

definition update_client_route ::
    "tstamp \<Rightarrow> uuid \<Rightarrow> update_client_payload \<Rightarrow> db \<Rightarrow> (api_error + json) \<times> db" where
  "update_client_route now i p d =
     (case tbl_find c_id i (db_clients d) of
        None \<Rightarrow> (Inl (not_found ''client not found''), d)
      | Some c \<Rightarrow>
          if blank (ucp_name p) then (Inl (bad_request ''invalid_name'' ''client name cannot be empty''), d)
          else
            (let c' = update_client_row now p c;
                 d = d\<lparr>db_clients := tbl_update c_id i (update_client_row now p) (db_clients d)\<rparr>;
                 d = (case ucp_group_ids p of Some gs \<Rightarrow> sync_client_groups i gs d | None \<Rightarrow> d)
             in (Inr (jobj [(''id'', JStr (c_id c')), (''name'', JStr (c_name c')), (''status'', JStr (c_status c'))]), d)))"

definition delete_client :: "uuid \<Rightarrow> db \<Rightarrow> (api_error + unit) \<times> db" where
  "delete_client i d =
     (let d' = d\<lparr>db_clients := tbl_delete (\<lambda>c. c_id c = i) (db_clients d)\<rparr>
      in (delete_answer ''client'' (db_clients d) (db_clients d'), d'))"

definition reset_client_traffic ::
    "(tstamp \<Rightarrow> json) \<Rightarrow> tstamp \<Rightarrow> uuid \<Rightarrow> db \<Rightarrow> (api_error + json) \<times> db" where
  "reset_client_traffic tj now i d =
     (case tbl_find c_id i (db_clients d) of
        None \<Rightarrow> (Inl (not_found ''client not found''), d)
      | Some c \<Rightarrow>
          (Inr (jobj [(''id'', JStr i), (''traffic_used_bytes'', jint 0), (''last_traffic_reset_time'', tj now)]),
           d\<lparr>db_clients := tbl_update c_id i
              (\<lambda>c. c\<lparr>c_traffic_used_bytes := 0, c_last_traffic_reset_time := Some now, c_updated_at := now\<rparr>)
              (db_clients d)\<rparr>))"

section \<open>Node groups\<close>

definition group_to_json :: "(tstamp \<Rightarrow> json) \<Rightarrow> node_group \<Rightarrow> uuid list \<Rightarrow> json" where
  "group_to_json tj g bindings = jobj
     [(''id'', JStr (ng_id g)), (''name'', JStr (ng_name g)), (''description'', ojson JStr (ng_description g)),
      (''labels'', unwrap_or (ng_labels g) (jobj [])), (''binding_ids'', jstrs bindings),
      (''created_at'', tj (ng_created_at g)), (''updated_at'', tj (ng_updated_at g))]"

definition binding_ids_of_group :: "db \<Rightarrow> uuid \<Rightarrow> uuid list" where
  "binding_ids_of_group d i = map bg_node_binding_id (filter (\<lambda>b. bg_group_id b = i) (db_binding_groups d))"

definition sync_group_bindings :: "uuid \<Rightarrow> uuid list \<Rightarrow> db \<Rightarrow> db" where
  "sync_group_bindings i bindings d =
     d\<lparr>db_binding_groups :=
        fold (\<lambda>b. tbl_insert \<lparr>bg_node_binding_id = b, bg_group_id = i\<rparr>) bindings
          (tbl_delete (\<lambda>b. bg_group_id b = i) (db_binding_groups d))\<rparr>"

definition group_view :: "(tstamp \<Rightarrow> json) \<Rightarrow> db \<Rightarrow> node_group \<Rightarrow> json" where
  "group_view tj d g = group_to_json tj g (binding_ids_of_group d (ng_id g))"

definition list_groups :: "(tstamp \<Rightarrow> json) \<Rightarrow> params \<Rightarrow> db \<Rightarrow> json list \<times> nat" where
  "list_groups tj ps d = (case paged ps (db_node_groups d) of (gs, n) \<Rightarrow> (map (group_view tj d) gs, n))"

definition get_group :: "(tstamp \<Rightarrow> json) \<Rightarrow> uuid \<Rightarrow> db \<Rightarrow> api_error + json" where
  "get_group tj i d =
     rbind (ok_or (tbl_find ng_id i (db_node_groups d)) (not_found ''node group not found'')) (\<lambda>g.
       Inr (group_view tj d g))"

record create_group_payload =
  cgp_name :: string
  cgp_description :: "string option"
  cgp_labels :: "json option"
  cgp_binding_ids :: "uuid list option"

definition create_group ::
    "(tstamp \<Rightarrow> json) \<Rightarrow> tstamp \<Rightarrow> uuid \<Rightarrow> create_group_payload \<Rightarrow> db \<Rightarrow> (api_error + json) \<times> db" where
  "create_group tj now i p d =
     (if trim (cgp_name p) = [] then (Inl (bad_request ''invalid_name'' ''group name is required''), d)
      else
        (let g = \<lparr>ng_id = i, ng_name = cgp_name p, ng_description = nonempty (cgp_description p),
                  ng_labels = cgp_labels p, ng_created_at = now, ng_updated_at = now\<rparr>;
             d = d\<lparr>db_node_groups := tbl_insert g (db_node_groups d)\<rparr>;
             d = (case cgp_binding_ids p of Some bs \<Rightarrow> sync_group_bindings i bs d | None \<Rightarrow> d)
         in (Inr (group_view tj d g), d)))"

record update_group_payload =
  ugp_name :: "string option"
  ugp_description :: "string option"
  ugp_labels :: "json option"
  ugp_binding_ids :: "uuid list option"

text \<open>The description is always replaced, also by an update that has none.\<close>

definition update_group_row :: "tstamp \<Rightarrow> update_group_payload \<Rightarrow> node_group \<Rightarrow> node_group" where
  "update_group_row now p g =
     g\<lparr>ng_name := unwrap_or (ugp_name p) (ng_name g), ng_description := ugp_description p,
       ng_labels := or_else (ugp_labels p) (ng_labels g), ng_updated_at := now\<rparr>"

definition update_group ::
    "(tstamp \<Rightarrow> json) \<Rightarrow> tstamp \<Rightarrow> uuid \<Rightarrow> update_group_payload \<Rightarrow> db \<Rightarrow> (api_error + json) \<times> db" where
  "update_group tj now i p d =
     (case tbl_find ng_id i (db_node_groups d) of
        None \<Rightarrow> (Inl (not_found ''node group not found''), d)
      | Some g \<Rightarrow>
          if blank (ugp_name p) then (Inl (bad_request ''invalid_name'' ''group name cannot be empty''), d)
          else
            (let d = d\<lparr>db_node_groups := tbl_update ng_id i (update_group_row now p) (db_node_groups d)\<rparr>;
                 d = (case ugp_binding_ids p of Some bs \<Rightarrow> sync_group_bindings i bs d | None \<Rightarrow> d)
             in (Inr (group_view tj d (update_group_row now p g)), d)))"

definition delete_group :: "uuid \<Rightarrow> db \<Rightarrow> (api_error + unit) \<times> db" where
  "delete_group i d =
     (let d' = d\<lparr>db_node_groups := tbl_delete (\<lambda>g. ng_id g = i) (db_node_groups d)\<rparr>
      in (delete_answer ''node group'' (db_node_groups d) (db_node_groups d'), d'))"

section \<open>Inbound hosts\<close>

definition host_to_json :: "(tstamp \<Rightarrow> json) \<Rightarrow> inbound_host \<Rightarrow> json" where
  "host_to_json tj h = jobj
     [(''id'', JStr (ih_id h)), (''protocol_config_id'', JStr (ih_protocol_config_id h)),
      (''node_id'', JStr (ih_node_id h)), (''remark'', JStr (ih_remark h)), (''address'', JStr (ih_address h)),
      (''port'', jint (ih_port h)), (''sni'', ojson JStr (ih_sni h)), (''host'', ojson JStr (ih_host h)),
      (''path'', ojson JStr (ih_path h)), (''security'', ojson JStr (ih_security h)),
      (''alpn'', ojson JStr (ih_alpn h)), (''fingerprint'', ojson JStr (ih_fingerprint h)),
      (''is_active'', JBool (ih_is_active h)), (''created_at'', tj (ih_created_at h)),
      (''updated_at'', tj (ih_updated_at h))]"

definition list_hosts :: "(tstamp \<Rightarrow> json) \<Rightarrow> params \<Rightarrow> db \<Rightarrow> json list \<times> nat" where
  "list_hosts tj ps d = (case paged ps (db_hosts d) of (hs, n) \<Rightarrow> (map (host_to_json tj) hs, n))"

definition get_host :: "(tstamp \<Rightarrow> json) \<Rightarrow> uuid \<Rightarrow> db \<Rightarrow> api_error + json" where
  "get_host tj i d =
     rbind (ok_or (tbl_find ih_id i (db_hosts d)) (not_found ''host not found'')) (\<lambda>h. Inr (host_to_json tj h))"

record create_host_payload =
  chp_protocol_config_id :: uuid
  chp_node_id :: uuid
  chp_remark :: string
  chp_address :: string
  chp_port :: int
  chp_sni :: "string option"
  chp_host :: "string option"
  chp_path :: "string option"
  chp_security :: "string option"
  chp_alpn :: "string option"
  chp_fingerprint :: "string option"
  chp_is_active :: "bool option"

definition create_host ::
    "(tstamp \<Rightarrow> json) \<Rightarrow> tstamp \<Rightarrow> uuid \<Rightarrow> create_host_payload \<Rightarrow> db \<Rightarrow> (api_error + json) \<times> db" where
  "create_host tj now i p d =
     (if trim (chp_remark p) = [] then (Inl (bad_request ''invalid_remark'' ''remark is required''), d)
      else if trim (chp_address p) = [] then (Inl (bad_request ''invalid_address'' ''address is required''), d)
      else
        (let h = \<lparr>ih_id = i, ih_protocol_config_id = chp_protocol_config_id p, ih_node_id = chp_node_id p,
                  ih_remark = chp_remark p, ih_address = chp_address p, ih_port = chp_port p,
                  ih_sni = chp_sni p, ih_host = chp_host p, ih_path = chp_path p,
                  ih_security = chp_security p, ih_alpn = chp_alpn p, ih_fingerprint = chp_fingerprint p,
                  ih_is_active = unwrap_or (chp_is_active p) True, ih_created_at = now, ih_updated_at = now\<rparr>
         in (Inr (host_to_json tj h), d\<lparr>db_hosts := tbl_insert h (db_hosts d)\<rparr>)))"

record update_host_payload =
  uhp_remark :: "string option"
  uhp_address :: "string option"
  uhp_port :: "int option"
  uhp_sni :: "string option"
  uhp_host :: "string option"
  uhp_path :: "string option"
  uhp_security :: "string option"
  uhp_alpn :: "string option"
  uhp_fingerprint :: "string option"
  uhp_is_active :: "bool option"

definition update_host_row :: "tstamp \<Rightarrow> update_host_payload \<Rightarrow> inbound_host \<Rightarrow> inbound_host" where
  "update_host_row now p h =
     h\<lparr>ih_remark := unwrap_or (uhp_remark p) (ih_remark h), ih_address := unwrap_or (uhp_address p) (ih_address h),
       ih_port := unwrap_or (uhp_port p) (ih_port h), ih_sni := or_else (uhp_sni p) (ih_sni h),
       ih_host := or_else (uhp_host p) (ih_host h), ih_path := or_else (uhp_path p) (ih_path h),
       ih_security := or_else (uhp_security p) (ih_security h), ih_alpn := or_else (uhp_alpn p) (ih_alpn h),
       ih_fingerprint := or_else (uhp_fingerprint p) (ih_fingerprint h),
       ih_is_active := unwrap_or (uhp_is_active p) (ih_is_active h), ih_updated_at := now\<rparr>"

definition update_host ::
    "(tstamp \<Rightarrow> json) \<Rightarrow> tstamp \<Rightarrow> uuid \<Rightarrow> update_host_payload \<Rightarrow> db \<Rightarrow> (api_error + json) \<times> db" where
  "update_host tj now i p d =
     (case tbl_find ih_id i (db_hosts d) of
        None \<Rightarrow> (Inl (not_found ''host not found''), d)
      | Some h \<Rightarrow>
          (Inr (host_to_json tj (update_host_row now p h)),
           d\<lparr>db_hosts := tbl_update ih_id i (update_host_row now p) (db_hosts d)\<rparr>))"

definition delete_host :: "uuid \<Rightarrow> db \<Rightarrow> (api_error + unit) \<times> db" where
  "delete_host i d =
     (let d' = d\<lparr>db_hosts := tbl_delete (\<lambda>h. ih_id h = i) (db_hosts d)\<rparr>
      in (delete_answer ''host'' (db_hosts d) (db_hosts d'), d'))"

end
