(* ===== verification/BindingRoutes.thy ===== *)
theory BindingRoutes
  imports ClientRoutes
begin

text \<open>
  The handlers of protocol configurations and of their bindings to nodes (pp-hub,
  routes/protocol.rs and bindings.rs).
\<close>

section \<open>Protocol configurations\<close>

definition config_to_json :: "protocol_config \<Rightarrow> json" where
  "config_to_json c = jobj
     [(''id'', JStr (pc_id c)), (''name'', JStr (pc_name c)), (''protocol_type'', JStr (pc_protocol_type c)),
      (''core_type'', JStr (pc_core_type c)), (''listen_port'', jint (pc_listen_port c)),
      (''listen_address'', JStr (pc_listen_address c)), (''settings'', pc_settings c),
      (''tls_settings'', unwrap_or (pc_tls_settings c) JNull)]"

definition list_configs :: "params \<Rightarrow> db \<Rightarrow> json list \<times> nat" where
  "list_configs ps d = (case paged ps (db_protocol_configs d) of (cs, n) \<Rightarrow> (map config_to_json cs, n))"

definition get_config :: "uuid \<Rightarrow> db \<Rightarrow> api_error + json" where
  "get_config i d =
     rbind (ok_or (tbl_find pc_id i (db_protocol_configs d)) (not_found ''protocol config not found'')) (\<lambda>c.
       Inr (config_to_json c))"

definition validate_protocol :: "string \<Rightarrow> string \<Rightarrow> api_error + (protocol_type \<times> core_type)" where
  "validate_protocol pt ct =
     rbind (map_err (\<lambda>_. bad_request ''invalid_protocol_type'' ''unknown protocol type'') (protocol_from_str pt)) (\<lambda>p.
     rbind (map_err (\<lambda>_. bad_request ''invalid_core_type'' ''unknown core type'') (core_from_str ct)) (\<lambda>c.
     if c \<notin> set (valid_for p)
     then Inl (bad_request ''incompatible_core_type'' (protocol_str p @ '' does not support core '' @ core_str c))
     else Inr (p, c)))"

record create_config_payload =
  cfp_name :: string
  cfp_protocol_type :: string
  cfp_core_type :: string
  cfp_listen_port :: "nat option"
  cfp_listen_address :: "string option"
  cfp_settings :: "json option"
  cfp_tls_settings :: "json option"

definition create_config :: "uuid \<Rightarrow> create_config_payload \<Rightarrow> db \<Rightarrow> (api_error + json) \<times> db" where
  "create_config i p d =
     (case validate_protocol (cfp_protocol_type p) (cfp_core_type p) of
        Inl e \<Rightarrow> (Inl e, d)
      | Inr (pt, ct) \<Rightarrow>
          (let c = \<lparr>pc_id = i, pc_name = cfp_name p, pc_protocol_type = protocol_str pt,
                    pc_core_type = core_str ct, pc_listen_port = wrap32 (int (unwrap_or (cfp_listen_port p) 443)),
                    pc_listen_address = unwrap_or (cfp_listen_address p) ''0.0.0.0'',
                    pc_settings = unwrap_or (cfp_settings p) (jobj []), pc_tls_settings = cfp_tls_settings p\<rparr>
           in (Inr (config_to_json c), d\<lparr>db_protocol_configs := tbl_insert c (db_protocol_configs d)\<rparr>)))"

record update_config_payload =
  ufp_name :: "string option"
  ufp_protocol_type :: "string option"
  ufp_core_type :: "string option"
  ufp_listen_port :: "nat option"
  ufp_listen_address :: "string option"
  ufp_settings :: "json option"
  ufp_tls_settings :: "json option"

text \<open>The TLS settings are always replaced, also by an update that has none.\<close>

definition update_config_row :: "update_config_payload \<Rightarrow> protocol_config \<Rightarrow> protocol_config" where
  "update_config_row p c =
     c\<lparr>pc_name := unwrap_or (ufp_name p) (pc_name c),
       pc_protocol_type := unwrap_or (ufp_protocol_type p) (pc_protocol_type c),
       pc_core_type := unwrap_or (ufp_core_type p) (pc_core_type c),
       pc_listen_port := unwrap_or (map_option (\<lambda>n. wrap32 (int n)) (ufp_listen_port p)) (pc_listen_port c),
       pc_listen_address := unwrap_or (ufp_listen_address p) (pc_listen_address c),
       pc_settings := unwrap_or (ufp_settings p) (pc_settings c), pc_tls_settings := ufp_tls_settings p\<rparr>"

definition update_config ::
    "tstamp \<Rightarrow> uuid \<Rightarrow> update_config_payload \<Rightarrow> db \<Rightarrow> (api_error + json) \<times> db" where
  "update_config now i p d =
     (case tbl_find pc_id i (db_protocol_configs d) of
        None \<Rightarrow> (Inl (not_found ''protocol config not found''), d)
      | Some c \<Rightarrow>
          (case (if ufp_protocol_type p \<noteq> None \<or> ufp_core_type p \<noteq> None
                 then rbind (validate_protocol (unwrap_or (ufp_protocol_type p) (pc_protocol_type c))
                                (unwrap_or (ufp_core_type p) (pc_core_type c))) (\<lambda>_. Inr ())
                 else Inr ()) of
             Inl e \<Rightarrow> (Inl e, d)
           | Inr _ \<Rightarrow>
               (let c' = update_config_row p c;
                    d = d\<lparr>db_protocol_configs := tbl_update pc_id i (update_config_row p) (db_protocol_configs d)\<rparr>;
                    core = unwrap_or (ok_of (core_from_str (pc_core_type c'))) SingBox
                in (Inr (config_to_json c'), mark_pending now (nodes_using_config d i) core UPDATE_TYPE_CONFIG d))))"

text \<open>A key pair of the X25519 crate and a random short id.\<close>

definition generate_reality_keys :: "string \<times> string \<Rightarrow> string \<Rightarrow> json" where
  "generate_reality_keys keys short_id = jobj
     [(''private_key'', JStr (fst keys)), (''public_key'', JStr (snd keys)), (''short_id'', JStr short_id)]"

definition delete_config :: "tstamp \<Rightarrow> uuid \<Rightarrow> db \<Rightarrow> (api_error + unit) \<times> db" where
  "delete_config now i d =
     (let bindings = filter (\<lambda>b. nb_protocol_config_id b = i) (db_node_bindings d);
          ids = map nb_id bindings;
          d1 = d\<lparr>db_binding_groups := tbl_delete (\<lambda>g. bg_node_binding_id g \<in> set ids) (db_binding_groups d),
                 db_node_bindings := tbl_delete (\<lambda>b. nb_id b \<in> set ids) (db_node_bindings d),
                 db_protocol_configs := tbl_delete (\<lambda>c. pc_id c = i) (db_protocol_configs d)\<rparr>
      in case delete_answer ''protocol config'' (db_protocol_configs d) (db_protocol_configs d1) of
           Inl e \<Rightarrow> (Inl e, d1)
         | Inr _ \<Rightarrow> (Inr (), mark_both now (remdups (map nb_node_id bindings)) d1))"

section \<open>Bindings\<close>

definition binding_to_json :: "node_binding \<Rightarrow> uuid list \<Rightarrow> json" where
  "binding_to_json b groups = jobj
     [(''id'', JStr (nb_id b)), (''node_id'', JStr (nb_node_id b)),
      (''protocol_config_id'', JStr (nb_protocol_config_id b)), (''is_active'', JBool (nb_is_active b)),
      (''override_settings'', unwrap_or (nb_override_settings b) JNull), (''group_ids'', jstrs groups)]"

definition list_bindings :: "crates \<Rightarrow> params \<Rightarrow> db \<Rightarrow> json list \<times> nat" where
  "list_bindings x ps d =
     (let by = (\<lambda>k f bs. case Option.bind (map_of ps k) (x_parse_uuid x) of
                  Some i \<Rightarrow> filter (\<lambda>b. f b = i) bs | None \<Rightarrow> bs)
      in case paged ps (by ''config_id'' nb_protocol_config_id (by ''node_id'' nb_node_id (db_node_bindings d))) of
           (bs, n) \<Rightarrow> (map (\<lambda>b. binding_to_json b (binding_group_ids d (nb_id b))) bs, n))"

text \<open>The certificate an override names must be the node's, and built-in ACME is for sing-box.\<close>

definition validate_override_cert :: "crates \<Rightarrow> db \<Rightarrow> uuid \<Rightarrow> json \<Rightarrow> api_error + unit" where
  "validate_override_cert x d node_id tls =
     (case get_str tls ''cert_id'' of
        None \<Rightarrow> Inr ()
      | Some raw \<Rightarrow>
          rbind (ok_or (x_parse_uuid x raw) (bad_request ''invalid_cert_id'' ''invalid cert id'')) (\<lambda>i.
          rbind (ok_or (tbl_find ct_id i (db_certificates d)) (not_found ''certificate not found'')) (\<lambda>cert.
          if ct_node_id cert \<noteq> node_id
          then Inl (bad_request ''cert_node_mismatch'' ''certificate does not belong to the binding's node'')
          else Inr ())))"

definition validate_tls_override :: "crates \<Rightarrow> db \<Rightarrow> uuid \<Rightarrow> uuid \<Rightarrow> json option \<Rightarrow> api_error + unit" where
  "validate_tls_override x d node_id config_id override =
     (case Option.bind override (\<lambda>ov. jget ov ''tls_settings'') of
        None \<Rightarrow> Inr ()
      | Some tls \<Rightarrow>
          rbind (validate_override_cert x d node_id tls) (\<lambda>_.
          if nonempty_str tls ''domain''
             \<and> unwrap_or (map_option pc_core_type (tbl_find pc_id config_id (db_protocol_configs d))) [] \<noteq> ''sing-box''
          then Inl (bad_request ''acme_singbox_only''
            ''built-in ACME is only available for sing-box protocols; use a managed certificate instead'')
          else Inr ()))"

record create_binding_payload =
  cbp_node_id :: uuid
  cbp_protocol_config_id :: uuid
  cbp_override_settings :: "json option"
  cbp_is_active :: "bool option"

text \<open>A second binding of one configuration to one node violates the table's unique index.\<close>

definition create_binding ::
    "crates \<Rightarrow> uuid \<Rightarrow> create_binding_payload \<Rightarrow> db \<Rightarrow> (api_error + json) \<times> db" where
  "create_binding x i p d =
     (let b = \<lparr>nb_id = i, nb_node_id = cbp_node_id p, nb_protocol_config_id = cbp_protocol_config_id p,
               nb_override_settings = cbp_override_settings p, nb_is_active = unwrap_or (cbp_is_active p) True\<rparr>
      in case rbind (ok_or (tbl_find n_id (cbp_node_id p) (db_nodes d)) (not_found ''node not found'')) (\<lambda>_.
              rbind (ok_or (tbl_find pc_id (cbp_protocol_config_id p) (db_protocol_configs d))
                       (not_found ''protocol config not found'')) (\<lambda>_.
              validate_tls_override x d (cbp_node_id p) (cbp_protocol_config_id p) (cbp_override_settings p))) of
           Inl e \<Rightarrow> (Inl e, d)
         | Inr _ \<Rightarrow>
             if list_ex (\<lambda>r. nb_node_id r = nb_node_id b \<and> nb_protocol_config_id r = nb_protocol_config_id b)
                  (db_node_bindings d)
             then (Inl (internal ''database operation failed''), d)
             else (Inr (binding_to_json b []), d\<lparr>db_node_bindings := tbl_insert b (db_node_bindings d)\<rparr>))"

record update_binding_payload =
  ubp_is_active :: "bool option"
  ubp_override_settings :: "json option"

definition update_binding_row :: "update_binding_payload \<Rightarrow> node_binding \<Rightarrow> node_binding" where
  "update_binding_row p b =
     b\<lparr>nb_is_active := unwrap_or (ubp_is_active p) (nb_is_active b),
       nb_override_settings := or_else (ubp_override_settings p) (nb_override_settings b)\<rparr>"

definition update_binding ::
    "crates \<Rightarrow> uuid \<Rightarrow> update_binding_payload \<Rightarrow> db \<Rightarrow> (api_error + json) \<times> db" where
  "update_binding x i p d =
     (case tbl_find nb_id i (db_node_bindings d) of
        None \<Rightarrow> (Inl (not_found ''binding not found''), d)
      | Some b \<Rightarrow>
          (case (if ubp_override_settings p \<noteq> None
                 then validate_tls_override x d (nb_node_id b) (nb_protocol_config_id b) (ubp_override_settings p)
                 else Inr ()) of
             Inl e \<Rightarrow> (Inl e, d)
           | Inr _ \<Rightarrow>
               (Inr (binding_to_json (update_binding_row p b) (binding_group_ids d i)),
                d\<lparr>db_node_bindings := tbl_update nb_id i (update_binding_row p) (db_node_bindings d)\<rparr>)))"

definition delete_binding :: "uuid \<Rightarrow> db \<Rightarrow> (api_error + unit) \<times> db" where
  "delete_binding i d =
     (let d' = d\<lparr>db_binding_groups := tbl_delete (\<lambda>g. bg_node_binding_id g = i) (db_binding_groups d),
                 db_node_bindings := tbl_delete (\<lambda>b. nb_id b = i) (db_node_bindings d)\<rparr>
      in (delete_answer ''binding'' (db_node_bindings d) (db_node_bindings d'), d'))"

end
