(* ===== verification/TemplateRoutes.thy ===== *)
theory TemplateRoutes
  imports BindingRoutes
begin

text \<open>
  The handlers of subscription templates and subscriptions (pp-hub,
  routes/subscription/template.rs).
\<close>

section \<open>Templates\<close>

definition template_to_json :: "(tstamp \<Rightarrow> json) \<Rightarrow> subscription_template \<Rightarrow> json" where
  "template_to_json tj t = jobj
     [(''id'', JStr (sp_id t)), (''name'', JStr (sp_name t)), (''format'', JStr (sp_format t)),
      (''base_config'', ojson JStr (sp_base_config t)), (''filter_rules'', unwrap_or (sp_filter_rules t) JNull),
      (''custom_headers'', unwrap_or (sp_custom_headers t) JNull), (''is_builtin'', JBool (sp_is_builtin t)),
      (''is_enabled'', JBool (sp_is_enabled t)), (''created_at'', tj (sp_created_at t)),
      (''updated_at'', tj (sp_updated_at t))]"

definition list_templates :: "(tstamp \<Rightarrow> json) \<Rightarrow> params \<Rightarrow> db \<Rightarrow> json list \<times> nat" where
  "list_templates tj ps d = (case paged ps (db_templates d) of (ts, n) \<Rightarrow> (map (template_to_json tj) ts, n))"

text \<open>An enabled template switches the other enabled ones of its format off.\<close>

definition enforce_unique_enabled_template :: "tstamp \<Rightarrow> string \<Rightarrow> string \<Rightarrow> bool \<Rightarrow> db \<Rightarrow> db" where
  "enforce_unique_enabled_template now i f enabled d =
     (if \<not> enabled then d
      else
        (let others = filter (\<lambda>t. sp_id t \<noteq> i \<and> sp_format t = f \<and> sp_is_enabled t) (db_templates d)
         in d\<lparr>db_templates :=
              fold (\<lambda>o'. tbl_update sp_id (sp_id o') (\<lambda>t. t\<lparr>sp_is_enabled := False, sp_updated_at := now\<rparr>))
                others (db_templates d)\<rparr>))"

record create_template_payload =
  ctp_name :: string
  ctp_format :: "string option"
  ctp_base_config :: "string option"
  ctp_filter_rules :: "json option"
  ctp_custom_headers :: "json option"

definition create_template ::
    "(tstamp \<Rightarrow> json) \<Rightarrow> tstamp \<Rightarrow> string \<Rightarrow> create_template_payload \<Rightarrow> db \<Rightarrow> (api_error + json) \<times> db" where
  "create_template tj now i p d =
     (if trim (ctp_name p) = [] then (Inl (bad_request ''invalid_name'' ''template name is required''), d)
      else
        (let f = unwrap_or (ctp_format p) ''base64'';
             t = \<lparr>sp_id = i, sp_name = ctp_name p, sp_format = f, sp_base_config = ctp_base_config p,
                  sp_filter_rules = ctp_filter_rules p, sp_custom_headers = ctp_custom_headers p,
                  sp_is_builtin = False, sp_is_enabled = True, sp_created_at = now, sp_updated_at = now\<rparr>
         in (Inr (template_to_json tj t),
             enforce_unique_enabled_template now i f True (d\<lparr>db_templates := tbl_insert t (db_templates d)\<rparr>))))"

record update_template_payload =
  utp_name :: "string option"
  utp_format :: "string option"
  utp_base_config :: "string option"
  utp_filter_rules :: "json option"
  utp_custom_headers :: "json option"
  utp_is_enabled :: "bool option"

definition update_template_row :: "tstamp \<Rightarrow> update_template_payload \<Rightarrow> subscription_template \<Rightarrow> subscription_template" where
  "update_template_row now p t =
     t\<lparr>sp_name := unwrap_or (utp_name p) (sp_name t), sp_format := unwrap_or (utp_format p) (sp_format t),
       sp_base_config := or_else (utp_base_config p) (sp_base_config t),
       sp_filter_rules := or_else (utp_filter_rules p) (sp_filter_rules t),
       sp_custom_headers := or_else (utp_custom_headers p) (sp_custom_headers t),
       sp_is_enabled := unwrap_or (utp_is_enabled p) (sp_is_enabled t), sp_updated_at := now\<rparr>"

definition changes_content :: "update_template_payload \<Rightarrow> bool" where
  "changes_content p \<longleftrightarrow>
     utp_name p \<noteq> None \<or> utp_format p \<noteq> None \<or> utp_base_config p \<noteq> None
     \<or> utp_filter_rules p \<noteq> None \<or> utp_custom_headers p \<noteq> None"

definition update_template ::
    "(tstamp \<Rightarrow> json) \<Rightarrow> tstamp \<Rightarrow> string \<Rightarrow> update_template_payload \<Rightarrow> db \<Rightarrow> (api_error + json) \<times> db" where
  "update_template tj now i p d =
     (case tbl_find sp_id i (db_templates d) of
        None \<Rightarrow> (Inl (not_found ''subscription template not found''), d)
      | Some t \<Rightarrow>
          if sp_is_builtin t \<and> changes_content p
          then (Inl (bad_request ''builtin_readonly'' ''builtin templates can only be enabled or disabled''), d)
          else if blank (utp_name p)
          then (Inl (bad_request ''invalid_name'' ''template name is required''), d)
          else
            (let t' = update_template_row now p t;
                 d = d\<lparr>db_templates := tbl_update sp_id i (update_template_row now p) (db_templates d)\<rparr>
             in (Inr (template_to_json tj t'),
                 enforce_unique_enabled_template now i (sp_format t') (sp_is_enabled t') d)))"

definition delete_template :: "string \<Rightarrow> db \<Rightarrow> (api_error + unit) \<times> db" where
  "delete_template i d =
     (case tbl_find sp_id i (db_templates d) of
        None \<Rightarrow> (Inl (not_found ''subscription template not found''), d)
      | Some t \<Rightarrow>
          if sp_is_builtin t
          then (Inl (bad_request ''builtin_protected'' ''builtin templates cannot be deleted''), d)
          else
            (let d' = d\<lparr>db_templates := tbl_delete (\<lambda>t. sp_id t = i) (db_templates d)\<rparr>
             in (delete_answer ''subscription template'' (db_templates d) (db_templates d'), d')))"

section \<open>Subscriptions\<close>

definition subscription_to_json :: "calendar \<Rightarrow> (tstamp \<Rightarrow> json) \<Rightarrow> subscription \<Rightarrow> json" where
  "subscription_to_json cal tj s = jobj
     [(''id'', JStr (su_id s)), (''client_id'', JStr (su_client_id s)), (''token'', JStr (su_token s)),
      (''url_path'', JStr (su_url_path s)), (''is_active'', JBool (su_is_active s)),
      (''expire_at'', ojson (\<lambda>t. JStr (cal_rfc3339 cal t)) (su_expire_at s)),
      (''last_accessed_at'', ojson (\<lambda>t. JStr (cal_rfc3339 cal t)) (su_last_accessed_at s)),
      (''created_at'', tj (su_created_at s))]"

definition list_subscriptions :: "calendar \<Rightarrow> (tstamp \<Rightarrow> json) \<Rightarrow> params \<Rightarrow> db \<Rightarrow> json list \<times> nat" where
  "list_subscriptions cal tj ps d =
     (case paged ps (db_subscriptions d) of (ss, n) \<Rightarrow> (map (subscription_to_json cal tj) ss, n))"

definition subscription_of :: "db \<Rightarrow> uuid \<Rightarrow> subscription option" where
  "subscription_of d client_id = find (\<lambda>s. su_client_id s = client_id) (db_subscriptions d)"

text \<open>\<open>token\<close> is the new random token.\<close>

definition ensure_default_subscription ::
    "tstamp \<Rightarrow> uuid \<Rightarrow> string \<Rightarrow> uuid \<Rightarrow> db \<Rightarrow> subscription \<times> db" where
  "ensure_default_subscription now i token client_id d =
     (case subscription_of d client_id of
        Some s \<Rightarrow> (s, d)
      | None \<Rightarrow>
          (let s = \<lparr>su_id = i, su_client_id = client_id, su_token = token, su_url_path = ''/sub/'' @ token,
                    su_expire_at = None, su_is_active = True, su_last_accessed_at = None, su_created_at = now\<rparr>
           in (s, d\<lparr>db_subscriptions := tbl_insert s (db_subscriptions d)\<rparr>)))"

definition create_subscription ::
    "tstamp \<Rightarrow> uuid \<Rightarrow> string \<Rightarrow> uuid \<Rightarrow> uuid list option \<Rightarrow> db \<Rightarrow> (api_error + json) \<times> db" where
  "create_subscription now i token client_id group_ids d =
     (let groups = unwrap_or group_ids [] in
      if subscription_of d client_id = None \<and> groups = []
      then (Inl (bad_request ''subscription_groups_required''
              ''select at least one node group before enabling the subscription''), d)
      else
        (case ensure_default_subscription now i token client_id
                (if groups = [] then d else sync_client_groups client_id groups d) of
           (s, d) \<Rightarrow> (Inr (jobj [(''id'', JStr (su_id s)), (''token'', JStr (su_token s)),
                               (''url_path'', JStr (su_url_path s))]), d)))"

text \<open>\<open>parse\<close> reads a time stamp; a text that is none takes the expiry away.\<close>

definition update_subscription_row ::
    "(string \<Rightarrow> tstamp option) \<Rightarrow> bool option \<Rightarrow> string option \<Rightarrow> subscription \<Rightarrow> subscription" where
  "update_subscription_row parse is_active expire_at s =
     s\<lparr>su_is_active := unwrap_or is_active (su_is_active s),
       su_expire_at := (case expire_at of Some t \<Rightarrow> parse t | None \<Rightarrow> su_expire_at s)\<rparr>"

definition update_subscription ::
    "calendar \<Rightarrow> (tstamp \<Rightarrow> json) \<Rightarrow> (string \<Rightarrow> tstamp option) \<Rightarrow> uuid \<Rightarrow> bool option \<Rightarrow> string option \<Rightarrow> db
       \<Rightarrow> (api_error + json) \<times> db" where
  "update_subscription cal tj parse i is_active expire_at d =
     (case tbl_find su_id i (db_subscriptions d) of
        None \<Rightarrow> (Inl (not_found ''subscription not found''), d)
      | Some s \<Rightarrow>
          (Inr (subscription_to_json cal tj (update_subscription_row parse is_active expire_at s)),
           d\<lparr>db_subscriptions :=
              tbl_update su_id i (update_subscription_row parse is_active expire_at) (db_subscriptions d)\<rparr>))"

definition delete_subscription :: "uuid \<Rightarrow> db \<Rightarrow> (api_error + unit) \<times> db" where
  "delete_subscription i d =
     (let d' = d\<lparr>db_subscriptions := tbl_delete (\<lambda>s. su_id s = i) (db_subscriptions d)\<rparr>
      in (delete_answer ''subscription'' (db_subscriptions d) (db_subscriptions d'), d'))"

end
