(* ===== verification/NodeRoutes.thy ===== *)
theory NodeRoutes
  imports TemplateRoutes
begin

text \<open>
  The handlers of nodes (pp-hub, routes/nodes.rs). \<open>tj\<close> prints a time stamp and \<open>fj\<close> an \<open>f32\<close> as serde
  does. A request for a node's binaries is two steps, since it waits for the agent in between.
\<close>

section \<open>The cores' last states\<close>

definition core_status_from_log :: "(tstamp \<Rightarrow> json) \<Rightarrow> agent_log \<Rightarrow> json option" where
  "core_status_from_log tj l =
     Option.bind (al_fields l) (\<lambda>fields.
     Option.bind (get_str fields ''core_type'') (\<lambda>core_type.
     Option.bind (get_str fields ''version'') (\<lambda>version.
     Option.bind (Option.bind (jget fields ''running'') as_bool) (\<lambda>running.
     Option.bind (get_u64 fields ''uptime_sec'') (\<lambda>uptime_sec.
     Option.bind (jget fields ''last_error'') (\<lambda>e.
       Some (jobj [(''core_type'', JStr core_type), (''version'', JStr version), (''running'', JBool running),
         (''uptime_sec'', jnat uptime_sec), (''last_error'', JStr (unwrap_or (as_str e) [])),
         (''updated_at'', tj (al_created_at l))])))))))"

text \<open>\<open>LIKE 'core-%'\<close> ignores the case of ASCII letters; the ten latest logs of the node's cores.\<close>

definition recent_core_logs :: "db \<Rightarrow> uuid \<Rightarrow> agent_log list" where
  "recent_core_logs d i =
     take 10 (sort_key (\<lambda>l. - al_created_at l)
       (filter (\<lambda>l. al_node_id l = i \<and> starts_with ''core-'' (ascii_lower (al_target l))) (db_agent_logs d)))"

definition status_entry ::
    "(tstamp \<Rightarrow> json) \<Rightarrow> agent_log \<Rightarrow> (string \<times> json) list \<Rightarrow> (string \<times> json) list" where
  "status_entry tj l m =
     (case core_status_from_log tj l of
        None \<Rightarrow> m
      | Some s \<Rightarrow>
          (let core = unwrap_or (get_str s ''core_type'') []
           in if map_of m core = None then m @ [(core, s)] else m))"

definition latest_core_statuses :: "(tstamp \<Rightarrow> json) \<Rightarrow> db \<Rightarrow> uuid \<Rightarrow> json list" where
  "latest_core_statuses tj d i = map snd (fold (status_entry tj) (recent_core_logs d i) [])"

section \<open>Nodes\<close>

definition node_to_json :: "(tstamp \<Rightarrow> json) \<Rightarrow> (fl \<Rightarrow> json) \<Rightarrow> node \<Rightarrow> json list \<Rightarrow> json" where
  "node_to_json tj fj n core_statuses = jobj
     [(''id'', JStr (n_id n)), (''name'', JStr (n_name n)), (''hostname'', JStr (n_hostname n)),
      (''address'', JStr (n_address n)), (''domain'', ojson JStr (n_domain n)),
      (''cores_available'', n_cores_available n), (''labels'', unwrap_or (n_labels n) (jobj [])),
      (''usage_coefficient'', fj (n_usage_coefficient n)), (''status'', JStr (n_status n)),
      (''parent_id'', ojson JStr (n_parent_id n)), (''last_seen_at'', ojson tj (n_last_seen_at n)),
      (''core_statuses'', JArr core_statuses)]"

definition node_view :: "(tstamp \<Rightarrow> json) \<Rightarrow> (fl \<Rightarrow> json) \<Rightarrow> db \<Rightarrow> node \<Rightarrow> json" where
  "node_view tj fj d n = node_to_json tj fj n (latest_core_statuses tj d (n_id n))"

definition list_nodes :: "(tstamp \<Rightarrow> json) \<Rightarrow> (fl \<Rightarrow> json) \<Rightarrow> params \<Rightarrow> db \<Rightarrow> json list \<times> nat" where
  "list_nodes tj fj ps d = (case paged ps (db_nodes d) of (ns, k) \<Rightarrow> (map (node_view tj fj d) ns, k))"

definition get_node :: "(tstamp \<Rightarrow> json) \<Rightarrow> (fl \<Rightarrow> json) \<Rightarrow> uuid \<Rightarrow> db \<Rightarrow> api_error + json" where
  "get_node tj fj i d =
     rbind (ok_or (tbl_find n_id i (db_nodes d)) (not_found ''node not found'')) (\<lambda>n. Inr (node_view tj fj d n))"

record create_node_payload =
  cnp_name :: string
  cnp_hostname :: "string option"
  cnp_address :: "string option"
  cnp_domain :: "string option"
  cnp_parent_id :: "uuid option"

text \<open>\<open>raw\<close> is the new token, \<open>hash\<close> what the Argon2 hash of it gives. The answer shows the raw token.\<close>

definition created_node :: "tstamp \<Rightarrow> string \<Rightarrow> uuid \<Rightarrow> create_node_payload \<Rightarrow> node" where
  "created_node now token_hash i p =
     \<lparr>n_id = i, n_name = cnp_name p, n_hostname = unwrap_or (cnp_hostname p) [],
      n_address = unwrap_or (cnp_address p) [], n_domain = cnp_domain p, n_token_hash = token_hash,
      n_cores_available = JArr [], n_labels = None, n_usage_coefficient = Fl 1 0, n_status = ''connecting'',
      n_parent_id = cnp_parent_id p, n_last_seen_at = None, n_updated_at = now\<rparr>"

definition create_node ::
    "tstamp \<Rightarrow> string \<Rightarrow> (string + string) \<Rightarrow> uuid \<Rightarrow> create_node_payload \<Rightarrow> db \<Rightarrow> (api_error + json) \<times> db" where
  "create_node now raw hash i p d =
     (if trim (cnp_name p) = [] then (Inl (bad_request ''invalid_name'' ''node name is required''), d)
      else
        (case hash of
           Inl e \<Rightarrow> (Inl (internal (''failed to hash token: '' @ e)), d)
         | Inr token_hash \<Rightarrow>
             (let n = created_node now token_hash i p
              in (Inr (jobj [(''id'', JStr i), (''name'', JStr (n_name n)), (''hostname'', JStr (n_hostname n)),
                             (''address'', JStr (n_address n)), (''status'', JStr (n_status n)), (''token'', JStr raw)]),
                  d\<lparr>db_nodes := tbl_insert n (db_nodes d)\<rparr>))))"

record update_node_payload =
  unp_name :: "string option"
  unp_hostname :: "string option"
  unp_address :: "string option"
  unp_domain :: "string option"
  unp_usage_coefficient :: "fl option"
  unp_labels :: "json option"
  unp_parent_id :: "uuid option option"

definition update_node_row :: "tstamp \<Rightarrow> update_node_payload \<Rightarrow> node \<Rightarrow> node" where
  "update_node_row now p n =
     n\<lparr>n_name := unwrap_or (unp_name p) (n_name n), n_domain := or_else (unp_domain p) (n_domain n),
       n_usage_coefficient := unwrap_or (unp_usage_coefficient p) (n_usage_coefficient n),
       n_labels := or_else (unp_labels p) (n_labels n),
       n_parent_id := unwrap_or (unp_parent_id p) (n_parent_id n), n_updated_at := now\<rparr>"

definition agent_managed_field :: api_error where
  "agent_managed_field = bad_request ''agent_managed_field''
     ''hostname and address are managed by the Agent and cannot be modified manually''"

definition update_node_route ::
    "(tstamp \<Rightarrow> json) \<Rightarrow> (fl \<Rightarrow> json) \<Rightarrow> tstamp \<Rightarrow> uuid \<Rightarrow> update_node_payload \<Rightarrow> db \<Rightarrow> (api_error + json) \<times> db" where
  "update_node_route tj fj now i p d =
     (case tbl_find n_id i (db_nodes d) of
        None \<Rightarrow> (Inl (not_found ''node not found''), d)
      | Some n \<Rightarrow>
          if blank (unp_name p) then (Inl (bad_request ''invalid_name'' ''node name cannot be empty''), d)
          else if unp_hostname p \<noteq> None \<or> unp_address p \<noteq> None then (Inl agent_managed_field, d)
          else
            (let d = d\<lparr>db_nodes := tbl_update n_id i (update_node_row now p) (db_nodes d)\<rparr>
             in (Inr (node_view tj fj d (update_node_row now p n)), d)))"

definition delete_node :: "uuid \<Rightarrow> db \<Rightarrow> (api_error + unit) \<times> db" where
  "delete_node i d =
     (let d' = d\<lparr>db_nodes := tbl_delete (\<lambda>n. n_id n = i) (db_nodes d)\<rparr>
      in (delete_answer ''node'' (db_nodes d) (db_nodes d'), d'))"

section \<open>Core binaries\<close>

definition drop_waiter :: "uuid \<Rightarrow> hub \<Rightarrow> hub" where
  "drop_waiter i h = h\<lparr>h_waiters := AList.delete i (h_waiters h)\<rparr>"

text \<open>
  The first step enters the request's slot and sends the message; the second takes the reply, or
  gives up: its time is over, or its sender was dropped.
\<close>

definition begin_binary_request :: "uuid \<Rightarrow> nat \<Rightarrow> hub_message \<Rightarrow> hub \<Rightarrow> (api_error + unit) \<times> hub" where
  "begin_binary_request i slot m h =
     (let h = h\<lparr>h_waiters := AList.update i slot (h_waiters h)\<rparr>
      in case send_to_agent i m h of
           Inl e \<Rightarrow> (Inl \<lparr>ae_status = BAD_GATEWAY, ae_code = ''agent_unreachable'', ae_message = e\<rparr>, drop_waiter i h)
         | Inr h \<Rightarrow> (Inr (), h))"

definition finish_binary_request :: "uuid \<Rightarrow> nat \<Rightarrow> hub \<Rightarrow> (api_error + binary_list) \<times> hub" where
  "finish_binary_request i slot h =
     (case map_of (h_replies h) slot of
        Some bl \<Rightarrow> (Inr bl, h)
      | None \<Rightarrow> (Inl \<lparr>ae_status = GATEWAY_TIMEOUT, ae_code = ''agent_timeout'',
                     ae_message = ''agent did not respond in time''\<rparr>, drop_waiter i h))"

definition binaries_to_json :: "binary_list \<Rightarrow> json" where
  "binaries_to_json bl = jobj
     [(''binaries'', JArr (map (\<lambda>b. jobj [(''file_name'', JStr (cb_file_name b)), (''size_bytes'', jint (cb_size_bytes b)),
         (''modified_at'', jint (cb_modified_at b)), (''in_use'', JBool (cb_in_use b))]) (fst bl))),
      (''error'', JStr (snd bl))]"

text \<open>What the handlers send, and what they answer with the outcome of the request.\<close>

definition list_core_binaries :: "hub_message \<times> (api_error + binary_list \<Rightarrow> api_error + json)" where
  "list_core_binaries = (CoreBinaryListReq, \<lambda>r. rbind r (\<lambda>bl. Inr (binaries_to_json bl)))"

definition delete_core_binary :: "string \<Rightarrow> hub_message \<times> (api_error + binary_list \<Rightarrow> api_error + json)" where
  "delete_core_binary file =
     (CoreBinaryDelete file, \<lambda>r. rbind r (\<lambda>bl.
        if snd bl \<noteq> [] then Inl (bad_request ''delete_failed'' (snd bl)) else Inr (binaries_to_json bl)))"

section \<open>Pushes\<close>

definition list_pending_updates :: "(tstamp \<Rightarrow> json) \<Rightarrow> db \<Rightarrow> json" where
  "list_pending_updates tj d = jobj [(''pending'', JArr (map (\<lambda>p. jobj
     [(''node_id'', JStr (pu_node_id p)),
      (''node_name'', JStr (unwrap_or (map_option n_name (tbl_find n_id (pu_node_id p) (db_nodes d))) [])),
      (''core_type'', JStr (pu_core_type p)), (''update_type'', JStr (pu_update_type p)),
      (''updated_at'', tj (pu_updated_at p))]) (sort_key (\<lambda>p. - pu_updated_at p) (db_pending d))))]"

definition push_core :: "string \<Rightarrow> core_type option" where
  "push_core s =
     (if s = ''sing-box'' \<or> s = ''singbox'' then Some SingBox else if s = ''mihomo'' then Some Mihomo else None)"

definition push_result :: "pending_update \<Rightarrow> string option \<Rightarrow> json" where
  "push_result p e = jobj
     ([(''node_id'', JStr (pu_node_id p)), (''core_type'', JStr (pu_core_type p)), (''ok'', JBool (e = None))]
      @ (case e of None \<Rightarrow> [] | Some e \<Rightarrow> [(''error'', JStr e)]))"

definition push_one_pending ::
    "crates \<Rightarrow> env \<Rightarrow> pending_update \<Rightarrow> json list \<times> nat \<times> nat \<times> hub \<Rightarrow> json list \<times> nat \<times> nat \<times> hub" where
  "push_one_pending x env p acc =
     (case acc of (results, succeeded, failed, h) \<Rightarrow>
        (case push_core (pu_core_type p) of
           None \<Rightarrow> (results @ [push_result p (Some ''unknown core type'')], succeeded, failed + 1, h)
         | Some core \<Rightarrow>
             (case push_node_config x env (pu_node_id p) core True None h of
                Inl e \<Rightarrow> (results @ [push_result p (Some (panel_error_str e))], succeeded, failed + 1, h)
              | Inr h \<Rightarrow> (results @ [push_result p None], succeeded + 1, failed, h))))"

definition selected_pending :: "uuid list option \<Rightarrow> string option \<Rightarrow> pending_update list \<Rightarrow> pending_update list" where
  "selected_pending node_ids core_type ps =
     filter (\<lambda>p. (case node_ids of Some ids \<Rightarrow> ids = [] \<or> pu_node_id p \<in> set ids | None \<Rightarrow> True)
               \<and> (case core_type of Some c \<Rightarrow> c = [] \<or> pu_core_type p = c | None \<Rightarrow> True)) ps"

definition push_pending ::
    "crates \<Rightarrow> env \<Rightarrow> uuid list option \<Rightarrow> string option \<Rightarrow> hub \<Rightarrow> (api_error + json) \<times> hub" where
  "push_pending x env node_ids core_type h =
     (let ps = selected_pending node_ids core_type (db_pending (h_db h))
      in case fold (push_one_pending x env) ps ([], 0, 0, h) of
           (results, succeeded, failed, h) \<Rightarrow>
             (Inr (jobj [(''results'', JArr results), (''total'', jnat (length ps)),
                         (''succeeded'', jnat succeeded), (''failed'', jnat failed)]), h))"

definition push_config ::
    "crates \<Rightarrow> env \<Rightarrow> uuid \<Rightarrow> string option \<Rightarrow> bool option \<Rightarrow> string option \<Rightarrow> hub \<Rightarrow> (api_error + json) \<times> hub" where
  "push_config x env i core_type restart version h =
     (case push_core (unwrap_or core_type ''sing-box'') of
        None \<Rightarrow> (Inl (bad_request ''invalid_core_type'' (''core_type must be 'sing-box' or 'mihomo'' @ [CHR 0x27])), h)
      | Some core \<Rightarrow>
          (case push_node_config x env i core (unwrap_or restart True) version h of
             Inl e \<Rightarrow> (Inl \<lparr>ae_status = BAD_GATEWAY, ae_code = ''agent_unreachable'',
                           ae_message = panel_error_str e\<rparr>, h)
           | Inr h \<Rightarrow> (Inr (jobj [(''success'', JBool True), (''message'', JStr ''config pushed'')]),
                        hub_clear_pending i core h)))"

end
