(* ===== verification/CatalogRoutes.thy ===== *)
theory CatalogRoutes
  imports NodeRoutes "HOL-Library.List_Lexorder" "HOL-Library.Char_ord"
begin

text \<open>
  The handlers of certificates, core versions and protocol presets (pp-hub, routes/certificates.rs,
  core\_version.rs and protocol\_preset.rs). What GitHub answers is a parameter: the releases of a core
  as parsed, or the error the handler returns.
\<close>

text \<open>The string parameter of a query, if it has one that is not empty.\<close>

definition param_of :: "params \<Rightarrow> string \<Rightarrow> string option" where
  "param_of ps k = nonempty (map_of ps k)"

section \<open>Certificates\<close>

definition cert_to_json :: "(tstamp \<Rightarrow> json) \<Rightarrow> certificate \<Rightarrow> string option \<Rightarrow> json" where
  "cert_to_json tj c node_name = jobj
     [(''id'', JStr (ct_id c)), (''node_id'', JStr (ct_node_id c)), (''node_name'', ojson JStr node_name),
      (''domain'', JStr (ct_domain c)), (''status'', JStr (ct_status c)),
      (''challenge_type'', JStr (ct_challenge_type c)), (''expires_at'', ojson tj (ct_expires_at c)),
      (''last_issued_at'', ojson tj (ct_last_issued_at c)), (''last_error'', ojson JStr (ct_last_error c)),
      (''created_at'', tj (ct_created_at c))]"

definition cert_node_name :: "db \<Rightarrow> uuid \<Rightarrow> string option" where
  "cert_node_name d i = map_option n_name (tbl_find n_id i (db_nodes d))"

definition list_certificates :: "crates \<Rightarrow> (tstamp \<Rightarrow> json) \<Rightarrow> params \<Rightarrow> db \<Rightarrow> api_error + json" where
  "list_certificates x tj ps d =
     rbind (case param_of ps ''node_id'' of
              None \<Rightarrow> Inr (db_certificates d)
            | Some s \<Rightarrow>
                rbind (ok_or (x_parse_uuid x s) (bad_request ''invalid_node_id'' ''invalid node id'')) (\<lambda>i.
                Inr (filter (\<lambda>c. ct_node_id c = i) (db_certificates d)))) (\<lambda>items.
     Inr (jobj [(''certificates'', JArr (map (\<lambda>c. cert_to_json tj c (cert_node_name d (ct_node_id c)))
                  (sort_key ct_domain items)))]))"

definition create_cert_checks :: "string \<Rightarrow> string option \<Rightarrow> uuid \<Rightarrow> db \<Rightarrow> api_error + string" where
  "create_cert_checks domain challenge node_id d =
     (if domain = [] \<or> CHR 0x20 \<in> set domain then Inl (bad_request ''invalid_domain'' ''domain is required'')
      else
        (let ch = unwrap_or challenge ''http-01'' in
         if ch \<noteq> ''http-01''
         then Inl (bad_request ''invalid_challenge_type'' (''unsupported challenge type: '' @ ch))
         else if tbl_find n_id node_id (db_nodes d) = None then Inl (not_found ''node not found'')
         else Inr ch))"

definition pending_cert :: "tstamp \<Rightarrow> certificate \<Rightarrow> certificate" where
  "pending_cert now c = c\<lparr>ct_status := CERT_STATUS_PENDING, ct_last_error := None, ct_updated_at := now\<rparr>"

definition new_cert :: "tstamp \<Rightarrow> uuid \<Rightarrow> uuid \<Rightarrow> string \<Rightarrow> string \<Rightarrow> certificate" where
  "new_cert now i node_id domain ch =
     \<lparr>ct_id = i, ct_node_id = node_id, ct_domain = domain, ct_status = CERT_STATUS_PENDING,
      ct_challenge_type = ch, ct_expires_at = None, ct_last_issued_at = None, ct_last_error = None,
      ct_created_at = now, ct_updated_at = now\<rparr>"

definition create_certificate ::
    "(tstamp \<Rightarrow> json) \<Rightarrow> tstamp \<Rightarrow> uuid \<Rightarrow> string \<Rightarrow> uuid \<Rightarrow> string option \<Rightarrow> hub \<Rightarrow> (api_error + json) \<times> hub" where
  "create_certificate tj now new_id raw_domain node_id challenge h =
     (let domain = trim raw_domain in
      case create_cert_checks domain challenge node_id (h_db h) of
        Inl e \<Rightarrow> (Inl e, h)
      | Inr ch \<Rightarrow>
          (case (case find (\<lambda>c. ct_node_id c = node_id \<and> ct_domain c = domain) (db_certificates (h_db h)) of
                   Some c \<Rightarrow>
                     (let f = (\<lambda>c. (pending_cert now c)\<lparr>ct_challenge_type := ch\<rparr>)
                      in (f c, upd_db (\<lambda>d. d\<lparr>db_certificates := tbl_update ct_id (ct_id c) f (db_certificates d)\<rparr>) h))
                 | None \<Rightarrow>
                     (let c = new_cert now new_id node_id domain ch
                      in (c, upd_db (\<lambda>d. d\<lparr>db_certificates := tbl_insert c (db_certificates d)\<rparr>) h))) of
             (cert, h) \<Rightarrow> (Inr (cert_to_json tj cert (cert_node_name (h_db h) (ct_node_id cert))),
                          dispatch_issuance cert h)))"

definition renew_certificate :: "(tstamp \<Rightarrow> json) \<Rightarrow> tstamp \<Rightarrow> uuid \<Rightarrow> hub \<Rightarrow> (api_error + json) \<times> hub" where
  "renew_certificate tj now i h =
     (case tbl_find ct_id i (db_certificates (h_db h)) of
        None \<Rightarrow> (Inl (not_found ''certificate not found''), h)
      | Some c \<Rightarrow>
          (Inr (cert_to_json tj (pending_cert now c) None),
           dispatch_issuance (pending_cert now c)
             (upd_db (\<lambda>d. d\<lparr>db_certificates := tbl_update ct_id i (pending_cert now) (db_certificates d)\<rparr>) h)))"

definition delete_certificate :: "uuid \<Rightarrow> db \<Rightarrow> (api_error + unit) \<times> db" where
  "delete_certificate i d =
     (let d' = d\<lparr>db_certificates := tbl_delete (\<lambda>c. ct_id c = i) (db_certificates d)\<rparr>
      in (delete_answer ''certificate'' (db_certificates d) (db_certificates d'), d'))"

section \<open>Core versions\<close>

definition VERSIONS_PER_CHANNEL :: nat where "VERSIONS_PER_CHANNEL = 10"

definition version_to_json :: "(tstamp \<Rightarrow> json) \<Rightarrow> core_version \<Rightarrow> json" where
  "version_to_json tj v = jobj
     [(''id'', JStr (cv_id v)), (''core_type'', JStr (cv_core_type v)), (''version'', JStr (cv_version v)),
      (''channel'', JStr (cv_channel v)), (''published_at'', ojson tj (cv_published_at v)),
      (''commit_sha'', ojson JStr (cv_commit_sha v)), (''is_active'', JBool (cv_is_active v)),
      (''created_at'', tj (cv_created_at v))]"

text \<open>By core, then by channel downwards, then the newest first.\<close>

definition sort_desc :: "('r \<Rightarrow> 'k::linorder) \<Rightarrow> 'r list \<Rightarrow> 'r list" where
  "sort_desc k xs = rev (sort_key k (rev xs))"

definition list_core_versions :: "(tstamp \<Rightarrow> json) \<Rightarrow> params \<Rightarrow> db \<Rightarrow> json" where
  "list_core_versions tj ps d =
     (let rows = (case param_of ps ''core_type'' of
                    Some c \<Rightarrow> filter (\<lambda>v. cv_core_type v = c) (db_core_versions d)
                  | None \<Rightarrow> db_core_versions d)
      in jobj [(''versions'', JArr (map (version_to_json tj)
           (sort_key cv_core_type (sort_desc cv_channel (sort_desc cv_created_at rows)))))])"

definition delete_core_version :: "uuid \<Rightarrow> db \<Rightarrow> (api_error + unit) \<times> db" where
  "delete_core_version i d =
     (let d' = d\<lparr>db_core_versions := tbl_delete (\<lambda>v. cv_id v = i) (db_core_versions d)\<rparr>
      in (delete_answer ''core version'' (db_core_versions d) (db_core_versions d'), d'))"

record upstream_release =
  ul_tag :: string
  ul_channel :: string
  ul_published_at :: "string option"
  ul_commit_sha :: "string option"

definition release_from_json :: "json \<Rightarrow> string \<Rightarrow> upstream_release option" where
  "release_from_json release channel =
     Option.bind (get_str release ''tag_name'') (\<lambda>tag.
       Some \<lparr>ul_tag = tag, ul_channel = channel,
             ul_published_at = or_else (get_str release ''updated_at'') (get_str release ''published_at''),
             ul_commit_sha = get_str release ''target_commitish''\<rparr>)"

text \<open>The first ten releases of each channel; a release without a tag is passed over.\<close>

fun collect_releases ::
    "upstream_release list \<Rightarrow> upstream_release list \<Rightarrow> json list \<Rightarrow> upstream_release list \<times> upstream_release list" where
  "collect_releases rel pre [] = (rel, pre)"
| "collect_releases rel pre (release # rest) =
     (let is_pre = unwrap_or (get_bool release ''prerelease'') False;
          add = (\<lambda>rs ch. if length rs < VERSIONS_PER_CHANNEL
                         then (case release_from_json release ch of Some r \<Rightarrow> rs @ [r] | None \<Rightarrow> rs) else rs);
          pre' = (if is_pre then add pre ''prerelease'' else pre);
          rel' = (if is_pre then rel else add rel ''release'')
      in if length rel' \<ge> VERSIONS_PER_CHANNEL \<and> length pre' \<ge> VERSIONS_PER_CHANNEL
         then (rel', pre')
         else collect_releases rel' pre' rest)"

definition fetch_upstream_versions ::
    "(core_type \<Rightarrow> api_error + json list) \<Rightarrow> core_type \<Rightarrow> api_error + upstream_release list" where
  "fetch_upstream_versions github core =
     rbind (github core) (\<lambda>releases. case collect_releases [] [] releases of (rel, pre) \<Rightarrow> Inr (rel @ pre))"

definition saved_version :: "db \<Rightarrow> string \<Rightarrow> string \<Rightarrow> tstamp option option" where
  "saved_version d core tag =
     map_of (rev (map (\<lambda>v. ((cv_core_type v, cv_version v), cv_published_at v)) (db_core_versions d))) (core, tag)"

definition newer_build :: "tstamp option \<Rightarrow> tstamp option \<Rightarrow> bool" where
  "newer_build old new =
     (case (old, new) of (Some o', Some n) \<Rightarrow> n > o' | (None, Some _) \<Rightarrow> True | _ \<Rightarrow> False)"

definition upstream_entry :: "(string \<Rightarrow> tstamp option) \<Rightarrow> db \<Rightarrow> core_type \<Rightarrow> upstream_release \<Rightarrow> json" where
  "upstream_entry parse d core r =
     (let saved = saved_version d (core_str core) (ul_tag r)
      in jobj [(''version'', JStr (ul_tag r)), (''channel'', JStr (ul_channel r)), (''saved'', JBool (saved \<noteq> None)),
               (''published_at'', ojson JStr (ul_published_at r)), (''commit_sha'', ojson JStr (ul_commit_sha r)),
               (''update_available'', JBool (case saved of
                  Some at \<Rightarrow> newer_build at (Option.bind (ul_published_at r) parse) | None \<Rightarrow> False))])"

fun upstream_of_cores ::
    "(core_type \<Rightarrow> api_error + json list) \<Rightarrow> (string \<Rightarrow> tstamp option) \<Rightarrow> db \<Rightarrow> core_type list \<Rightarrow> api_error + json list" where
  "upstream_of_cores github parse d [] = Inr []"
| "upstream_of_cores github parse d (core # cores) =
     rbind (fetch_upstream_versions github core) (\<lambda>rs.
     rbind (upstream_of_cores github parse d cores) (\<lambda>js.
       Inr (jobj [(''core_type'', JStr (core_str core)),
                  (''versions'', JArr (map (upstream_entry parse d core) rs))] # js)))"

definition list_upstream_versions ::
    "(core_type \<Rightarrow> api_error + json list) \<Rightarrow> (string \<Rightarrow> tstamp option) \<Rightarrow> params \<Rightarrow> db \<Rightarrow> api_error + json" where
  "list_upstream_versions github parse ps d =
     rbind (case param_of ps ''core_type'' of
              Some raw \<Rightarrow> rbind (map_err (\<lambda>_. bad_request ''invalid_core_type'' ''unknown core type'') (core_from_str raw))
                            (\<lambda>c. Inr [c])
            | None \<Rightarrow> Inr [SingBox, Mihomo]) (\<lambda>cores.
     rbind (upstream_of_cores github parse d cores) (\<lambda>data. Inr (jobj [(''cores'', JArr data)])))"

record save_version_item =
  sv_core_type :: string
  sv_version :: string
  sv_channel :: "string option"
  sv_published_at :: "string option"
  sv_commit_sha :: "string option"

definition check_version_item :: "save_version_item \<Rightarrow> api_error + (core_type \<times> string \<times> string)" where
  "check_version_item it =
     rbind (map_err (\<lambda>_. bad_request ''invalid_core_type'' ''unknown core type'') (core_from_str (sv_core_type it))) (\<lambda>c.
     if trim (sv_version it) = [] then Inl (bad_request ''invalid_version'' ''version is required'')
     else
       (let ch = unwrap_or (sv_channel it) ''release'' in
        if ch = ''release'' \<or> ch = ''prerelease'' then Inr (c, trim (sv_version it), ch)
        else Inl (bad_request ''invalid_channel'' (''channel must be 'release' or 'prerelease'' @ [CHR 0x27]))))"

text \<open>The items are saved one by one: a refused item leaves the earlier ones saved.\<close>

fun save_version_items ::
    "(string \<Rightarrow> tstamp option) \<Rightarrow> tstamp \<Rightarrow> (nat \<Rightarrow> uuid) \<Rightarrow> nat \<times> nat \<Rightarrow> save_version_item list \<Rightarrow> db
       \<Rightarrow> (api_error + nat \<times> nat) \<times> db" where
  "save_version_items parse now fresh counts [] d = (Inr counts, d)"
| "save_version_items parse now fresh (added, updated) (it # its) d =
     (case check_version_item it of
        Inl e \<Rightarrow> (Inl e, d)
      | Inr (core, version, channel) \<Rightarrow>
          (let published = Option.bind (sv_published_at it) parse in
           case find (\<lambda>v. cv_core_type v = core_str core \<and> cv_version v = version) (db_core_versions d) of
             Some m \<Rightarrow>
               if newer_build (cv_published_at m) published
               then save_version_items parse now fresh (added, updated + 1) its
                 (d\<lparr>db_core_versions := tbl_update cv_id (cv_id m)
                     (\<lambda>v. v\<lparr>cv_published_at := published, cv_commit_sha := sv_commit_sha it\<rparr>) (db_core_versions d)\<rparr>)
               else save_version_items parse now fresh (added, updated) its d
           | None \<Rightarrow>
               save_version_items parse now fresh (added + 1, updated) its
                 (d\<lparr>db_core_versions := tbl_insert
                     \<lparr>cv_id = fresh added, cv_core_type = core_str core, cv_version = version, cv_channel = channel,
                      cv_published_at = published, cv_commit_sha = sv_commit_sha it, cv_is_active = False,
                      cv_created_at = now\<rparr> (db_core_versions d)\<rparr>)))"

definition save_core_versions ::
    "(string \<Rightarrow> tstamp option) \<Rightarrow> tstamp \<Rightarrow> (nat \<Rightarrow> uuid) \<Rightarrow> save_version_item list \<Rightarrow> db \<Rightarrow> (api_error + json) \<times> db" where
  "save_core_versions parse now fresh items d =
     (if items = [] then (Inl (bad_request ''empty_selection'' ''no versions selected''), d)
      else
        (case save_version_items parse now fresh (0, 0) items d of
           (Inl e, d) \<Rightarrow> (Inl e, d)
         | (Inr (added, updated), d) \<Rightarrow>
             (Inr (jobj [(''added'', jnat added), (''updated'', jnat updated)]), d)))"

definition select_version :: "core_version \<Rightarrow> core_version list \<Rightarrow> core_version list" where
  "select_version row vs =
     tbl_update cv_id (cv_id row) (\<lambda>v. v\<lparr>cv_is_active := True\<rparr>)
       (fold (\<lambda>v. tbl_update cv_id (cv_id v) (\<lambda>v. v\<lparr>cv_is_active := False\<rparr>))
          (filter (\<lambda>v. cv_core_type v = cv_core_type row) vs) vs)"

definition activate_core_version :: "tstamp \<Rightarrow> uuid \<Rightarrow> db \<Rightarrow> (api_error + json) \<times> db" where
  "activate_core_version now i d =
     (case tbl_find cv_id i (db_core_versions d) of
        None \<Rightarrow> (Inl (not_found ''core version not found''), d)
      | Some row \<Rightarrow>
          (case core_from_str (cv_core_type row) of
             Inl _ \<Rightarrow> (Inl (bad_request ''invalid_core_type'' ''unknown core type''), d)
           | Inr core \<Rightarrow>
               (let d = d\<lparr>db_core_versions := select_version row (db_core_versions d)\<rparr>;
                    nodes = nodes_with_bindings d core
                in (Inr (jobj [(''activated'', JStr (cv_version row)), (''pending_nodes'', jnat (length nodes))]),
                    mark_pending now nodes core UPDATE_TYPE_CORE d))))"

section \<open>Presets\<close>

datatype protocol_preset = PresetVlessReality | PresetVlessXhttpTls | PresetHysteria2 | PresetAnytls

definition preset_from_str :: "string \<Rightarrow> protocol_preset option" where
  "preset_from_str s = map_of
     [(''vless_reality'', PresetVlessReality), (''vless_xhttp_tls'', PresetVlessXhttpTls),
      (''hysteria2'', PresetHysteria2), (''anytls'', PresetAnytls)] s"

definition list_presets :: "(string \<times> string \<times> string \<times> protocol_type \<times> core_type) list" where
  "list_presets =
     [(''vless_reality'', ''VLESS + REALITY'',
       ''Recommended. VLESS with REALITY handshake and xtls-rprx-vision flow.'', VlessReality, SingBox),
      (''vless_xhttp_tls'', ''VLESS + XHTTP + TLS'', ''VLESS over XHTTP (HTTPUpgrade), mihomo.'', VlessXhttp, Mihomo),
      (''hysteria2'', ''Hysteria2'', ''Hysteria2 with TLS, sing-box only.'', Hysteria2, SingBox),
      (''anytls'', ''AnyTLS'', ''AnyTLS with TLS, sing-box only.'', Anytls, SingBox)]"

definition list_available_presets :: json where
  "list_available_presets = jobj [(''presets'', JArr (map (\<lambda>(i, n, de, p, c). jobj
     [(''id'', JStr i), (''name'', JStr n), (''description'', JStr de), (''protocol_type'', JStr (protocol_str p)),
      (''core_type'', JStr (core_str c))]) list_presets))]"

definition default_tls_settings :: "string \<Rightarrow> json" where
  "default_tls_settings sni = jobj
     [(''serverName'', JStr sni), (''certFile'', JStr ''/path/to/cert.pem''), (''keyFile'', JStr ''/path/to/key.pem'')]"

text \<open>\<open>short_id\<close> is the new random short id.\<close>

definition preset_parts ::
    "string \<Rightarrow> protocol_preset \<Rightarrow> string \<Rightarrow> protocol_type \<times> core_type \<times> json \<times> json option" where
  "preset_parts short_id preset sni =
     (case preset of
        PresetVlessReality \<Rightarrow>
          (VlessReality, SingBox,
           jobj [(''clients'', JArr []), (''decryption'', JStr ''none''), (''flow'', JStr ''xtls-rprx-vision''),
                 (''network'', JStr ''tcp''), (''reality_dest'', JStr (sni @ '':443'')),
                 (''reality_server_names'', JStr sni), (''reality_private_key'', JStr []),
                 (''reality_short_id'', JStr short_id), (''fingerprint'', JStr ''chrome'')], None)
      | PresetVlessXhttpTls \<Rightarrow>
          (VlessXhttp, Mihomo,
           jobj [(''clients'', JArr []), (''decryption'', JStr ''none''), (''network'', JStr ''xhttp''),
                 (''xhttp_path'', JStr ''/xhttp''), (''xhttp_host'', JStr sni), (''xhttp_mode'', JStr ''auto'')],
           Some (default_tls_settings sni))
      | PresetHysteria2 \<Rightarrow>
          (Hysteria2, SingBox,
           jobj [(''clients'', JArr []), (''up_mbps'', jnat 100), (''down_mbps'', jnat 100),
                 (''obfs_type'', JStr ''none''), (''obfs_password'', JStr [])], Some (default_tls_settings sni))
      | PresetAnytls \<Rightarrow>
          (Anytls, SingBox, jobj [(''clients'', JArr []), (''masquerade'', JStr [])], Some (default_tls_settings sni)))"

definition expand_preset :: "string \<Rightarrow> protocol_preset \<Rightarrow> string \<Rightarrow> string option \<Rightarrow> nat option \<Rightarrow> json" where
  "expand_preset short_id preset name domain port =
     (case preset_parts short_id preset (unwrap_or domain ''example.com'') of
        (pt, ct, settings, tls) \<Rightarrow> jobj
          [(''name'', JStr name), (''protocol_type'', JStr (protocol_str pt)), (''core_type'', JStr (core_str ct)),
           (''listen_port'', jnat (unwrap_or port 443)), (''listen_address'', JStr ''0.0.0.0''),
           (''settings'', settings), (''tls_settings'', unwrap_or tls JNull)])"

definition preset_config :: "uuid \<Rightarrow> string \<Rightarrow> json \<Rightarrow> protocol_config" where
  "preset_config i name e =
     \<lparr>pc_id = i, pc_name = name, pc_protocol_type = unwrap_or (get_str e ''protocol_type'') [],
      pc_core_type = unwrap_or (get_str e ''core_type'') [],
      pc_listen_port = wrap32 (int (unwrap_or (get_u64 e ''listen_port'') 443)),
      pc_listen_address = unwrap_or (get_str e ''listen_address'') ''0.0.0.0'',
      pc_settings = jidx e ''settings'', pc_tls_settings = opt_filter (\<lambda>v. v \<noteq> JNull) (Some (jidx e ''tls_settings''))\<rparr>"

definition apply_preset ::
    "string \<Rightarrow> uuid \<Rightarrow> string \<Rightarrow> string \<Rightarrow> string option \<Rightarrow> nat option \<Rightarrow> db \<Rightarrow> (api_error + json) \<times> db" where
  "apply_preset short_id i preset name domain port d =
     (if trim name = [] then (Inl (bad_request ''invalid_name'' ''preset name is required''), d)
      else
        (case preset_from_str preset of
           None \<Rightarrow> (Inl (bad_request ''invalid_preset'' ''unknown preset''), d)
         | Some pr \<Rightarrow>
             (let c = preset_config i name (expand_preset short_id pr name domain port)
              in (Inr (config_to_json c), d\<lparr>db_protocol_configs := tbl_insert c (db_protocol_configs d)\<rparr>))))"

end
