(* ===== verification/AdminRoutes.thy ===== *)
theory AdminRoutes
  imports CatalogRoutes
begin

text \<open>
  The administrators' side of the hub (pp-hub): the configuration's readers (config.rs), the JWT check
  (middleware/auth.rs), the login and users (routes/login.rs), the webhooks (routes/webhook.rs) and the
  install command of a node (routes/install.rs). The JWT crate, the Argon2 crate, Unicode lower case
  and the package's version are parameters.
\<close>

section \<open>Configuration\<close>

record hub_config =
  hc_grpc_listen :: string
  hc_cors_origins :: "string list option"
  hc_trusted_proxy_ips :: "ip_addr set option"
  hc_jwt_secret :: string
  hc_http_tls_cert :: "string option"
  hc_public_http_url :: "string option"
  hc_public_grpc_url :: "string option"
  hc_release_repo :: string

definition MIN_JWT_SECRET_LEN :: nat where "MIN_JWT_SECRET_LEN = 32"

definition JWT_SECRET_PLACEHOLDERS :: "string list" where
  "JWT_SECRET_PLACEHOLDERS = [''change-me-to-a-random-secret'', ''change-me-to-a-long-random-secret-string'']"

definition csv_items :: "string \<Rightarrow> string list" where
  "csv_items v = filter (\<lambda>s. s \<noteq> []) (map trim (split_on (CHR '','') v))"

definition parse_csv :: "string option \<Rightarrow> string list option" where
  "parse_csv v = Option.bind v (\<lambda>v. if csv_items v = [] then None else Some (csv_items v))"

definition parse_ips :: "string option \<Rightarrow> ip_addr list option" where
  "parse_ips v = Option.bind v (\<lambda>v.
     let ips = remdups (List.map_filter parse_ip (csv_items v)) in if ips = [] then None else Some ips)"

definition validate_jwt_secret :: "string \<Rightarrow> string + unit" where
  "validate_jwt_secret secret =
     (if secret = [] then Inl (''jwt_secret is required. Set PROXYPANEL_JWT_SECRET or add jwt_secret to the config file.'')
      else if length secret < MIN_JWT_SECRET_LEN
      then Inl (''jwt_secret is too short ('' @ nat_str (length secret) @ '' < '' @ nat_str MIN_JWT_SECRET_LEN
             @ '' characters). Use a long, randomly-generated secret.'')
      else if secret \<in> set JWT_SECRET_PLACEHOLDERS
      then Inl (''jwt_secret is set to the default placeholder. Change it to a long, randomly-generated secret before starting in production.'')
      else Inr ())"

section \<open>Tokens\<close>

record claims =
  cl_sub :: string
  cl_username :: string
  cl_role :: string
  cl_exp :: int
  cl_iat :: int

text \<open>The JWT crate: it signs claims with a secret, and reads a token back at a time of day.\<close>

record jwt_crate =
  jw_encode :: "claims \<Rightarrow> string \<Rightarrow> string + string"
  jw_decode :: "tstamp \<Rightarrow> string \<Rightarrow> string \<Rightarrow> claims option"

record auth_user =
  au_user_id :: uuid
  au_username :: string
  au_role :: string

definition require_auth ::
    "crates \<Rightarrow> jwt_crate \<Rightarrow> hub_config \<Rightarrow> tstamp \<Rightarrow> http_request \<Rightarrow> http_status + auth_user" where
  "require_auth x jw hc now r =
     rbind (ok_or (header_str r ''authorization'') UNAUTHORIZED) (\<lambda>hd.
     rbind (ok_or (strip_prefix ''Bearer '' hd) UNAUTHORIZED) (\<lambda>token.
     rbind (ok_or (jw_decode jw now (hc_jwt_secret hc) token) UNAUTHORIZED) (\<lambda>cl.
     rbind (ok_or (x_parse_uuid x (cl_sub cl)) UNAUTHORIZED) (\<lambda>i.
       Inr \<lparr>au_user_id = i, au_username = cl_username cl, au_role = cl_role cl\<rparr>))))"

definition create_jwt :: "jwt_crate \<Rightarrow> tstamp \<Rightarrow> user \<Rightarrow> string \<Rightarrow> int \<Rightarrow> string + string" where
  "create_jwt jw now u secret expiry_hours =
     jw_encode jw \<lparr>cl_sub = us_id u, cl_username = us_username u, cl_role = us_role u,
       cl_exp = (now + expiry_hours * 3600 * ns_per_sec) div ns_per_sec, cl_iat = now div ns_per_sec\<rparr> secret"

section \<open>Login and users\<close>

definition LOGIN_RATE_LIMIT_PER_MINUTE :: nat where "LOGIN_RATE_LIMIT_PER_MINUTE = 5"

definition invalid_credentials :: api_error where
  "invalid_credentials = \<lparr>ae_status = UNAUTHORIZED, ae_code = ''invalid_credentials'',
     ae_message = ''invalid username or password''\<rparr>"

definition too_many_logins :: api_error where
  "too_many_logins = \<lparr>ae_status = TOO_MANY_REQUESTS, ae_code = ''rate_limited'',
     ae_message = ''too many login attempts; try again later''\<rparr>"

definition login_json :: "string \<Rightarrow> user \<Rightarrow> json" where
  "login_json token u = jobj [(''token'', JStr token), (''user_id'', JStr (us_id u)),
     (''username'', JStr (us_username u)), (''role'', JStr (us_role u))]"

definition login ::
    "crates \<Rightarrow> jwt_crate \<Rightarrow> (string \<Rightarrow> string) \<Rightarrow> hub_config \<Rightarrow> tstamp \<Rightarrow> string \<Rightarrow> string \<Rightarrow> hub \<Rightarrow> (api_error + json) \<times> hub" where
  "login x jw lower hc now username password h =
     (if trim username = [] \<or> password = []
      then (Inl (bad_request ''invalid_input'' ''username and password are required''), h)
      else
        (case rate_check now (''login:user:'' @ lower (trim username)) LOGIN_RATE_LIMIT_PER_MINUTE (h_buckets h) of
           (ok, bs) \<Rightarrow>
             (if \<not> ok then Inl too_many_logins
              else
                rbind (ok_or (find (\<lambda>u. us_username u = username) (db_users (h_db h))) invalid_credentials) (\<lambda>u.
                if \<not> unwrap_or (verify_secret x password (us_password_hash u)) False then Inl invalid_credentials
                else
                  rbind (map_err (\<lambda>_. internal ''failed to create token'')
                           (create_jwt jw now u (hc_jwt_secret hc) 24)) (\<lambda>token.
                    Inr (login_json token u))),
              h\<lparr>h_buckets := bs\<rparr>)))"

definition me :: "auth_user \<Rightarrow> json" where
  "me a = jobj [(''user_id'', JStr (au_user_id a)), (''username'', JStr (au_username a)), (''role'', JStr (au_role a))]"

text \<open>A second user of one name violates the table's unique index.\<close>

definition create_user ::
    "tstamp \<Rightarrow> (string + string) \<Rightarrow> uuid \<Rightarrow> auth_user \<Rightarrow> string \<Rightarrow> string \<Rightarrow> string option \<Rightarrow> db \<Rightarrow> (api_error + json) \<times> db" where
  "create_user now hash i auth username password role d =
     (if au_role auth \<noteq> ''admin''
      then (Inl \<lparr>ae_status = FORBIDDEN, ae_code = ''forbidden'', ae_message = ''only admins can create users''\<rparr>, d)
      else if trim username = [] \<or> password = []
      then (Inl (bad_request ''invalid_input'' ''username and password are required''), d)
      else if length password < 8
      then (Inl (bad_request ''weak_password'' ''password must be at least 8 characters''), d)
      else
        (case hash of
           Inl e \<Rightarrow> (Inl (internal (''failed to hash password: '' @ e)), d)
         | Inr password_hash \<Rightarrow>
             (let u = \<lparr>us_id = i, us_username = trim username, us_password_hash = password_hash,
                       us_role = unwrap_or role ''admin'', us_status = ''active'', us_created_at = now, us_updated_at = now\<rparr>
              in if list_ex (\<lambda>v. us_username v = us_username u) (db_users d)
                 then (Inl (internal ''database operation failed''), d)
                 else (Inr (jobj [(''id'', JStr i), (''username'', JStr (us_username u)), (''role'', JStr (us_role u))]),
                       d\<lparr>db_users := tbl_insert u (db_users d)\<rparr>))))"

section \<open>Webhooks\<close>

definition webhook_to_json :: "(tstamp \<Rightarrow> json) \<Rightarrow> webhook \<Rightarrow> json" where
  "webhook_to_json tj w = jobj
     [(''id'', JStr (wh_id w)), (''name'', JStr (wh_name w)), (''url'', JStr (wh_url w)), (''events'', wh_events w),
      (''is_active'', JBool (wh_is_active w)), (''created_at'', tj (wh_created_at w))]"

definition list_webhooks :: "(tstamp \<Rightarrow> json) \<Rightarrow> params \<Rightarrow> db \<Rightarrow> json list \<times> nat" where
  "list_webhooks tj ps d = (case paged ps (db_webhooks d) of (ws, n) \<Rightarrow> (map (webhook_to_json tj) ws, n))"

record create_webhook_payload =
  cwp_name :: string
  cwp_url :: string
  cwp_events :: "json option"
  cwp_secret :: "string option"
  cwp_is_active :: "bool option"

definition create_webhook ::
    "(tstamp \<Rightarrow> json) \<Rightarrow> tstamp \<Rightarrow> uuid \<Rightarrow> create_webhook_payload \<Rightarrow> db \<Rightarrow> (api_error + json) \<times> db" where
  "create_webhook tj now i p d =
     (if trim (cwp_name p) = [] then (Inl (bad_request ''invalid_name'' ''webhook name is required''), d)
      else if trim (cwp_url p) = [] then (Inl (bad_request ''invalid_url'' ''webhook URL is required''), d)
      else
        (let w = \<lparr>wh_id = i, wh_name = cwp_name p, wh_url = cwp_url p, wh_events = unwrap_or (cwp_events p) (JArr []),
                  wh_secret = nonempty (cwp_secret p), wh_is_active = unwrap_or (cwp_is_active p) True,
                  wh_created_at = now, wh_updated_at = now\<rparr>
         in (Inr (webhook_to_json tj w), d\<lparr>db_webhooks := tbl_insert w (db_webhooks d)\<rparr>)))"

record update_webhook_payload =
  uwp_name :: "string option"
  uwp_url :: "string option"
  uwp_events :: "json option"
  uwp_secret :: "string option"
  uwp_is_active :: "bool option"

definition update_webhook_row :: "tstamp \<Rightarrow> update_webhook_payload \<Rightarrow> webhook \<Rightarrow> webhook" where
  "update_webhook_row now p w =
     w\<lparr>wh_name := unwrap_or (uwp_name p) (wh_name w), wh_url := unwrap_or (uwp_url p) (wh_url w),
       wh_events := unwrap_or (uwp_events p) (wh_events w),
       wh_secret := (if uwp_secret p \<noteq> None then nonempty (uwp_secret p) else wh_secret w),
       wh_is_active := unwrap_or (uwp_is_active p) (wh_is_active w), wh_updated_at := now\<rparr>"

definition update_webhook ::
    "(tstamp \<Rightarrow> json) \<Rightarrow> tstamp \<Rightarrow> uuid \<Rightarrow> update_webhook_payload \<Rightarrow> db \<Rightarrow> (api_error + json) \<times> db" where
  "update_webhook tj now i p d =
     (case tbl_find wh_id i (db_webhooks d) of
        None \<Rightarrow> (Inl (not_found ''webhook not found''), d)
      | Some w \<Rightarrow>
          if blank (uwp_name p) then (Inl (bad_request ''invalid_name'' ''webhook name cannot be empty''), d)
          else if blank (uwp_url p) then (Inl (bad_request ''invalid_url'' ''webhook URL cannot be empty''), d)
          else (Inr (webhook_to_json tj (update_webhook_row now p w)),
                d\<lparr>db_webhooks := tbl_update wh_id i (update_webhook_row now p) (db_webhooks d)\<rparr>))"

definition delete_webhook :: "uuid \<Rightarrow> db \<Rightarrow> (api_error + unit) \<times> db" where
  "delete_webhook i d =
     (let d' = d\<lparr>db_webhooks := tbl_delete (\<lambda>w. wh_id w = i) (db_webhooks d)\<rparr>
      in (delete_answer ''webhook'' (db_webhooks d) (db_webhooks d'), d'))"

text \<open>
  The requests an event leads to: the URL, the signature, the event's name and the body. \<open>hmac\<close> is the
  hexadecimal HMAC-SHA256 of a text.
\<close>

definition subscribed_events :: "webhook \<Rightarrow> string list" where
  "subscribed_events w = (case as_array (wh_events w) of Some arr \<Rightarrow> List.map_filter as_str arr | None \<Rightarrow> [])"

definition event_body :: "tstamp \<Rightarrow> string \<Rightarrow> json \<Rightarrow> json" where
  "event_body now event payload =
     jobj [(''event'', JStr event), (''payload'', payload), (''timestamp'', jint (now div ns_per_sec))]"

definition trigger_event ::
    "crates \<Rightarrow> (string \<Rightarrow> string \<Rightarrow> string) \<Rightarrow> tstamp \<Rightarrow> string \<Rightarrow> json \<Rightarrow> db \<Rightarrow> (string \<times> string option \<times> string \<times> json) list" where
  "trigger_event x hmac now event payload d =
     map (\<lambda>w. (wh_url w,
               map_option (\<lambda>s. ''sha256='' @ hmac s (x_to_string x (event_body now event payload))) (wh_secret w),
               event, event_body now event payload))
       (filter (\<lambda>w. wh_is_active w \<and> list_ex (\<lambda>e. e = event \<or> e = ''*'') (subscribed_events w)) (db_webhooks d))"

section \<open>The install command\<close>

definition render_script :: "string \<Rightarrow> string \<Rightarrow> string" where
  "render_script raw release_repo = str_replace ''__PROXYPANEL_RELEASE_REPO__'' release_repo raw"

text \<open>A quote becomes the four characters that close the text, quote one quote and open it again.\<close>

definition shell_quote :: "string \<Rightarrow> string" where
  "shell_quote s = concat (map (\<lambda>c. if c = CHR 0x27 then [CHR 0x27, CHR 0x5C, CHR 0x27, CHR 0x27] else [c]) s)"

definition sh_quoted :: "string \<Rightarrow> string" where
  "sh_quoted s = CHR 0x27 # shell_quote s @ [CHR 0x27]"

definition url_host :: "http_request \<Rightarrow> string" where
  "url_host r = unwrap_or (header_str r ''host'') ''localhost:8081''"

definition url_scheme :: "hub_config \<Rightarrow> http_request \<Rightarrow> string" where
  "url_scheme hc r =
     unwrap_or (header_str r ''x-forwarded-proto'') (if hc_http_tls_cert hc \<noteq> None then ''https'' else ''http'')"

definition install_script_url :: "hub_config \<Rightarrow> http_request \<Rightarrow> string" where
  "install_script_url hc r =
     (case hc_public_http_url hc of
        Some u \<Rightarrow> rev (dropWhile (\<lambda>c. c = CHR ''/'') (rev u)) @ ''/install.sh''
      | None \<Rightarrow> url_scheme hc r @ ''://'' @ url_host r @ ''/install.sh'')"

definition install_hub_url :: "hub_config \<Rightarrow> http_request \<Rightarrow> string" where
  "install_hub_url hc r =
     (case hc_public_grpc_url hc of
        Some u \<Rightarrow> u
      | None \<Rightarrow>
          url_scheme hc r @ ''://'' @ hd (split_on (CHR '':'') (url_host r)) @ '':''
            @ nat_str (unwrap_or (parse_uint u16_max (last (split_on (CHR '':'') (hc_grpc_listen hc)))) 50052))"

definition install_command :: "string \<Rightarrow> string \<Rightarrow> string \<Rightarrow> string \<Rightarrow> string \<Rightarrow> string \<Rightarrow> string" where
  "install_command script_url hub_url token i name version =
     ''curl -fsSL '' @ sh_quoted script_url @ '' | bash -s -- --hub-url '' @ sh_quoted hub_url @ '' --token '' @ sh_quoted token
       @ '' --agent-id '' @ sh_quoted i @ '' --name '' @ sh_quoted name @ '' --version '' @ sh_quoted version"

text \<open>\<open>raw\<close> is the new token, \<open>hash\<close> what the Argon2 hash of it gives, \<open>version\<close> the package's.\<close>

definition node_install_command ::
    "hub_config \<Rightarrow> tstamp \<Rightarrow> string \<Rightarrow> string \<Rightarrow> (string + string) \<Rightarrow> uuid \<Rightarrow> http_request \<Rightarrow> db \<Rightarrow> (api_error + json) \<times> db" where
  "node_install_command hc now version raw hash i r d =
     (case tbl_find n_id i (db_nodes d) of
        None \<Rightarrow> (Inl (not_found ''node not found''), d)
      | Some n \<Rightarrow>
          (case hash of
             Inl e \<Rightarrow> (Inl (internal (''failed to hash token: '' @ e)), d)
           | Inr token_hash \<Rightarrow>
               (Inr (jobj [(''id'', JStr i), (''name'', JStr (n_name n)), (''token'', JStr raw),
                  (''hub_url'', JStr (install_hub_url hc r)), (''script_url'', JStr (install_script_url hc r)),
                  (''version'', JStr version),
                  (''command'', JStr (install_command (install_script_url hc r) (install_hub_url hc r) raw i (n_name n) version)),
                  (''was_connected'', JBool (n_last_seen_at n \<noteq> None))]),
                d\<lparr>db_nodes := tbl_update n_id i (\<lambda>n. n\<lparr>n_token_hash := token_hash, n_updated_at := now\<rparr>)
                    (db_nodes d)\<rparr>)))"

end
