(* ===== verification/ReportRoutes.thy ===== *)
theory ReportRoutes
  imports AdminRoutes
begin

text \<open>
  The reports of the hub (pp-hub, routes/traffic.rs, usage.rs, onlines.rs, metrics.rs and the logs of
  a node in nodes.rs): filtered listings and sums, which change nothing. \<open>rid\<close> is the id printed
  for a row where the model's rows leave theirs out, \<open>fj\<close> prints a float, \<open>parse\<close> reads a time stamp.
\<close>

section \<open>Filters\<close>

definition uuid_param :: "crates \<Rightarrow> params \<Rightarrow> string \<Rightarrow> uuid option" where
  "uuid_param x ps k = Option.bind (map_of ps k) (x_parse_uuid x)"

definition time_param :: "(string \<Rightarrow> tstamp option) \<Rightarrow> params \<Rightarrow> string \<Rightarrow> tstamp option" where
  "time_param parse ps k = Option.bind (map_of ps k) parse"

definition limit_param :: "params \<Rightarrow> nat \<Rightarrow> nat" where
  "limit_param ps n = unwrap_or (Option.bind (map_of ps ''limit'') (parse_uint u64_max)) n"

text \<open>A filter that is there must hold.\<close>

definition opt_holds :: "('a \<Rightarrow> bool) \<Rightarrow> 'a option \<Rightarrow> bool" where
  "opt_holds p v = (case v of Some a \<Rightarrow> p a | None \<Rightarrow> True)"

section \<open>Usage\<close>

definition filtered_query :: "crates \<Rightarrow> (string \<Rightarrow> tstamp option) \<Rightarrow> params \<Rightarrow> db \<Rightarrow> usage_record list" where
  "filtered_query x parse ps d =
     filter (\<lambda>r. opt_holds (\<lambda>i. ur_node_id r = i) (uuid_param x ps ''node_id'')
               \<and> opt_holds (\<lambda>i. ur_client_id r = i) (uuid_param x ps ''client_id'')
               \<and> opt_holds (\<lambda>t. ur_hour_bucket r \<ge> t) (time_param parse ps ''start'')
               \<and> opt_holds (\<lambda>t. ur_hour_bucket r \<le> t) (time_param parse ps ''end'')) (db_usage d)"

definition query_usage ::
    "crates \<Rightarrow> (string \<Rightarrow> tstamp option) \<Rightarrow> (tstamp \<Rightarrow> json) \<Rightarrow> (fl \<Rightarrow> json) \<Rightarrow> (usage_record \<Rightarrow> json) \<Rightarrow> params \<Rightarrow> db \<Rightarrow> json list" where
  "query_usage x parse tj fj rid ps d =
     map (\<lambda>r. jobj [(''id'', rid r), (''node_id'', JStr (ur_node_id r)), (''client_id'', JStr (ur_client_id r)),
                    (''hour_bucket'', tj (ur_hour_bucket r)), (''upload_bytes'', jint (ur_upload_bytes r)),
                    (''download_bytes'', jint (ur_download_bytes r)), (''rate'', fj (ur_rate r))])
       (take (limit_param ps 500) (sort_desc ur_hour_bucket (filtered_query x parse ps d)))"

type_synonym usage_totals = "(uuid \<times> int \<times> int) list"

text \<open>The 64-bit sums wrap.\<close>

definition add_usage :: "(usage_record \<Rightarrow> uuid) \<Rightarrow> usage_record \<Rightarrow> usage_totals \<Rightarrow> usage_totals" where
  "add_usage key r m =
     (let (u, w) = unwrap_or (map_of m (key r)) (0, 0)
      in AList.update (key r) (wrap64 (u + ur_upload_bytes r), wrap64 (w + ur_download_bytes r)) m)"

definition group_key :: "string \<Rightarrow> usage_record \<Rightarrow> uuid" where
  "group_key group_by = (if group_by = ''node'' then ur_node_id else ur_client_id)"

definition usage_rows :: "(usage_record \<Rightarrow> uuid) \<Rightarrow> usage_record list \<Rightarrow> nat \<Rightarrow> usage_totals" where
  "usage_rows key records limit =
     take limit (sort_key (\<lambda>(i, u, w). - wrap64 (u + w)) (fold (add_usage key) records []))"

definition usage_summary ::
    "crates \<Rightarrow> (string \<Rightarrow> tstamp option) \<Rightarrow> params \<Rightarrow> db \<Rightarrow> api_error + json list" where
  "usage_summary x parse ps d =
     (let group_by = unwrap_or (map_of ps ''group_by'') ''client'' in
      if group_by \<noteq> ''client'' \<and> group_by \<noteq> ''node''
      then Inl (bad_request ''invalid_group_by'' (''group_by must be 'client' or 'node'' @ [CHR 0x27]))
      else
        Inr (map (\<lambda>(i, u, w). jobj [(''id'', JStr i), (''upload_bytes'', jint u), (''download_bytes'', jint w),
                                    (''total_bytes'', jint (wrap64 (u + w)))])
              (usage_rows (group_key group_by) (filtered_query x parse ps d) (limit_param ps 20))))"

section \<open>Traffic\<close>

definition DEFAULT_LIMIT :: nat where "DEFAULT_LIMIT = 500"
definition MAX_LIMIT :: nat where "MAX_LIMIT = 5000"

definition traffic_json ::
    "(tstamp \<Rightarrow> json) \<Rightarrow> json \<Rightarrow> uuid option \<Rightarrow> uuid option \<Rightarrow> uuid option \<Rightarrow> tstamp \<Rightarrow> int \<Rightarrow> int \<Rightarrow> json" where
  "traffic_json tj i node config client hour up down = jobj
     [(''id'', i), (''node_id'', ojson JStr node), (''protocol_config_id'', ojson JStr config),
      (''client_id'', ojson JStr client), (''hour_bucket'', tj hour), (''upload_bytes'', jint up),
      (''download_bytes'', jint down)]"

text \<open>With a client the usage records are listed, without one the traffic of the inbounds.\<close>

definition query_traffic ::
    "crates \<Rightarrow> (string \<Rightarrow> tstamp option) \<Rightarrow> (tstamp \<Rightarrow> json) \<Rightarrow> (usage_record \<Rightarrow> json) \<Rightarrow> (traffic_record \<Rightarrow> json)
       \<Rightarrow> params \<Rightarrow> db \<Rightarrow> json list" where
  "query_traffic x parse tj urid trid ps d =
     (let limit = min (limit_param ps DEFAULT_LIMIT) MAX_LIMIT in
      case uuid_param x ps ''client_id'' of
        Some c \<Rightarrow>
          map (\<lambda>r. traffic_json tj (urid r) (Some (ur_node_id r)) None (Some (ur_client_id r)) (ur_hour_bucket r)
                     (ur_upload_bytes r) (ur_download_bytes r))
            (take limit (sort_desc ur_hour_bucket (filtered_query x parse ps d)))
      | None \<Rightarrow>
          map (\<lambda>r. traffic_json tj (trid r) (tr_node_id r) (tr_protocol_config_id r) (tr_client_id r) (tr_hour_bucket r)
                     (tr_upload_bytes r) (tr_download_bytes r))
            (take limit (sort_desc tr_hour_bucket
              (filter (\<lambda>r. opt_holds (\<lambda>i. tr_node_id r = Some i) (uuid_param x ps ''node_id'')
                         \<and> opt_holds (\<lambda>t. tr_hour_bucket r \<ge> t) (time_param parse ps ''start'')
                         \<and> opt_holds (\<lambda>t. tr_hour_bucket r \<le> t) (time_param parse ps ''end'')) (db_traffic d)))))"

section \<open>Online users\<close>

definition five_minutes :: int where "five_minutes = 300 * ns_per_sec"

definition recent_sessions :: "tstamp \<Rightarrow> db \<Rightarrow> online_session list" where
  "recent_sessions now d = filter (\<lambda>s. os_last_active_at s \<ge> now - five_minutes) (db_sessions d)"

definition list_onlines :: "crates \<Rightarrow> (tstamp \<Rightarrow> json) \<Rightarrow> tstamp \<Rightarrow> params \<Rightarrow> db \<Rightarrow> json list" where
  "list_onlines x tj now ps d =
     map (\<lambda>s. jobj [(''id'', JStr (os_id s)), (''client_id'', JStr (os_client_id s)), (''node_id'', JStr (os_node_id s)),
                    (''ip_address'', JStr (os_ip_address s)), (''inbound_tag'', ojson JStr (os_inbound_tag s)),
                    (''connected_at'', tj (os_connected_at s)), (''last_active_at'', tj (os_last_active_at s))])
       (filter (\<lambda>s. opt_holds (\<lambda>i. os_node_id s = i) (uuid_param x ps ''node_id'')
                  \<and> opt_holds (\<lambda>i. os_client_id s = i) (uuid_param x ps ''client_id'')) (recent_sessions now d))"

definition get_client_ips :: "uuid \<Rightarrow> db \<Rightarrow> json" where
  "get_client_ips client d = jobj [(''client_id'', JStr client), (''ips'', jstrs (remdups
     (map os_ip_address (filter (\<lambda>s. os_client_id s = client) (db_sessions d)))))]"

definition get_online_count :: "tstamp \<Rightarrow> db \<Rightarrow> json" where
  "get_online_count now d =
     jobj [(''count'', jint (int (length (remdups (map os_client_id (recent_sessions now d))))))]"

section \<open>Metrics\<close>

definition query_metrics ::
    "crates \<Rightarrow> (tstamp \<Rightarrow> json) \<Rightarrow> (fl \<Rightarrow> json) \<Rightarrow> (host_metric \<Rightarrow> json) \<Rightarrow> params \<Rightarrow> db \<Rightarrow> json list" where
  "query_metrics x tj fj rid ps d =
     map (\<lambda>r. jobj [(''id'', rid r), (''node_id'', JStr (hm_node_id r)), (''timestamp'', tj (hm_timestamp r)),
                    (''cpu_percent'', fj (hm_cpu_percent r)), (''mem_used'', jint (hm_mem_used r)),
                    (''mem_total'', jint (hm_mem_total r)), (''disk_used'', jint (hm_disk_used r)),
                    (''disk_total'', jint (hm_disk_total r)), (''net_rx'', jint (hm_net_rx r)),
                    (''net_tx'', jint (hm_net_tx r)), (''load_avg1'', fj (hm_load_avg1 r)),
                    (''load_avg5'', fj (hm_load_avg5 r)), (''load_avg15'', fj (hm_load_avg15 r))])
       (take (limit_param ps 100) (sort_desc hm_timestamp
         (filter (\<lambda>r. opt_holds (\<lambda>i. hm_node_id r = i) (uuid_param x ps ''node_id'')) (db_host_metrics d))))"

definition latest_metrics :: "(tstamp \<Rightarrow> json) \<Rightarrow> (fl \<Rightarrow> json) \<Rightarrow> uuid \<Rightarrow> db \<Rightarrow> api_error + json" where
  "latest_metrics tj fj node d =
     (case sort_desc hm_timestamp (filter (\<lambda>r. hm_node_id r = node) (db_host_metrics d)) of
        [] \<Rightarrow> Inl (not_found ''metrics not found for node'')
      | r # _ \<Rightarrow> Inr (jobj [(''node_id'', JStr (hm_node_id r)), (''timestamp'', tj (hm_timestamp r)),
          (''cpu_percent'', fj (hm_cpu_percent r)), (''mem_used'', jint (hm_mem_used r)),
          (''mem_total'', jint (hm_mem_total r)), (''disk_used'', jint (hm_disk_used r)),
          (''disk_total'', jint (hm_disk_total r)),
          (''load_avg'', JArr [fj (hm_load_avg1 r), fj (hm_load_avg5 r), fj (hm_load_avg15 r)])]))"

section \<open>A node's logs\<close>

definition query_node_logs ::
    "(tstamp \<Rightarrow> json) \<Rightarrow> (agent_log \<Rightarrow> json) \<Rightarrow> uuid \<Rightarrow> params \<Rightarrow> db \<Rightarrow> api_error + json list \<times> nat" where
  "query_node_logs tj rid i ps d =
     rbind (ok_or (tbl_find n_id i (db_nodes d)) (not_found ''node not found'')) (\<lambda>_.
     let rows = sort_desc al_created_at
           (filter (\<lambda>l. al_node_id l = i \<and> opt_holds (\<lambda>v. al_level l = v) (map_of ps ''level'')) (db_agent_logs d));
         items = (case parse_pagination ps of
                    Some _ \<Rightarrow> paged ps rows
                  | None \<Rightarrow> (take (limit_param ps 100) rows, length (take (limit_param ps 100) rows)))
     in case items of (ls, n) \<Rightarrow>
          Inr (map (\<lambda>l. jobj [(''id'', rid l), (''node_id'', JStr (al_node_id l)), (''level'', JStr (al_level l)),
                 (''target'', JStr (al_target l)), (''message'', JStr (al_message l)),
                 (''fields'', unwrap_or (al_fields l) JNull), (''created_at'', tj (al_created_at l))]) ls, n))"

end
