(* ===== verification/CatalogCheck.thy ===== *)
theory CatalogCheck
  imports ReportRoutes
begin

text \<open>
  What the catalogue's handlers keep: the rows' keys, the one enabled template of a format and the one
  active version of a core, the bindings' configurations and the pairs of protocol and core; and
  what follows for the configuration of a node.
\<close>

section \<open>One row of each group is on\<close>

definition one_on :: "('r \<Rightarrow> 'k) \<Rightarrow> ('r \<Rightarrow> 'g) \<Rightarrow> ('r \<Rightarrow> bool) \<Rightarrow> 'r list \<Rightarrow> bool" where
  "one_on key grp on t \<longleftrightarrow>
     (\<forall>r \<in> set t. \<forall>s \<in> set t. on r \<longrightarrow> on s \<longrightarrow> grp r = grp s \<longrightarrow> key r = key s)"

lemma map_key_inj: "distinct (map key t) \<Longrightarrow> r \<in> set t \<Longrightarrow> s \<in> set t \<Longrightarrow> key r = key s \<Longrightarrow> r = s"
  by (auto simp: distinct_map dest: inj_onD)

lemma one_onI:
  "(\<And>r s. r \<in> set t \<Longrightarrow> s \<in> set t \<Longrightarrow> on r \<Longrightarrow> on s \<Longrightarrow> grp r = grp s \<Longrightarrow> key r = key s)
   \<Longrightarrow> one_on key grp on t"
  unfolding one_on_def by (intro ballI impI)

lemma one_onD:
  assumes "one_on key grp on t" "r \<in> set t" "s \<in> set t" "on r" "on s" "grp r = grp s"
  shows "key r = key s"
  by (rule assms(1) [unfolded one_on_def, rule_format, OF assms(2-6)])

lemma one_on_subset:
  assumes "one_on key grp on t" and "set t' \<subseteq> set t"
  shows "one_on key grp on t'"
  by (rule one_onI, rule one_onD [OF assms(1)]) (use assms(2) in blast)+

lemma one_on_delete: "one_on key grp on t \<Longrightarrow> one_on key grp on (tbl_delete p t)"
  by (rule one_on_subset) (auto simp: tbl_delete_def)

lemma one_on_insert_off: "one_on key grp on t \<Longrightarrow> \<not> on r \<Longrightarrow> one_on key grp on (tbl_insert r t)"
  by (rule one_onI) (auto simp: tbl_insert_def dest: one_onD)

text \<open>
  What a table needs so that switching rows off keeps its choice: switching off keeps a row's key and
  group, and a row that is off stays so.
\<close>

locale exclusive =
  fixes key :: "'r \<Rightarrow> 'k" and grp :: "'r \<Rightarrow> 'g" and on :: "'r \<Rightarrow> bool" and off :: "'r \<Rightarrow> 'r"
  assumes key_off: "key (off r) = key r"
    and grp_off: "grp (off r) = grp r"
    and off_off: "off (off r) = off r"
    and not_on_off: "\<not> on (off r)"
begin

lemma fold_off:
  "fold (\<lambda>o'. tbl_update key (key o') off) xs t = map (\<lambda>r. if key r \<in> key ` set xs then off r else r) t"
proof (induction xs arbitrary: t)
  case (Cons x xs)
  have "fold (\<lambda>o'. tbl_update key (key o') off) (x # xs) t
      = map (\<lambda>r. if key r \<in> key ` set xs then off r else r) (tbl_update key (key x) off t)"
    using Cons by simp
  also have "\<dots> = map (\<lambda>r. if key r \<in> key ` set (x # xs) then off r else r) t"
    by (simp add: tbl_update_def o_def key_off off_off)
  finally show ?case .
qed simp

lemma keys_fold_off: "map key (fold (\<lambda>o'. tbl_update key (key o') off) xs t) = map key t"
  by (simp add: fold_off o_def key_off if_distrib [of key] cong: if_cong)

text \<open>The others of a group are switched off.\<close>

lemma one_on_select:
  assumes old: "\<And>r s. r \<in> set t \<Longrightarrow> s \<in> set t \<Longrightarrow> key r \<noteq> i \<Longrightarrow> key s \<noteq> i \<Longrightarrow> on r \<Longrightarrow> on s \<Longrightarrow> grp r = grp s
      \<Longrightarrow> key r = key s"
    and new: "\<And>r. r \<in> set t \<Longrightarrow> key r = i \<Longrightarrow> grp r = g"
    and d: "distinct (map key t)"
  shows "one_on key grp on
    (fold (\<lambda>o'. tbl_update key (key o') off) (filter (\<lambda>r. key r \<noteq> i \<and> grp r = g \<and> on r) t) t)"
proof -
  let ?x = "\<lambda>r. key r \<noteq> i \<and> grp r = g \<and> on r"
  have k: "key r \<in> key ` set (filter ?x t) \<longleftrightarrow> ?x r" if "r \<in> set t" for r
    using that map_key_inj [OF d] by auto
  have "fold (\<lambda>o'. tbl_update key (key o') off) (filter ?x t) t = map (\<lambda>r. if ?x r then off r else r) t"
    unfolding fold_off using k by simp
  moreover have "one_on key grp on (map (\<lambda>r. if ?x r then off r else r) t)"
  proof (rule one_onI)
    fix r s
    assume "r \<in> set (map (\<lambda>r. if ?x r then off r else r) t)" "s \<in> set (map (\<lambda>r. if ?x r then off r else r) t)"
      and on: "on r" "on s" and g: "grp r = grp s"
    with not_on_off have rs: "r \<in> set t" "s \<in> set t" "\<not> ?x r" "\<not> ?x s" by auto
    show "key r = key s"
    proof (cases "key r = i \<or> key s = i")
      case True
      with rs on g new show ?thesis by metis
    next
      case False
      with old [OF rs(1,2)] on g show ?thesis by blast
    qed
  qed
  ultimately show ?thesis by simp
qed

text \<open>A whole group is switched off, then one row of it on.\<close>

lemma one_on_exchange:
  assumes "one_on key grp on t" and "row \<in> set t" and "distinct (map key t)"
    and on': "\<And>r. key (on' r) = key r" "\<And>r. grp (on' r) = grp r"
  shows "one_on key grp on (tbl_update key (key row) on'
    (fold (\<lambda>o'. tbl_update key (key o') off) (filter (\<lambda>r. grp r = grp row) t) t))"
proof -
  have k: "key r \<in> key ` set (filter (\<lambda>r. grp r = grp row) t) \<longleftrightarrow> grp r = grp row" if "r \<in> set t" for r
    using that map_key_inj [OF assms(3)] by auto
  have f: "fold (\<lambda>o'. tbl_update key (key o') off) (filter (\<lambda>r. grp r = grp row) t) t
      = map (\<lambda>r. if grp r = grp row then off r else r) t"
    unfolding fold_off using k by simp
  have same: "grp r = grp row" if "r \<in> set t" "key r = key row" for r
    using that assms(2,3) by (metis map_key_inj)
  have mem: "on r \<Longrightarrow> r \<in> set (tbl_update key (key row) on' (map (\<lambda>r. if grp r = grp row then off r else r) t))
      \<Longrightarrow> key r = key row \<and> grp r = grp row \<or> r \<in> set t \<and> grp r \<noteq> grp row" for r
    using same by (fastforce simp: tbl_update_def not_on_off key_off grp_off on' split: if_splits)
  show ?thesis
    unfolding f
  proof (rule one_onI)
    fix r s
    assume *: "r \<in> set (tbl_update key (key row) on' (map (\<lambda>r. if grp r = grp row then off r else r) t))"
      "s \<in> set (tbl_update key (key row) on' (map (\<lambda>r. if grp r = grp row then off r else r) t))"
      "on r" "on s" "grp r = grp s"
    with mem [of r] mem [of s] show "key r = key s" using one_onD [OF assms(1), of r s] by metis
  qed
qed

end


interpretation tpl: exclusive sp_id sp_format sp_is_enabled
    "\<lambda>t. t\<lparr>sp_is_enabled := False, sp_updated_at := now\<rparr>" for now
  by unfold_locales simp_all

interpretation ver: exclusive cv_id cv_core_type cv_is_active "\<lambda>v. v\<lparr>cv_is_active := False\<rparr>"
  by unfold_locales simp_all

section \<open>The catalogue's invariant\<close>

text \<open>The pair of a row passes \<open>validate_protocol\<close>.\<close>

definition config_ok :: "protocol_config \<Rightarrow> bool" where
  "config_ok c \<longleftrightarrow> is_ok (validate_protocol (pc_protocol_type c) (pc_core_type c))"

definition binding_pair :: "node_binding \<Rightarrow> uuid \<times> uuid" where
  "binding_pair b = (nb_node_id b, nb_protocol_config_id b)"

definition bindings_ok :: "protocol_config list \<Rightarrow> node_binding list \<Rightarrow> bool" where
  "bindings_ok cs bs \<longleftrightarrow> distinct (map nb_id bs) \<and> distinct (map binding_pair bs)
     \<and> (\<forall>b \<in> set bs. nb_protocol_config_id b \<in> pc_id ` set cs)"

definition configs_ok :: "protocol_config list \<Rightarrow> bool" where
  "configs_ok cs \<longleftrightarrow> distinct (map pc_id cs) \<and> (\<forall>c \<in> set cs. config_ok c)"

definition templates_ok :: "subscription_template list \<Rightarrow> bool" where
  "templates_ok ts \<longleftrightarrow> distinct (map sp_id ts) \<and> one_on sp_id sp_format sp_is_enabled ts"

text \<open>A version names its core as \<open>core_str\<close> prints it.\<close>

definition named_core :: "core_version \<Rightarrow> bool" where
  "named_core v \<longleftrightarrow> cv_core_type v = core_str SingBox \<or> cv_core_type v = core_str Mihomo"

definition versions_ok :: "core_version list \<Rightarrow> bool" where
  "versions_ok vs \<longleftrightarrow> distinct (map cv_id vs) \<and> one_on cv_id cv_core_type cv_is_active vs \<and> list_all named_core vs"

definition catalog_ok :: "db \<Rightarrow> bool" where
  "catalog_ok d \<longleftrightarrow>
     distinct (map c_id (db_clients d)) \<and> distinct (map n_id (db_nodes d))
     \<and> configs_ok (db_protocol_configs d) \<and> bindings_ok (db_protocol_configs d) (db_node_bindings d)
     \<and> templates_ok (db_templates d) \<and> versions_ok (db_core_versions d)
     \<and> distinct (map us_username (db_users d))"

text \<open>What \<open>catalog_ok\<close> looks at.\<close>

definition same_catalog :: "db \<Rightarrow> db \<Rightarrow> bool" where
  "same_catalog d d' \<longleftrightarrow>
     map c_id (db_clients d') = map c_id (db_clients d) \<and> map n_id (db_nodes d') = map n_id (db_nodes d)
     \<and> db_protocol_configs d' = db_protocol_configs d \<and> db_node_bindings d' = db_node_bindings d
     \<and> db_templates d' = db_templates d \<and> db_core_versions d' = db_core_versions d \<and> db_users d' = db_users d"

lemma catalog_ok_same: "same_catalog d d' \<Longrightarrow> catalog_ok d \<Longrightarrow> catalog_ok d'"
  by (simp add: catalog_ok_def same_catalog_def)

lemma same_catalog_trans: "same_catalog d d1 \<Longrightarrow> same_catalog d1 d2 \<Longrightarrow> same_catalog d d2"
  by (simp add: same_catalog_def)

lemma same_catalog_refl: "same_catalog d d"
  by (simp add: same_catalog_def)

lemma keys_tbl_update: "(\<And>r. key (f r) = key r) \<Longrightarrow> map key (tbl_update k' i f t) = map key t"
  by (simp add: tbl_update_def o_def if_distrib [of key] cong: if_cong)

lemma distinct_insert: "distinct (map key t) \<Longrightarrow> key r \<notin> key ` set t \<Longrightarrow> distinct (map key (tbl_insert r t))"
  by (auto simp: tbl_insert_def)

lemma distinct_delete: "distinct (map key t) \<Longrightarrow> distinct (map key (tbl_delete p t))"
  by (simp add: tbl_delete_def distinct_map_filter)

lemma pending_catalog [simp]: "same_catalog d (mark_pending now ns core u d)" "same_catalog d (mark_both now ns d)"
  by (simp_all add: same_catalog_def mark_pending_def mark_both_def)

end
