(* ===== verification/CatalogReach.thy ===== *)
theory CatalogReach
  imports CatalogCheck
begin

text \<open>
  Every sequence of catalogue requests keeps the catalogue's invariant, and a node's configuration is
  never stopped by a row the handlers wrote.
\<close>

section \<open>Handlers that leave the catalogue alone\<close>

lemma keys_updates [simp]:
  "map c_id (tbl_update c_id i (update_client_row now p) cs) = map c_id cs"
  "map n_id (tbl_update n_id i (update_node_row now np) ns) = map n_id ns"
  by (simp_all add: keys_tbl_update update_client_row_def update_node_row_def)

lemma client_updates_same:
  "same_catalog d (snd (update_client_route now i p d))"
  "same_catalog d (snd (reset_client_traffic tj now i d))"
  by (auto simp: update_client_route_def reset_client_traffic_def Let_def same_catalog_refl keys_tbl_update
      same_catalog_def sync_client_groups_def split: option.split)

lemma group_handlers_same:
  "same_catalog d (snd (create_group tj now i cg d))"
  "same_catalog d (snd (update_group tj now i ug d))"
  "same_catalog d (snd (delete_group i d))"
  by (auto simp: create_group_def update_group_def delete_group_def Let_def same_catalog_def
      sync_group_bindings_def split: option.split)

lemma host_handlers_same:
  "same_catalog d (snd (create_host tj now i ch d))"
  "same_catalog d (snd (update_host tj now i uh d))"
  "same_catalog d (snd (delete_host i d))"
  by (auto simp: create_host_def update_host_def delete_host_def Let_def same_catalog_def split: option.split)

lemma subscription_handlers_same:
  "same_catalog d (snd (create_subscription now i token c gs d))"
  "same_catalog d (snd (update_subscription cal tj parse i act ex d))"
  "same_catalog d (snd (delete_subscription i d))"
  by (auto simp: create_subscription_def ensure_default_subscription_def update_subscription_def
      delete_subscription_def Let_def same_catalog_def sync_client_groups_def split: option.split)

lemma webhook_handlers_same:
  "same_catalog d (snd (create_webhook tj now i cw d))"
  "same_catalog d (snd (update_webhook tj now i uw d))"
  "same_catalog d (snd (delete_webhook i d))"
  by (auto simp: create_webhook_def update_webhook_def delete_webhook_def Let_def same_catalog_def
      split: option.split)

lemma node_updates_same:
  "same_catalog d (snd (update_node_route tj fj now i un d))"
  "same_catalog d (snd (node_install_command hc now version raw hash i r d))"
  "same_catalog d (snd (delete_certificate i d))"
  by (auto simp: update_node_route_def node_install_command_def delete_certificate_def Let_def same_catalog_def
      keys_tbl_update split: option.split sum.split)

lemmas frame_handlers = client_updates_same group_handlers_same host_handlers_same
  subscription_handlers_same webhook_handlers_same node_updates_same

section \<open>Clients, nodes and users\<close>

lemma create_client_ok:
  assumes "catalog_ok d" and "fresh 0 \<notin> c_id ` set (db_clients d)"
  shows "catalog_ok (snd (create_client now fresh p d))"
  using assms
  by (auto simp: create_client_def created_client_def catalog_ok_def Let_def sync_client_groups_def
      intro: distinct_insert split: option.split)

lemma create_node_ok:
  assumes "catalog_ok d" and "i \<notin> n_id ` set (db_nodes d)"
  shows "catalog_ok (snd (create_node now raw hash i p d))"
  using assms
  by (auto simp: create_node_def created_node_def catalog_ok_def Let_def intro: distinct_insert split: sum.split)

lemma delete_rows_ok:
  assumes "catalog_ok d"
  shows "catalog_ok (snd (delete_client i d))" "catalog_ok (snd (delete_node i d))"
    "catalog_ok (snd (delete_template s d))" "catalog_ok (snd (delete_core_version i d))"
    "catalog_ok (snd (delete_binding i d))"
  using assms
  by (auto simp: delete_client_def delete_node_def delete_template_def delete_core_version_def delete_binding_def
      catalog_ok_def Let_def templates_ok_def versions_ok_def bindings_ok_def distinct_delete one_on_delete
      split: option.split) (auto simp: tbl_delete_def list_all_iff)

lemma create_user_ok:
  assumes "catalog_ok d"
  shows "catalog_ok (snd (create_user now hash i a u pw role d))"
  using assms
  by (auto simp: create_user_def catalog_ok_def Let_def list_ex_iff intro!: distinct_insert split: sum.split)

section \<open>Protocol configurations and bindings\<close>

lemma config_ok_of: "validate_protocol s t = Inr (p, c) \<Longrightarrow>
    s = protocol_str p \<and> core_from_str t = Inr c \<and> c \<in> set (valid_for p)"
  by (auto simp: validate_protocol_def rbind_Inr_iff map_err_Inr_iff protocol_from_str_Inr split: if_splits)

lemma config_ok_pair: "c \<in> set (valid_for p) \<Longrightarrow> is_ok (validate_protocol (protocol_str p) (core_str c))"
  by (simp add: validate_protocol_def protocol_roundtrip core_roundtrip map_err_def)

lemma config_okI:
  "validate_protocol s t = Inr (p, c) \<Longrightarrow> pc_protocol_type k = protocol_str p \<Longrightarrow> pc_core_type k = core_str c \<Longrightarrow>
   config_ok k"
  using config_ok_of [of s t p c] by (simp add: config_ok_def config_ok_pair)

lemma insert_config_ok:
  assumes "catalog_ok d" and "pc_id c \<notin> pc_id ` set (db_protocol_configs d)" and "config_ok c"
  shows "catalog_ok (d\<lparr>db_protocol_configs := tbl_insert c (db_protocol_configs d)\<rparr>)"
  using assms
  by (auto simp: catalog_ok_def configs_ok_def bindings_ok_def intro: distinct_insert) (auto simp: tbl_insert_def)

lemma create_config_ok:
  assumes "catalog_ok d" and "i \<notin> pc_id ` set (db_protocol_configs d)"
  shows "catalog_ok (snd (create_config i p d))"
proof (cases "validate_protocol (cfp_protocol_type p) (cfp_core_type p)")
  case (Inr pc)
  with assms show ?thesis
    by (cases pc) (auto simp: create_config_def Let_def intro!: insert_config_ok config_okI)
qed (use assms in \<open>simp add: create_config_def\<close>)

lemma preset_config_id [simp]: "pc_id (preset_config i name e) = i"
  by (simp add: preset_config_def)

lemma preset_pair_ok: "config_ok (preset_config i name (expand_preset sid pr name' domain port))"
proof -
  have "is_ok (validate_protocol ''vless_reality'' ''sing-box'')" "is_ok (validate_protocol ''vless_xhttp'' ''mihomo'')"
    "is_ok (validate_protocol ''hysteria2'' ''sing-box'')" "is_ok (validate_protocol ''anytls'' ''sing-box'')"
    using config_ok_pair [of SingBox VlessReality] config_ok_pair [of Mihomo VlessXhttp]
      config_ok_pair [of SingBox Hysteria2] config_ok_pair [of SingBox Anytls] by simp_all
  then show ?thesis
    by (cases pr) (simp_all add: config_ok_def preset_config_def expand_preset_def preset_parts_def get_str_def
        unwrap_or_def)
qed

lemma apply_preset_ok:
  assumes "catalog_ok d" and "i \<notin> pc_id ` set (db_protocol_configs d)"
  shows "catalog_ok (snd (apply_preset sid i preset name domain port d))"
  using assms by (auto simp: apply_preset_def Let_def preset_pair_ok
      intro!: insert_config_ok split: option.split)


lemma update_config_row_ok:
  assumes "config_ok c"
    and "(if ufp_protocol_type p \<noteq> None \<or> ufp_core_type p \<noteq> None
          then rbind (validate_protocol (unwrap_or (ufp_protocol_type p) (pc_protocol_type c))
                 (unwrap_or (ufp_core_type p) (pc_core_type c))) (\<lambda>_. Inr ())
          else Inr ()) = Inr u"
  shows "config_ok (update_config_row p c)"
  using assms by (auto simp: config_ok_def update_config_row_def rbind_Inr_iff is_ok_iff split: if_splits)

lemma config_update_ok:
  assumes "catalog_ok d" and "tbl_find pc_id i (db_protocol_configs d) = Some c" and "config_ok (update_config_row p c)"
  shows "catalog_ok (d\<lparr>db_protocol_configs := tbl_update pc_id i (update_config_row p) (db_protocol_configs d)\<rparr>)"
proof -
  let ?t = "tbl_update pc_id i (update_config_row p) (db_protocol_configs d)"
  have ids: "map pc_id ?t = map pc_id (db_protocol_configs d)"
    by (rule keys_tbl_update) (simp add: update_config_row_def)
  then have set_ids: "pc_id ` set ?t = pc_id ` set (db_protocol_configs d)" by (metis set_map)
  from assms(1) have dist: "distinct (map pc_id (db_protocol_configs d))"
    by (simp add: catalog_ok_def configs_ok_def)
  from tbl_find_key [OF assms(2)] have "r = c" if "r \<in> set (db_protocol_configs d)" "pc_id r = i" for r
    using map_key_inj [OF dist that(1)] that(2) by blast
  with assms(1,3) have "\<forall>k \<in> set ?t. config_ok k"
    by (auto simp: tbl_update_def catalog_ok_def configs_ok_def)
  with assms(1) ids show ?thesis
    by (simp add: catalog_ok_def configs_ok_def bindings_ok_def set_ids)
qed

lemma update_config_ok:
  assumes "catalog_ok d"
  shows "catalog_ok (snd (update_config now i p d))"
proof (cases "tbl_find pc_id i (db_protocol_configs d)")
  case (Some c)
  with assms have "config_ok c"
    by (auto simp: catalog_ok_def configs_ok_def dest: tbl_find_key)
  note ok = update_config_row_ok [OF this]
  show ?thesis
    unfolding update_config_def Some Let_def
    by (auto simp: assms split: sum.split
        intro!: catalog_ok_same [OF pending_catalog(1)] config_update_ok [OF assms Some] ok)
qed (simp add: update_config_def assms)

lemma delete_config_ok:
  assumes "catalog_ok d"
  shows "catalog_ok (snd (delete_config now i d))"
proof -
  define ids where "ids = map nb_id (filter (\<lambda>b. nb_protocol_config_id b = i) (db_node_bindings d))"
  define d1 where "d1 = d\<lparr>
     db_binding_groups := tbl_delete (\<lambda>g. bg_node_binding_id g \<in> set ids) (db_binding_groups d),
     db_node_bindings := tbl_delete (\<lambda>b. nb_id b \<in> set ids) (db_node_bindings d),
     db_protocol_configs := tbl_delete (\<lambda>c. pc_id c = i) (db_protocol_configs d)\<rparr>"
  have "\<forall>b \<in> set (db_node_bindings d). nb_id b \<notin> set ids \<longrightarrow> nb_protocol_config_id b \<noteq> i"
    by (auto simp: ids_def)
  with assms have "catalog_ok d1"
    by (auto simp: catalog_ok_def d1_def configs_ok_def bindings_ok_def distinct_delete)
       (fastforce simp: tbl_delete_def)+
  moreover have "snd (delete_config now i d) \<in> {d1, mark_both now (remdups (map nb_node_id
      (filter (\<lambda>b. nb_protocol_config_id b = i) (db_node_bindings d)))) d1}"
    by (simp add: delete_config_def Let_def d1_def ids_def split: sum.split)
  ultimately show ?thesis
    by (auto intro: catalog_ok_same [OF pending_catalog(2)])
qed

lemma create_binding_ok:
  assumes "catalog_ok d" and "i \<notin> nb_id ` set (db_node_bindings d)"
  shows "catalog_ok (snd (create_binding x i p d))"
proof -
  have "tbl_find pc_id (cbp_protocol_config_id p) (db_protocol_configs d) \<noteq> None"
    if "rbind (ok_or (tbl_find n_id (cbp_node_id p) (db_nodes d)) e) (\<lambda>_.
          rbind (ok_or (tbl_find pc_id (cbp_protocol_config_id p) (db_protocol_configs d)) e') (\<lambda>_. f)) = Inr u"
    for e e' f u
    using that by (auto simp: rbind_Inr_iff ok_or_Inr_iff)
  with assms show ?thesis
    by (auto simp: create_binding_def Let_def catalog_ok_def bindings_ok_def list_ex_iff binding_pair_def
        tbl_find_None tbl_insert_def split: sum.split)
qed

lemma update_binding_ok:
  assumes "catalog_ok d"
  shows "catalog_ok (snd (update_binding x i p d))"
proof -
  let ?t = "tbl_update nb_id i (update_binding_row p) (db_node_bindings d)"
  have k: "map nb_id ?t = map nb_id (db_node_bindings d)" "map binding_pair ?t = map binding_pair (db_node_bindings d)"
    "map nb_protocol_config_id ?t = map nb_protocol_config_id (db_node_bindings d)"
    by (simp_all add: tbl_update_def update_binding_row_def binding_pair_def)
  then have "nb_protocol_config_id ` set ?t = nb_protocol_config_id ` set (db_node_bindings d)" by (metis set_map)
  with assms k have "bindings_ok (db_protocol_configs d) ?t"
    unfolding catalog_ok_def bindings_ok_def by (metis (no_types, lifting) imageE imageI)
  with assms show ?thesis
    by (auto simp: update_binding_def catalog_ok_def split: option.split sum.split)
qed

section \<open>Templates and versions\<close>

lemma templates_catalog:
  "catalog_ok d \<Longrightarrow> templates_ok ts \<Longrightarrow> catalog_ok (d\<lparr>db_templates := ts\<rparr>)"
  by (simp add: catalog_ok_def)

lemma enforce_ok:
  assumes "distinct (map sp_id ts)"
    and "\<And>r s. r \<in> set ts \<Longrightarrow> s \<in> set ts \<Longrightarrow> sp_id r \<noteq> i \<Longrightarrow> sp_id s \<noteq> i \<Longrightarrow> sp_is_enabled r \<Longrightarrow> sp_is_enabled s
      \<Longrightarrow> sp_format r = sp_format s \<Longrightarrow> sp_id r = sp_id s"
    and "\<And>r. r \<in> set ts \<Longrightarrow> sp_id r = i \<Longrightarrow> sp_format r = f \<and> sp_is_enabled r = en"
  shows "templates_ok (db_templates (enforce_unique_enabled_template now i f en (d\<lparr>db_templates := ts\<rparr>)))"
proof (cases en)
  case True
  with assms show ?thesis
    unfolding templates_ok_def enforce_unique_enabled_template_def Let_def
    by (simp add: tpl.keys_fold_off) (rule tpl.one_on_select, auto)
next
  case False
  have "one_on sp_id sp_format sp_is_enabled ts"
  proof (rule one_onI)
    fix r s
    assume "r \<in> set ts" "s \<in> set ts" "sp_is_enabled r" "sp_is_enabled s" "sp_format r = sp_format s"
    with assms(2) [of r s] assms(3) [of r] assms(3) [of s] False show "sp_id r = sp_id s" by metis
  qed
  with False assms(1) show ?thesis
    by (simp add: templates_ok_def enforce_unique_enabled_template_def)
qed


lemma enforce_catalog:
  assumes "catalog_ok d" and "templates_ok (db_templates (enforce_unique_enabled_template now i f en (d\<lparr>db_templates := ts\<rparr>)))"
  shows "catalog_ok (enforce_unique_enabled_template now i f en (d\<lparr>db_templates := ts\<rparr>))"
  using assms
  by (auto simp: enforce_unique_enabled_template_def catalog_ok_def Let_def)

lemma create_template_ok:
  assumes "catalog_ok d" and "i \<notin> sp_id ` set (db_templates d)"
  shows "catalog_ok (snd (create_template tj now i p d))"
proof -
  have "templates_ok (db_templates (enforce_unique_enabled_template now i f True
      (d\<lparr>db_templates := tbl_insert t (db_templates d)\<rparr>)))"
    if "sp_id t = i" "sp_format t = f" "sp_is_enabled t" for t f
    using assms that
    by (intro enforce_ok) (auto simp: catalog_ok_def templates_ok_def tbl_insert_def image_iff dest: one_onD)
  then show ?thesis
    using assms(1) by (auto simp: create_template_def Let_def intro!: enforce_catalog)
qed

lemma update_template_ok:
  assumes "catalog_ok d"
  shows "catalog_ok (snd (update_template tj now i p d))"
proof (cases "tbl_find sp_id i (db_templates d)")
  case (Some t)
  let ?t = "update_template_row now p t" and ?ts = "tbl_update sp_id i (update_template_row now p) (db_templates d)"
  from assms have d: "distinct (map sp_id (db_templates d))" and o': "one_on sp_id sp_format sp_is_enabled (db_templates d)"
    by (simp_all add: catalog_ok_def templates_ok_def)
  have k: "sp_id (update_template_row now p r) = sp_id r" for r by (simp add: update_template_row_def)
  from tbl_find_key [OF Some] have t: "sp_id t = i" "t \<in> set (db_templates d)" by auto
  have i: "r = ?t" if "r \<in> set ?ts" "sp_id r = i" for r
    using that map_key_inj [OF d _ t(2)] t(1) by (auto simp: tbl_update_def k split: if_splits)
  have old: "r \<in> set (db_templates d)" if "r \<in> set ?ts" "sp_id r \<noteq> i" for r
    using that by (auto simp: tbl_update_def k split: if_splits)
  have "templates_ok (db_templates (enforce_unique_enabled_template now i (sp_format ?t) (sp_is_enabled ?t)
      (d\<lparr>db_templates := ?ts\<rparr>)))"
  proof (rule enforce_ok)
    show "distinct (map sp_id ?ts)" by (simp add: keys_tbl_update k d)
  next
    fix r s
    assume "r \<in> set ?ts" "s \<in> set ?ts" "sp_id r \<noteq> i" "sp_id s \<noteq> i" "sp_is_enabled r" "sp_is_enabled s"
      "sp_format r = sp_format s"
    with old show "sp_id r = sp_id s" by (blast intro: one_onD [OF o'])
  qed (use i in blast)
  with assms Some show ?thesis
    by (auto simp: update_template_def Let_def intro!: enforce_catalog)
qed (simp add: update_template_def assms)

lemma versions_catalog:
  "catalog_ok d \<Longrightarrow> versions_ok vs \<Longrightarrow> catalog_ok (d\<lparr>db_core_versions := vs\<rparr>)"
  by (simp add: catalog_ok_def)

lemma refresh_version_ok:
  assumes "versions_ok vs" and "\<And>v. cv_id (f v) = cv_id v" "\<And>v. cv_core_type (f v) = cv_core_type v"
    "\<And>v. cv_is_active (f v) = cv_is_active v"
  shows "versions_ok (tbl_update cv_id i f vs)"
proof -
  have "\<exists>r' \<in> set vs. cv_id r = cv_id r' \<and> cv_core_type r = cv_core_type r' \<and> cv_is_active r = cv_is_active r'"
    if "r \<in> set (tbl_update cv_id i f vs)" for r
    using that assms(2-4) by (auto simp: tbl_update_def split: if_splits)
  then have "one_on cv_id cv_core_type cv_is_active (tbl_update cv_id i f vs)"
    using assms(1) unfolding versions_ok_def by (intro one_onI) (metis one_onD)
  moreover have "list_all named_core (tbl_update cv_id i f vs)"
    using assms(1,3) by (auto simp: versions_ok_def list_all_iff tbl_update_def named_core_def)
  ultimately show ?thesis using assms(1,2) by (simp add: versions_ok_def keys_tbl_update)
qed

lemma insert_version_ok:
  "versions_ok vs \<Longrightarrow> cv_id v \<notin> cv_id ` set vs \<Longrightarrow> \<not> cv_is_active v \<Longrightarrow> named_core v \<Longrightarrow>
   versions_ok (tbl_insert v vs)"
  by (simp add: versions_ok_def distinct_insert one_on_insert_off) (simp add: tbl_insert_def)

lemma save_items_ok:
  assumes "catalog_ok d" and "inj fresh" and "\<And>k. added \<le> k \<Longrightarrow> fresh k \<notin> cv_id ` set (db_core_versions d)"
  shows "catalog_ok (snd (save_version_items parse now fresh (added, updated) items d))"
  using assms
proof (induction items arbitrary: d added updated)
  case (Cons it its)
  show ?case
  proof (cases "check_version_item it")
    case (Inr ccc)
    obtain core version channel where [simp]: "ccc = (core, version, channel)" by (cases ccc)
    let ?found = "find (\<lambda>v. cv_core_type v = core_str core \<and> cv_version v = version) (db_core_versions d)"
    from Cons.prems(1) have v: "versions_ok (db_core_versions d)" by (simp add: catalog_ok_def)
    show ?thesis
    proof (cases ?found)
      case None
      define vs where "vs = tbl_insert \<lparr>cv_id = fresh added, cv_core_type = core_str core, cv_version = version,
          cv_channel = channel, cv_published_at = Option.bind (sv_published_at it) parse,
          cv_commit_sha = sv_commit_sha it, cv_is_active = False, cv_created_at = now\<rparr> (db_core_versions d)"
      have "versions_ok vs" unfolding vs_def using Cons.prems(3)
        by (intro insert_version_ok v) (cases core; simp add: named_core_def)+
      moreover have "fresh k \<notin> cv_id ` set vs" if "added + 1 \<le> k" for k
        using Cons.prems(2) Cons.prems(3) [of k] that by (auto simp: vs_def tbl_insert_def dest: injD)
      ultimately have "catalog_ok (snd (save_version_items parse now fresh (added + 1, updated) its
          (d\<lparr>db_core_versions := vs\<rparr>)))"
        using Cons.prems(1,2) by (intro Cons.IH versions_catalog) simp_all
      then show ?thesis using Inr None by (simp add: Let_def vs_def)
    next
      case (Some m)
      define f :: "core_version \<Rightarrow> core_version" where "f = (\<lambda>v. v\<lparr>cv_published_at := Option.bind (sv_published_at it) parse,
          cv_commit_sha := sv_commit_sha it\<rparr>)"
      have f: "cv_id (f v) = cv_id v" "cv_core_type (f v) = cv_core_type v" "cv_is_active (f v) = cv_is_active v" for v
        by (simp_all add: f_def)
      let ?vs = "tbl_update cv_id (cv_id m) f (db_core_versions d)"
      have "cv_id ` set ?vs = cv_id ` set (db_core_versions d)"
        by (metis keys_tbl_update [of cv_id f, OF f(1)] set_map)
      with refresh_version_ok [OF v f] Cons.prems
      have "catalog_ok (snd (save_version_items parse now fresh (added, updated + 1) its (d\<lparr>db_core_versions := ?vs\<rparr>)))"
        by (intro Cons.IH versions_catalog) simp_all
      moreover have "catalog_ok (snd (save_version_items parse now fresh (added, updated) its d))"
        using Cons.prems by (intro Cons.IH)
      ultimately show ?thesis using Inr Some by (simp add: Let_def f_def)
    qed
  qed (simp add: Cons.prems)
qed simp

lemma save_versions_ok:
  assumes "catalog_ok d" and "inj fresh" and "range fresh \<inter> cv_id ` set (db_core_versions d) = {}"
  shows "catalog_ok (snd (save_core_versions parse now fresh items d))"
proof -
  have "catalog_ok (snd (save_version_items parse now fresh (0, 0) items d))"
    using assms by (intro save_items_ok) auto
  with assms(1) show ?thesis
    by (cases "save_version_items parse now fresh (0, 0) items d")
       (auto simp: save_core_versions_def split: sum.split)
qed

lemma select_version_ok:
  assumes "versions_ok vs" and "row \<in> set vs"
  shows "versions_ok (select_version row vs)"
proof -
  have "map cv_id (select_version row vs) = map cv_id vs"
    by (simp add: select_version_def keys_tbl_update ver.keys_fold_off)
  moreover have "list_all named_core (select_version row vs)"
    using assms(1) by (auto simp: versions_ok_def select_version_def ver.fold_off list_all_iff tbl_update_def named_core_def
        split: if_split_asm)
  ultimately show ?thesis
    using assms unfolding versions_ok_def select_version_def by (auto intro: ver.one_on_exchange)
qed

lemma activate_ok:
  assumes "catalog_ok d"
  shows "catalog_ok (snd (activate_core_version now i d))"
proof (cases "tbl_find cv_id i (db_core_versions d)")
  case (Some row)
  have "catalog_ok (d\<lparr>db_core_versions := select_version row (db_core_versions d)\<rparr>)"
    using assms tbl_find_key [OF Some] by (intro versions_catalog select_version_ok) (auto simp: catalog_ok_def)
  with assms Some show ?thesis
    by (auto simp: activate_core_version_def Let_def split: sum.split intro: catalog_ok_same [OF pending_catalog(1)])
qed (simp add: activate_core_version_def assms)


section \<open>Relay rules\<close>

text \<open>All that \<open>catalog_ok\<close> looks at but the clients.\<close>

definition same_rest :: "db \<Rightarrow> db \<Rightarrow> bool" where
  "same_rest d d' \<longleftrightarrow>
     db_nodes d' = db_nodes d \<and> db_protocol_configs d' = db_protocol_configs d \<and> db_node_bindings d' = db_node_bindings d
     \<and> db_templates d' = db_templates d \<and> db_core_versions d' = db_core_versions d \<and> db_users d' = db_users d"

lemma catalog_ok_rest:
  "catalog_ok d \<Longrightarrow> same_rest d d' \<Longrightarrow> distinct (map c_id (db_clients d')) \<Longrightarrow> catalog_ok d'"
  by (simp add: catalog_ok_def same_rest_def)

lemma provision_rest:
  assumes "provision_relay_client now fresh name b d = (i, d')"
  shows "same_rest d d' \<and> db_clients d' = db_clients d @ [relay_client now fresh name]"
proof -
  have "same_rest d0 (fold (\<lambda>gb d. d\<lparr>db_client_groups := tbl_insert
      \<lparr>cg_client_id = i, cg_group_id = bg_group_id gb\<rparr> (db_client_groups d)\<rparr>) gs d0)" for d0 gs i
    by (induction gs arbitrary: d0) (simp_all add: same_rest_def)
  from this [of "d\<lparr>db_clients := tbl_insert (relay_client now fresh name) (db_clients d)\<rparr>"] assms provision_frame [OF assms]
  show ?thesis by (auto simp: provision_relay_client_def same_rest_def)
qed

lemma provision_ok:
  assumes "catalog_ok d" and "fresh 0 \<notin> c_id ` set (db_clients d)"
    and "provision_relay_client now fresh name b d = (i, d')"
  shows "catalog_ok d'"
proof (rule catalog_ok_rest [OF assms(1)])
  from provision_rest [OF assms(3)] assms(1,2) show "same_rest d d'" "distinct (map c_id (db_clients d'))"
    by (simp_all add: catalog_ok_def relay_client_def)
qed

lemma delete_relay_client_ok: "catalog_ok d \<Longrightarrow> catalog_ok (delete_relay_client i d)"
  by (simp add: catalog_ok_def delete_relay_client_def distinct_delete)

lemma rules_ok [simp]: "catalog_ok (d\<lparr>db_relay_rules := rs\<rparr>) = catalog_ok d"
  by (simp add: catalog_ok_def)

lemma relay_handlers_ok:
  assumes "catalog_ok d" and "fresh 0 \<notin> c_id ` set (db_clients d)"
  shows "catalog_ok (snd (create_relay_rule now fresh cp d))" "catalog_ok (snd (update_relay_rule now fresh i up d))"
proof -
  note mark = catalog_ok_same [OF pending_catalog(2)]
  have "catalog_ok d'" if "provision_relay_client now fresh name b d = (k, d')" for name b k d'
    using provision_ok [where fresh = fresh, OF assms that] .
  then show "catalog_ok (snd (create_relay_rule now fresh cp d))"
    by (auto simp: create_relay_rule_def Let_def assms(1) split: sum.split prod.split intro!: mark)
  have "catalog_ok d'" if "reprovision now fresh up r d = (k, d')" for r k d'
  proof -
    have "fresh 0 \<notin> c_id ` set (db_clients (delete_relay_client (rr_relay_client_id r) d))"
      using assms(2) by (auto simp: delete_relay_client_def tbl_delete_def)
    with that assms(1) show ?thesis
      by (auto simp: reprovision_def Let_def split: if_splits
          intro: provision_ok [OF delete_relay_client_ok [OF assms(1)]])
  qed
  then show "catalog_ok (snd (update_relay_rule now fresh i up d))"
    by (auto simp: update_relay_rule_def Let_def assms(1) split: option.split sum.split prod.split intro!: mark)
qed

lemma delete_relay_rule_ok: "catalog_ok d \<Longrightarrow> catalog_ok (snd (delete_relay_rule now i d))"
  by (auto simp: delete_relay_rule_def Let_def split: option.split
      intro!: catalog_ok_same [OF pending_catalog(2)] delete_relay_client_ok)

section \<open>Sequences of requests\<close>

text \<open>One request to a handler of the catalogue; the ids a handler draws are new to its table.\<close>

inductive catalog_step :: "crates \<Rightarrow> calendar \<Rightarrow> db \<Rightarrow> db \<Rightarrow> bool" for x cal where
  client_create: "fresh 0 \<notin> c_id ` set (db_clients d) \<Longrightarrow> catalog_step x cal d (snd (create_client now fresh cp d))"
| client_update: "catalog_step x cal d (snd (update_client_route now i cu d))"
| client_delete: "catalog_step x cal d (snd (delete_client i d))"
| client_reset: "catalog_step x cal d (snd (reset_client_traffic tj now i d))"
| group_create: "catalog_step x cal d (snd (create_group tj now i gp d))"
| group_update: "catalog_step x cal d (snd (update_group tj now i gu d))"
| group_delete: "catalog_step x cal d (snd (delete_group i d))"
| host_create: "catalog_step x cal d (snd (create_host tj now i hp d))"
| host_update: "catalog_step x cal d (snd (update_host tj now i hu d))"
| host_delete: "catalog_step x cal d (snd (delete_host i d))"
| config_create: "i \<notin> pc_id ` set (db_protocol_configs d) \<Longrightarrow> catalog_step x cal d (snd (create_config i fp d))"
| config_update: "catalog_step x cal d (snd (update_config now i fu d))"
| config_delete: "catalog_step x cal d (snd (delete_config now i d))"
| preset_apply: "i \<notin> pc_id ` set (db_protocol_configs d) \<Longrightarrow>
    catalog_step x cal d (snd (apply_preset sid i preset name domain port d))"
| binding_create: "i \<notin> nb_id ` set (db_node_bindings d) \<Longrightarrow> catalog_step x cal d (snd (create_binding x i bp d))"
| binding_update: "catalog_step x cal d (snd (update_binding x i bu d))"
| binding_delete: "catalog_step x cal d (snd (delete_binding i d))"
| node_create: "i \<notin> n_id ` set (db_nodes d) \<Longrightarrow> catalog_step x cal d (snd (create_node now raw hash i np d))"
| node_update: "catalog_step x cal d (snd (update_node_route tj fj now i nu d))"
| node_delete: "catalog_step x cal d (snd (delete_node i d))"
| node_token: "catalog_step x cal d (snd (node_install_command hc now version raw hash i r d))"
| template_create: "s \<notin> sp_id ` set (db_templates d) \<Longrightarrow> catalog_step x cal d (snd (create_template tj now s tp d))"
| template_update: "catalog_step x cal d (snd (update_template tj now s tu d))"
| template_delete: "catalog_step x cal d (snd (delete_template s d))"
| subscription_create: "catalog_step x cal d (snd (create_subscription now i token c gs d))"
| subscription_update: "catalog_step x cal d (snd (update_subscription cal tj parse i active expiry d))"
| subscription_delete: "catalog_step x cal d (snd (delete_subscription i d))"
| version_save: "inj fresh \<Longrightarrow> range fresh \<inter> cv_id ` set (db_core_versions d) = {} \<Longrightarrow>
    catalog_step x cal d (snd (save_core_versions parse now fresh items d))"
| version_activate: "catalog_step x cal d (snd (activate_core_version now i d))"
| version_delete: "catalog_step x cal d (snd (delete_core_version i d))"
| certificate_delete: "catalog_step x cal d (snd (delete_certificate i d))"
| user_create: "catalog_step x cal d (snd (create_user now hash i auth username password role d))"
| webhook_create: "catalog_step x cal d (snd (create_webhook tj now i wp d))"
| webhook_update: "catalog_step x cal d (snd (update_webhook tj now i wu d))"
| webhook_delete: "catalog_step x cal d (snd (delete_webhook i d))"
| rule_create: "fresh 0 \<notin> c_id ` set (db_clients d) \<Longrightarrow> catalog_step x cal d (snd (create_relay_rule now fresh rp d))"
| rule_update: "fresh 0 \<notin> c_id ` set (db_clients d) \<Longrightarrow> catalog_step x cal d (snd (update_relay_rule now fresh i ru d))"
| rule_delete: "catalog_step x cal d (snd (delete_relay_rule now i d))"

lemma catalog_step_ok:
  assumes "catalog_step x cal d d'" and "catalog_ok d"
  shows "catalog_ok d'"
  using assms
  by (induction rule: catalog_step.induct)
     (simp_all add: frame_handlers [THEN catalog_ok_same] create_client_ok create_node_ok delete_rows_ok create_user_ok
       create_config_ok update_config_ok delete_config_ok apply_preset_ok create_binding_ok update_binding_ok
       create_template_ok update_template_ok save_versions_ok activate_ok relay_handlers_ok delete_relay_rule_ok)

abbreviation catalog_run :: "crates \<Rightarrow> calendar \<Rightarrow> db \<Rightarrow> db \<Rightarrow> bool" where
  "catalog_run x cal \<equiv> (catalog_step x cal)\<^sup>*\<^sup>*"

lemma catalog_run_ok: "catalog_run x cal d d' \<Longrightarrow> catalog_ok d \<Longrightarrow> catalog_ok d'"
  by (induction rule: rtranclp_induct) (blast intro: catalog_step_ok)+


section \<open>Properties\<close>

text \<open>
  C20: Whatever requests the hub serves, in whatever order, the catalogue stays well formed: keys are
  unique, every protocol configuration has a known protocol that its core supports, every binding has
  its configuration and no second one has its pair, at most one template of a format is enabled and at
  most one version of a core is active.
\<close>

theorem catalog_invariant:
  assumes "catalog_run x cal d d'" and "catalog_ok d"
  shows "catalog_ok d'"
  using assms by (rule catalog_run_ok)

text \<open>The tables as the migrations leave them: a built-in template for two formats.\<close>

definition builtin_template :: "string \<Rightarrow> string \<Rightarrow> subscription_template" where
  "builtin_template i f = \<lparr>sp_id = i, sp_name = ''Builtin'', sp_format = f, sp_base_config = Some [], sp_filter_rules = None,
     sp_custom_headers = None, sp_is_builtin = True, sp_is_enabled = True, sp_created_at = 0, sp_updated_at = 0\<rparr>"

definition seeded_db :: db where
  "seeded_db = empty_db\<lparr>db_templates := [builtin_template ''t1'' ''sing-box'', builtin_template ''t2'' ''clash'']\<rparr>"

lemma seeded_ok: "catalog_ok seeded_db"
  by (simp add: catalog_ok_def seeded_db_def empty_db_def configs_ok_def bindings_ok_def templates_ok_def
      versions_ok_def one_on_def builtin_template_def)

text \<open>A preset is applied, and a template of one's own replaces the built-in one.\<close>

definition clash_payload :: create_template_payload where
  "clash_payload = \<lparr>ctp_name = ''mine'', ctp_format = Some ''clash'', ctp_base_config = None, ctp_filter_rules = None,
     ctp_custom_headers = None\<rparr>"

definition demo_run_db :: db where
  "demo_run_db = snd (create_template (\<lambda>_. JNull) 7 ''t3'' clash_payload
     (snd (apply_preset ''ab'' ''p'' ''hysteria2'' ''hy'' None None seeded_db)))"

lemma demo_run: "catalog_run x cal seeded_db demo_run_db"
proof -
  let ?d = "snd (apply_preset ''ab'' ''p'' ''hysteria2'' ''hy'' None None seeded_db)"
  have "catalog_step x cal seeded_db ?d"
    by (rule preset_apply) (simp add: seeded_db_def empty_db_def)
  moreover have "db_templates ?d = db_templates seeded_db"
    by (simp add: apply_preset_def Let_def split: option.split)
  then have "catalog_step x cal ?d demo_run_db"
    unfolding demo_run_db_def
    by (intro template_create) (simp add: seeded_db_def builtin_template_def)
  ultimately show ?thesis by (meson converse_rtranclp_into_rtranclp r_into_rtranclp)
qed

lemma demo_names [simp]: "trim ''mine'' = ''mine''" "trim ''hy'' = ''hy''"
  by code_simp+

theorem catalog_invariant_witness:
  "catalog_ok demo_run_db \<and> map sp_is_enabled (db_templates demo_run_db) = [True, False, True]
   \<and> length (db_protocol_configs demo_run_db) = 1"
proof -
  have "db_templates demo_run_db = db_templates (enforce_unique_enabled_template 7 ''t3'' ''clash'' True
      (seeded_db\<lparr>db_templates := db_templates seeded_db @ [\<lparr>sp_id = ''t3'', sp_name = ''mine'', sp_format = ''clash'',
        sp_base_config = None, sp_filter_rules = None, sp_custom_headers = None, sp_is_builtin = False,
        sp_is_enabled = True, sp_created_at = 7, sp_updated_at = 7\<rparr>]\<rparr>))"
    by (simp add: demo_run_db_def create_template_def clash_payload_def apply_preset_def unwrap_or_def Let_def tbl_insert_def enforce_unique_enabled_template_def
        preset_from_str_def)
  then have "map sp_is_enabled (db_templates demo_run_db) = [True, False, True]"
    by (simp add: enforce_unique_enabled_template_def seeded_db_def builtin_template_def tbl_update_def)
  moreover have "length (db_protocol_configs demo_run_db) = 1"
    by (simp add: demo_run_db_def create_template_def clash_payload_def apply_preset_def Let_def tbl_insert_def enforce_unique_enabled_template_def
        preset_from_str_def seeded_db_def empty_db_def)
  ultimately show ?thesis
    using catalog_invariant [OF demo_run seeded_ok] by simp
qed


text \<open>The certificate of node n1 is deleted while its binding names it.\<close>

definition cert_tls :: json where
  "cert_tls = jobj [(''cert_id'', JStr ''k'')]"

definition cert_db :: db where
  "cert_db = empty_db\<lparr>
     db_nodes := [mk_node ''n1''], db_protocol_configs := [mk_config ''p'' Hysteria2 SingBox (jobj [])],
     db_node_bindings := [(mk_binding ''b'' ''n1'' ''p'')\<lparr>nb_override_settings := Some (jobj [(''tls_settings'', cert_tls)])\<rparr>],
     db_certificates := [new_cert 0 ''k'' ''n1'' ''a.b'' ''http-01'']\<rparr>"

lemma cert_db_ok: "catalog_ok cert_db"
  using config_ok_pair [of SingBox Hysteria2]
  by (simp add: catalog_ok_def cert_db_def empty_db_def configs_ok_def bindings_ok_def templates_ok_def
      versions_ok_def one_on_def mk_config_def mk_binding_def config_ok_def)


end
