(* ===== verification/CatalogRules.thy ===== *)
theory CatalogRules
  imports CatalogReach
begin

text \<open>
  What single catalogue requests do to the configurations of the nodes: presets, active versions,
  updates of a protocol configuration, the groups of a client, the reset of its counter, and the
  built-in templates.
\<close>

section \<open>The recommended preset\<close>

lemma jget_binding_other:
  assumes "is_obj (pc_settings cfg)" and "k \<notin> {''tag'', ''port'', ''listen'', ''clients''}"
  shows "jget (binding_settings d b cfg) k = jget (merge_overrides (nb_override_settings b) (pc_settings cfg)) k"
  using assms by (simp add: binding_settings_def Let_def inject_eq)

lemma binding_without_keys_blocks:
  assumes "b \<in> set (active_bindings d node)"
    and "tbl_find pc_id (nb_protocol_config_id b) (db_protocol_configs d) = Some cfg"
    and "pc_protocol_type cfg = ''vless_reality''" and "pc_core_type cfg = ''sing-box''"
    and "\<not> reality_keys (binding_settings d b cfg)"
  shows "\<not> is_ok (generate_node_config x env d node SingBox)"
proof
  assume "is_ok (generate_node_config x env d node SingBox)"
  then obtain cfg' v where "generate_node_config x env d node SingBox = Inr (cfg', v)" by (auto simp: is_ok_iff)
  then obtain "is" base where ins: "node_inbounds x d node SingBox (active_bindings d node) = Inr is"
    and base: "sb_build_full_config env is = Inr base"
    by (auto elim!: generate_Inr)
  from node_inbounds_all [OF ins assms(1,2)] assms(4)
  obtain i where i: "i \<in> set is" "inbound_for x d node b cfg i" by (auto simp: parse_core_type_def)
  from i(2) assms(3,5) have "ic_protocol i = VlessReality" "\<not> reality_keys (ic_settings i)"
    by (auto simp: inbound_for_def parse_protocol_type_def)
  moreover from base have "is_ok (sb_inbounds is)"
    using sb_full_ok [of env "is"] by (simp add: is_ok_iff)
  ultimately show False
    using i(1) sb_skippable_iff by (auto simp: sb.loop_ok_iff)
qed

definition reality_settings :: "string \<Rightarrow> string \<Rightarrow> json" where
  "reality_settings sid sni =
     jobj [(''clients'', JArr []), (''decryption'', JStr ''none''), (''flow'', JStr ''xtls-rprx-vision''),
           (''network'', JStr ''tcp''), (''reality_dest'', JStr (sni @ '':443'')),
           (''reality_server_names'', JStr sni), (''reality_private_key'', JStr []),
           (''reality_short_id'', JStr sid), (''fingerprint'', JStr ''chrome'')]"

lemma reality_preset_row:
  "pc_settings (preset_config i name (expand_preset sid PresetVlessReality name' domain port))
     = reality_settings sid (unwrap_or domain ''example.com'')"
  "pc_protocol_type (preset_config i name (expand_preset sid PresetVlessReality name' domain port)) = ''vless_reality''"
  "pc_core_type (preset_config i name (expand_preset sid PresetVlessReality name' domain port)) = ''sing-box''"
  by (simp_all add: preset_config_def expand_preset_def preset_parts_def reality_settings_def jidx_def
      unwrap_or_def get_str_def)

lemma create_binding_Inr:
  assumes "create_binding x k p d = (Inr j, d')"
  shows "d' = d\<lparr>db_node_bindings := db_node_bindings d @ [\<lparr>nb_id = k, nb_node_id = cbp_node_id p,
      nb_protocol_config_id = cbp_protocol_config_id p, nb_override_settings = cbp_override_settings p,
      nb_is_active = unwrap_or (cbp_is_active p) True\<rparr>]\<rparr>"
  using assms by (auto simp: create_binding_def Let_def tbl_insert_def split: sum.splits if_splits)

text \<open>
  The recommended preset is created with an empty REALITY private key: once it is bound to a node
  as it is, every sing-box configuration of that node fails, whatever else the node has.
\<close>

theorem recommended_preset_blocks_node:
  assumes "apply_preset sid i ''vless_reality'' name domain port d = (Inr j, d1)"
    and "i \<notin> pc_id ` set (db_protocol_configs d)"
    and "create_binding x k p d1 = (Inr j', d2)" and "cbp_protocol_config_id p = i"
    and "cbp_override_settings p = None" and "cbp_is_active p = None"
  shows "\<not> is_ok (generate_node_config x env d2 (cbp_node_id p) SingBox)"
proof -
  let ?c = "preset_config i name (expand_preset sid PresetVlessReality name domain port)"
  let ?b = "\<lparr>nb_id = k, nb_node_id = cbp_node_id p, nb_protocol_config_id = i, nb_override_settings = None,
      nb_is_active = True\<rparr>"
  from assms(1) have d1: "db_protocol_configs d1 = tbl_insert ?c (db_protocol_configs d)"
    by (auto simp: apply_preset_def preset_from_str_def Let_def split: if_splits)
  from create_binding_Inr [OF assms(3)] assms(4-6)
  have d2: "db_protocol_configs d2 = db_protocol_configs d1" "?b \<in> set (db_node_bindings d2)"
    by (simp_all add: unwrap_or_def)
  from assms(2) have "tbl_find pc_id i (db_protocol_configs d) = None" by (simp add: tbl_find_None)
  with tbl_find_insert [of pc_id ?c] have "tbl_find pc_id i (db_protocol_configs d2) = Some ?c"
    by (simp add: d1 d2(1))
  moreover have "\<not> reality_keys (binding_settings d2 ?b ?c)"
    by (simp add: reality_keys_def get_str_def jget_binding_other reality_preset_row merge_overrides_def
        reality_settings_def or_else_def unwrap_or_def)
  ultimately show ?thesis
    using d2(2) by (intro binding_without_keys_blocks [of ?b _ _ ?c])
      (simp_all add: active_bindings_def reality_preset_row)
qed

theorem recommended_preset_blocks_node_witness:
  "\<exists>j d1 j' d2. apply_preset ''ab'' ''p'' ''vless_reality'' ''r'' None None (empty_db\<lparr>db_nodes := [mk_node ''n1'']\<rparr>) = (Inr j, d1)
     \<and> create_binding demo_crates ''b'' \<lparr>cbp_node_id = ''n1'', cbp_protocol_config_id = ''p'',
          cbp_override_settings = None, cbp_is_active = None\<rparr> d1 = (Inr j', d2)
     \<and> \<not> is_ok (generate_node_config demo_crates (\<lambda>_. None) d2 ''n1'' SingBox)"
proof -
  let ?d = "empty_db\<lparr>db_nodes := [mk_node ''n1'']\<rparr>"
  let ?c = "preset_config ''p'' ''r'' (expand_preset ''ab'' PresetVlessReality ''r'' None None)"
  let ?p = "\<lparr>cbp_node_id = ''n1'', cbp_protocol_config_id = ''p'', cbp_override_settings = None, cbp_is_active = None\<rparr>"
  have t: "trim ''r'' = ''r''" by code_simp
  let ?d1 = "?d\<lparr>db_protocol_configs := [?c]\<rparr>"
  have a: "apply_preset ''ab'' ''p'' ''vless_reality'' ''r'' None None ?d = (Inr (config_to_json ?c), ?d1)"
    by (simp add: apply_preset_def t preset_from_str_def Let_def tbl_insert_def empty_db_def)
  have "\<exists>j' d2. create_binding demo_crates ''b'' ?p ?d1 = (Inr j', d2)"
    by (simp add: create_binding_def Let_def tbl_find_def mk_node_def rbind_def ok_or_def validate_tls_override_def
        empty_db_def)
  then obtain j' d2 where b: "create_binding demo_crates ''b'' ?p ?d1 = (Inr j', d2)" by blast
  have "\<not> is_ok (generate_node_config demo_crates (\<lambda>_. None) d2 ''n1'' SingBox)"
    using recommended_preset_blocks_node [OF a _ b] by (simp add: empty_db_def)
  with a b show ?thesis by blast
qed


section \<open>Pending markers\<close>

text \<open>\<open>mark_pending\<close> enters or replaces the marker of each of its nodes and leaves the others.\<close>

definition marker :: "tstamp \<Rightarrow> string \<Rightarrow> uuid \<times> string \<Rightarrow> pending_update" where
  "marker now u k = \<lparr>pu_node_id = fst k, pu_core_type = snd k, pu_update_type = u, pu_updated_at = now\<rparr>"

lemma marker_update:
  assumes "tbl_find pu_key k t = Some row"
  shows "tbl_find pu_key k' (tbl_update pu_key k (\<lambda>r. r\<lparr>pu_update_type := u, pu_updated_at := now\<rparr>) t)
     = (if k' = k then Some (marker now u k) else tbl_find pu_key k' t)"
proof -
  from tbl_find_key [OF assms] have "row\<lparr>pu_update_type := u, pu_updated_at := now\<rparr> = marker now u k"
    by (auto simp: marker_def pu_key_def)
  with assms show ?thesis
    by (auto simp: tbl_find_update pu_key_def [abs_def])
qed

lemma mark_pending_find:
  "tbl_find pu_key k (db_pending (mark_pending now ns core u d))
     = (if snd k = core_str core \<and> fst k \<in> set ns then Some (marker now u k) else tbl_find pu_key k (db_pending d))"
proof -
  define step where "step = (\<lambda>node t. (case tbl_find pu_key (node, core_str core) t of
           Some row \<Rightarrow> tbl_update pu_key (node, core_str core)
             (\<lambda>r. r\<lparr>pu_update_type := u, pu_updated_at := now\<rparr>) t
         | None \<Rightarrow> tbl_insert \<lparr>pu_node_id = node, pu_core_type = core_str core,
                      pu_update_type = u, pu_updated_at = now\<rparr> t))"
  have one: "tbl_find pu_key k (step n t) = (if k = (n, core_str core) then Some (marker now u k) else tbl_find pu_key k t)"
    for n t
  proof (cases "tbl_find pu_key (n, core_str core) t")
    case None
    let ?r = "\<lparr>pu_node_id = n, pu_core_type = core_str core, pu_update_type = u, pu_updated_at = now\<rparr>"
    from None have "tbl_find pu_key (pu_key ?r) t = None" by (simp add: pu_key_def)
    from tbl_find_insert [OF this, of k] None show ?thesis
      by (simp add: step_def pu_key_def marker_def)
  next
    case (Some row)
    then show ?thesis by (simp add: step_def marker_update [OF Some])
  qed
  have "tbl_find pu_key k (fold step ns t)
      = (if snd k = core_str core \<and> fst k \<in> set ns then Some (marker now u k) else tbl_find pu_key k t)" for t
    by (induction ns arbitrary: t) (auto simp: one prod_eq_iff)
  then show ?thesis by (simp add: mark_pending_def step_def)
qed

section \<open>Updating a protocol configuration\<close>

lemma update_config_Inr:
  assumes "update_config now i p d = (Inr j, d')"
  obtains c where "tbl_find pc_id i (db_protocol_configs d) = Some c"
    and "d' = mark_pending now (nodes_using_config d i)
           (unwrap_or (ok_of (core_from_str (pc_core_type (update_config_row p c)))) SingBox) UPDATE_TYPE_CONFIG
           (d\<lparr>db_protocol_configs := tbl_update pc_id i (update_config_row p) (db_protocol_configs d)\<rparr>)"
  using assms by (auto simp: update_config_def Let_def nodes_using_config_def split: option.splits sum.splits)

text \<open>
  An update of a protocol configuration marks exactly the nodes with an active binding of it, for
  the core it has afterwards; the markers of all other nodes, and those of the core it had before, stay
  as they were.
\<close>

theorem update_config_marks:
  assumes "update_config now i p d = (Inr j, d')" and "tbl_find pc_id i (db_protocol_configs d') = Some c"
    and "core_from_str (pc_core_type c) = Inr core"
  shows "tbl_find pu_key k (db_pending d')
    = (if snd k = core_str core \<and> fst k \<in> set (nodes_using_config d i) then Some (marker now ''config'' k)
       else tbl_find pu_key k (db_pending d))"
proof -
  obtain c0 where c0: "tbl_find pc_id i (db_protocol_configs d) = Some c0"
    and d': "d' = mark_pending now (nodes_using_config d i)
           (unwrap_or (ok_of (core_from_str (pc_core_type (update_config_row p c0)))) SingBox) UPDATE_TYPE_CONFIG
           (d\<lparr>db_protocol_configs := tbl_update pc_id i (update_config_row p) (db_protocol_configs d)\<rparr>)"
    using assms(1) by (rule update_config_Inr)
  have "db_protocol_configs d' = tbl_update pc_id i (update_config_row p) (db_protocol_configs d)"
    by (simp add: d' mark_pending_def)
  with c0 assms(2) have "c = update_config_row p c0"
    by (simp add: tbl_find_update update_config_row_def)
  with assms(3) d' have "d' = mark_pending now (nodes_using_config d i) core UPDATE_TYPE_CONFIG
      (d\<lparr>db_protocol_configs := tbl_update pc_id i (update_config_row p) (db_protocol_configs d)\<rparr>)"
    by (simp add: unwrap_or_def)
  then show ?thesis by (simp add: mark_pending_find UPDATE_TYPE_CONFIG_def)
qed

text \<open>A mihomo configuration becomes one of sing-box: the mihomo core of its node is not marked.\<close>

definition moved_db :: db where
  "moved_db = empty_db\<lparr>db_protocol_configs := [mk_config ''p'' VlessReality Mihomo (jobj [])],
     db_node_bindings := [mk_binding ''b'' ''n1'' ''p'']\<rparr>"

definition to_singbox :: update_config_payload where
  "to_singbox = \<lparr>ufp_name = None, ufp_protocol_type = None, ufp_core_type = Some ''sing-box'', ufp_listen_port = None,
     ufp_listen_address = None, ufp_settings = None, ufp_tls_settings = None\<rparr>"

lemma moved_update: "\<exists>j d'. update_config 5 ''p'' to_singbox moved_db = (Inr j, d')
   \<and> tbl_find pc_id ''p'' (db_protocol_configs d') = Some (mk_config ''p'' VlessReality SingBox (jobj []))"
  using config_ok_pair [of SingBox VlessReality]
  by (auto simp: update_config_def moved_db_def to_singbox_def tbl_find_def mk_config_def is_ok_iff Let_def
      mark_pending_def tbl_update_def update_config_row_def unwrap_or_def)

theorem update_config_marks_witness:
  "\<exists>j d'. update_config 5 ''p'' to_singbox moved_db = (Inr j, d')
     \<and> tbl_find pu_key (''n1'', ''sing-box'') (db_pending d') \<noteq> None
     \<and> tbl_find pu_key (''n1'', ''mihomo'') (db_pending d') = None"
proof -
  obtain j d' where u: "update_config 5 ''p'' to_singbox moved_db = (Inr j, d')"
    "tbl_find pc_id ''p'' (db_protocol_configs d') = Some (mk_config ''p'' VlessReality SingBox (jobj []))"
    using moved_update by blast
  have c: "core_from_str (pc_core_type (mk_config ''p'' VlessReality SingBox (jobj []))) = Inr SingBox"
    by (simp add: mk_config_def core_from_str_def)
  have "set (nodes_using_config moved_db ''p'') = {''n1''}"
    by (simp add: nodes_using_config_def moved_db_def mk_binding_def)
  with u update_config_marks [OF u c, of "(''n1'', ''sing-box'')"] update_config_marks [OF u c, of "(''n1'', ''mihomo'')"]
  show ?thesis by (simp add: moved_db_def empty_db_def tbl_find_def)
qed


text \<open>
  An update of a hysteria2 or anytls configuration that does not repeat its TLS settings, a new
  name for instance, takes its inbounds away: no inbound of any generated sing-box configuration comes
  from a binding of it any more, unless the binding has TLS settings of its own.
\<close>

theorem update_without_tls_closes:
  assumes "update_config now i p d = (Inr j, d')" and "ufp_tls_settings p = None"
    and "tbl_find pc_id i (db_protocol_configs d') = Some c" and "pc_protocol_type c \<in> {''hysteria2'', ''anytls''}"
    and "generate_node_config x env d' node SingBox = Inr (cfg, ver)" and "v \<in> set (arr_of cfg ''inbounds'')"
  shows "\<exists>b \<in> set (active_bindings d' node). \<exists>pc. \<exists>ic :: inbound_config.
      tbl_find pc_id (nb_protocol_config_id b) (db_protocol_configs d') = Some pc
      \<and> sb_build_inbound (ic_protocol ic) (binding_settings d' b pc) (ic_tls ic) = Inr v
      \<and> (nb_protocol_config_id b = i \<longrightarrow> override_of b ''tls_settings'' \<noteq> None)"
proof -
  obtain c0 where c0: "tbl_find pc_id i (db_protocol_configs d) = Some c0"
    and d': "db_protocol_configs d' = tbl_update pc_id i (update_config_row p) (db_protocol_configs d)"
    using assms(1) by (rule update_config_Inr) (auto simp: mark_pending_def)
  with assms(2,3) have tls: "pc_tls_settings c = None"
    by (auto simp: tbl_find_update update_config_row_def)
  obtain b pc ic where b: "b \<in> set (active_bindings d' node)"
      "tbl_find pc_id (nb_protocol_config_id b) (db_protocol_configs d') = Some pc" "inbound_for x d' node b pc ic"
      "sb_build_inbound (ic_protocol ic) (ic_settings ic) (ic_tls ic) = Inr v"
    using generated_sb_inbounds [OF assms(5,6)] by blast
  have ovr: "override_of b ''tls_settings'' \<noteq> None" if i: "nb_protocol_config_id b = i"
  proof
    assume "override_of b ''tls_settings'' = None"
    moreover from i b(2) assms(3) have "pc = c" by simp
    ultimately have "ic_tls ic = None" "ic_protocol ic = Hysteria2 \<or> ic_protocol ic = Anytls"
      using b(3) tls assms(4)
      by (auto simp: inbound_for_def merge_tls_settings_def resolve_managed_cert_tls_def parse_protocol_type_def)
    with b(4) show False
      by (auto simp: build_hysteria2_inbound_def build_anytls_inbound_def build_singbox_server_tls_def Let_def rbind_Inr_iff)
  qed
  from b(3) have "ic_settings ic = binding_settings d' b pc" by (simp add: inbound_for_def)
  with b(4) have "sb_build_inbound (ic_protocol ic) (binding_settings d' b pc) (ic_tls ic) = Inr v" by simp
  with b(1,2) ovr show ?thesis by blast
qed

text \<open>A hysteria2 configuration is renamed; one binding has a domain of its own.\<close>

definition rename :: update_config_payload where
  "rename = \<lparr>ufp_name = Some ''new'', ufp_protocol_type = None, ufp_core_type = None, ufp_listen_port = None,
     ufp_listen_address = None, ufp_settings = None, ufp_tls_settings = None\<rparr>"

definition own_tls :: node_binding where
  "own_tls = (mk_binding ''b'' ''n1'' ''h'')\<lparr>nb_override_settings :=
     Some (jobj [(''tls_settings'', jobj [(''domain'', JStr ''a.b'')])])\<rparr>"

definition hysteria_row :: "string \<Rightarrow> json option \<Rightarrow> protocol_config" where
  "hysteria_row name tls = (mk_config ''h'' Hysteria2 SingBox (jobj []))\<lparr>pc_name := name, pc_tls_settings := tls\<rparr>"

definition tls_db :: db where
  "tls_db = empty_db\<lparr>db_protocol_configs := [hysteria_row ''old'' (Some (jobj [(''domain'', JStr ''x.y'')]))],
     db_node_bindings := [own_tls]\<rparr>"

lemma renamed:
  obtains j d' where "update_config 5 ''h'' rename tls_db = (Inr j, d')"
    "db_protocol_configs d' = [hysteria_row ''new'' None]" "db_node_bindings d' = [own_tls]" "db_relay_rules d' = []"
  by (cases "update_config 5 ''h'' rename tls_db")
     (auto simp: update_config_def tls_db_def rename_def tbl_find_def hysteria_row_def mk_config_def Let_def
       mark_pending_def tbl_update_def update_config_row_def unwrap_or_def empty_db_def)

lemma own_tls_inbound:
  assumes "db_protocol_configs d = [hysteria_row n None]"
  shows "\<exists>ic. node_inbounds demo_crates d ''n1'' SingBox [own_tls] = Inr [ic] \<and> ic_protocol ic = Hysteria2
     \<and> ic_tls ic = Some (jobj [(''domain'', JStr ''a.b'')])"
  by (simp add: assms tbl_find_def hysteria_row_def mk_config_def own_tls_def mk_binding_def override_of_def
      merge_tls_settings_def resolve_managed_cert_tls_def get_str_def parse_core_type_def parse_protocol_type_def
      rbind_def ok_or_def)

lemma hysteria_generates:
  assumes "db_protocol_configs d = [hysteria_row n None]" and "db_node_bindings d = [own_tls]" and "db_relay_rules d = []"
  shows "\<exists>cfg ver v. generate_node_config demo_crates (\<lambda>_. None) d ''n1'' SingBox = Inr (cfg, ver)
     \<and> v \<in> set (arr_of cfg ''inbounds'')"
proof -
  have a: "active_bindings d ''n1'' = [own_tls]"
    by (simp add: active_bindings_def assms(2) own_tls_def mk_binding_def)
  obtain ic where ic: "node_inbounds demo_crates d ''n1'' SingBox [own_tls] = Inr [ic]" "ic_protocol ic = Hysteria2"
      "ic_tls ic = Some (jobj [(''domain'', JStr ''a.b'')])"
    using own_tls_inbound [OF assms(1)] by blast
  then have "is_ok (build_hysteria2_inbound (ic_settings ic) (ic_tls ic))"
    by (simp add: build_hysteria2_inbound_def build_singbox_server_tls_def Let_def str_or_def get_str_def is_ok_iff
        unwrap_or_def rbind_def ok_or_def)
  then obtain v where v: "build_hysteria2_inbound (ic_settings ic) (ic_tls ic) = Inr v" by (auto simp: is_ok_iff)
  have "is_ok (sb_build_full_config (\<lambda>_. None) [ic])"
    using ic(2) by (simp add: sb_full_ok sb.loop_ok_iff sb_skippable_iff del: sb_inbounds.simps)
  then obtain base where base: "sb_build_full_config (\<lambda>_. None) [ic] = Inr base" by (auto simp: is_ok_iff)
  have "node_relay_rules d ''n1'' = []" by (simp add: node_relay_rules_def assms(3))
  then have g: "generate_node_config demo_crates (\<lambda>_. None) d ''n1'' SingBox = Inr (base, effective_core_version d SingBox)"
    by (simp add: generate_node_config_def a ic base apply_relay_rules_def validate_singbox_config_def
        del: node_inbounds.simps)
  from base obtain vs where "sb_inbounds [ic] = Inr vs" "jget base ''inbounds'' = Some (JArr vs)"
    by (rule sb_full_members)
  with ic(2) v have "v \<in> set (arr_of base ''inbounds'')" by (auto simp: arr_of_def get_array_def)
  with g show ?thesis by blast
qed

theorem update_without_tls_closes_witness:
  "\<exists>j d'. update_config 5 ''h'' rename tls_db = (Inr j, d') \<and> map pc_tls_settings (db_protocol_configs d') = [None]
     \<and> map (\<lambda>b. override_of b ''tls_settings'' = None) (active_bindings d' ''n1'') = [False]
     \<and> (\<exists>v b pc. \<exists>ic :: inbound_config. sb_build_inbound (ic_protocol ic) (binding_settings d' b pc) (ic_tls ic) = Inr v)"
proof -
  obtain j d' where d': "update_config 5 ''h'' rename tls_db = (Inr j, d')"
    "db_protocol_configs d' = [hysteria_row ''new'' None]" "db_node_bindings d' = [own_tls]" "db_relay_rules d' = []"
    by (rule renamed)
  obtain cfg ver v where g: "generate_node_config demo_crates (\<lambda>_. None) d' ''n1'' SingBox = Inr (cfg, ver)"
      "v \<in> set (arr_of cfg ''inbounds'')"
    using hysteria_generates [OF d'(2-4)] by blast
  have "\<exists>b \<in> set (active_bindings d' ''n1''). \<exists>pc. \<exists>ic :: inbound_config.
      tbl_find pc_id (nb_protocol_config_id b) (db_protocol_configs d') = Some pc
      \<and> sb_build_inbound (ic_protocol ic) (binding_settings d' b pc) (ic_tls ic) = Inr v
      \<and> (nb_protocol_config_id b = ''h'' \<longrightarrow> override_of b ''tls_settings'' \<noteq> None)"
    by (rule update_without_tls_closes [OF d'(1) _ _ _ g, of "hysteria_row ''new'' None"])
       (simp_all add: d'(2) tbl_find_def hysteria_row_def mk_config_def rename_def)
  with d' show ?thesis
    by (auto simp: active_bindings_def own_tls_def mk_binding_def hysteria_row_def)
qed

end
