(* ===== verification/AccessCheck.thy ===== *)
theory AccessCheck
  imports CatalogRules
begin

text \<open>
  What requests do to access and versions: the activation of a core version, the groups of a client,
  the reset of a client's counter, and the built-in templates.
\<close>

section \<open>Activating a core version\<close>

lemma pending_versions [simp]: "db_core_versions (mark_pending now ns core u d) = db_core_versions d"
  by (simp add: mark_pending_def)

lemma select_version_rows:
  assumes "distinct (map cv_id vs)" and "row \<in> set vs"
  shows "select_version row vs
    = map (\<lambda>v. if cv_id v = cv_id row then v\<lparr>cv_is_active := True\<rparr>
               else if cv_core_type v = cv_core_type row then v\<lparr>cv_is_active := False\<rparr> else v) vs"
proof -
  have k: "cv_id v \<in> cv_id ` set (filter (\<lambda>v. cv_core_type v = cv_core_type row) vs) \<longleftrightarrow> cv_core_type v = cv_core_type row"
    if "v \<in> set vs" for v
    using that map_key_inj [OF assms(1)] by auto
  show ?thesis
    unfolding select_version_def ver.fold_off tbl_update_def map_map o_def
    by (rule map_cong [OF refl]) (use map_key_inj [OF assms(1)] in \<open>auto simp: k\<close>)
qed

lemma find_active:
  assumes "distinct (map cv_id vs)" and "row \<in> set vs"
  shows "map_option cv_version (find (\<lambda>v. cv_core_type v = c \<and> cv_is_active v) (select_version row vs))
    = (if c = cv_core_type row then Some (cv_version row)
       else map_option cv_version (find (\<lambda>v. cv_core_type v = c \<and> cv_is_active v) vs))"
proof -
  define f :: "core_version \<Rightarrow> core_version" where "f = (\<lambda>v. if cv_id v = cv_id row then v\<lparr>cv_is_active := True\<rparr>
               else if cv_core_type v = cv_core_type row then v\<lparr>cv_is_active := False\<rparr> else v)"
  have same: "v = row" if "v \<in> set vs" "cv_id v = cv_id row" for v
    using map_key_inj [OF assms(1) that(1) assms(2) that(2)] .
  have other: "find (\<lambda>v. cv_core_type v = c \<and> cv_is_active v) (map f xs) = find (\<lambda>v. cv_core_type v = c \<and> cv_is_active v) xs"
    if "c \<noteq> cv_core_type row" and "set xs \<subseteq> set vs" for xs
    using that same by (induction xs) (auto simp: f_def)
  have own: "find (\<lambda>v. cv_core_type v = cv_core_type row \<and> cv_is_active v) (map f xs) = Some (row\<lparr>cv_is_active := True\<rparr>)"
    if "row \<in> set xs" and "set xs \<subseteq> set vs" for xs
    using that
  proof (induction xs)
    case (Cons v xs)
    show ?case
    proof (cases "v = row")
      case False
      with Cons.prems same [of v] have "cv_id v \<noteq> cv_id row" "row \<in> set xs" by auto
      with Cons show ?thesis by (auto simp: f_def)
    qed (simp add: f_def)
  qed simp
  show ?thesis
    unfolding select_version_rows [OF assms] f_def [symmetric]
    using other [of vs] own [OF assms(2)] by auto
qed

text \<open>
  Activating a core version in a reachable state makes it the version of that core in every
  configuration from then on, leaves the other core's version, and marks every node with a binding
  for the core.
\<close>

theorem activation_takes_effect:
  assumes "catalog_run x cal d0 d" and "catalog_ok d0"
    and "tbl_find cv_id i (db_core_versions d) = Some row" and "activate_core_version now i d = (Inr j, d')"
  shows "\<exists>core. cv_core_type row = core_str core \<and> effective_core_version d' core = Some (cv_version row)
      \<and> (\<forall>core'. core' \<noteq> core \<longrightarrow> effective_core_version d' core' = effective_core_version d core')
      \<and> (\<forall>n \<in> set (nodes_with_bindings d core).
           tbl_find pu_key (n, core_str core) (db_pending d') = Some (marker now ''core'' (n, core_str core)))"
proof -
  have v: "versions_ok (db_core_versions d)"
    using catalog_run_ok [OF assms(1,2)] by (simp add: catalog_ok_def)
  from tbl_find_key [OF assms(3)] have row: "row \<in> set (db_core_versions d)" by simp
  with v have "cv_core_type row = core_str SingBox \<or> cv_core_type row = core_str Mihomo"
    by (auto simp: versions_ok_def list_all_iff named_core_def)
  then obtain core where core: "cv_core_type row = core_str core" by blast
  let ?d = "d\<lparr>db_core_versions := select_version row (db_core_versions d)\<rparr>"
  have "d' = mark_pending now (nodes_with_bindings ?d core) core UPDATE_TYPE_CORE ?d"
    using assms(3,4) core by (auto simp: activate_core_version_def core_roundtrip Let_def)
  moreover have "nodes_with_bindings ?d core = nodes_with_bindings d core"
    by (simp add: nodes_with_bindings_def)
  ultimately have d': "d' = mark_pending now (nodes_with_bindings d core) core UPDATE_TYPE_CORE ?d" by simp
  have find: "map_option cv_version (find (\<lambda>v. cv_core_type v = c \<and> cv_is_active v) (db_core_versions d'))
      = (if c = cv_core_type row then Some (cv_version row)
         else map_option cv_version (find (\<lambda>v. cv_core_type v = c \<and> cv_is_active v) (db_core_versions d)))" for c
    using find_active [OF _ row] v by (simp add: d' versions_ok_def)
  have inj: "core_str core' = core_str core \<longleftrightarrow> core' = core" for core'
    by (cases core; cases core') simp_all
  from core find have "effective_core_version d' core = Some (cv_version row)"
    by (simp add: effective_core_version_def or_else_def)
  moreover have "effective_core_version d' core' = effective_core_version d core'" if "core' \<noteq> core" for core'
    using that core find by (simp add: effective_core_version_def inj)
  ultimately show ?thesis
    using core by (auto simp: d' mark_pending_find UPDATE_TYPE_CORE_def)
qed

definition version_row :: "uuid \<Rightarrow> string \<Rightarrow> bool \<Rightarrow> core_version" where
  "version_row i v active = \<lparr>cv_id = i, cv_core_type = ''sing-box'', cv_version = v, cv_channel = ''release'',
     cv_published_at = None, cv_commit_sha = None, cv_is_active = active, cv_created_at = 0\<rparr>"

definition version_db :: db where
  "version_db = demo_db\<lparr>db_core_versions := [version_row ''v1'' ''v1.13.0'' True, version_row ''v2'' ''v1.14.1'' False]\<rparr>"

lemma version_db_ok: "catalog_ok version_db"
  using config_ok_pair [of SingBox VlessReality]
  by (simp add: catalog_ok_def version_db_def demo_db_def empty_db_def configs_ok_def bindings_ok_def templates_ok_def
      versions_ok_def one_on_def mk_config_def mk_binding_def config_ok_def version_row_def named_core_def mk_client_def
      mk_node_def)

theorem activation_takes_effect_witness:
  "\<exists>j d'. activate_core_version 5 ''v2'' version_db = (Inr j, d') \<and> effective_core_version d' SingBox = Some ''v1.14.1''
     \<and> tbl_find pu_key (''n1'', ''sing-box'') (db_pending d') = Some (marker 5 ''core'' (''n1'', ''sing-box''))"
proof -
  have f: "tbl_find cv_id ''v2'' (db_core_versions version_db) = Some (version_row ''v2'' ''v1.14.1'' False)"
    by (simp add: version_db_def tbl_find_def version_row_def)
  obtain j d' where a: "activate_core_version 5 ''v2'' version_db = (Inr j, d')"
    using f by (simp add: activate_core_version_def version_row_def core_from_str_def Let_def)
  have n: "''n1'' \<in> set (nodes_with_bindings version_db SingBox)"
    by (simp add: nodes_with_bindings_def version_db_def demo_db_def mk_binding_def mk_config_def tbl_find_def)
  obtain core where "''sing-box'' = core_str core" "effective_core_version d' core = Some ''v1.14.1''"
      "\<forall>n \<in> set (nodes_with_bindings version_db core).
         tbl_find pu_key (n, core_str core) (db_pending d') = Some (marker 5 ''core'' (n, core_str core))"
    using activation_takes_effect [OF rtranclp.rtrancl_refl version_db_ok f a] by (auto simp: version_row_def)
  with a n show ?thesis by (cases core) auto
qed


section \<open>The groups of a client\<close>

lemma sync_groups_rows:
  "db_client_groups (sync_client_groups i gs d)
     = filter (\<lambda>l. cg_client_id l \<noteq> i) (db_client_groups d) @ map (\<lambda>g. \<lparr>cg_client_id = i, cg_group_id = g\<rparr>) gs"
proof -
  have "fold (\<lambda>g. tbl_insert \<lparr>cg_client_id = i, cg_group_id = g\<rparr>) gs t
      = t @ map (\<lambda>g. \<lparr>cg_client_id = i, cg_group_id = g\<rparr>) gs" for t
    by (induction gs arbitrary: t) (simp_all add: tbl_insert_def)
  then show ?thesis by (simp add: sync_client_groups_def tbl_delete_def)
qed

text \<open>The links of a binding, by what they say.\<close>

lemma linked_iff:
  "k \<in> set (linked_clients d b) \<longleftrightarrow>
   (\<exists>g. \<lparr>bg_node_binding_id = nb_id b, bg_group_id = g\<rparr> \<in> set (db_binding_groups d)
       \<and> \<lparr>cg_client_id = k, cg_group_id = g\<rparr> \<in> set (db_client_groups d))"
proof
  assume "k \<in> set (linked_clients d b)"
  then obtain l r where "l \<in> set (db_client_groups d)" "r \<in> set (db_binding_groups d)"
      "bg_node_binding_id r = nb_id b" "bg_group_id r = cg_group_id l" "k = cg_client_id l"
    by (auto simp: linked_clients_def)
  then show "\<exists>g. \<lparr>bg_node_binding_id = nb_id b, bg_group_id = g\<rparr> \<in> set (db_binding_groups d)
       \<and> \<lparr>cg_client_id = k, cg_group_id = g\<rparr> \<in> set (db_client_groups d)"
    by (intro exI [of _ "cg_group_id l"]) (cases l, cases r, auto)
next
  assume "\<exists>g. \<lparr>bg_node_binding_id = nb_id b, bg_group_id = g\<rparr> \<in> set (db_binding_groups d)
       \<and> \<lparr>cg_client_id = k, cg_group_id = g\<rparr> \<in> set (db_client_groups d)"
  then show "k \<in> set (linked_clients d b)"
    by (force simp: linked_clients_def)
qed

lemma update_client_Inr:
  assumes "update_client_route now i p d = (Inr j, d')"
  obtains c where "tbl_find c_id i (db_clients d) = Some c"
    and "d' = (case ucp_group_ids p of
           Some gs \<Rightarrow> sync_client_groups i gs (d\<lparr>db_clients := tbl_update c_id i (update_client_row now p) (db_clients d)\<rparr>)
         | None \<Rightarrow> d\<lparr>db_clients := tbl_update c_id i (update_client_row now p) (db_clients d)\<rparr>)"
  using assms by (auto simp: update_client_route_def Let_def split: option.splits if_splits)

text \<open>
  The groups of a client's update decide its access: afterwards a node's binding authorises the
  client exactly when it has one of the groups and the client is active, every other client is
  authorised as before, and the client's subscription sees the same groups.
\<close>

theorem client_groups_decide_access:
  assumes "update_client_route now i p d = (Inr j, d')" and "ucp_group_ids p = Some gs"
    and "tbl_find c_id i (db_clients d') = Some c"
  shows "(c \<in> set (authorized d' b) \<longleftrightarrow> c_status c = ''active''
           \<and> (\<exists>g \<in> set gs. \<lparr>bg_node_binding_id = nb_id b, bg_group_id = g\<rparr> \<in> set (db_binding_groups d)))
    \<and> (\<forall>k. c_id k \<noteq> i \<longrightarrow> (k \<in> set (authorized d' b) \<longleftrightarrow> k \<in> set (authorized d b)))
    \<and> client_group_ids d' i = gs"
proof (intro conjI allI impI)
  let ?cs = "tbl_update c_id i (update_client_row now p) (db_clients d)"
  have d': "d' = sync_client_groups i gs (d\<lparr>db_clients := ?cs\<rparr>)"
    using assms(1) by (rule update_client_Inr) (simp add: assms(2))
  have rows: "db_client_groups d' = filter (\<lambda>l. cg_client_id l \<noteq> i) (db_client_groups d)
      @ map (\<lambda>g. \<lparr>cg_client_id = i, cg_group_id = g\<rparr>) gs"
    by (simp add: d' sync_groups_rows)
  have same: "db_clients d' = ?cs" "db_binding_groups d' = db_binding_groups d"
    by (simp_all add: d' sync_client_groups_def)
  from tbl_find_key [OF assms(3)] have c: "c_id c = i" "c \<in> set (db_clients d')" by auto
  have own: "i \<in> set (linked_clients d' b)
      \<longleftrightarrow> (\<exists>g \<in> set gs. \<lparr>bg_node_binding_id = nb_id b, bg_group_id = g\<rparr> \<in> set (db_binding_groups d))"
    by (auto simp: linked_iff rows same)
  with c show "c \<in> set (authorized d' b) \<longleftrightarrow> c_status c = ''active''
           \<and> (\<exists>g \<in> set gs. \<lparr>bg_node_binding_id = nb_id b, bg_group_id = g\<rparr> \<in> set (db_binding_groups d))"
    by (auto simp: authorized_def)
  have other: "k \<in> set ?cs \<longleftrightarrow> k \<in> set (db_clients d)" if "c_id k \<noteq> i" for k
    using that by (auto simp: tbl_update_def update_client_row_def image_iff)
  show "k \<in> set (authorized d' b) \<longleftrightarrow> k \<in> set (authorized d b)" if "c_id k \<noteq> i" for k
    using that by (auto simp: authorized_def linked_iff rows same other)
  show "client_group_ids d' i = gs"
    by (simp add: client_group_ids_def rows filter_map comp_def)
qed

text \<open>Client c1 loses the group of its binding, and gets it back.\<close>

definition regroup :: "uuid list \<Rightarrow> update_client_payload" where
  "regroup gs = \<lparr>ucp_name = None, ucp_email = None, ucp_traffic_limit_bytes = None, ucp_expiry_date = None,
     ucp_reset_day = None, ucp_data_limit_reset_strategy = None, ucp_max_devices = None, ucp_status = None,
     ucp_group_ids = Some gs, ucp_on_hold_expire_duration_secs = None, ucp_on_hold_timeout = None\<rparr>"

lemma regrouped:
  obtains j d' c where "update_client_route 5 ''c1'' (regroup gs) demo_db = (Inr j, d')"
    "tbl_find c_id ''c1'' (db_clients d') = Some c" "c_status c = ''active''"
  by (cases "update_client_route 5 ''c1'' (regroup gs) demo_db")
     (auto simp: update_client_route_def demo_db_def regroup_def tbl_find_def mk_client_def Let_def blank_def
       sync_client_groups_def tbl_update_def update_client_row_def unwrap_or_def)

theorem client_groups_decide_access_witness:
  "(\<exists>j d'. update_client_route 5 ''c1'' (regroup [''h'']) demo_db = (Inr j, d')
       \<and> ''c1'' \<notin> c_id ` set (authorized d' (mk_binding ''b'' ''n1'' ''p'')))
   \<and> (\<exists>j d'. update_client_route 5 ''c1'' (regroup [''g'']) demo_db = (Inr j, d')
       \<and> ''c1'' \<in> c_id ` set (authorized d' (mk_binding ''b'' ''n1'' ''p'')))"
proof -
  let ?b = "mk_binding ''b'' ''n1'' ''p''"
  have r: "ucp_group_ids (regroup gs) = Some gs" for gs by (simp add: regroup_def)
  have g: "\<lparr>bg_node_binding_id = nb_id ?b, bg_group_id = g\<rparr> \<in> set (db_binding_groups demo_db) \<longleftrightarrow> g = ''g''" for g
    by (auto simp: demo_db_def mk_binding_def)
  have "\<exists>j d'. update_client_route 5 ''c1'' (regroup gs) demo_db = (Inr j, d')
      \<and> (''c1'' \<in> c_id ` set (authorized d' ?b) \<longleftrightarrow> ''g'' \<in> set gs)" for gs
  proof -
    obtain j d' c where d': "update_client_route 5 ''c1'' (regroup gs) demo_db = (Inr j, d')"
      "tbl_find c_id ''c1'' (db_clients d') = Some c" "c_status c = ''active''" by (rule regrouped)
    from client_groups_decide_access [OF d'(1) r d'(2), of ?b] d'(3) g
    have "c \<in> set (authorized d' ?b) \<longleftrightarrow> ''g'' \<in> set gs" by auto
    moreover have same: "k = c" if "k \<in> set (db_clients d')" "c_id k = ''c1''" for k
    proof -
      have "map c_id (db_clients d') = [''c1'', ''c2'']"
      proof -
        have "map c_id (db_clients d') = map c_id (db_clients demo_db)"
          using client_updates_same(1) [of demo_db 5 "''c1''" "regroup gs"] unfolding d'(1) same_catalog_def by simp
        then show ?thesis by (simp add: demo_db_def mk_client_def)
      qed
      then have dist: "distinct (map c_id (db_clients d'))" by simp
      from tbl_find_key [OF d'(2)] have c: "c_id c = ''c1''" "c \<in> set (db_clients d')" by simp_all
      show ?thesis by (rule map_key_inj [OF dist that(1) c(2)]) (simp add: that(2) c(1))
    qed
    moreover have "''c1'' \<in> c_id ` set (authorized d' ?b) \<longleftrightarrow> c \<in> set (authorized d' ?b)"
    proof
      assume "''c1'' \<in> c_id ` set (authorized d' ?b)"
      then obtain k where k: "k \<in> set (authorized d' ?b)" "c_id k = ''c1''" by (elim imageE) simp
      then have "k \<in> set (db_clients d')" by (simp add: authorized_def)
      from same [OF this k(2)] k(1) show "c \<in> set (authorized d' ?b)" by (rule subst)
    next
      assume "c \<in> set (authorized d' ?b)"
      then have "c_id c \<in> c_id ` set (authorized d' ?b)" by (rule imageI)
      then show "''c1'' \<in> c_id ` set (authorized d' ?b)" using tbl_find_key [OF d'(2)] by simp
    qed
    ultimately show ?thesis using d'(1) by blast
  qed
  from this [of "[''h'']"] this [of "[''g'']"] show ?thesis by simp
qed

section \<open>Resetting a client's counter\<close>

text \<open>
  A reset of a client's traffic by hand loses it: the counter of the period goes to zero, but the
  all-time counter does not grow by it, as the scheduled reset makes it do, and a client that was
  stopped for its limit stays stopped.
\<close>

theorem manual_reset_loses_traffic:
  assumes "reset_client_traffic tj now i d = (Inr j, d')" and "tbl_find c_id i (db_clients d) = Some c"
  shows "\<exists>c'. tbl_find c_id i (db_clients d') = Some c' \<and> c_traffic_used_bytes c' = 0
      \<and> c_all_time_used_bytes c' = c_all_time_used_bytes c \<and> c_status c' = c_status c
      \<and> c_all_time_used_bytes (reset_row now c c) = wrap64 (c_all_time_used_bytes c + c_traffic_used_bytes c)
      \<and> c_status (reset_row now c c) = (if c_status c = ''limited'' then ''active'' else c_status c)"
  using assms by (auto simp: reset_client_traffic_def tbl_find_update reset_row_def Let_def)

definition limited_client :: client where
  "limited_client = (mk_client ''c1'' ''limited'')\<lparr>c_traffic_used_bytes := 7, c_all_time_used_bytes := 30\<rparr>"

theorem manual_reset_loses_traffic_witness:
  "\<exists>j d' c'. reset_client_traffic (\<lambda>_. JNull) 5 ''c1'' (empty_db\<lparr>db_clients := [limited_client]\<rparr>) = (Inr j, d')
     \<and> tbl_find c_id ''c1'' (db_clients d') = Some c' \<and> c_traffic_used_bytes c' = 0 \<and> c_all_time_used_bytes c' = 30
     \<and> c_status c' = ''limited''"
proof -
  let ?d = "empty_db\<lparr>db_clients := [limited_client]\<rparr>"
  have f: "tbl_find c_id ''c1'' (db_clients ?d) = Some limited_client"
    by (simp add: tbl_find_def limited_client_def mk_client_def)
  then obtain j d' where "reset_client_traffic (\<lambda>_. JNull) 5 ''c1'' ?d = (Inr j, d')"
    by (simp add: reset_client_traffic_def)
  with manual_reset_loses_traffic [OF this f] show ?thesis by (auto simp: limited_client_def mk_client_def)
qed

end
