(* ===== verification/Machine.thy ===== *)
theory Machine
  imports AccessCheck
begin

text \<open>
  The node an agent runs on, as far as the agent's code sees it: files, processes and the network, and
  the process managers of the two cores with their PID files (pp-core: manager.rs and its modules,
  lifecycle.rs). What the operating system, the programs the agent starts and the crates it calls answer
  is the record \<open>platform\<close>.
\<close>

section \<open>Files\<close>

type_synonym path = string

text \<open>An absolute second path replaces the first.\<close>

definition join_path :: "path \<Rightarrow> path \<Rightarrow> path" where
  "join_path d n =
     (if starts_with ''/'' n then n
      else if d = [] \<or> last d = CHR ''/'' then d @ n
      else d @ ''/'' @ n)"

record stored =
  f_data :: string
  f_mode :: nat
  f_modified :: tstamp

datatype http_answer = NoAnswer string | Answer nat string | Broken nat string string

datatype spawn_outcome = SpawnFails string | Exits int "string list" | Unchecked string | Runs

text \<open>
  \<open>pf_spawn\<close> gives what becomes of a program within the half second the managers wait, from its file and
  the text of its configuration; \<open>pf_reload\<close> the outcome of the reload command, \<open>pf_version\<close> the output of
  the version command. \<open>pf_utf8\<close> tells UTF-8, \<open>pf_lossy\<close> is \<open>String::from_utf8_lossy\<close>, \<open>pf_status_text\<close> prints an HTTP status. \<open>pf_untar\<close>, \<open>pf_unzip\<close> and \<open>pf_gunzip\<close> read archives; an error stands at the entry
  that cannot be read.
\<close>

record platform =
  pf_os :: string
  pf_arch :: string
  pf_env :: "string \<Rightarrow> string option"
  pf_absolute :: "path \<Rightarrow> path option"
  pf_can_write :: "path \<Rightarrow> bool"
  pf_io_error :: string
  pf_utf8 :: "string \<Rightarrow> bool"
  pf_lossy :: "string \<Rightarrow> string"
  pf_status_text :: "nat \<Rightarrow> string"
  pf_pretty :: "json \<Rightarrow> string"
  pf_print :: "json \<Rightarrow> string"
  pf_yaml :: "json \<Rightarrow> string + string"
  pf_parse :: "string \<Rightarrow> string + json"
  pf_spawn :: "path \<Rightarrow> stored \<Rightarrow> string \<Rightarrow> spawn_outcome"
  pf_reload :: "path \<Rightarrow> string \<Rightarrow> string + bool \<times> string"
  pf_version :: "path \<Rightarrow> string + string"
  pf_http :: "nat \<Rightarrow> string \<Rightarrow> http_answer"
  pf_untar :: "string \<Rightarrow> (string + string \<times> string) list"
  pf_unzip :: "string \<Rightarrow> string + (string + string \<times> string) list"
  pf_gunzip :: "string \<Rightarrow> string + string"

text \<open>A process: its program, the configuration it was started with, its exit code when it has ended.\<close>

record process =
  pr_exe :: path
  pr_config :: string
  pr_exit :: "int option"

record machine =
  m_files :: "(path \<times> stored) list"
  m_dirs :: "path list"
  m_procs :: "(nat \<times> process) list"
  m_next_pid :: nat
  m_requests :: nat

definition file_at :: "path \<Rightarrow> machine \<Rightarrow> stored option" where
  "file_at p m = map_of (m_files m) p"

definition file_exists :: "path \<Rightarrow> machine \<Rightarrow> bool" where
  "file_exists p m = (file_at p m \<noteq> None)"

definition read_file :: "path \<Rightarrow> machine \<Rightarrow> string option" where
  "read_file p m = map_option f_data (file_at p m)"

text \<open>A file that is rewritten keeps its mode.\<close>

definition put_file :: "tstamp \<Rightarrow> path \<Rightarrow> string \<Rightarrow> machine \<Rightarrow> machine" where
  "put_file now p s m =
     m\<lparr>m_files := AList.update p
         \<lparr>f_data = s, f_mode = (case file_at p m of Some f \<Rightarrow> f_mode f | None \<Rightarrow> 420), f_modified = now\<rparr> (m_files m)\<rparr>"

definition write_file :: "platform \<Rightarrow> tstamp \<Rightarrow> path \<Rightarrow> string \<Rightarrow> machine \<Rightarrow> machine option" where
  "write_file pl now p s m = (if pf_can_write pl p then Some (put_file now p s m) else None)"

definition drop_file :: "path \<Rightarrow> machine \<Rightarrow> machine" where
  "drop_file p m = m\<lparr>m_files := AList.delete p (m_files m)\<rparr>"

definition remove_file :: "platform \<Rightarrow> path \<Rightarrow> machine \<Rightarrow> machine option" where
  "remove_file pl p m = (if file_exists p m \<and> pf_can_write pl p then Some (drop_file p m) else None)"

text \<open>\<open>let _ = remove_file(..)\<close>\<close>

definition try_remove :: "platform \<Rightarrow> path \<Rightarrow> machine \<Rightarrow> machine" where
  "try_remove pl p m = unwrap_or (remove_file pl p m) m"

definition rename_file :: "platform \<Rightarrow> path \<Rightarrow> path \<Rightarrow> machine \<Rightarrow> machine option" where
  "rename_file pl p q m =
     (case file_at p m of
        None \<Rightarrow> None
      | Some f \<Rightarrow>
          if pf_can_write pl p \<and> pf_can_write pl q
          then Some (m\<lparr>m_files := AList.update q f (AList.delete p (m_files m))\<rparr>) else None)"

definition set_mode :: "platform \<Rightarrow> (nat \<Rightarrow> nat) \<Rightarrow> path \<Rightarrow> machine \<Rightarrow> machine option" where
  "set_mode pl f p m =
     (case file_at p m of
        None \<Rightarrow> None
      | Some x \<Rightarrow>
          if pf_can_write pl p then Some (m\<lparr>m_files := AList.update p (x\<lparr>f_mode := f (f_mode x)\<rparr>) (m_files m)\<rparr>)
          else None)"

section \<open>Processes\<close>

text \<open>\<open>is_process_alive\<close>, \<open>process_exe_path\<close> and \<open>kill_process\<close> of pp-common; a killed process has no exit code.\<close>

definition is_process_alive :: "nat \<Rightarrow> machine \<Rightarrow> bool" where
  "is_process_alive pid m = (case map_of (m_procs m) pid of Some p \<Rightarrow> pr_exit p = None | None \<Rightarrow> False)"

definition process_exe_path :: "nat \<Rightarrow> machine \<Rightarrow> path option" where
  "process_exe_path pid m =
     (case map_of (m_procs m) pid of Some p \<Rightarrow> if pr_exit p = None then Some (pr_exe p) else None | None \<Rightarrow> None)"

definition end_process :: "int \<Rightarrow> nat \<Rightarrow> machine \<Rightarrow> machine" where
  "end_process code pid m =
     (case map_of (m_procs m) pid of
        Some p \<Rightarrow> if pr_exit p = None
                  then m\<lparr>m_procs := AList.update pid (p\<lparr>pr_exit := Some code\<rparr>) (m_procs m)\<rparr> else m
      | None \<Rightarrow> m)"

definition kill_process :: "nat \<Rightarrow> machine \<Rightarrow> machine" where
  "kill_process = end_process (-1)"

definition new_process :: "path \<Rightarrow> string \<Rightarrow> int option \<Rightarrow> machine \<Rightarrow> machine" where
  "new_process exe config ex m =
     m\<lparr>m_procs := m_procs m @ [(m_next_pid m, \<lparr>pr_exe = exe, pr_config = config, pr_exit = ex\<rparr>)],
       m_next_pid := Suc (m_next_pid m)\<rparr>"

section \<open>PID files\<close>

text \<open>\<open>PidFile\<close>: pid, program, start time.\<close>

type_synonym pid_file = "nat \<times> path \<times> nat"

definition pid_record :: "platform \<Rightarrow> string \<Rightarrow> pid_file option" where
  "pid_record pl s =
     (case pf_parse pl s of
        Inl _ \<Rightarrow> None
      | Inr v \<Rightarrow>
          Option.bind (opt_filter (\<lambda>n. n \<le> u32_max) (get_u64 v ''pid'')) (\<lambda>pid.
          Option.bind (get_str v ''exe'') (\<lambda>exe.
          map_option (\<lambda>t. (pid, exe, t)) (get_u64 v ''started_at_unix''))))"

text \<open>Links are resolved before the comparison; the paths here have none.\<close>

definition exe_matches :: "nat \<Rightarrow> path \<Rightarrow> machine \<Rightarrow> bool" where
  "exe_matches pid binary m = (process_exe_path pid m = Some binary)"

definition reap_stale :: "platform \<Rightarrow> path \<Rightarrow> path \<Rightarrow> machine \<Rightarrow> machine" where
  "reap_stale pl pid_path binary m =
     (case read_file pid_path m of
        None \<Rightarrow> m
      | Some content \<Rightarrow>
          (case pid_record pl content of
             None \<Rightarrow> try_remove pl pid_path m
           | Some (pid, exe, t) \<Rightarrow>
               try_remove pl pid_path
                 (if is_process_alive pid m \<and> exe_matches pid binary m then kill_process pid m else m)))"

definition write_pid_file :: "platform \<Rightarrow> tstamp \<Rightarrow> path \<Rightarrow> nat \<Rightarrow> path \<Rightarrow> machine \<Rightarrow> machine" where
  "write_pid_file pl now pid_path pid binary m =
     unwrap_or (write_file pl now pid_path
       (pf_print pl (jobj [(''pid'', jnat pid), (''exe'', JStr binary), (''started_at_unix'', jnat (nat (now div ns_per_sec)))])) m) m"

section \<open>The process managers\<close>

text \<open>\<open>SingBoxProcessManager\<close> and \<open>MihomoProcessManager\<close>: the same fields.\<close>

record manager =
  mg_binary :: path
  mg_config_dir :: path
  mg_process :: "nat option"
  mg_guard :: bool
  mg_start_time :: "tstamp option"
  mg_last_error :: string

definition absolutize :: "platform \<Rightarrow> path \<Rightarrow> path" where
  "absolutize pl p = (if starts_with ''/'' p then p else unwrap_or (pf_absolute pl p) p)"

text \<open>\<open>new\<close> of both managers, and with it \<open>CoreManagerFactory::create\<close>.\<close>

definition create_manager :: "platform \<Rightarrow> path \<Rightarrow> path \<Rightarrow> manager" where
  "create_manager pl binary config_dir =
     \<lparr>mg_binary = absolutize pl binary, mg_config_dir = absolutize pl config_dir, mg_process = None, mg_guard = False,
      mg_start_time = None, mg_last_error = []\<rparr>"

fun config_path :: "core_type \<Rightarrow> manager \<Rightarrow> path" where
  "config_path SingBox g = join_path (mg_config_dir g) ''sing-box.json''"
| "config_path Mihomo g = join_path (mg_config_dir g) ''mihomo.yaml''"

definition pid_path :: "core_type \<Rightarrow> manager \<Rightarrow> path" where
  "pid_path core g = join_path (mg_config_dir g) (core_str core @ ''.pid'')"

fun config_text :: "platform \<Rightarrow> core_type \<Rightarrow> json \<Rightarrow> string panel_result" where
  "config_text pl SingBox config = Inr (pf_pretty pl config)"
| "config_text pl Mihomo config =
     map_err (\<lambda>e. Core (''failed to serialize mihomo config: '' @ e)) (pf_yaml pl config)"

text \<open>One line of output: the last that is not blank is kept as the last error.\<close>

definition output_line :: "string \<Rightarrow> string \<Rightarrow> string" where
  "output_line line err = (if trim line = [] then err else trim line)"

definition record_exit :: "int \<Rightarrow> string \<Rightarrow> string" where
  "record_exit code err =
     (if err = [] then ''process exited with code '' @ int_str code
      else err @ '' (exit code '' @ int_str code @ '')'')"

text \<open>An operation of a manager: its answer, the manager and the machine after it.\<close>

type_synonym 'a managed = "'a panel_result \<times> manager \<times> machine"

definition fail_with :: "string \<Rightarrow> manager \<Rightarrow> machine \<Rightarrow> 'a managed" where
  "fail_with msg g m = (Inl (Core msg), g\<lparr>mg_last_error := msg\<rparr>, m)"

definition launch :: "platform \<Rightarrow> core_type \<Rightarrow> tstamp \<Rightarrow> stored \<Rightarrow> string \<Rightarrow> manager \<Rightarrow> machine \<Rightarrow> unit managed" where
  "launch pl core now bin text g m =
     (let pid = m_next_pid m in
      case pf_spawn pl (mg_binary g) bin text of
        SpawnFails e \<Rightarrow> fail_with (''failed to spawn '' @ core_str core @ '': '' @ e) g m
      | Exits code lines \<Rightarrow>
          fail_with (record_exit code (fold output_line lines [])) g (new_process (mg_binary g) text (Some code) m)
      | Unchecked e \<Rightarrow>
          fail_with (''failed to check '' @ core_str core @ '' status after start: '' @ e) g
            (new_process (mg_binary g) text None m)
      | Runs \<Rightarrow>
          (Inr (), g\<lparr>mg_process := Some pid, mg_guard := True, mg_start_time := Some now, mg_last_error := []\<rparr>,
           write_pid_file pl now (pid_path core g) pid (mg_binary g) (new_process (mg_binary g) text None m)))"

definition core_start :: "platform \<Rightarrow> core_type \<Rightarrow> tstamp \<Rightarrow> json \<Rightarrow> manager \<Rightarrow> machine \<Rightarrow> unit managed" where
  "core_start pl core now config g m =
     (case file_at (mg_binary g) m of
        None \<Rightarrow> fail_with (core_str core @ '' binary not found at '' @ mg_binary g) g m
      | Some bin \<Rightarrow>
          if mg_process g \<noteq> None then (Inl (Core (core_str core @ '' already running'')), g, m)
          else
            (case config_text pl core config of
               Inl e \<Rightarrow> (Inl e, g, m)
             | Inr text \<Rightarrow>
                 (case write_file pl now (config_path core g) text m of
                    None \<Rightarrow> fail_with (''failed to write '' @ core_str core @ '' config: '' @ pf_io_error pl) g m
                  | Some m \<Rightarrow>
                      launch pl core now bin text g (reap_stale pl (pid_path core g) (mg_binary g) m))))"

definition core_stop :: "platform \<Rightarrow> core_type \<Rightarrow> manager \<Rightarrow> machine \<Rightarrow> manager \<times> machine" where
  "core_stop pl core g m =
     (let (g, m) = (case mg_process g of
                      Some pid \<Rightarrow> (g\<lparr>mg_process := None, mg_start_time := None\<rparr>, kill_process pid m)
                    | None \<Rightarrow> (g, m))
      in (g\<lparr>mg_guard := False\<rparr>, try_remove pl (pid_path core g) m))"

definition core_restart :: "platform \<Rightarrow> core_type \<Rightarrow> tstamp \<Rightarrow> json \<Rightarrow> manager \<Rightarrow> machine \<Rightarrow> unit managed" where
  "core_restart pl core now config g m = (case core_stop pl core g m of (g, m) \<Rightarrow> core_start pl core now config g m)"

text \<open>A process that has ended is forgotten, with its exit as the last error.\<close>

definition core_is_running :: "platform \<Rightarrow> core_type \<Rightarrow> manager \<Rightarrow> machine \<Rightarrow> bool \<times> manager \<times> machine" where
  "core_is_running pl core g m =
     (case mg_process g of
        None \<Rightarrow> (False, g, m)
      | Some pid \<Rightarrow>
          (case map_of (m_procs m) pid of
             Some p \<Rightarrow>
               (case pr_exit p of
                  None \<Rightarrow> (True, g, m)
                | Some code \<Rightarrow>
                    (False, g\<lparr>mg_process := None, mg_guard := False, mg_last_error := record_exit code (mg_last_error g)\<rparr>,
                     try_remove pl (pid_path core g) m))
           | None \<Rightarrow>
               (False, g\<lparr>mg_process := None, mg_guard := False,
                         mg_last_error := ''failed to check process status: '' @ pf_io_error pl\<rparr>,
                try_remove pl (pid_path core g) m)))"

text \<open>sing-box is told to reload, mihomo is restarted.\<close>

fun core_reload :: "platform \<Rightarrow> core_type \<Rightarrow> tstamp \<Rightarrow> json \<Rightarrow> manager \<Rightarrow> machine \<Rightarrow> unit managed" where
  "core_reload pl SingBox now config g m =
     (let text = pf_pretty pl config in
      case write_file pl now (config_path SingBox g) text m of
        None \<Rightarrow> (Inl (Io (pf_io_error pl)), g, m)
      | Some m \<Rightarrow>
          (case pf_reload pl (mg_binary g) text of
             Inl e \<Rightarrow> (Inl (Io e), g, m)
           | Inr (ok, err) \<Rightarrow>
               (if ok then Inr () else Inl (Core (''sing-box reload failed: '' @ err)), g, m)))"
| "core_reload pl Mihomo now config g m = core_restart pl Mihomo now config g m"

text \<open>\<open>str::lines\<close>: the pieces between line feeds; a last empty piece makes no difference here.\<close>

definition first_output_line :: "string \<Rightarrow> string" where
  "first_output_line out = unwrap_or (find (\<lambda>l. l \<noteq> []) (map trim (split_on (CHR 0x0A) out))) []"

definition core_version_text :: "platform \<Rightarrow> manager \<Rightarrow> string panel_result" where
  "core_version_text pl g = rbind (map_err Io (pf_version pl (mg_binary g))) (\<lambda>out. Inr (first_output_line out))"

definition uptime_secs :: "tstamp \<Rightarrow> manager \<Rightarrow> nat" where
  "uptime_secs now g = (case mg_start_time g of Some t \<Rightarrow> nat ((now - t) div ns_per_sec) | None \<Rightarrow> 0)"

end
