(* ===== verification/Installer.thy ===== *)
theory Installer
  imports Machine
begin

text \<open>
  The download of the cores' programs (pp-core, installer.rs) and the supervisor that keeps the managers
  (supervisor.rs). Requests are numbered, so that a request that is repeated may be answered otherwise.
\<close>

section \<open>Releases\<close>

definition env_version :: "platform \<Rightarrow> core_type \<Rightarrow> string option" where
  "env_version pl core =
     opt_filter (\<lambda>s. s \<noteq> [])
       (pf_env pl (case core of SingBox \<Rightarrow> ''PROXYPANEL_SINGBOX_VERSION'' | Mihomo \<Rightarrow> ''PROXYPANEL_MIHOMO_VERSION''))"

definition target_info :: "platform \<Rightarrow> (string \<times> string \<times> bool) panel_result" where
  "target_info pl =
     (case map_of [((''linux'', ''x86_64''), (''linux-amd64'', False)), ((''linux'', ''aarch64''), (''linux-arm64'', False)),
                   ((''macos'', ''x86_64''), (''darwin-amd64'', False)), ((''macos'', ''aarch64''), (''darwin-arm64'', False)),
                   ((''windows'', ''x86_64''), (''windows-amd64'', True))] (pf_os pl, pf_arch pl) of
        Some (arch, windows) \<Rightarrow> Inr (pf_os pl, arch, windows)
      | None \<Rightarrow> Inl (Core (''unsupported platform for auto-install: '' @ pf_os pl @ ''-'' @ pf_arch pl)))"

definition github_tag :: "string \<Rightarrow> string" where
  "github_tag version = (if starts_with ''v'' version then version else ''v'' @ version)"

definition without_v :: "string \<Rightarrow> string" where
  "without_v version = unwrap_or (strip_prefix ''v'' version) version"

definition asset_name :: "platform \<Rightarrow> core_type \<Rightarrow> string \<Rightarrow> (string \<times> string) panel_result" where
  "asset_name pl core version =
     rbind (target_info pl) (\<lambda>(os, arch, windows).
       Inr (case core of
              SingBox \<Rightarrow> (''sing-box-'' @ without_v version @ ''-'' @ arch @ ''.'' @ (if windows then ''zip'' else ''tar.gz''),
                          ''sing-box'')
            | Mihomo \<Rightarrow> (''mihomo-'' @ arch @ ''-'' @ github_tag version @ ''.'' @ (if windows then ''zip'' else ''gz''),
                         ''mihomo'')))"

definition binary_name_on_disk :: "platform \<Rightarrow> core_type \<Rightarrow> string" where
  "binary_name_on_disk pl core = (if pf_os pl = ''windows'' then core_str core @ ''.exe'' else core_str core)"

definition core_binary_path :: "platform \<Rightarrow> path \<Rightarrow> core_type \<Rightarrow> path" where
  "core_binary_path pl bin_dir core = join_path bin_dir (binary_name_on_disk pl core)"

section \<open>Requests\<close>

definition http_get :: "platform \<Rightarrow> string \<Rightarrow> machine \<Rightarrow> http_answer \<times> machine" where
  "http_get pl url m = (pf_http pl (m_requests m) url, m\<lparr>m_requests := Suc (m_requests m)\<rparr>)"

definition is_success :: "nat \<Rightarrow> bool" where "is_success s \<longleftrightarrow> 200 \<le> s \<and> s < 300"

text \<open>The body as JSON; a body that breaks off is an error too.\<close>

definition json_body :: "platform \<Rightarrow> http_answer \<Rightarrow> string + json" where
  "json_body pl a = (case a of NoAnswer e \<Rightarrow> Inl e | Answer s body \<Rightarrow> pf_parse pl body | Broken s part e \<Rightarrow> Inl e)"

definition api_url :: "core_type \<Rightarrow> string \<Rightarrow> string" where
  "api_url core rest =
     (case github_repo core of (owner, repo) \<Rightarrow> ''https://api.github.com/repos/'' @ owner @ ''/'' @ repo @ rest)"

fun answer_status :: "http_answer \<Rightarrow> nat option" where
  "answer_status (NoAnswer e) = None"
| "answer_status (Answer s body) = Some s"
| "answer_status (Broken s part e) = Some s"

definition fetch_latest_version :: "platform \<Rightarrow> core_type \<Rightarrow> machine \<Rightarrow> string panel_result \<times> machine" where
  "fetch_latest_version pl core m =
     (case http_get pl (api_url core ''/releases/latest'') m of
        (a, m) \<Rightarrow>
          (case a of
             NoAnswer e \<Rightarrow> Inl (Core (''GitHub API request failed: '' @ e))
           | _ \<Rightarrow>
               if \<not> is_success (the (answer_status a))
               then Inl (Core (''GitHub API returned status '' @ pf_status_text pl (the (answer_status a))))
               else
                 rbind (map_err (\<lambda>e. Core (''failed to parse GitHub release: '' @ e)) (json_body pl a)) (\<lambda>v.
                   ok_or (get_str v ''tag_name'') (Core ''GitHub release has no tag_name'')),
           m))"

definition resolve_version :: "platform \<Rightarrow> core_type \<Rightarrow> machine \<Rightarrow> string panel_result \<times> machine" where
  "resolve_version pl core m =
     (case env_version pl core of Some v \<Rightarrow> (Inr v, m) | None \<Rightarrow> fetch_latest_version pl core m)"

definition download_file ::
    "platform \<Rightarrow> tstamp \<Rightarrow> string \<Rightarrow> path \<Rightarrow> machine \<Rightarrow> unit panel_result \<times> machine" where
  "download_file pl now url dest m =
     (case http_get pl url m of
        (a, m) \<Rightarrow>
          (case a of
             NoAnswer e \<Rightarrow> (Inl (Core (''download request failed: '' @ e)), m)
           | _ \<Rightarrow>
               if \<not> is_success (the (answer_status a))
               then (Inl (Core (''download returned status '' @ pf_status_text pl (the (answer_status a)) @ '' for '' @ url)), m)
               else
                 (case a of
                    Answer s body \<Rightarrow>
                      (case write_file pl now dest body m of
                         Some m \<Rightarrow> (Inr (), m) | None \<Rightarrow> (Inl (Io (pf_io_error pl)), m))
                  | Broken s part e \<Rightarrow>
                      (case write_file pl now dest part m of
                         Some m \<Rightarrow> (Inl (Core (''download stream error: '' @ e)), m)
                       | None \<Rightarrow> (Inl (Io (pf_io_error pl)), m))
                  | NoAnswer e \<Rightarrow> (Inl (Core e), m))))"

section \<open>Assets\<close>

definition ends_with :: "string \<Rightarrow> string \<Rightarrow> bool" where
  "ends_with suffix s = starts_with (rev suffix) (rev s)"

definition asset_arch_hint :: "platform \<Rightarrow> string" where
  "asset_arch_hint pl = (case target_info pl of Inr (os, arch, w) \<Rightarrow> arch | Inl e \<Rightarrow> ''linux-amd64'')"

definition ext_ok :: "string \<Rightarrow> string \<Rightarrow> bool" where
  "ext_ok asset name \<longleftrightarrow>
     (ends_with ''.tar.gz'' asset \<and> ends_with ''.tar.gz'' name)
     \<or> (ends_with ''.zip'' asset \<and> ends_with ''.zip'' name)
     \<or> (ends_with ''.gz'' asset \<and> \<not> ends_with ''.tar.gz'' asset \<and> ends_with ''.gz'' name \<and> \<not> ends_with ''.tar.gz'' name)"

definition asset_url :: "platform \<Rightarrow> string \<Rightarrow> json \<Rightarrow> string option" where
  "asset_url pl asset a =
     (let name = unwrap_or (get_str a ''name'') [] in
      if str_contains (asset_arch_hint pl) name \<and> ext_ok asset name then get_str a ''browser_download_url'' else None)"

fun first_some :: "('a \<Rightarrow> 'b option) \<Rightarrow> 'a list \<Rightarrow> 'b option" where
  "first_some f [] = None"
| "first_some f (x # xs) = (case f x of Some y \<Rightarrow> Some y | None \<Rightarrow> first_some f xs)"

fun try_tags :: "platform \<Rightarrow> core_type \<Rightarrow> string \<Rightarrow> string \<Rightarrow> string list \<Rightarrow> machine \<Rightarrow> string panel_result \<times> machine" where
  "try_tags pl core version asset [] m =
     (Inl (Core (''no matching asset found for '' @ core_debug core @ '' '' @ version)), m)"
| "try_tags pl core version asset (tag # tags) m =
     (case http_get pl (api_url core (''/releases/tags/'' @ tag)) m of
        (a, m) \<Rightarrow>
          (case answer_status a of
             None \<Rightarrow> try_tags pl core version asset tags m
           | Some s \<Rightarrow>
               if \<not> is_success s then try_tags pl core version asset tags m
               else
                 (case json_body pl a of
                    Inl e \<Rightarrow> (Inl (Core (''failed to parse release '' @ tag @ '': '' @ e)), m)
                  | Inr release \<Rightarrow>
                      (case first_some (asset_url pl asset) (unwrap_or (get_array release ''assets'') []) of
                         Some url \<Rightarrow> (Inr url, m)
                       | None \<Rightarrow> try_tags pl core version asset tags m))))"

definition resolve_asset_url ::
    "platform \<Rightarrow> core_type \<Rightarrow> string \<Rightarrow> string \<Rightarrow> machine \<Rightarrow> string panel_result \<times> machine" where
  "resolve_asset_url pl core version asset m =
     try_tags pl core version asset [github_tag version, without_v version] m"

definition download_with_fallback ::
    "platform \<Rightarrow> tstamp \<Rightarrow> string \<Rightarrow> core_type \<Rightarrow> string \<Rightarrow> string \<Rightarrow> path \<Rightarrow> machine \<Rightarrow> unit panel_result \<times> machine" where
  "download_with_fallback pl now url core version asset dest m =
     (case download_file pl now url dest m of
        (Inr _, m) \<Rightarrow> (Inr (), m)
      | (Inl _, m) \<Rightarrow>
          (case resolve_asset_url pl core version asset m of
             (Inl e, m) \<Rightarrow> (Inl e, m)
           | (Inr api, m) \<Rightarrow> download_file pl now api dest m))"

section \<open>Archives\<close>

definition core_type_from_name :: "string \<Rightarrow> core_type panel_result" where
  "core_type_from_name name =
     (if name = ''sing-box'' then Inr SingBox else if name = ''mihomo'' then Inr Mihomo
      else Inl (Core (''unknown core binary name: '' @ name)))"

text \<open>\<open>Path::file_name\<close>\<close>

definition file_name :: "path \<Rightarrow> string" where
  "file_name p =
     (case filter (\<lambda>c. c \<noteq> [] \<and> c \<noteq> ''.'') (split_on (CHR ''/'') p) of
        [] \<Rightarrow> [] | c # cs \<Rightarrow> if last (c # cs) = ''..'' then [] else last (c # cs))"

fun tar_entry :: "(string \<Rightarrow> bool) \<Rightarrow> (string + string \<times> string) list \<Rightarrow> string + string option" where
  "tar_entry p [] = Inr None"
| "tar_entry p (Inl e # es) = Inl e"
| "tar_entry p (Inr (path, data) # es) = (if p (file_name path) then Inr (Some data) else tar_entry p es)"

text \<open>All matching entries of a zip file are written, one over the other.\<close>

fun zip_entries ::
    "platform \<Rightarrow> tstamp \<Rightarrow> (string \<Rightarrow> bool) \<Rightarrow> path \<Rightarrow> bool \<Rightarrow> (string + string \<times> string) list \<Rightarrow> machine
       \<Rightarrow> bool panel_result \<times> machine" where
  "zip_entries pl now p dest found [] m = (Inr found, m)"
| "zip_entries pl now p dest found (Inl e # es) m = (Inl (Core (''zip entry error: '' @ e)), m)"
| "zip_entries pl now p dest found (Inr (path, data) # es) m =
     (if p (file_name path)
      then (case write_file pl now dest data m of
              Some m \<Rightarrow> zip_entries pl now p dest True es m
            | None \<Rightarrow> (Inl (Io (pf_io_error pl)), m))
      else zip_entries pl now p dest found es m)"

definition not_in_archive :: "string \<Rightarrow> path \<Rightarrow> panel_error" where
  "not_in_archive target archive = Core (''binary '' @ target @ '' not found in archive '' @ archive)"

text \<open>Each extraction returns the path it wrote.\<close>

type_synonym extraction = "path panel_result \<times> machine"

definition extract_tgz :: "platform \<Rightarrow> tstamp \<Rightarrow> path \<Rightarrow> path \<Rightarrow> string \<Rightarrow> machine \<Rightarrow> extraction" where
  "extract_tgz pl now archive dest_dir target m =
     (case read_file archive m of
        None \<Rightarrow> (Inl (Io (pf_io_error pl)), m)
      | Some data \<Rightarrow>
          (case tar_entry (\<lambda>n. n = target \<or> n = target @ ''.exe'') (pf_untar pl data) of
             Inl e \<Rightarrow> (Inl (Io e), m)
           | Inr None \<Rightarrow> (Inl (not_in_archive target archive), m)
           | Inr (Some data) \<Rightarrow>
               (case core_type_from_name target of
                  Inl e \<Rightarrow> (Inl e, m)
                | Inr core \<Rightarrow>
                    (let dest = join_path dest_dir (binary_name_on_disk pl core) in
                     case write_file pl now dest data m of
                       Some m \<Rightarrow> (Inr dest, m) | None \<Rightarrow> (Inl (Io (pf_io_error pl)), m)))))"

definition extract_zip :: "platform \<Rightarrow> tstamp \<Rightarrow> path \<Rightarrow> path \<Rightarrow> string \<Rightarrow> machine \<Rightarrow> extraction" where
  "extract_zip pl now archive dest_dir target m =
     (case read_file archive m of
        None \<Rightarrow> (Inl (Io (pf_io_error pl)), m)
      | Some data \<Rightarrow>
          (case pf_unzip pl data of
             Inl e \<Rightarrow> (Inl (Core (''invalid zip archive: '' @ e)), m)
           | Inr entries \<Rightarrow>
               (case core_type_from_name target of
                  Inl e \<Rightarrow> (Inl e, m)
                | Inr core \<Rightarrow>
                    (let dest = join_path dest_dir (binary_name_on_disk pl core) in
                     case zip_entries pl now (\<lambda>n. ascii_lower n = ascii_lower target \<or> ascii_lower n = ascii_lower (target @ ''.exe''))
                            dest False entries m of
                       (Inl e, m) \<Rightarrow> (Inl e, m)
                     | (Inr found, m) \<Rightarrow> (if found then Inr dest else Inl (not_in_archive target archive), m)))))"

text \<open>The file is created before the archive is read.\<close>

definition extract_gzip :: "platform \<Rightarrow> tstamp \<Rightarrow> path \<Rightarrow> path \<Rightarrow> string \<Rightarrow> machine \<Rightarrow> extraction" where
  "extract_gzip pl now archive dest_dir target m =
     (case read_file archive m of
        None \<Rightarrow> (Inl (Io (pf_io_error pl)), m)
      | Some data \<Rightarrow>
          (case core_type_from_name target of
             Inl e \<Rightarrow> (Inl e, m)
           | Inr core \<Rightarrow>
               (let dest = join_path dest_dir (binary_name_on_disk pl core) in
                case write_file pl now dest [] m of
                  None \<Rightarrow> (Inl (Io (pf_io_error pl)), m)
                | Some m \<Rightarrow>
                    (case pf_gunzip pl data of
                       Inl e \<Rightarrow> (Inl (Io e), m)
                     | Inr content \<Rightarrow> (Inr dest, put_file now dest content m)))))"

definition set_executable :: "platform \<Rightarrow> path \<Rightarrow> machine \<Rightarrow> unit panel_result \<times> machine" where
  "set_executable pl p m =
     (if pf_os pl = ''windows'' then (Inr (), m) else case set_mode pl (\<lambda>k. or k 493) p m of
        Some m \<Rightarrow> (Inr (), m) | None \<Rightarrow> (Inl (Io (pf_io_error pl)), m))"

definition MIN_ARCHIVE :: nat where "MIN_ARCHIVE = 1024 * 1024"

definition hex_byte :: "char \<Rightarrow> string" where
  "hex_byte c = (if of_char c < (16::nat) then CHR ''0'' # hex_str (of_char c) else hex_str (of_char c))"

definition validate_archive :: "platform \<Rightarrow> path \<Rightarrow> string \<Rightarrow> machine \<Rightarrow> unit panel_result" where
  "validate_archive pl archive asset m =
     (case read_file archive m of
        None \<Rightarrow> Inl (Io (pf_io_error pl))
      | Some data \<Rightarrow>
          if length data < MIN_ARCHIVE
          then Inl (Core (''downloaded archive '' @ asset @ '' is suspiciously small ('' @ nat_str (length data)
                      @ '' bytes): '' @ pf_lossy pl (take 200 data)))
          else if (if ends_with ''.zip'' asset then starts_with ''PK'' data else starts_with [CHR 0x1F, CHR 0x8B] data)
          then Inr ()
          else Inl (Core (''downloaded archive '' @ asset @ '' has unexpected magic bytes [''
                      @ str_join '', '' (map hex_byte (take 4 data)) @ '']'')))"

section \<open>Installing a core\<close>

definition extract_archive :: "platform \<Rightarrow> tstamp \<Rightarrow> string \<Rightarrow> path \<Rightarrow> path \<Rightarrow> string \<Rightarrow> machine \<Rightarrow> extraction" where
  "extract_archive pl now asset archive bin_dir target m =
     (if ends_with ''.tar.gz'' asset then extract_tgz pl now archive bin_dir target m
      else if ends_with ''.zip'' asset then extract_zip pl now archive bin_dir target m
      else if ends_with ''.gz'' asset then extract_gzip pl now archive bin_dir target m
      else (Inl (Core (''unknown archive format for asset '' @ asset)), m))"

definition install_attempt ::
    "platform \<Rightarrow> tstamp \<Rightarrow> path \<Rightarrow> core_type \<Rightarrow> string \<Rightarrow> string \<Rightarrow> string \<Rightarrow> string \<Rightarrow> path \<Rightarrow> machine \<Rightarrow> extraction" where
  "install_attempt pl now bin_dir core version url asset target tmp m =
     (case download_with_fallback pl now url core version asset tmp m of
        (Inl e, m) \<Rightarrow> (Inl e, m)
      | (Inr _, m) \<Rightarrow>
          (case validate_archive pl tmp asset m of
             Inl e \<Rightarrow> (Inl e, m)
           | Inr _ \<Rightarrow> extract_archive pl now asset tmp bin_dir target m))"

text \<open>At most \<open>n\<close> attempts; the error is that of the last.\<close>

fun install_attempts :: "nat \<Rightarrow> (machine \<Rightarrow> extraction) \<Rightarrow> panel_error \<Rightarrow> machine \<Rightarrow> extraction" where
  "install_attempts 0 attempt err m = (Inl err, m)"
| "install_attempts (Suc n) attempt err m =
     (case attempt m of (Inr p, m) \<Rightarrow> (Inr p, m) | (Inl e, m) \<Rightarrow> install_attempts n attempt e m)"

definition make_dir :: "platform \<Rightarrow> path \<Rightarrow> machine \<Rightarrow> machine option" where
  "make_dir pl d m =
     (if d \<in> set (m_dirs m) then Some m else if pf_can_write pl d then Some (m\<lparr>m_dirs := m_dirs m @ [d]\<rparr>) else None)"

definition install_core ::
    "platform \<Rightarrow> tstamp \<Rightarrow> path \<Rightarrow> core_type \<Rightarrow> string \<Rightarrow> machine \<Rightarrow> extraction" where
  "install_core pl now bin_dir core version m =
     (case asset_name pl core version of
        Inl e \<Rightarrow> (Inl e, m)
      | Inr (asset, target) \<Rightarrow>
          (let url = (case github_repo core of (owner, repo) \<Rightarrow>
                        ''https://github.com/'' @ owner @ ''/'' @ repo @ ''/releases/download/'' @ github_tag version @ ''/'' @ asset);
               tmp = join_path bin_dir (''.'' @ asset)
           in case make_dir pl bin_dir m of
                None \<Rightarrow> (Inl (Io (pf_io_error pl)), m)
              | Some m \<Rightarrow>
                  (case install_attempts 2 (install_attempt pl now bin_dir core version url asset target tmp)
                          (Core (''failed to install '' @ core_debug core @ '' from '' @ url)) m of
                     (r, m) \<Rightarrow>
                       (let m = try_remove pl tmp m in
                        case r of
                          Inl e \<Rightarrow> (Inl e, m)
                        | Inr p \<Rightarrow>
                            (case set_executable pl p m of (Inl e, m) \<Rightarrow> (Inl e, m) | (Inr _, m) \<Rightarrow> (Inr p, m))))))"

definition ensure_core_binary ::
    "platform \<Rightarrow> tstamp \<Rightarrow> path \<Rightarrow> core_type \<Rightarrow> string option \<Rightarrow> machine \<Rightarrow> extraction" where
  "ensure_core_binary pl now bin_dir core version m =
     (if file_exists (core_binary_path pl bin_dir core) m then (Inr (core_binary_path pl bin_dir core), m)
      else
        (case (case opt_filter (\<lambda>v. v \<noteq> []) version of
                 Some v \<Rightarrow> (Inr v, m) | None \<Rightarrow> resolve_version pl core m) of
           (Inl e, m) \<Rightarrow> (Inl e, m)
         | (Inr v, m) \<Rightarrow> install_core pl now bin_dir core v m))"

section \<open>The supervisor\<close>

text \<open>
  The agent: the machine, the directories of the last discovery, a manager for each core it has, the
  messages it has sent to the hub, the certificates it is issuing, and whether it has ended itself.
\<close>

record agent =
  ag_machine :: machine
  ag_bin_dir :: "path option"
  ag_config_dir :: "path option"
  ag_managers :: "(core_type \<times> manager) list"
  ag_sent :: "agent_message list"
  ag_issues :: "(string \<times> string) list"
  ag_exited :: bool

definition manager_of :: "core_type \<Rightarrow> agent \<Rightarrow> manager option" where
  "manager_of core a = map_of (ag_managers a) core"

definition register_manager :: "core_type \<Rightarrow> manager \<Rightarrow> agent \<Rightarrow> agent" where
  "register_manager core g a = a\<lparr>ag_managers := AList.update core g (ag_managers a)\<rparr>"

definition discover_core :: "platform \<Rightarrow> path \<Rightarrow> path \<Rightarrow> core_type \<Rightarrow> core_type list \<times> agent \<Rightarrow> core_type list \<times> agent" where
  "discover_core pl bin_dir config_dir core s =
     (case s of (found, a) \<Rightarrow>
        let p = join_path bin_dir (core_str core) in
        if file_exists p (ag_machine a)
        then (found @ [core], register_manager core (create_manager pl p config_dir) a) else (found, a))"

definition discover :: "platform \<Rightarrow> path \<Rightarrow> path \<Rightarrow> agent \<Rightarrow> core_type list \<times> agent" where
  "discover pl bin_dir config_dir a =
     discover_core pl bin_dir config_dir Mihomo (discover_core pl bin_dir config_dir SingBox
       ([], a\<lparr>ag_bin_dir := Some bin_dir, ag_config_dir := Some config_dir\<rparr>))"

definition ensure_manager ::
    "platform \<Rightarrow> tstamp \<Rightarrow> core_type \<Rightarrow> path \<Rightarrow> path \<Rightarrow> string option \<Rightarrow> agent \<Rightarrow> manager panel_result \<times> agent" where
  "ensure_manager pl now core bin_dir config_dir version a =
     (case manager_of core a of
        Some g \<Rightarrow> (Inr g, a)
      | None \<Rightarrow>
          (case ensure_core_binary pl now bin_dir core version (ag_machine a) of
             (Inl e, m) \<Rightarrow> (Inl e, a\<lparr>ag_machine := m\<rparr>)
           | (Inr p, m) \<Rightarrow>
               (let g = create_manager pl p config_dir
                in (Inr g, register_manager core g (a\<lparr>ag_machine := m\<rparr>)))))"

definition ensure_manager_from_discovered ::
    "platform \<Rightarrow> tstamp \<Rightarrow> core_type \<Rightarrow> string option \<Rightarrow> agent \<Rightarrow> manager panel_result \<times> agent" where
  "ensure_manager_from_discovered pl now core version a =
     (case (ag_bin_dir a, ag_config_dir a) of
        (None, _) \<Rightarrow> (Inl (Core ''supervisor has not been discovered with a bin_dir''), a)
      | (_, None) \<Rightarrow> (Inl (Core ''supervisor has not been discovered with a config_dir''), a)
      | (Some b, Some c) \<Rightarrow> ensure_manager pl now core b c version a)"

text \<open>An operation on a core's manager, put back with the machine it leaves.\<close>

definition put_core :: "core_type \<Rightarrow> manager \<Rightarrow> machine \<Rightarrow> agent \<Rightarrow> agent" where
  "put_core core g m a = register_manager core g (a\<lparr>ag_machine := m\<rparr>)"

definition with_core :: "core_type \<Rightarrow> (manager \<Rightarrow> machine \<Rightarrow> 'a managed) \<Rightarrow> manager \<Rightarrow> agent \<Rightarrow> 'a panel_result \<times> agent" where
  "with_core core f g a = (case f g (ag_machine a) of (r, g, m) \<Rightarrow> (r, put_core core g m a))"

definition stop_core :: "platform \<Rightarrow> core_type \<Rightarrow> agent \<Rightarrow> agent" where
  "stop_core pl core a =
     (case manager_of core a of
        None \<Rightarrow> a
      | Some g \<Rightarrow> (case core_stop pl core g (ag_machine a) of (g, m) \<Rightarrow> put_core core g m a))"

definition stop_all :: "platform \<Rightarrow> agent \<Rightarrow> agent" where
  "stop_all pl a = fold (stop_core pl) (map fst (ag_managers a)) a"

end
