(* ===== verification/Agent.thy ===== *)
theory Agent
  imports Installer
begin

text \<open>
  The agent (pp-agent): the snapshots of applied configurations (persist.rs), the messages of the hub
  (client.rs), the core binaries (core_binaries.rs), certificates (acme.rs) and the start (main.rs). An
  \<open>anyhow\<close> error is its text.
\<close>

text \<open>A text of the wire format that is empty is none.\<close>

definition some_text :: "string \<Rightarrow> string option" where
  "some_text s = (if s = [] then None else Some s)"

section \<open>Snapshots\<close>

record persisted_config =
  sn_core_type :: string
  sn_config :: json
  sn_version :: string

definition ALL_CORES :: "core_type list" where "ALL_CORES = [SingBox, Mihomo]"

definition snapshot_path :: "path \<Rightarrow> core_type \<Rightarrow> path" where
  "snapshot_path data_dir core = join_path data_dir (''last_config.'' @ core_str core @ ''.json'')"

definition snapshot_tmp :: "path \<Rightarrow> core_type \<Rightarrow> path" where
  "snapshot_tmp data_dir core = join_path data_dir (''last_config.'' @ core_str core @ ''.tmp'')"

definition legacy_path :: "path \<Rightarrow> path" where
  "legacy_path data_dir = join_path data_dir ''last_config.json''"

definition snapshot_json :: "persisted_config \<Rightarrow> json" where
  "snapshot_json s = jobj [(''core_type'', JStr (sn_core_type s)), (''config'', sn_config s), (''version'', JStr (sn_version s))]"

text \<open>A missing version is empty, one that is no text an error.\<close>

definition snapshot_of_json :: "json \<Rightarrow> persisted_config option" where
  "snapshot_of_json v =
     Option.bind (get_str v ''core_type'') (\<lambda>c.
     Option.bind (jget v ''config'') (\<lambda>cfg.
       (case jget v ''version'' of
          None \<Rightarrow> Some \<lparr>sn_core_type = c, sn_config = cfg, sn_version = []\<rparr>
        | Some w \<Rightarrow> map_option (\<lambda>w. \<lparr>sn_core_type = c, sn_config = cfg, sn_version = w\<rparr>) (as_str w))))"

definition load_one :: "platform \<Rightarrow> path \<Rightarrow> machine \<Rightarrow> persisted_config option" where
  "load_one pl p m =
     Option.bind (read_file p m) (\<lambda>raw. (case pf_parse pl raw of Inr v \<Rightarrow> snapshot_of_json v | Inl _ \<Rightarrow> None))"

definition save_last_config ::
    "platform \<Rightarrow> tstamp \<Rightarrow> path \<Rightarrow> core_type \<Rightarrow> json \<Rightarrow> string \<Rightarrow> machine \<Rightarrow> (string + unit) \<times> machine" where
  "save_last_config pl now data_dir core config version m =
     (let data = pf_pretty pl (snapshot_json \<lparr>sn_core_type = core_str core, sn_config = config, sn_version = version\<rparr>)
      in case write_file pl now (snapshot_tmp data_dir core) data m of
           None \<Rightarrow> (Inl (pf_io_error pl), m)
         | Some m \<Rightarrow>
             (case rename_file pl (snapshot_tmp data_dir core) (snapshot_path data_dir core) m of
                None \<Rightarrow> (Inl (pf_io_error pl), m)
              | Some m \<Rightarrow>
                  (case set_mode pl (\<lambda>_. 384) (snapshot_path data_dir core) m of
                     None \<Rightarrow> (Inl (pf_io_error pl), m) | Some m \<Rightarrow> (Inr (), m))))"

text \<open>A snapshot of the time when there was one for all cores moves to its core's place, unless that is taken.\<close>

definition migrate_legacy_snapshot :: "platform \<Rightarrow> path \<Rightarrow> machine \<Rightarrow> machine" where
  "migrate_legacy_snapshot pl data_dir m =
     (case load_one pl (legacy_path data_dir) m of
        None \<Rightarrow> m
      | Some s \<Rightarrow>
          (case core_from_str (sn_core_type s) of
             Inl _ \<Rightarrow> try_remove pl (legacy_path data_dir) m
           | Inr core \<Rightarrow>
               if file_exists (snapshot_path data_dir core) m then try_remove pl (legacy_path data_dir) m
               else unwrap_or (rename_file pl (legacy_path data_dir) (snapshot_path data_dir core) m) m))"

definition load_last_configs :: "platform \<Rightarrow> path \<Rightarrow> machine \<Rightarrow> (core_type \<times> persisted_config) list \<times> machine" where
  "load_last_configs pl data_dir m =
     (let m = migrate_legacy_snapshot pl data_dir m
      in (concat (map (\<lambda>c. case load_one pl (snapshot_path data_dir c) m of Some s \<Rightarrow> [(c, s)] | None \<Rightarrow> []) ALL_CORES), m))"

section \<open>Core binaries\<close>

definition bin_in_use :: "platform \<Rightarrow> path \<Rightarrow> agent \<Rightarrow> path list" where
  "bin_in_use pl bin_dir a =
     map (core_binary_path pl bin_dir) (filter (\<lambda>c. manager_of c a \<noteq> None) ALL_CORES)"

definition dir_prefix :: "path \<Rightarrow> path" where
  "dir_prefix d = (if d = [] \<or> last d = CHR ''/'' then d else d @ ''/'')"

definition dir_entries :: "path \<Rightarrow> machine \<Rightarrow> (string \<times> stored) list" where
  "dir_entries d m =
     concat (map (\<lambda>(p, f). case strip_prefix (dir_prefix d) p of
        Some n \<Rightarrow> if n \<noteq> [] \<and> CHR ''/'' \<notin> set n then [(n, f)] else []
      | None \<Rightarrow> []) (m_files m))"

definition unix_secs :: "tstamp \<Rightarrow> int" where
  "unix_secs t = t div ns_per_sec"

definition binary_entry :: "path \<Rightarrow> path list \<Rightarrow> string \<times> stored \<Rightarrow> core_binary" where
  "binary_entry bin_dir used e =
     (case e of (n, f) \<Rightarrow>
        \<lparr>cb_file_name = n, cb_size_bytes = int (length (f_data f)), cb_modified_at = max 0 (unix_secs (f_modified f)),
         cb_in_use = (join_path bin_dir n \<in> set used)\<rparr>)"

definition agent_binaries :: "platform \<Rightarrow> agent \<Rightarrow> binary_list" where
  "agent_binaries pl a =
     (case ag_bin_dir a of
        None \<Rightarrow> ([], ''core binary directory is not initialized'')
      | Some d \<Rightarrow>
          if d \<notin> set (m_dirs (ag_machine a)) then ([], ''failed to read '' @ d @ '': '' @ pf_io_error pl)
          else (sort_key cb_file_name (map (binary_entry d (bin_in_use pl d a))
                  (filter (\<lambda>(n, f). \<not> starts_with ''.'' n) (dir_entries d (ag_machine a)))), []))"

definition remove_core_binary :: "platform \<Rightarrow> string \<Rightarrow> agent \<Rightarrow> (string + unit) \<times> agent" where
  "remove_core_binary pl name a =
     (if name = [] \<or> starts_with ''.'' name \<or> CHR ''/'' \<in> set name \<or> CHR 0x5C \<in> set name
      then (Inl ''invalid file name'', a)
      else
        (case ag_bin_dir a of
           None \<Rightarrow> (Inl ''bin dir unknown'', a)
         | Some d \<Rightarrow>
             if join_path d name \<in> set (bin_in_use pl d a) then (Inl (name @ '' is in use by a running core''), a)
             else
               (case remove_file pl (join_path d name) (ag_machine a) of
                  None \<Rightarrow> (Inl (''failed to delete '' @ name @ '': '' @ pf_io_error pl), a)
                | Some m \<Rightarrow> (Inr (), a\<lparr>ag_machine := m\<rparr>))))"

section \<open>Applying a configuration\<close>

definition core_type_from_i32 :: "int \<Rightarrow> core_type" where
  "core_type_from_i32 n = (if n = 4 then Mihomo else SingBox)"

fun minimal_config :: "core_type \<Rightarrow> json" where
  "minimal_config SingBox = jobj
     [(''log'', jobj [(''level'', JStr ''warn'')]), (''inbounds'', JArr []),
      (''outbounds'', JArr [jobj [(''type'', JStr ''direct''), (''tag'', JStr ''direct'')]])]"
| "minimal_config Mihomo = jobj
     [(''log-level'', JStr ''warning''), (''mode'', JStr ''rule''), (''allow-lan'', JBool False), (''listeners'', JArr []),
      (''rules'', jstrs [''MATCH,DIRECT''])]"

text \<open>
  A newer build of a version that keeps its name is downloaded again: the binary is set aside first and
  put back when the download fails.
\<close>

definition set_aside :: "platform \<Rightarrow> path \<Rightarrow> path \<Rightarrow> machine \<Rightarrow> machine option" where
  "set_aside pl binary backup m = (if file_exists binary m then rename_file pl binary backup m else Some m)"

definition finish_build ::
    "platform \<Rightarrow> tstamp \<Rightarrow> path \<Rightarrow> string \<Rightarrow> path \<Rightarrow> path \<Rightarrow> bool \<Rightarrow> extraction \<Rightarrow> (string + unit) \<times> machine" where
  "finish_build pl now mark expected binary backup has_binary res =
     (case res of
        (Inr _, m) \<Rightarrow>
          (let m = try_remove pl backup m in
           case write_file pl now mark expected m of
             Some m \<Rightarrow> (Inr (), m) | None \<Rightarrow> (Inl (pf_io_error pl), m))
      | (Inl e, m) \<Rightarrow>
          (Inl (panel_error_str e),
           if has_binary then unwrap_or (rename_file pl backup binary m) m else m))"

definition ensure_core_build ::
    "platform \<Rightarrow> tstamp \<Rightarrow> path \<Rightarrow> core_type \<Rightarrow> string \<Rightarrow> string \<Rightarrow> machine \<Rightarrow> (string + unit) \<times> machine" where
  "ensure_core_build pl now bin_dir core version build_id m =
     (let mark = join_path bin_dir (''.build_id.'' @ core_str core);
          expected = version @ ''|'' @ build_id;
          binary = core_binary_path pl bin_dir core;
          backup = join_path bin_dir (''.backup.'' @ core_str core)
      in if trim (unwrap_or (read_file mark m) []) = expected then (Inr (), m)
         else
           (case set_aside pl binary backup m of
              None \<Rightarrow> (Inl (pf_io_error pl), m)
            | Some m1 \<Rightarrow>
                finish_build pl now mark expected binary backup (file_exists binary m)
                  (ensure_core_binary pl now bin_dir core (some_text version) m1)))"

definition upgrade_core ::
    "platform \<Rightarrow> tstamp \<Rightarrow> core_type \<Rightarrow> string \<Rightarrow> string \<Rightarrow> agent \<Rightarrow> agent" where
  "upgrade_core pl now core version build_id a =
     (case ag_bin_dir a of
        None \<Rightarrow> a
      | Some d \<Rightarrow> a\<lparr>ag_machine := snd (ensure_core_build pl now d core version build_id (ag_machine a))\<rparr>)"

definition apply_config ::
    "platform \<Rightarrow> tstamp \<Rightarrow> core_type \<Rightarrow> bool \<Rightarrow> json \<Rightarrow> agent \<Rightarrow> unit panel_result \<times> agent" where
  "apply_config pl now core restart config a =
     (case manager_of core a of
        None \<Rightarrow> (Inr (), a)
      | Some g \<Rightarrow>
          with_core core (\<lambda>g m. if restart then core_restart pl core now config g m else core_reload pl core now config g m) g a)"

definition get_or_ensure ::
    "platform \<Rightarrow> tstamp \<Rightarrow> core_type \<Rightarrow> string option \<Rightarrow> agent \<Rightarrow> manager panel_result \<times> agent" where
  "get_or_ensure pl now core version a =
     (case manager_of core a of
        Some g \<Rightarrow> (Inr g, a) | None \<Rightarrow> ensure_manager_from_discovered pl now core version a)"

definition push_upgrade :: "platform \<Rightarrow> tstamp \<Rightarrow> core_type \<Rightarrow> config_push \<Rightarrow> agent \<Rightarrow> agent" where
  "push_upgrade pl now core push a =
     (if cp_core_build_id push \<noteq> [] \<or> cp_core_version push \<noteq> []
      then upgrade_core pl now core (cp_core_version push) (cp_core_build_id push) a else a)"

definition apply_push ::
    "platform \<Rightarrow> tstamp \<Rightarrow> path \<Rightarrow> core_type \<Rightarrow> config_push \<Rightarrow> json \<Rightarrow> agent \<Rightarrow> (string + unit) \<times> agent" where
  "apply_push pl now data_dir core push config a =
     (case get_or_ensure pl now core (some_text (cp_core_version push)) a of
        (Inl e, a) \<Rightarrow> (Inl (''failed to install '' @ core_debug core @ '': '' @ panel_error_str e), a)
      | (Inr _, a) \<Rightarrow>
          (case apply_config pl now core (cp_restart_required push) config (push_upgrade pl now core push a) of
             (Inl e, a) \<Rightarrow> (Inl (panel_error_str e), a)
           | (Inr _, a) \<Rightarrow>
               (Inr (), a\<lparr>ag_machine := snd (save_last_config pl now data_dir core config
                                              (cp_config_version push) (ag_machine a))\<rparr>)))"

text \<open>A reload of the version that is applied already is left out.\<close>

definition handle_config_push ::
    "platform \<Rightarrow> tstamp \<Rightarrow> path \<Rightarrow> config_push \<Rightarrow> agent \<Rightarrow> (string + unit) \<times> agent" where
  "handle_config_push pl now data_dir push a =
     (let core = core_type_from_i32 (cp_target_core push) in
      case pf_parse pl (cp_config_json push) of
        Inl e \<Rightarrow> (Inl e, a)
      | Inr config \<Rightarrow>
          if \<not> cp_restart_required push \<and> cp_config_version push \<noteq> []
          then
            (case load_last_configs pl data_dir (ag_machine a) of
               (known, m) \<Rightarrow>
                 (let a = a\<lparr>ag_machine := m\<rparr> in
                  if map_option sn_version (map_of known core) = Some (cp_config_version push) then (Inr (), a)
                  else apply_push pl now data_dir core push config a))
          else apply_push pl now data_dir core push config a)"

fun handle_core_command :: "platform \<Rightarrow> tstamp \<Rightarrow> core_command \<Rightarrow> agent \<Rightarrow> (string + unit) \<times> agent" where
  "handle_core_command pl now (CoreStart n) a =
     (let core = core_type_from_i32 n in
      case get_or_ensure pl now core None a of
        (Inl e, a) \<Rightarrow> (Inl (''failed to prepare '' @ core_debug core @ '': '' @ panel_error_str e), a)
      | (Inr g, a) \<Rightarrow>
          (case core_is_running pl core g (ag_machine a) of
             (running, g, m) \<Rightarrow>
               (let a = put_core core g m a in
                if running then (Inr (), a)
                else
                  (case with_core core (core_start pl core now (minimal_config core)) g a of
                     (r, a) \<Rightarrow> (map_err (\<lambda>e. ''failed to start '' @ core_debug core @ '': '' @ panel_error_str e) r, a)))))"
| "handle_core_command pl now (CoreStop n) a = (Inr (), stop_core pl (core_type_from_i32 n) a)"
| "handle_core_command pl now (CoreRestart n) a =
     (let core = core_type_from_i32 n in
      case get_or_ensure pl now core None a of
        (Inl e, a) \<Rightarrow> (Inl (''failed to prepare '' @ core_debug core @ '': '' @ panel_error_str e), a)
      | (Inr g, a) \<Rightarrow>
          (case with_core core (core_restart pl core now (minimal_config core)) g a of
             (r, a) \<Rightarrow> (map_err (\<lambda>e. ''failed to restart '' @ core_debug core @ '': '' @ panel_error_str e) r, a)))"

end
