(* ===== verification/AgentRun.thy ===== *)
theory AgentRun
  imports Agent
begin

text \<open>
  What the agent does with the hub's messages (client.rs), its certificates (acme.rs), its start
  (main.rs) and its log buffer (logger.rs).
\<close>

section \<open>Certificates\<close>

definition cert_crt :: "path \<Rightarrow> string \<Rightarrow> path" where
  "cert_crt data_dir domain = join_path (join_path data_dir ''certs'') (domain @ ''.crt'')"

definition cert_key :: "path \<Rightarrow> string \<Rightarrow> path" where
  "cert_key data_dir domain = join_path (join_path data_dir ''certs'') (domain @ ''.key'')"

definition cert_meta :: "path \<Rightarrow> string \<Rightarrow> path" where
  "cert_meta data_dir domain = join_path (join_path data_dir ''certs'') (domain @ ''.meta.json'')"

definition cert_life :: int where "cert_life = 90 * 24 * 3600"
definition RENEW_AFTER_SECS :: nat where "RENEW_AFTER_SECS = 60 * 24 * 3600"

text \<open>\<open>acme\<close> is the outcome of the order with the authority: the chain and the key.\<close>

definition issue_certificate ::
    "platform \<Rightarrow> tstamp \<Rightarrow> path \<Rightarrow> string + string \<times> string \<Rightarrow> string \<Rightarrow> string \<Rightarrow> machine \<Rightarrow> (string + int) \<times> machine" where
  "issue_certificate pl now data_dir acme cert_id domain m =
     (case acme of
        Inl e \<Rightarrow> (Inl e, m)
      | Inr (chain, key) \<Rightarrow>
          (case make_dir pl (join_path data_dir ''certs'') m of
             None \<Rightarrow> (Inl (pf_io_error pl), m)
           | Some m \<Rightarrow>
          (case write_file pl now (cert_crt data_dir domain) chain m of
             None \<Rightarrow> (Inl (pf_io_error pl), m)
           | Some m \<Rightarrow>
          (case write_file pl now (cert_key data_dir domain) key m of
             None \<Rightarrow> (Inl (pf_io_error pl), m)
           | Some m \<Rightarrow>
          (case set_mode pl (\<lambda>_. 384) (cert_key data_dir domain) m of
             None \<Rightarrow> (Inl (pf_io_error pl), m)
           | Some m \<Rightarrow>
          (case write_file pl now (cert_meta data_dir domain)
                  (pf_print pl (jobj [(''cert_id'', JStr cert_id), (''domain'', JStr domain)])) m of
             None \<Rightarrow> (Inl (pf_io_error pl), m)
           | Some m \<Rightarrow> (Inr (unix_secs now + cert_life), m)))))))"

definition strip_suffix :: "string \<Rightarrow> string \<Rightarrow> string option" where
  "strip_suffix suffix s = (if ends_with suffix s then Some (take (length s - length suffix) s) else None)"

text \<open>The age of a certificate that is missing, or lies in the future, is without bound.\<close>

definition cert_due :: "tstamp \<Rightarrow> path \<Rightarrow> machine \<Rightarrow> bool" where
  "cert_due now crt m =
     (case file_at crt m of
        None \<Rightarrow> True
      | Some f \<Rightarrow> now < f_modified f \<or> (now - f_modified f) div ns_per_sec \<ge> int RENEW_AFTER_SECS)"

definition due_entry :: "platform \<Rightarrow> tstamp \<Rightarrow> path \<Rightarrow> machine \<Rightarrow> string \<times> stored \<Rightarrow> (string \<times> string) option" where
  "due_entry pl now data_dir m e =
     Option.bind (strip_suffix ''.meta.json'' (fst e)) (\<lambda>domain.
     (case pf_parse pl (f_data (snd e)) of
        Inl _ \<Rightarrow> None
      | Inr meta \<Rightarrow>
          Option.bind (get_str meta ''cert_id'') (\<lambda>cert_id.
            if cert_due now (cert_crt data_dir domain) m then Some (cert_id, domain) else None)))"

definition due_cert_domains :: "platform \<Rightarrow> tstamp \<Rightarrow> path \<Rightarrow> machine \<Rightarrow> (string \<times> string) list" where
  "due_cert_domains pl now data_dir m =
     (let d = join_path data_dir ''certs'' in
      if d \<notin> set (m_dirs m) then []
      else concat (map (\<lambda>e. case due_entry pl now data_dir m e of Some c \<Rightarrow> [c] | None \<Rightarrow> []) (dir_entries d m)))"

definition renewal_needle :: "string \<Rightarrow> string" where
  "renewal_needle domain = ''certs/'' @ domain @ ''/'' @ domain"

definition restart_core_using ::
    "platform \<Rightarrow> tstamp \<Rightarrow> string \<Rightarrow> core_type \<times> persisted_config \<Rightarrow> agent \<Rightarrow> agent" where
  "restart_core_using pl now domain cs a =
     (case cs of (core, s) \<Rightarrow>
        if core = Mihomo then a
        else if \<not> str_contains (renewal_needle domain) (pf_print pl (sn_config s)) then a
        else
          (case manager_of core a of
             Some g \<Rightarrow> snd (with_core core (core_restart pl core now (sn_config s)) g a)
           | None \<Rightarrow> a))"

definition restart_cores_using :: "platform \<Rightarrow> tstamp \<Rightarrow> path \<Rightarrow> string \<Rightarrow> agent \<Rightarrow> agent" where
  "restart_cores_using pl now data_dir domain a =
     (case load_last_configs pl data_dir (ag_machine a) of
        (configs, m) \<Rightarrow> fold (restart_core_using pl now domain) configs (a\<lparr>ag_machine := m\<rparr>))"

definition send :: "agent_message \<Rightarrow> agent \<Rightarrow> agent" where
  "send msg a = a\<lparr>ag_sent := ag_sent a @ [msg]\<rparr>"

definition send_cert_status :: "string \<Rightarrow> string \<Rightarrow> int \<Rightarrow> string \<Rightarrow> agent \<Rightarrow> agent" where
  "send_cert_status cert_id status expires_at err =
     send (CertStatus \<lparr>ce_cert_id = cert_id, ce_status = status, ce_expires_at = expires_at, ce_error = err\<rparr>)"

text \<open>\<open>acme\<close> gives the outcome for each domain.\<close>

definition renew_one ::
    "platform \<Rightarrow> tstamp \<Rightarrow> path \<Rightarrow> (string \<Rightarrow> string + string \<times> string) \<Rightarrow> string \<times> string \<Rightarrow> agent \<Rightarrow> agent" where
  "renew_one pl now data_dir acme c a =
     (case c of (cert_id, domain) \<Rightarrow>
        case issue_certificate pl now data_dir (acme domain) cert_id domain (ag_machine a) of
          (Inr expires_at, m) \<Rightarrow>
            send_cert_status cert_id ''active'' expires_at [] (restart_cores_using pl now data_dir domain (a\<lparr>ag_machine := m\<rparr>))
        | (Inl e, m) \<Rightarrow> send_cert_status cert_id ''failed'' 0 e (a\<lparr>ag_machine := m\<rparr>))"

definition renewal_pass :: "platform \<Rightarrow> tstamp \<Rightarrow> path \<Rightarrow> (string \<Rightarrow> string + string \<times> string) \<Rightarrow> agent \<Rightarrow> agent" where
  "renewal_pass pl now data_dir acme a =
     fold (renew_one pl now data_dir acme) (due_cert_domains pl now data_dir (ag_machine a)) a"

text \<open>A certificate the hub asked for is issued beside the other messages; this is the end of that.\<close>

definition finish_issue ::
    "platform \<Rightarrow> tstamp \<Rightarrow> path \<Rightarrow> string + string \<times> string \<Rightarrow> string \<times> string \<Rightarrow> agent \<Rightarrow> agent" where
  "finish_issue pl now data_dir acme c a =
     (let a = a\<lparr>ag_issues := remove1 c (ag_issues a)\<rparr> in
      case issue_certificate pl now data_dir acme (fst c) (snd c) (ag_machine a) of
        (Inr expires_at, m) \<Rightarrow> send_cert_status (fst c) ''active'' expires_at [] (a\<lparr>ag_machine := m\<rparr>)
      | (Inl e, m) \<Rightarrow> send_cert_status (fst c) ''failed'' 0 e (a\<lparr>ag_machine := m\<rparr>))"

section \<open>The hub's messages\<close>

text \<open>Two messages of the protocol are never sent by the hub.\<close>

datatype hub_payload = FromHub hub_message | ConfigReload config_push | Shutdown

fun handle_hub_message :: "platform \<Rightarrow> tstamp \<Rightarrow> path \<Rightarrow> hub_payload \<Rightarrow> agent \<Rightarrow> (string + unit) \<times> agent" where
  "handle_hub_message pl now data_dir (FromHub (RegisterResp ok node_id interval msg)) a = (Inr (), a)"
| "handle_hub_message pl now data_dir (FromHub (ConfigPush push)) a = handle_config_push pl now data_dir push a"
| "handle_hub_message pl now data_dir (ConfigReload r) a =
     handle_config_push pl now data_dir (r\<lparr>cp_restart_required := False, cp_core_build_id := []\<rparr>) a"
| "handle_hub_message pl now data_dir (FromHub (CoreCmd cmd)) a = handle_core_command pl now cmd a"
| "handle_hub_message pl now data_dir (FromHub CoreBinaryListReq) a = (Inr (), send (CoreBinaries (agent_binaries pl a)) a)"
| "handle_hub_message pl now data_dir (FromHub (CoreBinaryDelete name)) a =
     (let report = agent_binaries pl a in
      case remove_core_binary pl name a of
        (Inr _, a) \<Rightarrow> (Inr (), send (CoreBinaries report) a)
      | (Inl e, a) \<Rightarrow> (Inr (), send (CoreBinaries (fst (agent_binaries pl a), e)) a))"
| "handle_hub_message pl now data_dir (FromHub (CertIssue cert_id domain challenge)) a =
     (Inr (), a\<lparr>ag_issues := ag_issues a @ [(cert_id, domain)]\<rparr>)"
| "handle_hub_message pl now data_dir Shutdown a = (Inr (), (stop_all pl a)\<lparr>ag_exited := True\<rparr>)"

text \<open>The versions of the applied configurations, as they are told to the hub on every connection.\<close>

definition reported_versions :: "platform \<Rightarrow> path \<Rightarrow> machine \<Rightarrow> (string \<times> string) list \<times> machine" where
  "reported_versions pl data_dir m =
     (case load_last_configs pl data_dir m of
        (cs, m) \<Rightarrow> (map (\<lambda>(c, s). (core_str c, sn_version s)) (filter (\<lambda>(c, s). sn_version s \<noteq> []) cs), m))"

definition connect :: "platform \<Rightarrow> path \<Rightarrow> string \<Rightarrow> string \<Rightarrow> string \<Rightarrow> string \<Rightarrow> agent \<Rightarrow> agent" where
  "connect pl data_dir agent_id token hostname domain a =
     (case reported_versions pl data_dir (ag_machine a) of
        (versions, m) \<Rightarrow>
          send (Register \<lparr>rq_agent_id = agent_id, rq_token = token, rq_hostname = hostname,
                  rq_capabilities = [''sing-box'', ''mihomo''], rq_domain = domain, rq_core_config_versions = versions\<rparr>)
            (a\<lparr>ag_machine := m\<rparr>))"

text \<open>The pauses of the loop that keeps the connection, in seconds, from the ends of the connections.\<close>

fun reconnect_pauses :: "nat \<Rightarrow> (string + unit) list \<Rightarrow> nat list" where
  "reconnect_pauses d [] = []"
| "reconnect_pauses d (Inr _ # rs) = reconnect_pauses 1 rs"
| "reconnect_pauses d (Inl e # rs) = d # reconnect_pauses (min (d * 2) 60) rs"

definition traffic_report_interval :: "platform \<Rightarrow> nat" where
  "traffic_report_interval pl =
     max 10 (unwrap_or (Option.bind (pf_env pl ''PROXYPANEL_TRAFFIC_REPORT_INTERVAL_SECS'') (parse_uint u64_max)) 60)"

section \<open>The start\<close>

definition restore_core :: "platform \<Rightarrow> tstamp \<Rightarrow> core_type \<times> persisted_config \<Rightarrow> agent \<Rightarrow> agent" where
  "restore_core pl now cs a =
     (case get_or_ensure pl now (fst cs) None a of
        (Inl e, a) \<Rightarrow> a
      | (Inr g, a) \<Rightarrow>
          (case core_is_running pl (fst cs) g (ag_machine a) of
             (running, g, m) \<Rightarrow>
               (let a = put_core (fst cs) g m a in
                if running then a
                else snd (with_core (fst cs) (core_start pl (fst cs) now (sn_config (snd cs))) g a))))"

definition restore_last_config :: "platform \<Rightarrow> tstamp \<Rightarrow> path \<Rightarrow> agent \<Rightarrow> agent" where
  "restore_last_config pl now data_dir a =
     (case load_last_configs pl data_dir (ag_machine a) of
        (cs, m) \<Rightarrow> fold (restore_core pl now) cs (a\<lparr>ag_machine := m\<rparr>))"

definition load_token ::
    "platform \<Rightarrow> tstamp \<Rightarrow> path \<Rightarrow> string option \<Rightarrow> machine \<Rightarrow> (string + string) \<times> machine" where
  "load_token pl now data_dir provided m =
     (let p = join_path data_dir ''.agent_token'' in
      case provided of
        Some token \<Rightarrow>
          (case write_file pl now p token m of
             None \<Rightarrow> (Inl (pf_io_error pl), m)
           | Some m \<Rightarrow>
               (case set_mode pl (\<lambda>_. 384) p m of None \<Rightarrow> (Inl (pf_io_error pl), m) | Some m \<Rightarrow> (Inr token, m)))
      | None \<Rightarrow>
          (case read_file p m of
             Some token \<Rightarrow> (Inr (trim token), m)
           | None \<Rightarrow> (Inl ''agent token is required; provision the node in Hub and install with the generated command'', m)))"

definition load_or_register_agent_id ::
    "platform \<Rightarrow> tstamp \<Rightarrow> path \<Rightarrow> string \<Rightarrow> string option \<Rightarrow> machine \<Rightarrow> (string + string) \<times> machine" where
  "load_or_register_agent_id pl now data_dir new_id provided m =
     (let p = join_path data_dir ''.agent_id'';
          known = trim (unwrap_or (read_file p m) [])
      in if provided = None \<and> known \<noteq> [] then (Inr known, m)
         else
           (let i = unwrap_or provided new_id in
            case write_file pl now p i m of None \<Rightarrow> (Inl (pf_io_error pl), m) | Some m \<Rightarrow> (Inr i, m)))"

text \<open>The start up to the connection; \<open>name\<close> is empty when the host's name is to be used.\<close>

definition start_agent :: "platform \<Rightarrow> tstamp \<Rightarrow> path \<Rightarrow> path \<Rightarrow> machine \<Rightarrow> agent" where
  "start_agent pl now data_dir bin_dir m =
     restore_last_config pl now data_dir
       (snd (discover pl bin_dir data_dir
          \<lparr>ag_machine = m, ag_bin_dir = None, ag_config_dir = None, ag_managers = [], ag_sent = [], ag_issues = [],
           ag_exited = False\<rparr>))"

section \<open>Logs and status\<close>

definition MAX_BUFFERED_LOGS :: nat where "MAX_BUFFERED_LOGS = 1000"

text \<open>An entry that finds the buffer full is dropped.\<close>

definition forward_log :: "log_entry \<Rightarrow> log_entry list \<Rightarrow> log_entry list" where
  "forward_log e buf = (if length buf < MAX_BUFFERED_LOGS then buf @ [e] else buf)"

text \<open>The batch, and what stays in the buffer.\<close>

fun collect_logs :: "nat \<Rightarrow> log_entry list \<Rightarrow> log_entry list \<Rightarrow> log_entry list \<times> log_entry list" where
  "collect_logs limit got [] = (got, [])"
| "collect_logs limit got (e # buf) =
     (if Suc (length got) \<ge> limit then (got @ [e], buf) else collect_logs limit (got @ [e]) buf)"

definition core_status_report ::
    "platform \<Rightarrow> tstamp \<Rightarrow> core_type \<Rightarrow> core_status list \<times> agent \<Rightarrow> core_status list \<times> agent" where
  "core_status_report pl now core s =
     (case s of (reports, a) \<Rightarrow>
        (case manager_of core a of
           None \<Rightarrow> (reports, a)
         | Some g \<Rightarrow>
             (case core_is_running pl core g (ag_machine a) of
                (running, g, m) \<Rightarrow>
                  (reports @ [\<lparr>cs_core_type = core_str core,
                     cs_version = (case core_version_text pl g of Inr v \<Rightarrow> v | Inl _ \<Rightarrow> []),
                     cs_running = running, cs_uptime_sec = int (uptime_secs now g), cs_active_inbounds = [],
                     cs_last_error = mg_last_error g\<rparr>], put_core core g m a))))"

definition collect_core_status :: "platform \<Rightarrow> tstamp \<Rightarrow> agent \<Rightarrow> core_status list \<times> agent" where
  "collect_core_status pl now a = fold (core_status_report pl now) ALL_CORES ([], a)"

end
