(* ===== verification/AgentReports.thy ===== *)
theory AgentReports
  imports AgentRun
begin

text \<open>
  What the agent reads from its cores: the traffic of a period (pp-agent, reporter.rs) and the users that
  are on line (core_api.rs). The answers of the cores' interfaces are arguments.
\<close>

section \<open>The addresses of the interfaces\<close>

lemma starts_with_length: "starts_with p s \<Longrightarrow> length p \<le> length s"
  by (induction p s rule: starts_with.induct) auto

function trim_start_matches :: "string \<Rightarrow> string \<Rightarrow> string" where
  "trim_start_matches p s =
     (if p \<noteq> [] \<and> starts_with p s then trim_start_matches p (drop (length p) s) else s)"
  by pat_completeness auto

termination
proof (relation "measure (\<lambda>(p, s). length s)")
  fix p s :: string assume "p \<noteq> [] \<and> starts_with p s"
  then show "((p, drop (length p) s), p, s) \<in> measure (\<lambda>(p, s). length s)"
    using starts_with_length [of p s] by (cases p; cases s) auto
qed simp

declare trim_start_matches.simps [simp del]

definition api_base :: "string option \<Rightarrow> string \<Rightarrow> string" where
  "api_base listen default_listen =
     ''http://'' @ trim_start_matches ''https://'' (trim_start_matches ''http://'' (unwrap_or listen default_listen))"

definition singbox_api_base :: "platform \<Rightarrow> string" where
  "singbox_api_base pl = api_base (pf_env pl ''PROXYPANEL_SINGBOX_API_LISTEN'') ''127.0.0.1:9090''"

definition mihomo_api_base :: "platform \<Rightarrow> string" where
  "mihomo_api_base pl = api_base (pf_env pl ''PROXYPANEL_MIHOMO_API_LISTEN'') ''127.0.0.1:9093''"

definition mihomo_api_secret :: "platform \<Rightarrow> string" where
  "mihomo_api_secret pl = unwrap_or (pf_env pl ''PROXYPANEL_MIHOMO_API_SECRET'') []"

text \<open>The address the gRPC client of both files connects to keeps the scheme it is given.\<close>

definition grpc_endpoint :: "platform \<Rightarrow> string" where
  "grpc_endpoint pl =
     (let e = unwrap_or (pf_env pl ''PROXYPANEL_SINGBOX_API_LISTEN'') ''http://127.0.0.1:9090''
      in if starts_with ''http://'' e \<or> starts_with ''https://'' e then e else ''http://'' @ e)"

section \<open>Counters\<close>

record connection =
  co_id :: string
  co_user :: string
  co_uplink_total :: int
  co_downlink_total :: int
  co_source :: string
  co_inbound :: string

type_synonym connection_event = "int \<times> connection option"

type_synonym conn_snapshot = "(string \<times> string \<times> int \<times> int) list"

record traffic_state =
  ts_prev_total :: "(int \<times> int) option"
  ts_prev_conns :: conn_snapshot

definition CONNECTION_EVENT_CLOSED :: int where "CONNECTION_EVENT_CLOSED = 2"

definition counter_delta :: "int \<Rightarrow> int \<Rightarrow> int" where
  "counter_delta cur prev = max 0 (sat64 (cur - prev))"

definition total_delta :: "(int \<times> int) option \<Rightarrow> int \<times> int \<Rightarrow> int \<times> int" where
  "total_delta prev cur =
     (case prev of
        Some (up, down) \<Rightarrow> (counter_delta (fst cur) up, counter_delta (snd cur) down)
      | None \<Rightarrow> cur)"

definition snapshot_event :: "connection_event \<Rightarrow> conn_snapshot \<Rightarrow> conn_snapshot" where
  "snapshot_event e s =
     (case e of (ty, conn) \<Rightarrow>
        if ty = CONNECTION_EVENT_CLOSED then s
        else
          (case conn of
             None \<Rightarrow> s
           | Some c \<Rightarrow>
               if co_user c = [] then s
               else AList.update (co_id c) (co_user c, co_uplink_total c, co_downlink_total c) s))"

definition connection_snapshot :: "connection_event list \<Rightarrow> conn_snapshot" where
  "connection_snapshot events = fold snapshot_event events []"

definition conn_delta :: "conn_snapshot \<Rightarrow> string \<Rightarrow> int \<Rightarrow> int \<Rightarrow> int \<times> int" where
  "conn_delta prev i up down =
     (case map_of prev i of
        Some (_, pu, pd) \<Rightarrow> (counter_delta up pu, counter_delta down pd)
      | None \<Rightarrow> (up, down))"

definition user_delta ::
    "conn_snapshot \<Rightarrow> string \<times> string \<times> int \<times> int \<Rightarrow> (string \<times> int \<times> int) list \<Rightarrow> (string \<times> int \<times> int) list" where
  "user_delta prev c acc =
     (case c of (i, user, up, down) \<Rightarrow>
        (case conn_delta prev i up down of (dup, ddown) \<Rightarrow>
           if dup = 0 \<and> ddown = 0 then acc
           else (let (u, d) = unwrap_or (map_of acc user) (0, 0)
                 in AList.update user (wrap64 (u + dup), wrap64 (d + ddown)) acc)))"

definition user_deltas :: "conn_snapshot \<Rightarrow> conn_snapshot \<Rightarrow> (string \<times> int \<times> int) list" where
  "user_deltas prev snapshot = fold (user_delta prev) snapshot []"

section \<open>The traffic report\<close>

type_synonym traffic_sample = "inbound_traffic list \<times> user_traffic list"

definition node_traffic :: "string \<Rightarrow> int \<times> int \<Rightarrow> inbound_traffic list" where
  "node_traffic tag d =
     (if fst d > 0 \<or> snd d > 0
      then [\<lparr>it_tag = tag, it_upload_bytes = fst d, it_download_bytes = snd d\<rparr>] else [])"

text \<open>\<open>answer\<close> is what the gRPC interface gives: the totals and the first list of connections.\<close>

definition singbox_traffic_grpc ::
    "string + (int \<times> int) \<times> connection_event list \<Rightarrow> traffic_state \<Rightarrow> (string + traffic_sample) \<times> traffic_state" where
  "singbox_traffic_grpc answer st =
     (case answer of
        Inl e \<Rightarrow> (Inl e, st)
      | Inr (totals, events) \<Rightarrow>
          (let snapshot = connection_snapshot events
           in (Inr (node_traffic ''sing-box'' (total_delta (ts_prev_total st) totals),
                    map (\<lambda>(user, up, down). \<lparr>ut_client_id = user, ut_upload_bytes = up, ut_download_bytes = down\<rparr>)
                      (user_deltas (ts_prev_conns st) snapshot)),
               st\<lparr>ts_prev_total := Some totals, ts_prev_conns := snapshot\<rparr>)))"

definition http_inbound :: "string \<times> json \<Rightarrow> inbound_traffic list" where
  "http_inbound e =
     (let up = unwrap_or (Option.bind (jget (snd e) ''upload'') as_i64) 0;
          down = unwrap_or (Option.bind (jget (snd e) ''download'') as_i64) 0
      in node_traffic (fst e) (up, down))"

definition http_user :: "json \<Rightarrow> user_traffic list" where
  "http_user u =
     (let client_id = unwrap_or (Option.bind (or_else (jget u ''uuid'') (jget u ''email'')) as_str) [];
          up = unwrap_or (Option.bind (jget u ''upload'') as_i64) 0;
          down = unwrap_or (Option.bind (jget u ''download'') as_i64) 0
      in if client_id \<noteq> [] \<and> (up > 0 \<or> down > 0)
         then [\<lparr>ut_client_id = client_id, ut_upload_bytes = up, ut_download_bytes = down\<rparr>] else [])"

definition singbox_traffic_http :: "string + json \<Rightarrow> string + traffic_sample" where
  "singbox_traffic_http answer =
     rbind answer (\<lambda>body. Inr
       (concat (map http_inbound (unwrap_or (Option.bind (jget body ''inbounds'') as_object) [])),
        concat (map http_user (unwrap_or (get_array body ''users'') []))))"

definition collect_singbox_traffic ::
    "string + (int \<times> int) \<times> connection_event list \<Rightarrow> string + json \<Rightarrow> traffic_state
       \<Rightarrow> (string + traffic_sample) \<times> traffic_state" where
  "collect_singbox_traffic grpc http st =
     (case singbox_traffic_grpc grpc st of
        (Inr r, st) \<Rightarrow> (Inr r, st) | (Inl _, st) \<Rightarrow> (singbox_traffic_http http, st))"

definition parse_traffic_sample :: "platform \<Rightarrow> string \<Rightarrow> (int \<times> int) option" where
  "parse_traffic_sample pl buf =
     (if \<not> pf_utf8 pl buf then None
      else
        (case pf_parse pl (case split_once (CHR 0x0A) buf of Some (l, _) \<Rightarrow> l | None \<Rightarrow> buf) of
           Inl _ \<Rightarrow> None
         | Inr v \<Rightarrow>
             Option.bind (Option.bind (jget v ''up'') as_i64) (\<lambda>up.
             map_option (\<lambda>down. (up, down)) (Option.bind (jget v ''down'') as_i64))))"

text \<open>The chunks of the streamed answer; an error ends it, and so does its end.\<close>

fun read_first_traffic_sample :: "platform \<Rightarrow> string \<Rightarrow> (string + string) list \<Rightarrow> string + int \<times> int" where
  "read_first_traffic_sample pl buf chunks =
     (if length buf \<ge> 8192 then Inl ''mihomo traffic sample exceeded 8 KiB''
      else
        (case chunks of
           [] \<Rightarrow> Inl ''mihomo traffic stream closed before sample''
         | Inl e # _ \<Rightarrow> Inl (''mihomo traffic stream: '' @ e)
         | Inr c # cs \<Rightarrow>
             (case parse_traffic_sample pl (buf @ c) of
                Some s \<Rightarrow> Inr s | None \<Rightarrow> read_first_traffic_sample pl (buf @ c) cs)))"

declare read_first_traffic_sample.simps [simp del]

definition collect_mihomo_traffic ::
    "platform \<Rightarrow> string + (string + string) list \<Rightarrow> (int \<times> int) option
       \<Rightarrow> (string + traffic_sample) \<times> (int \<times> int) option" where
  "collect_mihomo_traffic pl answer prev =
     (case rbind answer (read_first_traffic_sample pl []) of
        Inl e \<Rightarrow> (Inl e, prev)
      | Inr totals \<Rightarrow> (Inr (node_traffic ''mihomo'' (total_delta prev totals), []), Some totals))"

text \<open>The two cores' samples of one period, and the report made of them.\<close>

definition ok_sample :: "string + traffic_sample \<Rightarrow> traffic_sample" where
  "ok_sample r = (case r of Inr s \<Rightarrow> s | Inl _ \<Rightarrow> ([], []))"

definition collect_traffic_report :: "string + traffic_sample \<Rightarrow> string + traffic_sample \<Rightarrow> agent_message" where
  "collect_traffic_report sb mh =
     Traffic (fst (ok_sample sb) @ fst (ok_sample mh)) (snd (ok_sample sb) @ snd (ok_sample mh))"

section \<open>Users on line\<close>

record live_user =
  lu_client_id :: string
  lu_ip_address :: string
  lu_inbound_tag :: "string option"

definition grpc_user :: "connection_event \<Rightarrow> live_user list" where
  "grpc_user e =
     (case e of (ty, conn) \<Rightarrow>
        if ty = CONNECTION_EVENT_CLOSED then []
        else
          (case conn of
             None \<Rightarrow> []
           | Some c \<Rightarrow>
               if co_user c = [] then []
               else [\<lparr>lu_client_id = co_user c, lu_ip_address = co_source c, lu_inbound_tag = Some (co_inbound c)\<rparr>]))"

text \<open>An answer that is missing, refused or no JSON is the empty list.\<close>

definition http_connections :: "string + json \<Rightarrow> json list" where
  "http_connections answer = (case answer of Inl _ \<Rightarrow> [] | Inr body \<Rightarrow> unwrap_or (get_array body ''connections'') [])"

definition singbox_live_user :: "json \<Rightarrow> live_user list" where
  "singbox_live_user conn =
     (let metadata = jget conn ''metadata'';
          of_key = (\<lambda>k. Option.bind metadata (\<lambda>m. get_str m k));
          email = unwrap_or (of_key ''user'') []
      in if email = [] then []
         else [\<lparr>lu_client_id = email, lu_ip_address = unwrap_or (of_key ''sourceIP'') ''0.0.0.0'',
                lu_inbound_tag = of_key ''inbound''\<rparr>])"

definition query_singbox_online_users ::
    "string + connection_event list \<Rightarrow> string + json \<Rightarrow> live_user list" where
  "query_singbox_online_users grpc http =
     (case grpc of
        Inr events \<Rightarrow> concat (map grpc_user events)
      | Inl _ \<Rightarrow> concat (map singbox_live_user (http_connections http)))"

definition mihomo_live_user :: "json \<Rightarrow> live_user list" where
  "mihomo_live_user conn =
     (case jget conn ''metadata'' of
        None \<Rightarrow> []
      | Some m \<Rightarrow>
          (let user = unwrap_or (get_str m ''inboundUser'') []
           in if user = [] then []
              else [\<lparr>lu_client_id = user, lu_ip_address = unwrap_or (get_str m ''sourceIP'') ''0.0.0.0'',
                     lu_inbound_tag = get_str m ''inboundName''\<rparr>]))"

definition query_mihomo_online_users :: "string + json \<Rightarrow> live_user list" where
  "query_mihomo_online_users answer = concat (map mihomo_live_user (http_connections answer))"

definition query_all_online_users ::
    "string + connection_event list \<Rightarrow> string + json \<Rightarrow> string + json \<Rightarrow> live_user list" where
  "query_all_online_users grpc http mihomo =
     query_singbox_online_users grpc http @ query_mihomo_online_users mihomo"

definition collect_online_users :: "live_user list \<Rightarrow> online_user list" where
  "collect_online_users users =
     map (\<lambda>u. \<lparr>ou_client_id = lu_client_id u, ou_ip_address = lu_ip_address u,
               ou_inbound_tag = unwrap_or (lu_inbound_tag u) []\<rparr>) users"

end
