(* ===== verification/AgentProcs.thy ===== *)
theory AgentProcs
  imports AgentReports
begin

text \<open>
  Which operations of the agent start and end processes, and the invariant that every running core
  belongs to its manager.
\<close>

section \<open>Operations on files leave the processes alone\<close>

definition same_procs :: "machine \<Rightarrow> machine \<Rightarrow> bool" where
  "same_procs m m' \<longleftrightarrow> m_procs m' = m_procs m \<and> m_next_pid m' = m_next_pid m"

lemma same_procs_refl [simp]: "same_procs m m"
  by (simp add: same_procs_def)

lemma same_procs_trans [trans]: "same_procs m m' \<Longrightarrow> same_procs m' m'' \<Longrightarrow> same_procs m m''"
  by (simp add: same_procs_def)

lemma put_file_procs [simp]: "same_procs m (put_file now p s m)"
  by (simp add: same_procs_def put_file_def)

lemma write_file_procs: "write_file pl now p s m = Some m' \<Longrightarrow> same_procs m m'"
  by (auto simp: write_file_def split: if_splits)

lemma remove_file_procs: "remove_file pl p m = Some m' \<Longrightarrow> same_procs m m'"
  by (auto simp: remove_file_def drop_file_def same_procs_def split: if_splits)

lemma try_remove_procs [simp]: "same_procs m (try_remove pl p m)"
  by (cases "remove_file pl p m") (auto simp: try_remove_def unwrap_or_def dest: remove_file_procs)

lemma rename_file_procs: "rename_file pl p q m = Some m' \<Longrightarrow> same_procs m m'"
  by (auto simp: rename_file_def same_procs_def split: option.splits if_splits)

lemma set_mode_procs: "set_mode pl f p m = Some m' \<Longrightarrow> same_procs m m'"
  by (auto simp: set_mode_def same_procs_def split: option.splits if_splits)

lemma make_dir_procs: "make_dir pl d m = Some m' \<Longrightarrow> same_procs m m'"
  by (auto simp: make_dir_def same_procs_def split: if_splits)

lemmas file_procs = write_file_procs remove_file_procs rename_file_procs set_mode_procs make_dir_procs

lemma http_get_procs: "http_get pl url m = (a, m') \<Longrightarrow> same_procs m m'"
  by (auto simp: http_get_def same_procs_def)

lemma download_file_procs: "download_file pl now url dest m = (r, m') \<Longrightarrow> same_procs m m'"
  by (auto simp: download_file_def split: prod.splits http_answer.splits if_splits option.splits
      dest!: http_get_procs write_file_procs intro: same_procs_trans)

lemma try_tags_procs: "try_tags pl core version asset tags m = (r, m') \<Longrightarrow> same_procs m m'"
proof (induction pl core version asset tags m rule: try_tags.induct)
  case (2 pl core version asset tag tags m)
  obtain a m1 where a: "http_get pl (api_url core (''/releases/tags/'' @ tag)) m = (a, m1)" by fastforce
  note m1 = http_get_procs [OF a]
  show ?case
    using 2 a m1 by (auto split: option.splits if_splits sum.splits intro: same_procs_trans)
qed simp

lemma download_with_fallback_procs:
  "download_with_fallback pl now url core version asset dest m = (r, m') \<Longrightarrow> same_procs m m'"
  unfolding download_with_fallback_def resolve_asset_url_def
  by (auto simp del: try_tags.simps split: prod.splits sum.splits dest!: download_file_procs try_tags_procs
      intro: same_procs_trans)

lemma zip_entries_procs: "zip_entries pl now p dest found es m = (r, m') \<Longrightarrow> same_procs m m'"
  by (induction pl now p dest found es m rule: zip_entries.induct)
    (auto split: if_splits option.splits dest!: write_file_procs intro: same_procs_trans)

lemma extract_procs:
  "extract_tgz pl now archive d target m = (r, m') \<Longrightarrow> same_procs m m'"
  "extract_zip pl now archive d target m = (r', m') \<Longrightarrow> same_procs m m'"
  "extract_gzip pl now archive d target m = (r'', m') \<Longrightarrow> same_procs m m'"
  unfolding extract_tgz_def extract_zip_def extract_gzip_def Let_def
  by (auto split: option.splits sum.splits prod.splits if_splits dest!: write_file_procs zip_entries_procs
      intro: same_procs_trans)

lemma install_attempt_procs:
  assumes "install_attempt pl now d core version url asset target tmp m = (r, m')"
  shows "same_procs m m'"
  using assms unfolding install_attempt_def extract_archive_def
  by (auto split: prod.splits sum.splits if_splits dest!: download_with_fallback_procs extract_procs
      intro: same_procs_trans)

lemma install_attempts_procs:
  assumes "install_attempts n f e m = (r, m')" and "\<And>m r m'. f m = (r, m') \<Longrightarrow> same_procs m m'"
  shows "same_procs m m'"
  using assms(1)
  by (induction n arbitrary: e m) (auto split: prod.splits sum.splits dest!: assms(2) intro: same_procs_trans)

lemma set_executable_procs: "set_executable pl p m = (r, m') \<Longrightarrow> same_procs m m'"
  by (auto simp: set_executable_def split: if_splits option.splits dest: set_mode_procs)

lemma install_core_procs:
  assumes "install_core pl now d core version m = (r, m')"
  shows "same_procs m m'"
  using assms unfolding install_core_def Let_def
  by (auto split: sum.splits prod.splits option.splits
      dest!: make_dir_procs install_attempts_procs [OF _ install_attempt_procs] set_executable_procs
      intro: same_procs_trans [OF _ same_procs_trans [OF _ try_remove_procs]]
        same_procs_trans [OF _ same_procs_trans [OF _ same_procs_trans [OF try_remove_procs]]])

lemma resolve_version_procs: "resolve_version pl core m = (r, m') \<Longrightarrow> same_procs m m'"
  by (auto simp: resolve_version_def fetch_latest_version_def split: option.splits prod.splits dest!: http_get_procs)

lemma ensure_core_binary_procs:
  assumes "ensure_core_binary pl now d core version m = (r, m')"
  shows "same_procs m m'"
  using assms unfolding ensure_core_binary_def
  by (auto split: if_splits prod.splits sum.splits option.splits dest!: resolve_version_procs install_core_procs
      intro: same_procs_trans)

lemma or_same_procs: "(\<And>m'. f = Some m' \<Longrightarrow> same_procs m m') \<Longrightarrow> same_procs m (unwrap_or f m)"
  by (cases f) (auto simp: unwrap_or_def)

lemma finish_build_procs:
  "same_procs m m' \<Longrightarrow> same_procs m (snd (finish_build pl now mark expected binary backup has (r, m')))"
  by (auto simp: finish_build_def Let_def split: sum.splits option.splits
      dest!: write_file_procs intro!: same_procs_trans [OF _ or_same_procs [OF rename_file_procs]]
      intro: same_procs_trans [OF _ same_procs_trans [OF try_remove_procs]] same_procs_trans [OF _ try_remove_procs])

lemma ensure_core_build_procs: "same_procs m (snd (ensure_core_build pl now d core version b m))"
proof -
  have install: "same_procs m (snd (finish_build pl now mark expected binary backup has (ensure_core_binary pl now d core v m1)))"
    if "same_procs m m1" for mark expected binary backup has v m1
  proof -
    obtain r m2 where r: "ensure_core_binary pl now d core v m1 = (r, m2)" by fastforce
    with that show ?thesis by (auto intro!: finish_build_procs intro: same_procs_trans ensure_core_binary_procs)
  qed
  have "same_procs m m1" if "set_aside pl binary backup m = Some m1" for binary backup m1
    using that by (auto simp: set_aside_def split: if_splits dest: rename_file_procs)
  then show ?thesis
    by (auto simp: ensure_core_build_def Let_def split: option.split intro!: install)
qed

lemma load_last_configs_procs: "load_last_configs pl d m = (cs, m') \<Longrightarrow> same_procs m m'"
proof -
  have "same_procs m (migrate_legacy_snapshot pl d m)"
    by (cases "load_one pl (legacy_path d) m")
      (auto simp: migrate_legacy_snapshot_def unwrap_or_def split: sum.splits option.splits dest: rename_file_procs)
  then show "load_last_configs pl d m = (cs, m') \<Longrightarrow> same_procs m m'"
    by (auto simp: load_last_configs_def Let_def)
qed

lemma save_last_config_procs: "same_procs m (snd (save_last_config pl now d core config v m))"
  unfolding save_last_config_def Let_def
  by (auto split: option.splits dest!: file_procs intro: same_procs_trans)

lemma issue_certificate_procs: "issue_certificate pl now d acme i domain m = (r, m') \<Longrightarrow> same_procs m m'"
  unfolding issue_certificate_def
  by (auto split: sum.splits option.splits dest!: file_procs elim!: same_procs_trans)

end
