(* ===== verification/AgentInv.thy ===== *)
theory AgentInv
  imports AgentProcs
begin

text \<open>
  Every running core of an agent is the process of its manager: the states the agent reaches, and the
  invariant they keep.
\<close>

section \<open>Running programs\<close>

definition pids_ok :: "machine \<Rightarrow> bool" where
  "pids_ok m \<longleftrightarrow> fst ` set (m_procs m) \<subseteq> {..<m_next_pid m}"

lemma exe_same_procs: "same_procs m m' \<Longrightarrow> process_exe_path pid m' = process_exe_path pid m"
  by (simp add: same_procs_def process_exe_path_def)

lemma pids_same_procs: "same_procs m m' \<Longrightarrow> pids_ok m \<Longrightarrow> pids_ok m'"
  by (simp add: same_procs_def pids_ok_def)

lemma next_same_procs: "same_procs m m' \<Longrightarrow> m_next_pid m' = m_next_pid m"
  by (simp add: same_procs_def)

lemma exe_end_process [simp]:
  "process_exe_path pid (end_process code k m) = (if pid = k then None else process_exe_path pid m)"
  by (auto simp: end_process_def process_exe_path_def update_conv' split: option.splits)

lemma end_process_pids [simp]: "pids_ok (end_process code k m) = pids_ok m"
proof (cases "map_of (m_procs m) k")
  case (Some p)
  then have "k \<in> fst ` set (m_procs m)" by (metis map_of_eq_None_iff option.distinct(1))
  with Some show ?thesis
    by (auto simp add: end_process_def pids_ok_def dom_update simp del: image_subset_iff)
qed (simp add: end_process_def)

lemma end_process_next [simp]: "m_next_pid (end_process code k m) = m_next_pid m"
  by (simp add: end_process_def split: option.split)

lemma exe_new_process:
  assumes "pids_ok m"
  shows "process_exe_path pid (new_process exe cfg ex m)
    = (if pid = m_next_pid m then (if ex = None then Some exe else None) else process_exe_path pid m)"
proof -
  have "map_of (m_procs m) (m_next_pid m) = None"
    using assms by (auto simp: pids_ok_def map_of_eq_None_iff)
  then show ?thesis
    by (auto simp: new_process_def process_exe_path_def map_add_def split: option.split)
qed

lemma new_process_pids [simp]: "pids_ok m \<Longrightarrow> pids_ok (new_process exe cfg ex m)"
  by (auto simp: pids_ok_def new_process_def less_Suc_eq)

lemma new_process_next [simp]: "m_next_pid (new_process exe cfg ex m) = Suc (m_next_pid m)"
  by (simp add: new_process_def)

lemma reap_stale_frame:
  "pids_ok (reap_stale pl p b m) = pids_ok m" "m_next_pid (reap_stale pl p b m) = m_next_pid m"
  "process_exe_path pid (reap_stale pl p b m) = Some e \<Longrightarrow> process_exe_path pid m = Some e"
proof -
  have removed: "pids_ok (try_remove pl p m') = pids_ok m'" "m_next_pid (try_remove pl p m') = m_next_pid m'"
    "process_exe_path pid (try_remove pl p m') = process_exe_path pid m'" for m'
    using try_remove_procs [of m' pl p] by (simp_all add: same_procs_def pids_ok_def process_exe_path_def)
  show "pids_ok (reap_stale pl p b m) = pids_ok m" "m_next_pid (reap_stale pl p b m) = m_next_pid m"
    by (simp_all add: reap_stale_def removed kill_process_def split: option.split)
  show "process_exe_path pid m = Some e" if "process_exe_path pid (reap_stale pl p b m) = Some e"
    using that by (auto simp: reap_stale_def removed kill_process_def split: option.splits if_splits)
qed

section \<open>One operation of a manager\<close>

definition core_step :: "manager \<Rightarrow> machine \<Rightarrow> manager \<Rightarrow> machine \<Rightarrow> bool" where
  "core_step g m g' m' \<longleftrightarrow>
     mg_binary g' = mg_binary g \<and> pids_ok m' \<and> m_next_pid m \<le> m_next_pid m'
     \<and> (\<forall>pid. mg_process g' = Some pid \<longrightarrow> mg_process g = Some pid \<or> (m_next_pid m \<le> pid \<and> pid < m_next_pid m'))
     \<and> (\<forall>pid exe. process_exe_path pid m' = Some exe \<longrightarrow>
          (mg_process g' = Some pid \<and> exe = mg_binary g \<and> (m_next_pid m \<le> pid \<or> process_exe_path pid m = Some exe))
          \<or> (mg_process g \<noteq> Some pid \<and> process_exe_path pid m = Some exe))"

lemma core_stepD:
  assumes "core_step g m g' m'"
  shows "mg_binary g' = mg_binary g" "pids_ok m'" "m_next_pid m \<le> m_next_pid m'"
    "mg_process g' = Some pid \<Longrightarrow> mg_process g = Some pid \<or> (m_next_pid m \<le> pid \<and> pid < m_next_pid m')"
    "process_exe_path pid m' = Some exe \<Longrightarrow>
      (mg_process g' = Some pid \<and> exe = mg_binary g \<and> (m_next_pid m \<le> pid \<or> process_exe_path pid m = Some exe))
      \<or> (mg_process g \<noteq> Some pid \<and> process_exe_path pid m = Some exe)"
  using assms unfolding core_step_def by simp_all

text \<open>What a manager knows of its process before the operation.\<close>

definition core_ready :: "manager \<Rightarrow> machine \<Rightarrow> bool" where
  "core_ready g m \<longleftrightarrow> pids_ok m
     \<and> (\<forall>pid exe. mg_process g = Some pid \<longrightarrow> process_exe_path pid m = Some exe \<longrightarrow> exe = mg_binary g)"

lemma core_step_refl: "core_ready g m \<Longrightarrow> core_step g m g m"
  by (auto simp: core_step_def core_ready_def)

lemma core_step_files:
  assumes "core_step g m g' m'" and "same_procs m' m''" and "mg_process g'' = mg_process g'" and "mg_binary g'' = mg_binary g'"
  shows "core_step g m g'' m''"
proof -
  have "process_exe_path pid m'' = process_exe_path pid m'" for pid using assms(2) by (rule exe_same_procs)
  moreover have "m_next_pid m'' = m_next_pid m'" using assms(2) by (rule next_same_procs)
  ultimately show ?thesis
    using assms(1,3,4) pids_same_procs [OF assms(2)] by (simp add: core_step_def)
qed

text \<open>Whether a process has started can be seen.\<close>

definition spawns_seen :: "platform \<Rightarrow> bool" where
  "spawns_seen pl \<longleftrightarrow> (\<forall>b f t e. pf_spawn pl b f t \<noteq> Unchecked e)"

lemma launch_step:
  assumes "launch pl core now bin text g m1 = (r, g', m')" and "spawns_seen pl" and "mg_process g = None" and "pids_ok m1"
    and live: "\<And>pid e. process_exe_path pid m1 = Some e \<Longrightarrow> process_exe_path pid m = Some e"
    and "m_next_pid m1 = m_next_pid m"
  shows "core_step g m g' m'"
proof (cases "pf_spawn pl (mg_binary g) bin text")
  case (SpawnFails e)
  with assms show ?thesis by (auto simp: launch_def fail_with_def Let_def core_step_def)
next
  case (Exits code lines)
  with assms show ?thesis
    by (auto simp: launch_def fail_with_def Let_def core_step_def exe_new_process split: if_splits)
next
  case (Unchecked e)
  with assms(2) show ?thesis by (auto simp: spawns_seen_def)
next
  case Runs
  let ?m = "new_process (mg_binary g) text None m1"
  have "core_step g m (g\<lparr>mg_process := Some (m_next_pid m1)\<rparr>) ?m"
    using assms(3-6) by (auto simp: core_step_def exe_new_process split: if_splits)
  moreover have "same_procs ?m (write_pid_file pl now p pid b ?m)" for p pid b
    unfolding write_pid_file_def by (rule or_same_procs) (rule write_file_procs)
  ultimately show ?thesis
    using assms(1) Runs by (auto simp: launch_def Let_def intro: core_step_files)
qed

lemma start_step:
  assumes "core_start pl core now config g m = (r, g', m')" and "spawns_seen pl" and "core_ready g m"
  shows "core_step g m g' m'"
proof -
  have same: ?thesis if "g' = g \<or> (\<exists>e. g' = g\<lparr>mg_last_error := e\<rparr>)" and "m' = m"
    using that core_step_refl [OF assms(3)] by (auto intro: core_step_files)
  show ?thesis
  proof (cases "file_at (mg_binary g) m")
    case None
    with assms(1) same show ?thesis by (auto simp: core_start_def fail_with_def)
  next
    case bin: (Some bin)
    show ?thesis
    proof (cases "mg_process g")
      case (Some pid)
      with bin assms(1) same show ?thesis by (auto simp: core_start_def)
    next
      case None
      show ?thesis
      proof (cases "config_text pl core config")
        case (Inl e)
        with bin None assms(1) same show ?thesis by (auto simp: core_start_def)
      next
        case (Inr body)
        show ?thesis
        proof (cases "write_file pl now (config_path core g) body m")
          case unwritten: None
          with bin None Inr assms(1) same show ?thesis by (auto simp: core_start_def fail_with_def)
        next
          case (Some m1)
          note w = write_file_procs [OF this]
          let ?m = "reap_stale pl (pid_path core g) (mg_binary g) m1"
          have "launch pl core now bin body g ?m = (r, g', m')"
            using assms(1) unfolding core_start_def bin None Inr by (simp add: Some)
          then show ?thesis
          proof (rule launch_step [OF _ assms(2) None])
            show "pids_ok ?m" using assms(3) pids_same_procs [OF w] by (simp add: reap_stale_frame(1) core_ready_def)
            show "m_next_pid ?m = m_next_pid m" by (simp add: reap_stale_frame(2) next_same_procs [OF w])
            show "process_exe_path pid m = Some e" if "process_exe_path pid ?m = Some e" for pid e
              using reap_stale_frame(3) [OF that] by (simp add: exe_same_procs [OF w])
          qed
        qed
      qed
    qed
  qed
qed

lemma stop_step:
  assumes "core_stop pl core g m = (g', m')" and "core_ready g m"
  shows "core_step g m g' m'" and "mg_process g' = None"
proof -
  let ?m = "case mg_process g of Some pid \<Rightarrow> kill_process pid m | None \<Rightarrow> m"
  have m': "m' = try_remove pl (pid_path core g) ?m" and g': "mg_process g' = None" "mg_binary g' = mg_binary g"
    using assms(1) by (auto simp: core_stop_def Let_def pid_path_def split: option.splits)
  have "core_step g m (g\<lparr>mg_process := None\<rparr>) ?m"
    using assms(2) by (auto simp: core_step_def core_ready_def kill_process_def split: option.splits if_splits)
  then show "core_step g m g' m'" using g' by (auto simp: m' intro: core_step_files)
  show "mg_process g' = None" by (rule g')
qed

lemma core_step_trans:
  assumes "core_step g m g1 m1" and "core_step g1 m1 g2 m2" and "mg_process g1 = None"
  shows "core_step g m g2 m2"
  unfolding core_step_def
proof (intro conjI allI impI)
  fix pid exe
  assume live: "process_exe_path pid m2 = Some exe"
  note bin = core_stepD(1) [OF assms(1)] and nxt = core_stepD(3) [OF assms(1)]
  have old: "mg_process g \<noteq> Some pid \<and> process_exe_path pid m = Some exe" if "process_exe_path pid m1 = Some exe"
    using core_stepD(5) [OF assms(1) that] assms(3) by simp
  from core_stepD(5) [OF assms(2) live] bin nxt old
  show "mg_process g2 = Some pid \<and> exe = mg_binary g \<and> (m_next_pid m \<le> pid \<or> process_exe_path pid m = Some exe)
      \<or> mg_process g \<noteq> Some pid \<and> process_exe_path pid m = Some exe"
    by (metis order_trans)
next
  fix pid
  assume p: "mg_process g2 = Some pid"
  from core_stepD(4) [OF assms(2) p] assms(3) core_stepD(3) [OF assms(1)]
  show "mg_process g = Some pid \<or> m_next_pid m \<le> pid \<and> pid < m_next_pid m2" by simp
qed (simp_all add: core_stepD(1,2) [OF assms(2)] core_stepD(1) [OF assms(1)]
      order_trans [OF core_stepD(3) [OF assms(1)] core_stepD(3) [OF assms(2)]])

lemma core_step_ready: "core_step g m g' m' \<Longrightarrow> mg_process g' = None \<Longrightarrow> core_ready g' m'"
  by (simp add: core_step_def core_ready_def)

lemma restart_step:
  assumes "core_restart pl core now config g m = (r, g', m')" and "spawns_seen pl" and "core_ready g m"
  shows "core_step g m g' m'"
proof -
  obtain g1 m1 where s: "core_stop pl core g m = (g1, m1)" by fastforce
  with assms(1) have "core_start pl core now config g1 m1 = (r, g', m')" by (simp add: core_restart_def)
  with stop_step [OF s assms(3)] assms(2) show ?thesis
    by (blast intro: core_step_trans start_step core_step_ready)
qed

lemma reload_step:
  assumes "core_reload pl core now config g m = (r, g', m')" and "spawns_seen pl" and "core_ready g m"
  shows "core_step g m g' m'"
proof (cases core)
  case SingBox
  with assms(1) core_step_refl [OF assms(3)] show ?thesis
    by (auto simp: Let_def split: option.splits sum.splits dest!: write_file_procs intro: core_step_files)
next
  case Mihomo
  with assms restart_step show ?thesis by simp
qed

lemma running_step:
  assumes "core_is_running pl core g m = (b, g', m')" and "core_ready g m"
  shows "core_step g m g' m'"
proof (cases "g' = g \<and> m' = m")
  case True
  with core_step_refl [OF assms(2)] show ?thesis by simp
next
  case False
  with assms(1) obtain pid where pid: "mg_process g = Some pid" "process_exe_path pid m = None"
    and g': "mg_process g' = None" "mg_binary g' = mg_binary g" and m': "m' = try_remove pl (pid_path core g) m"
    by (auto simp: core_is_running_def process_exe_path_def split: option.splits)
  from pid assms(2) have "core_step g m (g\<lparr>mg_process := None\<rparr>) m"
    by (auto simp: core_step_def core_ready_def)
  with g' show ?thesis by (auto simp: m' intro: core_step_files)
qed

section \<open>The agent\<close>

definition agent_ok :: "agent \<Rightarrow> bool" where
  "agent_ok a \<longleftrightarrow>
     pids_ok (ag_machine a)
     \<and> (\<forall>pid exe. process_exe_path pid (ag_machine a) = Some exe \<longrightarrow>
          (\<exists>core g. manager_of core a = Some g \<and> mg_process g = Some pid \<and> mg_binary g = exe))
     \<and> (\<forall>core g pid. manager_of core a = Some g \<longrightarrow> mg_process g = Some pid \<longrightarrow> pid < m_next_pid (ag_machine a))
     \<and> (\<forall>core g pid exe. manager_of core a = Some g \<longrightarrow> mg_process g = Some pid \<longrightarrow>
          process_exe_path pid (ag_machine a) = Some exe \<longrightarrow> mg_binary g = exe)"

lemma agent_okD:
  assumes "agent_ok a"
  shows "pids_ok (ag_machine a)"
    "process_exe_path pid (ag_machine a) = Some exe \<Longrightarrow>
      \<exists>core g. manager_of core a = Some g \<and> mg_process g = Some pid \<and> mg_binary g = exe"
    "manager_of core a = Some g \<Longrightarrow> mg_process g = Some pid \<Longrightarrow> pid < m_next_pid (ag_machine a)"
    "manager_of core a = Some g \<Longrightarrow> mg_process g = Some pid \<Longrightarrow> process_exe_path pid (ag_machine a) = Some exe
      \<Longrightarrow> mg_binary g = exe"
  using assms unfolding agent_ok_def by blast+

lemma manager_register [simp]:
  "manager_of c (register_manager core g a) = (if c = core then Some g else manager_of c a)"
  "ag_machine (register_manager core g a) = ag_machine a"
  by (auto simp: manager_of_def register_manager_def update_conv')

lemma manager_fields [simp]:
  "manager_of c (a\<lparr>ag_machine := m\<rparr>) = manager_of c a" "manager_of c (a\<lparr>ag_sent := ms\<rparr>) = manager_of c a"
  "manager_of c (a\<lparr>ag_issues := is\<rparr>) = manager_of c a" "manager_of c (a\<lparr>ag_exited := b\<rparr>) = manager_of c a"
  by (simp_all add: manager_of_def)

lemma put_core_simps [simp]:
  "manager_of c (put_core core g m a) = (if c = core then Some g else manager_of c a)"
  "ag_machine (put_core core g m a) = m"
  by (simp_all add: put_core_def)

lemma live_pid: "pids_ok m \<Longrightarrow> process_exe_path pid m = Some exe \<Longrightarrow> pid < m_next_pid m"
  by (force simp: pids_ok_def process_exe_path_def split: option.splits dest: map_of_SomeD)

lemma core_ready_of: "agent_ok a \<Longrightarrow> manager_of core a = Some g \<Longrightarrow> core_ready g (ag_machine a)"
  unfolding core_ready_def by (blast dest: agent_okD)

lemma put_core_ok:
  assumes a: "agent_ok a" "manager_of core a = Some g" and st: "core_step g (ag_machine a) g' m'"
  shows "agent_ok (put_core core g' m' a)"
proof -
  let ?m = "ag_machine a"
  have owner: "\<exists>c h. manager_of c (put_core core g' m' a) = Some h \<and> mg_process h = Some pid \<and> mg_binary h = exe"
    if live: "process_exe_path pid m' = Some exe" for pid exe
    using core_stepD(5) [OF st live]
  proof
    assume "mg_process g' = Some pid \<and> exe = mg_binary g \<and> (m_next_pid ?m \<le> pid \<or> process_exe_path pid ?m = Some exe)"
    then show ?thesis using core_stepD(1) [OF st] by (intro exI [of _ core] exI [of _ g']) simp
  next
    assume other: "mg_process g \<noteq> Some pid \<and> process_exe_path pid ?m = Some exe"
    then obtain c h where h: "manager_of c a = Some h" "mg_process h = Some pid" "mg_binary h = exe"
      using agent_okD(2) [OF a(1)] by blast
    with other a(2) have "c \<noteq> core" by auto
    with h show ?thesis by (intro exI [of _ c] exI [of _ h]) simp
  qed
  have bound: "pid < m_next_pid m'"
    if "manager_of c (put_core core g' m' a) = Some h" "mg_process h = Some pid" for c h pid
  proof (cases "c = core")
    case True
    with that have "mg_process g' = Some pid" by simp
    from core_stepD(4) [OF st this] agent_okD(3) [OF a] core_stepD(3) [OF st] show ?thesis
      by (auto intro: less_le_trans)
  next
    case False
    with that have "manager_of c a = Some h" by simp
    from agent_okD(3) [OF a(1) this that(2)] core_stepD(3) [OF st] show ?thesis by (rule less_le_trans)
  qed
  have exe: "mg_binary h = exe"
    if h: "manager_of c (put_core core g' m' a) = Some h" "mg_process h = Some pid"
      and live: "process_exe_path pid m' = Some exe" for c h pid exe
  proof (cases "c = core")
    case True
    with h have g': "h = g'" "mg_process g' = Some pid" by simp_all
    have "\<not> (mg_process g \<noteq> Some pid \<and> process_exe_path pid ?m = Some exe)"
      using core_stepD(4) [OF st g'(2)] live_pid [OF agent_okD(1) [OF a(1)]] by force
    with core_stepD(5) [OF st live] core_stepD(1) [OF st] g' show ?thesis by simp
  next
    case False
    with h have h': "manager_of c a = Some h" by simp
    have "process_exe_path pid ?m = Some exe"
      using core_stepD(5) [OF st live] agent_okD(3) [OF a(1) h' h(2)] by auto
    with agent_okD(4) [OF a(1) h' h(2)] show ?thesis by simp
  qed
  show ?thesis
    unfolding agent_ok_def using owner bound exe core_stepD(2) [OF st] by auto
qed

lemma put_running_ok:
  assumes "core_is_running pl core g (ag_machine a) = (run, g', m')" and "agent_ok a" and "manager_of core a = Some g"
  shows "agent_ok (put_core core g' m' a)"
  using assms(2,3) running_step [OF assms(1) core_ready_of [OF assms(2,3)]] by (rule put_core_ok)

lemma files_ok:
  assumes "agent_ok a" and s: "same_procs (ag_machine a) m'"
  shows "agent_ok (a\<lparr>ag_machine := m'\<rparr>)"
  using assms(1) pids_same_procs [OF s]
  by (simp add: agent_ok_def exe_same_procs [OF s] next_same_procs [OF s])

lemma fields_ok [simp]:
  "agent_ok (a\<lparr>ag_sent := ms\<rparr>) = agent_ok a" "agent_ok (a\<lparr>ag_issues := is\<rparr>) = agent_ok a"
  "agent_ok (a\<lparr>ag_exited := b\<rparr>) = agent_ok a" "agent_ok (send msg a) = agent_ok a"
  by (simp_all add: agent_ok_def send_def)

lemma register_ok:
  assumes "agent_ok a" and "manager_of core a = None" and "mg_process g = None"
  shows "agent_ok (register_manager core g a)"
proof -
  have "\<exists>c h. manager_of c (register_manager core g a) = Some h \<and> mg_process h = Some pid \<and> mg_binary h = exe"
    if live: "process_exe_path pid (ag_machine a) = Some exe" for pid exe
  proof -
    obtain c h where "manager_of c a = Some h" "mg_process h = Some pid" "mg_binary h = exe"
      using agent_okD(2) [OF assms(1) live] by blast
    then show ?thesis using assms(2) by (intro exI [of _ c] exI [of _ h]) auto
  qed
  then show ?thesis
    using assms agent_okD(1,3,4) [OF assms(1)] unfolding agent_ok_def by auto
qed

lemma ensure_manager_ok:
  assumes "ensure_manager pl now core d c v a = (r, a')" and "agent_ok a"
  shows "agent_ok a'" and "r = Inr g \<Longrightarrow> manager_of core a' = Some g"
proof -
  consider g where "manager_of core a = Some g" | "manager_of core a = None" by fastforce
  then have "agent_ok a' \<and> (r = Inr g \<longrightarrow> manager_of core a' = Some g)"
  proof cases
    case 1
    with assms show ?thesis by (auto simp: ensure_manager_def)
  next
    case 2
    obtain q m where q: "ensure_core_binary pl now d core v (ag_machine a) = (q, m)" by fastforce
    note ok = files_ok [OF assms(2) ensure_core_binary_procs [OF q]]
    show ?thesis
    proof (cases q)
      case (Inl e)
      with 2 q assms(1) ok show ?thesis by (auto simp: ensure_manager_def)
    next
      case (Inr p)
      then have a': "a' = register_manager core (create_manager pl p c) (a\<lparr>ag_machine := m\<rparr>)"
        and r: "r = Inr (create_manager pl p c)"
        using 2 q assms(1) by (auto simp: ensure_manager_def Let_def)
      have "agent_ok a'"
        unfolding a' by (rule register_ok [OF ok]) (simp_all add: 2 create_manager_def)
      with r show ?thesis by (simp add: a')
    qed
  qed
  then show "agent_ok a'" and "r = Inr g \<Longrightarrow> manager_of core a' = Some g" by auto
qed

lemma get_or_ensure_ok:
  assumes "get_or_ensure pl now core v a = (r, a')" and "agent_ok a"
  shows "agent_ok a'" and "r = Inr g \<Longrightarrow> manager_of core a' = Some g"
  using assms ensure_manager_ok
  by (auto simp: get_or_ensure_def ensure_manager_from_discovered_def split: option.splits)

lemma with_core_ok:
  assumes "with_core core f g a = (r, a')" and "agent_ok a" and "manager_of core a = Some g"
    and "\<And>r g' m'. f g (ag_machine a) = (r, g', m') \<Longrightarrow> core_step g (ag_machine a) g' m'"
  shows "agent_ok a'"
  using assms by (auto simp: with_core_def split: prod.splits intro: put_core_ok)

lemma stop_core_ok: "agent_ok a \<Longrightarrow> agent_ok (stop_core pl core a)"
  by (auto simp: stop_core_def split: option.splits prod.splits
      intro: put_core_ok stop_step(1) [OF _ core_ready_of])

lemma apply_config_ok:
  assumes "apply_config pl now core restart config a = (r, a')" and "agent_ok a" and "spawns_seen pl"
  shows "agent_ok a'"
proof (cases "manager_of core a")
  case None
  with assms show ?thesis by (simp add: apply_config_def)
next
  case (Some g)
  then have "with_core core (\<lambda>g m. if restart then core_restart pl core now config g m else core_reload pl core now config g m)
      g a = (r, a')"
    using assms(1) by (simp add: apply_config_def)
  then show ?thesis
    by (rule with_core_ok [OF _ assms(2) Some])
      (auto split: if_splits intro: restart_step reload_step assms(3) core_ready_of [OF assms(2) Some])
qed

lemma upgrade_core_ok: "agent_ok a \<Longrightarrow> agent_ok (upgrade_core pl now core v b a)"
  by (auto simp: upgrade_core_def split: option.split intro: files_ok ensure_core_build_procs)

lemma apply_push_ok:
  assumes "apply_push pl now d core push config a = (r, a')" and a: "agent_ok a" and pl: "spawns_seen pl"
  shows "agent_ok a'"
proof -
  obtain q a1 where q: "get_or_ensure pl now core (some_text (cp_core_version push)) a = (q, a1)"
    by fastforce
  note ok1 = get_or_ensure_ok(1) [OF q a]
  have ok2: "agent_ok (push_upgrade pl now core push a1)" using ok1 by (simp add: push_upgrade_def upgrade_core_ok)
  obtain s a3 where s: "apply_config pl now core (cp_restart_required push) config (push_upgrade pl now core push a1) = (s, a3)"
    by fastforce
  note ok3 = apply_config_ok [OF s ok2 pl]
  show ?thesis
    using assms(1) ok1 ok3 files_ok [OF ok3 save_last_config_procs]
    by (auto simp: apply_push_def q s split: sum.splits)
qed

lemma config_push_ok:
  assumes "handle_config_push pl now d push a = (r, a')" and a: "agent_ok a" and pl: "spawns_seen pl"
  shows "agent_ok a'"
  using assms files_ok [OF a load_last_configs_procs]
  by (auto simp: handle_config_push_def Let_def split: sum.splits if_splits prod.splits dest: apply_push_ok)

lemma core_command_ok:
  assumes "handle_core_command pl now cmd a = (r, a')" and a: "agent_ok a" and pl: "spawns_seen pl"
  shows "agent_ok a'"
proof (cases cmd)
  case (CoreStart n)
  let ?core = "core_type_from_i32 n"
  obtain q a1 where q: "get_or_ensure pl now ?core None a = (q, a1)" by fastforce
  note ok1 = get_or_ensure_ok [OF q a]
  show ?thesis
  proof (cases q)
    case (Inl e)
    with CoreStart q assms(1) ok1(1) show ?thesis by (auto simp: Let_def)
  next
    case (Inr g)
    obtain run g1 m1 where run: "core_is_running pl ?core g (ag_machine a1) = (run, g1, m1)"
      using prod_cases3 by blast
    let ?a = "put_core ?core g1 m1 a1"
    have ok2: "agent_ok ?a"
      using run ok1(1) ok1(2) [OF Inr] by (rule put_running_ok)
    obtain s a2 where s: "with_core ?core (core_start pl ?core now (minimal_config ?core)) g1 ?a = (s, a2)" by fastforce
    have "core_ready g1 m1" using core_ready_of [OF ok2, of ?core g1] by simp
    then have "agent_ok a2"
      by (intro with_core_ok [OF s ok2]) (auto intro: start_step pl)
    with CoreStart q Inr run s assms(1) ok2 show ?thesis by (auto simp: Let_def split: if_splits)
  qed
next
  case (CoreStop n)
  with assms stop_core_ok show ?thesis by auto
next
  case (CoreRestart n)
  let ?core = "core_type_from_i32 n"
  obtain q a1 where q: "get_or_ensure pl now ?core None a = (q, a1)" by fastforce
  note ok1 = get_or_ensure_ok [OF q a]
  show ?thesis
  proof (cases q)
    case (Inl e)
    with CoreRestart q assms(1) ok1(1) show ?thesis by (auto simp: Let_def)
  next
    case (Inr g)
    obtain s a2 where s: "with_core ?core (core_restart pl ?core now (minimal_config ?core)) g a1 = (s, a2)" by fastforce
    have "agent_ok a2"
      by (rule with_core_ok [OF s ok1(1) ok1(2) [OF Inr]])
        (auto intro: restart_step pl core_ready_of [OF ok1(1) ok1(2) [OF Inr]])
    with CoreRestart q Inr s assms(1) show ?thesis by (auto simp: Let_def)
  qed
qed

lemma remove_binary_ok: "remove_core_binary pl n a = (r, a') \<Longrightarrow> agent_ok a \<Longrightarrow> agent_ok a'"
  by (auto simp: remove_core_binary_def split: if_splits option.splits intro: files_ok dest: remove_file_procs)

lemma hub_message_ok:
  assumes "handle_hub_message pl now d msg a = (r, a')" and "agent_ok a" and "spawns_seen pl"
  shows "agent_ok a'"
proof (cases msg)
  case (FromHub m)
  with assms show ?thesis
    by (cases m)
      (auto simp: Let_def split: prod.splits sum.splits dest: config_push_ok core_command_ok remove_binary_ok)
next
  case (ConfigReload r)
  with assms show ?thesis by (auto dest: config_push_ok)
next
  case Shutdown
  have "agent_ok (fold (stop_core pl) cs a)" for cs
    using assms(2) by (induction cs arbitrary: a) (simp_all add: stop_core_ok)
  with Shutdown assms(1) show ?thesis by (auto simp: stop_all_def)
qed

lemma fold_agent_ok:
  assumes "\<And>x a. agent_ok a \<Longrightarrow> agent_ok (f x a)" and "agent_ok a"
  shows "agent_ok (fold f xs a)"
  using assms(2) by (induction xs arbitrary: a) (simp_all add: assms(1))

lemma restore_core_ok:
  assumes a: "agent_ok a" and pl: "spawns_seen pl"
  shows "agent_ok (restore_core pl now cs a)"
proof -
  obtain q a1 where q: "get_or_ensure pl now (fst cs) None a = (q, a1)" by fastforce
  note ok1 = get_or_ensure_ok [OF q a]
  show ?thesis
  proof (cases q)
    case (Inl e)
    with q ok1(1) show ?thesis by (simp add: restore_core_def)
  next
    case (Inr g)
    obtain run g1 m1 where run: "core_is_running pl (fst cs) g (ag_machine a1) = (run, g1, m1)"
      using prod_cases3 by blast
    let ?a = "put_core (fst cs) g1 m1 a1"
    have ok2: "agent_ok ?a"
      using run ok1(1) ok1(2) [OF Inr] by (rule put_running_ok)
    obtain s a2 where s: "with_core (fst cs) (core_start pl (fst cs) now (sn_config (snd cs))) g1 ?a = (s, a2)" by fastforce
    have "core_ready g1 m1" using core_ready_of [OF ok2, of "fst cs" g1] by simp
    then have "agent_ok a2"
      by (intro with_core_ok [OF s ok2]) (auto intro: start_step pl)
    with q Inr run s ok2 show ?thesis by (simp add: restore_core_def Let_def)
  qed
qed

lemma restart_using_ok:
  assumes "agent_ok a" and pl: "spawns_seen pl"
  shows "agent_ok (restart_cores_using pl now d domain a)"
proof -
  have one: "agent_ok (restart_core_using pl now domain cs a)" if a: "agent_ok a" for cs a
  proof (cases "manager_of (fst cs) a")
    case None
    with a show ?thesis by (cases cs) (simp add: restart_core_using_def)
  next
    case (Some g)
    obtain r a1 where w: "with_core (fst cs) (core_restart pl (fst cs) now (sn_config (snd cs))) g a = (r, a1)" by fastforce
    have "agent_ok a1"
      by (rule with_core_ok [OF w a Some]) (auto intro: restart_step pl core_ready_of [OF a Some])
    with w a Some show ?thesis by (cases cs) (simp add: restart_core_using_def)
  qed
  obtain cs m where "load_last_configs pl d (ag_machine a) = (cs, m)" by fastforce
  with files_ok [OF assms(1) load_last_configs_procs [OF this]] show ?thesis
    by (simp add: restart_cores_using_def one fold_agent_ok)
qed

lemma renew_one_ok:
  assumes "agent_ok a" and "spawns_seen pl"
  shows "agent_ok (renew_one pl now d acme c a)"
proof -
  obtain r m where i: "issue_certificate pl now d (acme (snd c)) (fst c) (snd c) (ag_machine a) = (r, m)" by fastforce
  with files_ok [OF assms(1) issue_certificate_procs [OF i]] assms(2) show ?thesis
    by (auto simp: renew_one_def send_cert_status_def restart_using_ok split: prod.split sum.split)
qed

lemma finish_issue_ok: "agent_ok a \<Longrightarrow> agent_ok (finish_issue pl now d acme c a)"
  by (auto simp: finish_issue_def send_cert_status_def Let_def split: prod.split sum.split
      intro: files_ok dest!: issue_certificate_procs)

lemma core_status_ok: "agent_ok a \<Longrightarrow> agent_ok (snd (collect_core_status pl now a))"
proof -
  have "agent_ok (snd (core_status_report pl now core s))" if "agent_ok (snd s)" for core s
    using that
    by (auto simp: core_status_report_def split: prod.splits option.splits intro: put_running_ok)
  then show "agent_ok a \<Longrightarrow> agent_ok (snd (collect_core_status pl now a))"
    by (simp add: collect_core_status_def ALL_CORES_def)
qed

lemma connect_ok: "agent_ok a \<Longrightarrow> agent_ok (connect pl d i t hn domain a)"
  by (auto simp: connect_def reported_versions_def split: prod.splits intro: files_ok load_last_configs_procs)

lemma end_ok:
  assumes "agent_ok a"
  shows "agent_ok (a\<lparr>ag_machine := end_process code pid (ag_machine a)\<rparr>)"
  using agent_okD [OF assms] by (auto simp: agent_ok_def split: if_splits)

section \<open>Runs of the agent\<close>

text \<open>
  Everything that may happen to a running agent, in any order: a connection, a message of the hub, the
  end of an issue, the renewal, a status report, and the end of some process.
\<close>

inductive agent_run :: "platform \<Rightarrow> path \<Rightarrow> agent \<Rightarrow> agent \<Rightarrow> bool" for pl data_dir a0 where
  Start: "agent_run pl data_dir a0 a0"
| Connect: "agent_run pl data_dir a0 a \<Longrightarrow> agent_run pl data_dir a0 (connect pl data_dir i token hostname domain a)"
| Message: "agent_run pl data_dir a0 a \<Longrightarrow> \<not> ag_exited a \<Longrightarrow> handle_hub_message pl now data_dir msg a = (r, a')
    \<Longrightarrow> agent_run pl data_dir a0 a'"
| Issued: "agent_run pl data_dir a0 a \<Longrightarrow> c \<in> set (ag_issues a)
    \<Longrightarrow> agent_run pl data_dir a0 (finish_issue pl now data_dir acme c a)"
| Renewal: "agent_run pl data_dir a0 a \<Longrightarrow> agent_run pl data_dir a0 (renewal_pass pl now data_dir outcome a)"
| Status: "agent_run pl data_dir a0 a \<Longrightarrow> agent_run pl data_dir a0 (snd (collect_core_status pl now a))"
| Ends: "agent_run pl data_dir a0 a
    \<Longrightarrow> agent_run pl data_dir a0 (a\<lparr>ag_machine := end_process code pid (ag_machine a)\<rparr>)"

lemma agent_run_ok:
  assumes "agent_run pl data_dir a0 a" and "agent_ok a0" and "spawns_seen pl"
  shows "agent_ok a"
  using assms(1)
proof induction
  case Start
  show ?case by (rule assms(2))
next
  case (Renewal a now outcome)
  then show ?case
    unfolding renewal_pass_def by (intro fold_agent_ok) (simp_all add: renew_one_ok assms(3))
qed (auto intro: connect_ok finish_issue_ok core_status_ok end_ok dest: hub_message_ok simp: assms(3))

lemma discovered_ok:
  assumes "agent_ok a" and "ag_managers a = []"
  shows "agent_ok (snd (discover pl b c a))"
proof -
  have core: "agent_ok (snd (discover_core pl b c core s))"
    if "agent_ok (snd s)" "manager_of core (snd s) = None" for core s
    using that by (auto simp: discover_core_def create_manager_def Let_def split: prod.split intro: register_ok)
  have other: "manager_of core' (snd (discover_core pl b c core s)) = manager_of core' (snd s)" if "core \<noteq> core'" for core core' s
    using that by (auto simp: discover_core_def Let_def split: prod.split)
  let ?a = "a\<lparr>ag_bin_dir := Some b, ag_config_dir := Some c\<rparr>"
  have a: "agent_ok ?a" "manager_of core ?a = None" for core
    using assms by (simp_all add: agent_ok_def manager_of_def)
  show ?thesis
    unfolding discover_def by (intro core) (simp_all add: a other)
qed

lemma start_agent_ok:
  assumes "pids_ok m" and "\<And>pid. \<not> is_process_alive pid m" and "spawns_seen pl"
  shows "agent_ok (start_agent pl now data_dir bin_dir m)"
proof -
  let ?a = "\<lparr>ag_machine = m, ag_bin_dir = None, ag_config_dir = None, ag_managers = [], ag_sent = [], ag_issues = [],
           ag_exited = False\<rparr>"
  have "process_exe_path pid m = None" for pid
    using assms(2) [of pid] by (auto simp: process_exe_path_def is_process_alive_def split: option.splits)
  then have "agent_ok ?a" using assms(1) by (simp add: agent_ok_def manager_of_def)
  then have d: "agent_ok (snd (discover pl bin_dir data_dir ?a))" by (rule discovered_ok) simp
  obtain cs m1 where l: "load_last_configs pl data_dir (ag_machine (snd (discover pl bin_dir data_dir ?a))) = (cs, m1)"
    by fastforce
  show ?thesis
    unfolding start_agent_def restore_last_config_def l prod.case
    by (intro fold_agent_ok files_ok d load_last_configs_procs [OF l]) (rule restore_core_ok [OF _ assms(3)])
qed

end
