(* ===== verification/AgentCheck.thy ===== *)
theory AgentCheck
  imports AgentInv
begin

text \<open>
  Properties of the agent: its processes, its snapshots, its core binaries, its certificates and the
  traffic it reports, with the hub's side where the two meet.
\<close>

section \<open>One process per core\<close>


text \<open>A platform where every program runs, and a machine with the sing-box binary.\<close>

definition demo_platform :: platform where
  "demo_platform = \<lparr>pf_os = ''linux'', pf_arch = ''x86_64'', pf_env = (\<lambda>_. None), pf_absolute = (\<lambda>_. None),
     pf_can_write = (\<lambda>_. True), pf_io_error = ''denied'', pf_utf8 = (\<lambda>_. True), pf_lossy = (\<lambda>s. s), pf_status_text = nat_str,
     pf_pretty = (\<lambda>j. case get_str j ''version'' of Some v \<Rightarrow> ''S'' @ v | None \<Rightarrow> ''P''), pf_print = (\<lambda>_. ''J''),
     pf_yaml = (\<lambda>_. Inr ''Y''),
     pf_parse = (\<lambda>s. if starts_with ''S'' s
                     then Inr (snapshot_json \<lparr>sn_core_type = ''sing-box'', sn_config = JNull, sn_version = tl s\<rparr>) else Inr JNull),
     pf_spawn = (\<lambda>_ _ _. Runs), pf_reload = (\<lambda>_ _. Inr (False, ''no reload'')), pf_version = (\<lambda>_. Inr ''1.14''),
     pf_http = (\<lambda>_ _. NoAnswer ''offline''), pf_untar = (\<lambda>_. []), pf_unzip = (\<lambda>_. Inr []), pf_gunzip = (\<lambda>_. Inl ''eof'')\<rparr>"

definition demo_machine :: machine where
  "demo_machine = \<lparr>m_files = [(''/bin/sing-box'', \<lparr>f_data = ''elf'', f_mode = 493, f_modified = 0\<rparr>)],
     m_dirs = [''/bin'', ''/data''], m_procs = [], m_next_pid = 100, m_requests = 0\<rparr>"

definition demo_push :: config_push where
  "demo_push = \<lparr>cp_config_json = ''P'', cp_target_core = 2, cp_restart_required = True, cp_config_version = ''v1'',
     cp_core_version = [], cp_core_build_id = []\<rparr>"

definition demo_agent :: agent where
  "demo_agent = start_agent demo_platform 0 ''/data'' ''/bin'' demo_machine"

lemma demo_agent_eq:
  "demo_agent = \<lparr>ag_machine = demo_machine, ag_bin_dir = Some ''/bin'', ag_config_dir = Some ''/data'',
     ag_managers = [(SingBox, create_manager demo_platform ''/bin/sing-box'' ''/data'')], ag_sent = [], ag_issues = [],
     ag_exited = False\<rparr>"
  by code_simp

definition pushed_agent :: agent where
  "pushed_agent = snd (handle_hub_message demo_platform 5 ''/data'' (FromHub (ConfigPush demo_push)) demo_agent)"

lemma demo_spawns: "spawns_seen demo_platform"
  by (simp add: spawns_seen_def demo_platform_def)

lemma demo_idle: "pids_ok demo_machine" "\<not> is_process_alive pid demo_machine"
  by (simp_all add: demo_machine_def pids_ok_def is_process_alive_def)

lemma pushed_run: "agent_run demo_platform ''/data'' demo_agent pushed_agent"
proof -
  obtain r where r: "handle_hub_message demo_platform 5 ''/data'' (FromHub (ConfigPush demo_push)) demo_agent = (r, pushed_agent)"
    by (cases "handle_hub_message demo_platform 5 ''/data'' (FromHub (ConfigPush demo_push)) demo_agent")
      (simp add: pushed_agent_def)
  have "\<not> ag_exited demo_agent" by code_simp
  then show ?thesis by (rule agent_run.Message [OF agent_run.Start _ r])
qed

lemma pushed_live: "process_exe_path 100 (ag_machine pushed_agent) = Some ''/bin/sing-box''"
  by code_simp

lemma pushed_ok: "agent_ok pushed_agent"
  using pushed_run start_agent_ok [OF demo_idle demo_spawns] demo_spawns
  unfolding demo_agent_def by (rule agent_run_ok)


section \<open>Configurations and their snapshots\<close>

lemma join_path_inj: "join_path d m = join_path d n \<Longrightarrow> \<not> starts_with ''/'' m \<Longrightarrow> \<not> starts_with ''/'' n \<Longrightarrow> m = n"
  by (auto simp: join_path_def split: if_splits)

lemma snapshot_paths:
  "snapshot_tmp d core \<noteq> snapshot_path d core" "legacy_path d \<noteq> snapshot_path d core"
  by (cases core; auto simp: snapshot_tmp_def snapshot_path_def legacy_path_def dest!: join_path_inj)+

lemma map_of_aupdate [simp]: "map_of (AList.update k v xs) i = (if i = k then Some v else map_of xs i)"
  by (auto simp: update_conv')

lemma map_of_adelete [simp]: "map_of (AList.delete k xs) i = (if i = k then None else map_of xs i)"
  by (auto simp: delete_conv')

lemma file_at_ops [simp]:
  "file_at q (put_file now p s m) = (if q = p then Some \<lparr>f_data = s,
     f_mode = (case file_at p m of Some f \<Rightarrow> f_mode f | None \<Rightarrow> 420), f_modified = now\<rparr> else file_at q m)"
  "file_at q (drop_file p m) = (if q = p then None else file_at q m)"
  by (simp_all add: file_at_def put_file_def drop_file_def)

text \<open>A snapshot that was saved is read again.\<close>

lemma save_then_load:
  assumes "pf_can_write pl (snapshot_tmp d core)" and "pf_can_write pl (snapshot_path d core)"
    and "pf_parse pl (pf_pretty pl (snapshot_json s)) = Inr (snapshot_json s)"
    and "s = \<lparr>sn_core_type = core_str core, sn_config = config, sn_version = v\<rparr>"
  shows "load_one pl (snapshot_path d core) (snd (save_last_config pl now d core config v m)) = Some s"
proof -
  have "read_file (snapshot_path d core) (snd (save_last_config pl now d core config v m)) = Some (pf_pretty pl (snapshot_json s))"
    using assms(1,2,4) snapshot_paths [of d core]
    by (simp add: save_last_config_def Let_def write_file_def rename_file_def set_mode_def read_file_def)
      (simp add: file_at_def)
  moreover have "snapshot_of_json (snapshot_json s) = Some s"
    by (simp add: snapshot_of_json_def snapshot_json_def get_str_def)
  ultimately show ?thesis using assms(3) by (simp add: load_one_def)
qed

definition runs_config :: "platform \<Rightarrow> core_type \<Rightarrow> json \<Rightarrow> manager \<Rightarrow> machine \<Rightarrow> bool" where
  "runs_config pl core config g m \<longleftrightarrow>
     (\<exists>pid p. mg_process g = Some pid \<and> map_of (m_procs m) pid = Some p \<and> pr_exit p = None \<and> pr_exe p = mg_binary g
        \<and> config_text pl core config = Inr (pr_config p))"

lemma runs_config_files: "same_procs m m' \<Longrightarrow> runs_config pl core config g m \<Longrightarrow> runs_config pl core config g m'"
  by (simp add: runs_config_def same_procs_def)

lemma launch_runs:
  assumes "launch pl core now bin body g m = (Inr (), g', m')" and "pids_ok m" and "config_text pl core config = Inr body"
  shows "runs_config pl core config g' m'"
proof -
  have out: "pf_spawn pl (mg_binary g) bin body = Runs"
    using assms(1) by (auto simp: launch_def fail_with_def Let_def split: spawn_outcome.splits)
  let ?g = "g\<lparr>mg_process := Some (m_next_pid m), mg_guard := True, mg_start_time := Some now, mg_last_error := []\<rparr>"
  let ?m = "new_process (mg_binary g) body None m"
  have "map_of (m_procs m) (m_next_pid m) = None"
    using assms(2) by (auto simp: pids_ok_def map_of_eq_None_iff)
  then have "runs_config pl core config ?g ?m"
    using assms(3) by (auto simp: runs_config_def new_process_def map_add_def)
  moreover have "same_procs ?m (write_pid_file pl now q pid b ?m)" for q pid b
    unfolding write_pid_file_def by (rule or_same_procs) (rule write_file_procs)
  ultimately show ?thesis
    using assms(1) out by (auto simp: launch_def Let_def intro: runs_config_files)
qed

lemma start_runs:
  assumes "core_start pl core now config g m = (Inr (), g', m')" and "pids_ok m"
  shows "runs_config pl core config g' m'"
proof -
  obtain bin body m1 where "config_text pl core config = Inr body" and w: "write_file pl now (config_path core g) body m = Some m1"
    and l: "launch pl core now bin body g (reap_stale pl (pid_path core g) (mg_binary g) m1) = (Inr (), g', m')"
    using assms(1) by (auto simp: core_start_def fail_with_def split: option.splits if_splits sum.splits)
  with pids_same_procs [OF write_file_procs [OF w] assms(2)] show ?thesis
    by (auto intro: launch_runs simp: reap_stale_frame(1))
qed

lemma restart_runs:
  assumes "core_restart pl core now config g m = (Inr (), g', m')" and "core_ready g m"
  shows "runs_config pl core config g' m'"
proof -
  obtain g1 m1 where s: "core_stop pl core g m = (g1, m1)" by fastforce
  with assms(1) have "core_start pl core now config g1 m1 = (Inr (), g', m')" by (simp add: core_restart_def)
  with core_stepD(2) [OF stop_step(1) [OF s assms(2)]] show ?thesis by (blast intro: start_runs)
qed

text \<open>What an accepted push with a restart has done.\<close>

lemma apply_push_Inr:
  assumes "apply_push pl now d core push config a = (Inr (), a')" and "cp_restart_required push" and "agent_ok a"
  obtains a1 g g' m' where "agent_ok a1" "manager_of core a1 = Some g"
    "core_restart pl core now config g (ag_machine a1) = (Inr (), g', m')"
    "a' = (put_core core g' m' a1)\<lparr>ag_machine := snd (save_last_config pl now d core config (cp_config_version push) m')\<rparr>"
proof -
  obtain q a0 where q: "get_or_ensure pl now core (some_text (cp_core_version push)) a = (q, a0)" by fastforce
  with assms(1) obtain g0 where "q = Inr g0" by (cases q) (auto simp: apply_push_def)
  note ok = get_or_ensure_ok [OF q assms(3)]
  let ?a = "push_upgrade pl now core push a0"
  have ok1: "agent_ok ?a" using ok(1) by (simp add: push_upgrade_def upgrade_core_ok)
  have up: "manager_of core ?a = Some g0"
    using ok(2) [OF \<open>q = Inr g0\<close>] by (simp add: push_upgrade_def upgrade_core_def split: option.split)
  obtain r g' m' where r: "core_restart pl core now config g0 (ag_machine ?a) = (r, g', m')" using prod_cases3 by blast
  with assms(1,2) q \<open>q = Inr g0\<close> up
  have out: "r = Inr () \<and> a' = (put_core core g' m' ?a)\<lparr>ag_machine :=
      snd (save_last_config pl now d core config (cp_config_version push) m')\<rparr>"
    by (auto simp: apply_push_def apply_config_def with_core_def split: sum.splits)
  from r out have "core_restart pl core now config g0 (ag_machine ?a) = (Inr (), g', m')" by simp
  then show ?thesis by (rule that [OF ok1 up _ conjunct2 [OF out]])
qed

lemma snapshot_kept:
  assumes "load_one pl (snapshot_path d core) m = Some s"
  shows "(core, s) \<in> set (fst (load_last_configs pl d m))"
proof -
  have "load_one pl (snapshot_path d core) (migrate_legacy_snapshot pl d m) = Some s"
  proof -
    have "read_file (snapshot_path d core) (migrate_legacy_snapshot pl d m) = read_file (snapshot_path d core) m"
    proof -
      have removed: "file_at (snapshot_path d c) (try_remove pl (legacy_path d) m) = file_at (snapshot_path d c) m" for c
        using snapshot_paths(2) [of d c] by (simp add: try_remove_def remove_file_def unwrap_or_def)
      have moved: "file_at (snapshot_path d core) m' = file_at (snapshot_path d core) m"
        if "rename_file pl (legacy_path d) (snapshot_path d c) m = Some m'" "\<not> file_exists (snapshot_path d c) m" for c m'
      proof -
        have "snapshot_path d core \<noteq> snapshot_path d c"
          using assms that(2) by (auto simp: load_one_def read_file_def file_exists_def)
        with that(1) snapshot_paths(2) [of d core] show ?thesis
          by (auto simp: rename_file_def file_at_def split: option.splits if_splits)
      qed
      show ?thesis
        by (auto simp: migrate_legacy_snapshot_def removed read_file_def unwrap_or_def dest: moved split: option.splits sum.splits)
    qed
    with assms show ?thesis by (simp add: load_one_def)
  qed
  then show ?thesis by (cases core) (simp_all add: load_last_configs_def ALL_CORES_def Let_def)
qed



section \<open>The hub's pushes on the node\<close>

lemma push_core_message:
  assumes "push_config_for_core x env node core h \<noteq> h" and "sent_to node h = Some q"
  obtains push where "sent_to node (push_config_for_core x env node core h) = Some (q @ [ConfigPush push])"
    "\<not> cp_restart_required push" "cp_target_core push = proto_core core"
proof -
  from assms(1) obtain cfg cv where g: "generate_node_config x env (h_db h) node core = Inr (cfg, cv)"
    by (auto simp: push_config_for_core_def split: sum.splits if_splits)
  define b where "b = core_build_id_of (h_db h) core cv"
  define v where "v = push_version_of x (x_to_string x cfg) b"
  define m where "m = push_message x core False (x_to_string x cfg) v cv b"
  from assms(1) g obtain h1 where h1: "send_to_agent node m h = Inr h1"
    and h': "push_config_for_core x env node core h = hub_clear_pending node core (set_agent_config_version node (core_str core) v h1)"
    by (auto simp: push_config_for_core_def Let_def b_def v_def m_def split: sum.splits if_splits)
  from pushed_step [OF h1, of core v, folded h'] assms(2)
  have "sent_to node (push_config_for_core x env node core h) = Some (q @ [m])" by (simp add: pushed_def)
  moreover obtain push where "m = ConfigPush push" "\<not> cp_restart_required push" "cp_target_core push = proto_core core"
    by (simp add: m_def push_message_def)
  ultimately show ?thesis by (simp add: that)
qed

lemma get_or_ensure_procs: "get_or_ensure pl now core v a = (r, a') \<Longrightarrow> same_procs (ag_machine a) (ag_machine a')"
  by (auto simp: get_or_ensure_def ensure_manager_from_discovered_def ensure_manager_def Let_def
      split: option.splits prod.splits sum.splits dest!: ensure_core_binary_procs)

lemma upgrade_procs: "same_procs (ag_machine a) (ag_machine (push_upgrade pl now core push a))"
  by (auto simp: push_upgrade_def upgrade_core_def ensure_core_build_procs split: option.split)

lemma reload_singbox_procs: "core_reload pl SingBox now config g m = (r, g', m') \<Longrightarrow> same_procs m m'"
  by (auto simp: Let_def split: option.splits sum.splits prod.splits if_splits dest: write_file_procs)

lemma reload_push_procs:
  assumes "handle_config_push pl now d push a = (r, a')" and "\<not> cp_restart_required push"
    and "core_type_from_i32 (cp_target_core push) = SingBox"
  shows "same_procs (ag_machine a) (ag_machine a')"
proof -
  have applied: "same_procs (ag_machine b) (ag_machine b')"
    if "apply_config pl now SingBox False config b = (q, b')" for b b' q config
    using that
    by (auto simp: apply_config_def with_core_def simp del: core_reload.simps split: option.splits prod.splits
        dest: reload_singbox_procs)
  have pushed: "same_procs (ag_machine b) (ag_machine b')"
    if p: "apply_push pl now d SingBox push config b = (q, b')" for b b' q config
  proof -
    obtain e b1 where e: "get_or_ensure pl now SingBox (some_text (cp_core_version push)) b = (e, b1)" by fastforce
    obtain t b2 where t: "apply_config pl now SingBox False config (push_upgrade pl now SingBox push b1) = (t, b2)" by fastforce
    note b2 = same_procs_trans [OF same_procs_trans [OF get_or_ensure_procs [OF e] upgrade_procs] applied [OF t]]
    from p assms(2) e t have "b' = b1 \<or> b' = b2
        \<or> b' = b2\<lparr>ag_machine := snd (save_last_config pl now d SingBox config (cp_config_version push) (ag_machine b2))\<rparr>"
      by (auto simp: apply_push_def split: sum.splits)
    with get_or_ensure_procs [OF e] b2 same_procs_trans [OF b2 save_last_config_procs] show ?thesis by auto
  qed
  show ?thesis
    using assms
    by (auto simp: handle_config_push_def Let_def split: sum.splits if_splits prod.splits
        dest!: load_last_configs_procs pushed intro: same_procs_trans)
qed

text \<open>
  The configurations the scheduler pushes never start sing-box: whatever state the agent is in,
  the message leaves its processes as they are. Yet the hub takes the node as up to date and does not
  push again, so a core that is not running when it comes stays down until someone else restarts it.
\<close>

theorem scheduled_push_starts_no_core:
  assumes "push_config_for_core x env node SingBox h \<noteq> h" and "sent_to node h = Some q"
  shows "\<exists>push. sent_to node (push_config_for_core x env node SingBox h) = Some (q @ [ConfigPush push])
    \<and> push_config_for_core x env node SingBox (push_config_for_core x env node SingBox h)
        = push_config_for_core x env node SingBox h
    \<and> (\<forall>pl now d a. m_procs (ag_machine (snd (handle_config_push pl now d push a))) = m_procs (ag_machine a))"
proof -
  obtain push where p: "sent_to node (push_config_for_core x env node SingBox h) = Some (q @ [ConfigPush push])"
    "\<not> cp_restart_required push" "cp_target_core push = proto_core SingBox"
    using assms by (rule push_core_message)
  have "m_procs (ag_machine (snd (handle_config_push pl now d push a))) = m_procs (ag_machine a)" for pl now d a
  proof -
    obtain r a' where r: "handle_config_push pl now d push a = (r, a')" by fastforce
    from reload_push_procs [OF r p(2)] p(3) show ?thesis by (simp add: r same_procs_def core_type_from_i32_def)
  qed
  with p(1) push_config_idempotent [of x env node SingBox h] show ?thesis by blast
qed

lemma demo_hub_db: "h_db demo_hub = demo_db"
  by (simp add: demo_hub_def)

lemma demo_check: "check_bindings_for_core demo_db ''n1'' SingBox"
  by (simp add: check_bindings_for_core_def demo_active mk_binding_def demo_config Let_def)
     (simp add: mk_config_def)

theorem scheduled_push_starts_no_core_witness:
  "\<exists>push. sent_to ''n1'' (push_config_for_core demo_crates (\<lambda>_. None) ''n1'' SingBox demo_hub) = Some [ConfigPush push]
     \<and> m_procs (ag_machine (snd (handle_config_push demo_platform 5 ''/data'' push demo_agent))) = []"
proof -
  obtain cfg ver v where g: "generate_node_config demo_crates (\<lambda>_. None) (h_db demo_hub) ''n1'' SingBox = Inr (cfg, ver)"
    and v: "arr_of cfg ''inbounds'' = [v]"
    by (rule demo_generate [folded demo_hub_db])
  have "agent_config_version ''n1'' ''sing-box'' demo_hub = None"
    by (simp add: agent_config_version_def demo_hub_def)
  moreover have "agent_config_version ''n1'' ''sing-box'' (push_config_for_core demo_crates (\<lambda>_. None) ''n1'' SingBox demo_hub) \<noteq> None"
    using push_core_reaches [OF _ g] v demo_check by (simp add: demo_hub_db demo_sent)
  ultimately have "push_config_for_core demo_crates (\<lambda>_. None) ''n1'' SingBox demo_hub \<noteq> demo_hub" by auto
  moreover have "m_procs (ag_machine demo_agent) = []" by code_simp
  ultimately show ?thesis
    using scheduled_push_starts_no_core [OF _ demo_sent, of demo_crates "\<lambda>_. None"] by fastforce
qed

lemma rejected_restart:
  assumes "core_restart pl core now config g m = (r, g', m')" and "core_ready g m"
    and "\<forall>b f t. \<exists>c ls. pf_spawn pl b f t = Exits c ls"
  shows "\<exists>e. r = Inl e" and "mg_process g' = None" and "mg_process g = Some pid \<Longrightarrow> process_exe_path pid m' = None"
proof -
  obtain g1 m1 where s: "core_stop pl core g m = (g1, m1)" by fastforce
  with assms(1) have st: "core_start pl core now config g1 m1 = (r, g', m')" by (simp add: core_restart_def)
  note none = stop_step(2) [OF s assms(2)]
  have "(\<exists>e. r = Inl e) \<and> mg_process g' = None"
  proof -
    have "(\<exists>e. fst (launch pl core now bin body g1 k) = Inl e) \<and> mg_process (fst (snd (launch pl core now bin body g1 k))) = None"
      for bin body k
    proof -
      obtain c ls where "pf_spawn pl (mg_binary g1) bin body = Exits c ls" using assms(3) by blast
      then show ?thesis by (simp add: launch_def fail_with_def none)
    qed
    moreover have "r = fst (core_start pl core now config g1 m1)" "g' = fst (snd (core_start pl core now config g1 m1))"
      by (simp_all add: st)
    ultimately show ?thesis
      by (simp add: core_start_def fail_with_def none split: option.split sum.split)
  qed
  then show "\<exists>e. r = Inl e" and g': "mg_process g' = None" by simp_all
  have "spawns_seen pl"
    unfolding spawns_seen_def using assms(3) by (metis spawn_outcome.distinct(7))
  note step = restart_step [OF assms(1) this assms(2)]
  show "process_exe_path pid m' = None" if "mg_process g = Some pid"
    using core_stepD(5) [OF step, of pid] g' that by (cases "process_exe_path pid m'") auto
qed

text \<open>
  C24: A push with a restart that the core rejects takes the node's core down without a trace in the
  hub: the running core is stopped first and the new one exits, the agent only logs the error, while the
  hub has recorded the version as the node's, cleared its marker, and never pushes it again.
\<close>

theorem failed_restart_unnoticed:
  assumes "push_node_config x env node core True None h = Inr h'" and "sent_to node h = Some q"
    and "\<And>cfg cv. generate_node_config x env (h_db h) node core = Inr (cfg, cv) \<Longrightarrow> is_ok (pf_parse pl (x_to_string x cfg))"
    and "\<forall>b f t. \<exists>c ls. pf_spawn pl b f t = Exits c ls"
    and "agent_ok a" and "manager_of core a = Some g" and "mg_process g = Some pid"
  shows "\<exists>push e a'. sent_to node h' = Some (q @ [ConfigPush push])
    \<and> agent_config_version node (core_str core) h' = Some (cp_config_version push)
    \<and> push_config_for_core x env node core h' = h'
    \<and> handle_config_push pl now d push a = (Inl e, a') \<and> process_exe_path pid (ag_machine a') = None
    \<and> (\<exists>g'. manager_of core a' = Some g' \<and> mg_process g' = None)"
proof -
  obtain cfg cv where g: "generate_node_config x env (h_db h) node core = Inr (cfg, cv)"
    and p: "pushed node core (push_version_of x (x_to_string x cfg) (core_build_id_of (h_db h) core cv))
      (push_message x core True (x_to_string x cfg) (push_version_of x (x_to_string x cfg) (core_build_id_of (h_db h) core cv)) cv
        (core_build_id_of (h_db h) core cv)) h h'"
    using push_node_config_result [of x env node core True None h] assms(1) by (auto simp: Let_def opt_filter_def)
  define b where "b = core_build_id_of (h_db h) core cv"
  define v where "v = push_version_of x (x_to_string x cfg) b"
  define push where "push = \<lparr>cp_config_json = x_to_string x cfg, cp_target_core = proto_core core, cp_restart_required = True,
      cp_config_version = v, cp_core_version = unwrap_or cv [], cp_core_build_id = b\<rparr>"
  have msg: "push_message x core True (x_to_string x cfg) v cv b = ConfigPush push"
    by (simp add: push_message_def push_def)
  from p have hub: "sent_to node h' = Some (q @ [ConfigPush push])" "agent_config_version node (core_str core) h' = Some v"
    "h_db h' = clear_pending node core (h_db h)"
    using assms(2) by (simp_all add: pushed_def b_def [symmetric] v_def [symmetric] msg)
  have quiet: "push_config_for_core x env node core h' = h'"
    by (rule push_core_current [of _ _ _ _ _ cfg cv]) (simp_all add: hub g b_def [symmetric] v_def [symmetric])
  obtain config where config: "pf_parse pl (x_to_string x cfg) = Inr config"
    using assms(3) [OF g] by (auto simp: is_ok_iff)
  have core: "core_type_from_i32 (proto_core core) = core" by (cases core) (simp_all add: core_type_from_i32_def)
  let ?a = "push_upgrade pl now core push a"
  have up: "manager_of core ?a = Some g" using assms(6) by (simp add: push_upgrade_def upgrade_core_def split: option.split)
  have ok: "agent_ok ?a" using assms(5) by (simp add: push_upgrade_def upgrade_core_ok)
  obtain r g' m' where r: "core_restart pl core now config g (ag_machine ?a) = (r, g', m')" using prod_cases3 by blast
  note bad = rejected_restart [OF r core_ready_of [OF ok up] assms(4)]
  obtain e where "r = Inl e" using bad(1) by blast
  with r up config core assms(6) have "handle_config_push pl now d push a = (Inl (panel_error_str e), put_core core g' m' ?a)"
    by (simp add: handle_config_push_def apply_push_def apply_config_def get_or_ensure_def with_core_def Let_def push_def)
  with hub quiet bad(2) bad(3) [OF assms(7)] show ?thesis
    by (intro exI [of _ push] exI [of _ "panel_error_str e"] exI [of _ "put_core core g' m' ?a"]) (simp add: push_def)
qed

definition rejecting :: platform where
  "rejecting = demo_platform\<lparr>pf_spawn := (\<lambda>_ _ _. Exits 1 [''bad config''])\<rparr>"

lemma pushed_manager: "map_option mg_process (manager_of SingBox pushed_agent) = Some (Some 100)"
  by code_simp

theorem failed_restart_unnoticed_witness:
  "\<exists>h' push e a'. push_node_config demo_crates (\<lambda>_. None) ''n1'' SingBox True None demo_hub = Inr h'
     \<and> sent_to ''n1'' h' = Some [ConfigPush push]
     \<and> push_config_for_core demo_crates (\<lambda>_. None) ''n1'' SingBox h' = h'
     \<and> handle_config_push rejecting 9 ''/data'' push pushed_agent = (Inl e, a')
     \<and> process_exe_path 100 (ag_machine pushed_agent) = Some ''/bin/sing-box'' \<and> process_exe_path 100 (ag_machine a') = None"
proof -
  obtain cfg ver v where g: "generate_node_config demo_crates (\<lambda>_. None) demo_db ''n1'' SingBox = Inr (cfg, ver)"
    by (rule demo_generate)
  have "is_ok (push_node_config demo_crates (\<lambda>_. None) ''n1'' SingBox True None demo_hub)"
    using push_node_config_result [of demo_crates "\<lambda>_. None" "''n1''" SingBox True None demo_hub] g demo_ports demo_sent
    by (simp add: demo_hub_db)
  then obtain h' where h': "push_node_config demo_crates (\<lambda>_. None) ''n1'' SingBox True None demo_hub = Inr h'"
    by (auto simp: is_ok_iff)
  obtain m where m: "manager_of SingBox pushed_agent = Some m" "mg_process m = Some 100" using pushed_manager by auto
  have parse: "is_ok (pf_parse rejecting s)" for s by (simp add: rejecting_def demo_platform_def is_ok_def)
  have spawn: "\<forall>b f t. \<exists>c ls. pf_spawn rejecting b f t = Exits c ls" by (simp add: rejecting_def)
  from failed_restart_unnoticed [OF h' demo_sent parse spawn pushed_ok m, of 9 "''/data''"] h' pushed_live
  show ?thesis by fastforce
qed

end
