(* ===== verification/NodeCheck.thy ===== *)
theory NodeCheck
  imports AgentCheck
begin

text \<open>
  Properties of what the agent does on its node beside the configurations: core binaries that are
  installed, upgraded and deleted, certificates that are renewed, and the traffic it counts.
\<close>

section \<open>Deleting a binary\<close>

lemma join_path_prefix: "\<not> starts_with ''/'' n \<Longrightarrow> join_path d n = dir_prefix d @ n"
  by (simp add: join_path_def dir_prefix_def)

lemma no_slash_start: "CHR ''/'' \<notin> set n \<Longrightarrow> \<not> starts_with ''/'' n"
  by (auto simp: starts_with_iff)

lemma dir_entries_mem:
  "(n, f) \<in> set (dir_entries d m) \<longleftrightarrow> n \<noteq> [] \<and> CHR ''/'' \<notin> set n \<and> (dir_prefix d @ n, f) \<in> set (m_files m)"
proof -
  have "(n, f) \<in> set (case strip_prefix (dir_prefix d) (fst e) of
      Some k \<Rightarrow> if k \<noteq> [] \<and> CHR ''/'' \<notin> set k then [(k, snd e)] else [] | None \<Rightarrow> [])
    \<longleftrightarrow> n \<noteq> [] \<and> CHR ''/'' \<notin> set n \<and> e = (dir_prefix d @ n, f)" for e
    by (cases e; cases "strip_prefix (dir_prefix d) (fst e)")
      (auto simp: strip_prefix_Some_iff strip_prefix_append split: if_splits)
  then show ?thesis by (auto simp: dir_entries_def case_prod_beta)
qed

lemma dir_entry_iff:
  "n \<in> fst ` set (dir_entries d m) \<longleftrightarrow> n \<noteq> [] \<and> CHR ''/'' \<notin> set n \<and> file_exists (join_path d n) m"
proof -
  have "file_exists p m \<longleftrightarrow> p \<in> fst ` set (m_files m)" for p
    by (simp add: file_exists_def file_at_def map_of_eq_None_iff)
  moreover have "n \<in> fst ` set (dir_entries d m) \<longleftrightarrow> (\<exists>f. (n, f) \<in> set (dir_entries d m))"
    by (metis (no_types, lifting) fst_conv image_iff prod.collapse)
  moreover have "p \<in> fst ` set (m_files m) \<longleftrightarrow> (\<exists>f. (p, f) \<in> set (m_files m))" for p
    by (metis (no_types, lifting) fst_conv image_iff prod.collapse)
  ultimately show ?thesis
    using no_slash_start [of n] join_path_prefix [of n d] unfolding dir_entries_mem by metis
qed

lemma listed_iff:
  assumes "ag_bin_dir a = Some d" and "d \<in> set (m_dirs (ag_machine a))"
  shows "n \<in> cb_file_name ` set (fst (agent_binaries pl a))
    \<longleftrightarrow> n \<noteq> [] \<and> CHR ''/'' \<notin> set n \<and> \<not> starts_with ''.'' n \<and> file_exists (join_path d n) (ag_machine a)"
proof -
  have "fst (agent_binaries pl a) = sort_key cb_file_name (map (binary_entry d (bin_in_use pl d a))
      (filter (\<lambda>(n, f). \<not> starts_with ''.'' n) (dir_entries d (ag_machine a))))"
    using assms by (simp add: agent_binaries_def)
  moreover have "cb_file_name (binary_entry d us e) = fst e" for us e
    by (cases e) (simp add: binary_entry_def)
  ultimately have "cb_file_name ` set (fst (agent_binaries pl a))
      = fst ` {e \<in> set (dir_entries d (ag_machine a)). \<not> starts_with ''.'' (fst e)}"
    by (simp add: image_image case_prod_beta)
  then have "n \<in> cb_file_name ` set (fst (agent_binaries pl a))
      \<longleftrightarrow> n \<in> fst ` set (dir_entries d (ag_machine a)) \<and> \<not> starts_with ''.'' n" by auto
  then show ?thesis by (auto simp: dir_entry_iff)
qed

lemma remove_binary_Inl: "remove_core_binary pl name a = (Inl e, a') \<Longrightarrow> a' = a"
  by (simp add: remove_core_binary_def split: if_splits option.splits)

lemma remove_binary_Inr:
  assumes "remove_core_binary pl name a = (Inr (), a')" and "ag_bin_dir a = Some d"
  shows "name \<noteq> [] \<and> \<not> starts_with ''.'' name \<and> CHR ''/'' \<notin> set name \<and> join_path d name \<notin> set (bin_in_use pl d a)
    \<and> a' = a\<lparr>ag_machine := drop_file (join_path d name) (ag_machine a)\<rparr>"
  using assms by (simp add: remove_core_binary_def remove_file_def split: if_splits option.splits)

text \<open>
  Deleting a core binary takes away at most the named file of the binary directory: no path leads
  out of it, hidden files and the binaries of registered cores stay, and no process ends. But the list
  the agent answers with is taken before the deletion, so it still names the file, although a list that is
  asked for afterwards does not.
\<close>

theorem deleted_binary_still_listed:
  assumes "handle_hub_message pl now data_dir (FromHub (CoreBinaryDelete name)) a = (r, a')"
    and "ag_bin_dir a = Some d" and "d \<in> set (m_dirs (ag_machine a))"
    and "file_at p (ag_machine a') \<noteq> file_at p (ag_machine a)"
  shows "p = join_path d name \<and> CHR ''/'' \<notin> set name \<and> \<not> starts_with ''.'' name
    \<and> (\<forall>core. p = core_binary_path pl d core \<longrightarrow> manager_of core a = None)
    \<and> m_procs (ag_machine a') = m_procs (ag_machine a) \<and> file_at p (ag_machine a') = None
    \<and> (\<exists>bs. ag_sent a' = ag_sent a @ [CoreBinaries (bs, [])] \<and> name \<in> cb_file_name ` set bs)
    \<and> name \<notin> cb_file_name ` set (fst (agent_binaries pl a'))"
proof -
  obtain q b where rm: "remove_core_binary pl name a = (q, b)" by fastforce
  show ?thesis
  proof (cases q)
    case (Inl e)
    then have "b = a" using rm remove_binary_Inl by blast
    then have "ag_machine a' = ag_machine a" using assms(1) rm Inl by (auto simp: send_def Let_def)
    then show ?thesis using assms(4) by simp
  next
    case (Inr u)
    have ok: "name \<noteq> []" "\<not> starts_with ''.'' name" "CHR ''/'' \<notin> set name" "join_path d name \<notin> set (bin_in_use pl d a)"
      and b: "b = a\<lparr>ag_machine := drop_file (join_path d name) (ag_machine a)\<rparr>"
      using remove_binary_Inr [OF _ assms(2)] rm Inr by simp_all
    have a': "a' = send (CoreBinaries (agent_binaries pl a)) b"
      using assms(1) rm Inr by (simp add: Let_def)
    have p: "p = join_path d name" "file_exists p (ag_machine a)"
      using assms(4) a' b by (auto simp: send_def file_exists_def simp del: not_None_eq split: if_splits)
    have used: "manager_of core a = None" if "p = core_binary_path pl d core" for core
      using ok(4) that p(1) by (cases core) (auto simp: bin_in_use_def ALL_CORES_def)
    have rep: "snd (agent_binaries pl a) = []" using assms(2,3) by (simp add: agent_binaries_def)
    have was: "name \<in> cb_file_name ` set (fst (agent_binaries pl a))"
      using listed_iff [OF assms(2,3)] ok p by simp
    have dirs: "ag_bin_dir a' = Some d" "d \<in> set (m_dirs (ag_machine a'))"
      using assms(2,3) a' b by (simp_all add: send_def drop_file_def)
    have gone: "file_at p (ag_machine a') = None" using a' b p(1) by (simp add: send_def)
    have now: "name \<notin> cb_file_name ` set (fst (agent_binaries pl a'))"
      using listed_iff [OF dirs] gone p(1) by (simp add: file_exists_def)
    have sent: "ag_sent a' = ag_sent a @ [CoreBinaries (fst (agent_binaries pl a), [])]"
      using a' b rep by (cases "agent_binaries pl a") (simp add: send_def)
    have procs: "m_procs (ag_machine a') = m_procs (ag_machine a)" using a' b by (simp add: send_def drop_file_def)
    show ?thesis using p(1) ok used procs gone was sent now by blast
  qed
qed

definition old_binary_agent :: agent where
  "old_binary_agent = demo_agent\<lparr>ag_machine := put_file 0 ''/bin/sing-box.old'' ''elf'' demo_machine\<rparr>"

theorem deleted_binary_still_listed_witness:
  "map cb_file_name (fst (agent_binaries demo_platform (snd (handle_hub_message demo_platform 9 ''/data''
      (FromHub (CoreBinaryDelete ''sing-box.old'')) old_binary_agent)))) = [''sing-box'']
   \<and> (\<exists>bs. ag_sent (snd (handle_hub_message demo_platform 9 ''/data'' (FromHub (CoreBinaryDelete ''sing-box.old'')) old_binary_agent))
         = ag_sent old_binary_agent @ [CoreBinaries (bs, [])] \<and> ''sing-box.old'' \<in> cb_file_name ` set bs)"
proof -
  let ?r = "handle_hub_message demo_platform 9 ''/data'' (FromHub (CoreBinaryDelete ''sing-box.old'')) old_binary_agent"
  have h: "?r = (fst ?r, snd ?r)" by simp
  have d: "ag_bin_dir old_binary_agent = Some ''/bin''" "''/bin'' \<in> set (m_dirs (ag_machine old_binary_agent))" by code_simp+
  have f: "file_exists ''/bin/sing-box.old'' (ag_machine old_binary_agent)"
    "\<not> file_exists ''/bin/sing-box.old'' (ag_machine (snd ?r))" by code_simp+
  have "file_at ''/bin/sing-box.old'' (ag_machine (snd ?r)) \<noteq> file_at ''/bin/sing-box.old'' (ag_machine old_binary_agent)"
    using f by (auto simp: file_exists_def)
  note deleted_binary_still_listed [OF h d this]
  moreover have "map cb_file_name (fst (agent_binaries demo_platform (snd ?r))) = [''sing-box'']" by code_simp
  ultimately show ?thesis by blast
qed

section \<open>The traffic that is counted\<close>

text \<open>
  A core's counter starts anew with each of its lives. \<open>carried\<close> is what the lives seen in a list of
  readings have carried by their last reading, \<open>uncounted\<close> what each life but the first had carried
  when it was first read.
\<close>

fun carried :: "int list \<Rightarrow> int" where
  "carried (c # c' # cs) = (if c' < c then c else 0) + carried (c' # cs)"
| "carried [c] = c"
| "carried [] = 0"

fun uncounted :: "int list \<Rightarrow> int" where
  "uncounted (c # c' # cs) = (if c' < c then c' else 0) + uncounted (c' # cs)"
| "uncounted _ = 0"

text \<open>The periods of an agent's life: the reports made of the answers, the state kept between them.\<close>

fun mihomo_samples :: "platform \<Rightarrow> (int \<times> int) option \<Rightarrow> (string + (string + string) list) list \<Rightarrow> inbound_traffic list" where
  "mihomo_samples pl prev [] = []"
| "mihomo_samples pl prev (a # as) =
     (case collect_mihomo_traffic pl a prev of (r, prev) \<Rightarrow> fst (ok_sample r) @ mihomo_samples pl prev as)"

definition mihomo_readings :: "platform \<Rightarrow> (string + (string + string) list) list \<Rightarrow> (int \<times> int) list" where
  "mihomo_readings pl as =
     List.map_filter (\<lambda>a. case rbind a (read_first_traffic_sample pl []) of Inr t \<Rightarrow> Some t | Inl _ \<Rightarrow> None) as"

abbreviation counter_ok :: "int \<Rightarrow> bool" where
  "counter_ok n \<equiv> 0 \<le> n \<and> n \<le> i64_max"

lemma counter_delta_ok: "counter_ok c \<Longrightarrow> counter_ok p \<Longrightarrow> counter_delta c p = max 0 (c - p)"
  by (simp add: counter_delta_def sat64_def i64_max_def i64_min_def)

fun counter_sum :: "int option \<Rightarrow> int list \<Rightarrow> int" where
  "counter_sum prev [] = 0"
| "counter_sum prev (c # cs) = (case prev of None \<Rightarrow> c | Some p \<Rightarrow> max 0 (c - p)) + counter_sum (Some c) cs"

lemma counter_sum_accounts: "counter_sum None cs + uncounted cs = carried cs"
  by (induction cs rule: carried.induct) auto

lemma node_traffic_sums:
  "0 \<le> fst d \<Longrightarrow> 0 \<le> snd d \<Longrightarrow>
     sum_list (map it_upload_bytes (node_traffic tag d)) = fst d \<and> sum_list (map it_download_bytes (node_traffic tag d)) = snd d"
  by (auto simp: node_traffic_def)

lemma mihomo_samples_sums:
  assumes "\<forall>t \<in> set (mihomo_readings pl as). counter_ok (fst t) \<and> counter_ok (snd t)"
    and "case prev of Some p \<Rightarrow> counter_ok (fst p) \<and> counter_ok (snd p) | None \<Rightarrow> True"
  shows "sum_list (map it_upload_bytes (mihomo_samples pl prev as)) = counter_sum (map_option fst prev) (map fst (mihomo_readings pl as))
    \<and> sum_list (map it_download_bytes (mihomo_samples pl prev as)) = counter_sum (map_option snd prev) (map snd (mihomo_readings pl as))"
  using assms
proof (induction as arbitrary: prev)
  case Nil
  then show ?case by (simp add: mihomo_readings_def map_filter_simps)
next
  case (Cons a as)
  show ?case
  proof (cases "rbind a (read_first_traffic_sample pl [])")
    case (Inl e)
    then show ?thesis
      using Cons by (simp add: mihomo_readings_def map_filter_simps collect_mihomo_traffic_def ok_sample_def)
  next
    case (Inr t)
    then have ts: "mihomo_readings pl (a # as) = t # mihomo_readings pl as"
      by (simp add: mihomo_readings_def map_filter_simps)
    then have ok: "counter_ok (fst t)" "counter_ok (snd t)" using Cons.prems(1) by auto
    have IH: "sum_list (map it_upload_bytes (mihomo_samples pl (Some t) as)) = counter_sum (Some (fst t)) (map fst (mihomo_readings pl as))"
      "sum_list (map it_download_bytes (mihomo_samples pl (Some t) as)) = counter_sum (Some (snd t)) (map snd (mihomo_readings pl as))"
      using Cons.IH [of "Some t"] Cons.prems(1) ok ts by simp_all
    have d: "total_delta prev t = (case prev of None \<Rightarrow> t | Some p \<Rightarrow> (max 0 (fst t - fst p), max 0 (snd t - snd p)))"
      using Cons.prems(2) ok by (auto simp: total_delta_def counter_delta_ok split: option.splits)
    have "mihomo_samples pl prev (a # as) = node_traffic ''mihomo'' (total_delta prev t) @ mihomo_samples pl (Some t) as"
      using Inr by (simp add: collect_mihomo_traffic_def ok_sample_def)
    then show ?thesis
      using IH node_traffic_sums [of "total_delta prev t" "''mihomo''"] ok
      unfolding ts d by (auto split: option.splits)
  qed
qed


text \<open>Readings of a machine whose JSON is the code of one character.\<close>

definition reading_platform :: platform where
  "reading_platform = demo_platform\<lparr>pf_parse := (\<lambda>s. case s of
     [c] \<Rightarrow> Inr (jobj [(''up'', jint (of_char c)), (''down'', jint 1)]) | _ \<Rightarrow> Inl ''json'')\<rparr>"

definition reading_answers :: "(string + (string + string) list) list" where
  "reading_answers = [Inr [Inr [CHR 0x50]], Inl ''down'', Inr [Inr [CHR 0x60]], Inr [Inr [CHR 0x20]], Inr [Inr [CHR 0x30]]]"

lemma reading_values: "mihomo_readings reading_platform reading_answers = [(80, 1), (96, 1), (32, 1), (48, 1)]"
  by code_simp


text \<open>What the connections of a user have carried since the sample before, without those that carried nothing.\<close>

definition user_parts :: "conn_snapshot \<Rightarrow> conn_snapshot \<Rightarrow> string \<Rightarrow> (int \<times> int) list" where
  "user_parts prev snapshot u =
     filter (\<lambda>d. d \<noteq> (0, 0)) (map (\<lambda>(i, user, up, down). conn_delta prev i up down) (filter (\<lambda>(i, user, r). user = u) snapshot))"

lemma user_delta_step:
  "map_of (user_delta prev (i, user, up, down) acc) u =
     (if user = u \<and> conn_delta prev i up down \<noteq> (0, 0)
      then Some (wrap64 (fst (unwrap_or (map_of acc u) (0, 0)) + fst (conn_delta prev i up down)),
                 wrap64 (snd (unwrap_or (map_of acc u) (0, 0)) + snd (conn_delta prev i up down)))
      else map_of acc u)"
  by (cases "conn_delta prev i up down"; cases "unwrap_or (map_of acc user) (0, 0)") (auto simp: user_delta_def)

lemma user_deltas_map:
  "map_of (user_deltas prev snapshot) u =
     (if user_parts prev snapshot u = [] then None
      else Some (wrap64 (sum_list (map fst (user_parts prev snapshot u))), wrap64 (sum_list (map snd (user_parts prev snapshot u)))))"
proof (induction snapshot rule: rev_induct)
  case Nil
  then show ?case by (simp add: user_deltas_def user_parts_def)
next
  case (snoc c cs)
  obtain i user up down where c: "c = (i, user, up, down)" by (cases c)
  have step: "user_deltas prev (cs @ [(i, user, up, down)]) = user_delta prev (i, user, up, down) (user_deltas prev cs)"
    by (simp add: user_deltas_def)
  have parts: "user_parts prev (cs @ [(i, user, up, down)]) u = user_parts prev cs u
      @ (if user = u \<and> conn_delta prev i up down \<noteq> (0, 0) then [conn_delta prev i up down] else [])"
    by (simp add: user_parts_def)
  show ?case unfolding c step parts user_delta_step snoc by auto
qed

lemma user_deltas_distinct: "distinct (map fst (user_deltas prev snapshot))"
proof -
  have "distinct (map fst (fold (user_delta prev) cs acc))" if "distinct (map fst acc)" for cs acc
    using that
    by (induction cs arbitrary: acc)
      (simp_all add: user_delta_def distinct_update split: prod.splits)
  then show ?thesis by (simp add: user_deltas_def)
qed

text \<open>
  A sample of sing-box names each user at most once; a user's entry holds the 64-bit sums of what the user's connections carried since the sample
  before, and a user is left out exactly when they carried nothing. The totals, the connections and the
  report are of one moment: the next sample starts from them.
\<close>

theorem sample_sums_connections:
  assumes "singbox_traffic_grpc (Inr (totals, events)) st = (Inr (ins, users), st')"
  shows "distinct (map ut_client_id users)
    \<and> (e \<in> set users \<longleftrightarrow>
         (let ps = user_parts (ts_prev_conns st) (connection_snapshot events) (ut_client_id e)
          in ps \<noteq> [] \<and> ut_upload_bytes e = wrap64 (sum_list (map fst ps)) \<and> ut_download_bytes e = wrap64 (sum_list (map snd ps))))
    \<and> st' = \<lparr>ts_prev_total = Some totals, ts_prev_conns = connection_snapshot events\<rparr>"
proof -
  let ?ds = "user_deltas (ts_prev_conns st) (connection_snapshot events)"
  have users: "users = map (\<lambda>(user, up, down). \<lparr>ut_client_id = user, ut_upload_bytes = up, ut_download_bytes = down\<rparr>) ?ds"
    and st': "st' = \<lparr>ts_prev_total = Some totals, ts_prev_conns = connection_snapshot events\<rparr>"
    using assms by (auto simp: singbox_traffic_grpc_def Let_def)
  have ids: "map ut_client_id users = map fst ?ds" by (simp add: users case_prod_beta)
  have "e \<in> set users \<longleftrightarrow> (ut_client_id e, ut_upload_bytes e, ut_download_bytes e) \<in> set ?ds"
    unfolding users by (cases e) force
  also have "\<dots> \<longleftrightarrow> map_of ?ds (ut_client_id e) = Some (ut_upload_bytes e, ut_download_bytes e)"
    by (simp add: user_deltas_distinct)
  finally show ?thesis
    unfolding ids user_deltas_map st' using user_deltas_distinct by (auto simp: Let_def)
qed

definition demo_connection :: "string \<Rightarrow> string \<Rightarrow> int \<Rightarrow> connection_event" where
  "demo_connection i user n =
     (0, Some \<lparr>co_id = i, co_user = user, co_uplink_total = n, co_downlink_total = 2, co_source = [], co_inbound = []\<rparr>)"

theorem sample_sums_connections_witness:
  "\<lparr>ut_client_id = ''c1'', ut_upload_bytes = 9, ut_download_bytes = 2\<rparr>
     \<in> set (snd (ok_sample (fst (singbox_traffic_grpc
          (Inr ((0, 0), [demo_connection ''a'' ''c1'' 7, demo_connection ''b'' ''c1'' 5, demo_connection ''c'' ''c2'' 0]))
          \<lparr>ts_prev_total = None, ts_prev_conns = [(''a'', ''c1'', 3, 2)]\<rparr>))))"
proof -
  let ?ev = "[demo_connection ''a'' ''c1'' 7, demo_connection ''b'' ''c1'' 5, demo_connection ''c'' ''c2'' 0]"
  let ?st = "\<lparr>ts_prev_total = None, ts_prev_conns = [(''a'', ''c1'', 3, 2)]\<rparr>"
  obtain ins users st' where s: "singbox_traffic_grpc (Inr ((0, 0), ?ev)) ?st = (Inr (ins, users), st')"
    by (simp add: singbox_traffic_grpc_def Let_def)
  have "user_parts (ts_prev_conns ?st) (connection_snapshot ?ev) ''c1'' = [(4, 0), (5, 2)]" by code_simp
  then have "\<lparr>ut_client_id = ''c1'', ut_upload_bytes = 9, ut_download_bytes = 2\<rparr> \<in> set users"
    using sample_sums_connections [OF s, of "\<lparr>ut_client_id = ''c1'', ut_upload_bytes = 9, ut_download_bytes = 2\<rparr>"]
    by (simp add: Let_def wrap64_def)
  then show ?thesis by (simp add: s ok_sample_def)
qed

section \<open>Installing a core\<close>

text \<open>What an operation on the machine may do: send at most \<open>n\<close> requests, and change files in \<open>S\<close> only.\<close>

definition within :: "nat \<Rightarrow> path set \<Rightarrow> machine \<Rightarrow> machine \<Rightarrow> bool" where
  "within n S m m' \<longleftrightarrow> m_requests m \<le> m_requests m' \<and> m_requests m' \<le> m_requests m + n \<and> (\<forall>p. p \<notin> S \<longrightarrow> file_at p m' = file_at p m)"

lemma within_refl [simp]: "within n S m m"
  by (simp add: within_def)

lemma within_trans: "within k S m m' \<Longrightarrow> within n S m' m'' \<Longrightarrow> k + n \<le> l \<Longrightarrow> within l S m m''"
  by (auto simp: within_def)

lemma within_put [simp]: "p \<in> S \<Longrightarrow> within n S m (put_file now p s m)"
  by (simp add: within_def put_file_def file_at_def)

lemma within_write: "write_file pl now p s m = Some m' \<Longrightarrow> p \<in> S \<Longrightarrow> within n S m m'"
  by (auto simp: write_file_def split: if_splits)

lemma within_get: "http_get pl url m = (a, m') \<Longrightarrow> within 1 S m m'"
  by (auto simp: http_get_def within_def file_at_def)

lemma within_remove [simp]: "p \<in> S \<Longrightarrow> within n S m (try_remove pl p m)"
  by (auto simp: try_remove_def remove_file_def within_def drop_file_def file_at_def)

lemma within_mode: "set_mode pl f p m = Some m' \<Longrightarrow> p \<in> S \<Longrightarrow> within n S m m'"
  by (auto simp: set_mode_def within_def file_at_def split: option.splits if_splits)

lemma within_dir: "make_dir pl d m = Some m' \<Longrightarrow> within n S m m'"
  by (auto simp: make_dir_def within_def file_at_def split: if_splits)

lemma within_download:
  assumes "download_file pl now url dest m = (r, m')" and "dest \<in> S"
  shows "within 1 S m m'"
proof -
  obtain a m1 where g: "http_get pl url m = (a, m1)" by fastforce
  have "m' = m1 \<or> (\<exists>s. write_file pl now dest s m1 = Some m')"
    using assms(1) g by (auto simp: download_file_def split: http_answer.splits if_splits option.splits)
  then have "within 0 S m1 m'" using assms(2) by (auto intro: within_write)
  then show ?thesis using within_get [OF g, of S] by (auto intro: within_trans)
qed

lemma within_tags: "try_tags pl core version asset tags m = (r, m') \<Longrightarrow> within (length tags) S m m'"
proof (induction tags arbitrary: m)
  case Nil
  then show ?case by simp
next
  case (Cons tag tags)
  obtain a m1 where g: "http_get pl (api_url core (''/releases/tags/'' @ tag)) m = (a, m1)" by fastforce
  have "m' = m1 \<or> try_tags pl core version asset tags m1 = (r, m')"
    using Cons.prems g by (auto split: option.splits if_splits sum.splits)
  then have "within (length tags) S m1 m'" using Cons.IH by auto
  then show ?case using within_get [OF g, of S] by (auto intro: within_trans)
qed

lemma within_fallback:
  assumes "download_with_fallback pl now url core version asset dest m = (r, m')" and "dest \<in> S"
  shows "within 4 S m m'"
proof -
  obtain q m1 where d: "download_file pl now url dest m = (q, m1)" by fastforce
  obtain t m2 where t: "resolve_asset_url pl core version asset m1 = (t, m2)" by fastforce
  have w: "within 1 S m m1" "within 2 S m1 m2"
    using within_download [OF d assms(2)] within_tags [OF t [unfolded resolve_asset_url_def], of S]
    by (simp_all add: numeral_2_eq_2)
  have "m' = m1 \<or> m' = m2 \<or> (\<exists>u. download_file pl now u dest m2 = (r, m'))"
    using assms(1) d t by (auto simp: download_with_fallback_def split: sum.splits)
  then show ?thesis
  proof (elim disjE exE)
    fix u assume "download_file pl now u dest m2 = (r, m')"
    then have "within 1 S m2 m'" using assms(2) by (rule within_download)
    then have "within 3 S m1 m'" using w(2) by (auto intro: within_trans)
    then show ?thesis using w(1) by (auto intro: within_trans)
  next
    assume "m' = m2"
    then show ?thesis using w by (auto intro: within_trans)
  next
    assume "m' = m1"
    then show ?thesis using w(1) by (auto intro: within_trans)
  qed
qed

lemma within_zip:
  "zip_entries pl now f dest found es m = (r, m') \<Longrightarrow> dest \<in> S \<Longrightarrow> within 0 S m m'"
proof (induction es arbitrary: m found)
  case (Cons x es)
  show ?case
  proof (cases x)
    case (Inr e)
    then obtain p data where x: "x = Inr (p, data)" by (cases e) simp
    show ?thesis
    proof (cases "f (file_name p)")
      case True
      show ?thesis
      proof (cases "write_file pl now dest data m")
        case (Some m1)
        then have "within 0 S m1 m'" using Cons x True by simp
        then show ?thesis using within_write [OF Some Cons.prems(2), of 0] by (auto intro: within_trans)
      qed (use Cons x True in simp)
    qed (use Cons x in simp)
  qed (use Cons in simp)
qed simp

lemma write_exists: "write_file pl now p s m = Some m' \<Longrightarrow> file_exists p m'"
  by (auto simp: write_file_def file_exists_def split: if_splits)

lemma zip_found:
  "zip_entries pl now f dest found es m = (Inr True, m') \<Longrightarrow> (found \<Longrightarrow> file_exists dest m) \<Longrightarrow> file_exists dest m'"
proof (induction es arbitrary: m found)
  case (Cons x es)
  show ?case
  proof (cases x)
    case (Inr e)
    then obtain p data where x: "x = Inr (p, data)" by (cases e) simp
    show ?thesis
    proof (cases "f (file_name p)")
      case True
      show ?thesis
      proof (cases "write_file pl now dest data m")
        case (Some m1)
        then have "zip_entries pl now f dest True es m1 = (Inr True, m')" using Cons.prems(1) x True by simp
        then show ?thesis using Cons.IH write_exists [OF Some] by blast
      qed (use Cons.prems x True in simp)
    next
      case False
      then have "zip_entries pl now f dest found es m = (Inr True, m')" using Cons.prems(1) x by simp
      then show ?thesis using Cons.IH Cons.prems(2) by blast
    qed
  qed (use Cons.prems in simp)
qed simp

lemma within_extract:
  assumes "extract_archive pl now asset archive bin_dir target m = (r, m')" and "core_type_from_name target = Inr core"
    and "core_binary_path pl bin_dir core \<in> S"
  shows "within 0 S m m' \<and> (\<forall>p. r = Inr p \<longrightarrow> p = core_binary_path pl bin_dir core \<and> file_exists p m')"
proof -
  let ?d = "join_path bin_dir (binary_name_on_disk pl core)"
  have d: "?d \<in> S" "core_binary_path pl bin_dir core = ?d" using assms(3) by (simp_all add: core_binary_path_def)
  have tgz: ?thesis if "extract_tgz pl now archive bin_dir target m = (r, m')"
    using that d assms(2)
    by (auto simp: extract_tgz_def Let_def split: option.splits sum.splits intro: within_write dest: write_exists)
  have gz: ?thesis if "extract_gzip pl now archive bin_dir target m = (r, m')"
    using that d assms(2)
    by (auto simp: extract_gzip_def Let_def file_exists_def split: option.splits sum.splits
          intro: within_write within_trans [where k = 0 and n = 0, OF _ within_put])
  have zip: ?thesis if z: "extract_zip pl now archive bin_dir target m = (r, m')"
  proof -
    have "m' = m \<and> \<not> is_ok r \<or> (\<exists>f es q. zip_entries pl now f ?d False es m = (q, m') \<and> (\<forall>p. r = Inr p \<longrightarrow> p = ?d \<and> q = Inr True))"
      using z assms(2) by (auto simp: extract_zip_def Let_def split: option.splits sum.splits prod.splits if_splits)
    then show ?thesis
    proof (elim disjE exE conjE)
      assume "m' = m" "\<not> is_ok r"
      then show ?thesis by (auto simp: is_ok_def)
    next
      fix f es q assume q: "zip_entries pl now f ?d False es m = (q, m')" "\<forall>p. r = Inr p \<longrightarrow> p = ?d \<and> q = Inr True"
      then show ?thesis using d within_zip [OF q(1) d(1)] zip_found [of pl now f ?d False es m m'] by auto
    qed
  qed
  show ?thesis
    using assms(1) tgz gz zip by (auto simp: extract_archive_def split: if_splits)
qed

text \<open>The files an installation may touch: the binary and a hidden archive.\<close>

definition install_files :: "platform \<Rightarrow> path \<Rightarrow> core_type \<Rightarrow> path set" where
  "install_files pl bin_dir core = insert (core_binary_path pl bin_dir core) {join_path bin_dir (''.'' @ core_str core @ s) |s. True}"

lemma asset_file:
  assumes "asset_name pl core version = Inr (asset, target)"
  shows "join_path bin_dir (''.'' @ asset) \<in> install_files pl bin_dir core \<and> core_type_from_name target = Inr core"
  using assms
  by (cases core) (auto simp: asset_name_def rbind_Inr_iff install_files_def core_type_from_name_def)

lemma binary_not_hidden: "join_path d (CHR ''.'' # n) \<noteq> core_binary_path pl d core"
proof
  assume "join_path d (CHR ''.'' # n) = core_binary_path pl d core"
  then have "CHR ''.'' # n = binary_name_on_disk pl core"
    unfolding core_binary_path_def by (rule join_path_inj) (cases core; simp add: binary_name_on_disk_def)+
  then show False by (cases core) (auto simp: binary_name_on_disk_def split: if_splits)
qed

lemma within_attempt:
  assumes "install_attempt pl now bin_dir core version url asset target tmp m = (r, m')" and "core_type_from_name target = Inr core"
    and "core_binary_path pl bin_dir core \<in> S" and "tmp \<in> S"
  shows "within 4 S m m' \<and> (\<forall>p. r = Inr p \<longrightarrow> p = core_binary_path pl bin_dir core \<and> file_exists p m')"
proof -
  obtain q m1 where d: "download_with_fallback pl now url core version asset tmp m = (q, m1)" by fastforce
  have w: "within 4 S m m1" by (rule within_fallback [OF d assms(4)])
  have "m' = m1 \<and> \<not> is_ok r \<or> extract_archive pl now asset tmp bin_dir target m1 = (r, m')"
    using assms(1) d by (auto simp: install_attempt_def split: sum.splits)
  then show ?thesis
  proof
    assume "m' = m1 \<and> \<not> is_ok r"
    then show ?thesis using w by (auto simp: is_ok_def)
  next
    assume e: "extract_archive pl now asset tmp bin_dir target m1 = (r, m')"
    then show ?thesis using within_extract [OF e assms(2,3)] w by (auto intro: within_trans)
  qed
qed

lemma within_attempts:
  assumes "\<And>m r m'. f m = (r, m') \<Longrightarrow> within 4 S m m' \<and> (\<forall>p. r = Inr p \<longrightarrow> P p m')"
    and "install_attempts n f err m = (r, m')"
  shows "within (4 * n) S m m' \<and> (\<forall>p. r = Inr p \<longrightarrow> P p m')"
  using assms(2)
proof (induction n arbitrary: err m)
  case (Suc n)
  obtain q m1 where q: "f m = (q, m1)" by fastforce
  note w = assms(1) [OF q]
  show ?case
  proof (cases q)
    case (Inl e)
    then have "within (4 * n) S m1 m' \<and> (\<forall>p. r = Inr p \<longrightarrow> P p m')"
      using Suc.IH [of e m1] Suc.prems q by simp
    then show ?thesis using w by (auto intro: within_trans)
  next
    case (Inr p)
    then have "within 4 S m m1" "r = Inr p" "m' = m1" "P p m1" using w Suc.prems q by auto
    then show ?thesis by (auto simp: within_def)
  qed
qed auto

lemma exists_remove: "p \<noteq> q \<Longrightarrow> file_exists p (try_remove pl q m) = file_exists p m"
  by (auto simp: try_remove_def remove_file_def file_exists_def)

lemma within_executable:
  assumes "set_executable pl p m = (r, m')" and "p \<in> S"
  shows "within 0 S m m' \<and> (file_exists p m \<longrightarrow> file_exists p m')"
proof -
  have "m' = m \<or> set_mode pl (\<lambda>k. or k 493) p m = Some m'"
    using assms(1) by (auto simp: set_executable_def split: if_splits option.splits)
  then show ?thesis
  proof
    assume s: "set_mode pl (\<lambda>k. or k 493) p m = Some m'"
    then have "file_exists p m'" by (auto simp: set_mode_def file_exists_def file_at_def split: option.splits if_splits)
    then show ?thesis using within_mode [OF s assms(2)] by simp
  qed simp
qed

lemma within_install:
  assumes "install_core pl now bin_dir core version m = (r, m')"
  shows "within 8 (install_files pl bin_dir core) m m'
    \<and> (\<forall>p. r = Inr p \<longrightarrow> p = core_binary_path pl bin_dir core \<and> file_exists p m')"
proof (cases "asset_name pl core version")
  case (Inl e)
  then show ?thesis using assms by (auto simp: install_core_def)
next
  case (Inr at)
  obtain asset target where at: "at = (asset, target)" by fastforce
  let ?S = "install_files pl bin_dir core" and ?b = "core_binary_path pl bin_dir core"
  let ?tmp = "join_path bin_dir (''.'' @ asset)"
  define url where "url = (case github_repo core of (owner, repo) \<Rightarrow>
    ''https://github.com/'' @ owner @ ''/'' @ repo @ ''/releases/download/'' @ github_tag version @ ''/'' @ asset)"
  have tmp: "?tmp \<in> ?S" and target: "core_type_from_name target = Inr core"
    using asset_file [of pl core version asset target bin_dir] Inr at by simp_all
  have b: "?b \<in> ?S" by (simp add: install_files_def)
  show ?thesis
  proof (cases "make_dir pl bin_dir m")
    case None
    then show ?thesis using assms Inr at by (auto simp: install_core_def Let_def)
  next
    case (Some m1)
    let ?f = "install_attempt pl now bin_dir core version url asset target ?tmp"
    let ?P = "\<lambda>p m. p = ?b \<and> file_exists p m"
    obtain q m2 where q: "install_attempts 2 ?f (Core (''failed to install '' @ core_debug core @ '' from '' @ url)) m1 = (q, m2)"
      by fastforce
    have w2: "within 8 ?S m1 m2 \<and> (\<forall>p. q = Inr p \<longrightarrow> ?P p m2)"
      using within_attempts [where P = ?P, OF within_attempt [OF _ target b tmp] q] by simp
    let ?m3 = "try_remove pl ?tmp m2"
    have w3: "within 8 ?S m ?m3"
      by (rule within_trans [where k = 8 and n = 0, OF within_trans [where k = 0 and n = 8, OF within_dir [OF Some] conjunct1 [OF w2]]
            within_remove [OF tmp]]) simp_all
    show ?thesis
    proof (cases q)
      case (Inl e)
      then have "r = Inl e" "m' = ?m3"
        using assms Inr at Some q by (simp_all add: install_core_def Let_def url_def)
      then show ?thesis using w3 by simp
    next
      case (Inr p)
      obtain t m4 where t: "set_executable pl p ?m3 = (t, m4)" by fastforce
      have r: "m' = m4" "r = Inr p' \<Longrightarrow> p' = p" for p'
        using assms \<open>asset_name pl core version = Inr at\<close> at Some q Inr t
        by (auto simp: install_core_def Let_def url_def split: sum.splits)
      have p: "p = ?b" "file_exists p m2" using w2 Inr by auto
      have "file_exists p ?m3" using p binary_not_hidden [of bin_dir asset pl core] by (simp add: exists_remove)
      then have "within 0 ?S ?m3 m4" "file_exists p m4" using within_executable [OF t] b p(1) by auto
      then show ?thesis using r w3 p(1) by (auto intro: within_trans)
    qed
  qed
qed

lemma installation_within:
  assumes "ensure_core_binary pl now bin_dir core version m = (r, m')"
  shows "within 9 (install_files pl bin_dir core) m m'
    \<and> (\<forall>p. r = Inr p \<longrightarrow> p = core_binary_path pl bin_dir core \<and> file_exists p m')"
proof (cases "file_exists (core_binary_path pl bin_dir core) m")
  case True
  then show ?thesis using assms by (auto simp: ensure_core_binary_def)
next
  case False
  obtain v m1 where v: "(case opt_filter (\<lambda>v. v \<noteq> []) version of Some v \<Rightarrow> (Inr v, m) | None \<Rightarrow> resolve_version pl core m) = (v, m1)"
    by fastforce
  have w1: "within 1 (install_files pl bin_dir core) m m1"
    using v within_get
    by (auto simp: resolve_version_def fetch_latest_version_def split: option.splits prod.splits)
  have "m' = m1 \<and> \<not> is_ok r \<or> (\<exists>s. install_core pl now bin_dir core s m1 = (r, m'))"
    using assms False v by (auto simp: ensure_core_binary_def split: sum.splits)
  then show ?thesis
  proof (elim disjE exE conjE)
    assume "m' = m1" "\<not> is_ok r"
    then show ?thesis using w1 by (auto simp: is_ok_def within_def)
  next
    fix s assume s: "install_core pl now bin_dir core s m1 = (r, m')"
    then have "within 9 (install_files pl bin_dir core) m m'"
      using within_install [OF s] w1 by (auto intro: within_trans)
    then show ?thesis using within_install [OF s] by simp
  qed
qed

text \<open>
  C26: Making sure of a core's binary ends after at most nine requests, whatever the network answers: two
  attempts with at most four requests each, and one for the version. It changes no file but the binary and
  hidden archives of that core, it starts and ends no process, and when it succeeds the binary is there.
\<close>

theorem installation_bounded:
  assumes "ensure_core_binary pl now bin_dir core version m = (r, m')"
  shows "m_requests m' \<le> m_requests m + 9 \<and> (\<forall>p. p \<notin> install_files pl bin_dir core \<longrightarrow> file_at p m' = file_at p m)
    \<and> m_procs m' = m_procs m
    \<and> (\<forall>p. r = Inr p \<longrightarrow> p = core_binary_path pl bin_dir core \<and> file_exists p m')"
  using installation_within [OF assms] ensure_core_binary_procs [OF assms] by (simp add: within_def same_procs_def)

text \<open>A network that serves an archive of the right size and magic, and a machine without cores.\<close>

definition demo_archive :: string where
  "demo_archive = CHR 0x1F # CHR 0x8B # replicate MIN_ARCHIVE (CHR ''x'')"

definition install_platform :: platform where
  "install_platform = demo_platform\<lparr>pf_http := (\<lambda>k url. Answer 200 demo_archive),
     pf_untar := (\<lambda>_. [Inr (''sing-box-1.0/LICENSE'', ''gpl''), Inr (''sing-box-1.0/sing-box'', ''elf'')])\<rparr>"

definition bare_machine :: machine where
  "bare_machine = \<lparr>m_files = [], m_dirs = [], m_procs = [], m_next_pid = 1, m_requests = 0\<rparr>"

lemma archive_valid:
  "read_file p m = Some data \<Longrightarrow> MIN_ARCHIVE \<le> length data \<Longrightarrow> starts_with [CHR 0x1F, CHR 0x8B] data \<Longrightarrow>
     \<not> ends_with ''.zip'' asset \<Longrightarrow> validate_archive pl p asset m = Inr ()"
  by (simp add: validate_archive_def)

lemma download_served:
  assumes "pf_http pl (m_requests m) url = Answer 200 data" and "pf_can_write pl dest"
  shows "download_with_fallback pl now url core version asset dest m = (Inr (), put_file now dest data (m\<lparr>m_requests := Suc (m_requests m)\<rparr>))"
  using assms by (simp add: download_with_fallback_def download_file_def http_get_def is_success_def write_file_def)

lemma read_put [simp]: "read_file p (put_file now p s m) = Some s"
  by (simp add: read_file_def)

lemma install_fields [simp]:
  "pf_can_write install_platform p" "pf_http install_platform k u = Answer 200 demo_archive" "pf_os install_platform = ''linux''" "pf_arch install_platform = ''x86_64''"
  "pf_untar install_platform data = [Inr (''sing-box-1.0/LICENSE'', ''gpl''), Inr (''sing-box-1.0/sing-box'', ''elf'')]"
  by (simp_all add: install_platform_def demo_platform_def)

lemma bare_attempt:
  "install_attempt install_platform 3 ''/bin'' SingBox ''v1'' u ''sing-box-1-linux-amd64.tar.gz'' ''sing-box'' tmp m
    = (Inr ''/bin/sing-box'', put_file 3 ''/bin/sing-box'' ''elf'' (put_file 3 tmp demo_archive (m\<lparr>m_requests := Suc (m_requests m)\<rparr>)))"
proof -
  let ?m = "put_file 3 tmp demo_archive (m\<lparr>m_requests := Suc (m_requests m)\<rparr>)"
  have asset: "\<not> ends_with ''.zip'' ''sing-box-1-linux-amd64.tar.gz''" "ends_with ''.tar.gz'' ''sing-box-1-linux-amd64.tar.gz''"
    by code_simp+
  have d: "download_with_fallback install_platform 3 u SingBox ''v1'' ''sing-box-1-linux-amd64.tar.gz'' tmp m = (Inr (), ?m)"
    by (rule download_served) simp_all
  have v: "validate_archive install_platform tmp ''sing-box-1-linux-amd64.tar.gz'' ?m = Inr ()"
    by (rule archive_valid [OF read_put _ _ asset(1)]) (simp_all add: demo_archive_def)
  have names: "file_name ''sing-box-1.0/LICENSE'' = ''LICENSE''" "file_name ''sing-box-1.0/sing-box'' = ''sing-box''"
    "join_path ''/bin'' ''sing-box'' = ''/bin/sing-box''"
    by code_simp+
  show ?thesis
    by (simp add: install_attempt_def d v extract_archive_def asset extract_tgz_def core_type_from_name_def names write_file_def
        binary_name_on_disk_def Let_def)
qed

lemma executable_ok:
  assumes "file_exists p m" and "pf_can_write pl p"
  shows "\<exists>m'. set_executable pl p m = (Inr (), m')"
  using assms by (auto simp: set_executable_def set_mode_def file_exists_def)

lemma bare_install: "\<exists>p m'. install_core install_platform 3 ''/bin'' SingBox ''v1'' bare_machine = (Inr p, m')"
proof -
  have a: "asset_name install_platform SingBox ''v1'' = Inr (''sing-box-1-linux-amd64.tar.gz'', ''sing-box'')"
    "join_path ''/bin'' (''.'' @ ''sing-box-1-linux-amd64.tar.gz'') = ''/bin/.sing-box-1-linux-amd64.tar.gz''"
    by (simp_all add: asset_name_def target_info_def without_v_def strip_prefix_def join_path_def)
  have two: "install_attempts 2 f e m = (Inr p, m')" if "f m = (Inr p, m')" for f e m p and m' :: machine
    using that by (simp add: numeral_2_eq_2)
  have dir: "make_dir install_platform ''/bin'' bare_machine = Some (bare_machine\<lparr>m_dirs := [''/bin'']\<rparr>)"
    by (simp add: make_dir_def bare_machine_def)
  let ?tmp = "''/bin/.sing-box-1-linux-amd64.tar.gz''"
  let ?m = "put_file 3 ''/bin/sing-box'' ''elf'' (put_file 3 ?tmp demo_archive (bare_machine\<lparr>m_dirs := [''/bin''], m_requests := 1\<rparr>))"
  have "file_exists ''/bin/sing-box'' (try_remove install_platform ?tmp ?m)"
    by (subst exists_remove) (simp_all add: file_exists_def)
  then obtain m' where x: "set_executable install_platform ''/bin/sing-box'' (try_remove install_platform ?tmp ?m) = (Inr (), m')"
    using executable_ok install_fields(1) by blast
  have m: "(bare_machine\<lparr>m_dirs := [''/bin'']\<rparr>)\<lparr>m_requests := Suc (m_requests (bare_machine\<lparr>m_dirs := [''/bin'']\<rparr>))\<rparr>
      = bare_machine\<lparr>m_dirs := [''/bin''], m_requests := 1\<rparr>"
    by (simp add: bare_machine_def)
  show ?thesis
    unfolding install_core_def a sum.case prod.case Let_def dir option.case two [OF bare_attempt] m x by simp
qed

theorem installation_bounded_witness:
  "case ensure_core_binary install_platform 3 ''/bin'' SingBox (Some ''v1'') bare_machine of
     (r, m) \<Rightarrow> r = Inr ''/bin/sing-box'' \<and> file_exists ''/bin/sing-box'' m \<and> m_requests m \<le> 9"
proof -
  obtain r m where e: "ensure_core_binary install_platform 3 ''/bin'' SingBox (Some ''v1'') bare_machine = (r, m)" by fastforce
  have a: "\<not> file_exists ''/bin/sing-box'' bare_machine" "core_binary_path install_platform ''/bin'' SingBox = ''/bin/sing-box''"
    by (simp_all add: file_exists_def file_at_def bare_machine_def core_binary_path_def binary_name_on_disk_def join_path_def)
  have "is_ok r"
    using e a bare_install by (auto simp: ensure_core_binary_def)
  then have "r = Inr ''/bin/sing-box'' \<and> file_exists ''/bin/sing-box'' m"
    using installation_bounded [OF e] a(2) by (cases r) auto
  moreover have "m_requests m \<le> 9" using installation_bounded [OF e] by (simp add: bare_machine_def)
  ultimately show ?thesis by (simp add: e)
qed

end
