(* ===== verification/UpgradeCheck.thy ===== *)
theory UpgradeCheck
  imports NodeCheck
begin

text \<open>
  Properties of the agent's upgrades (client.rs, installer.rs), of the certificates it renews (acme.rs) and
  of its identity (main.rs).
\<close>

section \<open>A failed upgrade\<close>

lemma hidden_name: "n \<noteq> k \<Longrightarrow> join_path d (''.'' @ n) \<noteq> join_path d (''.'' @ k)"
  by (auto dest: join_path_inj)

lemma backup_not_install: "join_path d (''.backup.'' @ core_str core) \<notin> install_files pl d core"
proof -
  have "''backup.'' @ core_str core \<noteq> core_str core @ s" for s by (cases core) simp_all
  then have "join_path d (''.'' @ ''backup.'' @ core_str core) \<noteq> join_path d (''.'' @ core_str core @ s)" for s
    by (rule hidden_name)
  then show ?thesis
    using binary_not_hidden [of d "''backup.'' @ core_str core" pl core] by (auto simp: install_files_def)
qed

lemma rename_at:
  "rename_file pl p q m = Some m' \<Longrightarrow> file_at q m' = file_at p m"
  "rename_file pl p q m = Some m' \<Longrightarrow> file_exists p m"
  by (auto simp: rename_file_def file_at_def file_exists_def split: option.splits if_splits)

lemma rename_ok: "file_exists p m \<Longrightarrow> pf_can_write pl p \<Longrightarrow> pf_can_write pl q \<Longrightarrow> \<exists>m'. rename_file pl p q m = Some m'"
  by (auto simp: rename_file_def file_exists_def)

text \<open>
  When the upgrade of a core's build fails, however far the download came, the binary that was there
  is back in its place, as it was. The installer never touches the copy that was set aside.
\<close>

theorem failed_upgrade_keeps_binary:
  assumes "ensure_core_build pl now d core version build_id m = (Inl e, m')"
    and "file_exists (core_binary_path pl d core) m"
    and "pf_can_write pl (core_binary_path pl d core)" and "pf_can_write pl (join_path d (''.backup.'' @ core_str core))"
    and "pf_can_write pl (join_path d (''.build_id.'' @ core_str core))"
  shows "file_at (core_binary_path pl d core) m' = file_at (core_binary_path pl d core) m"
proof -
  let ?b = "core_binary_path pl d core" and ?k = "join_path d (''.backup.'' @ core_str core)"
  let ?mark = "join_path d (''.build_id.'' @ core_str core)" and ?x = "version @ ''|'' @ build_id"
  obtain m1 where m1: "rename_file pl ?b ?k m = Some m1" using rename_ok assms(2-4) by blast
  obtain r m2 where i: "ensure_core_binary pl now d core (some_text version) m1 = (r, m2)" by fastforce
  have k: "file_at ?k m2 = file_at ?b m"
    using installation_within [OF i] backup_not_install [of d core pl] rename_at(1) [OF m1] by (simp add: within_def)
  have res: "finish_build pl now ?mark ?x ?b ?k True (r, m2) = (Inl e, m')"
    using assms(1,2) m1 i by (auto simp: ensure_core_build_def Let_def set_aside_def split: if_splits)
  show ?thesis
  proof (cases r)
    case (Inr p)
    then show ?thesis using res assms(5) by (simp add: finish_build_def Let_def write_file_def)
  next
    case (Inl err)
    have "file_exists ?k m2" using k assms(2) by (simp add: file_exists_def)
    then obtain m3 where m3: "rename_file pl ?k ?b m2 = Some m3" using rename_ok assms(3,4) by blast
    then show ?thesis using res Inl k rename_at(1) [OF m3] by (simp add: finish_build_def)
  qed
qed

theorem failed_upgrade_keeps_binary_witness:
  "\<not> is_ok (fst (ensure_core_build demo_platform 7 ''/bin'' SingBox ''v2'' [] demo_machine))
   \<and> file_at ''/bin/sing-box'' (snd (ensure_core_build demo_platform 7 ''/bin'' SingBox ''v2'' [] demo_machine))
       = Some \<lparr>f_data = ''elf'', f_mode = 493, f_modified = 0\<rparr>"
proof -
  let ?r = "ensure_core_build demo_platform 7 ''/bin'' SingBox ''v2'' [] demo_machine"
  have b: "core_binary_path demo_platform ''/bin'' SingBox = ''/bin/sing-box''" by code_simp
  have e: "\<not> is_ok (fst ?r)" by code_simp
  then obtain err where "?r = (Inl err, snd ?r)" by (cases ?r; cases "fst ?r") auto
  moreover have "file_exists (core_binary_path demo_platform ''/bin'' SingBox) demo_machine" by code_simp
  ultimately have "file_at (core_binary_path demo_platform ''/bin'' SingBox) (snd ?r)
      = file_at (core_binary_path demo_platform ''/bin'' SingBox) demo_machine"
    by (rule failed_upgrade_keeps_binary) (simp_all add: demo_platform_def)
  then show ?thesis using e by (simp add: b file_at_def demo_machine_def)
qed

section \<open>A corrupt archive\<close>

text \<open>A server whose every answer is an archive of the right size and magic that cannot be unpacked.\<close>

definition serves_corrupt_gzip :: "platform \<Rightarrow> bool" where
  "serves_corrupt_gzip pl \<longleftrightarrow>
     (\<forall>k url. \<exists>data e. pf_http pl k url = Answer 200 data \<and> MIN_ARCHIVE \<le> length data
        \<and> starts_with [CHR 0x1F, CHR 0x8B] data \<and> pf_gunzip pl data = Inl e)"

lemma gz_not_zip: "ends_with ''.gz'' s \<Longrightarrow> \<not> ends_with ''.zip'' s"
  by (auto simp: ends_with_def starts_with_iff)

lemma corrupt_attempt:
  assumes "serves_corrupt_gzip pl" and "\<And>p. pf_can_write pl p" and "ends_with ''.gz'' asset" and "\<not> ends_with ''.tar.gz'' asset"
    and "core_binary_path pl bin_dir Mihomo \<noteq> tmp"
  shows "\<exists>e m'. install_attempt pl now bin_dir Mihomo version url asset ''mihomo'' tmp m = (Inl e, m')
    \<and> read_file (core_binary_path pl bin_dir Mihomo) m' = Some []"
proof -
  obtain data e where s: "pf_http pl (m_requests m) url = Answer 200 data" "MIN_ARCHIVE \<le> length data"
      "starts_with [CHR 0x1F, CHR 0x8B] data" "pf_gunzip pl data = Inl e"
    using assms(1) unfolding serves_corrupt_gzip_def by blast
  let ?m = "put_file now tmp data (m\<lparr>m_requests := Suc (m_requests m)\<rparr>)"
  have d: "download_with_fallback pl now url Mihomo version asset tmp m = (Inr (), ?m)"
    using s(1) assms(2) by (rule download_served)
  have v: "validate_archive pl tmp asset ?m = Inr ()"
    using read_put s(2,3) gz_not_zip [OF assms(3)] by (rule archive_valid)
  show ?thesis
    using assms(2-4) s(4) gz_not_zip [OF assms(3)]
    by (simp add: install_attempt_def d v extract_archive_def extract_gzip_def core_type_from_name_def Let_def write_file_def
        core_binary_path_def)
qed

lemma read_remove: "p \<noteq> q \<Longrightarrow> read_file p (try_remove pl q m) = read_file p m"
  by (auto simp: try_remove_def remove_file_def read_file_def)

text \<open>
  C27: An archive of mihomo that passes the check of its size and magic but cannot be unpacked leaves an
  empty program behind, since the file is created before the archive is read. The installation fails, but
  from then on every installation takes the empty file for the binary, whatever version is asked for, and
  downloads nothing.
\<close>

theorem corrupt_archive_counts_as_installed:
  assumes "serves_corrupt_gzip pl" and "\<And>p. pf_can_write pl p" and "\<not> file_exists (core_binary_path pl bin_dir Mihomo) m"
    and "asset_name pl Mihomo v = Inr (asset, ''mihomo'')" and "ends_with ''.gz'' asset" and "\<not> ends_with ''.tar.gz'' asset"
    and "v \<noteq> []"
  shows "\<exists>e m'. ensure_core_binary pl now bin_dir Mihomo (Some v) m = (Inl e, m')
    \<and> read_file (core_binary_path pl bin_dir Mihomo) m' = Some []
    \<and> (\<forall>later w. ensure_core_binary pl later bin_dir Mihomo w m' = (Inr (core_binary_path pl bin_dir Mihomo), m'))"
proof -
  let ?b = "core_binary_path pl bin_dir Mihomo" and ?tmp = "join_path bin_dir (''.'' @ asset)"
  define url where "url = (case github_repo Mihomo of (owner, repo) \<Rightarrow>
    ''https://github.com/'' @ owner @ ''/'' @ repo @ ''/releases/download/'' @ github_tag v @ ''/'' @ asset)"
  let ?f = "install_attempt pl now bin_dir Mihomo v url asset ''mihomo'' ?tmp"
  have tmp: "?b \<noteq> ?tmp" using binary_not_hidden [of bin_dir asset pl Mihomo] by simp
  obtain m0 where dir: "make_dir pl bin_dir m = Some m0" 
    using assms(2) by (cases "bin_dir \<in> set (m_dirs m)") (auto simp: make_dir_def)
  note attempt = corrupt_attempt [OF assms(1,2,5,6) tmp, of now v url]
  obtain e1 m1 where 1: "?f m0 = (Inl e1, m1)" using attempt by blast
  obtain e2 m2 where 2: "?f m1 = (Inl e2, m2)" and r: "read_file ?b m2 = Some []" using attempt by blast
  let ?m = "try_remove pl ?tmp m2"
  have two: "install_attempts 2 ?f err m0 = (Inl e2, m2)" for err using 1 2 by (simp add: numeral_2_eq_2)
  have "install_core pl now bin_dir Mihomo v m = (Inl e2, ?m)"
    unfolding install_core_def assms(4) sum.case prod.case Let_def dir option.case url_def [symmetric] two by simp
  then have i: "ensure_core_binary pl now bin_dir Mihomo (Some v) m = (Inl e2, ?m)"
    using assms(3,7) by (simp add: ensure_core_binary_def)
  have b: "read_file ?b ?m = Some []" using r read_remove [OF tmp] by simp
  then have "file_exists ?b ?m" by (auto simp: read_file_def file_exists_def)
  then have "ensure_core_binary pl later bin_dir Mihomo w ?m = (Inr ?b, ?m)" for later w
    by (simp add: ensure_core_binary_def)
  then show ?thesis using i b by blast
qed

lemma install_gunzip [simp]: "pf_gunzip install_platform data = Inl ''eof''"
  by (simp add: install_platform_def demo_platform_def)

theorem corrupt_archive_counts_as_installed_witness:
  "\<exists>e m'. ensure_core_binary install_platform 3 ''/bin'' Mihomo (Some ''v1'') bare_machine = (Inl e, m')
    \<and> read_file ''/bin/mihomo'' m' = Some []
    \<and> ensure_core_binary install_platform 4 ''/bin'' Mihomo (Some ''v2'') m' = (Inr ''/bin/mihomo'', m')"
proof -
  have b: "core_binary_path install_platform ''/bin'' Mihomo = ''/bin/mihomo''"
    by (simp add: core_binary_path_def binary_name_on_disk_def join_path_def)
  have s: "serves_corrupt_gzip install_platform"
    by (simp add: serves_corrupt_gzip_def demo_archive_def)
  have a: "asset_name install_platform Mihomo ''v1'' = Inr (''mihomo-linux-amd64-v1.gz'', ''mihomo'')"
    by (simp add: asset_name_def target_info_def github_tag_def)
  have e: "ends_with ''.gz'' ''mihomo-linux-amd64-v1.gz''" "\<not> ends_with ''.tar.gz'' ''mihomo-linux-amd64-v1.gz''" by code_simp+
  have n: "\<not> file_exists (core_binary_path install_platform ''/bin'' Mihomo) bare_machine"
    by (simp add: file_exists_def file_at_def bare_machine_def)
  show ?thesis using corrupt_archive_counts_as_installed [OF s install_fields(1) n a e, of 3] unfolding b by blast
qed

section \<open>Renewed certificates\<close>

lemma count_contains: "str_contains n s \<Longrightarrow> count_list n c \<le> count_list s c"
  by (auto simp: str_contains_iff)

lemma needle_slashes: "count_list (renewal_needle domain) (CHR ''/'') \<ge> 2"
  by (simp add: renewal_needle_def)

lemma cert_path_slashes:
  assumes "CHR ''/'' \<notin> set domain" and "CHR ''/'' \<notin> set ext"
  shows "\<not> str_contains (renewal_needle k) (''certs/'' @ domain @ ext)"
proof
  assume "str_contains (renewal_needle k) (''certs/'' @ domain @ ext)"
  from count_contains [OF this, of "CHR ''/''"] needle_slashes [of k] assms show False
    by (simp add: count_list_0_iff [THEN iffD2])
qed

lemma join_certs: "\<not> starts_with ''/'' n \<Longrightarrow> join_path d (''certs/'' @ n) = join_path (join_path d ''certs'') n"
  by (simp add: join_path_def)

lemma restart_none:
  assumes "\<not> str_contains (renewal_needle domain) (pf_print pl (sn_config (snd cs)))"
  shows "restart_core_using pl now domain cs a = a"
  using assms by (cases cs) (simp add: restart_core_using_def)



end
