(* ===== verification/Releases.thy ===== *)
theory Releases
  imports UpgradeCheck
begin

text \<open>
  The releases of the panel itself on GitHub (pp-common, release.rs). The crate semver is the record
  \<open>release_env\<close>: the parser, the order and the printer of versions, with a time parser for the dates and
  the text of an answer that has not the expected shape.
\<close>

datatype ordering = Lesser | Same | Greater

record semver =
  ver_major :: nat
  ver_minor :: nat
  ver_patch :: nat
  ver_pre :: string
  ver_build :: string

record release_env =
  re_parse :: "string \<Rightarrow> string + semver"
  re_cmp :: "semver \<Rightarrow> semver \<Rightarrow> ordering"
  re_text :: "semver \<Rightarrow> string"
  re_time :: "string \<Rightarrow> tstamp option"
  re_shape_error :: string

record release =
  rl_tag :: string
  rl_version :: semver
  rl_html_url :: string
  rl_published_at :: "tstamp option"

section \<open>Versions\<close>

definition in_quotes :: "string \<Rightarrow> string" where
  "in_quotes s = CHR 0x27 # s @ [CHR 0x27]"

definition parse_version :: "release_env \<Rightarrow> string \<Rightarrow> semver panel_result" where
  "parse_version re value =
     map_err (\<lambda>e. Validation (''invalid semantic version '' @ in_quotes value @ '': '' @ e)) (re_parse re (without_v value))"

definition compare_releases :: "release_env \<Rightarrow> string \<Rightarrow> string \<Rightarrow> ordering panel_result" where
  "compare_releases re current target =
     rbind (parse_version re current) (\<lambda>c. rbind (parse_version re target) (\<lambda>t. Inr (re_cmp re c t)))"

section \<open>Repositories\<close>

definition ascii_alphanumeric :: "char \<Rightarrow> bool" where
  "ascii_alphanumeric c =
     (let n = of_char c :: nat in 48 \<le> n \<and> n \<le> 57 \<or> 65 \<le> n \<and> n \<le> 90 \<or> 97 \<le> n \<and> n \<le> 122)"

definition valid_segment :: "string \<Rightarrow> bool" where
  "valid_segment s \<longleftrightarrow>
     s \<noteq> [] \<and> s \<noteq> ''.'' \<and> s \<noteq> ''..'' \<and> (\<forall>c \<in> set s. ascii_alphanumeric c \<or> c \<in> set ''.-_'')"

definition validate_repo :: "string \<Rightarrow> unit panel_result" where
  "validate_repo repo =
     (case split_on (CHR ''/'') repo of
        [owner, name] \<Rightarrow> if valid_segment owner \<and> valid_segment name then Inr ()
                         else Inl (Validation (''invalid GitHub repository '' @ in_quotes repo @ ''; expected owner/name''))
      | _ \<Rightarrow> Inl (Validation (''invalid GitHub repository '' @ in_quotes repo @ ''; expected owner/name'')))"

definition trim_end_slashes :: "string \<Rightarrow> string" where
  "trim_end_slashes s = rev (dropWhile (\<lambda>c. c = CHR ''/'') (rev s))"

text \<open>\<open>GitHubReleaseClient\<close>: the repository and the base of the interface's addresses.\<close>

definition release_client :: "platform \<Rightarrow> string \<Rightarrow> (string \<times> string) panel_result" where
  "release_client pl repo =
     rbind (validate_repo repo) (\<lambda>_.
       let base = trim_end_slashes (unwrap_or (pf_env pl ''PROXYPANEL_RELEASE_API_BASE'') ''https://api.github.com'') in
       if starts_with ''https://'' base \<or> starts_with ''http://'' base then Inr (repo, base)
       else Inl (Validation ''PROXYPANEL_RELEASE_API_BASE must be an HTTP(S) URL''))"

section \<open>Answers\<close>

record release_response =
  ra_tag_name :: string
  ra_html_url :: string
  ra_published_at :: "tstamp option"
  ra_draft :: bool
  ra_prerelease :: bool

definition response_of_json :: "release_env \<Rightarrow> json \<Rightarrow> release_response option" where
  "response_of_json re v =
     Option.bind (get_str v ''tag_name'') (\<lambda>tag.
     Option.bind (get_str v ''html_url'') (\<lambda>url.
     Option.bind (case jget v ''published_at'' of
                    None \<Rightarrow> Some None
                  | Some JNull \<Rightarrow> Some None
                  | Some w \<Rightarrow> map_option Some (Option.bind (as_str w) (re_time re))) (\<lambda>published.
     Option.bind (get_bool v ''draft'') (\<lambda>draft.
     map_option (\<lambda>pre. \<lparr>ra_tag_name = tag, ra_html_url = url, ra_published_at = published, ra_draft = draft, ra_prerelease = pre\<rparr>)
       (get_bool v ''prerelease'')))))"

definition responses_of_json :: "release_env \<Rightarrow> json \<Rightarrow> release_response list option" where
  "responses_of_json re v =
     Option.bind (as_array v) (\<lambda>vs.
       let rs = map (response_of_json re) vs in if None \<in> set rs then None else Some (map the rs))"

definition release_of_response :: "release_env \<Rightarrow> release_response \<Rightarrow> release panel_result" where
  "release_of_response re r =
     rbind (parse_version re (ra_tag_name r)) (\<lambda>v.
       Inr \<lparr>rl_tag = ra_tag_name r, rl_version = v, rl_html_url = ra_html_url r, rl_published_at = ra_published_at r\<rparr>)"

text \<open>\<open>max_by\<close>: of equal ones the last.\<close>

definition newest_release :: "release_env \<Rightarrow> release list \<Rightarrow> release option" where
  "newest_release re rs =
     fold (\<lambda>r best. case best of
         None \<Rightarrow> Some r
       | Some b \<Rightarrow> if re_cmp re (rl_version b) (rl_version r) = Greater then Some b else Some r) rs None"

definition select_latest_stable :: "release_env \<Rightarrow> release_response list \<Rightarrow> release panel_result" where
  "select_latest_stable re responses =
     rbind (collect_results (map (release_of_response re) (filter (\<lambda>r. \<not> ra_draft r \<and> \<not> ra_prerelease r) responses))) (\<lambda>rs.
       ok_or (newest_release re rs) (Release ''no stable GitHub releases found''))"

definition get_release_json :: "platform \<Rightarrow> string \<Rightarrow> (json \<Rightarrow> 'a option) \<Rightarrow> string \<Rightarrow> machine \<Rightarrow> 'a panel_result \<times> machine" where
  "get_release_json pl shape of_json url m =
     (case http_get pl url m of
        (a, m) \<Rightarrow>
          (case a of
             NoAnswer e \<Rightarrow> Inl (Release (''GitHub request failed for '' @ url @ '': '' @ e))
           | _ \<Rightarrow>
               if \<not> is_success (the (answer_status a))
               then Inl (Release (''GitHub request failed for '' @ url @ '': HTTP '' @ pf_status_text pl (the (answer_status a))))
               else
                 map_err (\<lambda>e. Release (''invalid GitHub JSON response from '' @ url @ '': '' @ e))
                   (rbind (json_body pl a) (\<lambda>v. ok_or (of_json v) shape)), m))"

definition latest_stable :: "platform \<Rightarrow> release_env \<Rightarrow> string \<times> string \<Rightarrow> machine \<Rightarrow> release panel_result \<times> machine" where
  "latest_stable pl re client m =
     (case client of (repo, base) \<Rightarrow>
        case get_release_json pl (re_shape_error re) (responses_of_json re) (base @ ''/repos/'' @ repo @ ''/releases?per_page=100'') m of
          (r, m) \<Rightarrow> (rbind r (select_latest_stable re), m))"

definition with_v :: "string \<Rightarrow> string" where
  "with_v tag = (if starts_with ''v'' tag then tag else ''v'' @ tag)"

definition release_by_tag :: "platform \<Rightarrow> release_env \<Rightarrow> string \<times> string \<Rightarrow> string \<Rightarrow> machine \<Rightarrow> release panel_result \<times> machine" where
  "release_by_tag pl re client tag m =
     (case client of (repo, base) \<Rightarrow>
        case parse_version re tag of
          Inl e \<Rightarrow> (Inl e, m)
        | Inr _ \<Rightarrow>
            (case get_release_json pl (re_shape_error re) (response_of_json re)
                    (base @ ''/repos/'' @ repo @ ''/releases/tags/'' @ with_v tag) m of
               (r, m) \<Rightarrow>
                 (rbind r (\<lambda>r.
                    if ra_draft r then Inl (Release (''release '' @ with_v tag @ '' is a draft and cannot be installed''))
                    else release_of_response re r), m)))"

end
