(* ===== verification/Upkeep.thy ===== *)
theory Upkeep
  imports Releases
begin

text \<open>
  What the commands of the management program share (pp-cli, ops: mod.rs, fsutil.rs, systemd.rs,
  download.rs and the lock of maintenance.rs). An \<open>anyhow\<close> error is a value of \<open>ops_error\<close>, with one
  constructor per message; its text is a parameter where the program writes it down.
\<close>

section \<open>The host\<close>

datatype ops_error =
    NotRoot | UnknownComponent string | UnsupportedArch string | Locked path | FileFails path
  | NoReply string | BadReply string nat | NoChecksum string | BadChecksum string string string
  | RunFails path | VersionRefused path string | VersionUnread path string
  | TarFails path | NotInTarball string | NoWebDist | UnitRefused string string | UnitUnstable string
  | Downgrade string string | NoBinary | WrongVersion string string
  | Restored ops_error | NotRestored ops_error "ops_error list" | NoBackup string
  | ReleaseFails panel_error | UserRefused string | Rejected string

text \<open>
  \<open>to_untar\<close> gives the directories and files of an archive by their relative paths, or none when \<open>tar\<close>
  fails; \<open>to_version\<close> is the run of a program with \<open>--version\<close>: its exit, its output and its error output;
  \<open>to_restart\<close> and \<open>to_checks\<close> tell, from the unit and its program, whether a restart succeeds and what
  the checks after it answer; \<open>to_same_fs\<close> whether a file can be renamed from one path to another.
\<close>

record host_tools =
  to_root :: bool
  to_tmp :: path
  to_sha256 :: "string \<Rightarrow> string"
  to_untar :: "string \<Rightarrow> (path list \<times> (path \<times> string \<times> nat) list) option"
  to_version :: "string \<Rightarrow> (bool \<times> string \<times> string) option"
  to_restart :: "string \<Rightarrow> string option \<Rightarrow> bool"
  to_checks :: "string \<Rightarrow> string option \<Rightarrow> nat \<Rightarrow> bool"
  to_same_fs :: "path \<Rightarrow> path \<Rightarrow> bool"
  to_stamp :: "tstamp \<Rightarrow> string"
  to_error_text :: "ops_error \<Rightarrow> string"
  to_time_text :: "tstamp \<Rightarrow> string"

text \<open>The record of a command's progress, written to a file when one is asked for (maintenance.rs).\<close>

datatype upgrade_outcome = Running | Succeeded | Failed | RolledBack

record upgrade_status =
  us_path :: "path option"
  us_status :: upgrade_outcome
  us_stage :: string
  us_component :: string
  us_current_version :: "string option"
  us_target_version :: "string option"
  us_message :: string
  us_started_at :: tstamp
  us_finished_at :: "tstamp option"

text \<open>
  The host: its files, the time of each directory's last change, the units that run or are enabled, and
  whether a command holds the lock. The last two fields are the command's own.
\<close>

record host =
  ho_machine :: machine
  ho_dir_times :: "(path \<times> tstamp) list"
  ho_active :: "string list"
  ho_enabled :: "string list"
  ho_lock :: bool
  ho_status :: upgrade_status
  ho_rolled_back :: bool

type_synonym 'a ops = "host \<Rightarrow> (ops_error + 'a) \<times> host"

definition op_ok :: "'a \<Rightarrow> 'a ops" where "op_ok x h = (Inr x, h)"
definition op_fail :: "ops_error \<Rightarrow> 'a ops" where "op_fail e h = (Inl e, h)"

definition op_bind :: "'a ops \<Rightarrow> ('a \<Rightarrow> 'b ops) \<Rightarrow> 'b ops" where
  "op_bind f g h = (case f h of (Inl e, h) \<Rightarrow> (Inl e, h) | (Inr x, h) \<Rightarrow> g x h)"

definition op_seq :: "unit ops \<Rightarrow> 'b ops \<Rightarrow> 'b ops" where "op_seq f g = op_bind f (\<lambda>_. g)"

definition op_get :: "(host \<Rightarrow> 'a) \<Rightarrow> 'a ops" where "op_get f h = (Inr (f h), h)"
definition op_lift :: "(ops_error + 'a) \<Rightarrow> 'a ops" where "op_lift r h = (r, h)"

section \<open>Files and directories\<close>

definition BIN_DIR :: path where "BIN_DIR = ''/usr/local/bin''"
definition ETC_DIR :: path where "ETC_DIR = ''/etc/proxy-panel''"
definition OPT_DIR :: path where "OPT_DIR = ''/opt/proxy-panel''"
definition VAR_DIR :: path where "VAR_DIR = ''/var/lib/proxy-panel''"
definition BACKUP_DIR :: path where "BACKUP_DIR = ''/opt/proxy-panel/backup''"

definition is_dir :: "path \<Rightarrow> machine \<Rightarrow> bool" where "is_dir p m \<longleftrightarrow> p \<in> set (m_dirs m)"
definition path_exists :: "path \<Rightarrow> machine \<Rightarrow> bool" where "path_exists p m \<longleftrightarrow> is_dir p m \<or> file_exists p m"

text \<open>What lies below a directory, by its path from there; \<open>in_dir\<close> leads back.\<close>

definition in_dir :: "path \<Rightarrow> path \<Rightarrow> path" where "in_dir d r = dir_prefix d @ r"

definition below :: "path \<Rightarrow> path \<Rightarrow> path option" where
  "below d p = opt_filter (\<lambda>r. r \<noteq> []) (strip_prefix (dir_prefix d) p)"

definition tree_files :: "path \<Rightarrow> machine \<Rightarrow> (path \<times> stored) list" where
  "tree_files d m = List.map_filter (\<lambda>(p, f). map_option (\<lambda>r. (r, f)) (below d p)) (m_files m)"

definition tree_dirs :: "path \<Rightarrow> machine \<Rightarrow> path list" where
  "tree_dirs d m = List.map_filter (below d) (m_dirs m)"

text \<open>The steps of an operation on files, up to the first that fails.\<close>

fun run_steps :: "(machine \<Rightarrow> machine option) list \<Rightarrow> machine \<Rightarrow> bool \<times> machine" where
  "run_steps [] m = (True, m)"
| "run_steps (f # fs) m = (case f m of None \<Rightarrow> (False, m) | Some m \<Rightarrow> run_steps fs m)"

definition op_files :: "path \<Rightarrow> (machine \<Rightarrow> bool \<times> machine) \<Rightarrow> unit ops" where
  "op_files p f h =
     (case f (ho_machine h) of (ok, m) \<Rightarrow> (if ok then Inr () else Inl (FileFails p), h\<lparr>ho_machine := m\<rparr>))"

text \<open>A copy takes the mode with it.\<close>

definition copy_one :: "platform \<Rightarrow> tstamp \<Rightarrow> path \<Rightarrow> path \<Rightarrow> machine \<Rightarrow> machine option" where
  "copy_one pl now src dst m =
     (case file_at src m of
        None \<Rightarrow> None
      | Some f \<Rightarrow>
          if pf_can_write pl dst \<and> \<not> is_dir dst m
          then Some (m\<lparr>m_files := AList.update dst (f\<lparr>f_modified := now\<rparr>) (m_files m)\<rparr>) else None)"

definition drop_tree :: "path \<Rightarrow> machine \<Rightarrow> machine" where
  "drop_tree d m =
     m\<lparr>m_files := filter (\<lambda>(p, f). p \<noteq> d \<and> below d p = None) (m_files m),
       m_dirs := filter (\<lambda>p. p \<noteq> d \<and> below d p = None) (m_dirs m)\<rparr>"

definition remove_tree :: "platform \<Rightarrow> path \<Rightarrow> machine \<Rightarrow> machine option" where
  "remove_tree pl d m = (if is_dir d m \<and> pf_can_write pl d then Some (drop_tree d m) else None)"

text \<open>The directories of a tree come before its files.\<close>

definition copy_tree_steps :: "platform \<Rightarrow> tstamp \<Rightarrow> path \<Rightarrow> path \<Rightarrow> machine \<Rightarrow> (machine \<Rightarrow> machine option) list" where
  "copy_tree_steps pl now src dst m =
     make_dir pl dst # map (\<lambda>r. make_dir pl (in_dir dst r)) (tree_dirs src m)
     @ map (\<lambda>(r, f). copy_one pl now (in_dir src r) (in_dir dst r)) (tree_files src m)"

definition new_child :: "path \<Rightarrow> machine \<Rightarrow> machine \<Rightarrow> bool" where
  "new_child d m m' \<longleftrightarrow>
     (\<exists>r \<in> set (map fst (tree_files d m') @ tree_dirs d m'). CHR ''/'' \<notin> set r
        \<and> r \<notin> set (map fst (tree_files d m) @ tree_dirs d m))"

definition touch_dir :: "tstamp \<Rightarrow> path \<Rightarrow> machine \<Rightarrow> host \<Rightarrow> host" where
  "touch_dir now d m h =
     (if \<not> is_dir d m \<or> new_child d m (ho_machine h) then h\<lparr>ho_dir_times := AList.update d now (ho_dir_times h)\<rparr> else h)"

definition ensure_dir :: "platform \<Rightarrow> path \<Rightarrow> unit ops" where
  "ensure_dir pl p h =
     (if path_exists p (ho_machine h) then (Inr (), h) else op_files p (run_steps [make_dir pl p]) h)"

definition copy_file :: "platform \<Rightarrow> tstamp \<Rightarrow> path \<Rightarrow> path \<Rightarrow> unit ops" where
  "copy_file pl now src dst = op_files dst (run_steps [copy_one pl now src dst])"

definition copy_dir_recursive :: "platform \<Rightarrow> tstamp \<Rightarrow> path \<Rightarrow> path \<Rightarrow> unit ops" where
  "copy_dir_recursive pl now src dst h =
     (let m = ho_machine h in
      case op_files dst (run_steps (copy_tree_steps pl now src dst m)) h of (r, h) \<Rightarrow> (r, touch_dir now dst m h))"

definition write_text :: "platform \<Rightarrow> tstamp \<Rightarrow> path \<Rightarrow> string \<Rightarrow> nat option \<Rightarrow> unit ops" where
  "write_text pl now p s mode =
     op_files p (run_steps (write_file pl now p s # (case mode of Some k \<Rightarrow> [set_mode pl (\<lambda>_. k) p] | None \<Rightarrow> [])))"

definition remove_if_exists :: "platform \<Rightarrow> path \<Rightarrow> unit ops" where
  "remove_if_exists pl p h =
     (if path_exists p (ho_machine h) then op_files p (run_steps [remove_file pl p]) h else (Inr (), h))"

definition remove_dir_if_empty :: "platform \<Rightarrow> path \<Rightarrow> unit ops" where
  "remove_dir_if_empty pl p h =
     (let m = ho_machine h in
      if \<not> path_exists p m then (Inr (), h)
      else if \<not> is_dir p m then (Inl (FileFails p), h)
      else if tree_files p m = [] \<and> tree_dirs p m = [] then op_files p (run_steps [remove_tree pl p]) h
      else (Inr (), h))"

definition rename_tree :: "platform \<Rightarrow> path \<Rightarrow> path \<Rightarrow> machine \<Rightarrow> machine option" where
  "rename_tree pl src dst m =
     (if \<not> is_dir src m \<or> file_exists dst m \<or> tree_files dst m \<noteq> [] \<or> tree_dirs dst m \<noteq> [] \<or> \<not> pf_can_write pl dst then None
      else
        (let fs = tree_files src m; ds = tree_dirs src m; m = drop_tree src m
         in Some (m\<lparr>m_files := m_files m @ map (\<lambda>(r, f). (in_dir dst r, f)) fs,
                    m_dirs := removeAll dst (m_dirs m) @ dst # map (in_dir dst) ds\<rparr>)))"

text \<open>Across file systems a copy beside the target takes its place.\<close>

definition staging_path :: "path \<Rightarrow> path" where
  "staging_path dst =
     (let n = file_name dst in
      take (length dst - length n) dst @ ''.'' @ (if n = [] then ''bin'' else n))"

definition move_file :: "platform \<Rightarrow> host_tools \<Rightarrow> tstamp \<Rightarrow> path \<Rightarrow> path \<Rightarrow> unit ops" where
  "move_file pl to now src dst =
     (if to_same_fs to src dst then op_files dst (run_steps [rename_file pl src dst])
      else
        op_files dst (run_steps
          [copy_one pl now src (staging_path dst), rename_file pl (staging_path dst) dst, remove_file pl src]))"

definition move_path :: "platform \<Rightarrow> host_tools \<Rightarrow> tstamp \<Rightarrow> path \<Rightarrow> path \<Rightarrow> unit ops" where
  "move_path pl to now src dst h =
     (if \<not> is_dir src (ho_machine h) then move_file pl to now src dst h
      else if to_same_fs to src dst then op_files dst (run_steps [rename_tree pl src dst]) h
      else op_seq (copy_dir_recursive pl now src dst) (op_files src (run_steps [remove_tree pl src])) h)"

definition find_web_dist :: "path \<Rightarrow> machine \<Rightarrow> path option" where
  "find_web_dist d m = find (\<lambda>p. is_dir p m) [join_path d ''web/dist'', join_path d ''dist'']"

section \<open>Backups\<close>

definition backup_path :: "path \<Rightarrow> string \<Rightarrow> string \<Rightarrow> path" where
  "backup_path backup_dir name label = join_path backup_dir (name @ ''.'' @ label @ ''.bak'')"

text \<open>The entries of a directory, the directories before the files, each with the time of its last change.\<close>

definition dated_entries :: "path \<Rightarrow> host \<Rightarrow> (string \<times> tstamp) list" where
  "dated_entries d h =
     (let m = ho_machine h in
      map (\<lambda>r. (r, unwrap_or (map_of (ho_dir_times h) (in_dir d r)) 0)) (filter (\<lambda>r. CHR ''/'' \<notin> set r) (tree_dirs d m))
      @ map (\<lambda>(r, f). (r, f_modified f)) (filter (\<lambda>(r, f). CHR ''/'' \<notin> set r) (tree_files d m)))"

definition backups_in :: "path \<Rightarrow> string \<Rightarrow> host \<Rightarrow> path list" where
  "backups_in d name h =
     map (\<lambda>(r, t). in_dir d r)
       (sort_key (\<lambda>(r, t). - t)
          (filter (\<lambda>(r, t). starts_with (name @ ''.'') r \<and> ends_with ''.bak'' r) (dated_entries d h)))"

definition find_latest_backup :: "path \<Rightarrow> string \<Rightarrow> path option ops" where
  "find_latest_backup d name h =
     (if \<not> is_dir d (ho_machine h) then (Inl (FileFails d), h)
      else (Inr (case backups_in d name h of [] \<Rightarrow> None | p # ps \<Rightarrow> Some p), h))"

definition remove_any :: "platform \<Rightarrow> path \<Rightarrow> machine \<Rightarrow> machine option" where
  "remove_any pl p m = (if is_dir p m then remove_tree pl p m else remove_file pl p m)"

definition prune_backups :: "platform \<Rightarrow> path \<Rightarrow> string \<Rightarrow> host \<Rightarrow> host" where
  "prune_backups pl d name h =
     (if \<not> path_exists d (ho_machine h) then h
      else h\<lparr>ho_machine := fold (\<lambda>p m. unwrap_or (remove_any pl p m) m) (drop 1 (backups_in d name h)) (ho_machine h)\<rparr>)"

section \<open>Units\<close>

text \<open>The full name of a unit, which may be given without its ending, and the program it runs.\<close>

definition unit_name :: "string \<Rightarrow> string" where
  "unit_name u = (if ends_with ''.service'' u then u else u @ ''.service'')"

definition unit_binary :: "string \<Rightarrow> path" where
  "unit_binary u = join_path BIN_DIR (unwrap_or (if ends_with ''.service'' u then Some (take (length u - 8) u) else None) u)"

definition systemd_is_active :: "string \<Rightarrow> bool ops" where
  "systemd_is_active u = op_get (\<lambda>h. unit_name u \<in> set (ho_active h))"

definition systemd_stop :: "string \<Rightarrow> unit ops" where
  "systemd_stop u h = (Inr (), h\<lparr>ho_active := removeAll (unit_name u) (ho_active h)\<rparr>)"

definition systemd_disable :: "string \<Rightarrow> unit ops" where
  "systemd_disable u h = (Inr (), h\<lparr>ho_enabled := removeAll (unit_name u) (ho_enabled h)\<rparr>)"

definition systemd_restart :: "host_tools \<Rightarrow> string \<Rightarrow> unit ops" where
  "systemd_restart to u h =
     (if to_restart to u (read_file (unit_binary u) (ho_machine h)) then (Inr (), h\<lparr>ho_active := List.insert (unit_name u) (ho_active h)\<rparr>)
      else (Inl (UnitRefused ''restart'' u), h\<lparr>ho_active := removeAll (unit_name u) (ho_active h)\<rparr>))"

text \<open>Three checks in a row that find the unit active, within \<open>n\<close> checks; \<open>k\<close> is the number of the next check.\<close>

fun stable_within :: "(nat \<Rightarrow> bool) \<Rightarrow> nat \<Rightarrow> nat \<Rightarrow> nat \<Rightarrow> bool" where
  "stable_within check 0 k row = False"
| "stable_within check (Suc n) k row =
     (if check k then (if Suc row = 3 then True else stable_within check n (Suc k) (Suc row))
      else stable_within check n (Suc k) 0)"

definition systemd_wait_stable :: "host_tools \<Rightarrow> string \<Rightarrow> unit ops" where
  "systemd_wait_stable to u h =
     (if stable_within (to_checks to u (read_file (unit_binary u) (ho_machine h))) 30 0 0 then (Inr (), h)
      else (Inl (UnitUnstable u), h))"

section \<open>Downloads\<close>

definition build_download_url :: "string \<Rightarrow> string \<Rightarrow> string \<Rightarrow> string" where
  "build_download_url repo version asset =
     (if version = ''latest'' then ''https://github.com/'' @ repo @ ''/releases/latest/download/'' @ asset
      else ''https://github.com/'' @ repo @ ''/releases/download/'' @ with_v version @ ''/'' @ asset)"

definition release_arch :: "platform \<Rightarrow> ops_error + string" where
  "release_arch pl = (if pf_arch pl \<in> {''x86_64'', ''aarch64''} then Inr (pf_arch pl) else Inl (UnsupportedArch (pf_arch pl)))"

text \<open>\<open>split_whitespace\<close> on lines: the white space that is a single byte.\<close>

definition is_blank :: "char \<Rightarrow> bool" where
  "is_blank c = (let n = of_char c :: nat in n = 32 \<or> 9 \<le> n \<and> n \<le> 13)"

fun words_of :: "string \<Rightarrow> string \<Rightarrow> string list" where
  "words_of w [] = (if w = [] then [] else [w])"
| "words_of w (c # s) = (if is_blank c then (if w = [] then words_of [] s else w # words_of [] s) else words_of (w @ [c]) s)"

definition checksum_line :: "string \<Rightarrow> string \<Rightarrow> string option" where
  "checksum_line asset line =
     (let line = trim line in
      if line = [] \<or> starts_with ''#'' line then None
      else (case words_of [] line of
              hash # filename # rest \<Rightarrow> if filename = asset then Some (ascii_lower hash) else None
            | _ \<Rightarrow> None))"

definition parse_sha256_from_sums :: "string \<Rightarrow> string \<Rightarrow> string option" where
  "parse_sha256_from_sums sums asset = first_some (checksum_line asset) (split_on (CHR 0x0A) sums)"

definition parse_version_from_output :: "string \<Rightarrow> string option" where
  "parse_version_from_output out =
     (case words_of [] (trim (hd (split_on (CHR 0x0A) out))) of [] \<Rightarrow> None | w # ws \<Rightarrow> Some (last (w # ws)))"

definition op_http :: "platform \<Rightarrow> string \<Rightarrow> http_answer ops" where
  "op_http pl url h = (case http_get pl url (ho_machine h) of (a, m) \<Rightarrow> (Inr a, h\<lparr>ho_machine := m\<rparr>))"

definition download_text :: "platform \<Rightarrow> string \<Rightarrow> string ops" where
  "download_text pl url =
     op_bind (op_http pl url) (\<lambda>a. op_lift
       (case a of
          NoAnswer e \<Rightarrow> Inl (NoReply url)
        | Answer s body \<Rightarrow> if is_success s then Inr body else Inl (BadReply url s)
        | Broken s part e \<Rightarrow> if is_success s then Inl (NoReply url) else Inl (BadReply url s)))"

definition download_to_file :: "platform \<Rightarrow> tstamp \<Rightarrow> string \<Rightarrow> path \<Rightarrow> unit ops" where
  "download_to_file pl now url dest =
     op_bind (op_http pl url) (\<lambda>a.
       (case a of
          NoAnswer e \<Rightarrow> op_fail (NoReply url)
        | Answer s body \<Rightarrow> if is_success s then op_files dest (run_steps [write_file pl now dest body]) else op_fail (BadReply url s)
        | Broken s part e \<Rightarrow>
            if is_success s then op_seq (op_files dest (run_steps [write_file pl now dest part])) (op_fail (NoReply url))
            else op_fail (BadReply url s)))"

definition op_some :: "ops_error \<Rightarrow> 'a option \<Rightarrow> 'a ops" where
  "op_some e v = op_lift (ok_or v e)"

definition sha256_file :: "host_tools \<Rightarrow> path \<Rightarrow> string ops" where
  "sha256_file to p h = (ok_or (map_option (to_sha256 to) (read_file p (ho_machine h))) (FileFails p), h)"

definition download_and_verify :: "platform \<Rightarrow> host_tools \<Rightarrow> tstamp \<Rightarrow> string \<Rightarrow> string \<Rightarrow> string \<Rightarrow> path ops" where
  "download_and_verify pl to now repo version asset =
     op_bind (download_text pl (build_download_url repo version ''SHA256SUMS'')) (\<lambda>sums.
     op_bind (op_some (NoChecksum asset) (parse_sha256_from_sums sums asset)) (\<lambda>expected.
     (let p = join_path (to_tmp to) asset in
      op_seq (download_to_file pl now (build_download_url repo version asset) p)
        (op_bind (sha256_file to p) (\<lambda>actual.
           if actual \<noteq> expected then op_fail (BadChecksum asset expected actual) else op_ok p)))))"

definition installed_version :: "host_tools \<Rightarrow> path \<Rightarrow> string option ops" where
  "installed_version to p h =
     (case read_file p (ho_machine h) of
        None \<Rightarrow> (Inr None, h)
      | Some bin \<Rightarrow>
          (case to_version to bin of
             None \<Rightarrow> (Inl (RunFails p), h)
           | Some (ok, out, err) \<Rightarrow> (Inr (if ok then parse_version_from_output out else None), h)))"

definition installed_version_strict :: "host_tools \<Rightarrow> path \<Rightarrow> string option ops" where
  "installed_version_strict to p h =
     (case read_file p (ho_machine h) of
        None \<Rightarrow> (Inr None, h)
      | Some bin \<Rightarrow>
          (case to_version to bin of
             None \<Rightarrow> (Inl (RunFails p), h)
           | Some (ok, out, err) \<Rightarrow>
               if \<not> ok then (Inl (VersionRefused p (trim err)), h)
               else (case parse_version_from_output out of
                       Some v \<Rightarrow> (Inr (Some v), h) | None \<Rightarrow> (Inl (VersionUnread p (trim out)), h))))"

section \<open>Root and the lock\<close>

definition require_root :: "host_tools \<Rightarrow> unit ops" where
  "require_root to = (if to_root to then op_ok () else op_fail NotRoot)"

text \<open>The lock is kept until the command ends; another command that holds it is told by \<open>ho_lock\<close>.\<close>

definition acquire_lock :: "platform \<Rightarrow> tstamp \<Rightarrow> unit ops" where
  "acquire_lock pl now =
     op_seq (ensure_dir pl OPT_DIR)
       (\<lambda>h. let p = join_path OPT_DIR ''maintenance.lock'' in
            case op_files p (run_steps [\<lambda>m. if file_exists p m then Some m else write_file pl now p [] m]) h of
              (Inl e, h) \<Rightarrow> (Inl e, h)
            | (Inr _, h) \<Rightarrow> if ho_lock h then (Inl (Locked p), h) else (Inr (), h\<lparr>ho_lock := True\<rparr>))"

definition release_lock :: "host \<Rightarrow> host" where
  "release_lock h = h\<lparr>ho_lock := False\<rparr>"

end
