(* ===== verification/Upgrade.thy ===== *)
theory Upgrade
  imports Upkeep
begin

text \<open>
  The upgrade and the rollback of a component (pp-cli, ops/upgrade.rs) with the progress it writes
  (ops/maintenance.rs). A command runs at one time, \<open>now\<close>; owners of files are not modelled, and
  what is printed on the terminal is left out.
\<close>

section \<open>Progress\<close>

definition msg_resolving :: string where
  "msg_resolving =
     [CHR 0xE6, CHR 0xAD, CHR 0xA3, CHR 0xE5, CHR 0x9C, CHR 0xA8, CHR 0xE8, CHR 0xA7, CHR 0xA3, CHR 0xE6, CHR 0x9E,
      CHR 0x90, CHR 0xE7, CHR 0x9B, CHR 0xAE, CHR 0xE6, CHR 0xA0, CHR 0x87] @ '' Release''"

definition msg_skipped :: string where
  "msg_skipped =
     [CHR 0xE5, CHR 0xBD, CHR 0x93, CHR 0xE5, CHR 0x89, CHR 0x8D, CHR 0xE7, CHR 0x89, CHR 0x88, CHR 0xE6, CHR 0x9C,
      CHR 0xAC, CHR 0xE5, CHR 0xB7, CHR 0xB2, CHR 0xE6, CHR 0x98, CHR 0xAF, CHR 0xE7, CHR 0x9B, CHR 0xAE, CHR 0xE6,
      CHR 0xA0, CHR 0x87, CHR 0xE7, CHR 0x89, CHR 0x88, CHR 0xE6, CHR 0x9C, CHR 0xAC, CHR 0xEF, CHR 0xBC, CHR 0x8C,
      CHR 0xE8, CHR 0xB7, CHR 0xB3, CHR 0xE8, CHR 0xBF, CHR 0x87, CHR 0xE5, CHR 0x8D, CHR 0x87, CHR 0xE7, CHR 0xBA,
      CHR 0xA7]"

definition msg_preparing :: string where
  "msg_preparing =
     [CHR 0xE6, CHR 0xAD, CHR 0xA3, CHR 0xE5, CHR 0x9C, CHR 0xA8, CHR 0xE4, CHR 0xB8, CHR 0x8B, CHR 0xE8, CHR 0xBD,
      CHR 0xBD, CHR 0xE3, CHR 0x80, CHR 0x81, CHR 0xE6, CHR 0xA0, CHR 0xA1, CHR 0xE9, CHR 0xAA, CHR 0x8C, CHR 0xE5,
      CHR 0xB9, CHR 0xB6, CHR 0xE8, CHR 0xA7, CHR 0xA3, CHR 0xE5, CHR 0x8E, CHR 0x8B] @ '' Release''"

definition msg_replacing :: string where
  "msg_replacing =
     [CHR 0xE6, CHR 0xAD, CHR 0xA3, CHR 0xE5, CHR 0x9C, CHR 0xA8, CHR 0xE6, CHR 0x9B, CHR 0xBF, CHR 0xE6, CHR 0x8D,
      CHR 0xA2, CHR 0xE6, CHR 0x96, CHR 0x87, CHR 0xE4, CHR 0xBB, CHR 0xB6, CHR 0xE5, CHR 0xB9, CHR 0xB6, CHR 0xE9,
      CHR 0xAA, CHR 0x8C, CHR 0xE8, CHR 0xAF, CHR 0x81, CHR 0xE7, CHR 0x9B, CHR 0xAE, CHR 0xE6, CHR 0xA0, CHR 0x87,
      CHR 0xE7, CHR 0x89, CHR 0x88, CHR 0xE6, CHR 0x9C, CHR 0xAC]"

definition msg_rollback :: string where
  "msg_rollback =
     [CHR 0xE5, CHR 0x8D, CHR 0x87, CHR 0xE7, CHR 0xBA, CHR 0xA7, CHR 0xE5, CHR 0xA4, CHR 0xB1, CHR 0xE8, CHR 0xB4,
      CHR 0xA5, CHR 0xEF, CHR 0xBC, CHR 0x8C, CHR 0xE6, CHR 0xAD, CHR 0xA3, CHR 0xE5, CHR 0x9C, CHR 0xA8, CHR 0xE6,
      CHR 0x81, CHR 0xA2, CHR 0xE5, CHR 0xA4, CHR 0x8D, CHR 0xE5, CHR 0x8E, CHR 0x9F, CHR 0xE6, CHR 0x96, CHR 0x87,
      CHR 0xE4, CHR 0xBB, CHR 0xB6, CHR 0xE5, CHR 0x92, CHR 0x8C, CHR 0xE6, CHR 0x9C, CHR 0x8D, CHR 0xE5, CHR 0x8A,
      CHR 0xA1]"

definition msg_completed :: string where
  "msg_completed =
     [CHR 0xE7, CHR 0x9B, CHR 0xAE, CHR 0xE6, CHR 0xA0, CHR 0x87, CHR 0xE7, CHR 0x89, CHR 0x88, CHR 0xE6, CHR 0x9C,
      CHR 0xAC, CHR 0xE5, CHR 0x92, CHR 0x8C, CHR 0xE6, CHR 0x9C, CHR 0x8D, CHR 0xE5, CHR 0x8A, CHR 0xA1, CHR 0xE7,
      CHR 0x8A, CHR 0xB6, CHR 0xE6, CHR 0x80, CHR 0x81, CHR 0xE9, CHR 0xAA, CHR 0x8C, CHR 0xE8, CHR 0xAF, CHR 0x81,
      CHR 0xE9, CHR 0x80, CHR 0x9A, CHR 0xE8, CHR 0xBF, CHR 0x87]"

definition msg_done :: string where
  "msg_done =
     [CHR 0xE5, CHR 0x8D, CHR 0x87, CHR 0xE7, CHR 0xBA, CHR 0xA7, CHR 0xE5, CHR 0xAE, CHR 0x8C, CHR 0xE6, CHR 0x88,
      CHR 0x90]"

fun outcome_str :: "upgrade_outcome \<Rightarrow> string" where
  "outcome_str Running = ''running''"
| "outcome_str Succeeded = ''succeeded''"
| "outcome_str Failed = ''failed''"
| "outcome_str RolledBack = ''rolled_back''"

definition jopt :: "('a \<Rightarrow> json) \<Rightarrow> 'a option \<Rightarrow> json" where
  "jopt f v = (case v of Some a \<Rightarrow> f a | None \<Rightarrow> JNull)"

definition status_json :: "host_tools \<Rightarrow> upgrade_status \<Rightarrow> json" where
  "status_json to s = jobj
     [(''status'', JStr (outcome_str (us_status s))), (''stage'', JStr (us_stage s)), (''component'', JStr (us_component s)),
      (''current_version'', jopt JStr (us_current_version s)), (''target_version'', jopt JStr (us_target_version s)),
      (''message'', JStr (us_message s)), (''started_at'', JStr (to_time_text to (us_started_at s))),
      (''finished_at'', jopt (\<lambda>t. JStr (to_time_text to t)) (us_finished_at s))]"

definition new_status :: "tstamp \<Rightarrow> path option \<Rightarrow> string \<Rightarrow> string option \<Rightarrow> upgrade_status" where
  "new_status now p component target =
     \<lparr>us_path = p, us_status = Running, us_stage = ''resolving'', us_component = component, us_current_version = None,
      us_target_version = target, us_message = [], us_started_at = now, us_finished_at = None\<rparr>"

definition parent_dir :: "path \<Rightarrow> path" where
  "parent_dir p = (case rsplit_once (CHR ''/'') p of Some (d, n) \<Rightarrow> d | None \<Rightarrow> [])"

text \<open>The temporary file has the extension \<open>tmp-\<close> and the number of the process, which is left out.\<close>

definition tmp_path :: "path \<Rightarrow> string \<Rightarrow> path" where
  "tmp_path p ext =
     (let n = file_name p; stem = (case rsplit_once (CHR ''.'') n of Some (a, b) \<Rightarrow> if a = [] then n else a | None \<Rightarrow> n)
      in take (length p - length n) p @ stem @ ''.'' @ ext)"

definition write_status :: "platform \<Rightarrow> host_tools \<Rightarrow> tstamp \<Rightarrow> unit ops" where
  "write_status pl to now h =
     (case us_path (ho_status h) of
        None \<Rightarrow> (Inr (), h)
      | Some p \<Rightarrow>
          op_seq (if parent_dir p = [] then op_ok () else op_files (parent_dir p) (run_steps [make_dir pl (parent_dir p)]))
            (op_files p (run_steps
               [write_file pl now (tmp_path p ''tmp-'') (pf_pretty pl (status_json to (ho_status h)) @ [CHR 0x0A]),
                rename_file pl (tmp_path p ''tmp-'') p])) h)"

definition stage :: "platform \<Rightarrow> host_tools \<Rightarrow> tstamp \<Rightarrow> string \<Rightarrow> string \<Rightarrow> unit ops" where
  "stage pl to now st msg h =
     write_status pl to now (h\<lparr>ho_status := (ho_status h)\<lparr>us_status := Running, us_stage := st, us_message := msg\<rparr>\<rparr>)"

definition finish_status :: "platform \<Rightarrow> host_tools \<Rightarrow> tstamp \<Rightarrow> upgrade_outcome \<Rightarrow> string \<Rightarrow> unit ops" where
  "finish_status pl to now outcome msg h =
     write_status pl to now (h\<lparr>ho_status := (ho_status h)\<lparr>us_status := outcome, us_message := msg, us_finished_at := Some now\<rparr>\<rparr>)"

section \<open>Components\<close>

record component =
  co_name :: string
  co_binary :: string
  co_unit :: "string option"
  co_with_web :: bool

definition parse_component :: "string \<Rightarrow> ops_error + component" where
  "parse_component name =
     (if name = ''hub'' then Inr \<lparr>co_name = ''hub'', co_binary = ''proxy-panel-hub'', co_unit = Some ''proxy-panel-hub.service'', co_with_web = True\<rparr>
      else if name = ''agent'' then Inr \<lparr>co_name = ''agent'', co_binary = ''proxy-panel-agent'', co_unit = Some ''proxy-panel-agent.service'', co_with_web = False\<rparr>
      else if name = ''cli'' then Inr \<lparr>co_name = ''cli'', co_binary = ''proxy-panel'', co_unit = None, co_with_web = False\<rparr>
      else Inl (UnknownComponent name))"

record upgrade_paths =
  up_bin_dir :: path
  up_opt_dir :: path
  up_backup_dir :: path

definition system_paths :: upgrade_paths where
  "system_paths = \<lparr>up_bin_dir = BIN_DIR, up_opt_dir = OPT_DIR, up_backup_dir = BACKUP_DIR\<rparr>"

definition binary_at :: "upgrade_paths \<Rightarrow> component \<Rightarrow> path" where
  "binary_at ps c = join_path (up_bin_dir ps) (co_binary c)"

definition web_dist :: "upgrade_paths \<Rightarrow> path" where
  "web_dist ps = join_path (up_opt_dir ps) ''web/dist''"

text \<open>Whether the upgrade is to be skipped.\<close>

definition plan_upgrade :: "release_env \<Rightarrow> string option \<Rightarrow> string \<Rightarrow> ops_error + bool" where
  "plan_upgrade re current target =
     (case current of
        None \<Rightarrow> Inr False
      | Some c \<Rightarrow>
          rbind (map_err ReleaseFails (compare_releases re c target)) (\<lambda>cmp.
            case cmp of Same \<Rightarrow> Inr True | Greater \<Rightarrow> Inl (Downgrade target c) | Lesser \<Rightarrow> Inr False))"

section \<open>The steps\<close>

definition op_machine :: "(machine \<Rightarrow> 'a panel_result \<times> machine) \<Rightarrow> 'a ops" where
  "op_machine f h = (case f (ho_machine h) of (r, m) \<Rightarrow> (map_err ReleaseFails r, h\<lparr>ho_machine := m\<rparr>))"

definition put_extracted :: "platform \<Rightarrow> tstamp \<Rightarrow> path \<Rightarrow> path \<times> string \<times> nat \<Rightarrow> machine \<Rightarrow> machine option" where
  "put_extracted pl now d e m =
     (case e of (r, s, mode) \<Rightarrow>
        if pf_can_write pl (in_dir d r)
        then Some (m\<lparr>m_files := AList.update (in_dir d r) \<lparr>f_data = s, f_mode = mode, f_modified = now\<rparr> (m_files m)\<rparr>) else None)"

definition extract_tar_gz :: "platform \<Rightarrow> host_tools \<Rightarrow> tstamp \<Rightarrow> path \<Rightarrow> path \<Rightarrow> unit ops" where
  "extract_tar_gz pl to now archive d h =
     (case Option.bind (read_file archive (ho_machine h)) (to_untar to) of
        None \<Rightarrow> (Inl (TarFails archive), h)
      | Some (ds, fs) \<Rightarrow>
          (case run_steps (map (\<lambda>r. make_dir pl (in_dir d r)) ds @ map (put_extracted pl now d) fs) (ho_machine h) of
             (ok, m) \<Rightarrow> (if ok then Inr () else Inl (TarFails archive), h\<lparr>ho_machine := m\<rparr>)))"

definition find_extracted_binary :: "path \<Rightarrow> string \<Rightarrow> path ops" where
  "find_extracted_binary d n h =
     (if path_exists (join_path d n) (ho_machine h) then (Inr (join_path d n), h) else (Inl (NotInTarball n), h))"

text \<open>A temporary directory is removed when what uses it is done.\<close>

definition with_temp :: "platform \<Rightarrow> host_tools \<Rightarrow> 'a ops \<Rightarrow> 'a ops" where
  "with_temp pl to f =
     op_seq (op_files (to_tmp to) (run_steps [make_dir pl (to_tmp to)]))
       (\<lambda>h. case f h of (r, h) \<Rightarrow> (r, h\<lparr>ho_machine := drop_tree (to_tmp to) (ho_machine h)\<rparr>))"

definition backup_existing :: "platform \<Rightarrow> tstamp \<Rightarrow> path \<Rightarrow> path \<Rightarrow> path option ops" where
  "backup_existing pl now src backup h =
     (let m = ho_machine h in
      if \<not> path_exists src m then (Inr None, h)
      else op_bind (if is_dir src m then copy_dir_recursive pl now src backup else copy_file pl now src backup)
             (\<lambda>_. op_ok (Some backup)) h)"

definition remove_path :: "platform \<Rightarrow> path \<Rightarrow> unit ops" where
  "remove_path pl p h =
     (if path_exists p (ho_machine h) then op_files p (run_steps [remove_any pl p]) h else (Inr (), h))"

definition restore_path :: "platform \<Rightarrow> tstamp \<Rightarrow> path option \<Rightarrow> path \<Rightarrow> unit ops" where
  "restore_path pl now backup dst =
     op_seq (remove_path pl dst)
       (case backup of
          None \<Rightarrow> op_ok ()
        | Some b \<Rightarrow> (\<lambda>h. (if is_dir b (ho_machine h) then copy_dir_recursive pl now b dst else copy_file pl now b dst) h))"

definition when_active :: "component \<Rightarrow> bool \<Rightarrow> (string \<Rightarrow> unit ops) \<Rightarrow> unit ops" where
  "when_active c was_active f = (case co_unit c of Some u \<Rightarrow> if was_active then f u else op_ok () | None \<Rightarrow> op_ok ())"

definition verify_version :: "release_env \<Rightarrow> host_tools \<Rightarrow> path \<Rightarrow> string \<Rightarrow> unit ops" where
  "verify_version re to binary target =
     op_bind (installed_version_strict to binary) (\<lambda>v.
     op_bind (op_some NoBinary v) (\<lambda>actual.
     op_bind (op_lift (map_err ReleaseFails (compare_releases re actual target))) (\<lambda>cmp.
       if cmp \<noteq> Same then op_fail (WrongVersion target actual) else op_ok ())))"

definition restart_stable :: "host_tools \<Rightarrow> string \<Rightarrow> unit ops" where
  "restart_stable to u = op_seq (systemd_restart to u) (systemd_wait_stable to u)"

definition replace_and_verify ::
    "platform \<Rightarrow> release_env \<Rightarrow> host_tools \<Rightarrow> tstamp \<Rightarrow> component \<Rightarrow> path \<Rightarrow> path \<Rightarrow> path \<Rightarrow> path \<Rightarrow> string \<Rightarrow> bool \<Rightarrow> unit ops" where
  "replace_and_verify pl re to now c new_binary new_web binary web target was_active =
     op_seq (move_file pl to now new_binary binary)
    (op_seq (op_files binary (run_steps [set_mode pl (\<lambda>_. 493) binary]))
    (op_seq (if co_with_web c
             then op_seq (remove_path pl web) (op_seq (ensure_dir pl (parent_dir web)) (move_path pl to now new_web web))
             else op_ok ())
    (op_seq (verify_version re to binary target)
            (when_active c was_active (restart_stable to)))))"

text \<open>Every part is tried; the errors are put together.\<close>

definition collect_error :: "unit ops \<Rightarrow> ops_error list \<Rightarrow> host \<Rightarrow> ops_error list \<times> host" where
  "collect_error f es h = (case f h of (Inl e, h) \<Rightarrow> (es @ [e], h) | (Inr _, h) \<Rightarrow> (es, h))"

definition recover ::
    "platform \<Rightarrow> host_tools \<Rightarrow> tstamp \<Rightarrow> component \<Rightarrow> path option \<Rightarrow> path option \<Rightarrow> path \<Rightarrow> path \<Rightarrow> bool \<Rightarrow> host \<Rightarrow> ops_error list \<times> host" where
  "recover pl to now c binary_backup web_backup binary web was_active h =
     (case collect_error (restore_path pl now binary_backup binary) [] h of
        (es, h) \<Rightarrow>
          (case (if co_with_web c then collect_error (restore_path pl now web_backup web) es h else (es, h)) of
             (es, h) \<Rightarrow> collect_error (when_active c was_active (restart_stable to)) es h))"

definition ignore_error :: "unit ops \<Rightarrow> host \<Rightarrow> host" where
  "ignore_error f h = snd (f h)"

text \<open>After a failure: the recovery, and the error that tells how it went.\<close>

definition fail_and_recover ::
    "platform \<Rightarrow> host_tools \<Rightarrow> tstamp \<Rightarrow> component \<Rightarrow> path option \<Rightarrow> path option \<Rightarrow> path \<Rightarrow> path \<Rightarrow> bool \<Rightarrow> ops_error \<Rightarrow> unit ops" where
  "fail_and_recover pl to now c binary_backup web_backup binary web was_active err h =
     (case recover pl to now c binary_backup web_backup binary web was_active
             (ignore_error (stage pl to now ''rollback'' msg_rollback) h) of
        (es, h) \<Rightarrow> if es = [] then (Inl (Restored err), h\<lparr>ho_rolled_back := True\<rparr>) else (Inl (NotRestored err es), h))"

definition replace_or_recover ::
    "platform \<Rightarrow> release_env \<Rightarrow> host_tools \<Rightarrow> tstamp \<Rightarrow> component \<Rightarrow> upgrade_paths \<Rightarrow> path \<Rightarrow> path \<Rightarrow> path option \<Rightarrow> path option
       \<Rightarrow> string \<Rightarrow> bool \<Rightarrow> unit ops" where
  "replace_or_recover pl re to now c ps new_binary new_web binary_backup web_backup target was_active h =
     (case replace_and_verify pl re to now c new_binary new_web (binary_at ps c) (web_dist ps) target was_active h of
        (Inr _, h) \<Rightarrow> (Inr (), h)
      | (Inl err, h) \<Rightarrow>
          fail_and_recover pl to now c binary_backup web_backup (binary_at ps c) (web_dist ps) was_active err h)"

definition op_pure :: "(host \<Rightarrow> host) \<Rightarrow> unit ops" where "op_pure f h = (Inr (), f h)"

text \<open>From the backups to the end, with the release unpacked.\<close>

definition swap_release ::
    "platform \<Rightarrow> release_env \<Rightarrow> host_tools \<Rightarrow> tstamp \<Rightarrow> component \<Rightarrow> upgrade_paths \<Rightarrow> string option \<Rightarrow> string \<Rightarrow> path \<Rightarrow> path \<Rightarrow> unit ops" where
  "swap_release pl re to now c ps current target new_binary new_web =
     (let label = unwrap_or current (to_stamp to now) in
     op_seq (ensure_dir pl (up_backup_dir ps))
    (op_bind (backup_existing pl now (binary_at ps c) (backup_path (up_backup_dir ps) (co_binary c) label)) (\<lambda>binary_backup.
     op_bind (if co_with_web c then backup_existing pl now (web_dist ps) (backup_path (up_backup_dir ps) ''web-dist'' label)
              else op_ok None) (\<lambda>web_backup.
     op_bind (case co_unit c of Some u \<Rightarrow> systemd_is_active u | None \<Rightarrow> op_ok False) (\<lambda>was_active.
     op_seq (when_active c was_active systemd_stop)
    (op_seq (stage pl to now ''replacing'' msg_replacing)
    (op_seq (replace_or_recover pl re to now c ps new_binary new_web binary_backup web_backup target was_active)
    (op_seq (op_pure (prune_backups pl (up_backup_dir ps) (co_binary c)))
    (op_seq (op_pure (if co_with_web c then prune_backups pl (up_backup_dir ps) ''web-dist'' else (\<lambda>h. h)))
            (stage pl to now ''completed'' msg_completed))))))))))"

definition fetch_and_swap ::
    "platform \<Rightarrow> release_env \<Rightarrow> host_tools \<Rightarrow> tstamp \<Rightarrow> component \<Rightarrow> upgrade_paths \<Rightarrow> string \<Rightarrow> string option \<Rightarrow> string \<Rightarrow> string \<Rightarrow> unit ops" where
  "fetch_and_swap pl re to now c ps repo current target tag =
     op_seq (stage pl to now ''preparing'' msg_preparing)
    (op_bind (op_lift (release_arch pl)) (\<lambda>arch.
     let asset = ''proxy-panel-'' @ co_name c @ ''-linux-'' @ arch @ ''.tar.gz''; d = join_path (to_tmp to) ''extract'' in
     with_temp pl to
      (op_bind (download_and_verify pl to now repo tag asset) (\<lambda>archive.
       op_seq (ensure_dir pl d)
      (op_seq (extract_tar_gz pl to now archive d)
      (op_bind (find_extracted_binary d (co_binary c)) (\<lambda>new_binary.
       op_bind (if co_with_web c then op_bind (op_get (\<lambda>h. find_web_dist d (ho_machine h))) (op_some NoWebDist) else op_ok []) (\<lambda>new_web.
         swap_release pl re to now c ps current target new_binary new_web))))))))"

definition perform_upgrade ::
    "platform \<Rightarrow> release_env \<Rightarrow> host_tools \<Rightarrow> tstamp \<Rightarrow> component \<Rightarrow> string \<Rightarrow> string \<Rightarrow> upgrade_paths \<Rightarrow> unit ops" where
  "perform_upgrade pl re to now c requested repo ps =
     op_seq (stage pl to now ''resolving'' msg_resolving)
    (op_bind (op_lift (map_err ReleaseFails (release_client pl repo))) (\<lambda>client.
     op_bind (op_machine (if requested = ''latest'' then latest_stable pl re client else release_by_tag pl re client requested)) (\<lambda>rel.
     let target = re_text re (rl_version rel) in
     op_seq (op_pure (\<lambda>h. h\<lparr>ho_status := (ho_status h)\<lparr>us_target_version := Some target\<rparr>\<rparr>))
    (op_bind (installed_version_strict to (binary_at ps c)) (\<lambda>current.
     op_seq (op_pure (\<lambda>h. h\<lparr>ho_status := (ho_status h)\<lparr>us_current_version := current\<rparr>\<rparr>))
    (op_bind (op_lift (plan_upgrade re current target)) (\<lambda>skip.
       if skip then stage pl to now ''skipped'' msg_skipped
       else fetch_and_swap pl re to now c ps repo current target (rl_tag rel))))))))"

definition finish_upgrade :: "platform \<Rightarrow> host_tools \<Rightarrow> tstamp \<Rightarrow> ops_error + unit \<Rightarrow> unit ops" where
  "finish_upgrade pl to now r h =
     (case r of
        Inr _ \<Rightarrow> finish_status pl to now Succeeded msg_done h
      | Inl e \<Rightarrow>
          (Inl e, ignore_error (finish_status pl to now (if ho_rolled_back h then RolledBack else Failed) (to_error_text to e)) h))"

text \<open>The lock is acquired before there is a status to write.\<close>

definition upgrade :: "platform \<Rightarrow> release_env \<Rightarrow> host_tools \<Rightarrow> tstamp \<Rightarrow> string \<Rightarrow> string \<Rightarrow> string \<Rightarrow> path option \<Rightarrow> unit ops" where
  "upgrade pl re to now component version repo status_file =
     op_seq (require_root to)
    (op_bind (op_lift (parse_component component)) (\<lambda>c.
     op_seq (acquire_lock pl now)
       (\<lambda>h. case perform_upgrade pl re to now c version repo system_paths
                 (h\<lparr>ho_status := new_status now status_file (co_name c) (Some version), ho_rolled_back := False\<rparr>) of
              (r, h) \<Rightarrow> (case finish_upgrade pl to now r h of (r, h) \<Rightarrow> (r, release_lock h)))))"

section \<open>Rollback\<close>

definition restore_backups ::
    "platform \<Rightarrow> host_tools \<Rightarrow> tstamp \<Rightarrow> component \<Rightarrow> upgrade_paths \<Rightarrow> path \<Rightarrow> path option \<Rightarrow> unit ops" where
  "restore_backups pl to now c ps binary_backup web_backup =
     op_bind (case co_unit c of Some u \<Rightarrow> systemd_is_active u | None \<Rightarrow> op_ok False) (\<lambda>was_active.
     op_seq (when_active c was_active systemd_stop)
    (op_seq (restore_path pl now (Some binary_backup) (binary_at ps c))
    (op_seq (if co_with_web c then restore_path pl now web_backup (web_dist ps) else op_ok ())
            (when_active c was_active (restart_stable to)))))"

definition perform_rollback :: "platform \<Rightarrow> host_tools \<Rightarrow> tstamp \<Rightarrow> component \<Rightarrow> upgrade_paths \<Rightarrow> unit ops" where
  "perform_rollback pl to now c ps =
     op_bind (op_bind (find_latest_backup (up_backup_dir ps) (co_binary c)) (op_some (NoBackup (co_binary c)))) (\<lambda>binary_backup.
     op_bind (if co_with_web c
              then op_bind (op_bind (find_latest_backup (up_backup_dir ps) ''web-dist'') (op_some (NoBackup ''web-dist'')))
                     (\<lambda>p. op_ok (Some p))
              else op_ok None) (\<lambda>web_backup.
       restore_backups pl to now c ps binary_backup web_backup))"

definition rollback :: "platform \<Rightarrow> host_tools \<Rightarrow> tstamp \<Rightarrow> string \<Rightarrow> unit ops" where
  "rollback pl to now component =
     op_seq (require_root to)
    (op_bind (op_lift (parse_component component)) (\<lambda>c.
     if co_name c = ''cli'' then op_fail (UnknownComponent ''cli'')
     else op_seq (acquire_lock pl now)
            (\<lambda>h. case perform_rollback pl to now c system_paths h of (r, h) \<Rightarrow> (r, release_lock h))))"

end
