(* ===== verification/SystemUpdate.thy ===== *)
theory SystemUpdate
  imports Upgrade
begin

text \<open>
  The update of the hub itself, asked for over HTTP (pp-hub, routes/system\_update: mod.rs, status.rs,
  execution.rs, and \<open>MaintenanceState\<close> of state.rs). The hub starts the management program through
  \<open>sudo\<close> and \<open>systemd-run\<close> and shares a status file with it; both work on one host.
\<close>

section \<open>The status\<close>

datatype maintenance_outcome = MIdle | MRunning | MSucceeded | MFailed | MRolledBack | MStale

fun maintenance_str :: "maintenance_outcome \<Rightarrow> string" where
  "maintenance_str MIdle = ''idle''"
| "maintenance_str MRunning = ''running''"
| "maintenance_str MSucceeded = ''succeeded''"
| "maintenance_str MFailed = ''failed''"
| "maintenance_str MRolledBack = ''rolled_back''"
| "maintenance_str MStale = ''stale''"

definition maintenance_from_str :: "string \<Rightarrow> maintenance_outcome option" where
  "maintenance_from_str s = find (\<lambda>m. maintenance_str m = s) [MIdle, MRunning, MSucceeded, MFailed, MRolledBack, MStale]"

record maintenance_status =
  ms_status :: maintenance_outcome
  ms_stage :: string
  ms_component :: string
  ms_current_version :: "string option"
  ms_target_version :: "string option"
  ms_message :: string
  ms_started_at :: "tstamp option"
  ms_finished_at :: "tstamp option"

definition STALE_AFTER_MINUTES :: int where "STALE_AFTER_MINUTES = 30"

definition idle_status :: "string \<Rightarrow> maintenance_status" where
  "idle_status current =
     \<lparr>ms_status = MIdle, ms_stage = ''idle'', ms_component = ''hub'', ms_current_version = Some current, ms_target_version = None,
      ms_message = [], ms_started_at = None, ms_finished_at = None\<rparr>"

definition running_status :: "tstamp \<Rightarrow> string \<Rightarrow> string \<Rightarrow> maintenance_status" where
  "running_status now current target =
     \<lparr>ms_status = MRunning, ms_stage = ''launching'', ms_component = ''hub'', ms_current_version = Some current,
      ms_target_version = Some target, ms_message = ''update submitted to systemd'', ms_started_at = Some now, ms_finished_at = None\<rparr>"

definition failed_status :: "tstamp \<Rightarrow> string \<Rightarrow> maintenance_status \<Rightarrow> maintenance_status" where
  "failed_status now msg s = s\<lparr>ms_status := MFailed, ms_stage := ''launching'', ms_message := msg, ms_finished_at := Some now\<rparr>"

definition is_in_progress :: "maintenance_status \<Rightarrow> bool" where
  "is_in_progress s \<longleftrightarrow> ms_status s = MRunning \<or> ms_status s = MStale"

section \<open>The status file\<close>

text \<open>A field that may be missing or null, and must be of the type when it is neither.\<close>

definition opt_field :: "(json \<Rightarrow> 'a option) \<Rightarrow> json \<Rightarrow> string \<Rightarrow> 'a option option" where
  "opt_field f v k =
     (case jget v k of None \<Rightarrow> Some None | Some JNull \<Rightarrow> Some None | Some w \<Rightarrow> map_option Some (f w))"

definition time_of_json :: "release_env \<Rightarrow> json \<Rightarrow> tstamp option" where
  "time_of_json re v = Option.bind (as_str v) (re_time re)"

definition status_of_json :: "release_env \<Rightarrow> json \<Rightarrow> maintenance_status option" where
  "status_of_json re v =
     Option.bind (Option.bind (get_str v ''status'') maintenance_from_str) (\<lambda>st.
     Option.bind (get_str v ''stage'') (\<lambda>stage.
     Option.bind (get_str v ''component'') (\<lambda>component.
     Option.bind (opt_field as_str v ''current_version'') (\<lambda>current.
     Option.bind (opt_field as_str v ''target_version'') (\<lambda>target.
     Option.bind (get_str v ''message'') (\<lambda>msg.
     Option.bind (opt_field (time_of_json re) v ''started_at'') (\<lambda>started.
     map_option (\<lambda>finished.
       \<lparr>ms_status = st, ms_stage = stage, ms_component = component, ms_current_version = current, ms_target_version = target,
        ms_message = msg, ms_started_at = started, ms_finished_at = finished\<rparr>)
       (opt_field (time_of_json re) v ''finished_at''))))))))"

definition json_of_status :: "host_tools \<Rightarrow> maintenance_status \<Rightarrow> json" where
  "json_of_status to s = jobj
     [(''status'', JStr (maintenance_str (ms_status s))), (''stage'', JStr (ms_stage s)), (''component'', JStr (ms_component s)),
      (''current_version'', jopt JStr (ms_current_version s)), (''target_version'', jopt JStr (ms_target_version s)),
      (''message'', JStr (ms_message s)), (''started_at'', jopt (\<lambda>t. JStr (to_time_text to t)) (ms_started_at s)),
      (''finished_at'', jopt (\<lambda>t. JStr (to_time_text to t)) (ms_finished_at s))]"

definition stale_message :: string where
  "stale_message = ''running status exceeded 30 minutes; manual verification required''"

definition invalid_status_file :: "path \<Rightarrow> string \<Rightarrow> api_error" where
  "invalid_status_file p e =
     \<lparr>ae_status = INTERNAL_SERVER_ERROR, ae_code = ''invalid_status_file'',
      ae_message = ''invalid maintenance status file '' @ p @ '': '' @ e\<rparr>"

definition mark_stale :: "tstamp \<Rightarrow> path \<Rightarrow> maintenance_status \<Rightarrow> api_error + maintenance_status" where
  "mark_stale now p s =
     (if ms_status s \<noteq> MRunning then Inr s
      else
        (case ms_started_at s of
           None \<Rightarrow> Inl (invalid_status_file p ''running status has no started_at'')
         | Some t \<Rightarrow>
             if now - t > STALE_AFTER_MINUTES * 60 * ns_per_sec
             then Inr (s\<lparr>ms_status := MStale, ms_message := stale_message\<rparr>) else Inr s))"

definition read_status :: "platform \<Rightarrow> release_env \<Rightarrow> tstamp \<Rightarrow> path \<Rightarrow> string \<Rightarrow> machine \<Rightarrow> api_error + maintenance_status" where
  "read_status pl re now p current m =
     (case read_file p m of
        None \<Rightarrow> Inr (idle_status current)
      | Some data \<Rightarrow>
          rbind (map_err (invalid_status_file p)
                  (rbind (pf_parse pl data) (\<lambda>v. ok_or (status_of_json re v) (re_shape_error re))))
            (mark_stale now p))"

definition status_error :: "string \<Rightarrow> path \<Rightarrow> platform \<Rightarrow> api_error" where
  "status_error what p pl = internal (''failed to '' @ what @ '' '' @ p @ '': '' @ pf_io_error pl)"

text \<open>The extension of the temporary file ends in the number of the process, which is left out.\<close>

definition write_maintenance :: "platform \<Rightarrow> host_tools \<Rightarrow> tstamp \<Rightarrow> path \<Rightarrow> maintenance_status \<Rightarrow> machine \<Rightarrow> (api_error + unit) \<times> machine" where
  "write_maintenance pl to now p s m =
     (case (if parent_dir p = [] then Some m else make_dir pl (parent_dir p) m) of
        None \<Rightarrow> (Inl (status_error ''create maintenance status directory'' (parent_dir p) pl), m)
      | Some m \<Rightarrow>
          (case write_file pl now (tmp_path p ''tmp-hub-'') (pf_pretty pl (json_of_status to s) @ [CHR 0x0A]) m of
             None \<Rightarrow> (Inl (status_error ''create maintenance status'' (tmp_path p ''tmp-hub-'') pl), m)
           | Some m \<Rightarrow>
               (case rename_file pl (tmp_path p ''tmp-hub-'') p m of
                  None \<Rightarrow> (Inl (status_error ''replace maintenance status'' p pl), m) | Some m \<Rightarrow> (Inr (), m))))"

section \<open>The hub's side\<close>

record maintenance_config =
  mc_enabled :: bool
  mc_status_file :: path
  mc_cli_path :: path
  mc_sudo_path :: path
  mc_systemd_run_path :: path
  mc_release_repo :: string

text \<open>
  The hub: its version, the flag of an update that runs, the programs it has started; the host is shared
  with what they do.
\<close>

record updater =
  ud_config :: maintenance_config
  ud_version :: string
  ud_in_progress :: bool
  ud_spawned :: "string list list"
  ud_machine :: machine

definition update_in_progress :: api_error where
  "update_in_progress =
     \<lparr>ae_status = CONFLICT, ae_code = ''update_in_progress'',
      ae_message = ''a Hub update is already running or requires manual verification''\<rparr>"

definition release_validation_error :: "panel_error \<Rightarrow> api_error" where
  "release_validation_error e = bad_request ''invalid_target_version'' (panel_error_str e)"

definition release_error :: "panel_error \<Rightarrow> api_error" where
  "release_error e =
     (case e of
        Validation _ \<Rightarrow> release_validation_error e
      | _ \<Rightarrow> \<lparr>ae_status = BAD_GATEWAY, ae_code = ''release_query_failed'', ae_message = panel_error_str e\<rparr>)"

definition validate_target :: "release_env \<Rightarrow> string \<Rightarrow> release \<Rightarrow> api_error + unit" where
  "validate_target re current rel =
     rbind (map_err release_validation_error (parse_version re (rl_tag rel))) (\<lambda>tag_version.
     rbind (map_err release_validation_error (compare_releases re current (rl_tag rel))) (\<lambda>cmp.
       if cmp \<noteq> Lesser then Inl (bad_request ''no_update_available'' ''target version is not newer than the running Hub'')
       else if tag_version \<noteq> rl_version rel \<or> ver_pre (rl_version rel) \<noteq> []
       then Inl (bad_request ''invalid_target_version'' ''target must be a stable release with a matching semantic-version tag'')
       else Inr ()))"

definition update_arguments :: "maintenance_config \<Rightarrow> release \<Rightarrow> string list" where
  "update_arguments c rel =
     [''-n'', mc_systemd_run_path c, ''--unit=proxy-panel-hub-update'', ''--collect'', mc_cli_path c, ''upgrade'', ''hub'',
      ''--version'', rl_tag rel, ''--repo'', mc_release_repo c, ''--status-file'', mc_status_file c]"

definition manual_command :: "maintenance_config \<Rightarrow> string" where
  "manual_command c =
     ''sudo '' @ mc_cli_path c @ '' upgrade hub --version latest --repo '' @ mc_release_repo c @ '' --status-file '' @ mc_status_file c"

definition hub_release :: "platform \<Rightarrow> release_env \<Rightarrow> string option \<Rightarrow> updater \<Rightarrow> (api_error + release) \<times> updater" where
  "hub_release pl re requested u =
     (case release_client pl (mc_release_repo (ud_config u)) of
        Inl e \<Rightarrow> (Inl (internal (''invalid Hub release repository configuration: '' @ panel_error_str e)), u)
      | Inr client \<Rightarrow>
          (case (case requested of Some tag \<Rightarrow> release_by_tag pl re client tag (ud_machine u)
                 | None \<Rightarrow> latest_stable pl re client (ud_machine u)) of
             (r, m) \<Rightarrow> (map_err release_error r, u\<lparr>ud_machine := m\<rparr>)))"

definition hub_status :: "platform \<Rightarrow> release_env \<Rightarrow> tstamp \<Rightarrow> updater \<Rightarrow> api_error + maintenance_status" where
  "hub_status pl re now u = read_status pl re now (mc_status_file (ud_config u)) (ud_version u) (ud_machine u)"

definition ensure_file_not_running :: "platform \<Rightarrow> release_env \<Rightarrow> tstamp \<Rightarrow> updater \<Rightarrow> api_error + unit" where
  "ensure_file_not_running pl re now u =
     rbind (hub_status pl re now u) (\<lambda>s. if is_in_progress s then Inl update_in_progress else Inr ())"

definition ensure_not_running :: "platform \<Rightarrow> release_env \<Rightarrow> tstamp \<Rightarrow> updater \<Rightarrow> api_error + unit" where
  "ensure_not_running pl re now u =
     (if ud_in_progress u then Inl update_in_progress else ensure_file_not_running pl re now u)"

text \<open>
  A request: the checks, in which it waits for GitHub, and then the start, which the flag guards. \<open>spawn\<close>
  is the outcome of starting the program.
\<close>

definition start_update_checks :: "platform \<Rightarrow> release_env \<Rightarrow> tstamp \<Rightarrow> string option \<Rightarrow> updater \<Rightarrow> (api_error + release) \<times> updater" where
  "start_update_checks pl re now requested u =
     (if \<not> mc_enabled (ud_config u)
      then (Inl \<lparr>ae_status = FORBIDDEN, ae_code = ''maintenance_disabled'', ae_message = ''Hub-controlled maintenance is disabled''\<rparr>, u)
      else
        (case ensure_not_running pl re now u of
           Inl e \<Rightarrow> (Inl e, u)
         | Inr _ \<Rightarrow>
             (case hub_release pl re requested u of
                (Inl e, u) \<Rightarrow> (Inl e, u)
              | (Inr rel, u) \<Rightarrow> (rbind (validate_target re (ud_version u) rel) (\<lambda>_. Inr rel), u))))"

definition write_hub_status :: "platform \<Rightarrow> host_tools \<Rightarrow> tstamp \<Rightarrow> maintenance_status \<Rightarrow> updater \<Rightarrow> (api_error + unit) \<times> updater" where
  "write_hub_status pl to now s u =
     (case write_maintenance pl to now (mc_status_file (ud_config u)) s (ud_machine u) of (r, m) \<Rightarrow> (r, u\<lparr>ud_machine := m\<rparr>))"

definition execute_update ::
    "platform \<Rightarrow> release_env \<Rightarrow> host_tools \<Rightarrow> tstamp \<Rightarrow> string + unit \<Rightarrow> release \<Rightarrow> updater \<Rightarrow> (api_error + maintenance_status) \<times> updater" where
  "execute_update pl re to now spawn rel u =
     (let running = running_status now (ud_version u) (re_text re (rl_version rel)) in
      case ensure_file_not_running pl re now u of
        Inl e \<Rightarrow> (Inl e, u)
      | Inr _ \<Rightarrow>
          (case write_hub_status pl to now running u of
             (Inl e, u) \<Rightarrow> (Inl e, u)
           | (Inr _, u) \<Rightarrow>
               (case spawn of
                  Inl e \<Rightarrow>
                    (let msg = ''failed to spawn maintenance command: '' @ e
                     in (Inl (internal msg), snd (write_hub_status pl to now (failed_status now msg running) u)))
                | Inr _ \<Rightarrow>
                    (Inr running, u\<lparr>ud_spawned := ud_spawned u @ [mc_sudo_path (ud_config u) # update_arguments (ud_config u) rel]\<rparr>))))"

definition start_update_run ::
    "platform \<Rightarrow> release_env \<Rightarrow> host_tools \<Rightarrow> tstamp \<Rightarrow> string + unit \<Rightarrow> release \<Rightarrow> updater \<Rightarrow> (api_error + maintenance_status) \<times> updater" where
  "start_update_run pl re to now spawn rel u =
     (if ud_in_progress u then (Inl update_in_progress, u)
      else
        (case execute_update pl re to now spawn rel (u\<lparr>ud_in_progress := True\<rparr>) of
           (Inl e, u) \<Rightarrow> (Inl e, u\<lparr>ud_in_progress := False\<rparr>)
         | (Inr s, u) \<Rightarrow> (Inr s, u)))"

text \<open>The end of the program: its message when it failed. Only a status that still runs is replaced.\<close>

definition update_ended :: "platform \<Rightarrow> release_env \<Rightarrow> host_tools \<Rightarrow> tstamp \<Rightarrow> string option \<Rightarrow> maintenance_status \<Rightarrow> updater \<Rightarrow> updater" where
  "update_ended pl re to now failure running u =
     (let u = (case failure of
                 None \<Rightarrow> u
               | Some msg \<Rightarrow>
                   (case hub_status pl re now u of
                      Inr s \<Rightarrow> if ms_status s = MRunning then snd (write_hub_status pl to now (failed_status now msg running) u) else u
                    | Inl _ \<Rightarrow> u))
      in u\<lparr>ud_in_progress := False\<rparr>)"

definition get_update ::
    "platform \<Rightarrow> release_env \<Rightarrow> host_tools \<Rightarrow> tstamp \<Rightarrow> updater \<Rightarrow> (api_error + json) \<times> updater" where
  "get_update pl re to now u =
     (case hub_release pl re None u of
        (Inl e, u) \<Rightarrow> (Inl e, u)
      | (Inr rel, u) \<Rightarrow>
          (rbind (hub_status pl re now u) (\<lambda>s.
           rbind (map_err release_validation_error (compare_releases re (ud_version u) (rl_tag rel))) (\<lambda>cmp.
             Inr (jobj
               [(''current_version'', JStr (ud_version u)), (''latest_version'', JStr (re_text re (rl_version rel))),
                (''update_available'', JBool (cmp = Lesser)), (''release_url'', JStr (rl_html_url rel)),
                (''published_at'', jopt (\<lambda>t. JStr (to_time_text to t)) (rl_published_at rel)),
                (''checked_at'', JStr (to_time_text to now)), (''execution_enabled'', JBool (mc_enabled (ud_config u))),
                (''manual_command'', JStr (manual_command (ud_config u))), (''status'', json_of_status to s)]))), u))"

end
