(* ===== verification/UpkeepRules.thy ===== *)
theory UpkeepRules
  imports InstallOps
begin

text \<open>
  Rules for the commands of the management program: triples with one postcondition for the result and one
  for an error, and what an operation on files leaves alone.
\<close>

section \<open>Triples\<close>

definition ops_triple :: "(host \<Rightarrow> bool) \<Rightarrow> 'a ops \<Rightarrow> ('a \<Rightarrow> host \<Rightarrow> bool) \<Rightarrow> (ops_error \<Rightarrow> host \<Rightarrow> bool) \<Rightarrow> bool" where
  "ops_triple P f Q E \<longleftrightarrow> (\<forall>h. P h \<longrightarrow> (case f h of (Inr x, h') \<Rightarrow> Q x h' | (Inl e, h') \<Rightarrow> E e h'))"

abbreviation keeps :: "(host \<Rightarrow> bool) \<Rightarrow> 'a ops \<Rightarrow> bool" where
  "keeps I f \<equiv> ops_triple I f (\<lambda>_. I) (\<lambda>_. I)"

named_theorems keep_rules \<open>operations that keep an invariant\<close>

lemma ops_triple_results:
  assumes "ops_triple P f Q E" and "P h"
  shows "f h = (Inr x, h') \<Longrightarrow> Q x h'" and "f h = (Inl e, h') \<Longrightarrow> E e h'"
proof -
  have t: "case f h of (Inr x, h') \<Rightarrow> Q x h' | (Inl e, h') \<Rightarrow> E e h'" using assms by (simp add: ops_triple_def)
  show "f h = (Inr x, h') \<Longrightarrow> Q x h'" and "f h = (Inl e, h') \<Longrightarrow> E e h'" using t by auto
qed

lemma ops_tripleI: "(\<And>h. P h \<Longrightarrow> case f h of (Inr x, h') \<Rightarrow> Q x h' | (Inl e, h') \<Rightarrow> E e h') \<Longrightarrow> ops_triple P f Q E"
  by (simp add: ops_triple_def)

lemma ops_conseq:
  "ops_triple P f Q E \<Longrightarrow> (\<And>h. P' h \<Longrightarrow> P h) \<Longrightarrow> (\<And>x h. Q x h \<Longrightarrow> Q' x h) \<Longrightarrow> (\<And>e h. E e h \<Longrightarrow> E' e h) \<Longrightarrow> ops_triple P' f Q' E'"
  by (fastforce simp: ops_triple_def split: prod.splits sum.splits)

lemma ops_conj:
  "ops_triple P f Q E \<Longrightarrow> ops_triple P' f Q' E' \<Longrightarrow>
   ops_triple (\<lambda>h. P h \<and> P' h) f (\<lambda>x h. Q x h \<and> Q' x h) (\<lambda>e h. E e h \<and> E' e h)"
  by (fastforce simp: ops_triple_def split: prod.splits sum.splits)

lemma ops_bind_rule:
  "ops_triple P f R E \<Longrightarrow> (\<And>x. ops_triple (R x) (g x) Q E) \<Longrightarrow> ops_triple P (op_bind f g) Q E"
  by (fastforce simp: ops_triple_def op_bind_def split: prod.splits sum.splits)

lemma ops_seq_rule:
  "ops_triple P f (\<lambda>_. R) E \<Longrightarrow> ops_triple R g Q E \<Longrightarrow> ops_triple P (op_seq f g) Q E"
  unfolding op_seq_def by (rule ops_bind_rule)

lemma keeps_bind [keep_rules]: "keeps I f \<Longrightarrow> (\<And>x. keeps I (g x)) \<Longrightarrow> keeps I (op_bind f g)"
  by (rule ops_bind_rule)

lemma keeps_seq [keep_rules]: "keeps I f \<Longrightarrow> keeps I g \<Longrightarrow> keeps I (op_seq f g)"
  by (rule ops_seq_rule)

lemma keeps_if [keep_rules]: "(b \<Longrightarrow> keeps I f) \<Longrightarrow> (\<not> b \<Longrightarrow> keeps I g) \<Longrightarrow> keeps I (if b then f else g)"
  by simp

lemma keeps_ok [keep_rules]: "keeps I (op_ok x)"
  by (simp add: ops_triple_def op_ok_def)

lemma keeps_fail [keep_rules]: "keeps I (op_fail e)"
  by (simp add: ops_triple_def op_fail_def)

lemma keeps_lift [keep_rules]: "keeps I (op_lift r)"
  by (auto simp: ops_triple_def op_lift_def split: sum.splits)

lemma keeps_some [keep_rules]: "keeps I (op_some e v)"
  unfolding op_some_def by (rule keeps_lift)

lemma keeps_get [keep_rules]: "keeps I (op_get f)"
  by (simp add: ops_triple_def op_get_def)

section \<open>What is left alone\<close>

text \<open>What is at a path: whether it is a directory, and the text and the mode of a file.\<close>

type_synonym contents = "bool \<times> (string \<times> nat) option"

definition content :: "path \<Rightarrow> machine \<Rightarrow> contents" where
  "content p m = (is_dir p m, map_option (\<lambda>f. (f_data f, f_mode f)) (file_at p m))"

definition spares :: "path \<Rightarrow> (machine \<Rightarrow> machine option) \<Rightarrow> bool" where
  "spares p f \<longleftrightarrow> (\<forall>m m'. f m = Some m' \<longrightarrow> content p m' = content p m)"

text \<open>The invariant of a command: what is at a path, the path of its status file and its target.\<close>

definition holds :: "path \<Rightarrow> contents \<Rightarrow> path option \<times> string option \<Rightarrow> host \<Rightarrow> bool" where
  "holds p c sf h \<longleftrightarrow>
     content p (ho_machine h) = c \<and> us_path (ho_status h) = fst sf \<and> us_target_version (ho_status h) = snd sf"

definition apart :: "path \<Rightarrow> path \<Rightarrow> bool" where
  "apart d p \<longleftrightarrow> p \<noteq> d \<and> \<not> starts_with (dir_prefix d) p"

lemma is_dir_files [simp]: "is_dir p (m\<lparr>m_files := fs\<rparr>) = is_dir p m" "is_dir p (m\<lparr>m_requests := n\<rparr>) = is_dir p m"
  by (simp_all add: is_dir_def)

lemma apart_ne: "apart d p \<Longrightarrow> p \<noteq> d"
  by (simp add: apart_def)

lemma apart_below: "apart d p \<Longrightarrow> below d p = None"
  by (simp add: apart_def below_def strip_prefix_def opt_filter_def)

lemma apart_in_dir: "apart d p \<Longrightarrow> p \<noteq> in_dir d r"
  by (auto simp: apart_def in_dir_def)

lemma apart_join:
  assumes "apart d p" and "\<not> starts_with ''/'' n"
  shows "apart (join_path d n) p"
proof -
  have j: "join_path d n = dir_prefix d @ n" using assms(2) by (rule join_path_prefix)
  have "\<not> starts_with (dir_prefix (join_path d n)) p"
    using assms(1) by (auto simp: apart_def j dir_prefix_def [of "dir_prefix d @ n"] starts_with_iff split: if_splits)
  then show ?thesis using assms(1) by (auto simp: apart_def j)
qed

lemma spares_run: "(\<And>f. f \<in> set fs \<Longrightarrow> spares p f) \<Longrightarrow> content p (snd (run_steps fs m)) = content p m"
proof (induction fs arbitrary: m)
  case (Cons f fs)
  show ?case
  proof (cases "f m")
    case (Some m')
    then have "content p m' = content p m" using Cons.prems [of f] by (simp add: spares_def)
    then show ?thesis using Some Cons by simp
  qed simp
qed simp

named_theorems spare_rules \<open>steps that leave a file alone\<close>

lemma spares_make_dir [spare_rules]: "p \<noteq> d \<Longrightarrow> spares p (make_dir pl d)"
  by (auto simp: spares_def make_dir_def content_def file_at_def is_dir_def split: if_splits)

lemma spares_write_file [spare_rules]: "p \<noteq> q \<Longrightarrow> spares p (write_file pl now q s)"
  by (auto simp: spares_def write_file_def put_file_def content_def file_at_def update_conv')

lemma spares_copy_one [spare_rules]: "p \<noteq> q \<Longrightarrow> spares p (copy_one pl now src q)"
  by (auto simp: spares_def copy_one_def content_def file_at_def update_conv' split: option.splits if_splits)

lemma spares_remove_file [spare_rules]: "p \<noteq> q \<Longrightarrow> spares p (remove_file pl q)"
  by (auto simp: spares_def remove_file_def drop_file_def content_def file_at_def delete_conv')

lemma spares_rename_file [spare_rules]: "p \<noteq> q \<Longrightarrow> p \<noteq> q' \<Longrightarrow> spares p (rename_file pl q q')"
  by (auto simp: spares_def rename_file_def content_def file_at_def update_conv' delete_conv' split: option.splits if_splits)

lemma spares_set_mode [spare_rules]: "p \<noteq> q \<Longrightarrow> spares p (set_mode pl f q)"
  by (auto simp: spares_def set_mode_def content_def file_at_def update_conv' split: option.splits if_splits)

lemma map_of_filter_keys: "map_of (filter (\<lambda>(p, f). P p) xs) p = (if P p then map_of xs p else None)"
  by (induction xs) auto

lemma drop_tree_at [simp]: "file_at p (drop_tree d m) = (if p \<noteq> d \<and> below d p = None then file_at p m else None)"
  by (simp add: file_at_def drop_tree_def map_of_filter_keys)

lemma drop_tree_dir [simp]: "is_dir p (drop_tree d m) \<longleftrightarrow> is_dir p m \<and> p \<noteq> d \<and> below d p = None"
  by (auto simp: is_dir_def drop_tree_def)

lemma spares_remove_tree [spare_rules]: "apart d p \<Longrightarrow> spares p (remove_tree pl d)"
  by (auto simp: spares_def remove_tree_def content_def apart_below dest: apart_ne split: if_splits)

lemma spares_remove_any [spare_rules]: "apart d p \<Longrightarrow> spares p (remove_any pl d)"
  using spares_remove_tree [of d p pl] spares_remove_file [of p d pl] apart_ne [of d p] by (auto simp: spares_def remove_any_def)

lemma spares_put_extracted [spare_rules]: "apart d p \<Longrightarrow> spares p (put_extracted pl now d e)"
  by (cases e) (auto simp: spares_def put_extracted_def content_def file_at_def update_conv' apart_in_dir split: if_splits)

lemma map_of_moved: "apart d p \<Longrightarrow> map_of (map (\<lambda>(r, f). (in_dir d r, f)) fs) p = None"
  by (auto simp: map_of_eq_None_iff dest: apart_in_dir)

lemma spares_rename_tree [spare_rules]: "apart d p \<Longrightarrow> apart d' p \<Longrightarrow> spares p (rename_tree pl d d')"
  using drop_tree_at [of p d] drop_tree_dir [of p d]
  by (auto simp: spares_def rename_tree_def Let_def content_def file_at_def is_dir_def map_add_def map_of_moved apart_below
      dest: apart_ne apart_in_dir split: if_splits option.splits)

section \<open>Operations\<close>

lemma holds_machine [simp]: "holds p c sf (h\<lparr>ho_machine := m\<rparr>) \<longleftrightarrow> content p m = c \<and> us_path (ho_status h) = fst sf \<and> us_target_version (ho_status h) = snd sf"
  by (simp add: holds_def)

lemma holds_other [simp]:
  "holds p c sf (h\<lparr>ho_active := a\<rparr>) = holds p c sf h" "holds p c sf (h\<lparr>ho_enabled := a\<rparr>) = holds p c sf h"
  "holds p c sf (h\<lparr>ho_lock := b\<rparr>) = holds p c sf h" "holds p c sf (h\<lparr>ho_rolled_back := b\<rparr>) = holds p c sf h"
  "holds p c sf (touch_dir now d m h) = holds p c sf h"
  by (simp_all add: holds_def touch_dir_def)

lemma keeps_pure [keep_rules]: "(\<And>h. I h \<Longrightarrow> I (f h)) \<Longrightarrow> keeps I (op_pure f)"
  by (simp add: ops_triple_def op_pure_def)

lemma keepsI: "(\<And>h. I h \<Longrightarrow> I (snd (f h))) \<Longrightarrow> keeps I f"
  unfolding ops_triple_def by (metis (no_types, lifting) prod.case_eq_if snd_conv sum.case_eq_if)

lemma keepsD: "keeps I f \<Longrightarrow> I h \<Longrightarrow> I (snd (f h))"
  unfolding ops_triple_def by (metis (no_types, lifting) prod.case_eq_if sum.case_eq_if)

lemma op_files_snd: "snd (op_files q f h) = h\<lparr>ho_machine := snd (f (ho_machine h))\<rparr>"
  by (simp add: op_files_def split: prod.split)

lemma keeps_files: "(\<And>f. f \<in> set fs \<Longrightarrow> spares p f) \<Longrightarrow> keeps (holds p c sf) (op_files q (run_steps fs))"
  by (rule keepsI) (simp add: op_files_snd spares_run holds_def)

lemma keeps_file [keep_rules]: "spares p f \<Longrightarrow> keeps (holds p c sf) (op_files q (run_steps [f]))"
  by (rule keeps_files) simp

lemma keeps_copy_tree [keep_rules]:
  assumes "apart dst p"
  shows "keeps (holds p c sf) (copy_dir_recursive pl now src dst)"
proof (rule keepsI)
  fix h assume h: "holds p c sf h"
  have "spares p f" if "f \<in> set (copy_tree_steps pl now src dst (ho_machine h))" for f
    using that assms by (auto simp: copy_tree_steps_def intro!: spare_rules dest: apart_ne apart_in_dir)
  then have "holds p c sf (snd (op_files dst (run_steps (copy_tree_steps pl now src dst (ho_machine h))) h))"
    using h keepsD [OF keeps_files] by blast
  then show "holds p c sf (snd (copy_dir_recursive pl now src dst h))"
    by (cases "op_files dst (run_steps (copy_tree_steps pl now src dst (ho_machine h))) h") (simp add: copy_dir_recursive_def Let_def)
qed

text \<open>Operations that look at the host before they choose what to do.\<close>

lemma keeps_cond: "keeps I f \<Longrightarrow> keeps I g \<Longrightarrow> keeps I (\<lambda>h. if b h then f h else g h)"
  by (auto simp: ops_triple_def)

lemma keeps_skip: "keeps I f \<Longrightarrow> keeps I (\<lambda>h. if b h then f h else (Inr x, h))"
  by (auto simp: ops_triple_def)

lemma keeps_ensure_dir [keep_rules]:
  assumes "p \<noteq> d"
  shows "keeps (holds p c sf) (ensure_dir pl d)"
proof (rule keepsI)
  fix h assume "holds p c sf h"
  then show "holds p c sf (snd (ensure_dir pl d h))"
    using keepsD [OF keeps_file [OF spares_make_dir [OF assms]]] by (simp add: ensure_dir_def)
qed

lemma keeps_copy_file [keep_rules]: "p \<noteq> dst \<Longrightarrow> keeps (holds p c sf) (copy_file pl now src dst)"
  unfolding copy_file_def by (rule keeps_file) (rule spares_copy_one)

lemma keeps_remove_path [keep_rules]: "apart d p \<Longrightarrow> keeps (holds p c sf) (remove_path pl d)"
  unfolding remove_path_def [abs_def] by (rule keeps_skip) (rule keeps_file, rule spares_remove_any)

lemma keeps_move_file [keep_rules]:
  "p \<noteq> src \<Longrightarrow> p \<noteq> dst \<Longrightarrow> p \<noteq> staging_path dst \<Longrightarrow> keeps (holds p c sf) (move_file pl to now src dst)"
  unfolding move_file_def by (intro keeps_if keeps_files) (auto intro: spare_rules)

lemma keeps_move_path [keep_rules]:
  assumes "apart src p" and "apart dst p" and "p \<noteq> staging_path dst"
  shows "keeps (holds p c sf) (move_path pl to now src dst)"
proof -
  have 1: "keeps (holds p c sf) (move_file pl to now src dst)" using assms by (intro keeps_move_file) (auto dest: apart_ne)
  have 2: "keeps (holds p c sf) (op_files dst (run_steps [rename_tree pl src dst]))"
    using assms by (intro keeps_file spares_rename_tree)
  have 3: "keeps (holds p c sf) (op_seq (copy_dir_recursive pl now src dst) (op_files src (run_steps [remove_tree pl src])))"
    using assms by (intro keep_rules spares_remove_tree)
  show ?thesis using keepsD [OF 1] keepsD [OF 2] keepsD [OF 3] by (intro keepsI) (simp add: move_path_def)
qed

lemma keeps_backup_existing [keep_rules]:
  assumes "apart b p"
  shows "keeps (holds p c sf) (backup_existing pl now src b)"
proof -
  have "keeps (holds p c sf) (op_bind (copy_dir_recursive pl now src b) (\<lambda>_. op_ok (Some b)))"
    using assms by (intro keep_rules)
  moreover have "keeps (holds p c sf) (op_bind (copy_file pl now src b) (\<lambda>_. op_ok (Some b)))"
    using assms by (intro keep_rules apart_ne)
  ultimately show ?thesis using keepsD by (intro keepsI) (fastforce simp: backup_existing_def Let_def)
qed

lemma keeps_restore_path [keep_rules]:
  assumes "apart dst p"
  shows "keeps (holds p c sf) (restore_path pl now b dst)"
proof -
  have "keeps (holds p c sf) (\<lambda>h. (if is_dir k (ho_machine h) then copy_dir_recursive pl now k dst else copy_file pl now k dst) h)" for k
    using keepsD [OF keeps_copy_tree [OF assms]] keepsD [OF keeps_copy_file [OF apart_ne [OF assms]]] by (intro keepsI) simp
  then show ?thesis
    using assms unfolding restore_path_def
    by (intro keeps_seq keeps_remove_path) (auto split: option.splits intro: keeps_ok)
qed

text \<open>A status file that is another one.\<close>

definition status_apart :: "path option \<Rightarrow> path \<Rightarrow> bool" where
  "status_apart sf p \<longleftrightarrow> (\<forall>q. sf = Some q \<longrightarrow> p \<noteq> q \<and> p \<noteq> tmp_path q ''tmp-'' \<and> p \<noteq> parent_dir q)"

lemma keeps_write_status [keep_rules]:
  assumes "status_apart (fst sf) p"
  shows "keeps (holds p c sf) (write_status pl to now)"
proof (rule keepsI)
  fix h assume h: "holds p c sf h"
  show "holds p c sf (snd (write_status pl to now h))"
  proof (cases "fst sf")
    case None
    then show ?thesis using h by (simp add: write_status_def holds_def)
  next
    case (Some q)
    let ?dir = "if parent_dir q = [] then op_ok () else op_files (parent_dir q) (run_steps [make_dir pl (parent_dir q)])"
    let ?put = "op_files q (run_steps [write_file pl now (tmp_path q ''tmp-'') (pf_pretty pl (status_json to (ho_status h)) @ [CHR 0x0A]),
      rename_file pl (tmp_path q ''tmp-'') q])"
    have "keeps (holds p c sf) (op_seq ?dir ?put)"
      using assms Some by (intro keeps_seq keeps_if keeps_ok keeps_file keeps_files spares_make_dir)
        (auto simp: status_apart_def intro!: spare_rules)
    then have "holds p c sf (snd (op_seq ?dir ?put h))" using h by (rule keepsD)
    then show ?thesis using h Some by (simp add: write_status_def holds_def)
  qed
qed

lemma keeps_stage [keep_rules]: "status_apart (fst sf) p \<Longrightarrow> keeps (holds p c sf) (stage pl to now st msg)"
  using keepsD [OF keeps_write_status] by (intro keepsI) (simp add: stage_def holds_def)

lemma keeps_finish_status [keep_rules]: "status_apart (fst sf) p \<Longrightarrow> keeps (holds p c sf) (finish_status pl to now out msg)"
  using keepsD [OF keeps_write_status] by (intro keepsI) (simp add: finish_status_def holds_def)

section \<open>Units, the network and the programs\<close>

lemma keeps_stop [keep_rules]: "keeps (holds p c sf) (systemd_stop u)"
  by (rule keepsI) (simp add: systemd_stop_def)

lemma keeps_is_active [keep_rules]: "keeps I (systemd_is_active u)"
  unfolding systemd_is_active_def by (rule keeps_get)

lemma keeps_restart_stable [keep_rules]: "keeps (holds p c sf) (restart_stable to u)"
  unfolding restart_stable_def
  by (rule keeps_seq; rule keepsI) (simp_all add: systemd_restart_def systemd_wait_stable_def)

lemma keeps_when_active [keep_rules]: "(\<And>u. keeps I (f u)) \<Longrightarrow> keeps I (when_active c b f)"
  by (auto simp: when_active_def intro: keeps_ok split: option.splits)

lemma content_requests [simp]: "content p (m\<lparr>m_requests := n\<rparr>) = content p m"
  by (simp add: content_def file_at_def)

lemma http_get_content: "http_get pl url m = (a, m') \<Longrightarrow> content p m' = content p m"
  by (auto simp: http_get_def)

lemma keeps_http [keep_rules]: "keeps (holds p c sf) (op_http pl url)"
  by (rule keepsI) (auto simp: op_http_def holds_def http_get_content split: prod.split)

lemma keeps_download_text [keep_rules]: "keeps (holds p c sf) (download_text pl url)"
  unfolding download_text_def by (intro keep_rules)

lemma keeps_download_to_file [keep_rules]: "p \<noteq> dst \<Longrightarrow> keeps (holds p c sf) (download_to_file pl now url dst)"
  unfolding download_to_file_def
  by (intro keeps_bind keeps_http)
    (auto split: http_answer.split intro!: keeps_fail keeps_seq keeps_file spares_write_file)

text \<open>Operations that only look.\<close>

lemma looks_keeps: "(\<And>h. snd (f h) = h) \<Longrightarrow> keeps I f"
  by (rule keepsI) simp

lemma only_looks [simp]:
  "snd (installed_version to q h) = h" "snd (installed_version_strict to q h) = h" "snd (sha256_file to q h) = h"
  "snd (find_extracted_binary d n h) = h" "snd (find_latest_backup d n h) = h"
  by (auto simp: installed_version_def installed_version_strict_def sha256_file_def find_extracted_binary_def find_latest_backup_def
      split: option.splits)

lemma keeps_looks [keep_rules]:
  "keeps I (installed_version to q)" "keeps I (installed_version_strict to q)" "keeps I (sha256_file to q)"
  "keeps I (find_extracted_binary d n)" "keeps I (find_latest_backup d n)"
  by (rule looks_keeps, simp)+

lemma keeps_verify_version [keep_rules]: "keeps I (verify_version re to b target)"
  unfolding verify_version_def by (intro keep_rules)

lemma keeps_download_and_verify [keep_rules]:
  "p \<noteq> join_path (to_tmp to) asset \<Longrightarrow> keeps (holds p c sf) (download_and_verify pl to now repo version asset)"
  unfolding download_and_verify_def Let_def by (intro keep_rules)

lemma op_machine_keeps:
  "(\<And>m. content p (snd (f m)) = content p m) \<Longrightarrow> keeps (holds p c sf) (op_machine f)"
  by (rule keepsI) (simp add: op_machine_def holds_def split: prod.split, metis snd_conv)

lemma get_release_content: "content p (snd (get_release_json pl shape of_json url m)) = content p m"
  by (cases "http_get pl url m") (simp add: get_release_json_def http_get_content)

lemma latest_stable_content: "content p (snd (latest_stable pl re client m)) = content p m"
  by (cases client)
    (simp add: latest_stable_def get_release_content split: prod.split, metis get_release_content snd_conv)

lemma release_by_tag_content: "content p (snd (release_by_tag pl re client tag m)) = content p m"
  by (cases client)
    (simp add: release_by_tag_def split: prod.split sum.split, metis get_release_content snd_conv)

lemma keeps_extract [keep_rules]:
  assumes "apart d p"
  shows "keeps (holds p c sf) (extract_tar_gz pl to now archive d)"
proof (rule keepsI)
  fix h assume h: "holds p c sf h"
  have "content p (snd (run_steps (map (\<lambda>r. make_dir pl (in_dir d r)) ds @ map (put_extracted pl now d) fs) m)) = content p m" for ds fs m
    using assms by (intro spares_run) (auto intro!: spare_rules dest: apart_in_dir)
  note spared = this
  show "holds p c sf (snd (extract_tar_gz pl to now archive d h))"
  proof (cases "Option.bind (read_file archive (ho_machine h)) (to_untar to)")
    case (Some e)
    obtain ds fs where ds: "e = (ds, fs)" by fastforce
    obtain ok m where m: "run_steps (map (\<lambda>r. make_dir pl (in_dir d r)) ds @ map (put_extracted pl now d) fs) (ho_machine h) = (ok, m)"
      by fastforce
    then have "content p m = content p (ho_machine h)" using spared [of ds fs "ho_machine h"] by simp
    then show ?thesis using h Some ds m by (simp add: extract_tar_gz_def holds_def)
  qed (use h in \<open>simp add: extract_tar_gz_def\<close>)
qed

lemma keeps_with_temp [keep_rules]:
  assumes "apart (to_tmp to) p" and "keeps (holds p c sf) f"
  shows "keeps (holds p c sf) (with_temp pl to f)"
proof -
  have "keeps (holds p c sf) (\<lambda>h. case f h of (r, h) \<Rightarrow> (r, h\<lparr>ho_machine := drop_tree (to_tmp to) (ho_machine h)\<rparr>))" (is "keeps _ ?g")
  proof (rule keepsI)
    fix h assume h: "holds p c sf h"
    obtain r h' where e: "f h = (r, h')" by fastforce
    have "holds p c sf h'" using keepsD [OF assms(2) h] unfolding e by simp
    then show "holds p c sf (snd (?g h))"
      using assms(1) unfolding e by (simp add: holds_def content_def apart_below apart_ne)
  qed
  then show ?thesis unfolding with_temp_def using assms(1) by (intro keeps_seq keeps_file spares_make_dir) (auto dest: apart_ne)
qed

lemma keeps_acquire_lock [keep_rules]:
  assumes "p \<noteq> ''/opt/proxy-panel/maintenance.lock''" and "p \<noteq> ''/opt/proxy-panel''"
  shows "keeps (holds p c sf) (acquire_lock pl now)"
proof -
  let ?q = "join_path OPT_DIR ''maintenance.lock''"
  let ?f = "op_files ?q (run_steps [\<lambda>m. if file_exists ?q m then Some m else write_file pl now ?q [] m])"
  have "p \<noteq> ?q" using assms(1) by (simp add: join_path_def OPT_DIR_def)
  then have "spares p (\<lambda>m. if file_exists ?q m then Some m else write_file pl now ?q [] m)"
    using spares_write_file [of p ?q pl now "[]"] by (simp add: spares_def)
  then have f: "keeps (holds p c sf) ?f" by (rule keeps_file)
  have "keeps (holds p c sf) (\<lambda>h. case ?f h of (Inl e, h) \<Rightarrow> (Inl e, h)
      | (Inr _, h) \<Rightarrow> if ho_lock h then (Inl (Locked ?q), h) else (Inr (), h\<lparr>ho_lock := True\<rparr>))" (is "keeps _ ?g")
  proof (rule keepsI)
    fix h assume h: "holds p c sf h"
    obtain r h' where e: "?f h = (r, h')" by fastforce
    have "holds p c sf h'" using keepsD [OF f h] unfolding e by simp
    then show "holds p c sf (snd (?g h))" unfolding e by (cases r) simp_all
  qed
  moreover have "p \<noteq> OPT_DIR" using assms(2) by (simp add: OPT_DIR_def)
  ultimately show ?thesis unfolding acquire_lock_def Let_def by (intro keeps_seq keeps_ensure_dir)
qed

lemma apart_in_dir_apart: "apart d p \<Longrightarrow> apart (in_dir d r) p"
  by (auto simp: apart_def in_dir_def dir_prefix_def [of "dir_prefix d @ r"] starts_with_iff split: if_splits)

text \<open>Pruning leaves alone what is not below the directory, and every other name in it.\<close>

lemma prune_content:
  assumes "\<And>k. k \<in> set (backups_in d name h) \<Longrightarrow> apart k p"
  shows "content p (ho_machine (prune_backups pl d name h)) = content p (ho_machine h)"
proof -
  have "content p (fold (\<lambda>k m. unwrap_or (remove_any pl k m) m) ks m) = content p m" if "\<And>k. k \<in> set ks \<Longrightarrow> apart k p" for ks m
    using that
  proof (induction ks arbitrary: m)
    case (Cons k ks)
    have "content p (unwrap_or (remove_any pl k m) m) = content p m"
      using spares_remove_any [of k p pl] Cons.prems [of k] by (cases "remove_any pl k m") (auto simp: spares_def)
    then show ?case using Cons by simp
  qed simp
  moreover have "k \<in> set (drop 1 ks) \<Longrightarrow> k \<in> set ks" for k :: path and ks by (rule in_set_dropD)
  ultimately show ?thesis using assms by (simp add: prune_backups_def)
qed

lemma backups_in_dir: "k \<in> set (backups_in d name h) \<Longrightarrow> \<exists>r. k = in_dir d r \<and> starts_with (name @ ''.'') r"
  by (auto simp: backups_in_def)

lemma prune_status [simp]: "ho_status (prune_backups pl d name h) = ho_status h"
  by (simp add: prune_backups_def)

lemma keeps_prune_other:
  assumes "\<And>r. starts_with (name @ ''.'') r \<Longrightarrow> apart (in_dir d r) p"
  shows "keeps (holds p c sf) (op_pure (prune_backups pl d name))"
proof (rule keepsI)
  fix h assume "holds p c sf h"
  moreover have "content p (ho_machine (prune_backups pl d name h)) = content p (ho_machine h)"
    using backups_in_dir assms by (intro prune_content) blast
  ultimately show "holds p c sf (snd (op_pure (prune_backups pl d name) h))" by (simp add: op_pure_def holds_def)
qed

lemma keeps_prune [keep_rules]: "apart d p \<Longrightarrow> keeps (holds p c sf) (op_pure (prune_backups pl d name))"
  using apart_in_dir_apart by (intro keeps_prune_other)

end
