(* ===== verification/UpkeepCheck.thy ===== *)
theory UpkeepCheck
  imports UpkeepRules
begin

text \<open>
  Properties of the management program (pp-cli, ops): an upgrade takes place or leaves the binary as it
  was, and what a run that succeeds has installed.
\<close>

section \<open>Paths\<close>

lemma component_cases:
  assumes "parse_component name = Inr c"
  shows "co_binary c = ''proxy-panel-hub'' \<or> co_binary c = ''proxy-panel-agent'' \<or> co_binary c = ''proxy-panel''"
  using assms by (auto simp: parse_component_def split: if_splits)

definition binary_backup :: "component \<Rightarrow> string \<Rightarrow> path" where
  "binary_backup c label = backup_path BACKUP_DIR (co_binary c) label"

lemma apart_prefix: "starts_with x d \<Longrightarrow> \<not> starts_with x p \<Longrightarrow> apart d p"
  by (auto simp: apart_def dir_prefix_def starts_with_iff)

lemmas tmp_apart = apart_prefix [of "''/tmp/''"]

lemma tmp_join: "starts_with ''/tmp/'' t \<Longrightarrow> \<not> starts_with ''/'' n \<Longrightarrow> starts_with ''/tmp/'' (join_path t n)"
  by (auto simp: join_path_def starts_with_iff)

text \<open>The status file is the one the hub is configured with, or there is none.\<close>

definition status_file_ok :: "path option \<Rightarrow> bool" where
  "status_file_ok sf \<longleftrightarrow> sf = None \<or> sf = Some ''/opt/proxy-panel/data/hub-update.json''"

lemma hub_status_paths:
  "tmp_path ''/opt/proxy-panel/data/hub-update.json'' ''tmp-'' = ''/opt/proxy-panel/data/hub-update.tmp-''"
  "parent_dir ''/opt/proxy-panel/data/hub-update.json'' = ''/opt/proxy-panel/data''"
  by code_simp+

lemma status_apart_ok: "status_file_ok sf \<Longrightarrow> \<not> starts_with ''/opt/proxy-panel/data'' p \<Longrightarrow> status_apart sf p"
  by (auto simp: status_file_ok_def status_apart_def hub_status_paths)

lemma binary_path:
  assumes "parse_component name = Inr c"
  shows "\<exists>n. binary_at system_paths c = ''/usr/local/bin/'' @ n" "staging_path (binary_at system_paths c) = ''/usr/local/bin/.'' @ co_binary c"
proof -
  have "binary_at system_paths c = ''/usr/local/bin/'' @ co_binary c"
    using component_cases [OF assms] by (auto simp: binary_at_def system_paths_def BIN_DIR_def join_path_def)
  then show "\<exists>n. binary_at system_paths c = ''/usr/local/bin/'' @ n" by blast
  have "staging_path ''/usr/local/bin/proxy-panel-hub'' = ''/usr/local/bin/.proxy-panel-hub''"
    "staging_path ''/usr/local/bin/proxy-panel-agent'' = ''/usr/local/bin/.proxy-panel-agent''"
    "staging_path ''/usr/local/bin/proxy-panel'' = ''/usr/local/bin/.proxy-panel''" by code_simp+
  then show "staging_path (binary_at system_paths c) = ''/usr/local/bin/.'' @ co_binary c"
    using component_cases [OF assms] by (auto simp: binary_at_def system_paths_def BIN_DIR_def join_path_def)
qed

lemma backup_path_eq:
  assumes "parse_component name = Inr c"
  shows "binary_backup c label = ''/opt/proxy-panel/backup/'' @ co_binary c @ ''.'' @ label @ ''.bak''"
    "backup_path BACKUP_DIR ''web-dist'' label = ''/opt/proxy-panel/backup/web-dist.'' @ label @ ''.bak''"
  using component_cases [OF assms]
  by (auto simp: binary_backup_def backup_path_def BACKUP_DIR_def join_path_def)

lemma web_paths:
  "web_dist system_paths = ''/opt/proxy-panel/web/dist''" "parent_dir (web_dist system_paths) = ''/opt/proxy-panel/web''"
  "staging_path (web_dist system_paths) = ''/opt/proxy-panel/web/.dist''"
  "parent_dir ''/opt/proxy-panel/web/dist'' = ''/opt/proxy-panel/web''"
  "staging_path ''/opt/proxy-panel/web/dist'' = ''/opt/proxy-panel/web/.dist''"
  by code_simp+

text \<open>The binary and its backup are apart from each other and from all else.\<close>

lemma binary_apart:
  assumes "parse_component name = Inr c"
  shows "\<not> starts_with ''/tmp/'' (binary_at system_paths c)" "\<not> starts_with ''/opt/'' (binary_at system_paths c)"
    "apart (web_dist system_paths) (binary_at system_paths c)" "apart BACKUP_DIR (binary_at system_paths c)"
    "apart (binary_backup c label) (binary_at system_paths c)"
    "apart (backup_path BACKUP_DIR ''web-dist'' label) (binary_at system_paths c)"
proof -
  obtain n where p: "binary_at system_paths c = ''/usr/local/bin/'' @ n" using binary_path(1) [OF assms] by blast
  show "\<not> starts_with ''/tmp/'' (binary_at system_paths c)" and "\<not> starts_with ''/opt/'' (binary_at system_paths c)"
    by (simp_all add: p)
  have opt: "apart d (binary_at system_paths c)" if "starts_with ''/opt/'' d" for d
    using that by (rule apart_prefix) (simp add: p)
  show "apart (web_dist system_paths) (binary_at system_paths c)" by (rule opt) (simp add: web_paths)
  show "apart BACKUP_DIR (binary_at system_paths c)" by (rule opt) (simp add: BACKUP_DIR_def)
  show "apart (binary_backup c label) (binary_at system_paths c)"
    by (rule opt) (simp add: backup_path_eq [OF assms])
  show "apart (backup_path BACKUP_DIR ''web-dist'' label) (binary_at system_paths c)"
    by (rule opt) (simp add: backup_path_eq [OF assms])
qed

lemma backup_apart:
  assumes "parse_component name = Inr c"
  shows "\<not> starts_with ''/tmp/'' (binary_backup c label)" "\<not> starts_with ''/opt/proxy-panel/data'' (binary_backup c label)"
    "apart (web_dist system_paths) (binary_backup c label)" "apart (binary_at system_paths c) (binary_backup c label)"
    "apart (backup_path BACKUP_DIR ''web-dist'' label) (binary_backup c label)"
    "binary_backup c label \<noteq> staging_path (binary_at system_paths c)" "binary_backup c label \<noteq> BACKUP_DIR"
    "binary_backup c label \<noteq> ''/opt/proxy-panel/web''" "binary_backup c label \<noteq> ''/opt/proxy-panel/web/.dist''"
proof -
  note b = backup_path_eq [OF assms]
  show "\<not> starts_with ''/tmp/'' (binary_backup c label)" "\<not> starts_with ''/opt/proxy-panel/data'' (binary_backup c label)"
    "binary_backup c label \<noteq> BACKUP_DIR" "binary_backup c label \<noteq> ''/opt/proxy-panel/web''"
    "binary_backup c label \<noteq> ''/opt/proxy-panel/web/.dist''"
    by (simp_all add: b BACKUP_DIR_def)
  show "apart (web_dist system_paths) (binary_backup c label)" by (simp add: b web_paths apart_def dir_prefix_def)
  obtain n where p: "binary_at system_paths c = ''/usr/local/bin/'' @ n" using binary_path(1) [OF assms] by blast
  show "apart (binary_at system_paths c) (binary_backup c label)" by (auto simp: p b apart_def dir_prefix_def)
  show "binary_backup c label \<noteq> staging_path (binary_at system_paths c)" by (simp add: b binary_path(2) [OF assms])
  show "apart (backup_path BACKUP_DIR ''web-dist'' label) (binary_backup c label)"
    using component_cases [OF assms] by (auto simp: b apart_def dir_prefix_def)
qed

section \<open>What the new release is\<close>

text \<open>The binary reports the target's version.\<close>

definition runs_target :: "release_env \<Rightarrow> host_tools \<Rightarrow> path \<Rightarrow> string \<Rightarrow> host \<Rightarrow> bool" where
  "runs_target re to p target h \<longleftrightarrow>
     (\<exists>v. fst (installed_version_strict to p h) = Inr (Some v) \<and> compare_releases re v target = Inr Same)"

lemma strict_content:
  assumes "content p (ho_machine h) = content p (ho_machine h')"
  shows "fst (installed_version_strict to p h) = fst (installed_version_strict to p h')"
proof -
  have "read_file p m = map_option fst (snd (content p m))" for m
    by (simp add: read_file_def content_def option.map_comp comp_def)
  then have "read_file p (ho_machine h) = read_file p (ho_machine h')" using assms by simp
  then show ?thesis by (simp add: installed_version_strict_def split: option.split)
qed

text \<open>The target is installed, and the status names it.\<close>

definition upgraded :: "release_env \<Rightarrow> host_tools \<Rightarrow> path \<Rightarrow> string \<Rightarrow> path option \<Rightarrow> host \<Rightarrow> bool" where
  "upgraded re to p target sf h \<longleftrightarrow> runs_target re to p target h \<and> (\<exists>c. holds p c (sf, Some target) h)"

lemma keeps_upgraded:
  assumes "\<And>c. keeps (holds p c (sf, Some target)) f"
  shows "keeps (upgraded re to p target sf) f"
proof (rule keepsI)
  fix h assume h: "upgraded re to p target sf h"
  then obtain c where c: "holds p c (sf, Some target) h" by (auto simp: upgraded_def)
  have c': "holds p c (sf, Some target) (snd (f h))" using keepsD [OF assms c] .
  have "content p (ho_machine h) = content p (ho_machine (snd (f h)))" using c c' by (simp add: holds_def)
  from strict_content [OF this] have "runs_target re to p target (snd (f h)) = runs_target re to p target h"
    unfolding runs_target_def by simp
  with h c' show "upgraded re to p target sf (snd (f h))" unfolding upgraded_def by blast
qed

lemma version_verified:
  "ops_triple (\<lambda>h. us_path (ho_status h) = sf \<and> us_target_version (ho_status h) = Some target)
     (verify_version re to p target) (\<lambda>_. upgraded re to p target sf) (\<lambda>_ _. True)"
proof (rule ops_tripleI)
  fix h :: host
  assume st: "us_path (ho_status h) = sf \<and> us_target_version (ho_status h) = Some target"
  obtain r where r: "installed_version_strict to p h = (r, h)"
    using only_looks(2) [of to p h] by (metis prod.collapse)
  have "upgraded re to p target sf h" if "r = Inr (Some v)" and "compare_releases re v target = Inr Same" for v
    using that r st by (auto simp: upgraded_def runs_target_def holds_def)
  then show "case verify_version re to p target h of (Inr x, h') \<Rightarrow> upgraded re to p target sf h' | (Inl e, h') \<Rightarrow> True"
    by (auto simp: verify_version_def op_bind_def r op_some_def op_lift_def op_ok_def op_fail_def map_err_def ok_or_def
        split: sum.splits option.splits if_splits)
qed

section \<open>The swap\<close>

text \<open>Errors that a restored binary cannot follow: a recovery that failed, and a status that is not written.\<close>

definition excused :: "path option \<Rightarrow> ops_error \<Rightarrow> bool" where
  "excused sf e \<longleftrightarrow> (\<exists>e1 es. e = NotRestored e1 es) \<or> (\<exists>q. sf = Some q \<and> (e = FileFails q \<or> e = FileFails (parent_dir q)))"

lemma write_status_errors:
  "us_path (ho_status h) = sf \<Longrightarrow> write_status pl to now h = (Inl e, h') \<Longrightarrow> excused sf e"
  by (auto simp: write_status_def excused_def op_seq_def op_bind_def op_ok_def op_files_def
      split: option.splits prod.splits if_splits sum.splits)

lemma status_errors:
  "us_path (ho_status h) = sf \<Longrightarrow> stage pl to now st msg h = (Inl e, h') \<Longrightarrow> excused sf e"
  "us_path (ho_status h) = sf \<Longrightarrow> finish_status pl to now out msg h = (Inl e, h') \<Longrightarrow> excused sf e"
  unfolding stage_def finish_status_def by (erule write_status_errors [rotated], simp)+

text \<open>A copy is kept of what was at the path, and it is known when nothing was there.\<close>

definition saved :: "path \<Rightarrow> contents \<Rightarrow> path option \<times> string option \<Rightarrow> path option \<Rightarrow> host \<Rightarrow> bool" where
  "saved b c st bb h \<longleftrightarrow> (\<exists>cb. holds b cb st h \<and> (bb = None \<and> c = (False, None) \<or> bb = Some b \<and> cb = c \<and> \<not> fst c))"

lemma keeps_saved:
  assumes "\<And>cb. keeps (holds b cb st) f"
  shows "keeps (saved b c st bb) f"
proof (rule keepsI)
  fix h assume "saved b c st bb h"
  then obtain cb where cb: "holds b cb st h" and link: "bb = None \<and> c = (False, None) \<or> bb = Some b \<and> cb = c \<and> \<not> fst c"
    unfolding saved_def by blast
  from keepsD [OF assms cb] link show "saved b c st bb (snd (f h))" unfolding saved_def by blast
qed

lemma content_none: "\<not> path_exists p m \<longleftrightarrow> content p m = (False, None)"
  by (simp add: path_exists_def content_def file_exists_def)

lemma copy_one_content:
  "copy_one pl now src dst m = Some m' \<Longrightarrow> content dst m' = (False, snd (content src m)) \<and> snd (content src m) \<noteq> None"
  by (auto simp: copy_one_def content_def file_at_def update_conv' split: option.splits if_splits)

lemma copy_file_content:
  assumes "copy_file pl now src dst h = (Inr u, h')"
  shows "content dst (ho_machine h') = (False, snd (content src (ho_machine h)))" "ho_status h' = ho_status h"
  using assms copy_one_content [of pl now src dst "ho_machine h"]
  by (auto simp: copy_file_def op_files_def split: option.splits prod.splits if_splits)

lemma backup_saves:
  assumes "fst c = False" and "apart b p"
  shows "ops_triple (holds p c st) (backup_existing pl now p b) (\<lambda>bb h. holds p c st h \<and> saved b c st bb h) (\<lambda>_. holds p c st)"
proof (rule ops_tripleI)
  fix h assume h: "holds p c st h"
  show "case backup_existing pl now p b h of (Inr bb, h') \<Rightarrow> holds p c st h' \<and> saved b c st bb h' | (Inl e, h') \<Rightarrow> holds p c st h'"
  proof (cases "path_exists p (ho_machine h)")
    case False
    then show ?thesis using h by (auto simp: backup_existing_def content_none saved_def holds_def)
  next
    case True
    have nodir: "\<not> is_dir p (ho_machine h)" using h assms(1) by (auto simp: holds_def content_def)
    obtain r h' where r: "copy_file pl now p b h = (r, h')" by fastforce
    have keep: "holds p c st h'" using keepsD [OF keeps_copy_file [OF apart_ne [OF assms(2)]] h, of pl now p] by (simp add: r)
    have "saved b c st (Some b) h'" if "r = Inr u" for u
    proof -
      have "content b (ho_machine h') = c" 
        using copy_file_content(1) [OF r [unfolded that]] h assms(1) by (cases c) (auto simp: holds_def)
      then show ?thesis using keep assms(1) by (auto simp: saved_def holds_def)
    qed
    then show ?thesis using True nodir keep
      by (auto simp: backup_existing_def Let_def op_bind_def r op_ok_def split: sum.splits)
  qed
qed

lemma remove_path_gone:
  assumes "remove_path pl p h = (Inr u, h')"
  shows "content p (ho_machine h') = (False, None)"
proof (cases "path_exists p (ho_machine h)")
  case False
  then show ?thesis using assms unfolding remove_path_def content_none [symmetric] by simp
next
  case True
  have "content p m' = (False, None)" if "remove_any pl p m = Some m'" for m m'
    using that by (auto simp: remove_any_def remove_tree_def remove_file_def content_def is_dir_def drop_file_def file_at_def
        drop_tree_def map_of_filter_keys split: if_splits)
  then show ?thesis using assms True
    by (auto simp: remove_path_def op_files_def split: option.splits prod.splits if_splits)
qed

lemma restore_restores:
  assumes "apart p b"
  shows "ops_triple (saved b c st bb) (restore_path pl now bb p) (\<lambda>_. holds p c st) (\<lambda>_ _. True)"
proof (rule ops_tripleI)
  fix h assume h: "saved b c st bb h"
  obtain r h1 where r: "remove_path pl p h = (r, h1)" by fastforce
  have s: "saved b c st bb h1"
    using keepsD [OF keeps_saved [OF keeps_remove_path [OF assms]] h, of pl] by (simp add: r)
  show "case restore_path pl now bb p h of (Inr x, h') \<Rightarrow> holds p c st h' | (Inl e, h') \<Rightarrow> True"
  proof (cases r)
    case (Inl e)
    then show ?thesis by (simp add: restore_path_def op_seq_def op_bind_def r)
  next
    case (Inr u)
    have gone: "content p (ho_machine h1) = (False, None)" using r unfolding Inr by (rule remove_path_gone)
    show ?thesis
    proof (cases bb)
      case None
      then show ?thesis using s gone Inr by (auto simp: restore_path_def op_seq_def op_bind_def r op_ok_def saved_def holds_def)
    next
      case (Some k)
      have b: "k = b" "holds b c st h1" "\<not> fst c" using s Some by (auto simp: saved_def)
      then have nodir: "\<not> is_dir b (ho_machine h1)" by (auto simp: holds_def content_def)
      have "holds p c st h2" if "copy_file pl now b p h1 = (Inr v, h2)" for v h2
        using copy_file_content [OF that] b(2,3) by (cases c) (auto simp: holds_def)
      then show ?thesis using Some Inr b(1) nodir
        by (auto simp: restore_path_def op_seq_def op_bind_def r split: sum.splits prod.splits)
    qed
  qed
qed

lemma keeps_replace:
  assumes "p \<noteq> new_binary" and "p \<noteq> binary" and "p \<noteq> staging_path binary"
    and "co_with_web c \<Longrightarrow> apart web p \<and> p \<noteq> parent_dir web \<and> apart new_web p \<and> p \<noteq> staging_path web"
  shows "keeps (holds p k st) (replace_and_verify pl re to now c new_binary new_web binary web target was_active)"
  unfolding replace_and_verify_def using assms by (intro keep_rules spares_set_mode) simp_all

lemma replaced_upgraded:
  assumes "\<And>k. keeps (holds q k (sf, Some target)) (move_file pl to now new_binary binary)"
    and "\<And>k. keeps (holds q k (sf, Some target)) (op_files binary (run_steps [set_mode pl (\<lambda>_. 493) binary]))"
    and "co_with_web c \<Longrightarrow> apart web q \<and> q \<noteq> parent_dir web \<and> apart new_web q \<and> q \<noteq> staging_path web"
  shows "ops_triple (holds q k (sf, Some target)) (replace_and_verify pl re to now c new_binary new_web binary web target was_active)
    (\<lambda>_. upgraded re to binary target sf) (\<lambda>_ _. True)"
proof -
  let ?I = "holds q k (sf, Some target)"
  have weaken: "ops_triple ?I f (\<lambda>_. ?I) (\<lambda>_ _. True)" if "keeps ?I f" for f :: "unit ops"
    by (rule ops_conseq [OF that]) simp_all
  have web: "keeps ?I (if co_with_web c then op_seq (remove_path pl web) (op_seq (ensure_dir pl (parent_dir web)) (move_path pl to now new_web web))
      else op_ok ())"
    using assms(3) by (intro keep_rules) simp_all
  have verify: "ops_triple ?I (verify_version re to binary target) (\<lambda>_. upgraded re to binary target sf) (\<lambda>_ _. True)"
    by (rule ops_conseq [OF version_verified [of sf target re to binary]]) (simp_all add: holds_def)
  have active: "ops_triple (upgraded re to binary target sf) (when_active c was_active (restart_stable to))
      (\<lambda>_. upgraded re to binary target sf) (\<lambda>_ _. True)"
    by (rule ops_conseq [OF keeps_upgraded]) (simp_all add: keeps_when_active keeps_restart_stable)
  show ?thesis unfolding replace_and_verify_def
    by (intro ops_seq_rule [OF weaken [OF assms(1)]] ops_seq_rule [OF weaken [OF assms(2)]] ops_seq_rule [OF weaken [OF web]]
        ops_seq_rule [OF verify] active)
qed

lemma collected_none: "collect_error f es h = ([], h') \<longleftrightarrow> es = [] \<and> f h = (Inr (), h')"
  by (auto simp: collect_error_def split: prod.splits sum.splits)

text \<open>A recovery that reports no error has put back what was saved.\<close>

lemma recovered:
  assumes "saved b c st bb h" and "recover pl to now co bb wb p web was_active h = ([], h')"
    and "apart p b" and "co_with_web co \<Longrightarrow> apart web p"
  shows "holds p c st h'"
proof -
  obtain es1 h1 where 1: "collect_error (restore_path pl now bb p) [] h = (es1, h1)" by fastforce
  obtain es2 h2 where 2: "(if co_with_web co then collect_error (restore_path pl now wb web) es1 h1 else (es1, h1)) = (es2, h2)"
    by fastforce
  have "collect_error (when_active co was_active (restart_stable to)) es2 h2 = ([], h')"
    using assms(2) by (simp add: recover_def 1 2)
  then have 3: "es2 = []" "when_active co was_active (restart_stable to) h2 = (Inr (), h')" by (simp_all add: collected_none)
  have es1: "es1 = []" using 2 3(1) by (auto simp: collected_none split: if_splits)
  have "restore_path pl now bb p h = (Inr (), h1)" using 1 by (simp add: es1 collected_none)
  then have p1: "holds p c st h1" by (rule ops_triple_results(1) [OF restore_restores [OF assms(3)] assms(1)])
  have "holds p c st h2"
  proof (cases "co_with_web co")
    case True
    then have "restore_path pl now wb web h1 = (Inr (), h2)" using 2 by (simp add: 3(1) collected_none)
    then show ?thesis using keepsD [OF keeps_restore_path [OF assms(4) [OF True]] p1, of pl now wb] by simp
  qed (use 2 p1 in simp)
  moreover have "keeps (holds p c st) (when_active co was_active (restart_stable to))" by (intro keep_rules)
  ultimately have "holds p c st (snd (when_active co was_active (restart_stable to) h2))" using keepsD by blast
  then show ?thesis by (simp add: 3(2))
qed

text \<open>The paths of an upgrade: a temporary directory, and the status file the hub uses.\<close>

definition upgrade_setting :: "host_tools \<Rightarrow> string \<Rightarrow> component \<Rightarrow> path option \<Rightarrow> bool" where
  "upgrade_setting to name c sf \<longleftrightarrow> starts_with ''/tmp/'' (to_tmp to) \<and> parse_component name = Inr c \<and> status_file_ok sf"

lemma setting_parts:
  assumes "upgrade_setting to name c sf"
  shows "starts_with ''/tmp/'' (to_tmp to)" "parse_component name = Inr c" "status_file_ok sf"
    "status_apart sf (binary_at system_paths c)" "status_apart sf (binary_backup c label)"
  using assms binary_apart(2) [of name c] backup_apart(2) [of name c label]
  by (auto simp: upgrade_setting_def starts_with_iff intro!: status_apart_ok)

lemma swap_replaces:
  assumes "upgrade_setting to name c sf" and "starts_with ''/tmp/'' new_binary" and "co_with_web c \<Longrightarrow> starts_with ''/tmp/'' new_web"
  shows "ops_triple (saved (binary_backup c label) k (sf, Some target) bb)
    (replace_or_recover pl re to now c system_paths new_binary new_web bb wb target was_active)
    (\<lambda>_. upgraded re to (binary_at system_paths c) target sf)
    (\<lambda>e h. holds (binary_at system_paths c) k (sf, Some target) h \<or> excused sf e)"
proof (rule ops_tripleI)
  fix h
  let ?b = "binary_backup c label" and ?p = "binary_at system_paths c" and ?w = "web_dist system_paths" and ?st = "(sf, Some target)"
  let ?f = "replace_and_verify pl re to now c new_binary new_web ?p ?w target was_active"
  assume h: "saved ?b k ?st bb h"
  note s = setting_parts [OF assms(1)]
  note b = backup_apart [OF s(2), of label]
  have nb: "?b \<noteq> new_binary" using b(1) assms(2) by auto
  have web: "co_with_web c \<Longrightarrow> apart ?w ?b \<and> ?b \<noteq> parent_dir ?w \<and> apart new_web ?b \<and> ?b \<noteq> staging_path ?w"
    using b assms(3) tmp_apart by (simp add: web_paths(2,3))
  have keep: "keeps (saved ?b k ?st bb) ?f"
    using keeps_replace [OF nb apart_ne [OF b(4)] b(6) web] by (rule keeps_saved)
  obtain cb where cb: "holds ?b cb ?st h" using h by (auto simp: saved_def)
  have up: "ops_triple (holds ?b cb ?st) ?f (\<lambda>_. upgraded re to ?p target sf) (\<lambda>_ _. True)"
    using nb b(6) apart_ne [OF b(4)] web by (intro replaced_upgraded keep_rules spares_set_mode)
  obtain r h1 where r: "?f h = (r, h1)" by fastforce
  show "case replace_or_recover pl re to now c system_paths new_binary new_web bb wb target was_active h of
      (Inr x, h') \<Rightarrow> upgraded re to ?p target sf h' | (Inl e, h') \<Rightarrow> holds ?p k ?st h' \<or> excused sf e"
  proof (cases r)
    case (Inr u)
    then show ?thesis using ops_triple_results(1) [OF up cb r [unfolded Inr]] by (simp add: replace_or_recover_def r)
  next
    case (Inl e)
    let ?h = "ignore_error (stage pl to now ''rollback'' msg_rollback) h1"
    have "saved ?b k ?st bb h1" using keepsD [OF keep h] by (simp add: r)
    moreover have "keeps (saved ?b k ?st bb) (stage pl to now ''rollback'' msg_rollback)"
      using s(5) by (intro keeps_saved keeps_stage) simp
    ultimately have sv: "saved ?b k ?st bb ?h" using keepsD by (simp add: ignore_error_def)
    obtain es h2 where rc: "recover pl to now c bb wb ?p ?w was_active ?h = (es, h2)" by fastforce
    have "holds ?p k ?st h2" if "es = []"
      using sv rc [unfolded that] b(4) binary_apart(3) [OF s(2)] by (rule recovered)
    then show ?thesis using Inl by (simp add: replace_or_recover_def r fail_and_recover_def rc excused_def)
  qed
qed

text \<open>From the backups to the end.\<close>

lemma keeps_either: "keeps I f \<Longrightarrow> keeps J f \<Longrightarrow> keeps (\<lambda>h. I h \<and> J h) f"
  by (rule ops_conseq [OF ops_conj]) auto

lemma keeps_step: "keeps J f \<Longrightarrow> (\<And>h. J h \<Longrightarrow> I h) \<Longrightarrow> ops_triple J f (\<lambda>_. J) (\<lambda>e h. I h \<or> X e)"
  by (erule ops_conseq) auto

lemma stage_after:
  assumes "keeps J (stage pl to now st msg)" and "\<And>h. J h \<Longrightarrow> us_path (ho_status h) = sf"
  shows "ops_triple J (stage pl to now st msg) (\<lambda>_. J) (\<lambda>e h. I h \<or> excused sf e)"
proof (rule ops_tripleI)
  fix h assume h: "J h"
  obtain r h' where r: "stage pl to now st msg h = (r, h')" by fastforce
  show "case stage pl to now st msg h of (Inr x, h') \<Rightarrow> J h' | (Inl e, h') \<Rightarrow> I h' \<or> excused sf e"
    using keepsD [OF assms(1) h] status_errors(1) [OF assms(2) [OF h]] r by (cases r) auto
qed

lemma swap_spec:
  assumes "upgrade_setting to name c sf" and "starts_with ''/tmp/'' new_binary" and "co_with_web c \<Longrightarrow> starts_with ''/tmp/'' new_web"
    and "\<not> fst k"
  shows "ops_triple (holds (binary_at system_paths c) k (sf, Some target))
    (swap_release pl re to now c system_paths current target new_binary new_web)
    (\<lambda>_. upgraded re to (binary_at system_paths c) target sf)
    (\<lambda>e h. holds (binary_at system_paths c) k (sf, Some target) h \<or> excused sf e)"
proof -
  define label where "label = unwrap_or current (to_stamp to now)"
  let ?p = "binary_at system_paths c" and ?b = "binary_backup c label" and ?st = "(sf, Some target)"
  let ?I = "holds ?p k ?st" and ?U = "upgraded re to ?p target sf" and ?E = "\<lambda>e h. holds ?p k ?st h \<or> excused sf e"
  let ?J = "\<lambda>bb h. ?I h \<and> saved ?b k ?st bb h"
  note s = setting_parts [OF assms(1)]
  note p = binary_apart [OF s(2)] and b = backup_apart [OF s(2), of label]
  have dir: "ops_triple ?I (ensure_dir pl BACKUP_DIR) (\<lambda>_. ?I) ?E"
    using apart_ne [OF p(4)] by (intro keeps_step keeps_ensure_dir) simp_all
  have backup: "ops_triple ?I (backup_existing pl now ?p ?b) ?J ?E"
    using assms(4) p(5) [of label]
    by (intro ops_conseq [OF backup_saves]) (auto simp: apart_def starts_with_iff b(4) apart_ne [OF p(5)])
  have J: "ops_triple (?J bb) f (\<lambda>_. ?J bb) ?E"
    if "\<And>q j. q = ?p \<or> q = ?b \<Longrightarrow> keeps (holds q j ?st) f" for bb and f :: "'x ops"
    using that by (intro keeps_step keeps_either keeps_saved) simp_all
  have web: "ops_triple (?J bb) (if co_with_web c then backup_existing pl now (web_dist system_paths) (backup_path BACKUP_DIR ''web-dist'' label)
      else op_ok None) (\<lambda>_. ?J bb) ?E" for bb
    using b(5) p(6) [of label] by (intro J keep_rules) auto
  have act: "ops_triple (?J bb) (case co_unit c of Some u \<Rightarrow> systemd_is_active u | None \<Rightarrow> op_ok False) (\<lambda>_. ?J bb) ?E" for bb
    by (intro J) (auto split: option.split intro: keep_rules)
  have stop: "ops_triple (?J bb) (when_active c was_active systemd_stop) (\<lambda>_. ?J bb) ?E" for bb was_active
    by (intro J keep_rules)
  have stg: "ops_triple (?J bb) (stage pl to now ''replacing'' msg_replacing) (\<lambda>_. ?J bb) ?E" for bb
    using s(4) s(5) [of label] by (intro J keep_rules) auto
  have replace: "ops_triple (?J bb) (replace_or_recover pl re to now c system_paths new_binary new_web bb wb target was_active) (\<lambda>_. ?U) ?E" for bb wb was_active
    by (rule ops_conseq [OF swap_replaces [OF assms(1-3)]]) (assumption | erule conjunct2)+
  have prune: "ops_triple ?U (op_pure (prune_backups pl BACKUP_DIR n)) (\<lambda>_. ?U) ?E" for n
    using keepsD [OF keeps_upgraded [OF keeps_prune [OF p(4)]]] by (simp add: ops_triple_def op_pure_def)
  have prune_web: "ops_triple ?U (op_pure (if co_with_web c then prune_backups pl BACKUP_DIR ''web-dist'' else (\<lambda>h. h))) (\<lambda>_. ?U) ?E"
    using prune [of "''web-dist''"] by (auto simp: ops_triple_def op_pure_def)
  have U: "keeps ?U (stage pl to now st msg)" for st msg
    using s(4) by (intro keeps_upgraded keeps_stage) simp
  have final: "ops_triple ?U (stage pl to now ''completed'' msg_completed) (\<lambda>_. ?U) ?E"
    by (rule stage_after [OF U]) (auto simp: upgraded_def holds_def)
  have ps: "up_backup_dir system_paths = BACKUP_DIR" by (simp add: system_paths_def)
  show ?thesis
    unfolding swap_release_def label_def [symmetric] Let_def ps binary_backup_def [symmetric]
    by (intro ops_seq_rule [OF dir] ops_bind_rule [OF backup] ops_bind_rule [OF web] ops_bind_rule [OF act]
        ops_seq_rule [OF stop] ops_seq_rule [OF stg] ops_seq_rule [OF replace] ops_seq_rule [OF prune] ops_seq_rule [OF prune_web] final)
qed

section \<open>The whole upgrade\<close>

lemma find_web_found: "find_web_dist d m = Some p \<Longrightarrow> p = join_path d ''web/dist'' \<or> p = join_path d ''dist''"
  by (auto simp: find_web_dist_def split: if_splits)

lemma temp_triple:
  assumes "apart (to_tmp to) p" and "ops_triple (holds p k st) f (\<lambda>_. Q) E"
    and "\<And>h m. content p m = content p (ho_machine h) \<Longrightarrow> Q h \<Longrightarrow> Q (h\<lparr>ho_machine := m\<rparr>)"
    and "\<And>e h m. content p m = content p (ho_machine h) \<Longrightarrow> E e h \<Longrightarrow> E e (h\<lparr>ho_machine := m\<rparr>)"
    and "\<And>e h. holds p k st h \<Longrightarrow> E e h"
  shows "ops_triple (holds p k st) (with_temp pl to f) (\<lambda>_. Q) E"
proof -
  have gone: "content p (drop_tree (to_tmp to) m) = content p m" for m
    using assms(1) by (simp add: content_def apart_below apart_ne)
  have "ops_triple (holds p k st) (op_files (to_tmp to) (run_steps [make_dir pl (to_tmp to)])) (\<lambda>_. holds p k st) E"
    using assms(5) by (intro ops_conseq [OF keeps_file [OF spares_make_dir [OF apart_ne [OF assms(1)]]]])
  moreover have "ops_triple (holds p k st) (\<lambda>h. case f h of (r, h) \<Rightarrow> (r, h\<lparr>ho_machine := drop_tree (to_tmp to) (ho_machine h)\<rparr>)) (\<lambda>_. Q) E"
  proof (rule ops_tripleI)
    fix h assume h: "holds p k st h"
    obtain r h' where r: "f h = (r, h')" by fastforce
    show "case (case f h of (r, h) \<Rightarrow> (r, h\<lparr>ho_machine := drop_tree (to_tmp to) (ho_machine h)\<rparr>)) of
        (Inr x, h') \<Rightarrow> Q h' | (Inl e, h') \<Rightarrow> E e h'"
      using ops_triple_results [OF assms(2) h] assms(3,4) gone r by (cases r) simp_all
  qed
  ultimately show ?thesis unfolding with_temp_def by (rule ops_seq_rule)
qed

lemma upgraded_content:
  "content p m = content p (ho_machine h) \<Longrightarrow> upgraded re to p t sf h \<Longrightarrow> upgraded re to p t sf (h\<lparr>ho_machine := m\<rparr>)"
  using strict_content [of p "h\<lparr>ho_machine := m\<rparr>" h to] by (auto simp: upgraded_def runs_target_def holds_def)

lemma fetch_spec:
  assumes "upgrade_setting to name c sf" and "\<not> fst k"
  shows "ops_triple (holds (binary_at system_paths c) k (sf, Some target))
    (fetch_and_swap pl re to now c system_paths repo current target tag)
    (\<lambda>_. upgraded re to (binary_at system_paths c) target sf)
    (\<lambda>e h. holds (binary_at system_paths c) k (sf, Some target) h \<or> excused sf e)"
proof -
  let ?p = "binary_at system_paths c" and ?st = "(sf, Some target)" and ?d = "join_path (to_tmp to) ''extract''"
  let ?I = "holds ?p k ?st" and ?U = "upgraded re to ?p target sf" and ?E = "\<lambda>e h. holds ?p k ?st h \<or> excused sf e"
  note s = setting_parts [OF assms(1)] and p = binary_apart [OF setting_parts(2) [OF assms(1)]]
  have d: "starts_with ''/tmp/'' ?d" using s(1) by (rule tmp_join) simp
  have I: "ops_triple ?I f (\<lambda>_. ?I) ?E" if "keeps ?I f" for f :: "'x ops"
    using that by (rule keeps_step)
  have dp: "apart ?d ?p" using d p(1) by (rule tmp_apart)
  have asset: "?p \<noteq> join_path (to_tmp to) (''proxy-panel-'' @ n)" for n
    using tmp_join [OF s(1), of "''proxy-panel-'' @ n"] p(1) by auto
  have binary: "starts_with ''/tmp/'' (join_path ?d (co_binary c))"
    using component_cases [OF s(2)] by (intro tmp_join [OF d]) auto
  have found: "ops_triple ?I (find_extracted_binary ?d (co_binary c)) (\<lambda>b h. ?I h \<and> starts_with ''/tmp/'' b) ?E"
    using binary by (auto simp: ops_triple_def find_extracted_binary_def)
  have web: "ops_triple ?I (if co_with_web c then op_bind (op_get (\<lambda>h. find_web_dist ?d (ho_machine h))) (op_some NoWebDist) else op_ok [])
      (\<lambda>w h. ?I h \<and> (co_with_web c \<longrightarrow> starts_with ''/tmp/'' w)) ?E"
    using tmp_join [OF d, of "''web/dist''"] tmp_join [OF d, of "''dist''"]
    by (auto simp: ops_triple_def op_bind_def op_get_def op_some_def op_lift_def op_ok_def ok_or_def dest: find_web_found split: option.split)
  have swap: "ops_triple (\<lambda>h. ?I h \<and> (co_with_web c \<longrightarrow> starts_with ''/tmp/'' w)) (swap_release pl re to now c system_paths current target b w) (\<lambda>_. ?U) ?E"
    if "starts_with ''/tmp/'' b" for b w
    using swap_spec [OF assms(1) that _ assms(2), of w target pl re now current] by (auto simp: ops_triple_def)
  have rest: "ops_triple (\<lambda>h. ?I h \<and> starts_with ''/tmp/'' b)
     (op_bind (if co_with_web c then op_bind (op_get (\<lambda>h. find_web_dist ?d (ho_machine h))) (op_some NoWebDist) else op_ok [])
       (\<lambda>w. swap_release pl re to now c system_paths current target b w)) (\<lambda>_. ?U) ?E" for b
    using ops_bind_rule [OF web swap] by (fastforce simp: ops_triple_def)
  have arch: "ops_triple ?I (op_lift (release_arch pl)) (\<lambda>_. ?I) ?E" by (intro I keep_rules)
  have prep: "ops_triple ?I (stage pl to now ''preparing'' msg_preparing) (\<lambda>_. ?I) ?E" using s(4) by (intro I keep_rules) simp
  have load: "ops_triple ?I (download_and_verify pl to now repo tag (''proxy-panel-'' @ n)) (\<lambda>_. ?I) ?E" for n
    using asset [of n] by (intro I keep_rules)
  have dir: "ops_triple ?I (ensure_dir pl ?d) (\<lambda>_. ?I) ?E" using apart_ne [OF dp] by (intro I keep_rules)
  have tar: "ops_triple ?I (extract_tar_gz pl to now archive ?d) (\<lambda>_. ?I) ?E" for archive using dp by (intro I keep_rules)
  show ?thesis
    unfolding fetch_and_swap_def Let_def
    by (intro ops_seq_rule [OF prep] ops_bind_rule [OF arch] temp_triple ops_bind_rule [OF load] ops_seq_rule [OF dir]
        ops_seq_rule [OF tar] ops_bind_rule [OF found] rest tmp_apart [OF s(1) p(1)])
      (auto simp: upgraded_content holds_def)
qed

lemma plan_skips: "plan_upgrade re current target = Inr True \<Longrightarrow> \<exists>v. current = Some v \<and> compare_releases re v target = Inr Same"
  by (auto simp: plan_upgrade_def map_err_def rbind_def split: option.splits sum.splits ordering.splits)

text \<open>The binary's version is known, and the binary is as it was.\<close>

definition versioned :: "host_tools \<Rightarrow> path \<Rightarrow> contents \<Rightarrow> path option \<Rightarrow> string \<Rightarrow> string option \<Rightarrow> host \<Rightarrow> bool" where
  "versioned to p k sf target current h \<longleftrightarrow>
     holds p k (sf, Some target) h \<and> fst (installed_version_strict to p h) = Inr current"

lemma versioned_target:
  "versioned to p k sf target (Some v) h \<Longrightarrow> compare_releases re v target = Inr Same \<Longrightarrow> upgraded re to p target sf h"
  unfolding versioned_def upgraded_def runs_target_def by blast

lemma perform_spec:
  assumes "upgrade_setting to name c sf" and "\<not> fst k"
  shows "ops_triple (holds (binary_at system_paths c) k (sf, t0))
    (perform_upgrade pl re to now c version repo system_paths)
    (\<lambda>_ h. \<exists>t. upgraded re to (binary_at system_paths c) t sf h)
    (\<lambda>e h. (\<exists>t. holds (binary_at system_paths c) k (sf, t) h) \<or> excused sf e)"
proof -
  let ?p = "binary_at system_paths c"
  let ?I = "\<lambda>t. holds ?p k (sf, t)" and ?U = "\<lambda>h. \<exists>t. upgraded re to ?p t sf h"
  let ?E = "\<lambda>e h. (\<exists>t. holds ?p k (sf, t) h) \<or> excused sf e"
  note s = setting_parts [OF assms(1)]
  have I: "ops_triple (?I t) f (\<lambda>_. ?I t) ?E" if "keeps (?I t) f" for t and f :: "'x ops"
    using that by (rule ops_conseq) blast+
  have resolve: "ops_triple (?I t0) (stage pl to now ''resolving'' msg_resolving) (\<lambda>_. ?I t0) ?E"
    using s(4) by (intro I keep_rules) simp
  have client: "ops_triple (?I t0) (op_lift r) (\<lambda>_. ?I t0) ?E" for r :: "ops_error + 'x" by (intro I keep_rules)
  have find: "ops_triple (?I t0) (op_machine (if version = ''latest'' then latest_stable pl re client else release_by_tag pl re client version))
      (\<lambda>_. ?I t0) ?E" for client
    by (intro I op_machine_keeps) (simp add: latest_stable_content release_by_tag_content)
  have target: "ops_triple (?I t0) (op_pure (\<lambda>h. h\<lparr>ho_status := (ho_status h)\<lparr>us_target_version := Some target\<rparr>\<rparr>)) (\<lambda>_. ?I (Some target)) ?E" for target
    by (simp add: ops_triple_def op_pure_def holds_def)
  have seen: "ops_triple (?I (Some target)) (installed_version_strict to ?p) (versioned to ?p k sf target) ?E" for target
  proof (rule ops_tripleI)
    fix h assume h: "?I (Some target) h"
    obtain r where r: "installed_version_strict to ?p h = (r, h)" using only_looks(2) [of to ?p h] by (metis prod.collapse)
    show "case installed_version_strict to ?p h of (Inr x, h') \<Rightarrow> versioned to ?p k sf target x h' | (Inl e, h') \<Rightarrow> ?E e h'"
      using h r by (cases r) (auto simp: versioned_def)
  qed
  have current: "ops_triple (versioned to ?p k sf target cur) (op_pure (\<lambda>h. h\<lparr>ho_status := (ho_status h)\<lparr>us_current_version := cur\<rparr>\<rparr>))
      (\<lambda>_. versioned to ?p k sf target cur) ?E" for target cur
  proof -
    have "fst (installed_version_strict to ?p (h\<lparr>ho_status := st\<rparr>)) = fst (installed_version_strict to ?p h)" for h st
      by (rule strict_content) simp
    then show ?thesis by (simp add: ops_triple_def op_pure_def versioned_def holds_def)
  qed
  have plan: "ops_triple (versioned to ?p k sf target cur) (op_lift (plan_upgrade re cur target))
      (\<lambda>skip h. if skip then upgraded re to ?p target sf h else ?I (Some target) h) ?E" for target cur
  proof (rule ops_tripleI)
    fix h assume h: "versioned to ?p k sf target cur h"
    then have i: "?I (Some target) h" by (simp add: versioned_def)
    have "upgraded re to ?p target sf h" if "plan_upgrade re cur target = Inr True"
      using versioned_target plan_skips [OF that] h by blast
    with i show "case op_lift (plan_upgrade re cur target) h of
        (Inr skip, h') \<Rightarrow> if skip then upgraded re to ?p target sf h' else ?I (Some target) h' | (Inl e, h') \<Rightarrow> ?E e h'"
      unfolding op_lift_def by (cases "plan_upgrade re cur target") auto
  qed
  have skip: "ops_triple (upgraded re to ?p target sf) (stage pl to now ''skipped'' msg_skipped) (\<lambda>_. ?U) ?E" for target
  proof (rule ops_conseq [OF stage_after [where I = "\<lambda>_. False"]])
    show "keeps (upgraded re to ?p target sf) (stage pl to now ''skipped'' msg_skipped)"
      using s(4) by (intro keeps_upgraded keeps_stage) simp
  qed (auto simp: upgraded_def holds_def)
  have fetch: "ops_triple (?I (Some target)) (fetch_and_swap pl re to now c system_paths repo cur target tag) (\<lambda>_. ?U) ?E" for target cur tag
    by (rule ops_conseq [OF fetch_spec [OF assms]]) blast+
  have last: "ops_triple (\<lambda>h. if skip then upgraded re to ?p target sf h else ?I (Some target) h)
      (if skip then stage pl to now ''skipped'' msg_skipped else fetch_and_swap pl re to now c system_paths repo cur target tag) (\<lambda>_. ?U) ?E"
    for skip target cur tag
    using skip fetch by simp
  show ?thesis
    unfolding perform_upgrade_def Let_def
    by (intro ops_seq_rule [OF resolve] ops_bind_rule [OF client] ops_bind_rule [OF find] ops_seq_rule [OF target]
        ops_bind_rule [OF seen] ops_seq_rule [OF current] ops_bind_rule [OF plan] last)
qed

lemma upgrade_starts:
  assumes "parse_component name = Inr c" and "upgrade pl re to now name version repo sf h = (r, h')"
    and "q \<noteq> ''/opt/proxy-panel/maintenance.lock''" and "q \<noteq> ''/opt/proxy-panel''" and "content q (ho_machine h) = k"
  shows "(\<exists>e. r = Inl e \<and> content q (ho_machine h') = k)
    \<or> (\<exists>h1 r2 h2 h3. holds q k (sf, Some version) h1
         \<and> perform_upgrade pl re to now c version repo system_paths h1 = (r2, h2)
         \<and> finish_upgrade pl to now r2 h2 = (r, h3) \<and> h' = release_lock h3)"
proof (cases "to_root to")
  case False
  then show ?thesis using assms by (auto simp: upgrade_def require_root_def op_seq_def op_bind_def op_fail_def)
next
  case True
  obtain r0 h0 where l: "acquire_lock pl now h = (r0, h0)" by fastforce
  let ?st = "(us_path (ho_status h), us_target_version (ho_status h))"
  have "keeps (holds q k ?st) (acquire_lock pl now)" using assms(3,4) by (rule keeps_acquire_lock)
  moreover have "holds q k ?st h" using assms(5) by (simp add: holds_def)
  ultimately have "holds q k ?st (snd (acquire_lock pl now h))" by (rule keepsD)
  then have k: "content q (ho_machine h0) = k" by (simp add: holds_def l)
  show ?thesis
  proof (cases r0)
    case (Inl e)
    then show ?thesis using assms(1,2) True l k
      by (auto simp: upgrade_def require_root_def op_seq_def op_bind_def op_ok_def op_lift_def)
  next
    case (Inr u)
    let ?h = "h0\<lparr>ho_status := new_status now sf (co_name c) (Some version), ho_rolled_back := False\<rparr>"
    obtain r2 h2 where p: "perform_upgrade pl re to now c version repo system_paths ?h = (r2, h2)" by fastforce
    obtain r3 h3 where f: "finish_upgrade pl to now r2 h2 = (r3, h3)" by fastforce
    have "r = r3" "h' = release_lock h3"
      using assms(1,2) True l Inr p f by (simp_all add: upgrade_def require_root_def op_seq_def op_bind_def op_ok_def op_lift_def)
    moreover have "holds q k (sf, Some version) ?h" using k by (simp add: holds_def new_status_def)
    ultimately show ?thesis using p f by blast
  qed
qed

lemma upgrade_binary_starts:
  assumes "parse_component name = Inr c" and "upgrade pl re to now name version repo sf h = (r, h')"
    and "content (binary_at system_paths c) (ho_machine h) = k"
  shows "(\<exists>e. r = Inl e \<and> content (binary_at system_paths c) (ho_machine h') = k)
    \<or> (\<exists>h1 r2 h2 h3. holds (binary_at system_paths c) k (sf, Some version) h1
         \<and> perform_upgrade pl re to now c version repo system_paths h1 = (r2, h2)
         \<and> finish_upgrade pl to now r2 h2 = (r, h3) \<and> h' = release_lock h3)"
proof -
  have "binary_at system_paths c \<noteq> ''/opt/proxy-panel/maintenance.lock''" and "binary_at system_paths c \<noteq> ''/opt/proxy-panel''"
    using binary_apart(2) [OF assms(1)] by auto
  then show ?thesis using assms(3) by (rule upgrade_starts [OF assms(1,2)])
qed

lemma content_of_holds: "holds p k st h \<Longrightarrow> content p (ho_machine (release_lock h)) = k"
  by (simp add: holds_def release_lock_def)

text \<open>
  C29: An upgrade that fails leaves the binary as it was, text and mode, wherever it failed: before the
  files were touched, or after, when what was set aside is put back. The exceptions report themselves: a
  recovery that failed too, and a status file that cannot be written.
\<close>

theorem failed_upgrade_restores_binary:
  assumes "upgrade pl re to now name version repo sf h = (Inl e, h')"
    and "parse_component name = Inr c" and "starts_with ''/tmp/'' (to_tmp to)" and "status_file_ok sf"
    and "\<not> is_dir (binary_at system_paths c) (ho_machine h)" and "\<not> excused sf e"
  shows "content (binary_at system_paths c) (ho_machine h') = content (binary_at system_paths c) (ho_machine h)"
proof -
  let ?p = "binary_at system_paths c" and ?k = "content (binary_at system_paths c) (ho_machine h)"
  have set: "upgrade_setting to name c sf" using assms(2-4) by (simp add: upgrade_setting_def)
  have dir: "\<not> fst ?k" using assms(5) by (simp add: content_def)
  consider "content ?p (ho_machine h') = ?k"
    | h1 r2 h2 h3 where "holds ?p ?k (sf, Some version) h1" "perform_upgrade pl re to now c version repo system_paths h1 = (r2, h2)"
        "finish_upgrade pl to now r2 h2 = (Inl e, h3)" "h' = release_lock h3"
    using upgrade_binary_starts [OF assms(2,1) refl] by blast
  then show ?thesis
  proof cases
    case 2
    note spec = ops_triple_results [OF perform_spec [OF set dir] 2(1)]
    show ?thesis
    proof (cases r2)
      case (Inl e2)
      have e: "e2 = e" and h3: "h3 = ignore_error (finish_status pl to now (if ho_rolled_back h2 then RolledBack else Failed) (to_error_text to e)) h2"
        using 2(3) Inl by (auto simp: finish_upgrade_def)
      obtain t where t: "holds ?p ?k (sf, t) h2" using spec(2) 2(2) Inl e assms(6) by blast
      have "keeps (holds ?p ?k (sf, t)) (finish_status pl to now out msg)" for out msg
        using setting_parts(4) [OF set] by (intro keeps_finish_status) simp
      from keepsD [OF this t] show ?thesis unfolding 2(4) h3 ignore_error_def by (rule content_of_holds)
    next
      case (Inr u)
      obtain t where "upgraded re to ?p t sf h2" using spec(1) 2(2) Inr by blast
      then have "us_path (ho_status h2) = sf" by (auto simp: upgraded_def holds_def)
      then have "excused sf e" using 2(3) Inr status_errors(2) by (simp add: finish_upgrade_def)
      with assms(6) show ?thesis by blast
    qed
  qed
qed

text \<open>An agent of version 1 and a release of version 2, whose program reports what \<open>banner\<close> says.\<close>

definition demo_time_text :: "tstamp \<Rightarrow> string" where
  "demo_time_text t = (if t < 0 then CHR ''-'' # replicate (nat (- t)) CHR ''1'' else replicate (nat t) CHR ''1'')"

definition demo_time :: "string \<Rightarrow> tstamp" where
  "demo_time s = (if starts_with ''-'' s then - int (length (tl s)) else int (length s))"

definition demo_release_env :: release_env where
  "demo_release_env = \<lparr>re_parse = (\<lambda>s. Inr \<lparr>ver_major = of_char (hd s) - 48, ver_minor = 0, ver_patch = 0, ver_pre = [], ver_build = []\<rparr>),
     re_cmp = (\<lambda>a b. if ver_major a < ver_major b then Lesser else if ver_major a = ver_major b then Same else Greater),
     re_text = (\<lambda>v. nat_str (ver_major v) @ ''.0.0''), re_time = (\<lambda>s. Some (demo_time s)), re_shape_error = []\<rparr>"

definition demo_reply :: "nat \<Rightarrow> string \<Rightarrow> http_answer" where
  "demo_reply k url =
     (if k = 0 then Answer 200 ''release''
      else if k = 1 then Answer 200 (''abc  proxy-panel-agent-linux-x86_64.tar.gz'')
      else Answer 200 ''archive'')"

definition upkeep_platform :: platform where
  "upkeep_platform = demo_platform\<lparr>pf_http := demo_reply, pf_parse := (\<lambda>s. Inr (jobj
     [(''tag_name'', JStr ''v2.0.0''), (''html_url'', JStr ''u''), (''draft'', JBool False), (''prerelease'', JBool False)]))\<rparr>"

definition upkeep_tools :: "string \<Rightarrow> host_tools" where
  "upkeep_tools banner = \<lparr>to_root = True, to_tmp = ''/tmp/t'', to_sha256 = (\<lambda>_. ''abc''),
     to_untar = (\<lambda>_. Some ([], [(''proxy-panel-agent'', ''new'', 420)])),
     to_version = (\<lambda>s. Some (True, if s = ''new'' then banner else ''agent 1.0.0'', [])),
     to_restart = (\<lambda>_ _. True), to_checks = (\<lambda>_ _ _. True), to_same_fs = (\<lambda>_ _. False), to_stamp = (\<lambda>_. ''now''),
     to_error_text = (\<lambda>_. ''failed''), to_time_text = demo_time_text\<rparr>"

definition upkeep_host :: host where
  "upkeep_host = \<lparr>ho_machine = \<lparr>m_files = [(''/usr/local/bin/proxy-panel-agent'', \<lparr>f_data = ''old'', f_mode = 448, f_modified = 0\<rparr>)],
       m_dirs = [''/usr/local/bin''], m_procs = [], m_next_pid = 1, m_requests = 0\<rparr>,
     ho_dir_times = [], ho_active = [''proxy-panel-agent.service''], ho_enabled = [], ho_lock = False,
     ho_status = new_status 0 None [] None, ho_rolled_back = False\<rparr>"

definition agent_component :: component where
  "agent_component = \<lparr>co_name = ''agent'', co_binary = ''proxy-panel-agent'', co_unit = Some ''proxy-panel-agent.service'', co_with_web = False\<rparr>"

theorem failed_upgrade_restores_binary_witness:
  "fst (upgrade upkeep_platform demo_release_env (upkeep_tools ''agent 3.0.0'') 7 ''agent'' ''2.0.0'' ''owner/name'' None upkeep_host)
     = Inl (Restored (WrongVersion ''2.0.0'' ''3.0.0''))
   \<and> content ''/usr/local/bin/proxy-panel-agent''
        (ho_machine (snd (upgrade upkeep_platform demo_release_env (upkeep_tools ''agent 3.0.0'') 7 ''agent'' ''2.0.0'' ''owner/name'' None upkeep_host)))
      = (False, Some (''old'', 448))"
proof -
  let ?r = "upgrade upkeep_platform demo_release_env (upkeep_tools ''agent 3.0.0'') 7 ''agent'' ''2.0.0'' ''owner/name'' None upkeep_host"
  have p: "binary_at system_paths agent_component = ''/usr/local/bin/proxy-panel-agent''" by code_simp
  have c: "content ''/usr/local/bin/proxy-panel-agent'' (ho_machine upkeep_host) = (False, Some (''old'', 448))" by code_simp
  have f: "fst ?r = Inl (Restored (WrongVersion ''2.0.0'' ''3.0.0''))" by code_simp
  then have "?r = (Inl (Restored (WrongVersion ''2.0.0'' ''3.0.0'')), snd ?r)" by (metis prod.collapse)
  moreover have "parse_component ''agent'' = Inr agent_component" by code_simp
  moreover have "starts_with ''/tmp/'' (to_tmp (upkeep_tools ''agent 3.0.0''))" by code_simp
  moreover have "status_file_ok None" by (simp add: status_file_ok_def)
  moreover have "\<not> is_dir (binary_at system_paths agent_component) (ho_machine upkeep_host)" by code_simp
  moreover have "\<not> excused None (Restored (WrongVersion ''2.0.0'' ''3.0.0''))" by (simp add: excused_def)
  ultimately have "content (binary_at system_paths agent_component) (ho_machine (snd ?r))
      = content (binary_at system_paths agent_component) (ho_machine upkeep_host)"
    by (rule failed_upgrade_restores_binary)
  then show ?thesis using f c by (simp add: p)
qed

text \<open>
  C30: An upgrade that succeeds ends with the binary reporting the version that the status names as the
  target, or an equal one, whether the binary was replaced or found to be up to date.
\<close>

theorem successful_upgrade_runs_target:
  assumes "upgrade pl re to now name version repo sf h = (Inr (), h')"
    and "parse_component name = Inr c" and "starts_with ''/tmp/'' (to_tmp to)" and "status_file_ok sf"
    and "\<not> is_dir (binary_at system_paths c) (ho_machine h)"
  shows "\<exists>t. us_target_version (ho_status h') = Some t \<and> runs_target re to (binary_at system_paths c) t h'"
proof -
  let ?p = "binary_at system_paths c" and ?k = "content (binary_at system_paths c) (ho_machine h)"
  have set: "upgrade_setting to name c sf" using assms(2-4) by (simp add: upgrade_setting_def)
  have dir: "\<not> fst ?k" using assms(5) by (simp add: content_def)
  obtain h1 r2 h2 h3 where f: "holds ?p ?k (sf, Some version) h1" "perform_upgrade pl re to now c version repo system_paths h1 = (r2, h2)"
      "finish_upgrade pl to now r2 h2 = (Inr (), h3)" "h' = release_lock h3"
    using upgrade_binary_starts [OF assms(2,1) refl] by blast
  have r2: "r2 = Inr ()" "finish_status pl to now Succeeded msg_done h2 = (Inr (), h3)"
    using f(3) by (auto simp: finish_upgrade_def split: sum.splits)
  obtain t where t: "upgraded re to ?p t sf h2"
    using ops_triple_results(1) [OF perform_spec [OF set dir] f(1)] f(2) r2(1) by blast
  have "keeps (upgraded re to ?p t sf) (finish_status pl to now Succeeded msg_done)"
    using setting_parts(4) [OF set] by (intro keeps_upgraded keeps_finish_status) simp
  from keepsD [OF this t] have up: "upgraded re to ?p t sf h3" by (simp add: r2(2))
  then have "fst (installed_version_strict to ?p h') = fst (installed_version_strict to ?p h3)"
    unfolding f(4) by (intro strict_content) (simp add: release_lock_def)
  then show ?thesis using up unfolding f(4) upgraded_def runs_target_def holds_def by (auto simp: release_lock_def)
qed

theorem successful_upgrade_runs_target_witness:
  "\<exists>t. us_target_version (ho_status (snd (upgrade upkeep_platform demo_release_env (upkeep_tools ''agent 2.0.0'') 7 ''agent'' ''2.0.0''
        ''owner/name'' None upkeep_host))) = Some t
     \<and> runs_target demo_release_env (upkeep_tools ''agent 2.0.0'') ''/usr/local/bin/proxy-panel-agent'' t
        (snd (upgrade upkeep_platform demo_release_env (upkeep_tools ''agent 2.0.0'') 7 ''agent'' ''2.0.0'' ''owner/name'' None upkeep_host))"
proof -
  let ?r = "upgrade upkeep_platform demo_release_env (upkeep_tools ''agent 2.0.0'') 7 ''agent'' ''2.0.0'' ''owner/name'' None upkeep_host"
  have p: "binary_at system_paths agent_component = ''/usr/local/bin/proxy-panel-agent''" by code_simp
  have "fst ?r = Inr ()" by code_simp
  then have "?r = (Inr (), snd ?r)" by (metis prod.collapse)
  moreover have "parse_component ''agent'' = Inr agent_component" by code_simp
  moreover have "starts_with ''/tmp/'' (to_tmp (upkeep_tools ''agent 2.0.0''))" by code_simp
  moreover have "status_file_ok None" by (simp add: status_file_ok_def)
  moreover have "\<not> is_dir (binary_at system_paths agent_component) (ho_machine upkeep_host)" by code_simp
  ultimately have "\<exists>t. us_target_version (ho_status (snd ?r)) = Some t
      \<and> runs_target demo_release_env (upkeep_tools ''agent 2.0.0'') (binary_at system_paths agent_component) t (snd ?r)"
    by (rule successful_upgrade_runs_target)
  then show ?thesis by (simp add: p)
qed

end
