(* ===== verification/UpdateCheck.thy ===== *)
theory UpdateCheck
  imports UpkeepCheck
begin

text \<open>
  Properties of the hub's update (pp-hub, routes/system\_update) together with the program that carries it
  out (pp-cli, ops), and of the installations.
\<close>

section \<open>What an upgrade touches\<close>

text \<open>A path that no part of an upgrade writes to.\<close>

definition untouched :: "host_tools \<Rightarrow> path \<Rightarrow> bool" where
  "untouched to q \<longleftrightarrow>
     apart (to_tmp to) q \<and> q \<noteq> ''/opt/proxy-panel'' \<and> q \<noteq> ''/opt/proxy-panel/maintenance.lock''
     \<and> \<not> starts_with ''/usr/local/bin'' q \<and> \<not> starts_with ''/opt/proxy-panel/web'' q
     \<and> \<not> starts_with ''/opt/proxy-panel/backup'' q \<and> \<not> starts_with ''/opt/proxy-panel/data'' q"

definition same_file :: "path \<Rightarrow> contents \<Rightarrow> path option \<Rightarrow> host \<Rightarrow> bool" where
  "same_file q k sf h \<longleftrightarrow> (\<exists>t. holds q k (sf, t) h)"

lemma keeps_same:
  assumes "\<And>t. keeps (holds q k (sf, t)) f"
  shows "keeps (same_file q k sf) f"
proof (rule keepsI)
  fix h assume "same_file q k sf h"
  then obtain t where "holds q k (sf, t) h" by (auto simp: same_file_def)
  from keepsD [OF assms this] show "same_file q k sf (snd (f h))" by (auto simp: same_file_def)
qed

lemma untouched_parts:
  assumes "untouched to q"
  shows "apart (to_tmp to) q" "q \<noteq> ''/opt/proxy-panel''" "q \<noteq> ''/opt/proxy-panel/maintenance.lock''"
    "\<not> starts_with ''/usr/local/bin'' q" "\<not> starts_with ''/opt/proxy-panel/web'' q"
    "\<not> starts_with ''/opt/proxy-panel/backup'' q" "\<not> starts_with ''/opt/proxy-panel/data'' q"
  using assms unfolding untouched_def by blast+

lemma untouched_apart:
  assumes "untouched to q"
  shows "starts_with ''/opt/proxy-panel/web'' d \<Longrightarrow> apart d q" "starts_with ''/opt/proxy-panel/backup'' d \<Longrightarrow> apart d q"
    "starts_with ''/usr/local/bin'' d \<Longrightarrow> apart d q"
  using apart_prefix untouched_parts [OF assms] by blast+

lemma keeps_replace_or_recover:
  assumes "keeps (holds q k st) (replace_and_verify pl re to now c nb nw (binary_at ps c) (web_dist ps) target was_active)"
    and "keeps (holds q k st) (stage pl to now ''rollback'' msg_rollback)"
    and "apart (binary_at ps c) q" and "apart (web_dist ps) q"
  shows "keeps (holds q k st) (replace_or_recover pl re to now c ps nb nw bb wb target was_active)"
proof (rule keepsI)
  fix h assume h: "holds q k st h"
  let ?f = "replace_and_verify pl re to now c nb nw (binary_at ps c) (web_dist ps) target was_active"
  obtain r h1 where r: "?f h = (r, h1)" by fastforce
  have 1: "holds q k st h1" using keepsD [OF assms(1) h] by (simp add: r)
  have collect: "holds q k st (snd (collect_error f es h))" if "keeps (holds q k st) f" and "holds q k st h" for f es h
    using keepsD [OF that] by (cases "f h"; cases "fst (f h)") (simp_all add: collect_error_def)
  have rec: "holds q k st (snd (recover pl to now c bb wb (binary_at ps c) (web_dist ps) was_active h))" if h: "holds q k st h" for h
  proof -
    obtain es1 h1 where 1: "collect_error (restore_path pl now bb (binary_at ps c)) [] h = (es1, h1)" by fastforce
    have i1: "holds q k st h1" using collect [OF keeps_restore_path [OF assms(3)] h, of pl now bb "[]"] by (simp add: 1)
    obtain es2 h2 where 2: "(if co_with_web c then collect_error (restore_path pl now wb (web_dist ps)) es1 h1 else (es1, h1)) = (es2, h2)"
      by fastforce
    have i2: "holds q k st h2" using collect [OF keeps_restore_path [OF assms(4)] i1, of pl now wb es1] 2 i1 by (auto split: if_splits)
    have "keeps (holds q k st) (when_active c was_active (restart_stable to))" by (intro keep_rules)
    from collect [OF this i2] show ?thesis by (simp add: recover_def 1 2)
  qed
  show "holds q k st (snd (replace_or_recover pl re to now c ps nb nw bb wb target was_active h))"
  proof (cases r)
    case (Inr u)
    then show ?thesis using 1 by (simp add: replace_or_recover_def r)
  next
    case (Inl e)
    have "holds q k st (ignore_error (stage pl to now ''rollback'' msg_rollback) h1)"
      using keepsD [OF assms(2) 1] by (simp add: ignore_error_def)
    note i = rec [OF this]
    then show ?thesis using Inl
      by (cases "recover pl to now c bb wb (binary_at ps c) (web_dist ps) was_active (ignore_error (stage pl to now ''rollback'' msg_rollback) h1)")
        (simp add: replace_or_recover_def r fail_and_recover_def)
  qed
qed

lemma prune_holds: "apart d q \<Longrightarrow> holds q k st h \<Longrightarrow> holds q k st (prune_backups pl d n h)"
  using keepsD [OF keeps_prune] by (simp add: op_pure_def)

lemma untouched_status: "untouched to q \<Longrightarrow> status_file_ok sf \<Longrightarrow> status_apart sf q"
  by (intro status_apart_ok untouched_parts(7))

lemma keeps_untouched_swap:
  assumes "untouched to q" and "upgrade_setting to name c sf" and "q \<noteq> nb" and "co_with_web c \<Longrightarrow> apart nw q"
  shows "keeps (holds q k (sf, t)) (swap_release pl re to now c system_paths current target nb nw)"
proof -
  note s = setting_parts [OF assms(2)] and far = untouched_apart [OF assms(1)]
  obtain n where b: "binary_at system_paths c = ''/usr/local/bin/'' @ n" using binary_path(1) [OF s(2)] by blast
  have binary: "apart (binary_at system_paths c) q" by (rule far(3)) (simp add: b)
  have "apart (staging_path (binary_at system_paths c)) q" by (rule far(3)) (simp add: binary_path(2) [OF s(2)])
  then have staging: "q \<noteq> staging_path (binary_at system_paths c)" by (rule apart_ne)
  have web: "apart (web_dist system_paths) q" "q \<noteq> parent_dir (web_dist system_paths)" "q \<noteq> staging_path (web_dist system_paths)"
    by (rule far(1) apart_ne [OF far(1)], simp add: web_paths; fail)+
  have backups: "apart BACKUP_DIR q" "apart (binary_backup c l) q" "apart (backup_path BACKUP_DIR ''web-dist'' l) q" for l
    by (rule far(2), simp add: BACKUP_DIR_def backup_path_eq [OF s(2), unfolded BACKUP_DIR_def]; fail)+
  have status: "status_apart (fst (sf, t)) q" using untouched_status [OF assms(1) s(3)] by simp
  have rep: "keeps (holds q k (sf, t)) (replace_or_recover pl re to now c system_paths nb nw bb wb target was_active)" for bb wb was_active
    using assms(3,4) binary staging web status by (intro keeps_replace_or_recover keeps_replace keeps_stage) (auto dest: apart_ne)
  have ps: "up_backup_dir system_paths = BACKUP_DIR" by (simp add: system_paths_def)
  show ?thesis
    unfolding swap_release_def Let_def ps binary_backup_def [symmetric]
    using backups web status
    by (intro keep_rules rep apart_ne [OF backups(1)]) (auto split: option.split intro: keep_rules prune_holds)
qed

lemma keeps_untouched_fetch:
  assumes "untouched to q" and "upgrade_setting to name c sf"
  shows "keeps (holds q k (sf, t)) (fetch_and_swap pl re to now c system_paths repo current target tag)"
proof -
  let ?d = "join_path (to_tmp to) ''extract''" and ?I = "holds q k (sf, t)"
  have tmp: "apart (to_tmp to) q" using assms(1) by (rule untouched_parts)
  have d: "apart ?d q" using tmp by (rule apart_join) simp
  have status: "status_apart (fst (sf, t)) q" using untouched_status [OF assms(1) setting_parts(3) [OF assms(2)]] by simp
  have asset: "q \<noteq> join_path (to_tmp to) (''proxy-panel-'' @ n)" for n
    using apart_join [OF tmp, of "''proxy-panel-'' @ n"] by (auto dest: apart_ne)
  have name: "\<not> starts_with ''/'' (co_binary c)" using component_cases [OF setting_parts(2) [OF assms(2)]] by auto
  let ?find = "op_bind (op_get (\<lambda>h. find_web_dist ?d (ho_machine h))) (op_some NoWebDist)"
  have web: "ops_triple ?I (if co_with_web c then ?find else op_ok []) (\<lambda>w h. ?I h \<and> (co_with_web c \<longrightarrow> apart w q)) (\<lambda>_. ?I)"
    using apart_join [OF d, of "''web/dist''"] apart_join [OF d, of "''dist''"]
    by (auto simp: ops_triple_def op_bind_def op_get_def op_some_def op_lift_def op_ok_def ok_or_def dest: find_web_found split: option.split)
  have found: "ops_triple ?I (find_extracted_binary ?d (co_binary c)) (\<lambda>b h. ?I h \<and> q \<noteq> b) (\<lambda>_. ?I)"
    using apart_ne [OF apart_join [OF d name]] by (auto simp: ops_triple_def find_extracted_binary_def)
  have swap: "ops_triple (\<lambda>h. ?I h \<and> (co_with_web c \<longrightarrow> apart w q)) (swap_release pl re to now c system_paths current target b w) (\<lambda>_. ?I) (\<lambda>_. ?I)"
    if "q \<noteq> b" for b w
    using keeps_untouched_swap [OF assms that, of w k t pl re now current target] by (auto simp: ops_triple_def)
  have rest: "ops_triple (\<lambda>h. ?I h \<and> q \<noteq> b) (op_bind (if co_with_web c then ?find else op_ok [])
      (\<lambda>w. swap_release pl re to now c system_paths current target b w)) (\<lambda>_. ?I) (\<lambda>_. ?I)" for b
    using ops_bind_rule [OF web swap] by (fastforce simp: ops_triple_def)
  have prep: "keeps ?I (stage pl to now ''preparing'' msg_preparing)" using status by (rule keeps_stage)
  have load: "keeps ?I (download_and_verify pl to now repo tag (''proxy-panel-'' @ n))" for n
    using asset by (rule keeps_download_and_verify)
  have dir: "keeps ?I (ensure_dir pl ?d)" using apart_ne [OF d] by (rule keeps_ensure_dir)
  have tar: "keeps ?I (extract_tar_gz pl to now archive ?d)" for archive using d by (rule keeps_extract)
  show ?thesis
    unfolding fetch_and_swap_def Let_def
    by (rule keeps_seq [OF prep], rule keeps_bind [OF keeps_lift], rule keeps_with_temp [OF tmp], rule keeps_bind [OF load],
        rule keeps_seq [OF dir], rule keeps_seq [OF tar], rule ops_bind_rule [OF found rest])
qed

lemma perform_untouched:
  assumes "untouched to q" and "upgrade_setting to name c sf"
  shows "keeps (same_file q k sf) (perform_upgrade pl re to now c version repo system_paths)"
proof -
  let ?J = "same_file q k sf"
  have status: "status_apart sf q" using untouched_status [OF assms(1) setting_parts(3) [OF assms(2)]] .
  have stage: "keeps ?J (stage pl to now st msg)" for st msg using status by (intro keeps_same keeps_stage) simp
  have find: "keeps ?J (op_machine (if version = ''latest'' then latest_stable pl re client else release_by_tag pl re client version))" for client
    by (intro keeps_same op_machine_keeps) (simp add: latest_stable_content release_by_tag_content)
  have fetch: "keeps ?J (fetch_and_swap pl re to now c system_paths repo cur target tag)" for cur target tag
    using keeps_untouched_fetch [OF assms] by (rule keeps_same)
  have set: "keeps ?J (op_pure (\<lambda>h. h\<lparr>ho_status := f (ho_status h)\<rparr>))" if "\<And>s. us_path (f s) = us_path s" for f
    using that by (intro keeps_pure) (auto simp: same_file_def holds_def)
  show ?thesis unfolding perform_upgrade_def Let_def
    by (intro keeps_seq keeps_bind stage keeps_lift find set keeps_looks keeps_if fetch) simp_all
qed

text \<open>
  C31: Whatever becomes of it, an upgrade changes no file outside its own: the temporary directory, the
  directory of the binaries, the web console, the backups, the lock and the data directory of the
  status. In particular no settings and no unit.
\<close>

theorem upgrade_touches_only_its_files:
  assumes "upgrade pl re to now name version repo sf h = (r, h')"
    and "parse_component name = Inr c" and "starts_with ''/tmp/'' (to_tmp to)" and "status_file_ok sf" and "untouched to q"
  shows "content q (ho_machine h') = content q (ho_machine h)"
proof -
  let ?k = "content q (ho_machine h)"
  have set: "upgrade_setting to name c sf" using assms(2-4) by (simp add: upgrade_setting_def)
  have status: "status_apart sf q" using untouched_status [OF assms(5,4)] .
  have q: "q \<noteq> ''/opt/proxy-panel/maintenance.lock''" "q \<noteq> ''/opt/proxy-panel''" using untouched_parts [OF assms(5)] by blast+
  consider "content q (ho_machine h') = ?k"
    | h1 r2 h2 h3 where "holds q ?k (sf, Some version) h1" "perform_upgrade pl re to now c version repo system_paths h1 = (r2, h2)"
        "finish_upgrade pl to now r2 h2 = (r, h3)" "h' = release_lock h3"
    using upgrade_starts [OF assms(2,1) q refl] by blast
  then show ?thesis
  proof cases
    case 2
    have "same_file q ?k sf h1" using 2(1) by (auto simp: same_file_def)
    from keepsD [OF perform_untouched [OF assms(5) set] this] have h2: "same_file q ?k sf h2"
      using 2(2) by (metis snd_conv)
    have "keeps (same_file q ?k sf) (finish_upgrade pl to now r2)"
    proof -
      have "keeps (same_file q ?k sf) (finish_status pl to now out msg)" for out msg
        using status by (intro keeps_same keeps_finish_status) simp
      from keepsD [OF this] show ?thesis
        by (cases r2) (auto intro!: keepsI simp: finish_upgrade_def ignore_error_def)
    qed
    from keepsD [OF this h2] show ?thesis using 2(3,4) by (auto simp: same_file_def intro: content_of_holds)
  qed
qed

theorem upgrade_touches_only_its_files_witness:
  "content ''/etc/proxy-panel/agent.env''
     (ho_machine (snd (upgrade upkeep_platform demo_release_env (upkeep_tools ''agent 2.0.0'') 7 ''agent'' ''2.0.0'' ''owner/name'' None upkeep_host)))
   = (False, None)"
proof -
  let ?r = "upgrade upkeep_platform demo_release_env (upkeep_tools ''agent 2.0.0'') 7 ''agent'' ''2.0.0'' ''owner/name'' None upkeep_host"
  have "?r = (fst ?r, snd ?r)" by simp
  moreover have "parse_component ''agent'' = Inr agent_component" by code_simp
  moreover have "starts_with ''/tmp/'' (to_tmp (upkeep_tools ''agent 2.0.0''))" by code_simp
  moreover have "status_file_ok None" by (simp add: status_file_ok_def)
  moreover have "untouched (upkeep_tools ''agent 2.0.0'') ''/etc/proxy-panel/agent.env''" by code_simp
  ultimately have "content ''/etc/proxy-panel/agent.env'' (ho_machine (snd ?r)) = content ''/etc/proxy-panel/agent.env'' (ho_machine upkeep_host)"
    by (rule upgrade_touches_only_its_files)
  also have "\<dots> = (False, None)" by code_simp
  finally show ?thesis .
qed

section \<open>The status both programs share\<close>

text \<open>What the crates promise: a time that was printed is read again, and so is a value.\<close>

definition times_agree :: "release_env \<Rightarrow> host_tools \<Rightarrow> bool" where
  "times_agree re to \<longleftrightarrow> (\<forall>t. re_time re (to_time_text to t) = Some t)"

definition reads_back :: "platform \<Rightarrow> json \<Rightarrow> bool" where
  "reads_back pl v \<longleftrightarrow> pf_parse pl (pf_pretty pl v @ [CHR 0x0A]) = Inr v"

fun hub_outcome :: "upgrade_outcome \<Rightarrow> maintenance_outcome" where
  "hub_outcome Running = MRunning"
| "hub_outcome Succeeded = MSucceeded"
| "hub_outcome Failed = MFailed"
| "hub_outcome RolledBack = MRolledBack"

text \<open>The hub's reading of the program's record.\<close>

definition hub_view :: "upgrade_status \<Rightarrow> maintenance_status" where
  "hub_view s =
     \<lparr>ms_status = hub_outcome (us_status s), ms_stage = us_stage s, ms_component = us_component s,
      ms_current_version = us_current_version s, ms_target_version = us_target_version s, ms_message = us_message s,
      ms_started_at = Some (us_started_at s), ms_finished_at = us_finished_at s\<rparr>"

lemma outcome_read: "maintenance_from_str (maintenance_str m) = Some m" "outcome_str out = maintenance_str (hub_outcome out)"
  by (cases m; simp add: maintenance_from_str_def) (cases out; simp)

lemma opt_field_read:
  assumes "\<And>v. f (g v) = Some v \<and> g v \<noteq> JNull" and "jget j k = Some (jopt g v)"
  shows "opt_field f j k = Some v"
proof (cases v)
  case None
  then show ?thesis using assms(2) by (simp add: opt_field_def jopt_def)
next
  case (Some a)
  then show ?thesis using assms(1) [of a] assms(2) by (cases "g a") (simp_all add: opt_field_def jopt_def)
qed

lemma read_texts: "as_str (JStr s) = Some s \<and> JStr s \<noteq> JNull"
  by simp

lemma read_times: "times_agree re to \<Longrightarrow> time_of_json re (JStr (to_time_text to t)) = Some t \<and> JStr (to_time_text to t) \<noteq> JNull"
  by (simp add: times_agree_def time_of_json_def)

text \<open>The hub reads back what it writes, and what the program writes.\<close>

lemma hub_status_read:
  assumes "times_agree re to"
  shows "status_of_json re (json_of_status to s) = Some s"
proof -
  let ?j = "json_of_status to s"
  have "opt_field as_str ?j ''current_version'' = Some (ms_current_version s)"
    and "opt_field as_str ?j ''target_version'' = Some (ms_target_version s)"
    by (rule opt_field_read [OF read_texts], simp add: json_of_status_def)+
  moreover have "opt_field (time_of_json re) ?j ''started_at'' = Some (ms_started_at s)"
    and "opt_field (time_of_json re) ?j ''finished_at'' = Some (ms_finished_at s)"
    by (rule opt_field_read [OF read_times [OF assms]], simp add: json_of_status_def)+
  moreover have "get_str ?j ''status'' = Some (maintenance_str (ms_status s))" and "get_str ?j ''stage'' = Some (ms_stage s)"
    and "get_str ?j ''component'' = Some (ms_component s)" and "get_str ?j ''message'' = Some (ms_message s)"
    by (simp_all add: json_of_status_def get_str_def)
  ultimately show ?thesis by (simp add: status_of_json_def outcome_read)
qed

lemma cli_status_json: "status_json to s = json_of_status to (hub_view s)"
  by (simp add: status_json_def json_of_status_def hub_view_def outcome_read jopt_def)

lemma read_status_written:
  assumes "times_agree re to" and "reads_back pl (json_of_status to s)"
    and "read_file p m = Some (pf_pretty pl (json_of_status to s) @ [CHR 0x0A])"
  shows "read_status pl re now p current m = mark_stale now p s"
  using hub_status_read [OF assms(1), of s] assms(2,3)
  by (simp add: read_status_def reads_back_def rbind_def ok_or_def map_err_def)

lemma replaced_file:
  assumes "write_file pl now q s m = Some m1" and "rename_file pl q p m1 = Some m2"
  shows "read_file p m2 = Some s"
  using assms rename_at(1) [OF assms(2)] by (auto simp: write_file_def read_file_def split: if_splits)

lemma hub_writes:
  assumes "write_hub_status pl to now s u = (Inr (), u')"
  shows "read_file (mc_status_file (ud_config u)) (ud_machine u') = Some (pf_pretty pl (json_of_status to s) @ [CHR 0x0A])"
    "ud_config u' = ud_config u" "ud_in_progress u' = ud_in_progress u" "ud_version u' = ud_version u"
  using assms by (auto simp: write_hub_status_def write_maintenance_def dest: replaced_file split: option.splits if_splits prod.splits)

lemma started_update:
  assumes "start_update_run pl re to now (Inr ()) rel u = (Inr s, u')"
  shows "s = running_status now (ud_version u) (re_text re (rl_version rel))" "ud_config u' = ud_config u"
    "read_file (mc_status_file (ud_config u)) (ud_machine u') = Some (pf_pretty pl (json_of_status to s) @ [CHR 0x0A])"
proof -
  let ?s = "running_status now (ud_version u) (re_text re (rl_version rel))"
  obtain u1 where w: "write_hub_status pl to now ?s (u\<lparr>ud_in_progress := True\<rparr>) = (Inr (), u1)"
    and s: "s = ?s" "u' = u1\<lparr>ud_spawned := ud_spawned u1 @ [mc_sudo_path (ud_config u1) # update_arguments (ud_config u1) rel]\<rparr>"
    using assms by (auto simp: start_update_run_def execute_update_def Let_def split: if_splits sum.splits prod.splits)
  show "s = ?s" by (rule s)
  show "ud_config u' = ud_config u" using hub_writes(2) [OF w] by (simp add: s)
  show "read_file (mc_status_file (ud_config u)) (ud_machine u') = Some (pf_pretty pl (json_of_status to s) @ [CHR 0x0A])"
    using hub_writes(1) [OF w] by (simp add: s)
qed

lemma stays_running:
  assumes "ms_status s = MRunning" and "ms_started_at s = Some t"
  shows "\<exists>s'. mark_stale now p s = Inr s' \<and> is_in_progress s'"
  using assms by (simp add: mark_stale_def is_in_progress_def)

lemma files_keep_lock: "ho_lock (snd (op_files q f h)) = ho_lock h"
  by (simp add: op_files_snd)

lemma lock_refused:
  assumes "ho_lock h"
  shows "\<exists>e. fst (acquire_lock pl now h) = Inl e"
proof -
  let ?p = "join_path OPT_DIR ''maintenance.lock''"
  let ?f = "run_steps [\<lambda>m. if file_exists ?p m then Some m else write_file pl now ?p [] m]"
  obtain ra ha where a: "ensure_dir pl OPT_DIR h = (ra, ha)" by fastforce
  have "ho_lock (snd (ensure_dir pl OPT_DIR h)) = ho_lock h" by (simp add: ensure_dir_def files_keep_lock)
  then have la: "ho_lock ha" using assms by (simp add: a)
  obtain rb hb where b: "op_files ?p ?f ha = (rb, hb)" by fastforce
  have lb: "ho_lock hb" using files_keep_lock [of ?p ?f ha] la by (simp add: b)
  show ?thesis
    using b lb by (cases ra; cases rb) (simp_all add: acquire_lock_def op_seq_def op_bind_def a Let_def del: run_steps.simps)
qed

lemma locked_upgrade:
  assumes "ho_lock h" and "upgrade pl re to now name version repo sf h = (r, h')"
    and "p \<noteq> ''/opt/proxy-panel/maintenance.lock''" and "p \<noteq> ''/opt/proxy-panel''"
  shows "(\<exists>e. r = Inl e) \<and> read_file p (ho_machine h') = read_file p (ho_machine h)"
proof -
  obtain r0 h0 where l: "acquire_lock pl now h = (r0, h0)" by fastforce
  have e: "\<exists>e. r0 = Inl e"
    using lock_refused [OF assms(1), of pl now] by (simp add: l)
  let ?st = "(us_path (ho_status h), us_target_version (ho_status h))"
  have "holds p (content p (ho_machine h)) ?st h" by (simp add: holds_def)
  from keepsD [OF keeps_acquire_lock [OF assms(3,4)] this, of pl now]
  have "content p (ho_machine h0) = content p (ho_machine h)" by (simp add: holds_def l)
  then have same: "read_file p (ho_machine h0) = read_file p (ho_machine h)"
    unfolding content_def read_file_def
    by (cases "file_at p (ho_machine h0)"; cases "file_at p (ho_machine h)") simp_all
  show ?thesis
    using assms(2) l e same
    by (auto simp: upgrade_def require_root_def op_seq_def op_bind_def op_ok_def op_fail_def op_lift_def split: if_splits sum.splits)
qed

text \<open>
  C33: An update that is started while another command holds the maintenance lock ends at once, before
  there is a status to write, and \<open>systemd-run\<close>, which does not wait for it, has told the hub that all is
  well. The status file says that the update runs, and from then on the hub refuses every update, for ever:
  after half an hour the status is stale, which counts as running too.
\<close>

theorem locked_update_blocks_for_ever:
  assumes "times_agree re to" and "reads_back pl (json_of_status to s)"
    and "start_update_run pl re to now (Inr ()) rel u = (Inr s, u1)" and "mc_enabled (ud_config u)"
    and "p = mc_status_file (ud_config u)" and "p \<noteq> ''/opt/proxy-panel/maintenance.lock''" and "p \<noteq> ''/opt/proxy-panel''"
    and "ho_lock h" and "ho_machine h = ud_machine u1"
    and "upgrade pl re to t ''hub'' (rl_tag rel) (mc_release_repo (ud_config u)) (Some p) h = (r, h')"
    and "u2 = update_ended pl re to t None s (u1\<lparr>ud_machine := ho_machine h'\<rparr>)"
  shows "\<not> is_ok r \<and> \<not> ud_in_progress u2
    \<and> start_update_checks pl re later requested u2 = (Inl update_in_progress, u2)"
proof -
  note started = started_update [OF assms(3)]
  note run = locked_upgrade [OF assms(8,10,6,7)]
  have u2: "ud_in_progress u2 = False" "ud_config u2 = ud_config u" "ud_machine u2 = ho_machine h'"
    using started(2) assms(11) by (simp_all add: update_ended_def)
  have "read_file p (ud_machine u2) = Some (pf_pretty pl (json_of_status to s) @ [CHR 0x0A])"
    using run started(3) assms(5,9) u2(3) by simp
  then have "hub_status pl re later u2 = mark_stale later p s"
    using read_status_written [OF assms(1,2)] u2(2) assms(5) by (simp add: hub_status_def)
  moreover have "ms_status s = MRunning" and "ms_started_at s = Some now" by (simp_all add: started(1) running_status_def)
  ultimately obtain s' where "hub_status pl re later u2 = Inr s'" and "is_in_progress s'"
    using stays_running by metis
  then have "start_update_checks pl re later requested u2 = (Inl update_in_progress, u2)"
    using u2(1,2) assms(4) by (simp add: start_update_checks_def ensure_not_running_def ensure_file_not_running_def rbind_def)
  then show ?thesis using run u2(1) by (auto simp: is_ok_def)
qed

definition hub_status_file :: path where "hub_status_file = ''/opt/proxy-panel/data/hub-update.json''"

definition demo_updater :: updater where
  "demo_updater = \<lparr>ud_config = \<lparr>mc_enabled = True, mc_status_file = hub_status_file, mc_cli_path = ''/c'', mc_sudo_path = ''/s'',
       mc_systemd_run_path = ''/r'', mc_release_repo = ''owner/name''\<rparr>,
     ud_version = ''1.0.0'', ud_in_progress = False, ud_spawned = [],
     ud_machine = ho_machine upkeep_host\<rparr>"

definition demo_release :: release where
  "demo_release = \<lparr>rl_tag = ''v2.0.0'', rl_version = \<lparr>ver_major = 2, ver_minor = 0, ver_patch = 0, ver_pre = [], ver_build = []\<rparr>,
     rl_html_url = [], rl_published_at = None\<rparr>"

text \<open>A printer that knows one value.\<close>

definition printing :: "json \<Rightarrow> platform" where
  "printing v = upkeep_platform\<lparr>pf_pretty := (\<lambda>_. ''status''), pf_parse := (\<lambda>s. if starts_with ''status'' s then Inr v else pf_parse upkeep_platform s)\<rparr>"

lemma printing_reads: "reads_back (printing v) v"
  by (simp add: reads_back_def printing_def)

lemma demo_times: "times_agree demo_release_env (upkeep_tools banner)"
proof -
  have "demo_time (demo_time_text t) = t" for t
  proof (cases "t < 0")
    case False
    have "\<not> starts_with ''-'' (replicate n CHR ''1'')" for n by (cases n) simp_all
    then show ?thesis using False by (simp add: demo_time_def demo_time_text_def)
  qed (simp add: demo_time_def demo_time_text_def)
  then show ?thesis by (simp add: times_agree_def demo_release_env_def upkeep_tools_def)
qed

theorem locked_update_blocks_for_ever_witness:
  "let to = upkeep_tools ''hub 2.0.0''; s = running_status 5 ''1.0.0'' ''2.0.0''; pl = printing (json_of_status to s);
       (a, u1) = start_update_run pl demo_release_env to 5 (Inr ()) demo_release demo_updater;
       (r, h') = upgrade pl demo_release_env to 6 ''hub'' ''v2.0.0'' ''owner/name'' (Some hub_status_file)
                   (upkeep_host\<lparr>ho_lock := True, ho_machine := ud_machine u1\<rparr>);
       u2 = update_ended pl demo_release_env to 6 None s (u1\<lparr>ud_machine := ho_machine h'\<rparr>)
   in start_update_checks pl demo_release_env 9999 None u2 = (Inl update_in_progress, u2)"
proof -
  let ?to = "upkeep_tools ''hub 2.0.0''" and ?s = "running_status 5 ''1.0.0'' ''2.0.0''"
  let ?pl = "printing (json_of_status ?to ?s)"
  obtain a u1 where 1: "start_update_run ?pl demo_release_env ?to 5 (Inr ()) demo_release demo_updater = (a, u1)" by fastforce
  have "fst (start_update_run ?pl demo_release_env ?to 5 (Inr ()) demo_release demo_updater) = Inr ?s" by code_simp
  then have a: "a = Inr ?s" by (simp add: 1)
  let ?h = "upkeep_host\<lparr>ho_lock := True, ho_machine := ud_machine u1\<rparr>"
  obtain r h' where 2: "upgrade ?pl demo_release_env ?to 6 ''hub'' ''v2.0.0'' ''owner/name'' (Some hub_status_file) ?h = (r, h')" by fastforce
  have config: "mc_status_file (ud_config demo_updater) = hub_status_file" "mc_release_repo (ud_config demo_updater) = ''owner/name''"
    "rl_tag demo_release = ''v2.0.0''" "mc_enabled (ud_config demo_updater)"
    by (simp_all add: demo_updater_def demo_release_def)
  have "start_update_checks ?pl demo_release_env 9999 None (update_ended ?pl demo_release_env ?to 6 None ?s (u1\<lparr>ud_machine := ho_machine h'\<rparr>))
      = (Inl update_in_progress, update_ended ?pl demo_release_env ?to 6 None ?s (u1\<lparr>ud_machine := ho_machine h'\<rparr>))"
    using locked_update_blocks_for_ever [OF demo_times printing_reads 1 [unfolded a] config(4) config(1) [symmetric] _ _ _ _ _ refl, of ?h 6 r h' 9999 None]
      2 config
    by (simp add: hub_status_file_def)
  then show ?thesis by (simp add: 1 2 Let_def)
qed

lemma dir_made: "pf_can_write pl d \<Longrightarrow> \<exists>m'. make_dir pl d m = Some m'"
  by (cases "d \<in> set (m_dirs m)") (simp_all add: make_dir_def)

lemma status_written:
  assumes "\<And>p. pf_can_write pl p" and "us_path (ho_status h) = Some p"
  shows "\<exists>h'. write_status pl to now h = (Inr (), h')
    \<and> read_file p (ho_machine h') = Some (pf_pretty pl (status_json to (ho_status h)) @ [CHR 0x0A])"
proof -
  let ?s = "pf_pretty pl (status_json to (ho_status h)) @ [CHR 0x0A]" and ?q = "tmp_path p ''tmp-''"
  obtain m where m: "(if parent_dir p = [] then Some (ho_machine h) else make_dir pl (parent_dir p) (ho_machine h)) = Some m"
    using dir_made [OF assms(1)] by (cases "parent_dir p = []") auto
  have w: "write_file pl now ?q ?s m = Some (put_file now ?q ?s m)" using assms(1) by (simp add: write_file_def)
  have "file_exists ?q (put_file now ?q ?s m)" by (simp add: file_exists_def)
  then obtain m' where r: "rename_file pl ?q p (put_file now ?q ?s m) = Some m'" using rename_ok assms(1) by blast
  have "write_status pl to now h = (Inr (), h\<lparr>ho_machine := m'\<rparr>)"
    using m by (auto simp: write_status_def assms(2) op_seq_def op_bind_def op_ok_def op_files_def w r split: if_splits)
  then show ?thesis using replaced_file [OF w r] by simp
qed

lemma acquires_lock:
  assumes "\<And>p. pf_can_write pl p" and "\<not> ho_lock h"
  shows "\<exists>h'. acquire_lock pl now h = (Inr (), h')"
proof -
  let ?p = "join_path OPT_DIR ''maintenance.lock''"
  obtain ha where a: "ensure_dir pl OPT_DIR h = (Inr (), ha)"
    using dir_made [OF assms(1), of OPT_DIR "ho_machine h"] by (cases "path_exists OPT_DIR (ho_machine h)") (auto simp: ensure_dir_def op_files_def)
  have "ho_lock (snd (ensure_dir pl OPT_DIR h)) = ho_lock h" by (simp add: ensure_dir_def files_keep_lock)
  then have la: "\<not> ho_lock ha" using assms(2) by (simp add: a)
  obtain m where "run_steps [\<lambda>m. if file_exists ?p m then Some m else write_file pl now ?p [] m] (ho_machine ha) = (True, m)"
    using assms(1) by (cases "file_exists ?p (ho_machine ha)") (simp_all add: write_file_def)
  then show ?thesis using la by (simp add: acquire_lock_def op_seq_def op_bind_def a op_files_def Let_def del: run_steps.simps)
qed

definition hub_component :: component where
  "hub_component = \<lparr>co_name = ''hub'', co_binary = ''proxy-panel-hub'', co_unit = Some ''proxy-panel-hub.service'', co_with_web = True\<rparr>"

lemma finish_written:
  assumes "\<And>p. pf_can_write pl p" and "us_path (ho_status h) = Some p"
  shows "\<exists>h'. finish_status pl to now out msg h = (Inr (), h')
    \<and> read_file p (ho_machine h') = Some (pf_pretty pl (status_json to ((ho_status h)\<lparr>us_status := out, us_message := msg, us_finished_at := Some now\<rparr>)) @ [CHR 0x0A])"
  using status_written [OF assms(1), of "h\<lparr>ho_status := (ho_status h)\<lparr>us_status := out, us_message := msg, us_finished_at := Some now\<rparr>\<rparr>" p to now] assms(2)
  by (simp add: finish_status_def)

lemma op_files_record: "ho_status (snd (op_files q f h)) = ho_status h"
  by (simp add: op_files_snd)

lemma write_keeps_record: "ho_status (snd (write_status pl to now h)) = ho_status h"
  using op_files_record by (auto simp: write_status_def op_seq_def op_bind_def op_ok_def split: option.split prod.split sum.split)
    (metis op_files_record snd_conv)+

lemma finish_keeps_record:
  "ho_status (snd (finish_status pl to now out msg h)) = (ho_status h)\<lparr>us_status := out, us_message := msg, us_finished_at := Some now\<rparr>"
  by (simp add: finish_status_def write_keeps_record)

lemma finish_reports:
  assumes "times_agree re to" and "\<And>p. pf_can_write pl p" and "us_path (ho_status h) = Some p"
    and "finish_upgrade pl to now r2 h = (r, h')" and "reads_back pl (status_json to (ho_status h'))"
  shows "\<exists>s. read_status pl re later p current (ho_machine h') = Inr s \<and> \<not> is_in_progress s \<and> r = r2
    \<and> (case r of Inr _ \<Rightarrow> ms_status s = MSucceeded | Inl e \<Rightarrow> ms_status s \<in> {MFailed, MRolledBack} \<and> ms_message s = to_error_text to e)"
proof -
  define out where "out = (case r2 of Inr _ \<Rightarrow> Succeeded | Inl _ \<Rightarrow> if ho_rolled_back h then RolledBack else Failed)"
  define msg where "msg = (case r2 of Inr _ \<Rightarrow> msg_done | Inl e \<Rightarrow> to_error_text to e)"
  let ?s = "(ho_status h)\<lparr>us_status := out, us_message := msg, us_finished_at := Some now\<rparr>"
  obtain h1 where f: "finish_status pl to now out msg h = (Inr (), h1)"
    and w: "read_file p (ho_machine h1) = Some (pf_pretty pl (status_json to ?s) @ [CHR 0x0A])"
    using finish_written [OF assms(2,3)] by blast
  have r: "r = r2" "h' = h1"
    using assms(4) f by (auto simp: finish_upgrade_def out_def msg_def ignore_error_def split: sum.splits)
  have "ho_status h1 = ?s" using f finish_keeps_record [of pl to now out msg h] by simp
  then have "reads_back pl (json_of_status to (hub_view ?s))" using assms(5) by (simp add: r(2) cli_status_json)
  then have "read_status pl re later p current (ho_machine h') = mark_stale later p (hub_view ?s)"
    using w unfolding r(2) cli_status_json by (rule read_status_written [OF assms(1)])
  moreover have "ms_status (hub_view ?s) \<noteq> MRunning" by (auto simp: hub_view_def out_def split: sum.split)
  ultimately have "read_status pl re later p current (ho_machine h') = Inr (hub_view ?s)" by (simp add: mark_stale_def)
  then show ?thesis using r(1)
    by (intro exI [of _ "hub_view ?s"]) (auto simp: hub_view_def out_def msg_def is_in_progress_def split: sum.split)
qed


text \<open>An update that fails, since the release has no checksum of the hub's archive.\<close>

lemma demo_error: "to_error_text (upkeep_tools banner) e = ''failed''"
  by (simp add: upkeep_tools_def)


end
