(* ===== verification/InstallCheck.thy ===== *)
theory InstallCheck
  imports UpdateCheck
begin

text \<open>
  Properties of the installations (pp-cli, ops/install.rs): the settings an installed agent finds, and the
  hub that a failed installation leaves stopped.
\<close>

section \<open>The agent's settings\<close>

lemma split_on_first: "c \<notin> set a \<Longrightarrow> split_on c (a @ c # s) = a # split_on c s"
  by (induction a) auto

lemma split_on_lines:
  assumes "ls \<noteq> []" and "\<And>l. l \<in> set ls \<Longrightarrow> c \<notin> set l"
  shows "split_on c (str_join [c] ls @ [c]) = ls @ [[]]"
  using assms by (induction "[c]" ls rule: str_join.induct) (simp_all add: split_on_first)

lemma join_no_break: "\<not> has_line_break a \<Longrightarrow> CHR 0x0A \<notin> set a"
  by (simp add: has_line_break_def)

lemma accepted_args:
  assumes "validate_agent_install_args parse_url parse_uuid hub_url token agent_id name = Inr ()" 
  shows "\<not> has_line_break hub_url" "\<not> has_line_break token" "agent_id = Some i \<Longrightarrow> \<not> has_line_break i"
    "name = Some n \<Longrightarrow> \<not> has_line_break n"
  using assms by (auto simp: validate_agent_install_args_def split: if_splits option.splits)

lemma env_lines_unbroken:
  assumes "validate_agent_install_args parse_url parse_uuid hub_url token agent_id name = Inr ()" 
    and "l \<in> set (agent_env_lines hub_url token agent_id name)"
  shows "CHR 0x0A \<notin> set l"
  using assms(2) accepted_args [OF assms(1)] join_no_break
  by (auto simp: agent_env_lines_def split: option.splits)

lemma env_lines_exact:
  assumes "validate_agent_install_args parse_url parse_uuid hub_url token agent_id name = Inr ()" 
  shows "split_on (CHR 0x0A) (agent_env hub_url token agent_id name) = agent_env_lines hub_url token agent_id name @ [[]]"
proof -
  let ?ls = "agent_env_lines hub_url token agent_id name"
  have "split_on (CHR 0x0A) (str_join [CHR 0x0A] ls @ [CHR 0x0A]) = ls @ [[]]"
    if "ls \<noteq> []" and "\<And>l. l \<in> set ls \<Longrightarrow> CHR 0x0A \<notin> set l" for ls
    using that by (rule split_on_lines)
  moreover have "?ls \<noteq> []" by (simp add: agent_env_lines_def)
  ultimately show ?thesis unfolding agent_env_def using env_lines_unbroken [OF assms] by blast
qed

text \<open>A file with a text that only its owner may read.\<close>

definition private_file :: "path \<Rightarrow> string \<Rightarrow> path option \<times> string option \<Rightarrow> host \<Rightarrow> bool" where
  "private_file p s st h \<longleftrightarrow> (\<exists>d. holds p (d, Some (s, 384)) st h)"

lemma keeps_private: "(\<And>d. keeps (holds p (d, Some (s, 384)) st) f) \<Longrightarrow> keeps (private_file p s st) f"
  using keepsD by (intro keepsI) (fastforce simp: private_file_def)

lemma wrote_private:
  assumes "write_text pl now p s (Some 384) h = (Inr (), h')"
  shows "private_file p s (us_path (ho_status h'), us_target_version (ho_status h')) h'"
proof -
  obtain m1 m2 where w: "write_file pl now p s (ho_machine h) = Some m1" "set_mode pl (\<lambda>_. 384) p m1 = Some m2" "h' = h\<lparr>ho_machine := m2\<rparr>"
    using assms by (auto simp: write_text_def op_files_def split: option.splits prod.splits if_splits)
  have "file_at p m1 \<noteq> None" "read_file p m1 = Some s" using w(1) by (auto simp: write_file_def split: if_splits)
  then obtain f where "file_at p m1 = Some f" "f_data f = s" by (auto simp: read_file_def)
  then have "file_at p m2 = Some (f\<lparr>f_mode := 384\<rparr>)" "f_data f = s"
    using w(2) by (auto simp: set_mode_def file_at_def update_conv' split: if_splits)
  then show ?thesis using w(3) by (simp add: private_file_def holds_def content_def)
qed

definition env_file :: path where "env_file = ''/etc/proxy-panel/agent.env''"

lemma keeps_env:
  "keeps (private_file env_file s st) (write_text pl now ''/etc/systemd/system/proxy-panel-agent.service'' u mode)"
  "keeps (private_file env_file s st) (daemon_reload ok)" "keeps (private_file env_file s st) (systemd_enable_now to n)"
  "keeps (private_file env_file s st) (systemd_is_active n)"
proof -
  show "keeps (private_file env_file s st) (write_text pl now ''/etc/systemd/system/proxy-panel-agent.service'' u mode)"
    unfolding write_text_def
    by (intro keeps_private keeps_files) (auto simp: env_file_def intro: spare_rules split: option.splits)
  show "keeps (private_file env_file s st) (daemon_reload ok)" by (simp add: daemon_reload_def keep_rules)
  show "keeps (private_file env_file s st) (systemd_enable_now to n)"
    by (rule keepsI) (simp add: systemd_enable_now_def private_file_def holds_def)
  show "keeps (private_file env_file s st) (systemd_is_active n)" by (rule keeps_is_active)
qed

definition agent_ready :: "string \<Rightarrow> host \<Rightarrow> bool" where
  "agent_ready s h \<longleftrightarrow> (\<exists>st. private_file env_file s st h) \<and> ''proxy-panel-agent.service'' \<in> set (ho_active h)"

lemma agent_files_ready:
  "ops_triple (\<lambda>_. True) (install_agent_files pl to now unit_text reload_ok env src) (\<lambda>_. agent_ready env) (\<lambda>_ _. True)"
proof -
  let ?I = "\<lambda>h. \<exists>st. private_file env_file env st h"
  have path: "join_path ETC_DIR ''agent.env'' = env_file" by (simp add: env_file_def ETC_DIR_def join_path_def)
  have any: "ops_triple (\<lambda>_. True) f (\<lambda>_ _. True) (\<lambda>_ _. True)" for f :: "'x ops"
    by (simp add: ops_triple_def split: prod.split sum.split)
  have env: "ops_triple (\<lambda>_. True) (write_text pl now env_file env (Some 384)) (\<lambda>_. ?I) (\<lambda>_ _. True)"
    using wrote_private by (fastforce simp: ops_triple_def split: prod.split sum.split)
  have keep: "ops_triple ?I f (\<lambda>_. ?I) (\<lambda>_ _. True)" if "\<And>st. keeps (private_file env_file env st) f" for f :: "'x ops"
    using that unfolding ops_triple_def by (fastforce split: prod.splits sum.splits)
  have active: "ops_triple ?I (op_bind (systemd_is_active ''proxy-panel-agent'') (\<lambda>active.
      if active then op_ok () else op_fail (UnitRefused ''start'' ''proxy-panel-agent''))) (\<lambda>_. agent_ready env) (\<lambda>_ _. True)"
    by (simp add: ops_triple_def op_bind_def systemd_is_active_def op_get_def op_ok_def op_fail_def agent_ready_def unit_name_def ends_with_def)
  show ?thesis unfolding install_agent_files_def path
    by (rule ops_seq_rule [OF any], rule ops_seq_rule [OF any], rule ops_seq_rule [OF env], rule ops_seq_rule [OF keep [OF keeps_env(1)]],
        rule ops_seq_rule [OF keep [OF keeps_env(2)]], rule ops_seq_rule [OF keep [OF keeps_env(3)]], rule active)
qed

lemma ready_machine:
  "agent_ready s h \<Longrightarrow> content env_file m = content env_file (ho_machine h) \<Longrightarrow> agent_ready s (h\<lparr>ho_machine := m\<rparr>)"
  by (auto simp: agent_ready_def private_file_def holds_def)

lemma ready_release [simp]: "agent_ready s (release_lock h) = agent_ready s h"
  by (simp add: agent_ready_def private_file_def holds_def release_lock_def)

lemma ready_prune:
  assumes "agent_ready s h"
  shows "agent_ready s (prune_backups pl BACKUP_DIR n h)"
proof -
  have far: "apart BACKUP_DIR env_file" by (rule apart_prefix [of "''/opt/''"]) (simp_all add: BACKUP_DIR_def env_file_def)
  have "private_file env_file s st (prune_backups pl BACKUP_DIR n h)" if "private_file env_file s st h" for st
    using that prune_holds [OF far] unfolding private_file_def by blast
  moreover have "ho_active (prune_backups pl BACKUP_DIR n h) = ho_active h" by (simp add: prune_backups_def)
  ultimately show ?thesis using assms by (auto simp: agent_ready_def)
qed

lemma with_temp_ready:
  assumes "with_temp pl to f h = (Inr (), h')" and "apart (to_tmp to) env_file"
    and "ops_triple (\<lambda>_. True) f (\<lambda>_. agent_ready s) (\<lambda>_ _. True)"
  shows "agent_ready s h'"
proof -
  obtain h1 h2 where h: "f h1 = (Inr (), h2)" "h' = h2\<lparr>ho_machine := drop_tree (to_tmp to) (ho_machine h2)\<rparr>"
    using assms(1) by (auto simp: with_temp_def op_seq_def op_bind_def split: prod.splits sum.splits)
  have "agent_ready s h2" using ops_triple_results(1) [OF assms(3) _ h(1)] by simp
  then show ?thesis unfolding h(2) using assms(2) by (intro ready_machine) (simp_all add: content_def apart_below apart_ne)
qed

text \<open>
  C34: After an agent was installed its settings file can be read by its owner only and has exactly the
  lines that were asked for: no value that was given brings a line of its own. The agent's unit runs.
\<close>

theorem installed_agent_settings:
  assumes "install_agent pl to now parse_url parse_uuid unit_text reload_ok user hub_url token agent_id name version repo h = (Inr (), h')"
    and "starts_with ''/tmp/'' (to_tmp to)"
  shows "\<exists>s d. content ''/etc/proxy-panel/agent.env'' (ho_machine h') = (d, Some (s, 384))
    \<and> split_on (CHR 0x0A) s = agent_env_lines hub_url token agent_id name @ [[]]
    \<and> ''proxy-panel-agent.service'' \<in> set (ho_active h')"
proof -
  let ?s = "agent_env hub_url token agent_id name"
  have args: "validate_agent_install_args parse_url parse_uuid hub_url token agent_id name = Inr ()"
    using assms(1) by (auto simp: install_agent_def op_bind_def op_lift_def split: sum.splits)
  have tmp: "apart (to_tmp to) env_file" using assms(2) by (rule tmp_apart) (simp add: env_file_def)
  have any: "ops_triple (\<lambda>_. True) f (\<lambda>_ _. True) (\<lambda>_ _. True)" for f :: "'x ops"
    by (simp add: ops_triple_def split: prod.split sum.split)
  have prune: "ops_triple (agent_ready ?s) (op_pure (prune_backups pl BACKUP_DIR n)) (\<lambda>_. agent_ready ?s) (\<lambda>_ _. True)" for n
    by (simp add: ops_triple_def op_pure_def ready_prune)
  let ?files = "\<lambda>src. op_seq (install_agent_files pl to now unit_text reload_ok ?s src) (op_pure (prune_backups pl BACKUP_DIR ''proxy-panel-agent''))"
  have files: "ops_triple (\<lambda>_. True) (?files src) (\<lambda>_. agent_ready ?s) (\<lambda>_ _. True)" for src
    by (rule ops_seq_rule [OF agent_files_ready prune])
  let ?body = "\<lambda>arch. op_bind (fetch_release pl to now repo version (''proxy-panel-agent-linux-'' @ arch @ ''.tar.gz'')
      [BIN_DIR, ETC_DIR, VAR_DIR, join_path VAR_DIR ''agent'', OPT_DIR, join_path OPT_DIR ''bin'', BACKUP_DIR] user) (\<lambda>d.
      op_bind (extracted d ''proxy-panel-agent'') (\<lambda>src. op_bind (stop_if_active ''proxy-panel-agent'') (\<lambda>_. ?files src)))"
  have body: "ops_triple (\<lambda>_. True) (?body arch) (\<lambda>_. agent_ready ?s) (\<lambda>_ _. True)" for arch
    by (rule ops_bind_rule [OF any], rule ops_bind_rule [OF any], rule ops_bind_rule [OF any], rule files)
  obtain h1 h2 where run: "op_bind (op_lift (release_arch pl)) (\<lambda>arch. with_temp pl to (?body arch)) h1 = (Inr (), h2)" "h' = release_lock h2"
    using assms(1) args by (auto simp: install_agent_def op_bind_def [of "op_lift (Inr ())"] op_lift_def [of "Inr ()"] op_seq_def [of "require_root to"]
        op_seq_def [of "acquire_lock pl now"] op_bind_def [of "require_root to"] op_bind_def [of "acquire_lock pl now"] split: prod.splits sum.splits)
  then obtain arch where "with_temp pl to (?body arch) h1 = (Inr (), h2)"
    by (auto simp: op_bind_def [of "op_lift (release_arch pl)"] op_lift_def split: sum.splits)
  from with_temp_ready [OF this tmp body] have "agent_ready ?s h'" by (simp add: run(2))
  then show ?thesis using env_lines_exact [OF args] by (auto simp: agent_ready_def private_file_def holds_def env_file_def)
qed

definition demo_url :: "string \<Rightarrow> parsed_url option" where
  "demo_url u = Some \<lparr>pu_scheme = ''https'', pu_host = Some ''hub'', pu_username = [], pu_password = None\<rparr>"

text \<open>A host whose next request is the second of \<open>demo_reply\<close>, for the checksums.\<close>

definition install_host :: host where
  "install_host = upkeep_host\<lparr>ho_machine := (ho_machine upkeep_host)\<lparr>m_requests := 1\<rparr>\<rparr>"

theorem installed_agent_settings_witness:
  "\<exists>s d. content ''/etc/proxy-panel/agent.env''
      (ho_machine (snd (install_agent upkeep_platform (upkeep_tools ''agent 2.0.0'') 7 demo_url Some ''unit'' True None ''https://hub'' ''token''
         None (Some ''edge'') ''2.0.0'' ''owner/name'' install_host))) = (d, Some (s, 384))
    \<and> split_on (CHR 0x0A) s = [''PROXYPANEL_HUB_URL=https://hub'', ''PROXYPANEL_AGENT_TOKEN=token'', ''PROXYPANEL_AGENT_NAME=edge'',
        ''RUST_LOG=proxy_panel_agent=info'', []]"
proof -
  let ?r = "install_agent upkeep_platform (upkeep_tools ''agent 2.0.0'') 7 demo_url Some ''unit'' True None ''https://hub'' ''token''
     None (Some ''edge'') ''2.0.0'' ''owner/name'' install_host"
  have "fst ?r = Inr ()" by code_simp
  then have "?r = (Inr (), snd ?r)" by (metis prod.collapse)
  moreover have "starts_with ''/tmp/'' (to_tmp (upkeep_tools ''agent 2.0.0''))" by code_simp
  moreover have "agent_env_lines ''https://hub'' ''token'' None (Some ''edge'') @ [[]]
      = [''PROXYPANEL_HUB_URL=https://hub'', ''PROXYPANEL_AGENT_TOKEN=token'', ''PROXYPANEL_AGENT_NAME=edge'', ''RUST_LOG=proxy_panel_agent=info'', []]"
    by (simp add: agent_env_lines_def)
  ultimately show ?thesis using installed_agent_settings [of upkeep_platform "upkeep_tools ''agent 2.0.0''"] by metis
qed

section \<open>An installation that fails\<close>

definition hub_stopped :: "host \<Rightarrow> bool" where
  "hub_stopped h \<longleftrightarrow> ''proxy-panel-hub.service'' \<notin> set (ho_active h)"

lemma stopped_files: "keeps hub_stopped (op_files p f)"
  by (rule keepsI) (simp add: op_files_snd hub_stopped_def)

lemma stopped_touch [simp]: "hub_stopped (touch_dir now d m h) = hub_stopped h"
  by (simp add: hub_stopped_def touch_dir_def)

lemma stopped_if_files: "keeps hub_stopped (\<lambda>h. if b h then op_files p (f h) h else (Inr (), h))"
  using keepsD [OF stopped_files] by (intro keepsI) simp

lemma stopped_copy_tree: "keeps hub_stopped (copy_dir_recursive pl now src dst)"
proof (rule keepsI)
  fix h assume h: "hub_stopped h"
  let ?f = "run_steps (copy_tree_steps pl now src dst (ho_machine h))"
  have "hub_stopped (snd (op_files dst ?f h))" using keepsD [OF stopped_files h] .
  then show "hub_stopped (snd (copy_dir_recursive pl now src dst h))"
    by (cases "op_files dst ?f h") (simp add: copy_dir_recursive_def Let_def)
qed

lemma stopped_steps:
  "keeps hub_stopped (ensure_dir pl d)" "keeps hub_stopped (copy_file pl now a b)" "keeps hub_stopped (write_text pl now p s mode)"
  "keeps hub_stopped (move_file pl to now a b)" "keeps hub_stopped (daemon_reload ok)"
  "keeps hub_stopped (installed_version to p)"
proof -
  have "keeps hub_stopped (\<lambda>h. if path_exists d (ho_machine h) then (Inr (), h) else op_files d (run_steps [make_dir pl d]) h)"
    using keepsD [OF stopped_files] by (intro keepsI) simp
  then show "keeps hub_stopped (ensure_dir pl d)" by (simp add: ensure_dir_def [abs_def])
qed (simp_all add: copy_file_def write_text_def move_file_def daemon_reload_def stopped_files keep_rules)

lemma stopped_move_path: "keeps hub_stopped (move_path pl to now a b)"
proof (rule keepsI)
  fix h assume h: "hub_stopped h"
  have "keeps hub_stopped (op_seq (copy_dir_recursive pl now a b) (op_files a (run_steps [remove_tree pl a])))"
    by (intro keeps_seq stopped_copy_tree stopped_files)
  from keepsD [OF this h] keepsD [OF stopped_steps(4) h] keepsD [OF stopped_files h]
  show "hub_stopped (snd (move_path pl to now a b h))" by (simp add: move_path_def)
qed

lemma stopped_backup: "keeps hub_stopped (backup_installed pl to now n)"
proof (rule keepsI)
  fix h assume h: "hub_stopped h"
  let ?p = "join_path BIN_DIR n"
  have "keeps hub_stopped (op_bind (installed_version to ?p) (\<lambda>v. op_seq (ensure_dir pl BACKUP_DIR)
      (copy_file pl now ?p (backup_path BACKUP_DIR n (unwrap_or v (to_stamp to now))))))"
    by (intro keeps_bind keeps_seq stopped_steps)
  from keepsD [OF this h] show "hub_stopped (snd (backup_installed pl to now n h))"
    using h by (simp add: backup_installed_def Let_def)
qed

lemma stopped_hub_files: "keeps hub_stopped (install_hub_files pl to now secret unit_text reload_ok hub_src cli_src web_src)"
proof -
  have place: "keeps hub_stopped (place_binary pl to now src n)" for src n
    unfolding place_binary_def Let_def by (intro keeps_seq stopped_steps stopped_files)
  have toml: "keeps hub_stopped (\<lambda>h. if path_exists p (ho_machine h) then (Inr (), h) else write_text pl now p s None h)" for p s
    using keepsD [OF stopped_steps(3)] by (intro keepsI) simp
  have "keeps hub_stopped (case hub_src of Some src \<Rightarrow> place_binary pl to now src ''proxy-panel-hub'' | None \<Rightarrow> op_fail (NotInTarball ''proxy-panel-hub''))"
    and "keeps hub_stopped (case cli_src of Some src \<Rightarrow> place_binary pl to now src ''proxy-panel'' | None \<Rightarrow> op_ok ())"
    by (auto split: option.split intro: place keeps_fail keeps_ok)
  then show ?thesis
    unfolding install_hub_files_def Let_def
    by (intro keeps_seq stopped_backup stopped_if_files stopped_move_path toml stopped_steps)
qed

text \<open>The errors that only the steps after the stop have.\<close>

definition late_error :: "ops_error \<Rightarrow> bool" where
  "late_error e \<longleftrightarrow> (\<exists>n. e = NotInTarball n) \<or> (\<exists>p. e = RunFails p)"

lemma early_errors [simp]:
  "\<not> late_error (NoReply url)" "\<not> late_error (BadReply url n)" "\<not> late_error (BadChecksum a b c)" "\<not> late_error (FileFails p)"
  "\<not> late_error NotRoot" "\<not> late_error (UnitRefused a b)"
  by (simp_all add: late_error_def)

abbreviation fails_early :: "'a ops \<Rightarrow> bool" where
  "fails_early f \<equiv> ops_triple (\<lambda>_. True) f (\<lambda>_ _. True) (\<lambda>e _. \<not> late_error e)"

named_theorems early_rules \<open>operations that fail with other errors\<close>

lemma early_bind [early_rules]: "fails_early f \<Longrightarrow> (\<And>x. fails_early (g x)) \<Longrightarrow> fails_early (op_bind f g)"
  by (rule ops_bind_rule)

lemma early_seq [early_rules]: "fails_early f \<Longrightarrow> fails_early g \<Longrightarrow> fails_early (op_seq f g)"
  by (rule ops_seq_rule)

lemma early_basic [early_rules]:
  "fails_early (op_ok x)" "fails_early (op_get k)" "fails_early (op_files p f)"
  "fails_early (op_http pl url)" "fails_early (sha256_file to p)" "fails_early (op_some (NoChecksum n) v)" "fails_early (op_some NoWebDist w)"
  by (auto simp: ops_triple_def op_ok_def op_get_def op_files_def op_http_def sha256_file_def ok_or_def op_some_def op_lift_def
      late_error_def split: prod.split sum.split option.split)

lemma early_fails [early_rules]:
  "\<not> late_error e \<Longrightarrow> fails_early (op_fail e)"
  "fails_early (op_lift (release_arch pl))" "fails_early (ensure_user failure)"
  by (auto simp: ops_triple_def op_fail_def op_lift_def release_arch_def ensure_user_def op_ok_def late_error_def split: option.split)

lemma early_ensure_dir [early_rules]: "fails_early (ensure_dir pl d)"
  by (auto simp: ops_triple_def ensure_dir_def op_files_def late_error_def split: prod.split)

lemma early_dirs [early_rules]: "fails_early (ensure_dirs pl ds)"
  unfolding ensure_dirs_def by (induction ds) (simp_all add: early_rules)

lemma early_download [early_rules]: "fails_early (download_and_verify pl to now repo version asset)"
proof -
  have "fails_early (download_text pl url)" for url
    by (auto simp: ops_triple_def download_text_def op_bind_def op_http_def op_lift_def late_error_def split: prod.split http_answer.split)
  moreover have "fails_early (download_to_file pl now url p)" for url p
    unfolding download_to_file_def
    by (intro early_rules) (auto split: http_answer.split intro!: early_rules)
  ultimately show ?thesis
    unfolding download_and_verify_def Let_def
    by (intro early_rules) (auto intro!: early_rules)
qed

lemma early_extract [early_rules]: "fails_early (extract_tar_gz pl to now archive d)"
  by (auto simp: ops_triple_def extract_tar_gz_def late_error_def split: option.split prod.split)

lemma early_fetch [early_rules]: "fails_early (fetch_release pl to now repo version asset dirs user)"
  unfolding fetch_release_def Let_def by (intro early_rules)

lemma early_extracted [early_rules]: "fails_early (extracted d n)"
  unfolding extracted_def by (rule early_basic)

lemma early_lock [early_rules]: "fails_early (acquire_lock pl now)"
proof -
  have "fails_early (\<lambda>h. case op_files p f h of (Inl e, h) \<Rightarrow> (Inl e, h)
      | (Inr _, h) \<Rightarrow> if ho_lock h then (Inl (Locked p), h) else (Inr (), h\<lparr>ho_lock := True\<rparr>))" for p f
    by (auto simp: ops_triple_def op_files_def late_error_def split: prod.split)
  then show ?thesis unfolding acquire_lock_def Let_def by (intro early_rules)
qed

lemma stop_stops: "ops_triple (\<lambda>_. True) (stop_if_active ''proxy-panel-hub'') (\<lambda>_. hub_stopped) (\<lambda>e _. \<not> late_error e)"
  by (simp add: ops_triple_def stop_if_active_def op_bind_def op_seq_def systemd_is_active_def op_get_def systemd_stop_def op_ok_def
      hub_stopped_def unit_name_def ends_with_def)

lemma with_temp_errors:
  assumes "ops_triple (\<lambda>_. True) f (\<lambda>_ _. True) E" and "\<And>e h m. E e h \<Longrightarrow> E e (h\<lparr>ho_machine := m\<rparr>)" and "\<And>p h. E (FileFails p) h"
  shows "ops_triple (\<lambda>_. True) (with_temp pl to f) (\<lambda>_ _. True) E"
proof -
  have files: "ops_triple (\<lambda>_. True) (op_files p g) (\<lambda>_ _. True) E" for p g
    using assms(3) by (simp add: ops_triple_def op_files_def split: prod.split)
  have "ops_triple (\<lambda>_. True) (\<lambda>h. case f h of (r, h) \<Rightarrow> (r, h\<lparr>ho_machine := drop_tree (to_tmp to) (ho_machine h)\<rparr>)) (\<lambda>_ _. True) E"
  proof (rule ops_tripleI)
    fix h
    obtain r h' where r: "f h = (r, h')" by fastforce
    show "case (case f h of (r, h) \<Rightarrow> (r, h\<lparr>ho_machine := drop_tree (to_tmp to) (ho_machine h)\<rparr>)) of
        (Inr x, h') \<Rightarrow> True | (Inl e, h') \<Rightarrow> E e h'"
      using ops_triple_results(2) [OF assms(1) TrueI] assms(2) r by (cases r) auto
  qed
  then show ?thesis unfolding with_temp_def by (rule ops_seq_rule [OF files])
qed

text \<open>
  The hub is stopped before its backup is made and before the archive is looked through. When the
  archive has no binary, or the old binary cannot be asked for its version, the installation ends there
  and the hub that ran before stays down; unlike an upgrade, an installation puts nothing back.
\<close>

theorem failed_installation_leaves_hub_stopped:
  assumes "install_hub pl to now secret unit_text reload_ok user version repo h = (Inl e, h')" and "late_error e"
  shows "''proxy-panel-hub.service'' \<notin> set (ho_active h')"
proof -
  let ?E = "\<lambda>e h. late_error e \<longrightarrow> hub_stopped h"
  have early: "ops_triple (\<lambda>_. True) f (\<lambda>_ _. True) ?E" if "fails_early f" for f :: "'x ops"
    using that by (rule ops_conseq) simp_all
  have stop: "ops_triple (\<lambda>_. True) (stop_if_active ''proxy-panel-hub'') (\<lambda>_. hub_stopped) ?E"
    by (rule ops_conseq [OF stop_stops]) simp_all
  have files: "ops_triple hub_stopped (install_hub_files pl to now secret unit_text reload_ok a b c) (\<lambda>_. hub_stopped) ?E" for a b c
    by (rule ops_conseq [OF stopped_hub_files]) simp_all
  have any: "ops_triple hub_stopped (op_seq (if was_active then systemd_restart to ''proxy-panel-hub'' else op_ok ())
      (op_seq (op_pure (prune_backups pl BACKUP_DIR ''proxy-panel-hub'')) (op_pure (prune_backups pl BACKUP_DIR ''proxy-panel'')))) (\<lambda>_ _. True) ?E"
    for was_active
    by (auto simp: ops_triple_def op_seq_def op_bind_def systemd_restart_def op_ok_def op_pure_def late_error_def)
  let ?body = "\<lambda>arch. op_bind (fetch_release pl to now repo version (''proxy-panel-hub-linux-'' @ arch @ ''.tar.gz'')
      [BIN_DIR, ETC_DIR, OPT_DIR, join_path OPT_DIR ''web/dist'', BACKUP_DIR] user) (\<lambda>d.
      op_bind (extracted d ''proxy-panel-hub'') (\<lambda>hub_src. op_bind (extracted d ''proxy-panel'') (\<lambda>cli_src.
      op_bind (op_bind (op_get (\<lambda>h. find_web_dist d (ho_machine h))) (op_some NoWebDist)) (\<lambda>web_src.
      op_bind (stop_if_active ''proxy-panel-hub'') (\<lambda>was_active.
      op_seq (install_hub_files pl to now secret unit_text reload_ok hub_src cli_src web_src)
        (op_seq (if was_active then systemd_restart to ''proxy-panel-hub'' else op_ok ())
          (op_seq (op_pure (prune_backups pl BACKUP_DIR ''proxy-panel-hub'')) (op_pure (prune_backups pl BACKUP_DIR ''proxy-panel''))))))))) "
  have body: "ops_triple (\<lambda>_. True) (?body arch) (\<lambda>_ _. True) ?E" for arch
    by (rule ops_bind_rule [OF early [OF early_fetch]], rule ops_bind_rule [OF early [OF early_extracted]],
        rule ops_bind_rule [OF early [OF early_extracted]], rule ops_bind_rule [OF early [OF early_bind [OF early_basic(2) early_basic(7)]]],
        rule ops_bind_rule [OF stop], rule ops_seq_rule [OF files], rule any)
  have temp: "ops_triple (\<lambda>_. True) (with_temp pl to (?body arch)) (\<lambda>_ _. True) ?E" for arch
    by (rule with_temp_errors [OF body]) (simp_all add: hub_stopped_def)
  obtain h1 h2 where run: "op_bind (op_lift (release_arch pl)) (\<lambda>arch. with_temp pl to (?body arch)) h1 = (Inl e, h2)" "h' = release_lock h2"
  proof -
    obtain r0 h0 where l: "acquire_lock pl now h = (r0, h0)" by fastforce
    have "r0 = Inr ()"
      using assms l ops_triple_results(2) [OF early_lock TrueI]
      by (cases r0) (auto simp: install_hub_def require_root_def op_seq_def op_bind_def [of "op_ok ()"] op_bind_def [of "op_fail NotRoot"]
          op_bind_def [of "acquire_lock pl now"] op_ok_def op_fail_def split: if_splits)
    then show ?thesis
      using that assms l by (auto simp: install_hub_def require_root_def op_seq_def [of "op_ok ()"] op_seq_def [of "op_fail NotRoot"]
          op_seq_def [of "acquire_lock pl now"] op_bind_def [of "op_ok ()"] op_bind_def [of "op_fail NotRoot"]
          op_bind_def [of "acquire_lock pl now"] op_ok_def op_fail_def split: if_splits prod.splits)
  qed
  define prog where "prog = op_bind (op_lift (release_arch pl)) (\<lambda>arch. with_temp pl to (?body arch))"
  have prog: "ops_triple (\<lambda>_. True) prog (\<lambda>_ _. True) ?E"
    unfolding prog_def by (rule ops_bind_rule [OF early [OF early_fails(2)] temp])
  have "prog h1 = (Inl e, h2)" using run(1) unfolding prog_def .
  from ops_triple_results(2) [OF prog TrueI this] assms(2) have "hub_stopped h2" by blast
  then show ?thesis by (simp add: hub_stopped_def run(2) release_lock_def)
qed

text \<open>A release of the hub whose archive has the console and no binary.\<close>

definition empty_release :: platform where
  "empty_release = upkeep_platform\<lparr>pf_http := (\<lambda>k url. Answer 200 (if k = 1 then ''abc  proxy-panel-hub-linux-x86_64.tar.gz'' else ''archive''))\<rparr>"

definition console_only :: host_tools where
  "console_only = (upkeep_tools [])\<lparr>to_untar := (\<lambda>_. Some ([''web/dist''], []))\<rparr>"

definition hub_host :: host where
  "hub_host = install_host\<lparr>ho_active := [''proxy-panel-hub.service'']\<rparr>"

theorem failed_installation_leaves_hub_stopped_witness:
  "ho_active hub_host = [''proxy-panel-hub.service'']
   \<and> fst (install_hub empty_release console_only 7 ''secret'' ''unit'' True None ''2.0.0'' ''owner/name'' hub_host) = Inl (NotInTarball ''proxy-panel-hub'')
   \<and> ''proxy-panel-hub.service'' \<notin> set (ho_active (snd (install_hub empty_release console_only 7 ''secret'' ''unit'' True None ''2.0.0'' ''owner/name'' hub_host)))"
proof -
  let ?r = "install_hub empty_release console_only 7 ''secret'' ''unit'' True None ''2.0.0'' ''owner/name'' hub_host"
  have e: "fst ?r = Inl (NotInTarball ''proxy-panel-hub'')" by code_simp
  then have "?r = (Inl (NotInTarball ''proxy-panel-hub''), snd ?r)" by (metis prod.collapse)
  then have "''proxy-panel-hub.service'' \<notin> set (ho_active (snd ?r))"
    by (rule failed_installation_leaves_hub_stopped) (simp add: late_error_def)
  then show ?thesis using e by (simp add: hub_host_def)
qed

end
