(* ===== verification/DataUpgrade.thy ===== *)
theory DataUpgrade
  imports Releases
begin

text \<open>
  The upgrades of the stored data (pp-db, upgrade.rs): what a hub or \<open>init-db\<close> does to a database
  that an older version wrote, after the schema migrations. The version that wrote it is the row
  \<open>app_version\<close> of \<open>system_meta\<close>. A run happens at one time \<open>now\<close>; \<open>content\<close> is the text of
  templates/singbox_builtin.json, which the build embeds.
\<close>

section \<open>Versions\<close>

text \<open>\<open>Ord\<close> of vectors of numbers, and of booleans (\<open>false\<close> before \<open>true\<close>).\<close>

fun cmp_segments :: "nat list \<Rightarrow> nat list \<Rightarrow> ordering" where
  "cmp_segments [] [] = Same"
| "cmp_segments [] (y # ys) = Lesser"
| "cmp_segments (x # xs) [] = Greater"
| "cmp_segments (x # xs) (y # ys) =
     (if x < y then Lesser else if y < x then Greater else cmp_segments xs ys)"

definition cmp_bool :: "bool \<Rightarrow> bool \<Rightarrow> ordering" where
  "cmp_bool a b = (if a = b then Same else if b then Lesser else Greater)"

fun ordering_reverse :: "ordering \<Rightarrow> ordering" where
  "ordering_reverse Lesser = Greater"
| "ordering_reverse Same = Same"
| "ordering_reverse Greater = Lesser"

definition ordering_then :: "ordering \<Rightarrow> ordering \<Rightarrow> ordering" where
  "ordering_then a b = (if a = Same then b else a)"

text \<open>The numbers of a version, and whether it has a pre-release part.\<close>

definition version_parts :: "string \<Rightarrow> nat list \<times> bool" where
  "version_parts s =
     (let v = dropWhile (\<lambda>c. c = CHR ''v'') s;
          (base, pre) = (case split_once (CHR ''-'') v of Some (b, _) \<Rightarrow> (b, True) | None \<Rightarrow> (v, False))
      in (List.map_filter (parse_uint u64_max) (split_on (CHR ''.'') base), pre))"

definition compare_versions :: "string \<Rightarrow> string \<Rightarrow> ordering" where
  "compare_versions a b =
     (case (version_parts a, version_parts b) of ((sa, pa), (sb, pb)) \<Rightarrow>
        ordering_then (cmp_segments sa sb) (ordering_reverse (cmp_bool pa pb)))"

section \<open>The state\<close>

record system_meta =
  sm_key :: string
  sm_value :: string
  sm_updated_at :: tstamp

record upgrade_store =
  so_db :: db
  so_meta :: "system_meta list"

definition VERSION_KEY :: string where "VERSION_KEY = ''app_version''"
definition LEGACY_BASELINE_VERSION :: string where "LEGACY_BASELINE_VERSION = ''0.1.0''"

definition get_system_version :: "upgrade_store \<Rightarrow> string option" where
  "get_system_version st = map_option sm_value (tbl_find sm_key VERSION_KEY (so_meta st))"

definition set_system_version :: "tstamp \<Rightarrow> string \<Rightarrow> upgrade_store \<Rightarrow> upgrade_store" where
  "set_system_version now version st =
     st\<lparr>so_meta :=
       (if tbl_find sm_key VERSION_KEY (so_meta st) \<noteq> None
        then tbl_update sm_key VERSION_KEY (\<lambda>m. m\<lparr>sm_value := version, sm_updated_at := now\<rparr>) (so_meta st)
        else tbl_insert \<lparr>sm_key = VERSION_KEY, sm_value = version, sm_updated_at = now\<rparr> (so_meta st))\<rparr>"

section \<open>The steps\<close>

text \<open>Only the entries of an array that are not the text \<open>xray\<close>; the row is written when there are fewer.\<close>

definition drop_xray_core :: "node \<Rightarrow> node" where
  "drop_xray_core n =
     (case as_array (n_cores_available n) of
        None \<Rightarrow> n
      | Some cores \<Rightarrow>
          (let filtered = filter (\<lambda>c. as_str c \<noteq> Some ''xray'') cores in
           if length filtered \<noteq> length cores then n\<lparr>n_cores_available := JArr filtered\<rparr> else n))"

definition purge_xray_configs :: "db \<Rightarrow> db" where
  "purge_xray_configs d =
     (let config_ids = map pc_id (filter (\<lambda>c. pc_core_type c = ''xray'') (db_protocol_configs d));
          binding_ids = map nb_id (filter (\<lambda>b. nb_protocol_config_id b \<in> set config_ids) (db_node_bindings d))
      in if config_ids = [] then d
         else
           (let d = (if binding_ids = [] then d
                     else d\<lparr>db_binding_groups := tbl_delete (\<lambda>g. bg_node_binding_id g \<in> set binding_ids) (db_binding_groups d),
                            db_node_bindings := tbl_delete (\<lambda>b. nb_id b \<in> set binding_ids) (db_node_bindings d)\<rparr>)
            in d\<lparr>db_protocol_configs := tbl_delete (\<lambda>c. pc_id c \<in> set config_ids) (db_protocol_configs d)\<rparr>))"

definition purge_xray_data :: "db \<Rightarrow> db" where
  "purge_xray_data d =
     (let d = purge_xray_configs d in
      d\<lparr>db_core_versions := tbl_delete (\<lambda>v. cv_core_type v = ''xray'') (db_core_versions d),
        db_agent_logs := tbl_delete (\<lambda>l. al_target l = ''core-xray'') (db_agent_logs d),
        db_nodes := map drop_xray_core (db_nodes d)\<rparr>)"

definition refresh_singbox_builtin_template :: "string \<Rightarrow> tstamp \<Rightarrow> db \<Rightarrow> db" where
  "refresh_singbox_builtin_template content now d =
     d\<lparr>db_templates :=
       map (\<lambda>t. if sp_is_builtin t \<and> sp_format t = ''sing-box''
                then t\<lparr>sp_base_config := Some content, sp_updated_at := now\<rparr> else t) (db_templates d)\<rparr>"

text \<open>A step's release, its name, and what it does to the data.\<close>

definition UPGRADE_STEPS :: "string \<Rightarrow> tstamp \<Rightarrow> (string \<times> string \<times> (db \<Rightarrow> db)) list" where
  "UPGRADE_STEPS content now =
     [(''0.2.0'', ''purge_xray_data'', purge_xray_data),
      (''0.3.1'', ''refresh_singbox_builtin_template'', refresh_singbox_builtin_template content now),
      (''0.3.2'', ''refresh_singbox_builtin_template_v2'', refresh_singbox_builtin_template content now),
      (''0.3.3'', ''refresh_singbox_builtin_template_v3'', refresh_singbox_builtin_template content now)]"

text \<open>The steps of the releases after \<open>stored\<close>, up to \<open>app\<close>.\<close>

definition step_due :: "string \<Rightarrow> string \<Rightarrow> string \<Rightarrow> bool" where
  "step_due stored app introduced \<longleftrightarrow>
     compare_versions stored introduced = Lesser \<and> compare_versions introduced app \<noteq> Greater"

definition upgrade_step :: "tstamp \<Rightarrow> string \<Rightarrow> string \<Rightarrow> string \<times> string \<times> (db \<Rightarrow> db) \<Rightarrow> upgrade_store \<Rightarrow> upgrade_store" where
  "upgrade_step now stored app step st =
     (case step of (introduced, _, run) \<Rightarrow>
        if step_due stored app introduced
        then set_system_version now introduced (st\<lparr>so_db := run (so_db st)\<rparr>) else st)"

definition run_versioned_upgrades :: "string \<Rightarrow> tstamp \<Rightarrow> string \<Rightarrow> upgrade_store \<Rightarrow> upgrade_store" where
  "run_versioned_upgrades content now app st =
     (let stored = unwrap_or (get_system_version st) LEGACY_BASELINE_VERSION;
          st = fold (upgrade_step now stored app) (UPGRADE_STEPS content now) st
      in if get_system_version st \<noteq> Some app then set_system_version now app st else st)"

section \<open>Lemmas\<close>

lemma cmp_segments_swap: "cmp_segments ys xs = ordering_reverse (cmp_segments xs ys)"
  by (induction xs ys rule: cmp_segments.induct) auto

lemma cmp_segments_Same [simp]: "cmp_segments xs ys = Same \<longleftrightarrow> xs = ys"
  by (induction xs ys rule: cmp_segments.induct) auto

lemma cmp_bool_swap: "cmp_bool b a = ordering_reverse (cmp_bool a b)"
  by (auto simp: cmp_bool_def)

lemma ordering_reverse_twice [simp]: "ordering_reverse (ordering_reverse a) = a"
  by (cases a) auto

lemma ordering_reverse_then:
  "ordering_reverse (ordering_then a b) = ordering_then (ordering_reverse a) (ordering_reverse b)"
  by (cases a) (auto simp: ordering_then_def)

lemma compare_versions_swap: "compare_versions b a = ordering_reverse (compare_versions a b)"
proof -
  obtain sa pa sb pb where "version_parts a = (sa, pa)" "version_parts b = (sb, pb)" by fastforce
  then show ?thesis
    using cmp_segments_swap [of sa sb] cmp_bool_swap [of pa pb]
    by (simp add: compare_versions_def ordering_reverse_then)
qed

lemma step_due_same: "\<not> step_due app app introduced"
  using compare_versions_swap [of introduced app] by (auto simp: step_due_def)

lemma set_system_version_db [simp]: "so_db (set_system_version now v st) = so_db st"
  by (simp add: set_system_version_def)

lemma get_set_system_version [simp]: "get_system_version (set_system_version now v st) = Some v"
  by (auto simp: get_system_version_def set_system_version_def tbl_find_update tbl_find_insert)

lemma get_system_version_db [simp]: "get_system_version (st\<lparr>so_db := d\<rparr>) = get_system_version st"
  by (simp add: get_system_version_def)

lemma run_sets_version: "get_system_version (run_versioned_upgrades content now app st) = Some app"
  by (simp add: run_versioned_upgrades_def Let_def)

text \<open>The data after a run: the steps that were due, in order.\<close>

fun run_due :: "(string \<Rightarrow> bool) \<Rightarrow> (string \<times> string \<times> (db \<Rightarrow> db)) list \<Rightarrow> db \<Rightarrow> db" where
  "run_due due [] d = d"
| "run_due due ((i, _, run) # steps) d = run_due due steps (if due i then run d else d)"

lemma fold_upgrade_db:
  "so_db (fold (upgrade_step now stored app) steps st) = run_due (step_due stored app) steps (so_db st)"
  by (induction steps arbitrary: st) (auto simp: upgrade_step_def)

lemma run_upgrades_db:
  "so_db (run_versioned_upgrades content now app st) =
   run_due (step_due (unwrap_or (get_system_version st) LEGACY_BASELINE_VERSION) app) (UPGRADE_STEPS content now) (so_db st)"
  by (simp add: run_versioned_upgrades_def Let_def fold_upgrade_db)

lemma run_due_none: "(\<And>i. i \<in> fst ` set steps \<Longrightarrow> \<not> P i) \<Longrightarrow> run_due P steps d = d"
  by (induction P steps d rule: run_due.induct) auto

lemma run_due_cong: "(\<And>i. i \<in> fst ` set steps \<Longrightarrow> P i = Q i) \<Longrightarrow> run_due P steps d = run_due Q steps d"
  by (induction P steps d rule: run_due.induct) auto

lemma fold_upgrade_none:
  "\<forall>(i, _, _) \<in> set steps. \<not> step_due stored app i \<Longrightarrow> fold (upgrade_step now stored app) steps st = st"
  by (induction steps) (auto simp: upgrade_step_def)

section \<open>Properties\<close>

text \<open>Nothing is left of the core that was dropped.\<close>

definition xray_free :: "db \<Rightarrow> bool" where
  "xray_free d \<longleftrightarrow>
     (\<forall>c \<in> set (db_protocol_configs d). pc_core_type c \<noteq> ''xray'')
     \<and> (\<forall>v \<in> set (db_core_versions d). cv_core_type v \<noteq> ''xray'')
     \<and> (\<forall>l \<in> set (db_agent_logs d). al_target l \<noteq> ''core-xray'')
     \<and> (\<forall>n \<in> set (db_nodes d). \<forall>cores. n_cores_available n = JArr cores \<longrightarrow> JStr ''xray'' \<notin> set cores)"

lemma drop_xray_core_free: "n_cores_available (drop_xray_core n) = JArr cores \<Longrightarrow> JStr ''xray'' \<notin> set cores"
proof -
  assume *: "n_cores_available (drop_xray_core n) = JArr cores"
  show ?thesis
  proof (cases "as_array (n_cores_available n)")
    case None
    then show ?thesis using * by (simp add: drop_xray_core_def)
  next
    case (Some xs)
    let ?p = "\<lambda>c. as_str c \<noteq> Some ''xray''"
    have "cores = filter ?p xs"
    proof (cases "length (filter ?p xs) = length xs")
      case True
      then have "filter ?p xs = xs" by (metis length_filter_less less_irrefl filter_True)
      with True Some * show ?thesis by (cases "n_cores_available n") (auto simp: drop_xray_core_def)
    next
      case False
      with Some * show ?thesis by (simp add: drop_xray_core_def)
    qed
    then show ?thesis by auto
  qed
qed

lemma purge_xray_data_free: "xray_free (purge_xray_data d)"
proof -
  have "\<forall>c \<in> set (db_protocol_configs (purge_xray_configs d)). pc_core_type c \<noteq> ''xray''"
    by (auto simp: purge_xray_configs_def Let_def tbl_delete_def filter_empty_conv)
  then show ?thesis
    by (auto simp: xray_free_def purge_xray_data_def Let_def tbl_delete_def drop_xray_core_free)
qed

lemma refresh_xray_free [simp]: "xray_free (refresh_singbox_builtin_template content now d) = xray_free d"
  by (simp add: xray_free_def refresh_singbox_builtin_template_def)

text \<open>The order of versions, by their numbers and then with the pre-releases first.\<close>

lemma cmp_segments_Lesser: "cmp_segments xs ys = Lesser \<longleftrightarrow> xs < ys"
  by (induction xs ys rule: cmp_segments.induct) auto

lemma cmp_segments_Greater: "cmp_segments xs ys = Greater \<longleftrightarrow> ys < xs"
  by (induction xs ys rule: cmp_segments.induct) auto

definition version_key :: "string \<Rightarrow> nat list \<times> nat" where
  "version_key v = (fst (version_parts v), if snd (version_parts v) then 0 else 1)"

definition version_less :: "string \<Rightarrow> string \<Rightarrow> bool" where
  "version_less a b \<longleftrightarrow> fst (version_key a) < fst (version_key b)
     \<or> fst (version_key a) = fst (version_key b) \<and> snd (version_key a) < snd (version_key b)"

lemma compare_versions_Lesser: "compare_versions a b = Lesser \<longleftrightarrow> version_less a b"
  by (auto simp: compare_versions_def version_less_def version_key_def ordering_then_def cmp_bool_def
    cmp_segments_Lesser split: prod.splits if_splits)

lemma compare_versions_Greater: "compare_versions a b = Greater \<longleftrightarrow> version_less b a"
  using compare_versions_Lesser [of b a] compare_versions_swap [of a b]
  by (metis ordering_reverse.simps(1,3) ordering_reverse_twice)

lemma version_less_trans: "version_less a b \<Longrightarrow> version_less b c \<Longrightarrow> version_less a c"
  by (auto simp: version_less_def)

lemma version_less_linear: "\<not> version_less a b \<Longrightarrow> version_less a c \<Longrightarrow> version_less b c"
  by (auto simp: version_less_def)

lemma step_due_iff: "step_due stored app i \<longleftrightarrow> version_less stored i \<and> \<not> version_less app i"
  by (simp add: step_due_def compare_versions_Lesser compare_versions_Greater)

text \<open>Steps in the order of their releases: the ones due on the way to a version, and then from there.\<close>

lemma run_due_staged:
  assumes "sorted_wrt (\<lambda>x y. version_less (fst x) (fst y)) steps"
    and "\<not> version_less v1 stored" and "\<not> version_less v2 v1"
  shows "run_due (step_due v1 v2) steps (run_due (step_due stored v1) steps d) = run_due (step_due stored v2) steps d"
  using assms(1)
proof (induction steps arbitrary: d)
  case (Cons s steps)
  obtain i nm run where s: "s = (i, nm, run)" by (cases s)
  show ?case
  proof (cases "version_less v1 i")
    case False
    then have "\<not> version_less v2 i" using version_less_linear [OF assms(3), of i] by blast
    with False have "\<not> step_due v1 v2 i" "step_due stored v1 i = step_due stored v2 i"
      by (simp_all add: step_due_iff)
    then show ?thesis using Cons s by auto
  next
    case True
    have "version_less v1 j" if "j \<in> fst ` set (s # steps)" for j
      using that True s Cons.prems version_less_trans [OF True, of j] by auto
    then have due: "\<not> step_due stored v1 j" "step_due v1 v2 j = step_due stored v2 j" if "j \<in> fst ` set (s # steps)" for j
      using that version_less_linear [OF assms(2), of j] by (simp_all add: step_due_iff)
    have "run_due (step_due stored v1) (s # steps) d = d" by (rule run_due_none) (rule due(1))
    moreover have "run_due (step_due v1 v2) (s # steps) d = run_due (step_due stored v2) (s # steps) d"
      by (rule run_due_cong) (rule due(2))
    ultimately show ?thesis by simp
  qed
qed simp

lemma digit_vals:
  "digit_val (CHR ''0'') = Some 0" "digit_val (CHR ''1'') = Some 1" "digit_val (CHR ''2'') = Some 2"
  "digit_val (CHR ''3'') = Some 3" "digit_val (CHR ''4'') = Some 4"
  by code_simp+

lemma release_parts:
  "version_parts ''0.1.0'' = ([0, 1, 0], False)" "version_parts ''0.2.0'' = ([0, 2, 0], False)"
  "version_parts ''0.3.1'' = ([0, 3, 1], False)" "version_parts ''0.3.2'' = ([0, 3, 2], False)"
  "version_parts ''0.3.3'' = ([0, 3, 3], False)" "version_parts ''0.4.0'' = ([0, 4, 0], False)"
  by (simp_all add: version_parts_def List.map_filter_def parse_uint_def digit_vals u64_max_def)

lemma upgrade_steps_sorted: "sorted_wrt (\<lambda>x y. version_less (fst x) (fst y)) (UPGRADE_STEPS content now)"
  by (simp add: UPGRADE_STEPS_def version_less_def version_key_def release_parts)

lemma rerun_changes_nothing:
  "run_versioned_upgrades content now' app (run_versioned_upgrades content now app st) = run_versioned_upgrades content now app st"
    (is "_ = ?st")
proof -
  have "get_system_version ?st = Some app" by (rule run_sets_version)
  moreover from this have "fold (upgrade_step now' app app) (UPGRADE_STEPS content now') ?st = ?st"
    by (intro fold_upgrade_none) (auto simp: step_due_same)
  ultimately show ?thesis by (simp add: run_versioned_upgrades_def [of content now'] Let_def unwrap_or_def)
qed


text \<open>A database of version 0.2.0 with a built-in template that was changed.\<close>

definition old_template :: subscription_template where
  "old_template = \<lparr>sp_id = ''t1'', sp_name = ''Builtin SingBox'', sp_format = ''sing-box'', sp_base_config = Some ''old'',
     sp_filter_rules = None, sp_custom_headers = None, sp_is_builtin = True, sp_is_enabled = True, sp_created_at = 0,
     sp_updated_at = 0\<rparr>"

definition old_store :: upgrade_store where
  "old_store = \<lparr>so_db = empty_db\<lparr>db_templates := [old_template]\<rparr>,
     so_meta = [\<lparr>sm_key = ''app_version'', sm_value = ''0.2.0'', sm_updated_at = 0\<rparr>]\<rparr>"

lemma old_store_version: "get_system_version old_store = Some ''0.2.0''"
  by (simp add: get_system_version_def tbl_find_def old_store_def VERSION_KEY_def)


text \<open>
  A binary of an older version records its own version; the next run of the newer one takes its steps again,
  over what was changed in between.
\<close>

lemma steps_run_again_after_downgrade:
  "get_system_version (run_versioned_upgrades content now ''0.3.2'' (run_versioned_upgrades content now ''0.4.0'' st)) = Some ''0.3.2''
   \<and> step_due ''0.3.2'' ''0.4.0'' ''0.3.3''"
  by (simp add: run_sets_version step_due_iff version_less_def version_key_def release_parts)

section \<open>The purge\<close>

definition xray_ids :: "db \<Rightarrow> uuid set" where
  "xray_ids d = set (map pc_id (filter (\<lambda>c. pc_core_type c = ''xray'') (db_protocol_configs d)))"

definition xray_bindings :: "db \<Rightarrow> uuid set" where
  "xray_bindings d = set (map nb_id (filter (\<lambda>b. nb_protocol_config_id b \<in> xray_ids d) (db_node_bindings d)))"

lemma tbl_delete_ids:
  assumes "distinct (map key t)"
  shows "tbl_delete (\<lambda>r. key r \<in> set (map key (filter P t))) t = tbl_delete P t"
  using assms by (auto simp: tbl_delete_def distinct_map inj_on_def intro!: filter_cong)

lemma tbl_delete_nothing [simp]: "tbl_delete (\<lambda>r. False) t = t"
  by (simp add: tbl_delete_def)

lemma purge_xray_configs_eq:
  "purge_xray_configs d =
     d\<lparr>db_binding_groups := tbl_delete (\<lambda>g. bg_node_binding_id g \<in> xray_bindings d) (db_binding_groups d),
       db_node_bindings := tbl_delete (\<lambda>b. nb_id b \<in> xray_bindings d) (db_node_bindings d),
       db_protocol_configs := tbl_delete (\<lambda>c. pc_id c \<in> xray_ids d) (db_protocol_configs d)\<rparr>"
proof -
  define cs where "cs = map pc_id (filter (\<lambda>c. pc_core_type c = ''xray'') (db_protocol_configs d))"
  define bs where "bs = map nb_id (filter (\<lambda>b. nb_protocol_config_id b \<in> set cs) (db_node_bindings d))"
  have ids: "set cs = xray_ids d" by (auto simp: cs_def xray_ids_def)
  then have bids: "set bs = xray_bindings d" by (auto simp: bs_def xray_bindings_def)
  have eq: "purge_xray_configs d =
     (if cs = [] then d
      else (let d = (if bs = [] then d
                     else d\<lparr>db_binding_groups := tbl_delete (\<lambda>g. bg_node_binding_id g \<in> set bs) (db_binding_groups d),
                            db_node_bindings := tbl_delete (\<lambda>b. nb_id b \<in> set bs) (db_node_bindings d)\<rparr>)
            in d\<lparr>db_protocol_configs := tbl_delete (\<lambda>c. pc_id c \<in> set cs) (db_protocol_configs d)\<rparr>))"
    unfolding purge_xray_configs_def cs_def [symmetric] Let_def bs_def [symmetric] ..
  show ?thesis
  proof (cases "cs = []")
    case True
    then have "xray_ids d = {}" "xray_bindings d = {}" using ids by (auto simp: xray_bindings_def)
    then show ?thesis using True by (simp add: eq)
  next
    case False
    show ?thesis
    proof (cases "bs = []")
      case True
      then have "xray_bindings d = {}" using bids by simp
      then show ?thesis using True False by (simp add: eq ids)
    qed (use False in \<open>simp add: eq ids bids\<close>)
  qed
qed

lemma purge_xray_configs_tables:
  assumes "distinct (map pc_id (db_protocol_configs d))" and "distinct (map nb_id (db_node_bindings d))"
  shows "db_protocol_configs (purge_xray_configs d) = filter (\<lambda>c. pc_core_type c \<noteq> ''xray'') (db_protocol_configs d)"
    and "db_node_bindings (purge_xray_configs d) = filter (\<lambda>b. nb_protocol_config_id b \<notin> xray_ids d) (db_node_bindings d)"
    and "db_binding_groups (purge_xray_configs d) = filter (\<lambda>g. bg_node_binding_id g \<notin> xray_bindings d) (db_binding_groups d)"
proof -
  have "tbl_delete (\<lambda>c. pc_id c \<in> xray_ids d) (db_protocol_configs d) = tbl_delete (\<lambda>c. pc_core_type c = ''xray'') (db_protocol_configs d)"
    unfolding xray_ids_def by (rule tbl_delete_ids [OF assms(1)])
  then show "db_protocol_configs (purge_xray_configs d) = filter (\<lambda>c. pc_core_type c \<noteq> ''xray'') (db_protocol_configs d)"
    by (simp add: purge_xray_configs_eq tbl_delete_def)
  have "tbl_delete (\<lambda>b. nb_id b \<in> xray_bindings d) (db_node_bindings d)
      = tbl_delete (\<lambda>b. nb_protocol_config_id b \<in> xray_ids d) (db_node_bindings d)"
    unfolding xray_bindings_def by (rule tbl_delete_ids [OF assms(2)])
  then show "db_node_bindings (purge_xray_configs d) = filter (\<lambda>b. nb_protocol_config_id b \<notin> xray_ids d) (db_node_bindings d)"
    by (simp add: purge_xray_configs_eq tbl_delete_def)
  show "db_binding_groups (purge_xray_configs d) = filter (\<lambda>g. bg_node_binding_id g \<notin> xray_bindings d) (db_binding_groups d)"
    by (simp add: purge_xray_configs_eq tbl_delete_def)
qed

text \<open>After the purge come the steps that only rewrite built-in templates.\<close>

lemma refresh_tables [simp]:
  "db_protocol_configs (refresh_singbox_builtin_template content now d) = db_protocol_configs d"
  "db_node_bindings (refresh_singbox_builtin_template content now d) = db_node_bindings d"
  "db_binding_groups (refresh_singbox_builtin_template content now d) = db_binding_groups d"
  "db_clients (refresh_singbox_builtin_template content now d) = db_clients d"
  by (simp_all add: refresh_singbox_builtin_template_def)

lemma purge_xray_data_tables [simp]:
  "db_protocol_configs (purge_xray_data d) = db_protocol_configs (purge_xray_configs d)"
  "db_node_bindings (purge_xray_data d) = db_node_bindings (purge_xray_configs d)"
  "db_binding_groups (purge_xray_data d) = db_binding_groups (purge_xray_configs d)"
  "db_clients (purge_xray_data d) = db_clients d"
  by (simp_all add: purge_xray_data_def purge_xray_configs_eq Let_def)

text \<open>
  C36: A database of a version before 0.2.0 that is opened by 0.2.0 or later keeps no trace of the dropped
  core: no configuration, no installed version, no status log, no entry in a node's list of cores. Exactly
  the bindings of the deleted configurations and the group links of these bindings go with them; the other
  configurations, bindings and links, and all clients, stay as they were.
\<close>

theorem upgrade_purges_xray:
  assumes "step_due (unwrap_or (get_system_version st) LEGACY_BASELINE_VERSION) app ''0.2.0''"
    and "distinct (map pc_id (db_protocol_configs (so_db st)))" and "distinct (map nb_id (db_node_bindings (so_db st)))"
  shows "let d = so_db st; d' = so_db (run_versioned_upgrades content now app st) in
     xray_free d'
     \<and> db_protocol_configs d' = filter (\<lambda>c. pc_core_type c \<noteq> ''xray'') (db_protocol_configs d)
     \<and> db_node_bindings d' = filter (\<lambda>b. nb_protocol_config_id b \<notin> xray_ids d) (db_node_bindings d)
     \<and> db_binding_groups d' = filter (\<lambda>g. bg_node_binding_id g \<notin> xray_bindings d) (db_binding_groups d)
     \<and> db_clients d' = db_clients d"
  using assms purge_xray_configs_tables [OF assms(2,3)]
  by (simp add: run_upgrades_db UPGRADE_STEPS_def Let_def purge_xray_data_free)

definition xray_config :: protocol_config where
  "xray_config = \<lparr>pc_id = ''p1'', pc_name = ''old'', pc_protocol_type = ''vless_reality'', pc_core_type = ''xray'',
     pc_listen_port = 443, pc_listen_address = ''::'', pc_settings = JNull, pc_tls_settings = None\<rparr>"

definition xray_store :: upgrade_store where
  "xray_store = \<lparr>so_db = empty_db\<lparr>db_protocol_configs := [xray_config, xray_config\<lparr>pc_id := ''p2'', pc_core_type := ''mihomo''\<rparr>],
       db_node_bindings := [\<lparr>nb_id = ''b1'', nb_node_id = ''n1'', nb_protocol_config_id = ''p1'', nb_override_settings = None, nb_is_active = True\<rparr>,
         \<lparr>nb_id = ''b2'', nb_node_id = ''n1'', nb_protocol_config_id = ''p2'', nb_override_settings = None, nb_is_active = True\<rparr>],
       db_binding_groups := [\<lparr>bg_node_binding_id = ''b1'', bg_group_id = ''g''\<rparr>, \<lparr>bg_node_binding_id = ''b2'', bg_group_id = ''g''\<rparr>]\<rparr>,
     so_meta = []\<rparr>"

lemma upgrade_purges_xray_witness:
  "let d' = so_db (run_versioned_upgrades ''new'' 5 ''0.4.0'' xray_store) in
     xray_free d' \<and> map pc_id (db_protocol_configs d') = [''p2''] \<and> map nb_id (db_node_bindings d') = [''b2'']
     \<and> map bg_node_binding_id (db_binding_groups d') = [''b2'']"
proof -
  have version: "get_system_version xray_store = None"
    by (simp add: get_system_version_def xray_store_def tbl_find_def)
  have "step_due LEGACY_BASELINE_VERSION ''0.4.0'' ''0.2.0''"
    by (simp add: step_due_iff version_less_def version_key_def release_parts LEGACY_BASELINE_VERSION_def)
  then have due: "step_due (unwrap_or (get_system_version xray_store) LEGACY_BASELINE_VERSION) ''0.4.0'' ''0.2.0''"
    by (simp add: version)
  have ids: "xray_ids (so_db xray_store) = {''p1''}" "xray_bindings (so_db xray_store) = {''b1''}"
    by (simp_all add: xray_ids_def xray_bindings_def xray_store_def xray_config_def del: set_map set_filter)
  have "map pc_id (filter (\<lambda>c. pc_core_type c \<noteq> ''xray'') (db_protocol_configs (so_db xray_store))) = [''p2'']"
    "map nb_id (filter (\<lambda>b. nb_protocol_config_id b \<notin> {''p1''}) (db_node_bindings (so_db xray_store))) = [''b2'']"
    "map bg_node_binding_id (filter (\<lambda>g. bg_node_binding_id g \<notin> {''b1''}) (db_binding_groups (so_db xray_store))) = [''b2'']"
    "distinct (map pc_id (db_protocol_configs (so_db xray_store)))" "distinct (map nb_id (db_node_bindings (so_db xray_store)))"
    by (simp_all add: xray_store_def xray_config_def)
  then show ?thesis
    using upgrade_purges_xray [OF due, of "''new''" 5] by (simp add: Let_def ids)
qed

end
