(* ===== verification/Schema.thy ===== *)
theory Schema
  imports DataUpgrade
begin

text \<open>
  The schema of the database and the statements that change it: what pp-db's migrations hand to
  sea-query, and what the two databases make of it. A statement fails, with the database's message, or is
  executed as a whole. Statements that change rows are functions on the part of the rows they read; the
  one that asks for the storage class of a value (\<open>typeof\<close>, a function of SQLite) fails where the database
  has no such function, which the environment says.
\<close>

section \<open>Schemas\<close>

datatype db_backend = BackendSqlite | BackendPostgres

datatype col_type =
  TUuid | TString | TStringLen nat | TText | TInteger | TBigInteger | TBoolean | TFloat | TTimestamp | TJson

datatype col_default = Constant string | CurrentTimestamp

record column =
  cn_name :: string
  cn_type :: col_type
  cn_not_null :: bool
  cn_primary :: bool
  cn_unique :: bool
  cn_default :: "col_default option"

record table_index =
  ix_name :: string
  ix_table :: string
  ix_cols :: "string list"
  ix_unique :: bool

datatype fk_action = FkCascade | FkSetNull

record foreign_key =
  fk_name :: string
  fk_table :: string
  fk_col :: string
  fk_to_table :: string
  fk_to_col :: string
  fk_on_delete :: fk_action

record check_rule =
  kr_table :: string
  kr_name :: string
  kr_col :: string
  kr_values :: "string list"

record schema =
  sc_tables :: "(string \<times> column list) list"
  sc_indexes :: "table_index list"
  sc_fks :: "foreign_key list"
  sc_checks :: "check_rule list"

definition empty_schema :: schema where
  "empty_schema = \<lparr>sc_tables = [], sc_indexes = [], sc_fks = [], sc_checks = []\<rparr>"

definition table_cols :: "string \<Rightarrow> schema \<Rightarrow> column list option" where
  "table_cols t s = map_of (sc_tables s) t"

definition has_cols :: "string \<Rightarrow> string list \<Rightarrow> schema \<Rightarrow> bool" where
  "has_cols t ns s =
     (case table_cols t s of None \<Rightarrow> False | Some cs \<Rightarrow> list_all (\<lambda>n. n \<in> set (map cn_name cs)) ns)"

definition upd_cols :: "string \<Rightarrow> (column list \<Rightarrow> column list) \<Rightarrow> schema \<Rightarrow> schema" where
  "upd_cols t f s = s\<lparr>sc_tables := map (\<lambda>(n, cs). if n = t then (n, f cs) else (n, cs)) (sc_tables s)\<rparr>"

section \<open>Statements on the schema\<close>

datatype ddl =
    CreateTable bool string "column list"
  | DropTable string
  | RenameTable string string
  | AddColumn bool string column
  | DropColumn string string
  | CreateIndex table_index
  | DropIndex string string
  | CreateForeignKey foreign_key
  | DropForeignKey string string
  | AddCheck check_rule
  | DropCheck bool string string

text \<open>A column that SQLite adds to a table: it may not be a key, and needs a constant default when it is not nullable.\<close>

definition sqlite_can_add :: "column \<Rightarrow> bool" where
  "sqlite_can_add c \<longleftrightarrow> \<not> cn_primary c \<and> \<not> cn_unique c \<and> cn_default c \<noteq> Some CurrentTimestamp
     \<and> (cn_not_null c \<longrightarrow> cn_default c \<noteq> None)"

definition column_used :: "string \<Rightarrow> string \<Rightarrow> schema \<Rightarrow> bool" where
  "column_used t n s \<longleftrightarrow>
     list_ex (\<lambda>c. cn_name c = n \<and> (cn_primary c \<or> cn_unique c)) (unwrap_or (table_cols t s) [])
     \<or> list_ex (\<lambda>i. ix_table i = t \<and> n \<in> set (ix_cols i)) (sc_indexes s)"

text \<open>Dropping a table or a column takes the indexes, keys and checks on it along.\<close>

definition drop_table :: "string \<Rightarrow> schema \<Rightarrow> schema" where
  "drop_table t s =
     s\<lparr>sc_tables := filter (\<lambda>p. fst p \<noteq> t) (sc_tables s), sc_indexes := filter (\<lambda>i. ix_table i \<noteq> t) (sc_indexes s),
       sc_fks := filter (\<lambda>f. fk_table f \<noteq> t) (sc_fks s), sc_checks := filter (\<lambda>k. kr_table k \<noteq> t) (sc_checks s)\<rparr>"

definition drop_column :: "string \<Rightarrow> string \<Rightarrow> schema \<Rightarrow> schema" where
  "drop_column t n s =
     (upd_cols t (filter (\<lambda>c. cn_name c \<noteq> n)) s)
       \<lparr>sc_indexes := filter (\<lambda>i. \<not> (ix_table i = t \<and> n \<in> set (ix_cols i))) (sc_indexes s),
        sc_fks := filter (\<lambda>f. \<not> (fk_table f = t \<and> fk_col f = n)) (sc_fks s),
        sc_checks := filter (\<lambda>k. \<not> (kr_table k = t \<and> kr_col k = n)) (sc_checks s)\<rparr>"

definition rename_table :: "string \<Rightarrow> string \<Rightarrow> schema \<Rightarrow> schema" where
  "rename_table a b s =
     s\<lparr>sc_tables := map (\<lambda>p. (if fst p = a then b else fst p, snd p)) (sc_tables s),
       sc_indexes := map (\<lambda>i. if ix_table i = a then i\<lparr>ix_table := b\<rparr> else i) (sc_indexes s),
       sc_fks := map (\<lambda>f. f\<lparr>fk_table := (if fk_table f = a then b else fk_table f),
                            fk_to_table := (if fk_to_table f = a then b else fk_to_table f)\<rparr>) (sc_fks s),
       sc_checks := map (\<lambda>k. if kr_table k = a then k\<lparr>kr_table := b\<rparr> else k) (sc_checks s)\<rparr>"

text \<open>
  \<open>vals t n\<close> are the texts in a column of the rows, which a new check must allow. SQLite has no statement
  for a key or a check on a table that is there.
\<close>

fun exec_ddl :: "db_backend \<Rightarrow> (string \<Rightarrow> string \<Rightarrow> string list) \<Rightarrow> ddl \<Rightarrow> schema \<Rightarrow> string + schema" where
  "exec_ddl b vals (CreateTable if_missing t cs) s =
     (if table_cols t s \<noteq> None then (if if_missing then Inr s else Inl ''table already exists'')
      else Inr (s\<lparr>sc_tables := sc_tables s @ [(t, cs)]\<rparr>))"
| "exec_ddl b vals (DropTable t) s =
     (if table_cols t s = None then Inl ''no such table''
      else if b = BackendPostgres \<and> list_ex (\<lambda>f. fk_to_table f = t \<and> fk_table f \<noteq> t) (sc_fks s)
      then Inl ''other objects depend on it''
      else Inr (drop_table t s))"
| "exec_ddl b vals (RenameTable t u) s =
     (if table_cols t s = None then Inl ''no such table''
      else if table_cols u s \<noteq> None then Inl ''table already exists''
      else Inr (rename_table t u s))"
| "exec_ddl b vals (AddColumn if_missing t c) s =
     (if table_cols t s = None then Inl ''no such table''
      else if has_cols t [cn_name c] s then (if if_missing then Inr s else Inl ''duplicate column name'')
      else if b = BackendSqlite \<and> \<not> sqlite_can_add c then Inl ''cannot add the column''
      else Inr (upd_cols t (\<lambda>cs. cs @ [c]) s))"
| "exec_ddl b vals (DropColumn t n) s =
     (if \<not> has_cols t [n] s then Inl ''no such column''
      else if b = BackendSqlite \<and> column_used t n s then Inl ''error in table after drop column''
      else Inr (drop_column t n s))"
| "exec_ddl b vals (CreateIndex i) s =
     (if list_ex (\<lambda>j. ix_name j = ix_name i) (sc_indexes s) then Inl ''index already exists''
      else if \<not> has_cols (ix_table i) (ix_cols i) s then Inl ''no such column''
      else Inr (s\<lparr>sc_indexes := sc_indexes s @ [i]\<rparr>))"
| "exec_ddl b vals (DropIndex n t) s =
     (if \<not> list_ex (\<lambda>j. ix_name j = n) (sc_indexes s) then Inl ''no such index''
      else Inr (s\<lparr>sc_indexes := filter (\<lambda>j. ix_name j \<noteq> n) (sc_indexes s)\<rparr>))"
| "exec_ddl b vals (CreateForeignKey f) s =
     (if b = BackendSqlite then Inl ''no foreign key on an existing table''
      else if \<not> has_cols (fk_table f) [fk_col f] s \<or> \<not> has_cols (fk_to_table f) [fk_to_col f] s then Inl ''no such column''
      else Inr (s\<lparr>sc_fks := sc_fks s @ [f]\<rparr>))"
| "exec_ddl b vals (DropForeignKey n t) s =
     (if b = BackendSqlite then Inl ''no foreign key on an existing table''
      else if \<not> list_ex (\<lambda>f. fk_name f = n \<and> fk_table f = t) (sc_fks s) then Inl ''no such constraint''
      else Inr (s\<lparr>sc_fks := filter (\<lambda>f. \<not> (fk_name f = n \<and> fk_table f = t)) (sc_fks s)\<rparr>))"
| "exec_ddl b vals (AddCheck k) s =
     (if b = BackendSqlite then Inl ''no constraint on an existing table''
      else if \<not> has_cols (kr_table k) [kr_col k] s then Inl ''no such column''
      else if \<not> list_all (\<lambda>v. v \<in> set (kr_values k)) (vals (kr_table k) (kr_col k)) then Inl ''violated by some row''
      else Inr (s\<lparr>sc_checks := sc_checks s @ [k]\<rparr>))"
| "exec_ddl b vals (DropCheck if_exists t n) s =
     (if b = BackendSqlite then Inl ''no constraint on an existing table''
      else if \<not> if_exists \<and> \<not> list_ex (\<lambda>k. kr_table k = t \<and> kr_name k = n) (sc_checks s) then Inl ''no such constraint''
      else Inr (s\<lparr>sc_checks := filter (\<lambda>k. \<not> (kr_table k = t \<and> kr_name k = n)) (sc_checks s)\<rparr>))"

section \<open>Columns\<close>

definition column_def :: "string \<Rightarrow> col_type \<Rightarrow> column" where
  "column_def n t =
     \<lparr>cn_name = n, cn_type = t, cn_not_null = False, cn_primary = False, cn_unique = False, cn_default = None\<rparr>"

definition not_null :: "column \<Rightarrow> column" where "not_null c = c\<lparr>cn_not_null := True\<rparr>"
definition primary_key :: "column \<Rightarrow> column" where "primary_key c = c\<lparr>cn_primary := True\<rparr>"
definition unique_key :: "column \<Rightarrow> column" where "unique_key c = c\<lparr>cn_unique := True\<rparr>"
definition default_value :: "string \<Rightarrow> column \<Rightarrow> column" where "default_value v c = c\<lparr>cn_default := Some (Constant v)\<rparr>"
definition default_now :: "column \<Rightarrow> column" where "default_now c = c\<lparr>cn_default := Some CurrentTimestamp\<rparr>"

definition pk_uuid :: "string \<Rightarrow> column" where "pk_uuid n = primary_key (not_null (column_def n TUuid))"
definition uuid_col :: "string \<Rightarrow> column" where "uuid_col n = not_null (column_def n TUuid)"
definition uuid_null :: "string \<Rightarrow> column" where "uuid_null n = column_def n TUuid"
definition string_col :: "string \<Rightarrow> column" where "string_col n = not_null (column_def n TString)"
definition string_uniq :: "string \<Rightarrow> column" where "string_uniq n = unique_key (not_null (column_def n TString))"
definition string_null :: "string \<Rightarrow> column" where "string_null n = column_def n TString"
definition text_col :: "string \<Rightarrow> column" where "text_col n = not_null (column_def n TText)"
definition integer_col :: "string \<Rightarrow> column" where "integer_col n = not_null (column_def n TInteger)"
definition integer_null :: "string \<Rightarrow> column" where "integer_null n = column_def n TInteger"
definition big_integer :: "string \<Rightarrow> column" where "big_integer n = not_null (column_def n TBigInteger)"
definition big_integer_null :: "string \<Rightarrow> column" where "big_integer_null n = column_def n TBigInteger"
definition boolean_col :: "string \<Rightarrow> column" where "boolean_col n = not_null (column_def n TBoolean)"
definition float_col :: "string \<Rightarrow> column" where "float_col n = not_null (column_def n TFloat)"
definition timestamp_col :: "string \<Rightarrow> column" where "timestamp_col n = default_now (not_null (column_def n TTimestamp))"
definition timestamp_null :: "string \<Rightarrow> column" where "timestamp_null n = column_def n TTimestamp"
definition json_col :: "string \<Rightarrow> column" where "json_col n = not_null (column_def n TJson)"
definition json_null :: "string \<Rightarrow> column" where "json_null n = column_def n TJson"

definition plain_index :: "string \<Rightarrow> string \<Rightarrow> string list \<Rightarrow> ddl" where
  "plain_index n t cs = CreateIndex \<lparr>ix_name = n, ix_table = t, ix_cols = cs, ix_unique = False\<rparr>"

definition unique_index :: "string \<Rightarrow> string \<Rightarrow> string list \<Rightarrow> ddl" where
  "unique_index n t cs = CreateIndex \<lparr>ix_name = n, ix_table = t, ix_cols = cs, ix_unique = True\<rparr>"

end
