(* ===== verification/Migrations.thy ===== *)
theory Migrations
  imports Schema
begin

text \<open>
  The schema migrations (pp-db, migration/): one definition per table that is created, and for each
  migration the statements of its \<open>up\<close> and its \<open>down\<close>. Names of tables and columns are the snake case that
  sea-query derives from the Rust names. The rows that migrations read or write are those of \<open>db\<close>, the core
  versions that protocol configurations were pinned to, by the configuration's id, and which template ids are
  stored as blobs; \<open>fresh\<close> gives the id of a new built-in template by its format. The contents of
  templates/ that the build embeds, the time, and the printer of a UUID are in the environment.
\<close>

section \<open>The environment and the rows\<close>

record mig_env =
  me_backend :: db_backend
  me_typeof :: bool
  me_singbox_template :: string
  me_clash_template :: string
  me_fresh :: "string \<Rightarrow> uuid"
  me_now :: tstamp
  me_show_uuid :: "string \<Rightarrow> string"

record mig_rows =
  mr_db :: db
  mr_core_version :: "(uuid \<times> string) list"
  mr_blob_ids :: "string list"

datatype mig_step = Ddl ddl | Rows "mig_env \<Rightarrow> mig_rows \<Rightarrow> mig_rows" | FixBlobIds

record migration =
  mi_name :: string
  mi_up :: "db_backend \<Rightarrow> mig_step list"
  mi_down :: "db_backend \<Rightarrow> mig_step list"

definition upd_mig_db :: "(db \<Rightarrow> db) \<Rightarrow> mig_rows \<Rightarrow> mig_rows" where
  "upd_mig_db f r = r\<lparr>mr_db := f (mr_db r)\<rparr>"

section \<open>The tables\<close>

definition users_columns :: "column list" where
  "users_columns =
    [pk_uuid ''id'', string_uniq ''username'', string_col ''password_hash'', string_col ''role'',
     string_col ''status'', timestamp_col ''created_at'', timestamp_col ''updated_at'']"

definition nodes_columns :: "column list" where
  "nodes_columns =
    [pk_uuid ''id'', string_col ''name'', string_col ''hostname'', string_col ''address'',
     string_col ''token_hash'', json_col ''cores_available'', json_null ''labels'', string_col ''status'',
     timestamp_null ''last_seen_at'', timestamp_col ''created_at'', timestamp_col ''updated_at'']"

definition protocol_configs_columns :: "column list" where
  "protocol_configs_columns =
    [pk_uuid ''id'', string_col ''name'', string_col ''protocol_type'', string_col ''core_type'',
     integer_col ''listen_port'', string_col ''listen_address'', json_col ''settings'',
     json_null ''tls_settings'', timestamp_col ''created_at'', timestamp_col ''updated_at'']"

definition node_bindings_columns :: "column list" where
  "node_bindings_columns =
    [pk_uuid ''id'', uuid_col ''node_id'', uuid_col ''protocol_config_id'', json_null ''override_settings'',
     boolean_col ''is_active'', timestamp_col ''created_at'']"

definition clients_columns :: "column list" where
  "clients_columns =
    [pk_uuid ''id'', uuid_col ''user_id'', string_col ''name'', string_null ''email'',
     big_integer ''traffic_limit_bytes'', big_integer ''traffic_used_bytes'', timestamp_null ''expiry_date'',
     integer_null ''reset_day'', string_col ''status'', timestamp_col ''created_at'',
     timestamp_col ''updated_at'']"

definition subscription_templates_columns :: "column list" where
  "subscription_templates_columns =
    [pk_uuid ''id'', string_col ''name'', string_col ''format'', json_null ''base_config'',
     json_null ''filter_rules'', json_null ''custom_headers'', timestamp_col ''created_at'',
     timestamp_col ''updated_at'']"

definition subscriptions_columns :: "column list" where
  "subscriptions_columns =
    [pk_uuid ''id'', uuid_col ''client_id'', uuid_col ''template_id'', string_col ''token'',
     string_col ''url_path'', timestamp_null ''expire_at'', boolean_col ''is_active'',
     timestamp_null ''last_accessed_at'', timestamp_col ''created_at'']"

definition traffic_records_columns :: "column list" where
  "traffic_records_columns =
    [pk_uuid ''id'', uuid_null ''node_id'', uuid_null ''protocol_config_id'', uuid_null ''client_id'',
     timestamp_col ''hour_bucket'', big_integer ''upload_bytes'', big_integer ''download_bytes'',
     timestamp_col ''created_at'']"

definition host_metrics_columns :: "column list" where
  "host_metrics_columns =
    [pk_uuid ''id'', uuid_col ''node_id'', timestamp_col ''timestamp'', float_col ''cpu_percent'',
     big_integer ''mem_used'', big_integer ''mem_total'', big_integer ''disk_used'', big_integer ''disk_total'',
     big_integer ''net_rx'', big_integer ''net_tx'', float_col ''load_avg1'', float_col ''load_avg5'',
     float_col ''load_avg15'']"

definition system_logs_columns :: "column list" where
  "system_logs_columns =
    [pk_uuid ''id'', string_col ''level'', string_col ''source'', text_col ''message'', json_null ''metadata'',
     timestamp_col ''created_at'']"

definition node_groups_columns :: "column list" where
  "node_groups_columns =
    [pk_uuid ''id'', string_col ''name'', string_null ''description'', json_null ''labels'',
     timestamp_col ''created_at'', timestamp_col ''updated_at'']"

definition client_group_bindings_columns :: "column list" where
  "client_group_bindings_columns =
    [pk_uuid ''id'', uuid_col ''client_id'', uuid_col ''group_id'', timestamp_col ''created_at'']"

definition node_group_bindings_columns :: "column list" where
  "node_group_bindings_columns =
    [pk_uuid ''id'', uuid_col ''node_id'', uuid_col ''group_id'', timestamp_col ''created_at'']"

definition client_online_sessions_columns :: "column list" where
  "client_online_sessions_columns =
    [pk_uuid ''id'', uuid_col ''client_id'', uuid_col ''node_id'', string_col ''ip_address'',
     string_null ''inbound_tag'', timestamp_col ''connected_at'', timestamp_col ''last_active_at'']"

definition node_user_usage_records_columns :: "column list" where
  "node_user_usage_records_columns =
    [pk_uuid ''id'', uuid_col ''node_id'', uuid_col ''client_id'', timestamp_col ''hour_bucket'',
     big_integer ''upload_bytes'', big_integer ''download_bytes'', timestamp_col ''created_at'']"

definition api_keys_columns :: "column list" where
  "api_keys_columns =
    [pk_uuid ''id'', string_col ''name'', string_col ''key_hash'', json_col ''scopes'',
     json_null ''ip_allowlist'', integer_null ''rate_limit'', timestamp_null ''expires_at'',
     boolean_col ''is_active'', timestamp_col ''created_at'', timestamp_col ''updated_at'']"

definition webhooks_columns :: "column list" where
  "webhooks_columns =
    [pk_uuid ''id'', string_col ''name'', string_col ''url'', json_col ''events'', string_null ''secret'',
     boolean_col ''is_active'', timestamp_col ''created_at'', timestamp_col ''updated_at'']"

definition inbound_hosts_columns :: "column list" where
  "inbound_hosts_columns =
    [pk_uuid ''id'', uuid_col ''protocol_config_id'', uuid_col ''node_id'', string_col ''remark'',
     string_col ''address'', integer_col ''port'', string_null ''sni'', string_null ''host'',
     string_null ''path'', string_null ''security'', string_null ''alpn'', string_null ''fingerprint'',
     default_value ''true'' (boolean_col ''is_active''), not_null (column_def ''created_at'' TTimestamp),
     not_null (column_def ''updated_at'' TTimestamp)]"

definition node_binding_group_bindings_columns :: "column list" where
  "node_binding_group_bindings_columns =
    [pk_uuid ''id'', uuid_col ''node_binding_id'', uuid_col ''group_id'', timestamp_col ''created_at'']"

definition agent_logs_columns :: "column list" where
  "agent_logs_columns =
    [pk_uuid ''id'', uuid_col ''node_id'', string_col ''level'', string_col ''target'', text_col ''message'',
     json_null ''fields'', timestamp_col ''created_at'']"


section \<open>2025\<close>

definition initial_tables_up :: "db_backend \<Rightarrow> mig_step list" where
  "initial_tables_up b = map Ddl
     [CreateTable True ''users'' users_columns,
      CreateTable True ''nodes'' nodes_columns,
      CreateTable True ''protocol_configs'' protocol_configs_columns,
      CreateTable True ''node_bindings'' node_bindings_columns,
      plain_index ''idx_node_bindings_node'' ''node_bindings'' [''node_id''],
      plain_index ''idx_node_bindings_config'' ''node_bindings'' [''protocol_config_id''],
      CreateTable True ''clients'' clients_columns,
      CreateTable True ''subscription_templates'' subscription_templates_columns,
      CreateTable True ''subscriptions'' subscriptions_columns,
      CreateTable True ''traffic_records'' traffic_records_columns,
      plain_index ''idx_traffic_hour'' ''traffic_records'' [''hour_bucket''],
      CreateTable True ''host_metrics'' host_metrics_columns,
      CreateTable True ''system_logs'' system_logs_columns]"

definition initial_tables_down :: "db_backend \<Rightarrow> mig_step list" where
  "initial_tables_down b = map (Ddl \<circ> DropTable)
     [''system_logs'', ''host_metrics'', ''traffic_records'', ''subscriptions'', ''subscription_templates'',
      ''clients'', ''node_bindings'', ''protocol_configs'', ''nodes'', ''users'']"

definition node_groups_up :: "db_backend \<Rightarrow> mig_step list" where
  "node_groups_up b = map Ddl
     [CreateTable True ''node_groups'' node_groups_columns,
      CreateTable True ''client_group_bindings'' client_group_bindings_columns,
      plain_index ''idx_client_group_bindings_client'' ''client_group_bindings'' [''client_id''],
      plain_index ''idx_client_group_bindings_group'' ''client_group_bindings'' [''group_id''],
      CreateTable True ''node_group_bindings'' node_group_bindings_columns,
      plain_index ''idx_node_group_bindings_node'' ''node_group_bindings'' [''node_id''],
      plain_index ''idx_node_group_bindings_group'' ''node_group_bindings'' [''group_id'']]"

definition node_groups_down :: "db_backend \<Rightarrow> mig_step list" where
  "node_groups_down b = map (Ddl \<circ> DropTable) [''node_group_bindings'', ''client_group_bindings'', ''node_groups'']"

definition online_sessions_up :: "db_backend \<Rightarrow> mig_step list" where
  "online_sessions_up b = map Ddl
     [CreateTable True ''client_online_sessions'' client_online_sessions_columns,
      plain_index ''idx_online_sessions_client'' ''client_online_sessions'' [''client_id''],
      plain_index ''idx_online_sessions_node'' ''client_online_sessions'' [''node_id''],
      plain_index ''idx_online_sessions_last_active'' ''client_online_sessions'' [''last_active_at'']]"

definition online_sessions_down :: "db_backend \<Rightarrow> mig_step list" where
  "online_sessions_down b = [Ddl (DropTable ''client_online_sessions'')]"

definition client_reset_strategy_up :: "db_backend \<Rightarrow> mig_step list" where
  "client_reset_strategy_up b = map Ddl
     [AddColumn False ''clients'' (default_value ''no_reset'' (string_col ''data_limit_reset_strategy'')),
      AddColumn False ''clients'' (timestamp_null ''last_traffic_reset_time''),
      AddColumn False ''clients'' (default_value ''0'' (big_integer ''all_time_used_bytes''))]"

definition client_reset_strategy_down :: "db_backend \<Rightarrow> mig_step list" where
  "client_reset_strategy_down b = map (Ddl \<circ> DropColumn ''clients'')
     [''data_limit_reset_strategy'', ''last_traffic_reset_time'', ''all_time_used_bytes'']"

text \<open>This migration's own \<open>float\<close> does not say \<open>not_null\<close>.\<close>

definition usage_coefficient_up :: "db_backend \<Rightarrow> mig_step list" where
  "usage_coefficient_up b = map Ddl
     [AddColumn False ''nodes'' (default_value ''1.0'' (column_def ''usage_coefficient'' TFloat)),
      CreateTable True ''node_user_usage_records'' node_user_usage_records_columns,
      plain_index ''idx_node_user_usage_node'' ''node_user_usage_records'' [''node_id''],
      plain_index ''idx_node_user_usage_client'' ''node_user_usage_records'' [''client_id''],
      plain_index ''idx_node_user_usage_hour'' ''node_user_usage_records'' [''hour_bucket''],
      unique_index ''idx_node_user_usage_unique'' ''node_user_usage_records'' [''node_id'', ''client_id'', ''hour_bucket'']]"

definition usage_coefficient_down :: "db_backend \<Rightarrow> mig_step list" where
  "usage_coefficient_down b = map Ddl [DropTable ''node_user_usage_records'', DropColumn ''nodes'' ''usage_coefficient'']"

definition max_devices_up :: "db_backend \<Rightarrow> mig_step list" where
  "max_devices_up b = map Ddl
     [AddColumn False ''clients'' (integer_null ''max_devices''),
      plain_index ''idx_online_sessions_client_ip'' ''client_online_sessions'' [''client_id'', ''ip_address'']]"

definition max_devices_down :: "db_backend \<Rightarrow> mig_step list" where
  "max_devices_down b = map Ddl
     [DropIndex ''idx_online_sessions_client_ip'' ''client_online_sessions'', DropColumn ''clients'' ''max_devices'']"

definition api_keys_up :: "db_backend \<Rightarrow> mig_step list" where
  "api_keys_up b = map Ddl
     [CreateTable True ''api_keys'' api_keys_columns, plain_index ''idx_api_keys_hash'' ''api_keys'' [''key_hash'']]"

definition api_keys_down :: "db_backend \<Rightarrow> mig_step list" where
  "api_keys_down b = [Ddl (DropTable ''api_keys'')]"

definition webhooks_up :: "db_backend \<Rightarrow> mig_step list" where
  "webhooks_up b = map Ddl
     [CreateTable True ''webhooks'' webhooks_columns, plain_index ''idx_webhooks_active'' ''webhooks'' [''is_active'']]"

definition webhooks_down :: "db_backend \<Rightarrow> mig_step list" where
  "webhooks_down b = [Ddl (DropTable ''webhooks'')]"

text \<open>Keys between tables, where the database can add them to tables that are there.\<close>

definition template_key :: foreign_key where
  "template_key = \<lparr>fk_name = ''fk_subscriptions_template'', fk_table = ''subscriptions'', fk_col = ''template_id'',
     fk_to_table = ''subscription_templates'', fk_to_col = ''id'', fk_on_delete = FkSetNull\<rparr>"

definition constraint_keys :: "foreign_key list" where
  "constraint_keys =
     [\<lparr>fk_name = ''fk_bindings_node'', fk_table = ''node_bindings'', fk_col = ''node_id'',
       fk_to_table = ''nodes'', fk_to_col = ''id'', fk_on_delete = FkCascade\<rparr>,
      \<lparr>fk_name = ''fk_bindings_protocol_config'', fk_table = ''node_bindings'', fk_col = ''protocol_config_id'',
       fk_to_table = ''protocol_configs'', fk_to_col = ''id'', fk_on_delete = FkCascade\<rparr>,
      \<lparr>fk_name = ''fk_subscriptions_client'', fk_table = ''subscriptions'', fk_col = ''client_id'',
       fk_to_table = ''clients'', fk_to_col = ''id'', fk_on_delete = FkCascade\<rparr>,
      template_key,
      \<lparr>fk_name = ''fk_traffic_records_node'', fk_table = ''traffic_records'', fk_col = ''node_id'',
       fk_to_table = ''nodes'', fk_to_col = ''id'', fk_on_delete = FkSetNull\<rparr>,
      \<lparr>fk_name = ''fk_traffic_records_client'', fk_table = ''traffic_records'', fk_col = ''client_id'',
       fk_to_table = ''clients'', fk_to_col = ''id'', fk_on_delete = FkSetNull\<rparr>,
      \<lparr>fk_name = ''fk_host_metrics_node'', fk_table = ''host_metrics'', fk_col = ''node_id'',
       fk_to_table = ''nodes'', fk_to_col = ''id'', fk_on_delete = FkCascade\<rparr>]"

definition constraint_indexes :: "ddl list" where
  "constraint_indexes =
     [unique_index ''idx_node_bindings_unique'' ''node_bindings'' [''node_id'', ''protocol_config_id''],
      unique_index ''idx_subscriptions_token'' ''subscriptions'' [''token''],
      plain_index ''idx_traffic_client'' ''traffic_records'' [''client_id''],
      plain_index ''idx_traffic_node'' ''traffic_records'' [''node_id''],
      plain_index ''idx_api_keys_is_active'' ''api_keys'' [''is_active'']]"

definition constraint_checks :: "check_rule list" where
  "constraint_checks =
     [\<lparr>kr_table = ''nodes'', kr_name = ''chk_nodes_status'', kr_col = ''status'',
       kr_values = [''connecting'', ''online'', ''degraded'', ''offline'']\<rparr>,
      \<lparr>kr_table = ''clients'', kr_name = ''chk_clients_status'', kr_col = ''status'',
       kr_values = [''active'', ''disabled'', ''limited'', ''expired'', ''on_hold'']\<rparr>,
      \<lparr>kr_table = ''protocol_configs'', kr_name = ''chk_protocol_configs_type'', kr_col = ''protocol_type'',
       kr_values = [''vmess'', ''vless_reality'', ''vless_vision'', ''vless_xhttp'', ''trojan'', ''shadowsocks2022'',
                    ''hysteria2'', ''tuic_v5'', ''anytls'']\<rparr>,
      \<lparr>kr_table = ''protocol_configs'', kr_name = ''chk_protocol_configs_core'', kr_col = ''core_type'',
       kr_values = [''xray'', ''sing-box'']\<rparr>]"

definition constraints_up :: "db_backend \<Rightarrow> mig_step list" where
  "constraints_up b =
     (if b \<noteq> BackendSqlite then map (Ddl \<circ> CreateForeignKey) constraint_keys else [])
     @ map Ddl constraint_indexes
     @ (if b \<noteq> BackendSqlite then map (Ddl \<circ> AddCheck) constraint_checks else [])"

text \<open>For SQLite all but the last of the indexes.\<close>

definition constraints_down :: "db_backend \<Rightarrow> mig_step list" where
  "constraints_down b =
     (let drop_indexes = map Ddl
            [DropIndex ''idx_node_bindings_unique'' ''node_bindings'', DropIndex ''idx_subscriptions_token'' ''subscriptions'',
             DropIndex ''idx_traffic_client'' ''traffic_records'', DropIndex ''idx_traffic_node'' ''traffic_records'']
      in if b = BackendSqlite then drop_indexes
         else map (\<lambda>k. Ddl (DropForeignKey (fk_name k) (fk_table k))) constraint_keys
              @ drop_indexes @ [Ddl (DropIndex ''idx_api_keys_is_active'' ''api_keys'')]
              @ map (\<lambda>k. Ddl (DropCheck True (kr_table k) (kr_name k))) constraint_checks)"

definition on_hold_up :: "db_backend \<Rightarrow> mig_step list" where
  "on_hold_up b = map Ddl
     [AddColumn False ''clients'' (big_integer_null ''on_hold_expire_duration_secs''),
      AddColumn False ''clients'' (timestamp_null ''on_hold_timeout''),
      AddColumn False ''nodes'' (uuid_null ''parent_id'')]"

definition on_hold_down :: "db_backend \<Rightarrow> mig_step list" where
  "on_hold_down b = map Ddl
     [DropColumn ''nodes'' ''parent_id'', DropColumn ''clients'' ''on_hold_timeout'',
      DropColumn ''clients'' ''on_hold_expire_duration_secs'']"

definition inbound_hosts_up :: "db_backend \<Rightarrow> mig_step list" where
  "inbound_hosts_up b = map Ddl
     [CreateTable False ''inbound_hosts'' inbound_hosts_columns,
      plain_index ''idx_inbound_hosts_config_node'' ''inbound_hosts'' [''protocol_config_id'', ''node_id'']]"

definition inbound_hosts_down :: "db_backend \<Rightarrow> mig_step list" where
  "inbound_hosts_down b = [Ddl (DropTable ''inbound_hosts'')]"

definition usage_rate_up :: "db_backend \<Rightarrow> mig_step list" where
  "usage_rate_up b = [Ddl (AddColumn False ''node_user_usage_records'' (default_value ''1.0'' (float_col ''rate'')))]"

definition usage_rate_down :: "db_backend \<Rightarrow> mig_step list" where
  "usage_rate_down b = [Ddl (DropColumn ''node_user_usage_records'' ''rate'')]"

definition template_id_up :: "db_backend \<Rightarrow> mig_step list" where
  "template_id_up b =
     (if b \<noteq> BackendSqlite then [Ddl (DropForeignKey ''fk_subscriptions_template'' ''subscriptions'')] else [])
     @ [Ddl (DropColumn ''subscriptions'' ''template_id'')]"

definition template_id_down :: "db_backend \<Rightarrow> mig_step list" where
  "template_id_down b =
     [Ddl (AddColumn False ''subscriptions'' (uuid_null ''template_id''))]
     @ (if b \<noteq> BackendSqlite then [Ddl (CreateForeignKey template_key)] else [])"

definition core_version_up :: "db_backend \<Rightarrow> mig_step list" where
  "core_version_up b = [Ddl (AddColumn False ''protocol_configs'' (string_null ''core_version''))]"

definition core_version_down :: "db_backend \<Rightarrow> mig_step list" where
  "core_version_down b = [Ddl (DropColumn ''protocol_configs'' ''core_version'')]"

definition binding_groups_up :: "db_backend \<Rightarrow> mig_step list" where
  "binding_groups_up b = map Ddl
     [DropTable ''node_group_bindings'',
      CreateTable True ''node_binding_group_bindings'' node_binding_group_bindings_columns,
      plain_index ''idx_node_binding_group_bindings_binding'' ''node_binding_group_bindings'' [''node_binding_id''],
      plain_index ''idx_node_binding_group_bindings_group'' ''node_binding_group_bindings'' [''group_id'']]"

definition binding_groups_down :: "db_backend \<Rightarrow> mig_step list" where
  "binding_groups_down b = map Ddl
     [DropTable ''node_binding_group_bindings'', CreateTable True ''node_group_bindings'' node_group_bindings_columns]"

definition node_domain_up :: "db_backend \<Rightarrow> mig_step list" where
  "node_domain_up b = [Ddl (AddColumn True ''nodes'' (string_null ''domain''))]"

definition node_domain_down :: "db_backend \<Rightarrow> mig_step list" where
  "node_domain_down b = [Ddl (DropColumn ''nodes'' ''domain'')]"

text \<open>The rows are copied to the new table as they are, the same way up and down.\<close>

definition template_text_columns :: "column list" where
  "template_text_columns =
     [primary_key (text_col ''id''), text_col ''name'', text_col ''format'', column_def ''base_config'' TText,
      column_def ''filter_rules'' TText, column_def ''custom_headers'' TText, text_col ''created_at'', text_col ''updated_at'']"

definition template_text_up :: "db_backend \<Rightarrow> mig_step list" where
  "template_text_up b = map Ddl
     [CreateTable False ''subscription_templates_new'' template_text_columns, DropTable ''subscription_templates'',
      RenameTable ''subscription_templates_new'' ''subscription_templates'']"

definition template_text_down :: "db_backend \<Rightarrow> mig_step list" where
  "template_text_down b = map Ddl
     [CreateTable False ''subscription_templates_new'' template_text_columns, DropTable ''subscription_templates'',
      RenameTable ''subscription_templates_new'' ''subscription_templates'']"

definition agent_logs_up :: "db_backend \<Rightarrow> mig_step list" where
  "agent_logs_up b = map Ddl
     [CreateTable True ''agent_logs'' agent_logs_columns,
      plain_index ''idx_agent_logs_node_id_created_at'' ''agent_logs'' [''node_id'', ''created_at'']]"

definition agent_logs_down :: "db_backend \<Rightarrow> mig_step list" where
  "agent_logs_down b = [Ddl (DropTable ''agent_logs'')]"

section \<open>Rows that migrations clean up\<close>

definition unsupported_types :: "string list" where
  "unsupported_types = [''vless_vision'', ''vmess'', ''trojan'', ''shadowsocks2022'', ''tuic_v5'']"

text \<open>The bindings first, by the configurations that are still there.\<close>

definition delete_unsupported :: "db \<Rightarrow> db" where
  "delete_unsupported d =
     (let gone = map pc_id (filter (\<lambda>c. pc_protocol_type c \<in> set unsupported_types) (db_protocol_configs d))
      in d\<lparr>db_node_bindings := tbl_delete (\<lambda>b. nb_protocol_config_id b \<in> set gone) (db_node_bindings d),
           db_protocol_configs := tbl_delete (\<lambda>c. pc_protocol_type c \<in> set unsupported_types) (db_protocol_configs d)\<rparr>)"

definition mark_user_templates :: "db \<Rightarrow> db" where
  "mark_user_templates d = d\<lparr>db_templates := map (\<lambda>t. t\<lparr>sp_is_builtin := False\<rparr>) (db_templates d)\<rparr>"

definition put_builtin_template :: "tstamp \<Rightarrow> uuid \<Rightarrow> string \<Rightarrow> string \<Rightarrow> string \<Rightarrow> db \<Rightarrow> db" where
  "put_builtin_template now new_id format name content d =
     (let builtin = (\<lambda>t. sp_is_builtin t \<and> sp_format t = format);
          ts = (if list_ex builtin (db_templates d)
                then map (\<lambda>t. if builtin t
                              then t\<lparr>sp_name := name, sp_base_config := Some content, sp_updated_at := now, sp_is_enabled := True\<rparr>
                              else t) (db_templates d)
                else tbl_insert \<lparr>sp_id = new_id, sp_name = name, sp_format = format, sp_base_config = Some content,
                       sp_filter_rules = None, sp_custom_headers = None, sp_is_builtin = True, sp_is_enabled = True,
                       sp_created_at = now, sp_updated_at = now\<rparr> (db_templates d))
      in d\<lparr>db_templates :=
           map (\<lambda>t. if \<not> sp_is_builtin t \<and> sp_format t = format \<and> sp_is_enabled t then t\<lparr>sp_is_enabled := False\<rparr> else t) ts\<rparr>)"

definition put_builtin_templates :: "mig_env \<Rightarrow> db \<Rightarrow> db" where
  "put_builtin_templates e d =
     fold (\<lambda>(format, name, content). put_builtin_template (me_now e) (me_fresh e format) format name content)
       [(''sing-box'', ''Builtin SingBox'', me_singbox_template e), (''clash'', ''Builtin Clash'', me_clash_template e)] d"

definition template_flags_up :: "db_backend \<Rightarrow> mig_step list" where
  "template_flags_up b =
     [Rows (\<lambda>e. upd_mig_db delete_unsupported),
      Ddl (AddColumn False ''subscription_templates'' (default_value ''0'' (integer_col ''is_builtin''))),
      Ddl (AddColumn False ''subscription_templates'' (default_value ''1'' (integer_col ''is_enabled''))),
      Rows (\<lambda>e. upd_mig_db mark_user_templates),
      Rows (\<lambda>e. upd_mig_db (put_builtin_templates e))]"

definition template_flags_down :: "db_backend \<Rightarrow> mig_step list" where
  "template_flags_down b =
     [Rows (\<lambda>e. upd_mig_db (\<lambda>d. d\<lparr>db_templates := tbl_delete sp_is_builtin (db_templates d)\<rparr>)),
      Ddl (DropColumn ''subscription_templates'' ''is_builtin''), Ddl (DropColumn ''subscription_templates'' ''is_enabled'')]"

text \<open>A blob of 16 bytes becomes the text of the UUID with these bytes; other blobs stay.\<close>

definition fix_blob_id :: "mig_env \<Rightarrow> string \<Rightarrow> mig_rows \<Rightarrow> mig_rows" where
  "fix_blob_id e blob r =
     (if length blob \<noteq> 16 then r
      else r\<lparr>mr_db := (mr_db r)\<lparr>db_templates := tbl_update sp_id blob (\<lambda>t. t\<lparr>sp_id := me_show_uuid e blob\<rparr>) (db_templates (mr_db r))\<rparr>,
             mr_blob_ids := filter (\<lambda>i. i \<noteq> blob) (mr_blob_ids r)\<rparr>)"

definition fix_blob_ids :: "mig_env \<Rightarrow> mig_rows \<Rightarrow> mig_rows" where
  "fix_blob_ids e r =
     fold (fix_blob_id e) (filter (\<lambda>i. i \<in> set (mr_blob_ids r)) (map sp_id (db_templates (mr_db r)))) r"

definition blob_ids_up :: "db_backend \<Rightarrow> mig_step list" where
  "blob_ids_up b = [FixBlobIds]"

definition blob_ids_down :: "db_backend \<Rightarrow> mig_step list" where
  "blob_ids_down b = []"

section \<open>2026\<close>

definition core_versions_up :: "db_backend \<Rightarrow> mig_step list" where
  "core_versions_up b = map Ddl
     [CreateTable True ''core_versions''
        [primary_key (not_null (column_def ''id'' TUuid)), not_null (column_def ''core_type'' TString),
         not_null (column_def ''version'' TString), not_null (column_def ''channel'' TString),
         default_now (not_null (column_def ''created_at'' TTimestamp))],
      unique_index ''idx_core_versions_type_version'' ''core_versions'' [''core_type'', ''version'']]"

definition core_versions_down :: "db_backend \<Rightarrow> mig_step list" where
  "core_versions_down b = [Ddl (DropTable ''core_versions'')]"

definition certificates_up :: "db_backend \<Rightarrow> mig_step list" where
  "certificates_up b = map Ddl
     [CreateTable True ''certificates''
        [primary_key (not_null (column_def ''id'' TUuid)), not_null (column_def ''node_id'' TUuid),
         not_null (column_def ''domain'' TString), not_null (column_def ''status'' TString),
         default_value ''http-01'' (not_null (column_def ''challenge_type'' TString)),
         column_def ''expires_at'' TTimestamp, column_def ''last_issued_at'' TTimestamp, column_def ''last_error'' TText,
         default_now (not_null (column_def ''created_at'' TTimestamp)),
         default_now (not_null (column_def ''updated_at'' TTimestamp))],
      unique_index ''idx_certificates_node_domain'' ''certificates'' [''node_id'', ''domain'']]"

definition certificates_down :: "db_backend \<Rightarrow> mig_step list" where
  "certificates_down b = [Ddl (DropTable ''certificates'')]"

definition system_meta_up :: "db_backend \<Rightarrow> mig_step list" where
  "system_meta_up b =
     [Ddl (CreateTable True ''system_meta''
        [primary_key (not_null (column_def ''key'' (TStringLen 64))), not_null (column_def ''value'' TText),
         not_null (column_def ''updated_at'' TTimestamp)])]"

definition system_meta_down :: "db_backend \<Rightarrow> mig_step list" where
  "system_meta_down b = [Ddl (DropTable ''system_meta'')]"

definition core_check :: "string list \<Rightarrow> check_rule" where
  "core_check vs =
     \<lparr>kr_table = ''protocol_configs'', kr_name = ''chk_protocol_configs_core'', kr_col = ''core_type'', kr_values = vs\<rparr>"

definition core_check_up :: "db_backend \<Rightarrow> mig_step list" where
  "core_check_up b =
     (if b = BackendSqlite then []
      else map Ddl [DropCheck False ''protocol_configs'' ''chk_protocol_configs_core'', AddCheck (core_check [''sing-box'', ''mihomo''])])"

definition core_check_down :: "db_backend \<Rightarrow> mig_step list" where
  "core_check_down b =
     (if b = BackendSqlite then []
      else map Ddl [DropCheck False ''protocol_configs'' ''chk_protocol_configs_core'', AddCheck (core_check [''xray'', ''sing-box''])])"

definition build_info_up :: "db_backend \<Rightarrow> mig_step list" where
  "build_info_up b = map Ddl
     [AddColumn False ''core_versions'' (column_def ''published_at'' TTimestamp),
      AddColumn False ''core_versions'' (column_def ''commit_sha'' (TStringLen 64))]"

definition build_info_down :: "db_backend \<Rightarrow> mig_step list" where
  "build_info_down b = map (Ddl \<circ> DropColumn ''core_versions'') [''published_at'', ''commit_sha'']"

definition relay_rules_up :: "db_backend \<Rightarrow> mig_step list" where
  "relay_rules_up b =
     [Ddl (CreateTable True ''relay_rules''
        [primary_key (not_null (column_def ''id'' TUuid)), not_null (column_def ''node_id'' TUuid),
         not_null (column_def ''exit_binding_id'' TUuid), not_null (column_def ''relay_client_id'' TUuid),
         not_null (column_def ''name'' (TStringLen 128)), not_null (column_def ''match_type'' (TStringLen 16)),
         not_null (column_def ''match_config'' TJson), default_value ''true'' (not_null (column_def ''enabled'' TBoolean)),
         default_value ''0'' (not_null (column_def ''sort_order'' TInteger)),
         default_now (not_null (column_def ''created_at'' TTimestamp)),
         default_now (not_null (column_def ''updated_at'' TTimestamp))])]"

definition relay_rules_down :: "db_backend \<Rightarrow> mig_step list" where
  "relay_rules_down b = [Ddl (DropTable ''relay_rules'')]"

text \<open>
  The pins: for each core type the greatest of the versions its configurations are pinned to, as texts; the
  matching rows of \<open>core_versions\<close> become active.
\<close>

definition core_pins :: "(string \<times> string) list \<Rightarrow> string \<Rightarrow> string option" where
  "core_pins rows =
     fold (\<lambda>(core, version) pins.
        let entry = unwrap_or (pins core) [] in pins(core \<mapsto> (if version > entry then version else entry))) rows Map.empty"

definition pinned_rows :: "mig_rows \<Rightarrow> (string \<times> string) list" where
  "pinned_rows r =
     List.map_filter (\<lambda>c. case map_of (mr_core_version r) (pc_id c) of
         Some v \<Rightarrow> if v \<noteq> [] then Some (pc_core_type c, v) else None
       | None \<Rightarrow> None) (db_protocol_configs (mr_db r))"

definition activate_pins :: "mig_rows \<Rightarrow> mig_rows" where
  "activate_pins r =
     upd_mig_db (\<lambda>d. d\<lparr>db_core_versions :=
       map (\<lambda>v. if core_pins (pinned_rows r) (cv_core_type v) = Some (cv_version v) then v\<lparr>cv_is_active := True\<rparr> else v)
         (db_core_versions d)\<rparr>) r"

definition active_version_up :: "db_backend \<Rightarrow> mig_step list" where
  "active_version_up b =
     [Ddl (AddColumn False ''core_versions'' (default_value ''false'' (not_null (column_def ''is_active'' TBoolean)))),
      Ddl (CreateTable True ''node_pending_updates''
        [primary_key (not_null (column_def ''id'' TUuid)), not_null (column_def ''node_id'' TUuid),
         not_null (column_def ''core_type'' (TStringLen 16)), not_null (column_def ''update_type'' (TStringLen 16)),
         not_null (column_def ''updated_at'' TTimestamp)]),
      Ddl (unique_index ''idx_node_pending_updates_node_core'' ''node_pending_updates'' [''node_id'', ''core_type'']),
      Rows (\<lambda>e. activate_pins),
      Ddl (DropColumn ''protocol_configs'' ''core_version''),
      Rows (\<lambda>e r. r\<lparr>mr_core_version := []\<rparr>)]"

definition active_version_down :: "db_backend \<Rightarrow> mig_step list" where
  "active_version_down b = map Ddl
     [AddColumn False ''protocol_configs'' (string_null ''core_version''), DropColumn ''core_versions'' ''is_active'',
      DropTable ''node_pending_updates'']"

definition agent_logs_index_up :: "db_backend \<Rightarrow> mig_step list" where
  "agent_logs_index_up b =
     [Ddl (plain_index ''idx_agent_logs_node_target_created'' ''agent_logs'' [''node_id'', ''target'', ''created_at''])]"

definition agent_logs_index_down :: "db_backend \<Rightarrow> mig_step list" where
  "agent_logs_index_down b = [Ddl (DropIndex ''idx_agent_logs_node_target_created'' ''agent_logs'')]"

section \<open>The migrator\<close>

definition mk_migration :: "string \<times> (db_backend \<Rightarrow> mig_step list) \<times> (db_backend \<Rightarrow> mig_step list) \<Rightarrow> migration" where
  "mk_migration m = (case m of (n, u, d) \<Rightarrow> \<lparr>mi_name = n, mi_up = u, mi_down = d\<rparr>)"

definition migrations :: "migration list" where
  "migrations = map mk_migration
     [(''m20250101_000001_create_initial_tables'', initial_tables_up, initial_tables_down),
      (''m20250630_000001_create_node_groups'', node_groups_up, node_groups_down),
      (''m20250630_000002_create_online_sessions'', online_sessions_up, online_sessions_down),
      (''m20250701_000001_add_client_reset_strategy'', client_reset_strategy_up, client_reset_strategy_down),
      (''m20250701_000002_add_node_usage_coefficient_and_node_user_usage'', usage_coefficient_up, usage_coefficient_down),
      (''m20250701_000003_add_client_max_devices'', max_devices_up, max_devices_down),
      (''m20250701_000004_create_api_keys'', api_keys_up, api_keys_down),
      (''m20250701_000005_create_webhooks'', webhooks_up, webhooks_down),
      (''m20250702_000001_add_constraints_and_indexes'', constraints_up, constraints_down),
      (''m20250703_000001_add_on_hold_and_node_parent'', on_hold_up, on_hold_down),
      (''m20250703_000002_create_inbound_hosts'', inbound_hosts_up, inbound_hosts_down),
      (''m20250703_000003_add_rate_to_usage_records'', usage_rate_up, usage_rate_down),
      (''m20250710_000001_remove_subscription_template_id'', template_id_up, template_id_down),
      (''m20250710_000002_add_protocol_config_core_version'', core_version_up, core_version_down),
      (''m20250710_000003_binding_level_groups'', binding_groups_up, binding_groups_down),
      (''m20250711_000001_add_node_domain'', node_domain_up, node_domain_down),
      (''m20250711_000002_subscription_template_text'', template_text_up, template_text_down),
      (''m20250711_000003_create_agent_logs'', agent_logs_up, agent_logs_down),
      (''m20250711_000004_cleanup_protocols_and_template_flags'', template_flags_up, template_flags_down),
      (''m20250712_000001_fix_subscription_template_blob_ids'', blob_ids_up, blob_ids_down),
      (''m20260719_000001_create_core_versions'', core_versions_up, core_versions_down),
      (''m20260720_000001_create_certificates'', certificates_up, certificates_down),
      (''m20260722_000001_create_system_meta'', system_meta_up, system_meta_down),
      (''m20260722_000002_update_core_type_check'', core_check_up, core_check_down),
      (''m20260724_000001_add_core_version_build_info'', build_info_up, build_info_down),
      (''m20260725_000001_create_relay_rules'', relay_rules_up, relay_rules_down),
      (''m20260726_000001_active_version_and_pending'', active_version_up, active_version_down),
      (''m20260727_000001_add_agent_logs_node_target_created_index'', agent_logs_index_up, agent_logs_index_down)]"

end
