(* ===== verification/MigrationRun.thy ===== *)
theory MigrationRun
  imports Migrations
begin

text \<open>
  Running the migrations (sea-orm-migration: the ones that are not yet recorded, in order; PostgreSQL in one
  transaction, SQLite statement by statement), with the effect of a run on the schema alone.
\<close>

section \<open>Running\<close>

text \<open>The texts a check looks at.\<close>

definition column_texts :: "db \<Rightarrow> string \<Rightarrow> string \<Rightarrow> string list" where
  "column_texts d t n =
     (if t = ''nodes'' \<and> n = ''status'' then map n_status (db_nodes d)
      else if t = ''clients'' \<and> n = ''status'' then map c_status (db_clients d)
      else if t = ''protocol_configs'' \<and> n = ''protocol_type'' then map pc_protocol_type (db_protocol_configs d)
      else if t = ''protocol_configs'' \<and> n = ''core_type'' then map pc_core_type (db_protocol_configs d)
      else [])"

record mig_store =
  ms_applied :: "string list"
  ms_schema :: schema
  ms_rows :: mig_rows

fun exec_step :: "mig_env \<Rightarrow> mig_step \<Rightarrow> mig_store \<Rightarrow> string + mig_store" where
  "exec_step e (Ddl d) st =
     rbind (exec_ddl (me_backend e) (column_texts (mr_db (ms_rows st))) d (ms_schema st)) (\<lambda>s. Inr (st\<lparr>ms_schema := s\<rparr>))"
| "exec_step e (Rows f) st = Inr (st\<lparr>ms_rows := f e (ms_rows st)\<rparr>)"
| "exec_step e FixBlobIds st =
     (if me_typeof e then Inr (st\<lparr>ms_rows := fix_blob_ids e (ms_rows st)\<rparr>) else Inl ''no such function: typeof'')"

text \<open>The error of the first statement that fails, and the state before it.\<close>

fun exec_steps :: "mig_env \<Rightarrow> mig_step list \<Rightarrow> mig_store \<Rightarrow> string option \<times> mig_store" where
  "exec_steps e [] st = (None, st)"
| "exec_steps e (x # xs) st =
     (case exec_step e x st of Inl err \<Rightarrow> (Some err, st) | Inr st' \<Rightarrow> exec_steps e xs st')"

fun migrate_up :: "mig_env \<Rightarrow> migration list \<Rightarrow> mig_store \<Rightarrow> string option \<times> mig_store" where
  "migrate_up e [] st = (None, st)"
| "migrate_up e (m # ms) st =
     (if mi_name m \<in> set (ms_applied st) then migrate_up e ms st
      else (case exec_steps e (mi_up m (me_backend e)) st of
              (Some err, st') \<Rightarrow> (Some err, st')
            | (None, st') \<Rightarrow> migrate_up e ms (st'\<lparr>ms_applied := ms_applied st' @ [mi_name m]\<rparr>)))"

definition run_migrations :: "mig_env \<Rightarrow> mig_store \<Rightarrow> string option \<times> mig_store" where
  "run_migrations e st =
     (case migrate_up e migrations st of
        (None, st') \<Rightarrow> (None, st')
      | (Some err, st') \<Rightarrow> (Some err, if me_backend e = BackendPostgres then st else st'))"

section \<open>The schema alone\<close>

fun step_ddl :: "mig_step \<Rightarrow> ddl list" where
  "step_ddl (Ddl d) = [d]"
| "step_ddl (Rows f) = []"
| "step_ddl FixBlobIds = []"

definition step_ddls :: "mig_step list \<Rightarrow> ddl list" where
  "step_ddls xs = concat (map step_ddl xs)"

fun exec_ddls :: "ddl list \<Rightarrow> schema \<Rightarrow> string + schema" where
  "exec_ddls [] s = Inr s"
| "exec_ddls (d # ds) s = rbind (exec_ddl BackendSqlite (\<lambda>_ _. []) d s) (exec_ddls ds)"

definition all_ddls :: "ddl list" where
  "all_ddls = concat (map (\<lambda>m. step_ddls (mi_up m BackendSqlite)) migrations)"

text \<open>SQLite does not look at the rows for any of these statements.\<close>

lemma exec_ddl_sqlite: "exec_ddl BackendSqlite vals d s = exec_ddl BackendSqlite (\<lambda>_ _. []) d s"
  by (cases d) auto

lemma exec_ddls_append: "exec_ddls (xs @ ys) s = rbind (exec_ddls xs s) (exec_ddls ys)"
  by (induction xs arbitrary: s) (auto simp: rbind_def split: sum.splits)

lemma exec_ddls_append_Inr:
  "exec_ddls (xs @ ys) s = Inr s' \<Longrightarrow> \<exists>t. exec_ddls xs s = Inr t \<and> exec_ddls ys t = Inr s'"
  by (auto simp: exec_ddls_append rbind_def split: sum.splits)

text \<open>Where the statements on the schema succeed, SQLite runs all steps, whatever the rows are.\<close>

lemma exec_steps_sqlite:
  assumes "me_backend e = BackendSqlite" "me_typeof e" "exec_ddls (step_ddls xs) (ms_schema st) = Inr s"
  shows "\<exists>r. exec_steps e xs st = (None, st\<lparr>ms_schema := s, ms_rows := r\<rparr>)"
  using assms(3)
proof (induction xs arbitrary: st)
  case Nil
  then have "(None, st) = (None, st\<lparr>ms_schema := s, ms_rows := ms_rows st\<rparr>)" by (simp add: step_ddls_def)
  then show ?case by (metis exec_steps.simps(1))
next
  case (Cons x xs)
  have split: "step_ddls (x # xs) = step_ddl x @ step_ddls xs" by (simp add: step_ddls_def)
  obtain t where t: "exec_ddls (step_ddl x) (ms_schema st) = Inr t" "exec_ddls (step_ddls xs) t = Inr s"
    using exec_ddls_append_Inr Cons.prems unfolding split by blast
  have "\<exists>r. exec_step e x st = Inr (st\<lparr>ms_schema := t, ms_rows := r\<rparr>)"
  proof (cases x)
    case (Ddl d)
    then have "exec_ddl BackendSqlite (\<lambda>_ _. []) d (ms_schema st) = Inr t"
      using t(1) by (auto simp: rbind_def split: sum.splits)
    then have "exec_step e x st = Inr (st\<lparr>ms_schema := t\<rparr>)"
      using Ddl assms(1) exec_ddl_sqlite [of "column_texts (mr_db (ms_rows st))" d "ms_schema st"] by (simp add: rbind_def)
    moreover have "st\<lparr>ms_schema := t\<rparr> = st\<lparr>ms_schema := t, ms_rows := ms_rows st\<rparr>" by simp
    ultimately show ?thesis by metis
  next
    case (Rows f)
    then have "t = ms_schema st" using t(1) by simp
    then show ?thesis using Rows by (intro exI [of _ "f e (ms_rows st)"]) simp
  next
    case FixBlobIds
    then have "t = ms_schema st" using t(1) by simp
    then show ?thesis using FixBlobIds assms(2) by (intro exI [of _ "fix_blob_ids e (ms_rows st)"]) simp
  qed
  then obtain r where step: "exec_step e x st = Inr (st\<lparr>ms_schema := t, ms_rows := r\<rparr>)" ..
  from Cons.IH [of "st\<lparr>ms_schema := t, ms_rows := r\<rparr>"] t(2) obtain r' where
    "exec_steps e xs (st\<lparr>ms_schema := t, ms_rows := r\<rparr>) = (None, st\<lparr>ms_schema := s, ms_rows := r'\<rparr>)" by auto
  then show ?case using step by auto
qed

lemma migrate_up_sqlite:
  assumes e: "me_backend e = BackendSqlite" "me_typeof e"
    and "distinct (map mi_name ms)" "set (map mi_name ms) \<inter> set (ms_applied st) = {}"
    and "exec_ddls (concat (map (\<lambda>m. step_ddls (mi_up m BackendSqlite)) ms)) (ms_schema st) = Inr s"
  shows "\<exists>r. migrate_up e ms st = (None, \<lparr>ms_applied = ms_applied st @ map mi_name ms, ms_schema = s, ms_rows = r\<rparr>)"
  using assms(3-5)
proof (induction ms arbitrary: st)
  case Nil
  then show ?case by (cases st) auto
next
  case (Cons m ms)
  then have "exec_ddls (step_ddls (mi_up m BackendSqlite) @ concat (map (\<lambda>m. step_ddls (mi_up m BackendSqlite)) ms))
      (ms_schema st) = Inr s" by simp
  then obtain t where t: "exec_ddls (step_ddls (mi_up m BackendSqlite)) (ms_schema st) = Inr t"
      "exec_ddls (concat (map (\<lambda>m. step_ddls (mi_up m BackendSqlite)) ms)) t = Inr s"
    using exec_ddls_append_Inr by blast
  obtain r where r: "exec_steps e (mi_up m BackendSqlite) st = (None, st\<lparr>ms_schema := t, ms_rows := r\<rparr>)"
    using exec_steps_sqlite [OF e t(1)] by blast
  let ?st = "st\<lparr>ms_schema := t, ms_rows := r, ms_applied := ms_applied st @ [mi_name m]\<rparr>"
  have "\<exists>r. migrate_up e ms ?st = (None, \<lparr>ms_applied = ms_applied ?st @ map mi_name ms, ms_schema = s, ms_rows = r\<rparr>)"
    using Cons.prems t(2) by (intro Cons.IH) auto
  moreover have "mi_name m \<notin> set (ms_applied st)" using Cons.prems(2) by simp
  ultimately show ?case using r e(1) by simp
qed

lemma migrate_up_applied:
  "set (map mi_name ms) \<subseteq> set (ms_applied st) \<Longrightarrow> migrate_up e ms st = (None, st)"
  by (induction ms) auto

lemma migration_names_distinct: "distinct (map mi_name migrations)"
  by (simp add: migrations_def mk_migration_def)

text \<open>A step that always fails keeps a run from completing.\<close>

lemma exec_step_applied: "exec_step e x st = Inr st' \<Longrightarrow> ms_applied st' = ms_applied st"
  by (cases x) (auto simp: rbind_def split: sum.splits if_splits)

lemma exec_steps_applied: "ms_applied (snd (exec_steps e xs st)) = ms_applied st"
  by (induction xs arbitrary: st) (auto split: sum.split dest: exec_step_applied)

lemma exec_steps_fixes_blob_ids:
  "\<not> me_typeof e \<Longrightarrow> FixBlobIds \<in> set xs \<Longrightarrow> fst (exec_steps e xs st) \<noteq> None"
  by (induction xs arbitrary: st) (auto split: sum.split)

lemma migrate_up_blocked:
  assumes "\<not> me_typeof e" and "m \<in> set ms" and "FixBlobIds \<in> set (mi_up m (me_backend e))"
    and "mi_name m \<notin> set (ms_applied st)" and "distinct (map mi_name ms)"
  shows "fst (migrate_up e ms st) \<noteq> None"
  using assms(2,4,5)
proof (induction ms arbitrary: st)
  case (Cons x ms)
  show ?case
  proof (cases "x = m")
    case True
    then show ?thesis using Cons.prems exec_steps_fixes_blob_ids [OF assms(1,3), of st]
      by (auto split: prod.split option.split)
  next
    case False
    then have m: "m \<in> set ms" "mi_name m \<noteq> mi_name x" using Cons.prems by (auto simp: rev_image_eqI)
    show ?thesis
    proof (cases "exec_steps e (mi_up x (me_backend e)) st")
      case (Pair err st')
      have "ms_applied st' = ms_applied st" using Pair exec_steps_applied by (metis snd_conv)
      with Pair m Cons show ?thesis by (auto split: option.split)
    qed
  qed
qed simp

end
