(* ===== verification/SchemaCheck.thy ===== *)
theory SchemaCheck
  imports MigrationRun
begin

text \<open>
  What the migrations make of a new database, against the entities that read it, and what taking a migration
  back restores.
\<close>

section \<open>The entities\<close>

text \<open>The fields of the \<open>Model\<close> of each entity, and whether their type is an \<open>Option\<close>.\<close>

definition required :: "string \<Rightarrow> string \<times> bool" where "required n = (n, False)"
definition optional :: "string \<Rightarrow> string \<times> bool" where "optional n = (n, True)"

definition entities :: "(string \<times> (string \<times> bool) list) list" where
  "entities =
     [(''agent_logs'',
        [required ''id'', required ''node_id'', required ''level'', required ''target'', required ''message'',
         optional ''fields'', required ''created_at'']),
      (''api_keys'',
        [required ''id'', required ''name'', required ''key_hash'', required ''scopes'',
         optional ''ip_allowlist'', optional ''rate_limit'', optional ''expires_at'', required ''is_active'',
         required ''created_at'', required ''updated_at'']),
      (''certificates'',
        [required ''id'', required ''node_id'', required ''domain'', required ''status'',
         required ''challenge_type'', optional ''expires_at'', optional ''last_issued_at'',
         optional ''last_error'', required ''created_at'', required ''updated_at'']),
      (''clients'',
        [required ''id'', required ''user_id'', required ''name'', optional ''email'',
         required ''traffic_limit_bytes'', required ''traffic_used_bytes'', required ''all_time_used_bytes'',
         optional ''expiry_date'', optional ''reset_day'', required ''data_limit_reset_strategy'',
         optional ''last_traffic_reset_time'', optional ''max_devices'', required ''status'',
         optional ''on_hold_expire_duration_secs'', optional ''on_hold_timeout'', required ''created_at'',
         required ''updated_at'']),
      (''client_group_bindings'',
        [required ''id'', required ''client_id'', required ''group_id'', required ''created_at'']),
      (''client_online_sessions'',
        [required ''id'', required ''client_id'', required ''node_id'', required ''ip_address'',
         optional ''inbound_tag'', required ''connected_at'', required ''last_active_at'']),
      (''core_versions'',
        [required ''id'', required ''core_type'', required ''version'', required ''channel'',
         optional ''published_at'', optional ''commit_sha'', required ''is_active'', required ''created_at'']),
      (''host_metrics'',
        [required ''id'', required ''node_id'', required ''timestamp'', required ''cpu_percent'',
         required ''mem_used'', required ''mem_total'', required ''disk_used'', required ''disk_total'',
         required ''net_rx'', required ''net_tx'', required ''load_avg1'', required ''load_avg5'',
         required ''load_avg15'']),
      (''inbound_hosts'',
        [required ''id'', required ''protocol_config_id'', required ''node_id'', required ''remark'',
         required ''address'', required ''port'', optional ''sni'', optional ''host'', optional ''path'',
         optional ''security'', optional ''alpn'', optional ''fingerprint'', required ''is_active'',
         required ''created_at'', required ''updated_at'']),
      (''nodes'',
        [required ''id'', required ''name'', required ''hostname'', required ''address'', optional ''domain'',
         required ''token_hash'', required ''cores_available'', optional ''labels'',
         required ''usage_coefficient'', required ''status'', optional ''parent_id'', optional ''last_seen_at'',
         required ''created_at'', required ''updated_at'']),
      (''node_bindings'',
        [required ''id'', required ''node_id'', required ''protocol_config_id'', optional ''override_settings'',
         required ''is_active'', required ''created_at'']),
      (''node_binding_group_bindings'',
        [required ''id'', required ''node_binding_id'', required ''group_id'', required ''created_at'']),
      (''node_groups'',
        [required ''id'', required ''name'', optional ''description'', optional ''labels'',
         required ''created_at'', required ''updated_at'']),
      (''node_pending_updates'',
        [required ''id'', required ''node_id'', required ''core_type'', required ''update_type'',
         required ''updated_at'']),
      (''node_user_usage_records'',
        [required ''id'', required ''node_id'', required ''client_id'', required ''hour_bucket'',
         required ''upload_bytes'', required ''download_bytes'', required ''rate'', required ''created_at'']),
      (''protocol_configs'',
        [required ''id'', required ''name'', required ''protocol_type'', required ''core_type'',
         required ''listen_port'', required ''listen_address'', required ''settings'',
         optional ''tls_settings'', required ''created_at'', required ''updated_at'']),
      (''relay_rules'',
        [required ''id'', required ''node_id'', required ''exit_binding_id'', required ''relay_client_id'',
         required ''name'', required ''match_type'', required ''match_config'', required ''enabled'',
         required ''sort_order'', required ''created_at'', required ''updated_at'']),
      (''subscriptions'',
        [required ''id'', required ''client_id'', required ''token'', required ''url_path'',
         optional ''expire_at'', required ''is_active'', optional ''last_accessed_at'', required ''created_at'']),
      (''subscription_templates'',
        [required ''id'', required ''name'', required ''format'', optional ''base_config'',
         optional ''filter_rules'', optional ''custom_headers'', required ''is_builtin'',
         required ''is_enabled'', required ''created_at'', required ''updated_at'']),
      (''system_logs'',
        [required ''id'', required ''level'', required ''source'', required ''message'', optional ''metadata'',
         required ''created_at'']),
      (''system_meta'',
        [required ''key'', required ''value'', required ''updated_at'']),
      (''traffic_records'',
        [required ''id'', optional ''node_id'', optional ''protocol_config_id'', optional ''client_id'',
         required ''hour_bucket'', required ''upload_bytes'', required ''download_bytes'',
         required ''created_at'']),
      (''users'',
        [required ''id'', required ''username'', required ''password_hash'', required ''role'',
         required ''status'', required ''created_at'', required ''updated_at'']),
      (''webhooks'',
        [required ''id'', required ''name'', required ''url'', required ''events'', optional ''secret'',
         required ''is_active'', required ''created_at'', required ''updated_at''])]"

text \<open>
  A table fits its entity: the same columns, a column that may be NULL for a field that is an \<open>Option\<close>, and
  one that may not for any other, but for \<open>usage_coefficient\<close>.
\<close>

definition table_fits :: "schema \<Rightarrow> string \<times> (string \<times> bool) list \<Rightarrow> bool" where
  "table_fits s e =
     (case e of (t, fs) \<Rightarrow>
        (case table_cols t s of
           None \<Rightarrow> False
         | Some cs \<Rightarrow>
             distinct (map cn_name cs) \<and> length cs = length fs
             \<and> list_all (\<lambda>c. case map_of fs (cn_name c) of
                   None \<Rightarrow> False
                 | Some opt \<Rightarrow> cn_not_null c = (\<not> opt) \<or> t = ''nodes'' \<and> cn_name c = ''usage_coefficient'') cs))"

definition unique_columns :: "schema \<Rightarrow> (string \<times> string list) list" where
  "unique_columns s = map (\<lambda>i. (ix_table i, ix_cols i)) (filter ix_unique (sc_indexes s))"

definition schema_fits :: "schema \<Rightarrow> bool" where
  "schema_fits s \<longleftrightarrow>
     list_all (table_fits s) entities \<and> length (sc_tables s) = length entities \<and> sc_fks s = [] \<and> sc_checks s = []"

lemma migrated_schema:
  "case exec_ddls all_ddls empty_schema of
     Inl _ \<Rightarrow> False
   | Inr s \<Rightarrow> schema_fits s \<and> unique_columns s =
       [(''node_user_usage_records'', [''node_id'', ''client_id'', ''hour_bucket'']),
        (''node_bindings'', [''node_id'', ''protocol_config_id'']), (''subscriptions'', [''token'']),
        (''core_versions'', [''core_type'', ''version'']), (''certificates'', [''node_id'', ''domain'']),
        (''node_pending_updates'', [''node_id'', ''core_type''])]"
  by code_simp

text \<open>The migrations whose \<open>down\<close>, run right after their \<open>up\<close>, does not restore the schema.\<close>

fun not_undone :: "migration list \<Rightarrow> schema \<Rightarrow> string list" where
  "not_undone [] s = []"
| "not_undone (m # ms) s =
     (case exec_ddls (step_ddls (mi_up m BackendSqlite)) s of
        Inl _ \<Rightarrow> [mi_name m]
      | Inr s' \<Rightarrow>
          (if exec_ddls (step_ddls (mi_down m BackendSqlite)) s' = Inr s then [] else [mi_name m]) @ not_undone ms s')"

lemma not_undone_migrations:
  "not_undone migrations empty_schema =
     [''m20250702_000001_add_constraints_and_indexes'', ''m20250710_000001_remove_subscription_template_id'',
      ''m20250710_000003_binding_level_groups'', ''m20250711_000002_subscription_template_text'']"
  by code_simp

section \<open>Properties\<close>

text \<open>
  C37: On a new SQLite database all migrations succeed, whatever rows there are, and are recorded; the tables
  are then exactly those of the entities, each with the entity's fields as its columns, NULL allowed where the
  field is an \<open>Option\<close> and nowhere else but in \<open>usage_coefficient\<close>; there are no keys between tables and no
  checks, and the unique indexes are those listed. Running the migrations again changes nothing.
\<close>

theorem migrated_schema_fits_entities:
  assumes "me_backend e = BackendSqlite" and "me_typeof e"
    and "ms_applied st = []" and "ms_schema st = empty_schema"
  shows "\<exists>st'. run_migrations e st = (None, st') \<and> ms_applied st' = map mi_name migrations
     \<and> schema_fits (ms_schema st')
     \<and> unique_columns (ms_schema st') =
         [(''node_user_usage_records'', [''node_id'', ''client_id'', ''hour_bucket'']),
          (''node_bindings'', [''node_id'', ''protocol_config_id'']), (''subscriptions'', [''token'']),
          (''core_versions'', [''core_type'', ''version'']), (''certificates'', [''node_id'', ''domain'']),
          (''node_pending_updates'', [''node_id'', ''core_type''])]
     \<and> run_migrations e st' = (None, st')"
proof -
  obtain s where s: "exec_ddls all_ddls empty_schema = Inr s" "schema_fits s" and
    unique: "unique_columns s = [(''node_user_usage_records'', [''node_id'', ''client_id'', ''hour_bucket'']),
      (''node_bindings'', [''node_id'', ''protocol_config_id'']), (''subscriptions'', [''token'']),
      (''core_versions'', [''core_type'', ''version'']), (''certificates'', [''node_id'', ''domain'']),
      (''node_pending_updates'', [''node_id'', ''core_type''])]"
    using migrated_schema by (cases "exec_ddls all_ddls empty_schema") auto
  obtain r where r: "migrate_up e migrations st = (None, \<lparr>ms_applied = map mi_name migrations, ms_schema = s, ms_rows = r\<rparr>)"
    using migrate_up_sqlite [OF assms(1,2) migration_names_distinct, of st s] assms(3,4) s(1) by (auto simp: all_ddls_def)
  let ?st = "\<lparr>ms_applied = map mi_name migrations, ms_schema = s, ms_rows = r\<rparr>"
  have "migrate_up e migrations ?st = (None, ?st)" by (rule migrate_up_applied) simp
  then show ?thesis using r s(2) unique by (auto simp: run_migrations_def)
qed

definition sqlite_env :: mig_env where
  "sqlite_env = \<lparr>me_backend = BackendSqlite, me_typeof = True, me_singbox_template = ''{}'', me_clash_template = ''a: b'',
     me_fresh = (\<lambda>f. ''id-'' @ f), me_now = 5, me_show_uuid = (\<lambda>b. b)\<rparr>"

definition new_store :: mig_store where
  "new_store = \<lparr>ms_applied = [], ms_schema = empty_schema,
     ms_rows = \<lparr>mr_db = empty_db, mr_core_version = [], mr_blob_ids = []\<rparr>\<rparr>"

lemma migrated_schema_fits_entities_witness:
  "\<exists>st'. run_migrations sqlite_env new_store = (None, st') \<and> schema_fits (ms_schema st')"
  using migrated_schema_fits_entities [of sqlite_env new_store] by (auto simp: sqlite_env_def new_store_def)

text \<open>
  On a database without SQLite's \<open>typeof\<close>, such as PostgreSQL, the migrations never complete: the run
  ends in an error and, in one transaction, leaves everything as it was.
\<close>

theorem postgres_migrations_never_complete:
  assumes "me_backend e = BackendPostgres" and "\<not> me_typeof e"
    and "''m20250712_000001_fix_subscription_template_blob_ids'' \<notin> set (ms_applied st)"
  shows "\<exists>err. run_migrations e st = (Some err, st)"
proof -
  let ?m = "mk_migration (''m20250712_000001_fix_subscription_template_blob_ids'', blob_ids_up, blob_ids_down)"
  have "?m \<in> set migrations" by (simp add: migrations_def)
  then have "fst (migrate_up e migrations st) \<noteq> None"
    using assms by (intro migrate_up_blocked [of e ?m]) (auto simp: mk_migration_def blob_ids_up_def migration_names_distinct)
  then obtain err where "fst (migrate_up e migrations st) = Some err" by blast
  then show ?thesis using assms(1) by (cases "migrate_up e migrations st") (simp add: run_migrations_def)
qed

lemma postgres_migrations_never_complete_witness:
  "\<exists>err. run_migrations (sqlite_env\<lparr>me_backend := BackendPostgres, me_typeof := False\<rparr>) new_store = (Some err, new_store)"
  by (rule postgres_migrations_never_complete) (simp_all add: new_store_def)

text \<open>
  Each migration but four, taken back right after it was applied to the schema that the ones before it
  make, succeeds and restores that schema.
\<close>

lemma not_undone_prefix:
  assumes "exec_ddls (concat (map (\<lambda>m. step_ddls (mi_up m BackendSqlite)) (take k ms))) s = Inr t"
    and "k < length ms" and "mi_name (ms ! k) \<notin> set (not_undone ms s)"
  shows "\<exists>u. exec_ddls (step_ddls (mi_up (ms ! k) BackendSqlite)) t = Inr u
     \<and> exec_ddls (step_ddls (mi_down (ms ! k) BackendSqlite)) u = Inr t"
  using assms
proof (induction ms arbitrary: k s)
  case (Cons m ms)
  obtain s' where s': "exec_ddls (step_ddls (mi_up m BackendSqlite)) s = Inr s'" if "k \<noteq> 0"
    using Cons.prems(1) by (cases k) (auto dest!: exec_ddls_append_Inr)
  show ?case
  proof (cases k)
    case 0
    then show ?thesis using Cons.prems by (auto split: sum.splits if_splits)
  next
    case (Suc j)
    then have "exec_ddls (concat (map (\<lambda>m. step_ddls (mi_up m BackendSqlite)) (take j ms))) s' = Inr t"
      using Cons.prems(1) s' by (auto dest!: exec_ddls_append_Inr)
    moreover have "mi_name (ms ! j) \<notin> set (not_undone ms s')" using Cons.prems(3) s' Suc by simp
    ultimately show ?thesis using Cons.IH [of j s'] Cons.prems(2) Suc by simp
  qed
qed simp

theorem down_restores_schema:
  assumes "k < length migrations"
    and "mi_name (migrations ! k) \<notin>
      {''m20250702_000001_add_constraints_and_indexes'', ''m20250710_000001_remove_subscription_template_id'',
       ''m20250710_000003_binding_level_groups'', ''m20250711_000002_subscription_template_text''}"
    and "exec_ddls (concat (map (\<lambda>m. step_ddls (mi_up m BackendSqlite)) (take k migrations))) empty_schema = Inr s"
  shows "\<exists>s'. exec_ddls (step_ddls (mi_up (migrations ! k) BackendSqlite)) s = Inr s'
     \<and> exec_ddls (step_ddls (mi_down (migrations ! k) BackendSqlite)) s' = Inr s"
  using not_undone_prefix [OF assms(3,1)] assms(2) by (simp add: not_undone_migrations)

lemma down_restores_schema_witness:
  "\<exists>s'. exec_ddls (step_ddls (initial_tables_up BackendSqlite)) empty_schema = Inr s'
     \<and> exec_ddls (step_ddls (initial_tables_down BackendSqlite)) s' = Inr empty_schema"
  using down_restores_schema [of 0 empty_schema] by (simp add: migrations_def mk_migration_def)

text \<open>
  The four: one leaves an index behind on SQLite, on which its own \<open>up\<close> then stops; one brings its column
  back as one that may be NULL; one brings its table back without indexes; the last makes the types the new
  ones again.
\<close>

lemma constraints_cannot_be_reapplied:
  "case exec_ddls (step_ddls (concat (map (\<lambda>m. mi_up m BackendSqlite) (take 9 migrations))
        @ constraints_down BackendSqlite)) empty_schema of
     Inl _ \<Rightarrow> False
   | Inr s \<Rightarrow> exec_ddls (step_ddls (constraints_up BackendSqlite)) s = Inl ''index already exists''"
  by code_simp

section \<open>The built-in templates\<close>

text \<open>After the clean-up each of the two formats has one enabled template, the built-in one.\<close>

definition enabled_templates :: "string \<Rightarrow> db \<Rightarrow> subscription_template list" where
  "enabled_templates f d = filter (\<lambda>t. sp_format t = f \<and> sp_is_enabled t) (db_templates d)"

definition builtin_template :: "tstamp \<Rightarrow> uuid \<Rightarrow> string \<Rightarrow> string \<Rightarrow> string \<Rightarrow> subscription_template" where
  "builtin_template now i format name content =
     \<lparr>sp_id = i, sp_name = name, sp_format = format, sp_base_config = Some content, sp_filter_rules = None,
      sp_custom_headers = None, sp_is_builtin = True, sp_is_enabled = True, sp_created_at = now, sp_updated_at = now\<rparr>"

lemma filter_map_same:
  "(\<And>t. t \<in> set ts \<Longrightarrow> P (f t) = P t) \<Longrightarrow> (\<And>t. t \<in> set ts \<Longrightarrow> P t \<Longrightarrow> f t = t) \<Longrightarrow> filter P (map f ts) = filter P ts"
  by (induction ts) auto

lemma put_new_builtin:
  assumes "\<not> list_ex (\<lambda>t. sp_is_builtin t \<and> sp_format t = format) (db_templates d)"
  shows "db_templates (put_builtin_template now i format name content d) =
     map (\<lambda>t. if sp_format t = format then t\<lparr>sp_is_enabled := False\<rparr> else t) (db_templates d)
     @ [builtin_template now i format name content]"
  using assms
  by (auto simp: put_builtin_template_def Let_def tbl_insert_def builtin_template_def list_ex_iff)

lemma put_new_builtin_enabled:
  assumes "\<not> list_ex (\<lambda>t. sp_is_builtin t \<and> sp_format t = format) (db_templates d)"
  shows "enabled_templates f (put_builtin_template now i format name content d) =
     (if f = format then [builtin_template now i format name content] else enabled_templates f d)"
proof (cases "f = format")
  case True
  have "filter (\<lambda>t. sp_format t = format \<and> sp_is_enabled t)
      (map (\<lambda>t. if sp_format t = format then t\<lparr>sp_is_enabled := False\<rparr> else t) ts) = []" for ts
    by (induction ts) auto
  then show ?thesis using True by (simp add: enabled_templates_def put_new_builtin [OF assms] builtin_template_def)
next
  case False
  then have "filter (\<lambda>t. sp_format t = f \<and> sp_is_enabled t)
      (map (\<lambda>t. if sp_format t = format then t\<lparr>sp_is_enabled := False\<rparr> else t) (db_templates d)) = enabled_templates f d"
    unfolding enabled_templates_def by (intro filter_map_same) auto
  then show ?thesis using False by (simp add: enabled_templates_def put_new_builtin [OF assms] builtin_template_def)
qed

lemma builtin_templates_enabled:
  fixes d e
  defines "d' \<equiv> put_builtin_templates e (mark_user_templates d)"
  shows "enabled_templates ''sing-box'' d'
           = [builtin_template (me_now e) (me_fresh e ''sing-box'') ''sing-box'' ''Builtin SingBox'' (me_singbox_template e)]"
    and "enabled_templates ''clash'' d'
           = [builtin_template (me_now e) (me_fresh e ''clash'') ''clash'' ''Builtin Clash'' (me_clash_template e)]"
proof -
  let ?d = "put_builtin_template (me_now e) (me_fresh e ''sing-box'') ''sing-box'' ''Builtin SingBox'' (me_singbox_template e)
    (mark_user_templates d)"
  have none: "\<not> list_ex (\<lambda>t. sp_is_builtin t \<and> sp_format t = f) (db_templates (mark_user_templates d))" for f
    by (auto simp: mark_user_templates_def list_ex_iff)
  then have "\<not> list_ex (\<lambda>t. sp_is_builtin t \<and> sp_format t = ''clash'') (db_templates ?d)"
    unfolding put_new_builtin [OF none] by (auto simp: builtin_template_def list_ex_iff mark_user_templates_def)
  note clash = put_new_builtin_enabled [OF this]
  show "enabled_templates ''sing-box'' d'
      = [builtin_template (me_now e) (me_fresh e ''sing-box'') ''sing-box'' ''Builtin SingBox'' (me_singbox_template e)]"
    and "enabled_templates ''clash'' d'
      = [builtin_template (me_now e) (me_fresh e ''clash'') ''clash'' ''Builtin Clash'' (me_clash_template e)]"
    by (simp_all add: d'_def put_builtin_templates_def clash put_new_builtin_enabled [OF none])
qed

end
