(* ===== verification/HubStart.thy ===== *)
theory HubStart
  imports MigrationRun
begin

text \<open>
  How a hub starts (pp-hub, config.rs and main.rs; pp-db, connection.rs) and the commands of the management
  program that write to the database (pp-cli, main.rs). The crate \<open>config\<close>, which merges the settings file,
  the environment and the defaults, is the function \<open>cc\<close> of what the code gives it; Argon2 is \<open>hash\<close>.
\<close>

section \<open>Settings\<close>

record built_config =
  bc_string :: "string \<Rightarrow> string + string"
  bc_bool :: "string \<Rightarrow> string + bool"

text \<open>The file's text if there is one, the prefix and the separator of the variables, the variables, the defaults.\<close>

type_synonym config_crate =
  "string option \<Rightarrow> string \<Rightarrow> string \<Rightarrow> (string \<times> string) list \<Rightarrow> (string \<times> string) list \<Rightarrow> string + built_config"

record config_overrides =
  ov_listen :: "string option"
  ov_grpc_listen :: "string option"
  ov_database_url :: "string option"
  ov_static_dir :: "string option"

record hub_settings = hub_config +
  hs_listen :: string
  hs_database_url :: string
  hs_static_dir :: string
  hs_http_tls_key :: "string option"
  hs_maintenance_enabled :: bool
  hs_maintenance_status_file :: string
  hs_maintenance_cli_path :: string
  hs_maintenance_sudo_path :: string
  hs_maintenance_systemd_run_path :: string

text \<open>\<open>CARGO_PKG_REPOSITORY\<close> is the build's; \<open>repo\<close> is what \<open>default_release_repo\<close> makes of it.\<close>

definition default_release_repo :: "string \<Rightarrow> string" where
  "default_release_repo repo =
     (let stripped = unwrap_or (strip_prefix ''https://github.com/'' repo) repo
      in if stripped = [] \<or> str_contains ''your-org'' stripped then ''ybakiame/multi-proxy-panel'' else stripped)"

definition config_defaults :: "string \<Rightarrow> (string \<times> string) list" where
  "config_defaults repo =
     [(''listen'', ''0.0.0.0:8081''), (''grpc_listen'', ''0.0.0.0:50052''), (''static_dir'', ''apps/panel/dist''),
      (''jwt_secret'', JWT_SECRET_PLACEHOLDERS ! 0), (''release_repo'', default_release_repo repo),
      (''maintenance_enabled'', ''false''), (''maintenance_status_file'', ''data/hub-update.json''),
      (''maintenance_cli_path'', ''/usr/local/bin/proxy-panel''), (''maintenance_sudo_path'', ''/usr/bin/sudo''),
      (''maintenance_systemd_run_path'', ''/usr/bin/systemd-run'')]"

text \<open>\<open>get_string(k).ok()\<close>\<close>

definition setting :: "built_config \<Rightarrow> string \<Rightarrow> string option" where
  "setting b k = (case bc_string b k of Inr v \<Rightarrow> Some v | Inl _ \<Rightarrow> None)"

definition built_settings :: "string \<Rightarrow> config_overrides \<Rightarrow> built_config \<Rightarrow> string + hub_settings" where
  "built_settings repo ov b =
     rbind (bc_string b ''listen'') (\<lambda>listen.
     rbind (bc_string b ''grpc_listen'') (\<lambda>grpc_listen.
       Inr \<lparr>hc_grpc_listen = unwrap_or (ov_grpc_listen ov) grpc_listen,
         hc_cors_origins = parse_csv (setting b ''cors_origins''),
         hc_trusted_proxy_ips = map_option set (parse_ips (setting b ''trusted_proxy_ips'')),
         hc_jwt_secret = unwrap_or (setting b ''jwt_secret'') (JWT_SECRET_PLACEHOLDERS ! 0),
         hc_http_tls_cert = setting b ''http_tls_cert'',
         hc_public_http_url = setting b ''public_http_url'', hc_public_grpc_url = setting b ''public_grpc_url'',
         hc_release_repo = unwrap_or (setting b ''release_repo'') (default_release_repo repo),
         hs_listen = unwrap_or (ov_listen ov) listen,
         hs_database_url = unwrap_or (ov_database_url ov) (unwrap_or (setting b ''database_url'') []),
         hs_static_dir = unwrap_or (ov_static_dir ov) (unwrap_or (setting b ''static_dir'') ''apps/panel/dist''),
         hs_http_tls_key = setting b ''http_tls_key'',
         hs_maintenance_enabled = (case bc_bool b ''maintenance_enabled'' of Inr v \<Rightarrow> v | Inl _ \<Rightarrow> False),
         hs_maintenance_status_file = unwrap_or (setting b ''maintenance_status_file'') ''data/hub-update.json'',
         hs_maintenance_cli_path = unwrap_or (setting b ''maintenance_cli_path'') ''/usr/local/bin/proxy-panel'',
         hs_maintenance_sudo_path = unwrap_or (setting b ''maintenance_sudo_path'') ''/usr/bin/sudo'',
         hs_maintenance_systemd_run_path = unwrap_or (setting b ''maintenance_systemd_run_path'') ''/usr/bin/systemd-run''\<rparr>))"

definition load_config :: "config_crate \<Rightarrow> string \<Rightarrow> string option \<Rightarrow> (string \<times> string) list \<Rightarrow> config_overrides \<Rightarrow> string + hub_settings" where
  "load_config cc repo config_file vars ov =
     rbind (cc config_file ''PROXYPANEL'' ''_'' vars (config_defaults repo)) (\<lambda>b.
     rbind (built_settings repo ov b) (\<lambda>s.
     rbind (validate_jwt_secret (hc_jwt_secret s)) (\<lambda>_. Inr s)))"

text \<open>
  The arguments of the hub's program: the addresses and the directory have defaults of their own, so an
  override is always there. A TLS file given on the command line replaces the configured one.
\<close>

record hub_args =
  ha_config :: string
  ha_listen :: string
  ha_grpc_listen :: string
  ha_database_url :: "string option"
  ha_static_dir :: string
  ha_grpc_tls_cert :: "string option"
  ha_grpc_tls_key :: "string option"
  ha_http_tls_cert :: "string option"
  ha_http_tls_key :: "string option"

definition hub_settings_of_args :: "config_crate \<Rightarrow> string \<Rightarrow> string option \<Rightarrow> (string \<times> string) list \<Rightarrow> hub_args \<Rightarrow> string + hub_settings" where
  "hub_settings_of_args cc repo config_file vars a =
     rbind (load_config cc repo config_file vars
              \<lparr>ov_listen = Some (ha_listen a), ov_grpc_listen = Some (ha_grpc_listen a),
               ov_database_url = ha_database_url a, ov_static_dir = Some (ha_static_dir a)\<rparr>) (\<lambda>s.
       let s = s\<lparr>hc_http_tls_cert := or_else (ha_http_tls_cert a) (hc_http_tls_cert s),
                 hs_http_tls_key := or_else (ha_http_tls_key a) (hs_http_tls_key s)\<rparr>
       in if hs_database_url s = [] then Inl (''database_url is required. Set PROXYPANEL_DATABASE_URL or add database_url to '' @ ha_config a @ ''.'') else Inr s)"

text \<open>Which files the servers read for TLS; the hub serves plain HTTP when one of the two is missing.\<close>

definition grpc_tls_config :: "hub_args \<Rightarrow> string + (string \<times> string) option" where
  "grpc_tls_config a =
     (case (ha_grpc_tls_cert a, ha_grpc_tls_key a) of
        (Some cert, Some key) \<Rightarrow> Inr (Some (cert, key))
      | (None, None) \<Rightarrow> Inr None
      | _ \<Rightarrow> Inl ''both --grpc-tls-cert and --grpc-tls-key must be provided together'')"

definition http_tls_files :: "hub_settings \<Rightarrow> (string \<times> string) option" where
  "http_tls_files s =
     (case (hc_http_tls_cert s, hs_http_tls_key s) of (Some cert, Some key) \<Rightarrow> Some (cert, key) | _ \<Rightarrow> None)"

section \<open>The database\<close>

datatype database_backend = PostgreSQL | SQLite | Turso

definition detect_backend :: "string \<Rightarrow> database_backend" where
  "detect_backend url =
     (if starts_with ''postgres://'' url \<or> starts_with ''postgresql://'' url then PostgreSQL
      else if starts_with ''sqlite://'' url \<or> starts_with ''sqlite:'' url then SQLite
      else if starts_with ''libsql://'' url \<or> starts_with ''http://'' url then Turso
      else SQLite)"

definition supports_native_uuid :: "database_backend \<Rightarrow> bool" where
  "supports_native_uuid b \<longleftrightarrow> b = PostgreSQL"

text \<open>The schema migrations, then the upgrades of the data; an error of the migrations ends the start.\<close>

definition open_database ::
    "mig_env \<Rightarrow> string \<Rightarrow> tstamp \<Rightarrow> string \<Rightarrow> mig_store \<Rightarrow> system_meta list \<Rightarrow> string + upgrade_store" where
  "open_database e content now app st meta =
     (case run_migrations e st of
        (Some err, _) \<Rightarrow> Inl err
      | (None, st') \<Rightarrow>
          Inr (run_versioned_upgrades content now app \<lparr>so_db = mr_db (ms_rows st'), so_meta = meta\<rparr>))"

section \<open>The first API key\<close>

text \<open>
  \<open>key_file\<close> is what reading the file that \<open>PROXYPANEL_BOOTSTRAP_API_KEY_FILE\<close> names gives, \<open>var\<close> the value of
  \<open>PROXYPANEL_BOOTSTRAP_API_KEY\<close>, \<open>generated\<close> a random token. Only the file's text is trimmed.
\<close>

definition bootstrap_raw_key :: "(string + string) option \<Rightarrow> string option \<Rightarrow> string \<Rightarrow> string + string" where
  "bootstrap_raw_key key_file var generated =
     (case key_file of
        Some r \<Rightarrow> rbind r (\<lambda>t. Inr (trim t))
      | None \<Rightarrow> Inr (unwrap_or var generated))"

definition new_api_key :: "tstamp \<Rightarrow> uuid \<Rightarrow> string \<Rightarrow> string \<Rightarrow> json \<Rightarrow> api_key" where
  "new_api_key now i name key_hash scopes =
     \<lparr>ak_id = i, ak_name = name, ak_key_hash = key_hash, ak_scopes = scopes, ak_ip_allowlist = None,
      ak_rate_limit = None, ak_expires_at = None, ak_is_active = True, ak_created_at = now, ak_updated_at = now\<rparr>"

definition ensure_bootstrap_api_key ::
    "tstamp \<Rightarrow> (string \<Rightarrow> string + string) \<Rightarrow> uuid \<Rightarrow> (string + string) option \<Rightarrow> string option \<Rightarrow> string \<Rightarrow> db \<Rightarrow> (string + unit) \<times> db" where
  "ensure_bootstrap_api_key now hash i key_file var generated d =
     (if list_ex ak_is_active (db_api_keys d) then (Inr (), d)
      else
        (case rbind (bootstrap_raw_key key_file var generated) (\<lambda>raw.
              if raw = [] then Inl ''bootstrap API key is empty''
              else rbind (map_err (\<lambda>e. ''failed to hash bootstrap key: '' @ e) (hash raw)) Inr) of
           Inl err \<Rightarrow> (Inl err, d)
         | Inr key_hash \<Rightarrow>
             (Inr (), d\<lparr>db_api_keys := tbl_insert (new_api_key now i ''bootstrap'' key_hash (JArr [JStr ''*''])) (db_api_keys d)\<rparr>)))"

section \<open>Commands\<close>

text \<open>\<open>raw\<close> is the random key or token that a command prints.\<close>

definition cli_create_api_key ::
    "tstamp \<Rightarrow> (string \<Rightarrow> string + string) \<Rightarrow> uuid \<Rightarrow> string \<Rightarrow> string \<Rightarrow> string list \<Rightarrow> db \<Rightarrow> (string + string) \<times> db" where
  "cli_create_api_key now hash i random name scopes d =
     (let raw = ''ck_'' @ random in
      case hash raw of
        Inl e \<Rightarrow> (Inl (''failed to hash API key: '' @ e), d)
      | Inr key_hash \<Rightarrow>
          (Inr raw, d\<lparr>db_api_keys := tbl_insert (new_api_key now i name key_hash (JArr (map JStr scopes))) (db_api_keys d)\<rparr>))"

definition provision_node ::
    "tstamp \<Rightarrow> (string \<Rightarrow> string + string) \<Rightarrow> uuid \<Rightarrow> string \<Rightarrow> string \<Rightarrow> string option \<Rightarrow> string option \<Rightarrow> string option \<Rightarrow>
     string option \<Rightarrow> db \<Rightarrow> (string + uuid \<times> string) \<times> db" where
  "provision_node now hash i generated name hostname address domain token d =
     (let raw = unwrap_or token generated in
      case hash raw of
        Inl e \<Rightarrow> (Inl (''failed to hash agent token: '' @ e), d)
      | Inr token_hash \<Rightarrow>
          (Inr (i, raw), d\<lparr>db_nodes := tbl_insert
             \<lparr>n_id = i, n_name = name, n_hostname = unwrap_or hostname [], n_address = unwrap_or address [], n_domain = domain,
              n_token_hash = token_hash, n_cores_available = JArr [], n_labels = None, n_usage_coefficient = Fl 1 0,
              n_status = ''connecting'', n_parent_id = None, n_last_seen_at = None, n_updated_at = now\<rparr> (db_nodes d)\<rparr>))"

text \<open>Unlike the hub's handler this one takes any name; a second user of one name violates the unique column.\<close>

definition cli_create_user ::
    "tstamp \<Rightarrow> (string \<Rightarrow> string + string) \<Rightarrow> uuid \<Rightarrow> string \<Rightarrow> string \<Rightarrow> string \<Rightarrow> db \<Rightarrow> (string + unit) \<times> db" where
  "cli_create_user now hash i username password role d =
     (if length password < 8 then (Inl ''password must be at least 8 characters'', d)
      else
        (case hash password of
           Inl e \<Rightarrow> (Inl (''failed to hash password: '' @ e), d)
         | Inr password_hash \<Rightarrow>
             if list_ex (\<lambda>u. us_username u = username) (db_users d) then (Inl ''UNIQUE constraint failed: users.username'', d)
             else (Inr (), d\<lparr>db_users := tbl_insert
                     \<lparr>us_id = i, us_username = username, us_password_hash = password_hash, us_role = role,
                      us_status = ''active'', us_created_at = now, us_updated_at = now\<rparr> (db_users d)\<rparr>)))"

section \<open>Health and metrics\<close>

text \<open>\<open>db_up\<close> is what a ping of the database gives, \<open>version\<close> the package's version.\<close>

definition health :: "string \<Rightarrow> bool \<Rightarrow> json" where
  "health version db_up = jobj
     [(''status'', JStr (if db_up then ''healthy'' else ''degraded'')),
      (''database'', JStr (if db_up then ''connected'' else ''disconnected'')), (''version'', JStr version)]"

definition ready :: "string \<Rightarrow> bool \<Rightarrow> api_error + json" where
  "ready version db_up =
     (if \<not> db_up
      then Inl \<lparr>ae_status = SERVICE_UNAVAILABLE, ae_code = ''service_unavailable'', ae_message = ''database is not ready''\<rparr>
      else Inr (jobj [(''status'', JStr ''ready''), (''database'', JStr ''connected''), (''version'', JStr version)]))"

definition prometheus_metrics :: "string option \<Rightarrow> http_status + string" where
  "prometheus_metrics rendered = ok_or rendered SERVICE_UNAVAILABLE"

section \<open>The application\<close>

text \<open>
  \<open>build_app\<close>: the protected API below \<open>/api/v1\<close>, the two routes for administrators behind the check of their
  token, the public routes, and the static files for every other path.
\<close>

definition admin_routes :: "route list" where
  "admin_routes =
    [rt GET [''api'', ''v1'', ''me''] ''login::me'' None, rt POST [''api'', ''v1'', ''users''] ''login::create_user'' None]"

definition public_routes :: "route list" where
  "public_routes =
    [rt GET [''health''] ''health::health'' None, rt GET [''ready''] ''health::ready'' None,
     rt GET [''metrics''] ''metrics_export::prometheus_metrics'' None,
     rt GET [''install.sh''] ''install::serve_install_script'' None,
     rt GET [''install-hub.sh''] ''install::serve_hub_install_script'' None,
     rt GET [''sub'', ''{token}''] ''subscription::serve_subscription'' None,
     rt GET [''sub'', ''{token}'', ''qr''] ''subscription::serve_subscription_qr'' None,
     rt POST [''api'', ''v1'', ''login''] ''login::login'' None]"

datatype app_outcome =
    Protected outcome
  | AdminRefused http_status
  | AdminRun string auth_user
  | PublicRun string "string list"
  | WrongMethod
  | StaticFile "string list"

definition run_route :: "http_method \<Rightarrow> string list \<Rightarrow> route list \<Rightarrow> (string \<Rightarrow> app_outcome) \<Rightarrow> app_outcome" where
  "run_route m p rs run =
     (case find (\<lambda>ro. ro_path ro = p \<and> ro_method ro = m) rs of None \<Rightarrow> WrongMethod | Some ro \<Rightarrow> run (ro_handler ro))"

definition protected_path :: "string list \<Rightarrow> string list option" where
  "protected_path ss =
     (case ss of a # b # rest \<Rightarrow> if a = ''api'' \<and> b = ''v1'' \<and> best_path rest protected_routes \<noteq> None then Some rest else None
      | _ \<Rightarrow> None)"

definition serve_app ::
    "crates \<Rightarrow> prefixes \<Rightarrow> jwt_crate \<Rightarrow> hub_config \<Rightarrow> tstamp \<Rightarrow> http_method \<Rightarrow> string list \<Rightarrow> http_request \<Rightarrow> hub \<Rightarrow> app_outcome \<times> hub" where
  "serve_app x net jw hc now m ss r h =
     (case protected_path ss of
        Some rest \<Rightarrow> (case serve x net (hc_trusted_proxy_ips hc) now m rest r h of (res, h) \<Rightarrow> (Protected res, h))
      | None \<Rightarrow>
          (case best_path ss admin_routes of
             Some p \<Rightarrow>
               ((case require_auth x jw hc now r of
                   Inl e \<Rightarrow> AdminRefused e
                 | Inr user \<Rightarrow> run_route m p admin_routes (\<lambda>handler. AdminRun handler user)), h)
           | None \<Rightarrow>
               (case best_path ss public_routes of
                  Some p \<Rightarrow> (run_route m p public_routes (\<lambda>handler. PublicRun handler ss), h)
                | None \<Rightarrow> (StaticFile ss, h))))"

text \<open>Only a valid token gets a request to a handler for administrators.\<close>

lemma admin_needs_token:
  "fst (serve_app x net jw hc now m ss r h) = AdminRun handler user \<Longrightarrow> require_auth x jw hc now r = Inr user"
  by (auto simp: serve_app_def run_route_def split: option.splits sum.splits prod.splits)

end
