(* ===== verification/StartCheck.thy ===== *)
theory StartCheck
  imports HubStart
begin

text \<open>
  What a start gives: a first key that opens the API, and settings that no variable of the environment
  reaches when their name has an underscore.
\<close>

section \<open>The environment\<close>

text \<open>
  What the crate says of \<open>separator\<close>: in the name of a variable it is put where a key has a dot, so a variable
  gives a value to no key in which the separator occurs. A result is compared with the one without variables.
\<close>

definition separates_keys :: "config_crate \<Rightarrow> bool" where
  "separates_keys cc \<longleftrightarrow>
     (\<forall>config_file prefix sep vars defaults b b0 k.
        cc config_file prefix sep vars defaults = Inr b \<and> cc config_file prefix sep [] defaults = Inr b0
        \<and> str_contains sep k \<longrightarrow> bc_string b k = bc_string b0 k \<and> bc_bool b k = bc_bool b0 k)"

definition underscored :: "string list" where
  "underscored = [''grpc_listen'', ''cors_origins'', ''trusted_proxy_ips'', ''jwt_secret'', ''http_tls_cert'', ''http_tls_key'',
     ''public_http_url'', ''public_grpc_url'', ''release_repo'', ''database_url'', ''static_dir'', ''maintenance_enabled'',
     ''maintenance_status_file'', ''maintenance_cli_path'', ''maintenance_sudo_path'', ''maintenance_systemd_run_path'']"

lemma underscored_keys: "k \<in> set underscored \<Longrightarrow> str_contains ''_'' k"
  by (auto simp: underscored_def)

lemma separates_setting:
  assumes "separates_keys cc" "cc f p ''_'' vars d = Inr b" "cc f p ''_'' [] d = Inr b0" "k \<in> set underscored"
  shows "bc_string b k = bc_string b0 k" and "bc_bool b k = bc_bool b0 k"
  using assms underscored_keys unfolding separates_keys_def by blast+

lemma built_settings_agree:
  assumes "\<And>k. k \<in> set underscored \<Longrightarrow> bc_string b k = bc_string b0 k \<and> bc_bool b k = bc_bool b0 k"
    and "ov_listen ov = Some l" and "built_settings repo ov b = Inr s" and "built_settings repo ov b0 = Inr s0"
  shows "s = s0"
proof -
  have keys: "bc_string b k = bc_string b0 k" "setting b k = setting b0 k" "bc_bool b k = bc_bool b0 k"
    if "k \<in> set underscored" for k
    using assms(1) [OF that] by (simp_all add: setting_def)
  note here = keys [unfolded underscored_def]
  obtain l1 g1 where 1: "bc_string b ''listen'' = Inr l1" "bc_string b ''grpc_listen'' = Inr g1"
    using assms(3) by (auto simp: built_settings_def rbind_def split: sum.splits)
  obtain l2 where 2: "bc_string b0 ''listen'' = Inr l2" "bc_string b0 ''grpc_listen'' = Inr g1"
    using assms(4) 1(2) here(1) [of "''grpc_listen''"] by (auto simp: built_settings_def rbind_def split: sum.splits)
  show ?thesis
    using assms(3,4) by (simp add: built_settings_def 1 2 assms(2) here)
qed


text \<open>A crate that reads the defaults, and a variable for each key of one word.\<close>

definition demo_config_crate :: config_crate where
  "demo_config_crate config_file prefix sep vars defaults = Inr
     \<lparr>bc_string = (\<lambda>k. let file_value = (case config_file of Some t \<Rightarrow> if k = ''jwt_secret'' then Some t else None | None \<Rightarrow> None)
         in ok_or (or_else (if str_contains sep k then None else map_of vars k) (or_else file_value (map_of defaults k))) ''missing''),
      bc_bool = (\<lambda>k. Inl ''missing'')\<rparr>"

definition demo_hub_args :: hub_args where
  "demo_hub_args = \<lparr>ha_config = ''config/hub.toml'', ha_listen = ''0.0.0.0:8081'', ha_grpc_listen = ''0.0.0.0:50052'',
     ha_database_url = Some ''sqlite://data/hub.db'', ha_static_dir = ''apps/panel/dist'', ha_grpc_tls_cert = None,
     ha_grpc_tls_key = None, ha_http_tls_cert = None, ha_http_tls_key = None\<rparr>"

definition demo_secret :: string where "demo_secret = ''0123456789abcdef0123456789abcdef''"

lemma demo_crate_separates: "separates_keys demo_config_crate"
  by (auto simp: separates_keys_def demo_config_crate_def)

lemma demo_settings:
  "\<exists>s. hub_settings_of_args demo_config_crate ''r/p'' (Some demo_secret) vars demo_hub_args = Inr s \<and> hc_jwt_secret s = demo_secret"
proof -
  have "validate_jwt_secret demo_secret = Inr ()" by code_simp
  then show ?thesis
    by (auto simp: hub_settings_of_args_def load_config_def built_settings_def demo_config_crate_def config_defaults_def
      demo_hub_args_def setting_def Let_def or_else_def ok_or_def split: option.splits)
qed


section \<open>The first key\<close>

lemma strip_white_stuck: "strip_white ws s = [] \<or> white_len ws (strip_white ws s) = 0"
proof (induction ws s rule: strip_white.induct)
  case (1 ws s)
  then show ?case by (subst (1 2) strip_white.simps) (auto simp: Let_def)
qed

lemma white_len_blank: "white_len (map rev white_codes) (CHR '' '' # s) \<noteq> 0"
  by (simp add: white_len_def white_codes_def)

lemma trim_no_blank: "trim s \<noteq> p @ '' ''"
proof
  assume *: "trim s = p @ '' ''"
  let ?r = "strip_white (map rev white_codes) (rev (trim_start s))"
  have "rev ?r = p @ '' ''" using * by (simp add: trim_def trim_end_def)
  then have "?r = CHR '' '' # rev p" by (metis rev_append rev_rev_ident rev_singleton_conv append_Cons append_Nil)
  then show False using strip_white_stuck [of "map rev white_codes" "rev (trim_start s)"] white_len_blank by auto
qed

lemma extract_key_no_blank: "extract_key r \<noteq> p @ '' ''"
  by (auto simp: extract_key_def trim_no_blank split: option.split)

lemma no_active_key: "\<not> list_ex ak_is_active ks \<Longrightarrow> filter ak_is_active ks = []"
  by (auto simp: list_ex_iff filter_empty_conv)

lemma bootstrap_creates:
  assumes "\<not> list_ex ak_is_active (db_api_keys d)" and "bootstrap_raw_key key_file var generated = Inr raw" and "raw \<noteq> []"
    and "hash raw = Inr key_hash"
  shows "ensure_bootstrap_api_key now hash i key_file var generated d =
    (Inr (), d\<lparr>db_api_keys := tbl_insert (new_api_key now i ''bootstrap'' key_hash (JArr [JStr ''*''])) (db_api_keys d)\<rparr>)"
  using assms by (simp add: ensure_bootstrap_api_key_def map_err_def)

lemma only_bootstrap_key:
  assumes "\<not> list_ex ak_is_active (db_api_keys d)"
  shows "find_key x key (d\<lparr>db_api_keys := tbl_insert (new_api_key now i name key_hash scopes) (db_api_keys d)\<rparr>) =
    (if unwrap_or (verify_secret x key key_hash) False then Some (new_api_key now i name key_hash scopes) else None)"
  using no_active_key [OF assms] by (simp add: find_key_def tbl_insert_def new_api_key_def)



text \<open>
  A key from the variable is not trimmed, the one of a request is: a key that ends in a blank is stored, and no
  request can show it.
\<close>

lemma key_with_blank_opens_nothing:
  assumes "\<not> list_ex ak_is_active (db_api_keys d)" and "hash (p @ '' '') = Inr key_hash"
    and "\<And>s. x_argon2_verify x s key_hash = Some True \<Longrightarrow> s = p @ '' ''"
    and "h_db h = snd (ensure_bootstrap_api_key now hash i None (Some (p @ '' '')) generated d)" and "h_key_cache h = []"
  shows "list_ex ak_is_active (db_api_keys (h_db h)) \<and> require_api_key x net trusted now' r h = (Inl UNAUTHORIZED, h)"
proof -
  have d': "h_db h = d\<lparr>db_api_keys := tbl_insert (new_api_key now i ''bootstrap'' key_hash (JArr [JStr ''*''])) (db_api_keys d)\<rparr>"
    using bootstrap_creates [of d None "Some (p @ '' '')" generated "p @ '' ''" hash key_hash now i] assms
    by (simp add: bootstrap_raw_key_def)
  have "x_argon2_verify x (extract_key r) key_hash \<noteq> Some True" using assms(3) extract_key_no_blank by blast
  then have "find_key x (extract_key r) (h_db h) = None"
    by (cases "x_argon2_verify x (extract_key r) key_hash")
      (auto simp: d' only_bootstrap_key [OF assms(1)] verify_secret_def)
  then have "require_api_key x net trusted now' r h = (Inl UNAUTHORIZED, h)"
    using assms(5) by (simp add: require_api_key_def cache_get_def opt_filter_def Let_def)
  then show ?thesis by (simp add: d' tbl_insert_def new_api_key_def)
qed

end
