(* ===== verification/HubLogs.thy ===== *)
theory HubLogs
  imports ReportRoutes "HOL-Library.Sublist"
begin

text \<open>
  The hub's own log: what a traced event becomes (pp-common, logging.rs), the queue and the writer behind it
  (pp-hub, logging.rs), and the query over both kinds of logs (pp-hub, routes/logs.rs). Ids of rows are the
  argument \<open>rid\<close>. What a value prints as with \<open>Debug\<close> is an argument of the visit.
\<close>

section \<open>Events\<close>

datatype log_level = ERROR | WARN | INFO | DEBUG | TRACE

text \<open>\<open>tracing\<close> orders the levels by how much they let through.\<close>

fun level_rank :: "log_level \<Rightarrow> nat" where
  "level_rank ERROR = 0" | "level_rank WARN = 1" | "level_rank INFO = 2" | "level_rank DEBUG = 3" | "level_rank TRACE = 4"

fun level_text :: "log_level \<Rightarrow> string" where
  "level_text ERROR = ''error''" | "level_text WARN = ''warn''" | "level_text INFO = ''info''"
| "level_text DEBUG = ''debug''" | "level_text TRACE = ''trace''"

datatype field_value = FStr string | FI64 int | FU64 nat | FBool bool | FDebug string

record log_visitor =
  lv_message :: string
  lv_fields :: "(string \<times> string) list"

definition empty_visitor :: log_visitor where
  "empty_visitor = \<lparr>lv_message = [], lv_fields = []\<rparr>"

definition store_field :: "crates \<Rightarrow> string \<Rightarrow> string \<Rightarrow> log_visitor \<Rightarrow> log_visitor" where
  "store_field x name value v =
     (if name = ''message'' then v\<lparr>lv_message := sanitize_log_text x value\<rparr>
      else if length (lv_fields v) < MAX_FIELDS
      then v\<lparr>lv_fields := AList.update name (sanitize_log_field x name value) (lv_fields v)\<rparr>
      else v)"

fun record_field :: "crates \<Rightarrow> string \<times> field_value \<Rightarrow> log_visitor \<Rightarrow> log_visitor" where
  "record_field x (name, FStr s) = store_field x name s"
| "record_field x (name, FI64 n) = store_field x name (int_str n)"
| "record_field x (name, FU64 n) = store_field x name (nat_str n)"
| "record_field x (name, FBool b) = store_field x name (if b then ''true'' else ''false'')"
| "record_field x (name, FDebug s) =
     (if sensitive name \<and> name \<noteq> ''message'' then store_field x name ''[REDACTED]''
      else if name = ''message'' then store_field x name s
      else store_field x name ''[debug value omitted]'')"

definition record_event :: "crates \<Rightarrow> (string \<times> field_value) list \<Rightarrow> log_visitor" where
  "record_event x fs = fold (record_field x) fs empty_visitor"

section \<open>The queue\<close>

record log_record =
  lr_level :: string
  lr_source :: string
  lr_visitor :: log_visitor
  lr_timestamp :: tstamp

record traced_event =
  te_level :: log_level
  te_target :: string
  te_fields :: "(string \<times> field_value) list"
  te_time :: tstamp

definition CAPACITY :: nat where "CAPACITY = 512"

text \<open>
  \<open>lq_printed\<close> is what the writer says on the error output: a record that could not be written, or how many
  the full queue dropped.
\<close>

datatype writer_notice = WriteFailed log_record | QueueDropped nat

record log_queue =
  lq_records :: "log_record list"
  lq_open :: bool
  lq_dropped :: nat
  lq_rows :: "system_log list"
  lq_printed :: "writer_notice list"

definition new_log_queue :: "system_log list \<Rightarrow> log_queue" where
  "new_log_queue rows = \<lparr>lq_records = [], lq_open = True, lq_dropped = 0, lq_rows = rows, lq_printed = []\<rparr>"

definition wanted_event :: "traced_event \<Rightarrow> bool" where
  "wanted_event ev \<longleftrightarrow>
     \<not> (level_rank (te_level ev) > level_rank INFO
        \<or> \<not> (starts_with ''proxy_panel_hub'' (te_target ev) \<or> starts_with ''pp_'' (te_target ev))
        \<or> starts_with ''proxy_panel_hub::logging'' (te_target ev))"

definition event_record :: "crates \<Rightarrow> traced_event \<Rightarrow> log_record" where
  "event_record x ev =
     (let v = record_event x (te_fields ev);
          v = (if lv_message v = [] then v\<lparr>lv_message := ''event at '' @ te_target ev\<rparr> else v)
      in \<lparr>lr_level = level_text (te_level ev), lr_source = te_target ev, lr_visitor = v, lr_timestamp = te_time ev\<rparr>)"

text \<open>\<open>try_send\<close> fails on a full or closed queue; the 64-bit counter wraps only past what a process can count.\<close>

definition on_event :: "crates \<Rightarrow> traced_event \<Rightarrow> log_queue \<Rightarrow> log_queue" where
  "on_event x ev q =
     (if \<not> wanted_event ev then q
      else if lq_open q \<and> length (lq_records q) < CAPACITY then q\<lparr>lq_records := lq_records q @ [event_record x ev]\<rparr>
      else q\<lparr>lq_dropped := lq_dropped q + 1\<rparr>)"

definition log_row :: "log_record \<Rightarrow> system_log" where
  "log_row r = \<lparr>sl_level = lr_level r, sl_source = lr_source r, sl_message = lv_message (lr_visitor r),
     sl_metadata = Some (jobj (map (\<lambda>(k, v). (k, JStr v)) (lv_fields (lr_visitor r)))), sl_created_at = lr_timestamp r\<rparr>"

text \<open>The writer takes the next record; \<open>ok\<close> says whether the insert succeeds within its time.\<close>

definition write_record :: "bool \<Rightarrow> log_queue \<Rightarrow> log_queue" where
  "write_record ok q =
     (case lq_records q of
        [] \<Rightarrow> q
      | r # rs \<Rightarrow>
          (let q = (if ok then q\<lparr>lq_records := rs, lq_rows := tbl_insert (log_row r) (lq_rows q)\<rparr>
                    else q\<lparr>lq_records := rs, lq_printed := lq_printed q @ [WriteFailed r]\<rparr>)
           in if lq_dropped q > 0
              then q\<lparr>lq_dropped := 0, lq_printed := lq_printed q @ [QueueDropped (lq_dropped q)]\<rparr> else q))"

definition close_queue :: "log_queue \<Rightarrow> log_queue" where
  "close_queue q = q\<lparr>lq_open := False\<rparr>"

datatype log_action = Traced traced_event | Written bool | Stopped

fun log_step :: "crates \<Rightarrow> log_action \<Rightarrow> log_queue \<Rightarrow> log_queue" where
  "log_step x (Traced ev) q = on_event x ev q"
| "log_step x (Written ok) q = write_record ok q"
| "log_step x Stopped q = close_queue q"

definition log_run :: "crates \<Rightarrow> log_action list \<Rightarrow> log_queue \<Rightarrow> log_queue" where
  "log_run x steps q = fold (log_step x) steps q"

section \<open>The query\<close>

text \<open>
  \<open>LIKE\<close> of SQLite: a per cent sign is any text, an underscore any character, and letters of ASCII match in either
  case. \<open>contains\<close> puts a per cent sign around its text, which is not escaped.
\<close>

function like_match :: "string \<Rightarrow> string \<Rightarrow> bool" where
  "like_match [] s = (s = [])"
| "like_match (p # ps) s =
     (if p = CHR ''%'' then like_match ps s \<or> (case s of [] \<Rightarrow> False | c # cs \<Rightarrow> like_match (p # ps) (dropWhile is_continuation cs))
      else (case s of
              [] \<Rightarrow> False
            | c # cs \<Rightarrow>
                if p = CHR ''_'' then like_match ps (dropWhile is_continuation cs)
                else ascii_lower [p] = ascii_lower [c] \<and> like_match ps cs))"
  by pat_completeness auto
termination
  by (relation "measure (\<lambda>(p, s). length p + length s)") (auto simp: less_Suc_eq_le intro: le_trans [OF length_dropWhile_le])

declare like_match.simps [simp del]

definition contains_like :: "string \<Rightarrow> string \<Rightarrow> bool" where
  "contains_like source s = like_match (''%'' @ source @ ''%'') s"

definition log_level_param :: "params \<Rightarrow> string option" where
  "log_level_param ps = opt_filter (\<lambda>s. s \<noteq> [] \<and> s \<noteq> ''all'') (map_option (\<lambda>s. ascii_lower (trim s)) (map_of ps ''level''))"

definition log_source_param :: "params \<Rightarrow> string option" where
  "log_source_param ps = opt_filter (\<lambda>s. s \<noteq> []) (map_option trim (map_of ps ''source''))"

text \<open>The offset and the size of a page; \<open>saturating_mul\<close> is at 64 bits.\<close>

definition log_window :: "params \<Rightarrow> nat \<times> nat" where
  "log_window ps =
     (case parse_pagination ps of
        Some (page, per_page) \<Rightarrow> (let size = min per_page 200 in (min u64_max ((page - 1) * size), size))
      | None \<Rightarrow> (0, clamp 1 200 (limit_param ps 100)))"

definition log_page :: "params \<Rightarrow> ('r \<Rightarrow> json) \<Rightarrow> 'r list \<Rightarrow> json list \<times> nat" where
  "log_page ps to_json rows =
     (case log_window ps of (offset, limit) \<Rightarrow>
        (let data = map to_json (take limit (drop offset rows))
         in (data, if parse_pagination ps \<noteq> None then length rows else length data)))"

definition log_meta :: "crates \<Rightarrow> json option \<Rightarrow> json" where
  "log_meta x m = unwrap_or (map_option (sanitize_log_metadata x) m) JNull"

definition agent_log_json :: "crates \<Rightarrow> (tstamp \<Rightarrow> json) \<Rightarrow> (agent_log \<Rightarrow> string) \<Rightarrow> node list \<Rightarrow> agent_log \<Rightarrow> json" where
  "agent_log_json x tj rid nodes r = jobj
     [(''id'', JStr (rid r)), (''level'', JStr (al_level r)), (''source'', JStr (al_target r)), (''node_id'', JStr (al_node_id r)),
      (''node_name'', (case tbl_find n_id (al_node_id r) nodes of Some n \<Rightarrow> JStr (n_name n) | None \<Rightarrow> JNull)),
      (''message'', JStr (sanitize_log_text x (al_message r))), (''metadata'', log_meta x (al_fields r)),
      (''created_at'', tj (al_created_at r))]"

definition system_log_json :: "crates \<Rightarrow> (tstamp \<Rightarrow> json) \<Rightarrow> (system_log \<Rightarrow> string) \<Rightarrow> system_log \<Rightarrow> json" where
  "system_log_json x tj rid r = jobj
     [(''id'', JStr (rid r)), (''level'', JStr (sl_level r)), (''source'', JStr (sl_source r)),
      (''message'', JStr (sanitize_log_text x (sl_message r))), (''metadata'', log_meta x (sl_metadata r)),
      (''created_at'', tj (sl_created_at r))]"

definition agent_log_rows :: "(agent_log \<Rightarrow> string) \<Rightarrow> string option \<Rightarrow> string option \<Rightarrow> db \<Rightarrow> agent_log list" where
  "agent_log_rows rid level source d =
     sort_desc al_created_at (sort_desc rid (filter (\<lambda>r.
       opt_holds (\<lambda>l. al_level r = l) level
       \<and> opt_holds (\<lambda>s. contains_like s (al_target r)
            \<or> (case tbl_find n_id (al_node_id r) (db_nodes d) of Some n \<Rightarrow> contains_like s (n_name n) | None \<Rightarrow> False)) source) (db_agent_logs d)))"

definition system_log_rows :: "(system_log \<Rightarrow> string) \<Rightarrow> string option \<Rightarrow> string option \<Rightarrow> db \<Rightarrow> system_log list" where
  "system_log_rows rid level source d =
     sort_desc sl_created_at (sort_desc rid (filter (\<lambda>r.
       opt_holds (\<lambda>l. sl_level r = l) level \<and> opt_holds (\<lambda>s. contains_like s (sl_source r)) source) (db_system_logs d)))"

definition query_logs ::
    "crates \<Rightarrow> (tstamp \<Rightarrow> json) \<Rightarrow> (agent_log \<Rightarrow> string) \<Rightarrow> (system_log \<Rightarrow> string) \<Rightarrow> params \<Rightarrow> db \<Rightarrow> api_error + json list \<times> nat" where
  "query_logs x tj arid srid ps d =
     (let kind = unwrap_or (map_of ps ''kind'') ''system''; level = log_level_param ps; source = log_source_param ps in
      if kind \<notin> {''system'', ''agent''} then Inl (bad_request ''invalid_log_kind'' ''kind must be system or agent'')
      else if \<not> opt_holds (\<lambda>l. l \<in> {''info'', ''warn'', ''error'', ''debug'', ''trace''}) level
      then Inl (bad_request ''invalid_log_level'' ''unsupported log level'')
      else if \<not> opt_holds (\<lambda>s. length s \<le> 256) source
      then Inl (bad_request ''invalid_log_source'' ''source is too long'')
      else if kind = ''agent''
      then Inr (log_page ps (agent_log_json x tj arid (db_nodes d)) (agent_log_rows arid level source d))
      else Inr (log_page ps (system_log_json x tj srid) (system_log_rows srid level source d)))"

section \<open>The queue accounts for every event\<close>

fun traced_events :: "log_action list \<Rightarrow> traced_event list" where
  "traced_events [] = []"
| "traced_events (Traced ev # steps) = (if wanted_event ev then ev # traced_events steps else traced_events steps)"
| "traced_events (Written ok # steps) = traced_events steps"
| "traced_events (Stopped # steps) = traced_events steps"

fun notice_count :: "writer_notice \<Rightarrow> nat" where
  "notice_count (WriteFailed r) = 1"
| "notice_count (QueueDropped n) = n"

text \<open>What has happened to the wanted events \<open>evs\<close>, since the table had \<open>rows\<close>.\<close>

definition log_accounts :: "crates \<Rightarrow> system_log list \<Rightarrow> traced_event list \<Rightarrow> log_queue \<Rightarrow> bool" where
  "log_accounts x rows evs q \<longleftrightarrow>
     length (lq_records q) \<le> CAPACITY
     \<and> (\<exists>written. lq_rows q = rows @ map log_row written
          \<and> subseq (written @ lq_records q) (map (event_record x) evs)
          \<and> length written + length (lq_records q) + lq_dropped q + sum_list (map notice_count (lq_printed q)) = length evs)"

lemma log_accounts_event:
  assumes "log_accounts x rows evs q"
  shows "log_accounts x rows (if wanted_event ev then evs @ [ev] else evs) (on_event x ev q)"
proof -
  obtain w where w: "lq_rows q = rows @ map log_row w" "subseq (w @ lq_records q) (map (event_record x) evs)"
    "length w + length (lq_records q) + lq_dropped q + sum_list (map notice_count (lq_printed q)) = length evs"
    using assms by (auto simp: log_accounts_def)
  have "subseq ((w @ lq_records q) @ [event_record x ev]) (map (event_record x) evs @ [event_record x ev])"
    using w(2) by (intro list_emb_append_mono) auto
  moreover have "subseq (w @ lq_records q) (map (event_record x) evs @ [event_record x ev])"
    using w(2) by (rule list_emb_prefix)
  ultimately show ?thesis
    using assms w by (auto simp: log_accounts_def on_event_def intro!: exI [of _ w])
qed

lemma log_accounts_write:
  assumes "log_accounts x rows evs q"
  shows "log_accounts x rows evs (write_record ok q)"
proof (cases "lq_records q")
  case Nil
  then show ?thesis using assms by (simp add: write_record_def)
next
  case (Cons r rs)
  obtain w where w: "lq_rows q = rows @ map log_row w" "subseq (w @ r # rs) (map (event_record x) evs)"
    "length w + length (r # rs) + lq_dropped q + sum_list (map notice_count (lq_printed q)) = length evs"
    "length (r # rs) \<le> CAPACITY"
    using assms Cons by (auto simp: log_accounts_def)
  have skip: "subseq (w @ rs) (map (event_record x) evs)"
    using w(2) by (rule subseq_order.trans [rotated]) (simp add: list_emb_append_mono subseq_Cons')
  show ?thesis
  proof (cases ok)
    case True
    then show ?thesis using w Cons
      by (auto simp: log_accounts_def write_record_def Let_def tbl_insert_def intro!: exI [of _ "w @ [r]"])
  next
    case False
    then show ?thesis using w Cons skip
      by (auto simp: log_accounts_def write_record_def Let_def intro!: exI [of _ w])
  qed
qed

lemma log_run_accounts:
  "log_accounts x rows evs q \<Longrightarrow> log_accounts x rows (evs @ traced_events steps) (log_run x steps q)"
proof (induction steps arbitrary: evs q)
  case Nil
  then show ?case by (simp add: log_run_def)
next
  case (Cons s steps)
  have run: "log_run x (s # steps) q = log_run x steps (log_step x s q)" by (simp add: log_run_def)
  show ?case
  proof (cases s)
    case (Traced ev)
    then show ?thesis
      using Cons.IH [OF log_accounts_event [OF Cons.prems, of ev]] unfolding run by (cases "wanted_event ev") auto
  next
    case (Written ok)
    then show ?thesis using Cons.IH [OF log_accounts_write [OF Cons.prems]] unfolding run by simp
  next
    case Stopped
    have "log_accounts x rows evs (close_queue q)" using Cons.prems by (simp add: log_accounts_def close_queue_def)
    then show ?thesis using Cons.IH Stopped unfolding run by simp
  qed
qed

text \<open>Once stopped, the queue takes nothing more, and as many writes as it holds empty it.\<close>

lemma write_all:
  "length (lq_records q) \<le> n \<Longrightarrow>
   lq_records (log_run x (replicate n (Written True)) q) = []
   \<and> lq_rows (log_run x (replicate n (Written True)) q) = lq_rows q @ map log_row (lq_records q)"
proof (induction n arbitrary: q)
  case 0
  then show ?case by (simp add: log_run_def)
next
  case (Suc n)
  have run: "log_run x (replicate (Suc n) (Written True)) q = log_run x (replicate n (Written True)) (write_record True q)"
    by (simp add: log_run_def)
  have "length (lq_records (write_record True q)) \<le> n"
    "lq_rows (write_record True q) @ map log_row (lq_records (write_record True q)) = lq_rows q @ map log_row (lq_records q)"
    using Suc.prems by (auto simp: write_record_def Let_def tbl_insert_def split: list.split)
  then show ?case unfolding run using Suc.IH by metis
qed

text \<open>
  C40: Whatever the order in which events are traced, records are written and the writer is stopped, the queue
  holds at most 512 records; the table is the old one with the written records in the order of their events,
  and each wanted event is written, waiting, counted as dropped, or reported on the error output, once. When the
  writer is stopped and can write, as many writes as records wait bring all of them into the table.
\<close>

theorem log_queue_accounts:
  "log_accounts x rows (traced_events steps) (log_run x steps (new_log_queue rows))
   \<and> (\<forall>n. length (lq_records (log_run x steps (new_log_queue rows))) \<le> n \<longrightarrow>
        lq_rows (log_run x (Stopped # replicate n (Written True)) (log_run x steps (new_log_queue rows)))
          = lq_rows (log_run x steps (new_log_queue rows)) @ map log_row (lq_records (log_run x steps (new_log_queue rows))))"
proof (intro conjI allI impI)
  have "log_accounts x rows [] (new_log_queue rows)"
    by (simp add: log_accounts_def new_log_queue_def)
  then show "log_accounts x rows (traced_events steps) (log_run x steps (new_log_queue rows))"
    using log_run_accounts by fastforce
next
  fix n
  let ?q = "log_run x steps (new_log_queue rows)"
  assume n: "length (lq_records ?q) \<le> n"
  have "log_run x (Stopped # replicate n (Written True)) ?q = log_run x (replicate n (Written True)) (close_queue ?q)"
    by (simp add: log_run_def)
  then show "lq_rows (log_run x (Stopped # replicate n (Written True)) ?q) = lq_rows ?q @ map log_row (lq_records ?q)"
    using write_all [of "close_queue ?q" n x] n by (simp add: close_queue_def)
qed

text \<open>One record is written, one waits when the writer is stopped, and one event is not wanted.\<close>

definition demo_event :: "log_level \<Rightarrow> tstamp \<Rightarrow> traced_event" where
  "demo_event level now =
     \<lparr>te_level = level, te_target = ''pp_db'', te_fields = [(''message'', FStr ''ready'')], te_time = now\<rparr>"

definition demo_log_run :: log_queue where
  "demo_log_run =
     log_run demo_crates [Traced (demo_event INFO 1), Written True, Traced (demo_event DEBUG 2), Traced (demo_event WARN 3)]
       (new_log_queue [])"

lemma demo_wanted: "wanted_event (demo_event INFO t)" "\<not> wanted_event (demo_event DEBUG t)" "wanted_event (demo_event WARN t)"
  by (simp_all add: wanted_event_def demo_event_def)

lemma demo_log_run_queue:
  "lq_records demo_log_run = [event_record demo_crates (demo_event WARN 3)]"
  "lq_rows demo_log_run = [log_row (event_record demo_crates (demo_event INFO 1))]"
  by (simp_all add: demo_log_run_def log_run_def new_log_queue_def on_event_def write_record_def demo_wanted CAPACITY_def
      tbl_insert_def Let_def)

theorem log_queue_accounts_witness:
  "log_accounts demo_crates [] [demo_event INFO 1, demo_event WARN 3] demo_log_run
   \<and> lq_rows (log_run demo_crates [Stopped, Written True] demo_log_run)
       = map (\<lambda>ev. log_row (event_record demo_crates ev)) [demo_event INFO 1, demo_event WARN 3]"
proof -
  let ?steps = "[Traced (demo_event INFO 1), Written True, Traced (demo_event DEBUG 2), Traced (demo_event WARN 3)]"
  note accounts = log_queue_accounts [of demo_crates "[]" ?steps, folded demo_log_run_def]
  have "lq_rows (log_run demo_crates (Stopped # replicate 1 (Written True)) demo_log_run)
      = lq_rows demo_log_run @ map log_row (lq_records demo_log_run)"
    by (rule mp [OF spec [OF conjunct2 [OF accounts]]]) (simp add: demo_log_run_queue)
  with conjunct1 [OF accounts] show ?thesis
    by (simp add: demo_log_run_queue demo_wanted)
qed

section \<open>The query shows nothing secret\<close>

lemma log_window_limit: "snd (log_window ps) \<le> 200"
  by (auto simp: log_window_def Let_def clamp_def split: option.split)

lemma log_page_members:
  "j \<in> set (fst (log_page ps to_json rows)) \<Longrightarrow> \<exists>r \<in> set rows. j = to_json r"
  by (auto simp: log_page_def Let_def split: prod.splits dest!: in_set_takeD in_set_dropD)

lemma log_page_length: "length (fst (log_page ps to_json rows)) \<le> 200"
  using log_window_limit [of ps] by (auto simp: log_page_def Let_def min_def split: prod.splits)

lemma redacted_log_meta: "redacted (log_meta x m)"
  by (cases m) (auto simp: log_meta_def sanitize_log_metadata_def clean_redacted intro: red_null)

definition shown_safely :: "crates \<Rightarrow> json \<Rightarrow> bool" where
  "shown_safely x j \<longleftrightarrow>
     (\<exists>t md. jget j ''message'' = Some (JStr (sanitize_log_text x t)) \<and> jget j ''metadata'' = Some md \<and> redacted md)"

lemma agent_log_safe: "shown_safely x (agent_log_json x tj rid nodes r)"
  unfolding shown_safely_def
  by (intro exI [of _ "al_message r"] exI [of _ "log_meta x (al_fields r)"]) (simp add: agent_log_json_def redacted_log_meta jget_jobj)

lemma system_log_safe: "shown_safely x (system_log_json x tj rid r)"
  unfolding shown_safely_def
  by (intro exI [of _ "sl_message r"] exI [of _ "log_meta x (sl_metadata r)"]) (simp add: system_log_json_def redacted_log_meta jget_jobj)

text \<open>
  A query answers with at most 200 records, whatever it asks for, and in each the text of the message is
  what the redaction leaves, of at most 8204 bytes, and no member of the metadata under a sensitive name shows
  its value, at any depth.
\<close>

theorem query_logs_shows_safely:
  assumes "query_logs x tj arid srid ps d = Inr (data, n)"
  shows "length data \<le> 200 \<and> (\<forall>j \<in> set data. shown_safely x j)
    \<and> (x_log_patterns x \<noteq> None \<longrightarrow> (\<forall>t. length (sanitize_log_text x t) \<le> 8204))"
proof -
  let ?a = "log_page ps (agent_log_json x tj arid (db_nodes d)) (agent_log_rows arid (log_level_param ps) (log_source_param ps) d)"
  let ?s = "log_page ps (system_log_json x tj srid) (system_log_rows srid (log_level_param ps) (log_source_param ps) d)"
  have "data = fst ?a \<or> data = fst ?s"
    using assms by (auto simp: query_logs_def Let_def split: if_splits)
  moreover have "shown_safely x j" if "j \<in> set (fst ?a)" for j
    using log_page_members [OF that] agent_log_safe by auto
  moreover have "shown_safely x j" if "j \<in> set (fst ?s)" for j
    using log_page_members [OF that] system_log_safe by auto
  ultimately show ?thesis using log_page_length sanitize_text_length by metis
qed

lemma query_logs_shows_safely_witness:
  "\<exists>data n. query_logs demo_crates (\<lambda>t. JNull) al_target sl_source [(''level'', ''ALL'')]
      (empty_db\<lparr>db_system_logs := [\<lparr>sl_level = ''info'', sl_source = ''pp_db'', sl_message = ''ready'', sl_metadata = None, sl_created_at = 0\<rparr>]\<rparr>)
      = Inr (data, n) \<and> n = 1 \<and> length data \<le> 200"
proof -
  let ?d = "empty_db\<lparr>db_system_logs := [\<lparr>sl_level = ''info'', sl_source = ''pp_db'', sl_message = ''ready'', sl_metadata = None, sl_created_at = 0\<rparr>]\<rparr>"
  let ?ps = "[(''level'', ''ALL'')]"
  have level: "log_level_param ?ps = None" "log_source_param ?ps = None" "parse_pagination ?ps = None" "log_window ?ps = (0, 100)"
    by code_simp+
  obtain data n where q: "query_logs demo_crates (\<lambda>t. JNull) al_target sl_source ?ps ?d = Inr (data, n)" "n = 1"
    by (simp add: query_logs_def Let_def level log_page_def system_log_rows_def sort_desc_def opt_holds_def)
  then show ?thesis using query_logs_shows_safely [OF q(1)] by blast
qed

end
