(* ===== verification/Answers.thy ===== *)
theory Answers
  imports HubLogs AgentRun
begin

text \<open>
  How the hub's results become HTTP answers (pp-hub, response.rs), what the agent answers to a challenge of the
  certificate authority (pp-agent, acme.rs), the entries of the agent's log (pp-agent, logger.rs), the service
  functions that no route calls (pp-hub, service/node.rs and subscription.rs) and two helpers of pp-common
  (crypto.rs).
\<close>

section \<open>Answers of the hub\<close>

fun status_code :: "http_status \<Rightarrow> nat" where
  "status_code BAD_REQUEST = 400" | "status_code UNAUTHORIZED = 401" | "status_code FORBIDDEN = 403"
| "status_code NOT_FOUND = 404" | "status_code CONFLICT = 409" | "status_code TOO_MANY_REQUESTS = 429"
| "status_code INTERNAL_SERVER_ERROR = 500" | "status_code BAD_GATEWAY = 502"
| "status_code SERVICE_UNAVAILABLE = 503" | "status_code GATEWAY_TIMEOUT = 504"

fun canonical_reason :: "http_status \<Rightarrow> string" where
  "canonical_reason BAD_REQUEST = ''Bad Request''" | "canonical_reason UNAUTHORIZED = ''Unauthorized''"
| "canonical_reason FORBIDDEN = ''Forbidden''" | "canonical_reason NOT_FOUND = ''Not Found''"
| "canonical_reason CONFLICT = ''Conflict''" | "canonical_reason TOO_MANY_REQUESTS = ''Too Many Requests''"
| "canonical_reason INTERNAL_SERVER_ERROR = ''Internal Server Error''"
| "canonical_reason BAD_GATEWAY = ''Bad Gateway''" | "canonical_reason SERVICE_UNAVAILABLE = ''Service Unavailable''"
| "canonical_reason GATEWAY_TIMEOUT = ''Gateway Timeout''"

definition api_response :: "json \<Rightarrow> nat \<times> json" where
  "api_response d = (200, jobj [(''data'', d)])"

definition paginated_response :: "json list \<Rightarrow> nat \<Rightarrow> nat \<times> json" where
  "paginated_response rows count_all =
     (200, jobj [(''data'', JArr rows), (''meta'', jobj [(''total'', jint (int count_all))])])"

definition error_response :: "api_error \<Rightarrow> nat \<times> json" where
  "error_response e =
     (status_code (ae_status e),
      jobj [(''error'', jobj [(''code'', JStr (ae_code e)), (''message'', JStr (ae_message e))])])"

definition api_result :: "api_error + json \<Rightarrow> nat \<times> json" where
  "api_result r = (case r of Inl e \<Rightarrow> error_response e | Inr d \<Rightarrow> api_response d)"

text \<open>The errors of sea-orm that the conversion tells apart.\<close>

datatype db_error = RecordNotInserted | RecordNotUpdated | OtherDbErr string

definition from_db_err :: "db_error \<Rightarrow> api_error" where
  "from_db_err e =
     (case e of
        OtherDbErr m \<Rightarrow> internal ''database operation failed''
      | _ \<Rightarrow> bad_request ''db_conflict'' ''conflicting database operation'')"

definition from_json_err :: "string \<Rightarrow> api_error" where
  "from_json_err m = bad_request ''invalid_json'' ''invalid JSON''"

definition from_anyhow :: "string \<Rightarrow> api_error" where
  "from_anyhow m = internal ''internal server error''"

definition from_status :: "http_status \<Rightarrow> api_error" where
  "from_status s = \<lparr>ae_status = s, ae_code = ''http_error'', ae_message = canonical_reason s\<rparr>"

text \<open>What went wrong inside is not told: the answer depends on the kind of the error only.\<close>

lemma answers_hide_causes:
  "error_response (from_anyhow m) = error_response (from_anyhow m')"
  "error_response (from_db_err (OtherDbErr m)) = error_response (from_db_err (OtherDbErr m'))"
  by (simp_all add: from_anyhow_def from_db_err_def)

lemma error_answers_fail: "400 \<le> fst (error_response e) \<and> fst (error_response e) < 600"
  by (cases "ae_status e") (simp_all add: error_response_def)

lemma api_result_ok_iff: "fst (api_result r) = 200 \<longleftrightarrow> is_ok r"
proof (cases r)
  case (Inl e)
  then show ?thesis using error_answers_fail [of e] by (simp add: api_result_def)
qed (simp add: api_result_def api_response_def)

section \<open>The answer to a challenge\<close>

text \<open>\<open>str::split_whitespace\<close>: \<open>skip\<close> bytes of a separator are still to be passed over.\<close>

fun split_white :: "nat \<Rightarrow> string \<Rightarrow> string \<Rightarrow> string list" where
  "split_white skip acc [] = (if acc = [] then [] else [rev acc])"
| "split_white (Suc k) acc (c # s) = split_white k acc s"
| "split_white 0 acc (c # s) =
     (let n = white_len white_codes (c # s) in
      if n = 0 then split_white 0 (c # acc) s
      else (if acc = [] then [] else [rev acc]) @ split_white (n - 1) [] s)"

definition split_whitespace :: "string \<Rightarrow> string list" where
  "split_whitespace s = split_white 0 [] s"

definition challenge_insert :: "string \<Rightarrow> string \<Rightarrow> (string \<times> string) list \<Rightarrow> (string \<times> string) list" where
  "challenge_insert = AList.update"

definition challenge_prefix :: string where
  "challenge_prefix = ''/.well-known/acme-challenge/''"

definition crlf :: string where
  "crlf = [CHR 0x0D, CHR 0x0A]"

definition challenge_response :: "string \<Rightarrow> string" where
  "challenge_response body =
     ''HTTP/1.1 200 OK'' @ crlf @ ''Content-Type: text/plain'' @ crlf @ ''Content-Length: '' @ nat_str (length body)
     @ crlf @ ''Connection: close'' @ crlf @ crlf @ body"

text \<open>
  \<open>received\<close> is what the one read of the connection gives, in a buffer of 4096 bytes; nothing is answered to
  any other request.
\<close>

definition http01_answer :: "platform \<Rightarrow> (string \<times> string) list \<Rightarrow> string \<Rightarrow> string option" where
  "http01_answer pl store received =
     (let request = pf_lossy pl (take 4096 received) in
      Option.bind (case split_whitespace request of _ # p # _ \<Rightarrow> strip_prefix challenge_prefix p | _ \<Rightarrow> None)
        (\<lambda>token. map_option challenge_response (map_of store token)))"

text \<open>A visible ASCII character begins no separator.\<close>

definition visible :: "char \<Rightarrow> bool" where
  "visible c \<longleftrightarrow> 33 \<le> (of_char c :: nat) \<and> (of_char c :: nat) < 127"

lemma white_codes_invisible: "list_all (\<lambda>w. w \<noteq> [] \<and> \<not> visible (hd w)) white_codes"
  by (simp add: visible_def white_codes_def)

lemma visible_no_white:
  assumes "visible c"
  shows "white_len white_codes (c # s) = 0"
proof -
  have "\<not> starts_with w (c # s)" if "w \<in> set white_codes" for w
  proof -
    have w: "w \<noteq> [] \<and> \<not> visible (hd w)"
      using that white_codes_invisible unfolding list_all_iff by blast
    then obtain a v where "w = a # v" by (cases w) simp_all
    with w assms show ?thesis by auto
  qed
  then show ?thesis
    by (auto simp: white_len_def find_Some_iff find_None_iff split: option.split)
qed

lemma split_white_visible:
  "list_all visible w \<Longrightarrow> split_white 0 acc (w @ s) = split_white 0 (rev w @ acc) s"
  by (induction w arbitrary: acc) (simp_all add: visible_no_white)

lemma split_white_space:
  "acc \<noteq> [] \<Longrightarrow> split_white 0 acc (CHR '' '' # s) = rev acc # split_white 0 [] s"
  by (simp add: white_len_def white_codes_def)

lemma split_request_line:
  assumes "list_all visible verb" "verb \<noteq> []" "list_all visible p" "p \<noteq> []"
  shows "\<exists>ws. split_whitespace (verb @ '' '' @ p @ '' '' @ rest) = verb # p # ws"
  using assms
  by (simp add: split_whitespace_def split_white_visible split_white_space del: split_white.simps(3))

lemma challenge_is_answered:
  assumes "list_all visible verb" "verb \<noteq> []" "list_all visible token"
    and "map_of store token = Some body"
    and "pf_lossy pl (take 4096 received) = verb @ '' '' @ (challenge_prefix @ token) @ '' '' @ rest"
  shows "http01_answer pl store received = Some (challenge_response body)"
proof -
  have "list_all visible (challenge_prefix @ token)"
    using assms(3) by (simp add: challenge_prefix_def visible_def)
  then obtain ws where
    "split_whitespace (verb @ '' '' @ (challenge_prefix @ token) @ '' '' @ rest) = verb # (challenge_prefix @ token) # ws"
    using split_request_line [of verb "challenge_prefix @ token" rest] assms(1,2)
    by (auto simp: challenge_prefix_def)
  with assms(4) show ?thesis
    by (simp add: http01_answer_def assms(5) challenge_prefix_def strip_prefix_def)
qed

text \<open>Only what was stored for a challenge is ever sent.\<close>

lemma http01_only_tokens:
  "http01_answer pl store received = Some r \<Longrightarrow> \<exists>token body. map_of store token = Some body \<and> r = challenge_response body"
  by (auto simp: http01_answer_def Let_def bind_eq_Some_conv)

section \<open>Entries of the agent's log\<close>

definition agent_log_entry :: "crates \<Rightarrow> traced_event \<Rightarrow> log_entry" where
  "agent_log_entry x ev =
     (let v = record_event x (te_fields ev) in
      \<lparr>le_timestamp = unix_secs (te_time ev), le_level = level_text (te_level ev), le_target = te_target ev,
       le_message = (if lv_message v = [] then ''event at '' @ te_target ev else lv_message v),
       le_fields = lv_fields v\<rparr>)"

definition agent_on_event :: "crates \<Rightarrow> traced_event \<Rightarrow> log_entry list \<Rightarrow> log_entry list" where
  "agent_on_event x ev = forward_log (agent_log_entry x ev)"

lemma agent_log_bounded: "length buf \<le> MAX_BUFFERED_LOGS \<Longrightarrow> length (agent_on_event x ev buf) \<le> MAX_BUFFERED_LOGS"
  by (simp add: agent_on_event_def forward_log_def)

section \<open>Service functions without a caller\<close>

definition service_find_by_id :: "db \<Rightarrow> uuid \<Rightarrow> node option" where
  "service_find_by_id d i = tbl_find n_id i (db_nodes d)"

definition service_list_all :: "db \<Rightarrow> node list" where
  "service_list_all d = db_nodes d"

definition service_delete :: "uuid \<Rightarrow> db \<Rightarrow> bool \<times> db" where
  "service_delete i d =
     (i \<in> n_id ` set (db_nodes d), d\<lparr>db_nodes := tbl_delete (\<lambda>n. n_id n = i) (db_nodes d)\<rparr>)"

definition service_proxy_node :: "db \<Rightarrow> node_binding \<Rightarrow> proxy_node option" where
  "service_proxy_node d b =
     Option.bind (tbl_find pc_id (nb_protocol_config_id b) (db_protocol_configs d)) (\<lambda>cfg.
     Option.bind (tbl_find n_id (nb_node_id b) (db_nodes d)) (\<lambda>n.
     Option.bind (sub_parse_protocol_type (pc_protocol_type cfg)) (\<lambda>p.
       Some \<lparr>pn_name = n_name n @ ''-'' @ pc_name cfg, pn_protocol = p, pn_server = node_host n,
             pn_port = as_u16 (pc_listen_port cfg), pn_settings = pc_settings cfg,
             pn_tls = merge_tls_settings (pc_tls_settings cfg)
                        (Option.bind (nb_override_settings b) (\<lambda>ov. jget ov ''tls_settings''))\<rparr>)))"

definition service_build_proxy_nodes :: "db \<Rightarrow> client \<Rightarrow> proxy_node list" where
  "service_build_proxy_nodes d c =
     (if c_status c = ''limited'' \<or> c_status c = ''expired'' then []
      else List.map_filter (service_proxy_node d) (filter nb_is_active (db_node_bindings d)))"

text \<open>Unlike a subscription, this list does not look at the client beyond its status: not at its groups.\<close>

lemma service_nodes_ignore_groups:
  "c_status c = c_status c' \<Longrightarrow> service_build_proxy_nodes d c = service_build_proxy_nodes d c'"
  by (simp add: service_build_proxy_nodes_def)

section \<open>Helpers of pp-common\<close>

definition byte_hex :: "nat \<Rightarrow> string" where
  "byte_hex b = (if b < 16 then ''0'' else []) @ hex_str b"

text \<open>Four random bytes as eight hexadecimal digits, and the comparison in constant time.\<close>

definition generate_short_id :: "nat list \<Rightarrow> string" where
  "generate_short_id bytes = concat (map byte_hex bytes)"

definition secure_eq :: "string \<Rightarrow> string \<Rightarrow> bool" where
  "secure_eq a b \<longleftrightarrow> a = b"

lemma byte_hex_length: "b < 256 \<Longrightarrow> length (byte_hex b) = 2"
  by (cases "b < 16") (simp_all add: byte_hex_def hex_str_def base_str.simps)

lemma short_id_length:
  "\<forall>b \<in> set bytes. b < 256 \<Longrightarrow> length (generate_short_id bytes) = 2 * length bytes"
  by (induction bytes) (simp_all add: generate_short_id_def byte_hex_length)

end
