(* ===== verification/Spec2Isabelle.thy ===== *)
theory Spec2Isabelle
  imports InstallCheck SchemaCheck StartCheck Answers
begin

text \<open>
  A verification development for multi-proxy-panel, a panel that manages proxy nodes. A hub
  (crates/pp-hub) keeps clients, nodes, protocol configurations and their bindings in a database,
  generates each node's sing-box or mihomo configuration, and pushes it over a gRPC stream to the
  agent of the node (crates/pp-agent), which runs the cores (crates/pp-core) and reports traffic,
  online users, metrics and logs back. Clients fetch subscriptions (crates/pp-subscription), and a
  management program (crates/pp-cli) installs and upgrades the parts. Paths below are under crates/.

  \<^bold>\<open>Shared vocabulary\<close>

  \<^item> Prelude: results as \<open>error + value\<close>, 64-bit integers, the string functions of the standard
    library on UTF-8 bytes, decimal and hexadecimal printing and parsing; the rules for results
    (\<open>rbind\<close>, \<open>collect_results\<close>) every later proof rests on.
  \<^item> Json: serde\_json values, objects as sorted maps. The locale \<open>kv_store\<close> states what a lookup
    gives after an insertion; it is interpreted on the objects (\<open>om\<close>).
  \<^item> Protocol, Settings: pp-common, protocol.rs, error.rs and settings\_helper.rs.
  \<^item> Logging: pp-common, logging.rs: redaction and bounds of log text and metadata.
  \<^item> Floats: \<open>f32\<close> and \<open>f64\<close> with rounding to even, for the traffic counters.
  \<^item> Net: IP addresses as \<open>std::net\<close> reads and prints them.
  \<^item> Db: pp-db, entities: one record per row, one list per table. The locale \<open>keyed_table\<close> states
    what lookup, update and insert by a key promise; \<open>ctab\<close>, \<open>ntab\<close> and \<open>rtab\<close> are its instances
    on the clients, the nodes and the relay rules.

  \<^bold>\<open>From the database to a running core\<close>

  \<^item> InboundLoop, SingBox, MihomoConfig: pp-config, builder.rs, singbox.rs and mihomo.rs. The
    locale \<open>inbound_loop\<close> states the contract of both builders' loops over the inbounds (the first
    error that may not be skipped stops it, all else is kept in order); \<open>sb\<close> and \<open>mh\<close> are its
    instances.
  \<^item> RelayOutbound: pp-config, relay.rs; the outbounds of both cores carry the same settings.
  \<^item> RelayService: pp-hub, service/protocol/relay.rs. The shapes (\<open>sb_shape\<close>, \<open>mh_shape\<close>) are the
    abstract view of a configuration, and each relay rule refines an append to that view.
  \<^item> Hub: pp-hub, state.rs: the connected agents and their channels. The locale \<open>kv_delete\<close> extends
    \<open>kv_store\<close> by deletion; \<open>hm\<close> is its instance here, \<open>omd\<close> the one on objects in Subscriptions.
  \<^item> ConfigGen: pp-hub, service/protocol/config\_gen.rs and push.rs; pp-config, schema.rs.
  \<^item> NodeConfig, Push: whom a generated inbound lets in, that the routes of both cores resolve,
    what one row can block, what a push leaves behind.
  \<^item> Scheduler, Rounds: pp-hub, service/scheduler.rs and its properties: traffic resets, limits,
    expiry, pushes, orphaned cores. The locale \<open>client_pass\<close> states that a pass over the clients is
    a pointwise change of their table; \<open>rs\<close>, \<open>lm\<close> and \<open>hold\<close> are its instances.
  \<^item> AgentService, AgentStream, TrafficReport: pp-hub, grpc/agent\_service.rs: the hub's end of the
    stream as a step relation, the invariant of its reachable states, and what a report counts.
  \<^item> Machine, Installer: pp-core, manager, lifecycle.rs, installer.rs, supervisor.rs: the node with
    its files and processes, and the download of the cores' programs.
  \<^item> Agent, AgentRun, AgentReports: pp-agent: the snapshots of applied configurations, the hub's
    messages, certificates, the start, the log buffer, and what is read from the cores.
  \<^item> AgentProcs, AgentInv, AgentCheck, NodeCheck, UpgradeCheck: every running core is the process of
    its manager in every state an agent reaches; an accepted push is applied (the hub's and the
    agent's models together); installations end, upgrades, renewals, and traffic accounting.

  \<^bold>\<open>The HTTP API\<close>

  \<^item> RateLimit, HttpApi, ApiKeys, KeyCheck: rate\_limiter.rs, response.rs, routes/common.rs,
    middleware/api\_key.rs and routes/api\_key.rs. What an accepted request has shown, by induction
    over the handlers that can change keys and cache; the bound of the token bucket.
  \<^item> Routes: the routing table of \<open>build_app\<close> (main.rs) with its scope layers.
  \<^item> RelayRoutes, RelayCheck, BindingRoutes, ClientRoutes, TemplateRoutes, NodeRoutes,
    CatalogRoutes, AdminRoutes, ReportRoutes: the handlers under routes/, by file.
  \<^item> CatalogCheck, CatalogReach, CatalogRules, AccessCheck: the invariant of the catalogue under
    every sequence of requests. The locale \<open>exclusive\<close> states that activating one row of a group
    leaves exactly that one active; \<open>tpl\<close> and \<open>ver\<close> are its instances.
  \<^item> Links, ClashSub, SingBoxSub, Subscriptions, SubCheck, LinkCheck: pp-subscription and
    routes/subscription: share links and formats, whom a subscription lists, that the node admits the
    credential an entry carries, that a link reads back, that the formats agree.
  \<^item> HubLogs: pp-hub, logging.rs and routes/logs.rs: the log queue, its writer, the query.
  \<^item> SystemUpdate: routes/system\_update: the update of the hub over HTTP.
  \<^item> Answers: response.rs, the agent's answer to a certificate challenge (acme.rs), its log entries
    (logger.rs), and the service functions without a caller.

  \<^bold>\<open>The management program and the database's life\<close>

  \<^item> Releases: pp-common, release.rs.
  \<^item> Upkeep, Upgrade, InstallOps: pp-cli, ops: locks, files, downloads, upgrade, rollback,
    installation, removal, status.
  \<^item> UpkeepRules, UpkeepCheck, UpdateCheck, InstallCheck: triples with one postcondition for the
    result and one for an error; an upgrade takes place or leaves the binary as it was, touches only
    its files, and its end is reported to the hub.
  \<^item> DataUpgrade: pp-db, upgrade.rs: the versioned upgrades of the rows.
  \<^item> Schema, Migrations, MigrationRun, SchemaCheck: pp-db, migration: all 28 migrations up and down
    as statements on a schema and functions on rows; the result fits the entities.
  \<^item> HubStart, StartCheck: pp-hub, config.rs and main.rs; pp-db, connection.rs; pp-cli, main.rs:
    settings, first API key, TLS files, health, the routes of the whole application.

  \<^bold>\<open>Termination and bounds\<close>

  No definition uses fuel. Loops over data are structural recursions; the functions on strings and
  JSON whose recursion is not structural (\<open>strip_white\<close>, \<open>trim_start_matches\<close>, \<open>str_replace\<close>,
  \<open>like_match\<close>, \<open>clean_metadata\<close>) have a measure. The retries of a download are bounded by the
  code's own count (NodeCheck). The loops that never end (the agent's connection, the
  scheduler, the log writer) appear as step relations or as the list of their rounds, and what is
  proved holds after any number of steps. The bounds of the code are kept as they are: 512 queued
  hub records, 1000 agent records, 1000 rows a page, 4096 bytes of a challenge request.

  \<^bold>\<open>Modelling decisions\<close>

  \<^item> A UUID is its canonical text, a time a number of nanoseconds, the process environment a function.
    Strings are UTF-8 bytes. An \<open>i32\<close> cast to \<open>u16\<close> keeps the low 16 bits; 64-bit counters wrap as
    in a release build. \<open>tj\<close> prints a time, \<open>fj\<close> an \<open>f32\<close>, \<open>rid\<close> gives the ids of rows that have
    none in the model, \<open>fresh\<close> the ids of new rows in the order they are drawn.
  \<^item> Code of other crates is a parameter: the record \<open>crates\<close> (UUID parser, SHA-256, JSON printer,
    JSON schema, Argon2, log patterns), \<open>calendar\<close> (chrono), \<open>jwt_crate\<close>, \<open>sub_crates\<close> (url, base64,
    serde\_json, serde\_yaml), \<open>release_env\<close> (semver), the network prefixes of ipnet, HMAC, Unicode
    lower case, RFC 3339, the settings reader \<open>config\<close>, and what GitHub answers.
  \<^item> A query returns rows in the table's order. A database call fails only for the unique indexes of
    the bindings and of the user names; the migrations make no foreign key that SQLite checks, which
    SchemaCheck shows. \<open>LIKE\<close> ignores the case of ASCII letters. A \<open>HashSet\<close> that
    is only iterated is a list without duplicates.
  \<^item> The node: the record \<open>platform\<close> holds what the operating system, the programs, the network and
    the archive readers answer. Requests are numbered, so a repeated one may be answered otherwise.
    Paths have no links, and a file that exists can be read. \<open>sing-box reload\<close> has no effect on the
    process. The order with the certificate authority is the argument \<open>acme\<close>.
  \<^item> pp-cli: a command runs at one time, \<open>now\<close>; owners of files and terminal output are left out,
    parents of directories are implied, a tree is copied directories first, an error is a value of
    \<open>ops_error\<close>. What systemd answers is \<open>to_restart\<close> and \<open>to_checks\<close>; stopping a unit succeeds.
  \<^item> Migrations: what the databases and sea-orm-migration do with a statement follows their
    documentation. A row field whose column does not exist yet holds the column's default.

  \<^bold>\<open>Not modelled\<close>

  The accept loops of the servers, CORS headers, static files, signals and graceful shutdown; the
  tickers of the periodic reports; the metric recorders, which nothing calls; prctl and job objects;
  the readings of sysinfo; the ACME order and account; random numbers, key generation and hashing;
  argument parsing and printed text of pp-cli, with its commands logs and diagnose; the generated
  message types of pp-proto; the web panel, the deployment files and the tests. These are calls to
  the operating system or to libraries with no decision of the program's own.
\<close>

end
